(* ===== verification/Prelude.thy ===== *)
theory Prelude
  imports Main "HOL-Library.Char_ord" "HOL-Library.List_Lexorder" "HOL-Library.Product_Lexorder"
    "HOL-Library.Multiset" "HOL-Library.Word"
begin

text \<open>
  Shared vocabulary of the development: the collections of simplification facts the component
  theories extend, the Rust slice and map operations that several components use
  (\<open>slice::partition_point\<close>, \<open>Vec::insert\<close>, range slicing that can panic, hash maps as
  association lists with distinct keys), and generic lemmas about them.
\<close>

named_theorems float_cmp \<open>float comparisons unfolded to integer keys\<close>
named_theorems store_simps \<open>how the store operations act on one aircraft\<close>
named_theorems inv_intros \<open>operations that keep their component's invariant\<close>

type_synonym u8 = "8 word"
type_synonym u32 = "32 word"
type_synonym u64 = "64 word"

text \<open>Monotonic clock readings (\<open>Instant\<close>) and durations, both in nanoseconds.\<close>

type_synonym instant = nat
type_synonym duration = nat

section \<open>Slices\<close>

text \<open>
  \<open>slice::partition_point\<close>: the index of the first element that falsifies the predicate. The
  library documents the result for slices on which the predicate is partitioned (true elements
  first); the lemma \<open>partition_point_sorted\<close> below shows that every use on a sorted list is one.
\<close>

definition partition_point :: "('a \<Rightarrow> bool) \<Rightarrow> 'a list \<Rightarrow> nat" where
  "partition_point P xs = length (takeWhile P xs)"

definition partitioned :: "('a \<Rightarrow> bool) \<Rightarrow> 'a list \<Rightarrow> bool" where
  "partitioned P xs \<longleftrightarrow> sorted_wrt (\<lambda>a b. P b \<longrightarrow> P a) xs"

text \<open>\<open>Vec::insert\<close> at an index within bounds.\<close>

definition insert_at :: "nat \<Rightarrow> 'a \<Rightarrow> 'a list \<Rightarrow> 'a list" where
  "insert_at i x xs = take i xs @ x # drop i xs"

text \<open>Range slicing \<open>xs[first..last]\<close>: \<open>None\<close> is the panic of an inverted or overlong range.\<close>

definition slice_range :: "nat \<Rightarrow> nat \<Rightarrow> 'a list \<Rightarrow> 'a list option" where
  "slice_range lo hi xs =
     (if lo \<le> hi \<and> hi \<le> length xs then Some (take (hi - lo) (drop lo xs)) else None)"

text \<open>\<open>slice::get\<close>, \<open>slice::first\<close> and \<open>slice::last\<close>.\<close>

definition nth_opt :: "'a list \<Rightarrow> nat \<Rightarrow> 'a option" where
  "nth_opt xs i = (if i < length xs then Some (xs ! i) else None)"

definition first_opt :: "'a list \<Rightarrow> 'a option" where
  "first_opt xs = (case xs of [] \<Rightarrow> None | x # _ \<Rightarrow> Some x)"

definition last_opt :: "'a list \<Rightarrow> 'a option" where
  "last_opt xs = (if xs = [] then None else Some (last xs))"

text \<open>\<open>usize::checked_sub\<close>.\<close>

definition checked_sub :: "nat \<Rightarrow> nat \<Rightarrow> nat option" where
  "checked_sub a b = (if b \<le> a then Some (a - b) else None)"

text \<open>\<open>Iterator::find_map\<close> and \<open>Iterator::filter_map\<close>.\<close>

fun find_map :: "('a \<Rightarrow> 'b option) \<Rightarrow> 'a list \<Rightarrow> 'b option" where
  "find_map f [] = None"
| "find_map f (x # xs) = (case f x of None \<Rightarrow> find_map f xs | Some y \<Rightarrow> Some y)"

lemma takeWhile_eq_filter_partitioned: "partitioned P xs \<Longrightarrow> takeWhile P xs = filter P xs"
proof (induction xs)
  case (Cons x xs)
  show ?case
  proof (cases "P x")
    case False
    with Cons.prems have "filter P xs = []"
      by (auto simp: partitioned_def filter_empty_conv)
    with False show ?thesis by simp
  qed (use Cons in \<open>auto simp: partitioned_def\<close>)
qed simp

lemma dropWhile_eq_filter_partitioned: "partitioned P xs \<Longrightarrow> dropWhile P xs = filter (\<lambda>x. \<not> P x) xs"
proof (induction xs)
  case (Cons x xs)
  show ?case
  proof (cases "P x")
    case False
    with Cons.prems have "\<forall>y \<in> set xs. \<not> P y" by (auto simp: partitioned_def)
    then have "filter (\<lambda>x. \<not> P x) xs = xs" by simp
    with False show ?thesis by simp
  qed (use Cons in \<open>auto simp: partitioned_def\<close>)
qed simp

lemma take_partition_point: "take (partition_point P xs) xs = takeWhile P xs"
  by (simp add: partition_point_def takeWhile_eq_take[symmetric])

lemma drop_partition_point: "drop (partition_point P xs) xs = dropWhile P xs"
  by (simp add: partition_point_def dropWhile_eq_drop[symmetric])

lemma partition_point_le: "partition_point P xs \<le> length xs"
  by (simp add: partition_point_def length_takeWhile_le)

lemma partition_point_mono:
  assumes "\<And>x. x \<in> set xs \<Longrightarrow> P x \<Longrightarrow> Q x"
  shows "partition_point P xs \<le> partition_point Q xs"
  using assms
proof (induction xs)
  case (Cons x xs)
  then have "partition_point P xs \<le> partition_point Q xs" by simp
  with Cons.prems[of x] show ?case by (simp add: partition_point_def)
qed (simp add: partition_point_def)

lemma nth_opt_dropWhile: "nth_opt xs (partition_point P xs) = first_opt (dropWhile P xs)"
  by (induction xs) (auto simp: nth_opt_def first_opt_def partition_point_def)

lemma insert_at_partition_point:
  "insert_at (partition_point P xs) x xs = takeWhile P xs @ x # dropWhile P xs"
  by (simp add: insert_at_def take_partition_point drop_partition_point)

lemma slice_partition:
  assumes P: "partitioned P xs" and Q: "partitioned Q xs"
    and PQ: "\<And>x. x \<in> set xs \<Longrightarrow> P x \<Longrightarrow> Q x"
  shows "slice_range (partition_point P xs) (partition_point Q xs) xs
       = Some (filter (\<lambda>x. \<not> P x \<and> Q x) xs)"
proof -
  let ?ys = "filter Q xs"
  have ys: "take (partition_point Q xs) xs = ?ys"
    using Q by (simp add: take_partition_point takeWhile_eq_filter_partitioned)
  have Pys: "partitioned P ?ys"
    using P by (simp add: partitioned_def sorted_wrt_filter)
  have "filter P ?ys = filter P xs"
    using PQ by (auto simp: filter_filter intro!: filter_cong)
  then have "partition_point P xs = length (takeWhile P ?ys)"
    using P Pys by (simp add: partition_point_def takeWhile_eq_filter_partitioned)
  then have "drop (partition_point P xs) ?ys = filter (\<lambda>x. \<not> P x) ?ys"
    using Pys by (simp add: dropWhile_eq_drop[symmetric] dropWhile_eq_filter_partitioned)
  then have "take (partition_point Q xs - partition_point P xs) (drop (partition_point P xs) xs)
           = filter (\<lambda>x. \<not> P x \<and> Q x) xs"
    by (simp add: drop_take[symmetric] ys filter_filter conj_commute)
  then show ?thesis
    using partition_point_mono[of xs P Q, OF PQ]
    by (simp add: slice_range_def partition_point_le)
qed

lemma last_opt_simps [simp]: "last_opt [] = None" "last_opt (xs @ [x]) = Some x"
  by (simp_all add: last_opt_def)

lemma last_opt_Some: "last_opt xs = Some x \<Longrightarrow> x \<in> set xs"
  by (auto simp: last_opt_def split: if_splits)

lemma last_opt_None [simp]: "last_opt xs = None \<longleftrightarrow> xs = []"
  by (simp add: last_opt_def)

lemma last_opt_append: "last_opt (xs @ ys) = (case last_opt ys of None \<Rightarrow> last_opt xs | Some y \<Rightarrow> Some y)"
  by (auto simp: last_opt_def)

lemma last_opt_Cons: "last_opt (x # xs) = (case last_opt xs of None \<Rightarrow> Some x | Some y \<Rightarrow> Some y)"
  by (auto simp: last_opt_def)

lemma first_opt_simps [simp]: "first_opt [] = None" "first_opt (x # xs) = Some x"
  by (simp_all add: first_opt_def)

lemma first_opt_None [simp]: "first_opt xs = None \<longleftrightarrow> xs = []"
  by (cases xs) auto

lemma first_opt_Some: "first_opt xs = Some x \<Longrightarrow> x \<in> set xs"
  by (cases xs) auto

lemma first_opt_filter: "first_opt (filter P xs) = find P xs"
  by (induction xs) auto

lemma nth_opt_pred: "(case checked_sub n 1 of None \<Rightarrow> None | Some i \<Rightarrow> nth_opt xs i) = last_opt (take n xs)"
  if "n \<le> length xs"
  using that by (cases n) (auto simp: checked_sub_def nth_opt_def last_opt_def take_Suc_conv_app_nth)

lemma find_map_Some: "find_map f xs = Some y \<Longrightarrow> \<exists>x \<in> set xs. f x = Some y"
  by (induction xs) (auto split: option.splits)

lemma find_map_None: "find_map f xs = None \<longleftrightarrow> (\<forall>x \<in> set xs. f x = None)"
  by (induction xs) (auto split: option.splits)

lemma find_map_append: "find_map f (xs @ ys) = (case find_map f xs of None \<Rightarrow> find_map f ys | r \<Rightarrow> r)"
  by (induction xs) (auto split: option.splits)

lemma set_map_filter_iff: "y \<in> set (List.map_filter f xs) \<longleftrightarrow> (\<exists>x \<in> set xs. f x = Some y)"
  by (induction xs) (auto simp: map_filter_simps split: option.splits)

section \<open>Hash maps as association lists\<close>

text \<open>
  A \<open>HashMap\<close> or \<open>DashMap\<close> is an association list with distinct keys. Its iteration order is the
  list's order, which no theorem relies on unless it says so.
\<close>

fun al_put :: "'k \<Rightarrow> 'v \<Rightarrow> ('k \<times> 'v) list \<Rightarrow> ('k \<times> 'v) list" where
  "al_put k v [] = [(k, v)]"
| "al_put k v ((k', v') # m) = (if k' = k then (k, v) # m else (k', v') # al_put k v m)"

definition al_del :: "'k \<Rightarrow> ('k \<times> 'v) list \<Rightarrow> ('k \<times> 'v) list" where
  "al_del k m = filter (\<lambda>(k', _). k' \<noteq> k) m"

abbreviation al_keys :: "('k \<times> 'v) list \<Rightarrow> 'k list" where
  "al_keys m \<equiv> List.map fst m"

abbreviation al_ok :: "('k \<times> 'v) list \<Rightarrow> bool" where
  "al_ok m \<equiv> distinct (al_keys m)"

lemma map_of_al_put [simp]: "map_of (al_put k v m) = (map_of m)(k \<mapsto> v)"
  by (induction m) auto

lemma set_keys_al_del: "fst ` set (al_del k m) = fst ` set m - {k}"
  by (auto simp: al_del_def image_iff)

lemma map_filter_append: "List.map_filter f (xs @ ys) = List.map_filter f xs @ List.map_filter f ys"
  by (simp add: List.map_filter_def)

lemma set_keys_al_put [simp]: "fst ` set (al_put k v m) = insert k (fst ` set m)"
proof (induction m)
  case (Cons e m)
  obtain k' v' where "e = (k', v')" by (cases e)
  with Cons show ?case by (cases "k' = k") (simp_all add: insert_commute)
qed simp

lemma al_ok_put [simp, intro]: "al_ok m \<Longrightarrow> al_ok (al_put k v m)"
proof (induction m)
  case (Cons e m)
  obtain k' v' where e: "e = (k', v')" by (cases e)
  with Cons show ?case by (cases "k' = k") simp_all
qed simp

lemma map_of_al_del [simp]: "map_of (al_del k m) = (map_of m)(k := None)"
  by (induction m) (auto simp: al_del_def)

lemma al_ok_del [simp, intro]: "al_ok m \<Longrightarrow> al_ok (al_del k m)"
  by (induction m) (auto simp: al_del_def)

lemma al_ok_filter: "al_ok m \<Longrightarrow> al_ok (filter P m)"
  by (induction m) auto

lemma in_set_al_put:
  "al_ok m \<Longrightarrow> e \<in> set (al_put k v m) \<longleftrightarrow> e = (k, v) \<or> (e \<in> set m \<and> fst e \<noteq> k)"
proof (induction m)
  case (Cons d m)
  obtain k' v' where d: "d = (k', v')" by (cases d)
  show ?case
  proof (cases "k' = k")
    case True
    with Cons.prems d have "e \<in> set m \<Longrightarrow> fst e \<noteq> k" by (auto simp: image_iff)
    with True d show ?thesis by auto
  qed (use Cons d in auto)
qed auto

lemma map_of_filter_key: "map_of (filter (\<lambda>(k, _). P k) m) k = (if P k then map_of m k else None)"
  by (induction m) auto

end
