(* ===== verification/F64.thy ===== *)
theory F64
  imports Prelude
begin

text \<open>
  Rust's \<open>f64\<close> as the 64 bits of an IEEE 754 binary64 value. Comparisons, classification,
  \<open>total_cmp\<close>, \<open>min\<close>, \<open>max\<close> and \<open>clamp\<close> are defined on the bit pattern, so the two zeros, the
  infinities and every NaN are distinguished exactly where the code can distinguish them. The
  arithmetic is exact integer arithmetic in units of \<open>2 ^ -1074\<close> followed by rounding to nearest,
  ties to even. The lemmas give the integer keys that comparisons unfold to, the linear order of
  \<open>total_cmp\<close>, and the facts about rounding (exact on representable values, monotone) that the
  components' progress properties need.
\<close>

datatype f64 = F64 (to_bits: "64 word")

section \<open>Classification\<close>

definition inf_mag :: nat where
  "inf_mag = 0x7FF0000000000000"

definition bits_nat :: "f64 \<Rightarrow> nat" where
  "bits_nat x = unat (to_bits x)"

definition f_neg :: "f64 \<Rightarrow> bool" where
  "f_neg x \<longleftrightarrow> 2 ^ 63 \<le> bits_nat x"

definition f_mag :: "f64 \<Rightarrow> nat" where
  "f_mag x = bits_nat x mod 2 ^ 63"

definition f_make :: "bool \<Rightarrow> nat \<Rightarrow> f64" where
  "f_make neg m = F64 (word_of_nat ((if neg then 2 ^ 63 else 0) + m))"

definition is_nan :: "f64 \<Rightarrow> bool" where
  "is_nan x \<longleftrightarrow> inf_mag < f_mag x"

definition is_finite :: "f64 \<Rightarrow> bool" where
  "is_finite x \<longleftrightarrow> f_mag x < inf_mag"

definition is_infinite :: "f64 \<Rightarrow> bool" where
  "is_infinite x \<longleftrightarrow> f_mag x = inf_mag"

definition is_sign_positive :: "f64 \<Rightarrow> bool" where
  "is_sign_positive x \<longleftrightarrow> \<not> f_neg x"

definition f_zero :: f64 where "f_zero = F64 0"
definition f_one :: f64 where "f_one = F64 0x3FF0000000000000"
definition f_infinity :: f64 where "f_infinity = F64 0x7FF0000000000000"
definition f_neg_infinity :: f64 where "f_neg_infinity = F64 0xFFF0000000000000"
definition f_nan :: f64 where "f_nan = F64 0x7FF8000000000000"

section \<open>Comparison\<close>

text \<open>The key of the IEEE order (both zeros are 0) and the key of \<open>total_cmp\<close> (injective).\<close>

definition ord_key :: "f64 \<Rightarrow> int" where
  "ord_key x = (if f_neg x then - int (f_mag x) else int (f_mag x))"

definition tot_key :: "f64 \<Rightarrow> int" where
  "tot_key x = (if f_neg x then - int (f_mag x) - 1 else int (f_mag x))"

definition fle :: "f64 \<Rightarrow> f64 \<Rightarrow> bool" where
  [float_cmp]: "fle x y \<longleftrightarrow> \<not> is_nan x \<and> \<not> is_nan y \<and> ord_key x \<le> ord_key y"

definition flt :: "f64 \<Rightarrow> f64 \<Rightarrow> bool" where
  [float_cmp]: "flt x y \<longleftrightarrow> \<not> is_nan x \<and> \<not> is_nan y \<and> ord_key x < ord_key y"

definition feq :: "f64 \<Rightarrow> f64 \<Rightarrow> bool" where
  [float_cmp]: "feq x y \<longleftrightarrow> \<not> is_nan x \<and> \<not> is_nan y \<and> ord_key x = ord_key y"

text \<open>
  \<open>f64::min\<close> and \<open>f64::max\<close>: the other operand when one is NaN. Which zero is returned for two
  zeros of different sign is left open by the library; here the left operand.
\<close>

definition fmin :: "f64 \<Rightarrow> f64 \<Rightarrow> f64" where
  "fmin x y = (if is_nan x then y else if is_nan y then x else if flt y x then y else x)"

definition fmax :: "f64 \<Rightarrow> f64 \<Rightarrow> f64" where
  "fmax x y = (if is_nan x then y else if is_nan y then x else if flt x y then y else x)"

text \<open>\<open>f64::clamp\<close>: \<open>None\<close> is the panic of its assertion \<open>min <= max\<close>.\<close>

definition fclamp :: "f64 \<Rightarrow> f64 \<Rightarrow> f64 \<Rightarrow> f64 option" where
  "fclamp x lo hi =
     (if fle lo hi
      then let a = (if flt x lo then lo else x) in Some (if flt hi a then hi else a)
      else None)"

text \<open>\<open>RangeInclusive::contains\<close>.\<close>

definition f_within :: "f64 \<Rightarrow> f64 \<Rightarrow> f64 \<Rightarrow> bool" where
  [float_cmp]: "f_within lo hi x \<longleftrightarrow> fle lo x \<and> fle x hi"

lemma bits_nat_less: "bits_nat x < 2 ^ 64"
  unfolding bits_nat_def by (rule order_less_le_trans[OF unsigned_less]) simp

lemma f_mag_less: "f_mag x < 2 ^ 63"
  by (simp add: f_mag_def)

lemma bits_nat_split: "bits_nat x = (if f_neg x then 2 ^ 63 else 0) + f_mag x"
proof (cases "f_neg x")
  case True
  then have "bits_nat x mod 2 ^ 63 = bits_nat x - 2 ^ 63"
    using bits_nat_less[of x] by (simp add: f_neg_def le_mod_geq)
  with True show ?thesis by (simp add: f_mag_def f_neg_def)
qed (simp add: f_mag_def f_neg_def)

lemma f64_eqI: "f_neg x = f_neg y \<Longrightarrow> f_mag x = f_mag y \<Longrightarrow> x = y"
  using bits_nat_split[of x] bits_nat_split[of y]
  by (cases x, cases y) (simp add: bits_nat_def word_unat_eq_iff)

lemma f_make_sel [simp]:
  assumes "m < 2 ^ 63"
  shows "f_neg (f_make s m) = s" "f_mag (f_make s m) = m"
proof -
  have "bits_nat (f_make s m) = (if s then 2 ^ 63 else 0) + m"
    using assms by (auto simp: bits_nat_def f_make_def unat_of_nat simp del: of_nat_add)
  then show "f_neg (f_make s m) = s" "f_mag (f_make s m) = m"
    using assms by (auto simp: f_neg_def f_mag_def)
qed

lemma f_make_same [simp]: "f_make (f_neg x) (f_mag x) = x"
  using f_mag_less[of x] by (intro f64_eqI) simp_all

lemma tot_key_inject: "tot_key x = tot_key y \<longleftrightarrow> x = y"
  by (auto simp: tot_key_def intro!: f64_eqI split: if_splits)

lemma ord_key_of_tot_key: "tot_key x \<le> tot_key y \<Longrightarrow> ord_key x \<le> ord_key y"
  by (auto simp: tot_key_def ord_key_def split: if_splits)

lemma tot_key_of_ord_key: "ord_key x < ord_key y \<Longrightarrow> tot_key x < tot_key y"
  by (auto simp: tot_key_def ord_key_def split: if_splits)

lemma f_consts [simp]:
  "is_finite f_zero" "is_finite f_one" "\<not> is_nan f_infinity" "\<not> is_finite f_infinity"
  "\<not> is_nan f_neg_infinity" "\<not> is_finite f_neg_infinity" "is_nan f_nan" "\<not> is_finite f_nan"
  "ord_key f_zero = 0" "ord_key f_infinity = int inf_mag" "ord_key f_neg_infinity = - int inf_mag"
  by (simp_all add: is_finite_def is_nan_def f_mag_def f_neg_def ord_key_def bits_nat_def inf_mag_def
      f_zero_def f_one_def f_infinity_def f_neg_infinity_def f_nan_def)

lemma finite_not_nan [simp, dest]: "is_finite x \<Longrightarrow> \<not> is_nan x"
  by (simp add: is_finite_def is_nan_def)

lemma f_class: "is_finite x \<or> is_infinite x \<or> is_nan x"
  by (auto simp: is_finite_def is_nan_def is_infinite_def)

lemma ord_key_finite: "is_finite x \<Longrightarrow> - int inf_mag < ord_key x \<and> ord_key x < int inf_mag"
  by (auto simp: is_finite_def ord_key_def)

lemma ord_key_not_nan: "\<not> is_nan x \<Longrightarrow> - int inf_mag \<le> ord_key x \<and> ord_key x \<le> int inf_mag"
  by (auto simp: is_nan_def ord_key_def)

lemma fle_refl [simp]: "fle x x \<longleftrightarrow> \<not> is_nan x"
  by (simp add: float_cmp)

lemma fle_trans [trans]: "fle x y \<Longrightarrow> fle y z \<Longrightarrow> fle x z"
  by (simp add: float_cmp)

lemma fle_flt_trans [trans]: "fle x y \<Longrightarrow> flt y z \<Longrightarrow> flt x z"
  by (simp add: float_cmp)

lemma flt_fle_trans [trans]: "flt x y \<Longrightarrow> fle y z \<Longrightarrow> flt x z"
  by (simp add: float_cmp)

lemma flt_imp_fle: "flt x y \<Longrightarrow> fle x y"
  by (simp add: float_cmp)

lemma not_fle: "\<not> is_nan x \<Longrightarrow> \<not> is_nan y \<Longrightarrow> \<not> fle x y \<longleftrightarrow> flt y x"
  by (auto simp: float_cmp)

lemma not_flt: "\<not> is_nan x \<Longrightarrow> \<not> is_nan y \<Longrightarrow> \<not> flt x y \<longleftrightarrow> fle y x"
  by (auto simp: float_cmp)

lemma fle_infinity [simp]: "fle x f_infinity \<longleftrightarrow> \<not> is_nan x"
  using ord_key_not_nan[of x] by (auto simp: float_cmp)

lemma fle_neg_infinity [simp]: "fle f_neg_infinity x \<longleftrightarrow> \<not> is_nan x"
  using ord_key_not_nan[of x] by (auto simp: float_cmp)

lemma fmin_cases: "fmin x y = x \<or> fmin x y = y"
  by (simp add: fmin_def)

lemma fmax_cases: "fmax x y = x \<or> fmax x y = y"
  by (simp add: fmax_def)

lemma fmin_finite [intro]: "is_finite x \<Longrightarrow> is_finite y \<Longrightarrow> is_finite (fmin x y)"
  by (simp add: fmin_def)

lemma fmax_finite [intro]: "is_finite x \<Longrightarrow> is_finite y \<Longrightarrow> is_finite (fmax x y)"
  by (simp add: fmax_def)

lemma fmin_key: "\<not> is_nan x \<Longrightarrow> \<not> is_nan y \<Longrightarrow> ord_key (fmin x y) = min (ord_key x) (ord_key y)"
  by (auto simp: fmin_def float_cmp)

lemma fmax_key: "\<not> is_nan x \<Longrightarrow> \<not> is_nan y \<Longrightarrow> ord_key (fmax x y) = max (ord_key x) (ord_key y)"
  by (auto simp: fmax_def float_cmp)

lemma fclamp_within:
  "fclamp x lo hi = Some r \<Longrightarrow> \<not> is_nan x \<Longrightarrow> f_within lo hi r"
  by (auto simp: fclamp_def float_cmp Let_def split: if_splits)

lemma fclamp_defined: "fle lo hi \<Longrightarrow> \<exists>r. fclamp x lo hi = Some r"
  by (simp add: fclamp_def Let_def)

lemma fclamp_id: "f_within lo hi x \<Longrightarrow> fclamp x lo hi = Some x"
  by (auto simp: fclamp_def float_cmp Let_def)

lemma fclamp_cases: "fclamp x lo hi = Some r \<Longrightarrow> r = x \<or> r = lo \<or> r = hi"
  by (auto simp: fclamp_def Let_def split: if_splits)

lemma fclamp_key:
  "fle lo hi \<Longrightarrow> \<not> is_nan x \<Longrightarrow> fclamp x lo hi = Some r
   \<Longrightarrow> ord_key r = min (ord_key hi) (max (ord_key lo) (ord_key x))"
  by (auto simp: fclamp_def float_cmp Let_def split: if_splits)

section \<open>The linear order of \<open>total_cmp\<close>\<close>

instantiation f64 :: linorder
begin

definition less_eq_f64 :: "f64 \<Rightarrow> f64 \<Rightarrow> bool" where
  "less_eq_f64 x y \<longleftrightarrow> tot_key x \<le> tot_key y"

definition less_f64 :: "f64 \<Rightarrow> f64 \<Rightarrow> bool" where
  "less_f64 x y \<longleftrightarrow> tot_key x < tot_key y"

instance
  by standard (auto simp: less_eq_f64_def less_f64_def tot_key_inject)

end

lemma total_le_imp_fle: "x \<le> y \<Longrightarrow> \<not> is_nan x \<Longrightarrow> \<not> is_nan y \<Longrightarrow> fle x y"
  by (simp add: float_cmp less_eq_f64_def ord_key_of_tot_key)

lemma flt_imp_total_less: "flt x y \<Longrightarrow> x < y"
  by (simp add: float_cmp less_f64_def tot_key_of_ord_key)

lemma total_less_imp_fle: "x < y \<Longrightarrow> \<not> is_nan x \<Longrightarrow> \<not> is_nan y \<Longrightarrow> fle x y"
  by (simp add: total_le_imp_fle)

text \<open>The definitions that decide a classification or a comparison of concrete bit patterns.\<close>

lemmas f64_eval = is_finite_def is_infinite_def is_nan_def f_mag_def bits_nat_def inf_mag_def f_neg_def
  ord_key_def fle_def flt_def feq_def f_zero_def f_one_def f_nan_def f_infinity_def f_neg_infinity_def

end
