(* ===== verification/Proto.thy ===== *)
theory Proto
  imports F64
begin

text \<open>
  The wire schema \<open>core/proto/fly_ruler.proto\<close> as the Rust types that \<open>prost\<close> generates from it
  (\<open>core/src/pb.rs\<close>): a message is a \<open>record\<close>, a message field and an \<open>optional\<close> scalar is an
  \<open>option\<close>, a \<open>oneof\<close> is an \<open>option\<close> of a \<open>datatype\<close>, an enum field is the \<open>int\<close> on the wire. Field
  names carry the message's initials. Also here: the helpers \<open>uuid_to_hex\<close> and the constants
  every component shares.
\<close>

section \<open>State messages\<close>

record Vector3 =
  v_x :: f64
  v_y :: f64
  v_z :: f64

record Quaternion =
  q_w :: f64
  q_x :: f64
  q_y :: f64
  q_z :: f64

record DerivedState =
  d_lat :: f64
  d_lon :: f64
  d_altitude :: f64
  d_alpha :: f64
  d_beta :: f64
  d_tas :: f64
  d_eas :: f64
  d_gamma :: f64
  d_chi :: f64
  d_ias :: "f64 option"
  d_cas :: "f64 option"
  d_mach :: "f64 option"
  d_ground_speed :: "f64 option"
  d_vertical_speed :: "f64 option"
  d_dynamic_pressure :: "f64 option"
  d_normal_load_factor :: "f64 option"

record ControlSurfaceState =
  c_aileron_left_rad :: "f64 option"
  c_aileron_right_rad :: "f64 option"
  c_elevator_rad :: "f64 option"
  c_rudder_rad :: "f64 option"
  c_flaps_left_ratio :: "f64 option"
  c_flaps_right_ratio :: "f64 option"
  c_spoilers_ratio :: "f64 option"

record PropulsorState =
  p_propulsor_id :: string
  p_kind :: int
  p_throttle_ratio :: "f64 option"
  p_rpm :: "f64 option"
  p_blade_pitch_rad :: "f64 option"
  p_thrust_newton :: "f64 option"
  p_torque_newton_meter :: "f64 option"
  p_index :: "u32 option"

record AircraftState =
  a_position :: "Vector3 option"
  a_velocity :: "Vector3 option"
  a_attitude :: "Quaternion option"
  a_angular_velocity :: "Vector3 option"
  a_derived :: "DerivedState option"
  a_control_surfaces :: "ControlSurfaceState option"
  a_linear_acceleration_body :: "Vector3 option"
  a_propulsors :: "PropulsorState list"

definition empty_state :: AircraftState where
  "empty_state = \<lparr>a_position = None, a_velocity = None, a_attitude = None, a_angular_velocity = None,
     a_derived = None, a_control_surfaces = None, a_linear_acceleration_body = None, a_propulsors = []\<rparr>"

section \<open>Telemetry\<close>

datatype TelemetryValueType = TVT_Unspecified | TVT_F64 | TVT_I64 | TVT_Bool

text \<open>\<open>TelemetryValueType::try_from\<close> on the wire integer.\<close>

definition value_type_of :: "int \<Rightarrow> TelemetryValueType option" where
  "value_type_of i =
     (if i = 0 then Some TVT_Unspecified else if i = 1 then Some TVT_F64
      else if i = 2 then Some TVT_I64 else if i = 3 then Some TVT_Bool else None)"

record TelemetryField =
  tf_field_id :: string
  tf_label :: string
  tf_group :: string
  tf_unit :: string
  tf_description :: string
  tf_value_type :: int

record TelemetryStreamSchema =
  ts_stream_id :: string
  ts_name :: string
  ts_nominal_rate_hz :: "f64 option"
  ts_fields :: "TelemetryField list"

datatype TelemetryKind = F64Value f64 | I64Value int | BoolValue bool

record TelemetryValue =
  tv_kind :: "TelemetryKind option"

record TelemetryFrame =
  fr_stream_id :: string
  fr_sequence :: u64
  fr_values :: "TelemetryValue list"

section \<open>Requests\<close>

type_synonym uuid = "u8 list"

record AircraftSpawnInfo =
  sp_name :: string
  sp_toml_config :: string
  sp_initial_state :: "AircraftState option"
  sp_telemetry_schemas :: "TelemetryStreamSchema list"

record DespawnInfo =
  de_reason :: "string option"

datatype CommandKind =
    Spawn AircraftSpawnInfo
  | Despawn DespawnInfo
  | StateUpdate AircraftState
  | CustomEvent string
  | TelemetryFrameCmd TelemetryFrame

record AircraftCommandInfo =
  ci_kind :: "CommandKind option"

record AircraftEvent =
  ae_aircraft_id :: "uuid option"
  ae_info :: "AircraftCommandInfo option"

datatype ClientRole = RoleUnspecified | Producer | CursorSubscriber

definition role_of :: "int \<Rightarrow> ClientRole option" where
  "role_of i =
     (if i = 0 then Some RoleUnspecified else if i = 1 then Some Producer
      else if i = 2 then Some CursorSubscriber else None)"

definition role_code :: "ClientRole \<Rightarrow> int" where
  "role_code r = (case r of RoleUnspecified \<Rightarrow> 0 | Producer \<Rightarrow> 1 | CursorSubscriber \<Rightarrow> 2)"

record HandshakeMsg =
  hs_version :: string
  hs_client_uuid :: "uuid option"
  hs_role :: int

record HeartbeatMsg =
  hb_seq_num :: u64
  hb_client_uuid :: "uuid option"

record CursorEventAckMsg =
  ack_server_epoch :: "uuid option"
  ack_event_sequence :: u64

datatype RequestKind =
    Handshake HandshakeMsg
  | Heartbeat HeartbeatMsg
  | AircraftEventReq AircraftEvent
  | CursorSubscribe f64
  | CursorEventAck CursorEventAckMsg

record Request =
  rq_id :: "uuid option"
  rq_timestamp :: f64
  rq_command :: "RequestKind option option"

section \<open>Responses and pushes\<close>

datatype ErrorCode = EC_Unspecified | InvalidAircraftId | TomlParseError | UnknownField
  | ProtocolVersionMismatch | InvalidState | InvalidTelemetrySchema | InvalidTelemetryFrame

datatype ResponseData = Ack bool | AircraftSpawned uuid

record ResponseError =
  re_code :: ErrorCode
  re_message :: string

datatype ResponseResult = RespOk "ResponseData option" | RespErr ResponseError

record Response =
  rs_id :: "uuid option"
  rs_timestamp :: f64
  rs_result :: "ResponseResult option"

record CursorChunk =
  ch_server_epoch :: "uuid option"
  ch_kind :: int
  ch_sequence :: u64
  ch_chunk_index :: u32
  ch_chunk_count :: u32
  ch_total_size :: u32
  ch_checksum :: u32
  ch_payload :: "u8 list"

datatype Envelope = EnvRequest Request | EnvResponse Response | EnvServerPush "CursorChunk option"

text \<open>A message is its optional envelope.\<close>

type_synonym Message = "Envelope option"

section \<open>Shared helpers\<close>

text \<open>\<open>crate::PROTOCOL_VERSION\<close>.\<close>

definition PROTOCOL_VERSION :: string where
  "PROTOCOL_VERSION = ''0.4.0''"

definition GEAR_UP :: string where
  "GEAR_UP = ''flyruler.control.gear_up''"

definition GEAR_DOWN :: string where
  "GEAR_DOWN = ''flyruler.control.gear_down''"

definition hex_digit :: "nat \<Rightarrow> char" where
  "hex_digit n = ''0123456789abcdef'' ! n"

definition byte_hex :: "u8 \<Rightarrow> string" where
  "byte_hex b = [hex_digit (unat (drop_bit 4 b)), hex_digit (unat (take_bit 4 b))]"

definition uuid_to_hex :: "uuid \<Rightarrow> string" where
  "uuid_to_hex u = concat (map byte_hex u)"

lemma hex_digit_inject: "m < 16 \<Longrightarrow> n < 16 \<Longrightarrow> hex_digit m = hex_digit n \<Longrightarrow> m = n"
  by (auto simp: hex_digit_def numeral_eq_Suc less_Suc_eq)

lemma nibble_less: "unat (drop_bit 4 (b :: u8)) < 16" "unat (take_bit 4 (b :: u8)) < 16"
proof -
  have "unat b < 2 ^ 8" by (rule order_less_le_trans[OF unsigned_less]) simp
  then show "unat (drop_bit 4 b) < 16"
    by (simp add: unsigned_drop_bit_eq drop_bit_nat_def take_bit_nat_def less_mult_imp_div_less)
  show "unat (take_bit 4 b) < 16"
    by (simp add: unsigned_take_bit_eq take_bit_nat_def)
qed

lemma byte_hex_inject: "byte_hex a = byte_hex b \<Longrightarrow> a = b"
proof -
  assume "byte_hex a = byte_hex b"
  then have "unat (drop_bit 4 a) = unat (drop_bit 4 b)" "unat (take_bit 4 a) = unat (take_bit 4 b)"
    using nibble_less[of a] nibble_less[of b] by (auto simp: byte_hex_def intro: hex_digit_inject)
  then have "drop_bit 4 a = drop_bit 4 b" "take_bit 4 a = take_bit 4 b"
    by (simp_all only: word_unat_eq_iff)
  then have "push_bit 4 (drop_bit 4 a) + take_bit 4 a = push_bit 4 (drop_bit 4 b) + take_bit 4 b"
    by (simp only:)
  then show "a = b" by (simp only: bits_ident)
qed

lemma length_byte_hex [simp]: "length (byte_hex b) = 2"
  by (simp add: byte_hex_def)

lemma length_uuid_to_hex: "length (uuid_to_hex u) = 2 * length u"
  by (induction u) (auto simp: uuid_to_hex_def)

lemma uuid_to_hex_inject: "uuid_to_hex u = uuid_to_hex v \<Longrightarrow> u = v"
proof (induction u arbitrary: v)
  case Nil
  then show ?case by (cases v) (auto simp: uuid_to_hex_def byte_hex_def)
next
  case (Cons a u)
  then obtain b w where v: "v = b # w"
    by (cases v) (auto simp: uuid_to_hex_def byte_hex_def)
  with Cons.prems have "byte_hex a @ uuid_to_hex u = byte_hex b @ uuid_to_hex w"
    by (simp add: uuid_to_hex_def)
  then have "byte_hex a = byte_hex b" "uuid_to_hex u = uuid_to_hex w"
    by (simp_all add: append_eq_append_conv)
  with Cons.IH v show ?case by (simp add: byte_hex_inject)
qed

lemma uuid_to_hex_not_unknown: "uuid_to_hex u \<noteq> ''unknown''"
proof
  assume "uuid_to_hex u = ''unknown''"
  then have "2 * length u = 7" using length_uuid_to_hex[of u] by simp
  then show False by presburger
qed

end
