(* ===== verification/Timeline.thy ===== *)
theory Timeline
  imports F64
begin

text \<open>
  Timestamp-ordered sequences, the contract behind the three per-aircraft vectors of
  \<open>core/src/store.rs\<close> (states, events, telemetry). \<open>log_insert\<close> is the insertion the three
  \<open>append_*\<close> operations share; the locale \<open>timeline\<close> states what such an insertion promises to the
  queries, and the queries' lemmas are proved from the promises alone.
\<close>

definition timeline_ok :: "('a \<Rightarrow> f64) \<Rightarrow> 'a list \<Rightarrow> bool" where
  "timeline_ok stamp xs \<longleftrightarrow>
     (\<forall>x \<in> set xs. is_finite (stamp x)) \<and> sorted_wrt (\<lambda>a b. fle (stamp a) (stamp b)) xs"

definition log_insert :: "('a \<Rightarrow> f64) \<Rightarrow> 'a \<Rightarrow> 'a list \<Rightarrow> 'a list" where
  "log_insert stamp x xs =
     (if (case last_opt xs of None \<Rightarrow> True | Some l \<Rightarrow> fle (stamp l) (stamp x)) then xs @ [x]
      else insert_at (partition_point (\<lambda>y. fle (stamp y) (stamp x)) xs) x xs)"

text \<open>Binary-search boundaries of an inclusive time window; \<open>None\<close> is the panic of an inverted one.\<close>

definition window :: "('a \<Rightarrow> f64) \<Rightarrow> f64 \<Rightarrow> f64 \<Rightarrow> 'a list \<Rightarrow> 'a list option" where
  "window stamp start end xs =
     slice_range (partition_point (\<lambda>x. flt (stamp x) start) xs)
       (partition_point (\<lambda>x. fle (stamp x) end) xs) xs"

text \<open>The linear filter of the \<open>*_range\<close> queries.\<close>

definition window_filter :: "('a \<Rightarrow> f64) \<Rightarrow> f64 \<Rightarrow> f64 \<Rightarrow> 'a list \<Rightarrow> 'a list" where
  "window_filter stamp start end xs = filter (\<lambda>x. fle start (stamp x) \<and> fle (stamp x) end) xs"

text \<open>The last element at or before a time.\<close>

definition at_or_before :: "('a \<Rightarrow> f64) \<Rightarrow> f64 \<Rightarrow> 'a list \<Rightarrow> 'a option" where
  "at_or_before stamp t xs =
     (case checked_sub (partition_point (\<lambda>x. fle (stamp x) t) xs) 1 of
        None \<Rightarrow> None | Some i \<Rightarrow> nth_opt xs i)"

section \<open>Sorted sequences\<close>

lemma timeline_ok_Nil [simp]: "timeline_ok stamp []"
  by (simp add: timeline_ok_def)

lemma timeline_ok_Cons:
  "timeline_ok stamp (x # xs) \<longleftrightarrow>
     is_finite (stamp x) \<and> (\<forall>y \<in> set xs. fle (stamp x) (stamp y)) \<and> timeline_ok stamp xs"
  by (auto simp: timeline_ok_def)

lemma timeline_ok_append:
  "timeline_ok stamp (xs @ ys) \<longleftrightarrow> timeline_ok stamp xs \<and> timeline_ok stamp ys \<and>
     (\<forall>x \<in> set xs. \<forall>y \<in> set ys. fle (stamp x) (stamp y))"
  by (auto simp: timeline_ok_def sorted_wrt_append)

lemma timeline_ok_filter: "timeline_ok stamp xs \<Longrightarrow> timeline_ok stamp (filter P xs)"
  by (simp add: timeline_ok_def sorted_wrt_filter)

lemma timeline_okD: "timeline_ok stamp xs \<Longrightarrow> x \<in> set xs \<Longrightarrow> is_finite (stamp x)"
  by (simp add: timeline_ok_def)

lemma partitioned_fle: "timeline_ok stamp xs \<Longrightarrow> partitioned (\<lambda>x. fle (stamp x) t) xs"
  unfolding timeline_ok_def partitioned_def by (auto elim!: sorted_wrt_mono_rel[rotated] intro: fle_trans)

lemma partitioned_flt: "timeline_ok stamp xs \<Longrightarrow> partitioned (\<lambda>x. flt (stamp x) t) xs"
  unfolding timeline_ok_def partitioned_def by (auto elim!: sorted_wrt_mono_rel[rotated] intro: fle_flt_trans)

lemma timeline_last_max:
  "timeline_ok stamp xs \<Longrightarrow> last_opt xs = Some l \<Longrightarrow> x \<in> set xs \<Longrightarrow> fle (stamp x) (stamp l)"
  by (cases xs rule: rev_cases) (auto simp: timeline_ok_append timeline_ok_Cons)

lemma timeline_first_min:
  "timeline_ok stamp xs \<Longrightarrow> first_opt xs = Some f \<Longrightarrow> x \<in> set xs \<Longrightarrow> fle (stamp f) (stamp x)"
  by (cases xs) (auto simp: timeline_ok_Cons)

lemma takeWhile_fle_filter:
  "timeline_ok stamp xs \<Longrightarrow> takeWhile (\<lambda>x. fle (stamp x) t) xs = filter (\<lambda>x. fle (stamp x) t) xs"
  by (rule takeWhile_eq_filter_partitioned[OF partitioned_fle])

lemma dropWhile_fle_filter:
  "timeline_ok stamp xs \<Longrightarrow> dropWhile (\<lambda>x. fle (stamp x) t) xs = filter (\<lambda>x. \<not> fle (stamp x) t) xs"
  by (rule dropWhile_eq_filter_partitioned[OF partitioned_fle])

text \<open>Where the insertion puts the new element: after everything at or before it.\<close>

lemma log_insert_split:
  assumes ok: "timeline_ok stamp xs"
  shows "log_insert stamp x xs
       = filter (\<lambda>y. fle (stamp y) (stamp x)) xs @ x # filter (\<lambda>y. \<not> fle (stamp y) (stamp x)) xs"
proof (cases "case last_opt xs of None \<Rightarrow> True | Some l \<Rightarrow> fle (stamp l) (stamp x)")
  case True
  have "\<forall>y \<in> set xs. fle (stamp y) (stamp x)"
  proof (cases "last_opt xs")
    case (Some l)
    with True have "fle (stamp l) (stamp x)" by simp
    then show ?thesis using timeline_last_max[OF ok Some] by (blast intro: fle_trans)
  qed simp
  then show ?thesis using True by (simp add: log_insert_def)
qed (simp add: log_insert_def insert_at_partition_point takeWhile_fle_filter[OF ok]
    dropWhile_fle_filter[OF ok])

lemma log_insert_ok:
  assumes "timeline_ok stamp xs" "is_finite (stamp x)"
  shows "timeline_ok stamp (log_insert stamp x xs)"
  using assms timeline_ok_filter[OF assms(1)] timeline_okD[OF assms(1)]
  by (auto simp: log_insert_split timeline_ok_append timeline_ok_Cons not_fle
      intro: flt_imp_fle flt_imp_fle[OF fle_flt_trans])

text \<open>When the two binary-search boundaries of a window cross.\<close>

lemma window_None_iff:
  assumes ok: "timeline_ok stamp xs" and nan: "\<not> is_nan start" "\<not> is_nan end"
  shows "window stamp start end xs = None \<longleftrightarrow> (\<exists>x \<in> set xs. flt end (stamp x) \<and> flt (stamp x) start)"
proof -
  let ?A = "\<lambda>x. flt (stamp x) start" and ?B = "\<lambda>x. fle (stamp x) end"
  have pp: "partition_point ?A xs = length (filter ?A xs)" "partition_point ?B xs = length (filter ?B xs)"
    using partitioned_flt[OF ok] partitioned_fle[OF ok]
    by (simp_all add: partition_point_def takeWhile_eq_filter_partitioned)
  have late: "\<not> ?B x \<longleftrightarrow> flt end (stamp x)" if "x \<in> set xs" for x
    using timeline_okD[OF ok that] nan by (simp add: not_fle)
  have None: "window stamp start end xs = None \<longleftrightarrow> partition_point ?B xs < partition_point ?A xs"
    by (simp add: window_def slice_range_def partition_point_le not_le)
  show ?thesis
  proof (cases "flt end start")
    case True
    have "\<And>x. ?B x \<Longrightarrow> ?A x" using True by (blast intro: fle_flt_trans)
    then have "filter ?B xs = filter ?B (filter ?A xs)"
      by (auto intro!: filter_cong)
    moreover have "length (filter ?B ys) < length ys \<longleftrightarrow> (\<exists>y \<in> set ys. \<not> ?B y)" for ys
      by (metis filter_id_conv length_filter_less less_irrefl)
    ultimately have "length (filter ?B xs) < length (filter ?A xs) \<longleftrightarrow> (\<exists>y \<in> set (filter ?A xs). \<not> ?B y)"
      by metis
    then show ?thesis unfolding None pp using late by auto
  next
    case False
    then have "fle start end" using nan by (simp add: not_flt)
    then have "partition_point ?A xs \<le> partition_point ?B xs"
      by (intro partition_point_mono) (blast dest: flt_imp_fle intro: fle_trans)
    moreover have "\<not> (flt end t \<and> flt t start)" for t using \<open>fle start end\<close> by (auto simp: float_cmp)
    ultimately show ?thesis unfolding None by (simp add: not_less)
  qed
qed

section \<open>The interface\<close>

text \<open>
  An ordered log: \<open>add\<close> places an entry after the entries at or before its time and before the
  later ones, and moves nothing else.
\<close>

locale timeline =
  fixes stamp :: "'a \<Rightarrow> f64"
    and add :: "'a \<Rightarrow> 'a list \<Rightarrow> 'a list"
  assumes add_split: "timeline_ok stamp xs \<Longrightarrow> is_finite (stamp x) \<Longrightarrow>
      add x xs = filter (\<lambda>y. fle (stamp y) (stamp x)) xs @ x # filter (\<lambda>y. \<not> fle (stamp y) (stamp x)) xs"
    and add_ok: "timeline_ok stamp xs \<Longrightarrow> is_finite (stamp x) \<Longrightarrow> timeline_ok stamp (add x xs)"
begin

lemma mset_add:
  "timeline_ok stamp xs \<Longrightarrow> is_finite (stamp x) \<Longrightarrow> mset (add x xs) = add_mset x (mset xs)"
  by (simp add: add_split)

lemma set_add: "timeline_ok stamp xs \<Longrightarrow> is_finite (stamp x) \<Longrightarrow> set (add x xs) = insert x (set xs)"
  by (auto simp: add_split)

lemma length_add:
  "timeline_ok stamp xs \<Longrightarrow> is_finite (stamp x) \<Longrightarrow> length (add x xs) = Suc (length xs)"
  using mset_add[of xs x] by (metis size_add_mset size_mset)

lemma at_or_before_eq:
  "timeline_ok stamp xs \<Longrightarrow> at_or_before stamp t xs = last_opt (filter (\<lambda>x. fle (stamp x) t) xs)"
  using nth_opt_pred[OF partition_point_le, of xs "\<lambda>x. fle (stamp x) t"]
  by (simp add: at_or_before_def take_partition_point takeWhile_fle_filter)

text \<open>
  Reading at a time after an insertion: the new entry, unless the reading time is before it or a
  later entry is already at or before the reading time.
\<close>

lemma at_or_before_add:
  assumes ok: "timeline_ok stamp xs" and x: "is_finite (stamp x)"
  shows "at_or_before stamp t (add x xs) =
    (if fle (stamp x) t
     then (case at_or_before stamp t xs of
             None \<Rightarrow> Some x
           | Some y \<Rightarrow> if fle (stamp y) (stamp x) then Some x else Some y)
     else at_or_before stamp t xs)"
proof -
  define A where "A = filter (\<lambda>y. fle (stamp y) t) (filter (\<lambda>y. fle (stamp y) (stamp x)) xs)"
  define B where "B = filter (\<lambda>y. fle (stamp y) t) (filter (\<lambda>y. \<not> fle (stamp y) (stamp x)) xs)"
  have "xs = filter (\<lambda>y. fle (stamp y) (stamp x)) xs @ filter (\<lambda>y. \<not> fle (stamp y) (stamp x)) xs"
    using takeWhile_dropWhile_id[of "\<lambda>y. fle (stamp y) (stamp x)" xs]
    by (simp only: takeWhile_fle_filter[OF ok] dropWhile_fle_filter[OF ok])
  then have "filter (\<lambda>y. fle (stamp y) t) xs = A @ B"
    unfolding A_def B_def by (metis filter_append)
  then have old: "at_or_before stamp t xs = last_opt (A @ B)"
    by (simp only: at_or_before_eq[OF ok])
  have new: "at_or_before stamp t (add x xs) = last_opt (if fle (stamp x) t then A @ x # B else A @ B)"
    using at_or_before_eq[OF add_ok[OF ok x], of t] by (simp add: add_split[OF ok x] A_def B_def)
  have AB: "y \<in> set A \<Longrightarrow> fle (stamp y) (stamp x)" "y \<in> set B \<Longrightarrow> \<not> fle (stamp y) (stamp x)" for y
    by (simp_all add: A_def B_def)
  show ?thesis
    unfolding new old using AB
    by (auto simp: last_opt_append last_opt_Cons split: option.splits dest!: last_opt_Some)
qed

lemma at_or_before_Some:
  assumes "timeline_ok stamp xs" "at_or_before stamp t xs = Some x"
  shows "x \<in> set xs" "fle (stamp x) t" "y \<in> set xs \<Longrightarrow> fle (stamp y) t \<Longrightarrow> fle (stamp y) (stamp x)"
  using assms last_opt_Some[of "filter (\<lambda>x. fle (stamp x) t) xs" x]
    timeline_last_max[OF timeline_ok_filter[OF assms(1)], of "\<lambda>x. fle (stamp x) t" x y]
  by (auto simp: at_or_before_eq)

text \<open>The binary-search window is the linear filter, on every window that is not inverted.\<close>

lemma window_eq_filter:
  assumes ok: "timeline_ok stamp xs" and le: "fle start end"
  shows "window stamp start end xs = Some (window_filter stamp start end xs)"
proof -
  have "window stamp start end xs
      = Some (filter (\<lambda>x. \<not> flt (stamp x) start \<and> fle (stamp x) end) xs)"
    unfolding window_def using le
    by (intro slice_partition partitioned_fle[OF ok] partitioned_flt[OF ok])
      (blast dest: flt_imp_fle intro: fle_trans)
  also have "filter (\<lambda>x. \<not> flt (stamp x) start \<and> fle (stamp x) end) xs = window_filter stamp start end xs"
    using timeline_okD[OF ok] le
    by (auto simp: window_filter_def not_flt float_cmp intro!: filter_cong)
  finally show ?thesis .
qed

end

end
