(* ===== verification/F64_Arith.thy ===== *)
theory F64_Arith
  imports F64
begin

text \<open>
  IEEE 754 binary64 arithmetic: exact integers in units of \<open>2 ^ -1074\<close>, rounded to nearest with
  ties to even, plus the conversions the code uses (\<open>as f64\<close>, \<open>floor() as usize\<close>,
  \<open>Duration::as_secs_f64\<close>, \<open>Duration::from_secs_f64\<close>). NaN results are the canonical quiet NaN:
  Rust leaves the payload open and no operation of the model depends on it.
\<close>

section \<open>Magnitudes and rounding\<close>

text \<open>The value of a magnitude, in units of \<open>2 ^ -1074\<close>.\<close>

definition val_mag :: "nat \<Rightarrow> nat" where
  "val_mag m = (let e = m div 2 ^ 52; f = m mod 2 ^ 52 in
     if e = 0 then f else (2 ^ 52 + f) * 2 ^ (e - 1))"

fun bitlen :: "nat \<Rightarrow> nat" where
  "bitlen n = (if n = 0 then 0 else Suc (bitlen (n div 2)))"

declare bitlen.simps [simp del]

text \<open>The integer nearest to \<open>a / b\<close>, ties to even.\<close>

definition rne :: "nat \<Rightarrow> nat \<Rightarrow> nat" where
  "rne a b = (let q = a div b; r = a mod b in
     if 2 * r < b \<or> (2 * r = b \<and> even q) then q else Suc q)"

text \<open>The magnitude nearest to \<open>n / d\<close> units; overflow rounds to the infinity.\<close>

definition round_mag :: "nat \<Rightarrow> nat \<Rightarrow> nat" where
  "round_mag n d = (let k = bitlen (n div d) - 53 in
     min inf_mag (k * 2 ^ 52 + rne n (d * 2 ^ k)))"

definition unit_scale :: nat where
  "unit_scale = 2 ^ 1074"

definition f_units :: "f64 \<Rightarrow> int" where
  "f_units x = (if f_neg x then - int (val_mag (f_mag x)) else int (val_mag (f_mag x)))"

definition f_round :: "bool \<Rightarrow> nat \<Rightarrow> nat \<Rightarrow> f64" where
  "f_round neg n d = f_make neg (round_mag n d)"

section \<open>Operations\<close>

definition fneg :: "f64 \<Rightarrow> f64" where
  "fneg x = f_make (\<not> f_neg x) (f_mag x)"

definition fabs :: "f64 \<Rightarrow> f64" where
  "fabs x = f_make False (f_mag x)"

definition fadd :: "f64 \<Rightarrow> f64 \<Rightarrow> f64" where
  "fadd x y =
     (if is_nan x \<or> is_nan y then f_nan
      else if is_infinite x then (if is_infinite y \<and> f_neg x \<noteq> f_neg y then f_nan else x)
      else if is_infinite y then y
      else let s = f_units x + f_units y in
        if s = 0 then f_make (f_neg x \<and> f_neg y) 0
        else f_round (s < 0) (nat \<bar>s\<bar>) 1)"

definition fsub :: "f64 \<Rightarrow> f64 \<Rightarrow> f64" where
  "fsub x y = fadd x (fneg y)"

definition fmul :: "f64 \<Rightarrow> f64 \<Rightarrow> f64" where
  "fmul x y =
     (let s = (f_neg x \<noteq> f_neg y) in
      if is_nan x \<or> is_nan y then f_nan
      else if is_infinite x \<or> is_infinite y
        then (if f_mag x = 0 \<or> f_mag y = 0 then f_nan else f_make s inf_mag)
      else f_round s (val_mag (f_mag x) * val_mag (f_mag y)) unit_scale)"

definition fdiv :: "f64 \<Rightarrow> f64 \<Rightarrow> f64" where
  "fdiv x y =
     (let s = (f_neg x \<noteq> f_neg y) in
      if is_nan x \<or> is_nan y then f_nan
      else if is_infinite x then (if is_infinite y then f_nan else f_make s inf_mag)
      else if is_infinite y then f_make s 0
      else if f_mag y = 0 then (if f_mag x = 0 then f_nan else f_make s inf_mag)
      else f_round s (val_mag (f_mag x) * unit_scale) (val_mag (f_mag y)))"

text \<open>\<open>usize as f64\<close>, \<open>u64 as f64\<close>, \<open>i64 as f64\<close>.\<close>

definition f_of_nat :: "nat \<Rightarrow> f64" where
  "f_of_nat n = f_round False (n * unit_scale) 1"

definition f_of_int :: "int \<Rightarrow> f64" where
  "f_of_int i = f_round (i < 0) (nat \<bar>i\<bar> * unit_scale) 1"

text \<open>\<open>x.floor() as usize\<close>: the cast saturates at both ends and sends NaN to 0.\<close>

definition floor_as_usize :: "f64 \<Rightarrow> nat" where
  "floor_as_usize x =
     (if is_nan x \<or> f_neg x then 0
      else if is_infinite x then 2 ^ 64 - 1
      else min (2 ^ 64 - 1) (val_mag (f_mag x) div unit_scale))"

definition nanos_per_sec :: nat where
  "nanos_per_sec = 1000000000"

definition as_secs_f64 :: "duration \<Rightarrow> f64" where
  "as_secs_f64 d =
     fadd (f_of_nat (d div nanos_per_sec)) (fdiv (f_of_nat (d mod nanos_per_sec)) (f_of_nat nanos_per_sec))"

text \<open>
  \<open>Duration::from_secs_f64\<close>: rounds to the nearest nanosecond, ties to even; \<open>None\<close> is its panic on
  NaN, on negative values and on values of \<open>2 ^ 64\<close> seconds or more.
\<close>

definition from_secs_f64 :: "f64 \<Rightarrow> duration option" where
  "from_secs_f64 x =
     (if \<not> is_finite x \<or> flt x f_zero then None
      else let n = rne (val_mag (f_mag x) * nanos_per_sec) unit_scale in
        if n < 2 ^ 64 * nanos_per_sec then Some n else None)"

section \<open>Rounding to an integer\<close>

lemma rne_mono:
  assumes "0 < b" "0 < d" "a * d \<le> c * b"
  shows "rne a b \<le> rne c d"
proof -
  define p where "p = a div b"
  define q where "q = c div d"
  define r where "r = a mod b"
  define s where "s = c mod d"
  have a: "a = p * b + r" and c: "c = q * d + s" and r: "r < b" and s: "s < d"
    using assms(1,2) by (simp_all add: p_def q_def r_def s_def)
  have le: "p * (b * d) + r * d \<le> q * (b * d) + s * b"
    using assms(3) by (simp add: a c algebra_simps)
  have "p \<le> q"
  proof (rule ccontr)
    assume "\<not> p \<le> q"
    then have "(q + 1) * (b * d) \<le> p * (b * d)" by (intro mult_le_mono1) simp
    then have "b * d + q * (b * d) \<le> p * (b * d)" by simp
    moreover have "s * b < b * d" using s assms(1) by (simp only: mult.commute[of b d] mult_less_cancel2)
    ultimately show False using le by linarith
  qed
  show ?thesis
  proof (cases "p = q")
    case False
    with \<open>p \<le> q\<close> have "Suc p \<le> q" by simp
    then show ?thesis by (auto simp: rne_def Let_def p_def[symmetric] q_def[symmetric])
  next
    case True
    with le have rs: "r * d \<le> s * b" by simp
    have up: "2 * s < d \<Longrightarrow> 2 * r < b" "2 * s = d \<Longrightarrow> 2 * r \<le> b"
    proof -
      show "2 * r < b" if "2 * s < d"
      proof -
        have "(2 * r) * d \<le> (2 * s) * b" using rs by simp
        also have "\<dots> < d * b" using that assms(1) by simp
        finally show ?thesis by (simp add: mult.commute)
      qed
      show "2 * r \<le> b" if "2 * s = d"
      proof -
        have "(2 * r) * d \<le> (2 * s) * b" using rs by simp
        also have "\<dots> = b * d" using that by simp
        finally show ?thesis using assms(2) by simp
      qed
    qed
    then show ?thesis
      using True by (auto simp: rne_def Let_def p_def[symmetric] q_def[symmetric]
          r_def[symmetric] s_def[symmetric])
  qed
qed

lemma rne_exact [simp]: "0 < d \<Longrightarrow> rne (q * d) d = q"
  by (simp add: rne_def)

lemma rne_exact' [simp]: "0 < d \<Longrightarrow> rne (d * q) d = q"
  by (simp add: rne_def)

lemma rne_le: "0 < d \<Longrightarrow> n \<le> q * d \<Longrightarrow> rne n d \<le> q"
  using rne_mono[of d d n "q * d"] by simp

lemma rne_ge: "0 < d \<Longrightarrow> q * d \<le> n \<Longrightarrow> q \<le> rne n d"
  using rne_mono[of d d "q * d" n] by simp

section \<open>Bit lengths\<close>

lemma bitlen_0 [simp]: "bitlen 0 = 0"
  by (simp add: bitlen.simps)

lemma bitlen_less: "n < 2 ^ bitlen n"
proof (induction n rule: bitlen.induct)
  case (1 n)
  then show ?case by (cases "n = 0") (auto simp: bitlen.simps[of n])
qed

lemma bitlen_ge: "0 < n \<Longrightarrow> 2 ^ (bitlen n - 1) \<le> n"
proof (induction n rule: bitlen.induct)
  case (1 n)
  show ?case
  proof (cases "n div 2 = 0")
    case True
    with "1.prems" have "n = 1" by simp
    then show ?thesis by (simp add: bitlen.simps)
  next
    case False
    then have "bitlen (n div 2) = Suc (bitlen (n div 2) - 1)"
      by (simp add: bitlen.simps[of "n div 2"])
    then have "2 ^ bitlen (n div 2) = 2 * (2::nat) ^ (bitlen (n div 2) - 1)"
      by (metis power_Suc)
    also have "\<dots> \<le> 2 * (n div 2)" using "1.IH" "1.prems" False by simp
    finally show ?thesis using "1.prems" by (simp add: bitlen.simps[of n])
  qed
qed

lemma bitlen_mono: "m \<le> n \<Longrightarrow> bitlen m \<le> bitlen n"
proof (cases "m = 0")
  case False
  assume "m \<le> n"
  then have "(2::nat) ^ (bitlen m - 1) < 2 ^ bitlen n"
    using bitlen_ge[of m] bitlen_less[of n] False by linarith
  then show ?thesis by (simp add: power_strict_increasing_iff)
qed simp

lemma bitlen_le: "n < 2 ^ k \<Longrightarrow> bitlen n \<le> k"
proof (cases "n = 0")
  case False
  assume "n < 2 ^ k"
  then have "(2::nat) ^ (bitlen n - 1) < 2 ^ k"
    using bitlen_ge[of n] False by linarith
  then show ?thesis by (simp add: power_strict_increasing_iff)
qed simp

lemma bitlen_eqI: "2 ^ k \<le> n \<Longrightarrow> n < 2 ^ Suc k \<Longrightarrow> bitlen n = Suc k"
proof -
  assume n: "2 ^ k \<le> n" "n < 2 ^ Suc k"
  then have "(2::nat) ^ k < 2 ^ bitlen n" using bitlen_less[of n] by linarith
  then have "k < bitlen n" by (simp add: power_strict_increasing_iff)
  with bitlen_le[OF n(2)] show ?thesis by simp
qed

section \<open>Rounding to a magnitude\<close>

lemma round_mag_inf [simp]: "round_mag n d \<le> inf_mag"
  by (simp add: round_mag_def Let_def)

lemma round_mag_less [simp]: "round_mag n d < 0x8000000000000000"
  by (rule le_less_trans[OF round_mag_inf]) (simp add: inf_mag_def)

lemma scaled_upper:
  assumes "0 < d"
  shows "n \<le> 2 ^ 53 * (d * 2 ^ (bitlen (n div d) - 53))"
proof -
  let ?l = "bitlen (n div d)"
  have "n < Suc (n div d) * d"
    using assms by (metis div_mult_mod_eq add.commute mod_less_divisor mult_Suc nat_add_left_cancel_less)
  also have "\<dots> \<le> 2 ^ ?l * d"
    using bitlen_less[of "n div d"] by (intro mult_le_mono1) simp
  also have "\<dots> \<le> 2 ^ (53 + (?l - 53)) * d"
    by (intro mult_le_mono1 power_increasing) auto
  finally show ?thesis by (simp add: power_add ac_simps)
qed

lemma scaled_lower:
  assumes "0 < d" "0 < bitlen (n div d) - 53"
  shows "2 ^ 52 * (d * 2 ^ (bitlen (n div d) - 53)) \<le> n"
proof -
  let ?l = "bitlen (n div d)"
  have "0 < n div d" using assms(2) by (cases "n div d = 0") simp_all
  then have "2 ^ (?l - 1) \<le> n div d" by (rule bitlen_ge)
  moreover have "?l - 1 = 52 + (?l - 53)" using assms(2) by simp
  ultimately have "2 ^ (52 + (?l - 53)) * d \<le> n div d * d" by (metis mult_le_mono1)
  also have "\<dots> \<le> n" by (simp add: div_times_less_eq_dividend)
  finally show ?thesis by (simp add: power_add ac_simps)
qed

lemma div_mono_cross: "0 < b \<Longrightarrow> 0 < d \<Longrightarrow> a * d \<le> c * b \<Longrightarrow> a div b \<le> c div (d::nat)"
proof -
  assume pos: "0 < b" "0 < d" and le: "a * d \<le> c * b"
  have "(a div b * d) * b \<le> a * d"
    by (metis mult_le_mono1 div_times_less_eq_dividend mult.commute mult.left_commute)
  with le have "(a div b * d) * b \<le> c * b" by linarith
  with pos show ?thesis by (simp add: less_eq_div_iff_mult_less_eq)
qed

theorem round_mag_mono:
  assumes pos: "0 < d" "0 < d'" and le: "n * d' \<le> n' * d"
  shows "round_mag n d \<le> round_mag n' d'"
proof -
  let ?k = "bitlen (n div d) - 53" and ?k' = "bitlen (n' div d') - 53"
  have k: "?k \<le> ?k'"
    using bitlen_mono[OF div_mono_cross[OF pos le]] by simp
  have "?k * 2 ^ 52 + rne n (d * 2 ^ ?k) \<le> ?k' * 2 ^ 52 + rne n' (d' * 2 ^ ?k')"
  proof (cases "?k = ?k'")
    case True
    have "rne n (d * 2 ^ ?k') \<le> rne n' (d' * 2 ^ ?k')"
      using pos le by (intro rne_mono) (auto simp: mult.assoc[symmetric])
    with True show ?thesis by simp
  next
    case False
    with k have less: "?k + 1 \<le> ?k'" by simp
    have "rne n (d * 2 ^ ?k) \<le> 2 ^ 53"
      using pos scaled_upper[of d n] by (intro rne_le) auto
    moreover have "2 ^ 52 \<le> rne n' (d' * 2 ^ ?k')"
      using pos scaled_lower[of d' n'] less by (intro rne_ge) auto
    moreover have "(?k + 1) * 2 ^ 52 \<le> ?k' * (2::nat) ^ 52"
      using less by (intro mult_le_mono1)
    ultimately show ?thesis by simp
  qed
  then show ?thesis by (simp add: round_mag_def Let_def min_le_iff_disj)
qed

text \<open>Rounding a representable value gives it back.\<close>

theorem round_mag_exact:
  assumes "0 < d" "m \<le> inf_mag"
  shows "round_mag (val_mag m * d) d = m"
proof -
  define e where "e = m div 2 ^ 52"
  define f where "f = m mod 2 ^ 52"
  have m: "m = e * 2 ^ 52 + f" and f: "f < 2 ^ 52"
    by (simp_all add: e_def f_def)
  have v: "val_mag m = (if e = 0 then f else (2 ^ 52 + f) * 2 ^ (e - 1))"
    by (simp add: val_mag_def e_def f_def Let_def)
  show ?thesis
  proof (cases "e = 0")
    case True
    have "bitlen f \<le> 52" using f by (intro bitlen_le)
    with True v m assms show ?thesis by (simp add: round_mag_def Let_def)
  next
    case False
    let ?h = "2 ^ 52 + f"
    have "2 ^ (52 + (e - 1)) \<le> ?h * 2 ^ (e - 1)" by (simp add: power_add)
    moreover have "?h * 2 ^ (e - 1) < 2 ^ 53 * 2 ^ (e - 1)" using f by simp
    ultimately have "bitlen (?h * 2 ^ (e - 1)) = Suc (52 + (e - 1))"
      by (intro bitlen_eqI) (simp_all add: power_add)
    then have "bitlen (val_mag m * d div d) - 53 = e - 1"
      using assms v False by simp
    moreover have "rne (val_mag m * d) (d * 2 ^ (e - 1)) = ?h"
    proof -
      have "val_mag m * d = ?h * (d * 2 ^ (e - 1))" using v False by simp
      then show ?thesis using assms by (simp only: rne_exact) simp
    qed
    moreover have "(e - 1) * 2 ^ 52 + ?h = m"
      using False m by (cases e) simp_all
    ultimately show ?thesis using assms by (simp add: round_mag_def Let_def)
  qed
qed

lemma round_mag_exact1 [simp]: "m \<le> inf_mag \<Longrightarrow> round_mag (val_mag m) (Suc 0) = m"
  using round_mag_exact[of 1 m] by simp

lemma val_mag_mono: "m \<le> m' \<Longrightarrow> m' \<le> inf_mag \<Longrightarrow> val_mag m \<le> val_mag m'"
proof (rule ccontr)
  assume m: "m \<le> m'" "m' \<le> inf_mag" and "\<not> val_mag m \<le> val_mag m'"
  then have less: "val_mag m' < val_mag m" by simp
  then have "round_mag (val_mag m') 1 \<le> round_mag (val_mag m) 1"
    by (intro round_mag_mono) simp_all
  with m have "m = m'" by simp
  with less show False by simp
qed

lemma val_mag_0 [simp]: "val_mag 0 = 0"
  by (simp add: val_mag_def)

lemma val_mag_zero_iff: "m \<le> inf_mag \<Longrightarrow> val_mag m = 0 \<longleftrightarrow> m = 0"
  using round_mag_exact1[of m] round_mag_exact1[of 0] by fastforce

section \<open>Signs and bounds of results\<close>

lemma inf_mag_less [simp]: "inf_mag < 0x8000000000000000"
  by (simp add: inf_mag_def)

lemma f_round_key [simp]:
  "ord_key (f_round s n d) = (if s then - int (round_mag n d) else int (round_mag n d))"
  by (simp add: f_round_def ord_key_def)

lemma f_round_not_nan [simp]: "\<not> is_nan (f_round s n d)"
  by (simp add: f_round_def is_nan_def not_less)

lemma f_make_inf_not_nan [simp]: "\<not> is_nan (f_make s inf_mag)" "\<not> is_nan (f_make s 0)"
  by (simp_all add: is_nan_def)

lemma f_make_key [simp]:
  "m < 2 ^ 63 \<Longrightarrow> ord_key (f_make s m) = (if s then - int m else int m)"
  by (simp add: ord_key_def)

lemma fle_zero: "fle f_zero x \<longleftrightarrow> \<not> is_nan x \<and> 0 \<le> ord_key x"
  by (simp add: fle_def)

lemma f_zero_mag [simp]: "f_mag f_zero = 0" "\<not> f_neg f_zero"
  by (simp_all add: f_zero_def f_mag_def f_neg_def bits_nat_def)

lemma ord_key_nonneg_neg: "0 \<le> ord_key x \<Longrightarrow> f_neg x \<Longrightarrow> f_mag x = 0"
  by (simp add: ord_key_def)

lemma f_mag_le_inf: "\<not> is_nan x \<Longrightarrow> f_mag x \<le> inf_mag"
  by (simp add: is_nan_def)

lemma fadd_nonneg_ge:
  assumes x: "is_finite x" and y: "fle f_zero y"
  shows "fle x (fadd x y)"
proof -
  have ny: "\<not> is_nan y" and ky: "0 \<le> ord_key y"
    using y by (simp_all add: float_cmp)
  have mx: "f_mag x \<le> inf_mag" "\<not> is_infinite x"
    using x by (auto simp: is_finite_def is_infinite_def)
  show ?thesis
  proof (cases "is_infinite y")
    case True
    then show ?thesis
      using x ny mx ord_key_not_nan[of x] ky
      by (auto simp: fadd_def fle_def is_infinite_def ord_key_def inf_mag_def split: if_splits)
  next
    case False
    have uy: "0 \<le> f_units y"
      using ky by (auto simp: f_units_def ord_key_def split: if_splits)
    let ?s = "f_units x + f_units y"
    have res: "ord_key x \<le> ord_key (if ?s = 0 then f_make (f_neg x \<and> f_neg y) 0
        else f_round (?s < 0) (nat \<bar>?s\<bar>) 1)"
    proof (cases "?s = 0")
      case True
      then have "f_units x \<le> 0" using uy by simp
      then have "ord_key x \<le> 0"
        using mx val_mag_zero_iff[of "f_mag x"] by (auto simp: f_units_def ord_key_def split: if_splits)
      with True show ?thesis by simp
    next
      case ne: False
      show ?thesis
      proof (cases "?s < 0")
        case True
        then have neg: "f_neg x" using uy by (auto simp: f_units_def split: if_splits)
        then have "nat \<bar>?s\<bar> \<le> val_mag (f_mag x)" using True uy by (simp add: f_units_def)
        then have "round_mag (nat \<bar>?s\<bar>) 1 \<le> round_mag (val_mag (f_mag x)) 1"
          by (intro round_mag_mono) simp_all
        with mx have "- int (f_mag x) \<le> ord_key (f_round True (nat \<bar>?s\<bar>) 1)" by simp
        with True ne neg show ?thesis by (simp add: ord_key_def[of x])
      next
        case pos: False
        show ?thesis
        proof (cases "f_neg x")
          case True
          then have "ord_key x \<le> 0" by (simp add: ord_key_def)
          with pos ne show ?thesis by simp
        next
          case False
          then have "val_mag (f_mag x) \<le> nat \<bar>?s\<bar>" using pos uy by (simp add: f_units_def)
          then have "round_mag (val_mag (f_mag x)) 1 \<le> round_mag (nat \<bar>?s\<bar>) 1"
            by (intro round_mag_mono) simp_all
          with mx have "int (f_mag x) \<le> ord_key (f_round False (nat \<bar>?s\<bar>) 1)" by simp
          with pos ne False show ?thesis by (simp add: ord_key_def[of x])
        qed
      qed
    qed
    then show ?thesis
      using x ny mx False by (simp add: fadd_def fle_def Let_def)
  qed
qed

lemma fmul_nonneg:
  assumes "is_finite x" "is_finite y" "fle f_zero x" "fle f_zero y"
  shows "fle f_zero (fmul x y)"
proof -
  have "f_neg x \<Longrightarrow> f_mag x = 0" "f_neg y \<Longrightarrow> f_mag y = 0"
    using assms(3,4) by (auto simp: fle_zero intro: ord_key_nonneg_neg)
  moreover have "round_mag 0 unit_scale = 0"
    using round_mag_exact[of unit_scale 0] by (simp add: unit_scale_def)
  ultimately show ?thesis
    using assms(1,2) by (auto simp: fmul_def fle_zero Let_def is_finite_def is_infinite_def)
qed

lemma f_of_nat_nonneg [simp]: "fle f_zero (f_of_nat n)"
  by (simp add: f_of_nat_def fle_zero)

lemma fdiv_nonneg:
  assumes "\<not> f_neg x" "\<not> f_neg y" "\<not> is_nan (fdiv x y)"
  shows "fle f_zero (fdiv x y)"
  using assms by (auto simp: fdiv_def fle_zero Let_def)

lemma nonneg_neg: "fle f_zero x \<Longrightarrow> f_neg x \<Longrightarrow> f_mag x = 0"
  by (auto simp: fle_zero intro: ord_key_nonneg_neg)

lemma fadd_nonneg:
  assumes "fle f_zero x" "fle f_zero y"
  shows "fle f_zero (fadd x y)"
proof (cases "is_finite x")
  case True
  then show ?thesis using fadd_nonneg_ge[OF True assms(2)] assms(1) by (blast intro: fle_trans)
next
  case False
  have "\<not> is_nan x" "\<not> is_nan y" using assms by (simp_all add: fle_zero)
  moreover have "f_neg y \<Longrightarrow> \<not> is_infinite y" "\<not> f_neg x"
    using nonneg_neg[OF assms(2)] nonneg_neg[OF assms(1)] False
    by (auto simp: is_infinite_def is_finite_def inf_mag_def)
  moreover have "is_infinite x" using False calculation(1) f_class by blast
  ultimately show ?thesis using assms(1) by (auto simp: fadd_def)
qed

lemma fmul_pos_nonneg:
  assumes x: "fle f_zero x" and y: "is_finite y" "flt f_zero y"
  shows "fle f_zero (fmul x y)"
proof (cases "is_infinite x")
  case True
  have "\<not> f_neg x" using nonneg_neg[OF x] True by (auto simp: is_infinite_def inf_mag_def)
  moreover have "f_mag y \<noteq> 0" "\<not> f_neg y"
    using y(2) by (auto simp: float_cmp ord_key_def split: if_splits)
  moreover have "f_mag x \<noteq> 0" "\<not> is_nan x" "\<not> is_nan y"
    using True y(1) by (auto simp: is_infinite_def inf_mag_def is_nan_def is_finite_def)
  ultimately show ?thesis using True by (simp add: fmul_def Let_def fle_zero)
next
  case False
  have "is_finite x" using False x f_class[of x] by (auto simp: fle_zero)
  then show ?thesis using x y by (intro fmul_nonneg) (auto intro: flt_imp_fle)
qed

lemma round_mag_pos: "0 < n \<Longrightarrow> 0 < round_mag n 1"
  using round_mag_mono[of 1 1 "val_mag 1" n] round_mag_exact1[of 1]
  by (simp add: val_mag_def inf_mag_def)

lemma finite_not_inf: "is_finite x \<Longrightarrow> f_mag x \<noteq> inf_mag"
  by (simp add: is_finite_def)

text \<open>Durations convert to finite, non-negative seconds; the divisor \<open>10^9\<close> is finite and positive.\<close>

lemma round_small_finite:
  assumes "n < 2 ^ 64"
  shows "round_mag (n * unit_scale) 1 < inf_mag"
proof -
  have top: "inf_mag - 1 = 2046 * 2 ^ 52 + (2 ^ 52 - 1)" by (simp add: inf_mag_def)
  have "val_mag (inf_mag - 1) = (2 ^ 52 + (2 ^ 52 - 1)) * 2 ^ 2045"
    unfolding val_mag_def Let_def top by simp
  moreover have "n * unit_scale \<le> 2 ^ 64 * 2 ^ 1074" using assms by (simp add: unit_scale_def)
  moreover have "(2::nat) ^ 64 * 2 ^ 1074 \<le> 1 * 2 ^ 2045"
    unfolding power_add[symmetric] by (simp only: mult_1 power_increasing_iff[of "2::nat"])
  moreover have "1 * 2 ^ 2045 \<le> (2 ^ 52 + (2 ^ 52 - 1)) * (2::nat) ^ 2045"
    by (rule mult_right_mono) simp_all
  ultimately have "n * unit_scale \<le> val_mag (inf_mag - 1)" by linarith
  then have "round_mag (n * unit_scale) 1 \<le> round_mag (val_mag (inf_mag - 1)) 1"
    by (intro round_mag_mono) simp_all
  also have "\<dots> = inf_mag - 1" by (simp add: inf_mag_def)
  finally show ?thesis by (simp add: inf_mag_def)
qed

lemma f_of_nat_finite: "n < 2 ^ 64 \<Longrightarrow> is_finite (f_of_nat n)"
  using round_small_finite[of n] by (simp add: f_of_nat_def f_round_def is_finite_def inf_mag_def)

lemma f_of_nat_pos: "0 < n \<Longrightarrow> flt f_zero (f_of_nat n)"
  using round_mag_pos[of "n * unit_scale"] by (simp add: f_of_nat_def flt_def unit_scale_def)

lemma as_secs_nonneg: "fle f_zero (as_secs_f64 d)"
proof -
  have s: "is_finite (f_of_nat nanos_per_sec)" "flt f_zero (f_of_nat nanos_per_sec)"
    by (simp_all add: f_of_nat_finite f_of_nat_pos nanos_per_sec_def)
  then have "f_mag (f_of_nat nanos_per_sec) \<noteq> 0" "\<not> f_neg (f_of_nat nanos_per_sec)"
    by (auto simp: float_cmp ord_key_def split: if_splits)
  moreover have "is_finite (f_of_nat (d mod nanos_per_sec))"
    by (rule f_of_nat_finite) (simp add: nanos_per_sec_def order_less_trans[OF mod_less_divisor])
  moreover have "\<not> f_neg (f_of_nat n)" for n
    by (simp add: f_of_nat_def f_round_def)
  ultimately have "fle f_zero (fdiv (f_of_nat (d mod nanos_per_sec)) (f_of_nat nanos_per_sec))"
    using s(1) by (intro fdiv_nonneg) (auto simp: fdiv_def Let_def is_infinite_def dest: finite_not_inf)
  then show ?thesis unfolding as_secs_f64_def by (intro fadd_nonneg f_of_nat_nonneg)
qed

end
