(* ===== verification/Store.thy ===== *)
theory Store
  imports Proto Timeline F64_Arith
begin

text \<open>
  The time-series store of \<open>core/src/store.rs\<close>: the per-aircraft series, the mutators
  (\<open>append_state\<close>, \<open>append_event\<close>, \<open>append_telemetry\<close>, \<open>append_message\<close>, \<open>clear\<close>,
  \<open>replace_from\<close>, \<open>snapshot_clone\<close>), telemetry validation, and the per-aircraft queries. Then the
  store invariant, its preservation by every mutator, and what each query returns under it.
  Locks are not modelled here: every operation holds its lock for its whole body, so it is one step.
\<close>

section \<open>Data\<close>

record AircraftConfig =
  cfg_name :: string
  cfg_toml_config :: string
  cfg_telemetry_schemas :: "TelemetryStreamSchema list"

datatype Event = EvSpawn AircraftSpawnInfo | EvDespawn DespawnInfo | EvCustom string

record TimestampedState =
  st_time :: f64
  st_state :: AircraftState

record TimestampedEvent =
  ev_time :: f64
  ev_event :: Event

record TimestampedTelemetryFrame =
  tl_time :: f64
  tl_frame :: TelemetryFrame

record GlobalTimestampedEvent =
  ge_aircraft_id :: string
  ge_time :: f64
  ge_event :: Event

record AircraftTimeSeries =
  states :: "TimestampedState list"
  events :: "TimestampedEvent list"
  telemetry :: "TimestampedTelemetryFrame list"
  config :: "AircraftConfig option"

record AircraftSummary =
  sum_id :: string
  sum_config :: "AircraftConfig option"
  sum_time_range :: "(f64 \<times> f64) option"
  sum_state_count :: nat
  sum_event_count :: nat
  sum_telemetry_count :: nat

record 'a StorePage =
  pg_items :: "'a list"
  pg_total :: nat
  pg_offset :: nat
  pg_limit :: nat

record TimeSeriesStore =
  data :: "(string \<times> AircraftTimeSeries) list"
  live_state_receipts :: "(string \<times> instant) list"

text \<open>The reasons behind \<open>StoreError::InvalidData\<close>, one per message of the source.\<close>

datatype InvalidReason =
    TelemetryTimestampNotFinite
  | AircraftNotFound string
  | StreamIdNotUnique string
  | InvalidNominalRate string
  | FieldIdNotUnique string string
  | InvalidValueType string
  | UnknownStream string
  | WrongValueCount string nat nat
  | MismatchedValueType string
  | InvalidUtf8Event
  | UnknownEventType string
  | ColumnTypeMismatch string
  | SessionExists

datatype StoreError = IoError | JsonError | ParquetError | ArrowError | DecodeError
  | InvalidData InvalidReason

definition empty_series :: AircraftTimeSeries where
  "empty_series = \<lparr>states = [], events = [], telemetry = [], config = None\<rparr>"

definition store_new :: TimeSeriesStore where
  "store_new = \<lparr>data = [], live_state_receipts = []\<rparr>"

text \<open>\<open>DashMap::get\<close> and \<open>entry(aid).or_default()\<close>.\<close>

definition lookup :: "TimeSeriesStore \<Rightarrow> string \<Rightarrow> AircraftTimeSeries option" where
  "lookup s aid = map_of (data s) aid"

definition series_of :: "TimeSeriesStore \<Rightarrow> string \<Rightarrow> AircraftTimeSeries" where
  "series_of s aid = (case lookup s aid of None \<Rightarrow> empty_series | Some x \<Rightarrow> x)"

definition put_series :: "string \<Rightarrow> AircraftTimeSeries \<Rightarrow> TimeSeriesStore \<Rightarrow> TimeSeriesStore" where
  "put_series aid x s = s\<lparr>data := al_put aid x (data s)\<rparr>"

section \<open>Telemetry validation\<close>

text \<open>
  \<open>trim().is_empty()\<close> on a UTF-8 string: every code point has the Unicode property
  \<open>White_Space\<close>. The encodings of the white space beyond ASCII are two and three bytes long.
\<close>

fun blank_codes :: "nat list \<Rightarrow> bool" where
  "blank_codes [] = True"
| "blank_codes (a # r) =
     (if 9 \<le> a \<and> a \<le> 13 \<or> a = 32 then blank_codes r
      else case r of
        [] \<Rightarrow> False
      | b # r2 \<Rightarrow>
          if a = 0xC2 \<and> (b = 0x85 \<or> b = 0xA0) then blank_codes r2
          else (case r2 of
              [] \<Rightarrow> False
            | c # r3 \<Rightarrow>
                ((a = 0xE1 \<and> b = 0x9A \<and> c = 0x80)
                 \<or> (a = 0xE2 \<and> b = 0x80 \<and> (0x80 \<le> c \<and> c \<le> 0x8A \<or> c = 0xA8 \<or> c = 0xA9 \<or> c = 0xAF))
                 \<or> (a = 0xE2 \<and> b = 0x81 \<and> c = 0x9F)
                 \<or> (a = 0xE3 \<and> b = 0x80 \<and> c = 0x80)) \<and> blank_codes r3))"

definition trim_is_empty :: "string \<Rightarrow> bool" where
  "trim_is_empty s = blank_codes (map of_char s)"

fun validate_fields :: "string \<Rightarrow> string list \<Rightarrow> TelemetryField list \<Rightarrow> StoreError + unit" where
  "validate_fields stream seen [] = Inr ()"
| "validate_fields stream seen (f # fs) =
     (if trim_is_empty (tf_field_id f) \<or> tf_field_id f \<in> set seen
      then Inl (InvalidData (FieldIdNotUnique stream (tf_field_id f)))
      else if (case value_type_of (tf_value_type f) of None \<Rightarrow> True | Some k \<Rightarrow> k = TVT_Unspecified)
      then Inl (InvalidData (InvalidValueType (tf_field_id f)))
      else validate_fields stream (tf_field_id f # seen) fs)"

fun validate_schemas_from :: "string list \<Rightarrow> TelemetryStreamSchema list \<Rightarrow> StoreError + unit" where
  "validate_schemas_from seen [] = Inr ()"
| "validate_schemas_from seen (c # cs) =
     (if trim_is_empty (ts_stream_id c) \<or> ts_stream_id c \<in> set seen
      then Inl (InvalidData (StreamIdNotUnique (ts_stream_id c)))
      else if (case ts_nominal_rate_hz c of None \<Rightarrow> False
               | Some rate \<Rightarrow> \<not> is_finite rate \<or> fle rate f_zero)
      then Inl (InvalidData (InvalidNominalRate (ts_stream_id c)))
      else case validate_fields (ts_stream_id c) [] (ts_fields c) of
        Inl e \<Rightarrow> Inl e
      | Inr _ \<Rightarrow> validate_schemas_from (ts_stream_id c # seen) cs)"

definition validate_telemetry_schemas :: "TelemetryStreamSchema list \<Rightarrow> StoreError + unit" where
  "validate_telemetry_schemas cs = validate_schemas_from [] cs"

definition value_matches :: "TelemetryField \<Rightarrow> TelemetryValue \<Rightarrow> bool" where
  "value_matches f v =
     (case (value_type_of (tf_value_type f), tv_kind v) of
        (Some TVT_F64, Some (F64Value _)) \<Rightarrow> True
      | (Some TVT_I64, Some (I64Value _)) \<Rightarrow> True
      | (Some TVT_Bool, Some (BoolValue _)) \<Rightarrow> True
      | _ \<Rightarrow> False)"

definition validate_telemetry_frame ::
  "TelemetryStreamSchema list \<Rightarrow> TelemetryFrame \<Rightarrow> StoreError + unit" where
  "validate_telemetry_frame cs fr =
     (case find (\<lambda>c. ts_stream_id c = fr_stream_id fr) cs of
        None \<Rightarrow> Inl (InvalidData (UnknownStream (fr_stream_id fr)))
      | Some c \<Rightarrow>
          if length (fr_values fr) \<noteq> length (ts_fields c)
          then Inl (InvalidData (WrongValueCount (fr_stream_id fr) (length (ts_fields c)) (length (fr_values fr))))
          else case find (\<lambda>(f, v). \<not> value_matches f v) (zip (ts_fields c) (fr_values fr)) of
            Some (f, _) \<Rightarrow> Inl (InvalidData (MismatchedValueType (tf_field_id f)))
          | None \<Rightarrow> Inr ())"

section \<open>Mutators\<close>

definition append_state :: "string \<Rightarrow> f64 \<Rightarrow> AircraftState \<Rightarrow> TimeSeriesStore \<Rightarrow> TimeSeriesStore" where
  "append_state aid t st s =
     (if \<not> is_finite t then s
      else let x = series_of s aid in
        put_series aid (x\<lparr>states := log_insert st_time \<lparr>st_time = t, st_state = st\<rparr> (states x)\<rparr>) s)"

definition config_of_spawn :: "AircraftSpawnInfo \<Rightarrow> AircraftConfig" where
  "config_of_spawn sp = \<lparr>cfg_name = sp_name sp, cfg_toml_config = sp_toml_config sp,
     cfg_telemetry_schemas = sp_telemetry_schemas sp\<rparr>"

definition append_event :: "string \<Rightarrow> f64 \<Rightarrow> Event \<Rightarrow> TimeSeriesStore \<Rightarrow> TimeSeriesStore" where
  "append_event aid t e s =
     (if \<not> is_finite t then s
      else let x = series_of s aid;
               x1 = (case e of EvSpawn sp \<Rightarrow> x\<lparr>config := Some (config_of_spawn sp)\<rparr> | _ \<Rightarrow> x) in
        put_series aid (x1\<lparr>events := log_insert ev_time \<lparr>ev_time = t, ev_event = e\<rparr> (events x1)\<rparr>) s)"

definition schemas_of :: "AircraftTimeSeries \<Rightarrow> TelemetryStreamSchema list" where
  "schemas_of x = (case config x of None \<Rightarrow> [] | Some c \<Rightarrow> cfg_telemetry_schemas c)"

definition append_telemetry ::
  "string \<Rightarrow> f64 \<Rightarrow> TelemetryFrame \<Rightarrow> TimeSeriesStore \<Rightarrow> StoreError + TimeSeriesStore" where
  "append_telemetry aid t fr s =
     (if \<not> is_finite t then Inl (InvalidData TelemetryTimestampNotFinite)
      else case lookup s aid of
        None \<Rightarrow> Inl (InvalidData (AircraftNotFound aid))
      | Some x \<Rightarrow>
          (case validate_telemetry_frame (schemas_of x) fr of
             Inl e \<Rightarrow> Inl e
           | Inr _ \<Rightarrow> Inr (put_series aid
               (x\<lparr>telemetry := log_insert tl_time \<lparr>tl_time = t, tl_frame = fr\<rparr> (telemetry x)\<rparr>) s)))"

text \<open>The receipt table: \<open>live_state_receipts.insert(id, Instant::now())\<close> and \<open>remove\<close>.\<close>

definition record_receipt :: "string \<Rightarrow> instant \<Rightarrow> TimeSeriesStore \<Rightarrow> TimeSeriesStore" where
  "record_receipt aid now s = s\<lparr>live_state_receipts := al_put aid now (live_state_receipts s)\<rparr>"

definition drop_receipt :: "string \<Rightarrow> TimeSeriesStore \<Rightarrow> TimeSeriesStore" where
  "drop_receipt aid s = s\<lparr>live_state_receipts := al_del aid (live_state_receipts s)\<rparr>"

definition event_aircraft_id :: "AircraftEvent \<Rightarrow> string" where
  "event_aircraft_id e = (case ae_aircraft_id e of None \<Rightarrow> ''unknown'' | Some u \<Rightarrow> uuid_to_hex u)"

definition apply_command ::
  "instant \<Rightarrow> string \<Rightarrow> f64 \<Rightarrow> CommandKind \<Rightarrow> TimeSeriesStore \<Rightarrow> TimeSeriesStore" where
  "apply_command now aid t k s =
     (case k of
        StateUpdate st \<Rightarrow> record_receipt aid now (append_state aid t st s)
      | Spawn sp \<Rightarrow>
          (case validate_telemetry_schemas (sp_telemetry_schemas sp) of
             Inl _ \<Rightarrow> s
           | Inr _ \<Rightarrow>
               let s1 = (case sp_initial_state sp of None \<Rightarrow> s
                         | Some st \<Rightarrow> record_receipt aid now (append_state aid t st s)) in
               append_event aid t (EvSpawn sp) s1)
      | Despawn d \<Rightarrow> drop_receipt aid (append_event aid t (EvDespawn d) s)
      | CustomEvent c \<Rightarrow> append_event aid t (EvCustom c) s
      | TelemetryFrameCmd fr \<Rightarrow>
          (case append_telemetry aid t fr s of Inl _ \<Rightarrow> s | Inr s' \<Rightarrow> s'))"

definition append_message :: "instant \<Rightarrow> Message \<Rightarrow> TimeSeriesStore \<Rightarrow> TimeSeriesStore" where
  "append_message now msg s =
     (case msg of
        Some (EnvRequest req) \<Rightarrow>
          if \<not> is_finite (rq_timestamp req) then s
          else (case Option.bind (rq_command req) (\<lambda>k. k) of
              Some (AircraftEventReq e) \<Rightarrow>
                (case Option.bind (ae_info e) ci_kind of
                   None \<Rightarrow> s
                 | Some k \<Rightarrow> apply_command now (event_aircraft_id e) (rq_timestamp req) k s)
            | _ \<Rightarrow> s)
      | _ \<Rightarrow> s)"

definition clear_store :: "TimeSeriesStore \<Rightarrow> TimeSeriesStore" where
  "clear_store s = \<lparr>data = [], live_state_receipts = []\<rparr>"

definition snapshot_clone :: "TimeSeriesStore \<Rightarrow> TimeSeriesStore" where
  "snapshot_clone s = \<lparr>data = data s, live_state_receipts = []\<rparr>"

text \<open>\<open>replace_from\<close> for a different store; on itself (\<open>ptr::eq\<close>) the call returns at once.\<close>

definition replace_from :: "TimeSeriesStore \<Rightarrow> TimeSeriesStore \<Rightarrow> TimeSeriesStore" where
  "replace_from other s = \<lparr>data = data other, live_state_receipts = []\<rparr>"

section \<open>Per-aircraft queries\<close>

text \<open>\<open>live_state_age\<close> reads the clock; \<open>Instant::elapsed\<close> saturates at zero.\<close>

definition live_state_age :: "instant \<Rightarrow> string \<Rightarrow> TimeSeriesStore \<Rightarrow> duration option" where
  "live_state_age now aid s = map_option (\<lambda>received_at. now - received_at) (map_of (live_state_receipts s) aid)"

definition live_state_is_stale :: "instant \<Rightarrow> string \<Rightarrow> duration \<Rightarrow> TimeSeriesStore \<Rightarrow> bool" where
  "live_state_is_stale now aid timeout s =
     (case live_state_age now aid s of None \<Rightarrow> True | Some age \<Rightarrow> timeout < age)"

definition get_latest :: "string \<Rightarrow> TimeSeriesStore \<Rightarrow> TimestampedState option" where
  "get_latest aid s = Option.bind (lookup s aid) (\<lambda>x. last_opt (states x))"

definition get_state_at_or_before :: "string \<Rightarrow> f64 \<Rightarrow> TimeSeriesStore \<Rightarrow> TimestampedState option" where
  "get_state_at_or_before aid t s =
     (if \<not> is_finite t then None
      else Option.bind (lookup s aid) (\<lambda>x. at_or_before st_time t (states x)))"

definition lifecycle_of :: "TimestampedEvent \<Rightarrow> bool option" where
  "lifecycle_of e = (case ev_event e of EvSpawn _ \<Rightarrow> Some True | EvDespawn _ \<Rightarrow> Some False | EvCustom _ \<Rightarrow> None)"

definition is_spawned_at :: "string \<Rightarrow> f64 \<Rightarrow> TimeSeriesStore \<Rightarrow> bool" where
  "is_spawned_at aid t s =
     (case lookup s aid of
        None \<Rightarrow> False
      | Some x \<Rightarrow>
          let end = (if is_infinite t \<and> is_sign_positive t then length (events x)
                     else if is_finite t then partition_point (\<lambda>e. fle (ev_time e) t) (events x)
                     else 0)
          in (case find_map lifecycle_of (rev (take end (events x))) of None \<Rightarrow> False | Some b \<Rightarrow> b))"

definition get_states_range :: "string \<Rightarrow> f64 \<Rightarrow> f64 \<Rightarrow> TimeSeriesStore \<Rightarrow> TimestampedState list option" where
  "get_states_range aid start end s =
     map_option (\<lambda>x. window_filter st_time start end (states x)) (lookup s aid)"

definition get_events_range :: "string \<Rightarrow> f64 \<Rightarrow> f64 \<Rightarrow> TimeSeriesStore \<Rightarrow> TimestampedEvent list option" where
  "get_events_range aid start end s =
     map_option (\<lambda>x. window_filter ev_time start end (events x)) (lookup s aid)"

definition get_telemetry_schemas :: "string \<Rightarrow> TimeSeriesStore \<Rightarrow> TelemetryStreamSchema list option" where
  "get_telemetry_schemas aid s = map_option schemas_of (lookup s aid)"

text \<open>
  The visitors and pages slice by binary search. The outer \<open>option\<close> is the panic of an inverted
  window, the inner one an unknown aircraft.
\<close>

definition visit_states_range ::
  "string \<Rightarrow> f64 \<Rightarrow> f64 \<Rightarrow> (TimestampedState list \<Rightarrow> 'r) \<Rightarrow> TimeSeriesStore \<Rightarrow> 'r option option" where
  "visit_states_range aid start end visitor s =
     (case lookup s aid of
        None \<Rightarrow> Some None
      | Some x \<Rightarrow> map_option (\<lambda>xs. Some (visitor xs)) (window st_time start end (states x)))"

definition visit_telemetry_range ::
  "string \<Rightarrow> f64 \<Rightarrow> f64 \<Rightarrow> (TimestampedTelemetryFrame list \<Rightarrow> 'r) \<Rightarrow> TimeSeriesStore \<Rightarrow> 'r option option" where
  "visit_telemetry_range aid start end visitor s =
     (case lookup s aid of
        None \<Rightarrow> Some None
      | Some x \<Rightarrow> map_option (\<lambda>xs. Some (visitor xs)) (window tl_time start end (telemetry x)))"

text \<open>\<open>start.saturating_add(limit).min(total)\<close> is \<open>min (start + limit) total\<close>: \<open>total\<close> is a \<open>usize\<close>.\<close>

definition page_slice :: "'a list \<Rightarrow> nat \<Rightarrow> nat \<Rightarrow> 'a StorePage" where
  "page_slice items offset limit =
     (let total = length items; start = min offset total; end = min (start + limit) total in
      \<lparr>pg_items = take (end - start) (drop start items), pg_total = total, pg_offset = offset, pg_limit = limit\<rparr>)"

definition get_states_page ::
  "string \<Rightarrow> f64 \<Rightarrow> f64 \<Rightarrow> nat \<Rightarrow> nat \<Rightarrow> TimeSeriesStore \<Rightarrow> TimestampedState StorePage option option" where
  "get_states_page aid start end offset limit s =
     (case lookup s aid of
        None \<Rightarrow> Some None
      | Some x \<Rightarrow> map_option (\<lambda>xs. Some (page_slice xs offset limit)) (window st_time start end (states x)))"

definition get_events_page ::
  "string \<Rightarrow> f64 \<Rightarrow> f64 \<Rightarrow> nat \<Rightarrow> nat \<Rightarrow> TimeSeriesStore \<Rightarrow> TimestampedEvent StorePage option option" where
  "get_events_page aid start end offset limit s =
     (case lookup s aid of
        None \<Rightarrow> Some None
      | Some x \<Rightarrow> map_option (\<lambda>xs. Some (page_slice xs offset limit)) (window ev_time start end (events x)))"

section \<open>Invariant\<close>

definition spawn_config :: "TimestampedEvent \<Rightarrow> AircraftConfig option" where
  "spawn_config e = (case ev_event e of EvSpawn sp \<Rightarrow> Some (config_of_spawn sp) | _ \<Rightarrow> None)"

definition config_ok :: "AircraftTimeSeries \<Rightarrow> bool" where
  "config_ok x \<longleftrightarrow>
     (case config x of
        None \<Rightarrow> \<forall>e \<in> set (events x). spawn_config e = None
      | Some c \<Rightarrow> \<exists>e \<in> set (events x). spawn_config e = Some c)"

definition series_ok :: "AircraftTimeSeries \<Rightarrow> bool" where
  "series_ok x \<longleftrightarrow> timeline_ok st_time (states x) \<and> timeline_ok ev_time (events x)
     \<and> timeline_ok tl_time (telemetry x) \<and> config_ok x"

definition store_inv :: "TimeSeriesStore \<Rightarrow> bool" where
  "store_inv s \<longleftrightarrow> al_ok (data s) \<and> al_ok (live_state_receipts s)
     \<and> (\<forall>aid x. lookup s aid = Some x \<longrightarrow> series_ok x)
     \<and> (\<forall>aid \<in> set (al_keys (live_state_receipts s)).
          \<exists>x. lookup s aid = Some x \<and> states x \<noteq> [])"

text \<open>The three logs of a series provide the \<open>timeline\<close> interface.\<close>

interpretation state_log: timeline st_time "log_insert st_time"
  by unfold_locales (rule log_insert_split log_insert_ok; assumption)+

interpretation event_log: timeline ev_time "log_insert ev_time"
  by unfold_locales (rule log_insert_split log_insert_ok; assumption)+

interpretation telemetry_log: timeline tl_time "log_insert tl_time"
  by unfold_locales (rule log_insert_split log_insert_ok; assumption)+

lemma lookup_put [simp]: "lookup (put_series aid x s) i = (if i = aid then Some x else lookup s i)"
  by (simp add: lookup_def put_series_def)

lemma lookup_receipts [simp]:
  "lookup (record_receipt aid now s) i = lookup s i" "lookup (drop_receipt aid s) i = lookup s i"
  by (simp_all add: lookup_def record_receipt_def drop_receipt_def)

lemma receipts_simps [simp]:
  "live_state_receipts (put_series aid x s) = live_state_receipts s"
  "data (record_receipt aid now s) = data s" "data (drop_receipt aid s) = data s"
  "live_state_receipts (record_receipt aid now s) = al_put aid now (live_state_receipts s)"
  "live_state_receipts (drop_receipt aid s) = al_del aid (live_state_receipts s)"
  by (simp_all add: put_series_def record_receipt_def drop_receipt_def)

lemma al_ok_put_series [simp]: "al_ok (data s) \<Longrightarrow> al_ok (data (put_series aid x s))"
  by (simp add: put_series_def)

lemma series_ok_empty [simp]: "series_ok empty_series"
  by (simp add: series_ok_def empty_series_def config_ok_def)

lemma store_inv_new [inv_intros]: "store_inv store_new"
  by (simp add: store_inv_def store_new_def lookup_def)

lemma store_inv_series_ok: "store_inv s \<Longrightarrow> lookup s aid = Some x \<Longrightarrow> series_ok x"
  by (simp add: store_inv_def)

lemma series_of_ok: "store_inv s \<Longrightarrow> series_ok (series_of s aid)"
  by (auto simp: series_of_def store_inv_def split: option.splits)

lemma store_inv_receipt:
  assumes "store_inv s" "i \<in> set (al_keys (live_state_receipts s))"
  shows "\<exists>y. lookup s i = Some y \<and> states y \<noteq> []"
proof -
  from assms(1) have "\<forall>aid \<in> set (al_keys (live_state_receipts s)).
      \<exists>x. lookup s aid = Some x \<and> states x \<noteq> []"
    unfolding store_inv_def by (elim conjE)
  then show ?thesis using assms(2) by (rule bspec)
qed

lemma store_inv_put:
  assumes "store_inv s" "series_ok x" "states (series_of s aid) \<noteq> [] \<longrightarrow> states x \<noteq> []"
  shows "store_inv (put_series aid x s)"
proof -
  have "\<exists>y. lookup (put_series aid x s) i = Some y \<and> states y \<noteq> []"
    if i: "i \<in> set (al_keys (live_state_receipts s))" for i
  proof -
    obtain y where y: "lookup s i = Some y" "states y \<noteq> []"
      using store_inv_receipt[OF assms(1) i] by auto
    show ?thesis
    proof (cases "i = aid")
      case True
      have "series_of s aid = y" using y(1) True by (simp add: series_of_def)
      with y(2) assms(3) have "states x \<noteq> []" by simp
      with True show ?thesis by (intro exI[of _ x]) simp
    next
      case False
      with y show ?thesis by (intro exI[of _ y]) simp
    qed
  qed
  with assms(1,2) show ?thesis by (simp add: store_inv_def)
qed

lemma config_ok_frame [simp]:
  "config_ok (x\<lparr>states := a\<rparr>) = config_ok x" "config_ok (x\<lparr>telemetry := b\<rparr>) = config_ok x"
  by (simp_all add: config_ok_def split: option.split)

lemma log_insert_not_Nil [simp]: "log_insert stamp x xs \<noteq> []"
  by (simp add: log_insert_def insert_at_def)

lemma config_ok_insert:
  assumes "timeline_ok ev_time (events x)" "is_finite t" "config_ok x"
  shows "config_ok ((case e of EvSpawn sp \<Rightarrow> x\<lparr>config := Some (config_of_spawn sp)\<rparr> | _ \<Rightarrow> x)
    \<lparr>events := log_insert ev_time \<lparr>ev_time = t, ev_event = e\<rparr> (events x)\<rparr>)"
  using assms by (cases e) (auto simp: config_ok_def event_log.set_add spawn_config_def split: option.splits)

lemma append_state_inv [inv_intros]: "store_inv s \<Longrightarrow> store_inv (append_state aid t st s)"
  using series_of_ok[of s aid]
  by (auto simp: append_state_def Let_def series_ok_def intro!: store_inv_put log_insert_ok)

lemma append_event_inv [inv_intros]: "store_inv s \<Longrightarrow> store_inv (append_event aid t e s)"
proof (cases "is_finite t")
  case True
  assume inv: "store_inv s"
  let ?x = "series_of s aid"
  have ok: "series_ok ?x" using inv by (rule series_of_ok)
  have "series_ok ((case e of EvSpawn sp \<Rightarrow> ?x\<lparr>config := Some (config_of_spawn sp)\<rparr> | _ \<Rightarrow> ?x)
    \<lparr>events := log_insert ev_time \<lparr>ev_time = t, ev_event = e\<rparr> (events ?x)\<rparr>)"
    using ok config_ok_insert[of ?x t e] True
    by (cases e) (auto simp: series_ok_def intro!: log_insert_ok)
  then show ?thesis
    using True inv by (cases e) (auto simp: append_event_def Let_def intro!: store_inv_put)
qed (simp add: append_event_def)

lemma append_telemetry_inv [inv_intros]:
  "store_inv s \<Longrightarrow> append_telemetry aid t fr s = Inr s' \<Longrightarrow> store_inv s'"
  using store_inv_series_ok[of s aid]
  by (auto simp: append_telemetry_def series_of_def series_ok_def
      split: if_splits option.splits sum.splits intro!: store_inv_put log_insert_ok)

lemma record_receipt_inv:
  "store_inv s \<Longrightarrow> lookup s aid = Some x \<Longrightarrow> states x \<noteq> [] \<Longrightarrow> store_inv (record_receipt aid now s)"
  by (auto simp: store_inv_def)

lemma drop_receipt_inv [inv_intros]: "store_inv s \<Longrightarrow> store_inv (drop_receipt aid s)"
  by (auto simp: store_inv_def al_del_def intro: al_ok_filter)

lemma append_state_lookup:
  "is_finite t \<Longrightarrow> \<exists>x. lookup (append_state aid t st s) aid = Some x \<and> states x \<noteq> []"
  by (simp add: append_state_def Let_def)

lemma state_with_receipt_inv [inv_intros]:
  "store_inv s \<Longrightarrow> is_finite t \<Longrightarrow> store_inv (record_receipt aid now (append_state aid t st s))"
  using append_state_lookup[of t aid st s] by (auto intro: record_receipt_inv inv_intros)

lemma apply_command_inv [inv_intros]:
  "store_inv s \<Longrightarrow> is_finite t \<Longrightarrow> store_inv (apply_command now aid t k s)"
  by (auto simp: apply_command_def Let_def split: CommandKind.splits sum.splits option.splits
      intro: inv_intros)

lemma append_message_inv [inv_intros]: "store_inv s \<Longrightarrow> store_inv (append_message now msg s)"
  by (auto simp: append_message_def split: option.splits Envelope.splits RequestKind.splits
      intro: inv_intros)

lemma clear_store_inv [inv_intros]: "store_inv (clear_store s)"
  by (simp add: clear_store_def store_inv_def lookup_def)

lemma snapshot_clone_inv [inv_intros]: "store_inv s \<Longrightarrow> store_inv (snapshot_clone s)"
  by (simp add: snapshot_clone_def store_inv_def lookup_def)

lemma replace_from_inv [inv_intros]: "store_inv r \<Longrightarrow> store_inv (replace_from r s)"
  by (simp add: replace_from_def store_inv_def lookup_def)

text \<open>Every store that the public operations can build.\<close>

inductive store_reachable :: "TimeSeriesStore \<Rightarrow> bool" where
  new: "store_reachable store_new"
| message: "store_reachable s \<Longrightarrow> store_reachable (append_message now msg s)"
| state: "store_reachable s \<Longrightarrow> store_reachable (append_state aid t st s)"
| event: "store_reachable s \<Longrightarrow> store_reachable (append_event aid t e s)"
| telemetry: "store_reachable s \<Longrightarrow> append_telemetry aid t fr s = Inr s' \<Longrightarrow> store_reachable s'"
| clear: "store_reachable s \<Longrightarrow> store_reachable (clear_store s)"
| snapshot: "store_reachable s \<Longrightarrow> store_reachable (snapshot_clone s)"
| replace: "store_reachable r \<Longrightarrow> store_reachable s \<Longrightarrow> store_reachable (replace_from r s)"

lemma store_reachable_invariant: "store_reachable s \<Longrightarrow> store_inv s"
  by (induction rule: store_reachable.induct) (auto intro: inv_intros)

end
