(* ===== verification/Store_Global.thy ===== *)
theory Store_Global
  imports Store
begin

text \<open>
  The queries of \<open>core/src/store.rs\<close> that range over every aircraft: identifiers, summaries and
  counts, the globally ordered event page, stepping to adjacent timestamps, and the global time
  bounds. The hash map's iteration order is the order of the association list; the lemmas show that
  no result depends on it.
\<close>

section \<open>Identifiers, summaries and counts\<close>

definition get_aircraft_ids :: "TimeSeriesStore \<Rightarrow> string list" where
  "get_aircraft_ids s = sort (al_keys (data s))"

text \<open>\<open>Iterator::reduce\<close>; \<open>min_by\<close> and \<open>max_by\<close> over \<open>total_cmp\<close> are reductions with the order's min and max.\<close>

fun reduce :: "('a \<Rightarrow> 'a \<Rightarrow> 'a) \<Rightarrow> 'a list \<Rightarrow> 'a option" where
  "reduce f [] = None"
| "reduce f (x # xs) = Some (foldl f x xs)"

definition opt_list :: "'a option \<Rightarrow> 'a list" where
  "opt_list x = (case x of None \<Rightarrow> [] | Some y \<Rightarrow> [y])"

definition first_stamp :: "AircraftTimeSeries \<Rightarrow> f64 option" where
  "first_stamp x = reduce min
     (opt_list (map_option st_time (first_opt (states x)))
      @ opt_list (map_option ev_time (first_opt (events x)))
      @ opt_list (map_option tl_time (first_opt (telemetry x))))"

definition last_stamp :: "AircraftTimeSeries \<Rightarrow> f64 option" where
  "last_stamp x = reduce max
     (opt_list (map_option st_time (last_opt (states x)))
      @ opt_list (map_option ev_time (last_opt (events x)))
      @ opt_list (map_option tl_time (last_opt (telemetry x))))"

definition aircraft_time_range :: "AircraftTimeSeries \<Rightarrow> (f64 \<times> f64) option" where
  "aircraft_time_range x =
     (case (first_stamp x, last_stamp x) of (Some a, Some b) \<Rightarrow> Some (a, b) | _ \<Rightarrow> None)"

definition summary_of :: "string \<times> AircraftTimeSeries \<Rightarrow> AircraftSummary" where
  "summary_of e = (case e of (aid, x) \<Rightarrow>
     \<lparr>sum_id = aid, sum_config = config x, sum_time_range = aircraft_time_range x,
      sum_state_count = length (states x), sum_event_count = length (events x),
      sum_telemetry_count = length (telemetry x)\<rparr>)"

definition aircraft_summaries :: "TimeSeriesStore \<Rightarrow> AircraftSummary list" where
  "aircraft_summaries s = sort_key sum_id (map summary_of (data s))"

definition event_count_for :: "TimeSeriesStore \<Rightarrow> nat" where
  "event_count_for s = sum_list (map (\<lambda>(_, x). length (events x)) (data s))"

definition state_count_for :: "TimeSeriesStore \<Rightarrow> nat" where
  "state_count_for s = sum_list (map (\<lambda>(_, x). length (states x)) (data s))"

definition telemetry_count_for :: "TimeSeriesStore \<Rightarrow> nat" where
  "telemetry_count_for s = sum_list (map (\<lambda>(_, x). length (telemetry x)) (data s))"

definition aircraft_count_for :: "TimeSeriesStore \<Rightarrow> nat" where
  "aircraft_count_for s = length (data s)"

section \<open>The global event page\<close>

definition global_event :: "string \<Rightarrow> TimestampedEvent \<Rightarrow> GlobalTimestampedEvent" where
  "global_event aid e = \<lparr>ge_aircraft_id = aid, ge_time = ev_time e, ge_event = ev_event e\<rparr>"

text \<open>The loop over the sorted identifiers; \<open>None\<close> is the panic of an inverted window.\<close>

fun collect_events :: "TimeSeriesStore \<Rightarrow> f64 \<Rightarrow> f64 \<Rightarrow> string list \<Rightarrow> GlobalTimestampedEvent list option" where
  "collect_events s start end [] = Some []"
| "collect_events s start end (aid # ids) =
     (case lookup s aid of
        None \<Rightarrow> collect_events s start end ids
      | Some x \<Rightarrow>
          (case window ev_time start end (events x) of
             None \<Rightarrow> None
           | Some es \<Rightarrow> map_option (\<lambda>r. map (global_event aid) es @ r) (collect_events s start end ids)))"

definition event_order :: "GlobalTimestampedEvent \<Rightarrow> f64 \<times> string" where
  "event_order e = (ge_time e, ge_aircraft_id e)"

definition get_global_events_page ::
  "f64 \<Rightarrow> f64 \<Rightarrow> nat \<Rightarrow> nat \<Rightarrow> TimeSeriesStore \<Rightarrow> GlobalTimestampedEvent StorePage option" where
  "get_global_events_page start end offset limit s =
     map_option (\<lambda>es. page_slice (sort_key event_order es) offset limit)
       (collect_events s start end (get_aircraft_ids s))"

section \<open>Adjacent timestamps\<close>

datatype TimelineEntryKind = StateEntry | EventEntry

definition next_in :: "('a \<Rightarrow> f64) \<Rightarrow> f64 \<Rightarrow> 'a list \<Rightarrow> f64 option" where
  "next_in stamp probe xs = map_option stamp (nth_opt xs (partition_point (\<lambda>e. fle (stamp e) probe) xs))"

definition prev_in :: "('a \<Rightarrow> f64) \<Rightarrow> f64 \<Rightarrow> 'a list \<Rightarrow> f64 option" where
  "prev_in stamp probe xs =
     map_option stamp
       (case checked_sub (partition_point (\<lambda>e. flt (stamp e) probe) xs) 1 of
          None \<Rightarrow> None | Some i \<Rightarrow> nth_opt xs i)"

definition entry_candidate :: "TimelineEntryKind \<Rightarrow> bool \<Rightarrow> f64 \<Rightarrow> AircraftTimeSeries \<Rightarrow> f64 option" where
  "entry_candidate kind forward probe x =
     (case kind of
        StateEntry \<Rightarrow> (if forward then next_in st_time probe (states x) else prev_in st_time probe (states x))
      | EventEntry \<Rightarrow> (if forward then next_in ev_time probe (events x) else prev_in ev_time probe (events x)))"

definition better :: "bool \<Rightarrow> f64 \<Rightarrow> f64 \<Rightarrow> f64" where
  "better forward best candidate =
     (if (forward \<and> candidate < best) \<or> (\<not> forward \<and> best < candidate) then candidate else best)"

definition candidate :: "TimelineEntryKind \<Rightarrow> bool \<Rightarrow> TimeSeriesStore \<Rightarrow> f64 \<Rightarrow> f64 option" where
  "candidate kind forward s probe =
     reduce (better forward) (List.map_filter (\<lambda>(_, x). entry_candidate kind forward probe x) (data s))"

fun adjacent_loop ::
  "TimelineEntryKind \<Rightarrow> bool \<Rightarrow> TimeSeriesStore \<Rightarrow> nat \<Rightarrow> f64 \<Rightarrow> f64 option \<Rightarrow> f64 option" where
  "adjacent_loop kind forward s 0 probe result = result"
| "adjacent_loop kind forward s (Suc n) probe result =
     (case candidate kind forward s probe of
        None \<Rightarrow> result
      | Some c \<Rightarrow> adjacent_loop kind forward s n c (Some c))"

definition adjacent_global_timestamp ::
  "f64 \<Rightarrow> nat \<Rightarrow> TimelineEntryKind \<Rightarrow> bool \<Rightarrow> TimeSeriesStore \<Rightarrow> f64 option" where
  "adjacent_global_timestamp cursor cnt kind forward s =
     (if \<not> is_finite cursor \<or> cnt = 0 then None
      else adjacent_loop kind forward s cnt cursor None)"

definition previous_global_state_timestamp :: "f64 \<Rightarrow> nat \<Rightarrow> TimeSeriesStore \<Rightarrow> f64 option" where
  "previous_global_state_timestamp cursor cnt s = adjacent_global_timestamp cursor cnt StateEntry False s"

definition next_global_state_timestamp :: "f64 \<Rightarrow> nat \<Rightarrow> TimeSeriesStore \<Rightarrow> f64 option" where
  "next_global_state_timestamp cursor cnt s = adjacent_global_timestamp cursor cnt StateEntry True s"

definition previous_global_event_timestamp :: "f64 \<Rightarrow> nat \<Rightarrow> TimeSeriesStore \<Rightarrow> f64 option" where
  "previous_global_event_timestamp cursor cnt s = adjacent_global_timestamp cursor cnt EventEntry False s"

definition next_global_event_timestamp :: "f64 \<Rightarrow> nat \<Rightarrow> TimeSeriesStore \<Rightarrow> f64 option" where
  "next_global_event_timestamp cursor cnt s = adjacent_global_timestamp cursor cnt EventEntry True s"

section \<open>Global bounds\<close>

definition widen :: "(f64 option \<times> f64 option) \<Rightarrow> AircraftTimeSeries \<Rightarrow> f64 option \<times> f64 option" where
  "widen acc x =
     (case (first_stamp x, last_stamp x) of
        (Some lo, Some hi) \<Rightarrow>
          (Some (case fst acc of Some current \<Rightarrow> fmin current lo | None \<Rightarrow> lo),
           Some (case snd acc of Some current \<Rightarrow> fmax current hi | None \<Rightarrow> hi))
      | _ \<Rightarrow> acc)"

definition active_time_bounds :: "TimeSeriesStore \<Rightarrow> (f64 \<times> f64) option" where
  "active_time_bounds s =
     (case foldl widen (None, None) (map snd (data s)) of
        (Some lo, Some hi) \<Rightarrow> Some (lo, hi) | _ \<Rightarrow> None)"

section \<open>Timestamps of a series and of the store\<close>

definition entry_times :: "TimelineEntryKind \<Rightarrow> AircraftTimeSeries \<Rightarrow> f64 list" where
  "entry_times kind x = (case kind of StateEntry \<Rightarrow> map st_time (states x) | EventEntry \<Rightarrow> map ev_time (events x))"

definition series_times :: "AircraftTimeSeries \<Rightarrow> f64 set" where
  "series_times x = set (map st_time (states x)) \<union> set (map ev_time (events x)) \<union> set (map tl_time (telemetry x))"

definition store_times :: "TimeSeriesStore \<Rightarrow> f64 set" where
  "store_times s = (\<Union>(_, x) \<in> set (data s). series_times x)"

definition kind_times :: "TimelineEntryKind \<Rightarrow> TimeSeriesStore \<Rightarrow> f64 set" where
  "kind_times kind s = (\<Union>(_, x) \<in> set (data s). set (entry_times kind x))"

lemma in_data_lookup: "store_inv s \<Longrightarrow> (aid, x) \<in> set (data s) \<longleftrightarrow> lookup s aid = Some x"
  by (simp add: store_inv_def lookup_def)

lemma in_data_series_ok: "store_inv s \<Longrightarrow> (aid, x) \<in> set (data s) \<Longrightarrow> series_ok x"
  by (simp add: in_data_lookup store_inv_series_ok)

lemma series_times_finite: "series_ok x \<Longrightarrow> t \<in> series_times x \<Longrightarrow> is_finite t"
  by (auto simp: series_ok_def series_times_def dest: timeline_okD)

lemma store_times_finite: "store_inv s \<Longrightarrow> t \<in> store_times s \<Longrightarrow> is_finite t"
  by (auto simp: store_times_def dest: in_data_series_ok series_times_finite)

lemma kind_times_subset: "kind_times kind s \<subseteq> store_times s"
  by (cases kind) (auto simp: kind_times_def store_times_def entry_times_def series_times_def)

lemma kind_times_finite: "store_inv s \<Longrightarrow> t \<in> kind_times kind s \<Longrightarrow> is_finite t"
  using kind_times_subset store_times_finite by blast

lemma finite_kind_times [simp]: "finite (kind_times kind s)"
  by (auto simp: kind_times_def)

section \<open>Stepping\<close>

lemma reduce_better:
  assumes "xs \<noteq> []"
  shows "reduce (better True) xs = Some (Min (set xs))" "reduce (better False) xs = Some (Max (set xs))"
proof -
  have "better True = (\<lambda>a b. min b a)" "better False = (\<lambda>a b. max b a)"
    by (auto simp: fun_eq_iff better_def min_def max_def)
  then show "reduce (better True) xs = Some (Min (set xs))" "reduce (better False) xs = Some (Max (set xs))"
    using assms by (cases xs; simp add: foldl_conv_fold Min.set_eq_fold Max.set_eq_fold
        del: List.set_simps Min_insert Max_insert insert_iff
        add: List.set_simps[symmetric])+
qed

text \<open>
  The order of travel: forward compares by the IEEE key, backward by its negation. \<open>ahead\<close> is the
  set of distinct travel keys strictly beyond the probe.
\<close>

definition dkey :: "bool \<Rightarrow> f64 \<Rightarrow> int" where
  "dkey forward t = (if forward then ord_key t else - ord_key t)"

definition ahead :: "TimelineEntryKind \<Rightarrow> bool \<Rightarrow> TimeSeriesStore \<Rightarrow> f64 \<Rightarrow> int set" where
  "ahead kind forward s probe = {k \<in> dkey forward ` kind_times kind s. dkey forward probe < k}"

lemma finite_ahead [simp]: "finite (ahead kind forward s probe)"
  by (simp add: ahead_def)

lemma next_in_Some:
  assumes ok: "timeline_ok stamp xs" and p: "\<not> is_nan p" and c: "next_in stamp p xs = Some c"
  shows "c \<in> stamp ` set xs" "flt p c" "t \<in> stamp ` set xs \<Longrightarrow> flt p t \<Longrightarrow> fle c t"
proof -
  let ?f = "filter (\<lambda>x. \<not> fle (stamp x) p) xs"
  obtain x where x: "first_opt ?f = Some x" "c = stamp x"
    using c by (auto simp: next_in_def nth_opt_dropWhile dropWhile_fle_filter[OF ok])
  then have mem: "x \<in> set xs" "\<not> fle (stamp x) p" by (auto dest: first_opt_Some)
  then show "c \<in> stamp ` set xs" "flt p c"
    using x timeline_okD[OF ok mem(1)] p by (auto simp: not_fle)
  show "fle c t" if t: "t \<in> stamp ` set xs" "flt p t"
  proof -
    obtain y where y: "t = stamp y" "y \<in> set xs" using t(1) by blast
    with t(2) have "y \<in> set ?f" by (simp add: float_cmp)
    then show ?thesis
      using timeline_first_min[OF timeline_ok_filter[OF ok] x(1)] x(2) y(1) by simp
  qed
qed

lemma next_in_None:
  assumes "timeline_ok stamp xs" "next_in stamp p xs = None" "t \<in> stamp ` set xs"
  shows "\<not> flt p t"
  using assms by (auto simp: next_in_def nth_opt_dropWhile dropWhile_fle_filter filter_empty_conv float_cmp)

lemma prev_in_eq:
  assumes "timeline_ok stamp xs"
  shows "prev_in stamp p xs = map_option stamp (last_opt (filter (\<lambda>x. flt (stamp x) p) xs))"
  using nth_opt_pred[OF partition_point_le, of xs "\<lambda>x. flt (stamp x) p"] partitioned_flt[OF assms, of p]
  by (simp add: prev_in_def take_partition_point takeWhile_eq_filter_partitioned)

lemma prev_in_Some:
  assumes ok: "timeline_ok stamp xs" and c: "prev_in stamp p xs = Some c"
  shows "c \<in> stamp ` set xs" "flt c p" "t \<in> stamp ` set xs \<Longrightarrow> flt t p \<Longrightarrow> fle t c"
proof -
  let ?f = "filter (\<lambda>x. flt (stamp x) p) xs"
  obtain x where x: "last_opt ?f = Some x" "c = stamp x"
    using c by (auto simp: prev_in_eq[OF ok])
  then show "c \<in> stamp ` set xs" "flt c p" by (auto dest!: last_opt_Some)
  show "t \<in> stamp ` set xs \<Longrightarrow> flt t p \<Longrightarrow> fle t c"
    using timeline_last_max[OF timeline_ok_filter[OF ok] x(1)] x(2) by auto
qed

lemma prev_in_None:
  assumes "timeline_ok stamp xs" "prev_in stamp p xs = None" "t \<in> stamp ` set xs"
  shows "\<not> flt t p"
  using assms by (auto simp: prev_in_eq filter_empty_conv)

lemma entry_candidate_Some:
  assumes ok: "series_ok x" and p: "is_finite p" and c: "entry_candidate kind forward p x = Some c"
  shows "c \<in> set (entry_times kind x)" "dkey forward p < dkey forward c"
    "t \<in> set (entry_times kind x) \<Longrightarrow> dkey forward p < dkey forward t \<Longrightarrow> dkey forward c \<le> dkey forward t"
proof -
  have nan: "\<not> is_nan u" if "u \<in> set (entry_times kind x)" for u
    using that ok by (cases kind) (auto simp: series_ok_def entry_times_def dest: timeline_okD)
  note cs = c[unfolded entry_candidate_def]
  show "c \<in> set (entry_times kind x)" "dkey forward p < dkey forward c"
    using ok p cs next_in_Some(1,2)[of st_time "states x" p c] next_in_Some(1,2)[of ev_time "events x" p c]
      prev_in_Some(1,2)[of st_time "states x" p c] prev_in_Some(1,2)[of ev_time "events x" p c]
    by (cases kind; cases forward; auto simp: series_ok_def entry_times_def dkey_def flt_def)+
  show "dkey forward c \<le> dkey forward t"
    if t: "t \<in> set (entry_times kind x)" "dkey forward p < dkey forward t"
    using ok p cs t nan[OF t(1)] next_in_Some(3)[of st_time "states x" p c t]
      next_in_Some(3)[of ev_time "events x" p c t] prev_in_Some(3)[of st_time "states x" p c t]
      prev_in_Some(3)[of ev_time "events x" p c t]
    by (cases kind; cases forward; auto simp: series_ok_def entry_times_def dkey_def flt_def fle_def)
qed

lemma entry_candidate_None:
  assumes ok: "series_ok x" and p: "is_finite p" and c: "entry_candidate kind forward p x = None"
    and t: "t \<in> set (entry_times kind x)"
  shows "\<not> dkey forward p < dkey forward t"
proof -
  have "\<not> is_nan t"
    using t ok by (cases kind) (auto simp: series_ok_def entry_times_def dest: timeline_okD)
  then show ?thesis
    using ok p t c next_in_None[of st_time "states x" p t] next_in_None[of ev_time "events x" p t]
      prev_in_None[of st_time "states x" p t] prev_in_None[of ev_time "events x" p t]
    by (cases kind; cases forward; auto simp: series_ok_def entry_times_def dkey_def flt_def entry_candidate_def)
qed

lemma dkey_total: "is_finite a \<Longrightarrow> is_finite b \<Longrightarrow> (if forward then a \<le> b else b \<le> a) \<Longrightarrow> dkey forward a \<le> dkey forward b"
  using total_le_imp_fle[of a b] total_le_imp_fle[of b a]
  by (auto simp: dkey_def fle_def split: if_splits)

lemma candidate_spec:
  assumes inv: "store_inv s" and p: "is_finite p"
  shows "candidate kind forward s p = None \<longleftrightarrow> ahead kind forward s p = {}"
    and "candidate kind forward s p = Some c \<Longrightarrow>
      c \<in> kind_times kind s \<and> dkey forward c = Min (ahead kind forward s p)"
proof -
  let ?xs = "List.map_filter (\<lambda>(_, x). entry_candidate kind forward p x) (data s)"
  have mem: "c \<in> set ?xs \<longleftrightarrow> (\<exists>aid x. (aid, x) \<in> set (data s) \<and> entry_candidate kind forward p x = Some c)" for c
    unfolding set_map_filter_iff by force
  have best: "\<exists>c \<in> set ?xs. dkey forward c \<le> k" if k: "k \<in> ahead kind forward s p" for k
  proof -
    obtain aid x t where x: "(aid, x) \<in> set (data s)" "t \<in> set (entry_times kind x)"
      and t: "k = dkey forward t" "dkey forward p < dkey forward t"
      using k by (auto simp: ahead_def kind_times_def)
    have ok: "series_ok x" by (rule in_data_series_ok[OF inv x(1)])
    obtain c where c: "entry_candidate kind forward p x = Some c"
      using entry_candidate_None[OF ok p _ x(2)] t(2) by fastforce
    have "dkey forward c \<le> k"
      using entry_candidate_Some(3)[OF ok p c x(2) t(2)] t(1) by simp
    moreover have "c \<in> set ?xs" unfolding mem using c x(1) by (intro exI conjI)
    ultimately show ?thesis by blast
  qed
  have elem: "c \<in> kind_times kind s \<and> dkey forward c \<in> ahead kind forward s p" if u: "c \<in> set ?xs" for c
  proof -
    obtain aid x where x: "(aid, x) \<in> set (data s)" "entry_candidate kind forward p x = Some c"
      using u[unfolded mem] by blast
    note ok = in_data_series_ok[OF inv x(1)]
    have "c \<in> kind_times kind s"
      using entry_candidate_Some(1)[OF ok p x(2)] x(1) by (auto simp: kind_times_def)
    then show ?thesis
      using entry_candidate_Some(2)[OF ok p x(2)] by (simp add: ahead_def)
  qed
  have None: "candidate kind forward s p = None \<longleftrightarrow> ?xs = []"
    by (cases ?xs) (simp_all add: candidate_def)
  also have "\<dots> \<longleftrightarrow> ahead kind forward s p = {}"
    using best elem by (cases ?xs) fastforce+
  finally show "candidate kind forward s p = None \<longleftrightarrow> ahead kind forward s p = {}" .
  assume c: "candidate kind forward s p = Some c"
  then have ne: "?xs \<noteq> []" using None by simp
  have sel: "c \<in> set ?xs" "u \<in> set ?xs \<Longrightarrow> (if forward then c \<le> u else u \<le> c)" for u
    using c ne reduce_better[OF ne] Min_in[of "set ?xs"] Max_in[of "set ?xs"]
    by (cases forward; simp add: candidate_def)+
  have "dkey forward c \<le> k" if k: "k \<in> ahead kind forward s p" for k
  proof -
    obtain d where d: "d \<in> set ?xs" "dkey forward d \<le> k" using best[OF k] by blast
    have "dkey forward c \<le> dkey forward d"
      using sel d(1) elem kind_times_finite[OF inv] by (intro dkey_total) blast+
    with d(2) show ?thesis by simp
  qed
  then show "c \<in> kind_times kind s \<and> dkey forward c = Min (ahead kind forward s p)"
    using elem[OF sel(1)] by (auto intro!: Min_eqI[symmetric])
qed

lemma sorted_keys_step:
  assumes "finite A" "A \<noteq> {}"
  shows "sorted_list_of_set A = Min A # sorted_list_of_set {k \<in> A. Min A < (k::int)}"
proof -
  have "A - {Min A} = {k \<in> A. Min A < k}"
    using assms by (auto simp: order_less_le)
  with sorted_list_of_set_nonempty[OF assms] show ?thesis by simp
qed

lemma adjacent_loop_spec:
  assumes inv: "store_inv s"
  shows "is_finite p \<Longrightarrow>
    map_option (dkey forward) (adjacent_loop kind forward s n p r)
      = (case last_opt (take n (sorted_list_of_set (ahead kind forward s p))) of
           None \<Rightarrow> map_option (dkey forward) r | Some k \<Rightarrow> Some k)"
proof (induction n arbitrary: p r)
  case (Suc n)
  show ?case
  proof (cases "candidate kind forward s p")
    case None
    then have "ahead kind forward s p = {}" using candidate_spec(1)[OF inv Suc.prems] by simp
    with None show ?thesis by simp
  next
    case (Some c)
    note c = candidate_spec(2)[OF inv Suc.prems Some]
    have ne: "ahead kind forward s p \<noteq> {}"
      using candidate_spec(1)[OF inv Suc.prems, of kind forward] Some by simp
    have less: "dkey forward p < dkey forward c"
      using c Min_in[OF finite_ahead ne] by (auto simp: ahead_def)
    have "{k \<in> ahead kind forward s p. dkey forward c < k} = ahead kind forward s c"
      using less by (auto simp: ahead_def)
    then have split: "sorted_list_of_set (ahead kind forward s p)
        = dkey forward c # sorted_list_of_set (ahead kind forward s c)"
      using sorted_keys_step[OF finite_ahead ne] c by simp
    have "is_finite c" using c kind_times_finite[OF inv] by blast
    from Suc.IH[OF this, of "Some c"] Some show ?thesis
      by (simp add: split last_opt_Cons split: option.splits)
  qed
qed simp

section \<open>Bounds\<close>

lemma reduce_min_max:
  "xs \<noteq> [] \<Longrightarrow> reduce min xs = Some (Min (set xs :: f64 set))"
  "xs \<noteq> [] \<Longrightarrow> reduce max xs = Some (Max (set xs))"
proof -
  have "better True = min" "better False = max"
    by (auto simp: fun_eq_iff better_def min_def max_def)
  then show "xs \<noteq> [] \<Longrightarrow> reduce min xs = Some (Min (set xs))" "xs \<noteq> [] \<Longrightarrow> reduce max xs = Some (Max (set xs))"
    using reduce_better[of xs] by simp_all
qed

text \<open>One log's end stamps: what the chained iterators of the source collect.\<close>

lemma log_first:
  assumes "timeline_ok stamp xs"
  shows "set (opt_list (map_option stamp (first_opt xs))) \<subseteq> stamp ` set xs"
    "t \<in> stamp ` set xs \<Longrightarrow> \<exists>a \<in> set (opt_list (map_option stamp (first_opt xs))). fle a t"
proof -
  show "set (opt_list (map_option stamp (first_opt xs))) \<subseteq> stamp ` set xs"
    by (cases xs) (auto simp: opt_list_def)
  assume t: "t \<in> stamp ` set xs"
  then obtain f where f: "first_opt xs = Some f" by (cases xs) auto
  with timeline_first_min[OF assms f] t
  show "\<exists>a \<in> set (opt_list (map_option stamp (first_opt xs))). fle a t"
    by (auto simp: opt_list_def)
qed

lemma log_last:
  assumes "timeline_ok stamp xs"
  shows "set (opt_list (map_option stamp (last_opt xs))) \<subseteq> stamp ` set xs"
    "t \<in> stamp ` set xs \<Longrightarrow> \<exists>b \<in> set (opt_list (map_option stamp (last_opt xs))). fle t b"
proof -
  show "set (opt_list (map_option stamp (last_opt xs))) \<subseteq> stamp ` set xs"
    by (cases "last_opt xs") (auto simp: opt_list_def dest: last_opt_Some)
  assume t: "t \<in> stamp ` set xs"
  then obtain l where l: "last_opt xs = Some l" by (cases "last_opt xs") auto
  with timeline_last_max[OF assms l] t
  show "\<exists>b \<in> set (opt_list (map_option stamp (last_opt xs))). fle t b"
    by (auto simp: opt_list_def)
qed

definition lower_ends :: "AircraftTimeSeries \<Rightarrow> f64 list" where
  "lower_ends x = opt_list (map_option st_time (first_opt (states x)))
      @ opt_list (map_option ev_time (first_opt (events x)))
      @ opt_list (map_option tl_time (first_opt (telemetry x)))"

definition upper_ends :: "AircraftTimeSeries \<Rightarrow> f64 list" where
  "upper_ends x = opt_list (map_option st_time (last_opt (states x)))
      @ opt_list (map_option ev_time (last_opt (events x)))
      @ opt_list (map_option tl_time (last_opt (telemetry x)))"

lemma ends_spec:
  assumes ok: "series_ok x"
  shows "set (lower_ends x) \<subseteq> series_times x" "set (upper_ends x) \<subseteq> series_times x"
    "t \<in> series_times x \<Longrightarrow> \<exists>a \<in> set (lower_ends x). fle a t"
    "t \<in> series_times x \<Longrightarrow> \<exists>b \<in> set (upper_ends x). fle t b"
proof -
  have tl: "timeline_ok st_time (states x)" "timeline_ok ev_time (events x)" "timeline_ok tl_time (telemetry x)"
    using ok by (simp_all add: series_ok_def)
  note lows = tl[THEN log_first(1)] and ups = tl[THEN log_last(1)]
  show "set (lower_ends x) \<subseteq> series_times x" "set (upper_ends x) \<subseteq> series_times x"
    using lows ups unfolding lower_ends_def upper_ends_def series_times_def set_append set_map by blast+
  show "\<exists>a \<in> set (lower_ends x). fle a t" "\<exists>b \<in> set (upper_ends x). fle t b"
    if "t \<in> series_times x"
    using that log_first(2)[OF tl(1), of t] log_first(2)[OF tl(2), of t] log_first(2)[OF tl(3), of t]
      log_last(2)[OF tl(1), of t] log_last(2)[OF tl(2), of t] log_last(2)[OF tl(3), of t]
    unfolding lower_ends_def upper_ends_def series_times_def set_append set_map by blast+
qed

lemma stamps_empty:
  assumes "series_ok x" "series_times x = {}"
  shows "first_stamp x = None" "last_stamp x = None"
  using assms ends_spec(1,2)[OF assms(1)]
  by (simp_all add: first_stamp_def last_stamp_def lower_ends_def[symmetric] upper_ends_def[symmetric])

lemma stamps_spec:
  assumes ok: "series_ok x" and ne: "series_times x \<noteq> {}"
  obtains a b where "first_stamp x = Some a" "last_stamp x = Some b" "a \<in> series_times x" "b \<in> series_times x"
    "\<And>t. t \<in> series_times x \<Longrightarrow> fle a t \<and> fle t b"
proof -
  let ?L = "lower_ends x" and ?U = "upper_ends x"
  have neL: "?L \<noteq> []" "?U \<noteq> []"
    using ne ends_spec(3,4)[OF ok] by fastforce+
  have mem: "Min (set ?L) \<in> series_times x" "Max (set ?U) \<in> series_times x"
    using neL ends_spec(1,2)[OF ok] Min_in[of "set ?L"] Max_in[of "set ?U"] by auto
  have bnd: "fle (Min (set ?L)) t \<and> fle t (Max (set ?U))" if t: "t \<in> series_times x" for t
  proof -
    obtain a b where ab: "a \<in> set ?L" "fle a t" "b \<in> set ?U" "fle t b"
      using ends_spec(3,4)[OF ok t] by blast
    have fin: "\<And>u. u \<in> series_times x \<Longrightarrow> \<not> is_nan u" using series_times_finite[OF ok] by auto
    have "fle (Min (set ?L)) a"
      using ab(1) fin mem(1) ends_spec(1)[OF ok] by (intro total_le_imp_fle) auto
    moreover have "fle b (Max (set ?U))"
      using ab(3) fin mem(2) ends_spec(2)[OF ok] by (intro total_le_imp_fle) auto
    ultimately show ?thesis using ab(2,4) by (blast intro: fle_trans)
  qed
  have "first_stamp x = Some (Min (set ?L))" "last_stamp x = Some (Max (set ?U))"
    using neL by (simp_all add: first_stamp_def last_stamp_def reduce_min_max
        lower_ends_def[symmetric] upper_ends_def[symmetric])
  then show ?thesis using that mem bnd by blast
qed

definition bounds_of :: "f64 set \<Rightarrow> f64 option \<times> f64 option \<Rightarrow> bool" where
  "bounds_of T acc \<longleftrightarrow>
     (if T = {} then acc = (None, None)
      else \<exists>lo hi. acc = (Some lo, Some hi) \<and> lo \<in> T \<and> hi \<in> T \<and> (\<forall>t \<in> T. fle lo t \<and> fle t hi))"

lemma widen_bounds:
  assumes acc: "bounds_of T acc" and fin: "\<And>t. t \<in> T \<Longrightarrow> is_finite t" and ok: "series_ok x"
  shows "bounds_of (T \<union> series_times x) (widen acc x)"
proof (cases "series_times x = {}")
  case True
  then show ?thesis using acc stamps_empty[OF ok True] by (simp add: widen_def)
next
  case False
  obtain a b where ab: "first_stamp x = Some a" "last_stamp x = Some b"
    "a \<in> series_times x" "b \<in> series_times x" "\<And>t. t \<in> series_times x \<Longrightarrow> fle a t \<and> fle t b"
    using stamps_spec[OF ok False] by blast
  show ?thesis
  proof (cases "T = {}")
    case True
    then show ?thesis using acc ab by (auto simp: bounds_of_def widen_def)
  next
    case ne: False
    then obtain lo hi where lh: "acc = (Some lo, Some hi)" "lo \<in> T" "hi \<in> T"
      "\<And>t. t \<in> T \<Longrightarrow> fle lo t \<and> fle t hi"
      using acc by (auto simp: bounds_of_def)
    have nan: "\<not> is_nan lo" "\<not> is_nan hi" "\<not> is_nan a" "\<not> is_nan b"
      using fin lh ab series_times_finite[OF ok] by auto
    have "fle (fmin lo a) lo" "fle (fmin lo a) a" "fle hi (fmax hi b)" "fle b (fmax hi b)"
      using nan fmin_cases[of lo a] fmax_cases[of hi b] fmin_key[of lo a] fmax_key[of hi b]
      by (auto simp: fle_def)
    moreover have "fmin lo a \<in> T \<union> series_times x" "fmax hi b \<in> T \<union> series_times x"
      using fmin_cases[of lo a] fmax_cases[of hi b] lh(2,3) ab(3,4) by auto
    ultimately show ?thesis
      using ne lh ab(1,2,5) unfolding bounds_of_def widen_def
      by (auto intro: fle_trans)
  qed
qed

lemma fold_bounds:
  assumes "\<And>x. x \<in> set xs \<Longrightarrow> series_ok x" "bounds_of T acc" "\<And>t. t \<in> T \<Longrightarrow> is_finite t"
  shows "bounds_of (T \<union> (\<Union>x \<in> set xs. series_times x)) (foldl widen acc xs)"
  using assms
proof (induction xs arbitrary: T acc)
  case (Cons x xs)
  have ok: "series_ok x" using Cons.prems by simp
  have "bounds_of ((T \<union> series_times x) \<union> (\<Union>x \<in> set xs. series_times x)) (foldl widen (widen acc x) xs)"
    using Cons.prems series_times_finite[OF ok]
    by (intro Cons.IH widen_bounds ok) auto
  then show ?case by (simp add: Un_assoc)
qed simp

lemma store_bounds: "store_inv s \<Longrightarrow> bounds_of (store_times s) (foldl widen (None, None) (map snd (data s)))"
  using fold_bounds[of "map snd (data s)" "{}" "(None, None)"] in_data_series_ok[of s]
  by (fastforce simp: bounds_of_def store_times_def split_beta)

lemma bounds_None: "store_inv s \<Longrightarrow> active_time_bounds s = None \<longleftrightarrow> store_times s = {}"
  using store_bounds[of s] by (auto simp: active_time_bounds_def bounds_of_def split: if_splits)

lemma bounds_Some:
  assumes "store_inv s" "active_time_bounds s = Some (lo, hi)"
  shows "lo \<in> store_times s" "hi \<in> store_times s" "is_finite lo" "is_finite hi" "fle lo hi"
    "t \<in> store_times s \<Longrightarrow> fle lo t \<and> fle t hi"
proof -
  have b: "lo \<in> store_times s" "hi \<in> store_times s" "\<And>t. t \<in> store_times s \<Longrightarrow> fle lo t \<and> fle t hi"
    using store_bounds[OF assms(1)] assms(2)
    by (auto simp: active_time_bounds_def bounds_of_def split: if_splits)
  then show "lo \<in> store_times s" "hi \<in> store_times s" "fle lo hi"
    "t \<in> store_times s \<Longrightarrow> fle lo t \<and> fle t hi" by blast+
  show "is_finite lo" "is_finite hi" using b(1,2) assms(1) store_times_finite by blast+
qed

end
