(* ===== verification/Playback.thy ===== *)
theory Playback
  imports Store_Global
begin

text \<open>
  The playback controller of \<open>core/src/playback.rs\<close>: one global timeline that is live, paused or
  playing. Each operation reads the store's bounds, advances the effective cursor, and mutates the
  mutex-guarded inner state; here it maps the inner state to its result and the new inner state.
  \<open>None\<close> is the panic of \<open>f64::clamp\<close> on crossed bounds. \<open>clk i\<close> is the \<open>i\<close>-th reading of the
  monotonic clock within one call.
\<close>

section \<open>Data\<close>

datatype PlaybackMode = Live | ReplayPaused | ReplayPlaying
datatype PlaybackStepUnit = Sample | EventUnit
datatype PlaybackStepDirection = Previous | Next

record PlaybackSnapshot =
  snap_mode :: PlaybackMode
  snap_cursor :: "f64 option"
  snap_speed :: f64
  snap_bounds :: "(f64 \<times> f64) option"
  snap_revision :: u64

record ResolvedState =
  rs_sample :: TimestampedState
  rs_spawned :: bool

datatype PlaybackError = EmptyStore | InvalidTimestamp | InvalidSpeed f64 f64 | InvalidStepCount

record PlaybackInner =
  mode :: PlaybackMode
  cursor_secs :: "f64 option"
  speed :: f64
  anchor :: "instant option"
  revision :: u64

record ReplayConfig =
  default_speed :: f64
  min_speed :: f64
  max_speed :: f64

definition replay_config_default :: ReplayConfig where
  "replay_config_default = \<lparr>default_speed = F64 0x3FF0000000000000,
     min_speed = F64 0x3FB999999999999A, max_speed = F64 0x4030000000000000\<rparr>"

definition playback_new :: "ReplayConfig \<Rightarrow> PlaybackInner" where
  "playback_new cfg = \<lparr>mode = Live, cursor_secs = None, speed = default_speed cfg, anchor = None, revision = 0\<rparr>"

definition validate_speed :: "ReplayConfig \<Rightarrow> f64 \<Rightarrow> PlaybackError + unit" where
  "validate_speed cfg v =
     (if is_finite v \<and> f_within (min_speed cfg) (max_speed cfg) v then Inr ()
      else Inl (InvalidSpeed (min_speed cfg) (max_speed cfg)))"

section \<open>The effective cursor\<close>

definition update_effective_cursor ::
  "(nat \<Rightarrow> instant) \<Rightarrow> (f64 \<times> f64) option \<Rightarrow> PlaybackInner \<Rightarrow> PlaybackInner option" where
  "update_effective_cursor clk bounds p =
     (case bounds of
        None \<Rightarrow>
          (let p1 = p\<lparr>cursor_secs := None, anchor := None\<rparr> in
           if mode p = Live then Some p1 else Some (p1\<lparr>mode := ReplayPaused\<rparr>))
      | Some (start, end) \<Rightarrow>
          (case mode p of
             Live \<Rightarrow> Some (p\<lparr>cursor_secs := Some end, anchor := None\<rparr>)
           | ReplayPaused \<Rightarrow>
               map_option (\<lambda>c. p\<lparr>cursor_secs := Some c, anchor := None\<rparr>)
                 (fclamp (case cursor_secs p of None \<Rightarrow> start | Some c \<Rightarrow> c) start end)
           | ReplayPlaying \<Rightarrow>
               (let base = (case cursor_secs p of None \<Rightarrow> start | Some c \<Rightarrow> c);
                    elapsed = (case anchor p of None \<Rightarrow> f_zero | Some a \<Rightarrow> as_secs_f64 (clk 0 - a));
                    next = fadd base (fmul elapsed (speed p)) in
                if fle end next
                then Some (p\<lparr>cursor_secs := Some end, mode := ReplayPaused, anchor := None,
                             revision := revision p + 1\<rparr>)
                else Some (p\<lparr>cursor_secs := Some (fmax next start), anchor := Some (clk 1)\<rparr>))))"

definition snapshot_from_inner :: "PlaybackInner \<Rightarrow> (f64 \<times> f64) option \<Rightarrow> PlaybackSnapshot" where
  "snapshot_from_inner p bounds =
     \<lparr>snap_mode = mode p, snap_cursor = cursor_secs p, snap_speed = speed p,
      snap_bounds = bounds, snap_revision = revision p\<rparr>"

section \<open>Operations\<close>

text \<open>The tail every explicit mutation shares: bump the revision and take the snapshot.\<close>

definition commit ::
  "(f64 \<times> f64) option \<Rightarrow> PlaybackInner \<Rightarrow> PlaybackError + PlaybackSnapshot \<times> PlaybackInner" where
  "commit bounds p =
     (let p1 = p\<lparr>revision := revision p + 1\<rparr> in Inr (snapshot_from_inner p1 bounds, p1))"

type_synonym playback_result = "(PlaybackError + PlaybackSnapshot \<times> PlaybackInner) option"

definition playback_snapshot :: "(nat \<Rightarrow> instant) \<Rightarrow> TimeSeriesStore \<Rightarrow> PlaybackInner \<Rightarrow> playback_result" where
  "playback_snapshot clk s p =
     (let bounds = active_time_bounds s in
      map_option (\<lambda>p1. Inr (snapshot_from_inner p1 bounds, p1)) (update_effective_cursor clk bounds p))"

definition playback_live :: "TimeSeriesStore \<Rightarrow> PlaybackInner \<Rightarrow> playback_result" where
  "playback_live s p =
     (let bounds = active_time_bounds s in
      Some (commit bounds (p\<lparr>mode := Live, cursor_secs := map_option snd bounds, anchor := None\<rparr>)))"

definition playback_pause :: "(nat \<Rightarrow> instant) \<Rightarrow> TimeSeriesStore \<Rightarrow> PlaybackInner \<Rightarrow> playback_result" where
  "playback_pause clk s p =
     (case active_time_bounds s of
        None \<Rightarrow> Some (Inl EmptyStore)
      | Some (lo, hi) \<Rightarrow>
          map_option (\<lambda>p1. commit (Some (lo, hi)) (p1\<lparr>mode := ReplayPaused,
              cursor_secs := Some (case cursor_secs p1 of None \<Rightarrow> hi | Some c \<Rightarrow> c), anchor := None\<rparr>))
            (update_effective_cursor clk (Some (lo, hi)) p))"

definition playback_seek :: "f64 \<Rightarrow> TimeSeriesStore \<Rightarrow> PlaybackInner \<Rightarrow> playback_result" where
  "playback_seek t s p =
     (if \<not> is_finite t then Some (Inl InvalidTimestamp)
      else case active_time_bounds s of
        None \<Rightarrow> Some (Inl EmptyStore)
      | Some (lo, hi) \<Rightarrow>
          map_option (\<lambda>c. commit (Some (lo, hi)) (p\<lparr>mode := ReplayPaused, cursor_secs := Some c, anchor := None\<rparr>))
            (fclamp t lo hi))"

definition playback_play ::
  "(nat \<Rightarrow> instant) \<Rightarrow> ReplayConfig \<Rightarrow> f64 option \<Rightarrow> TimeSeriesStore \<Rightarrow> PlaybackInner \<Rightarrow> playback_result" where
  "playback_play clk cfg v s p =
     (case (case v of None \<Rightarrow> Inr () | Some x \<Rightarrow> validate_speed cfg x) of
        Inl e \<Rightarrow> Some (Inl e)
      | Inr _ \<Rightarrow>
          (case active_time_bounds s of
             None \<Rightarrow> Some (Inl EmptyStore)
           | Some (lo, hi) \<Rightarrow>
               Option.bind (update_effective_cursor clk (Some (lo, hi)) p) (\<lambda>p1.
               let p2 = (case v of None \<Rightarrow> p1 | Some x \<Rightarrow> p1\<lparr>speed := x\<rparr>) in
               Option.bind (fclamp (case cursor_secs p2 of None \<Rightarrow> lo | Some c \<Rightarrow> c) lo hi) (\<lambda>c.
               let p3 = p2\<lparr>cursor_secs := Some c, mode := ReplayPlaying, anchor := Some (clk 2),
                           revision := revision p2 + 1\<rparr> in
               map_option (\<lambda>p4. Inr (snapshot_from_inner p4 (Some (lo, hi)), p4))
                 (update_effective_cursor (\<lambda>i. clk (i + 3)) (Some (lo, hi)) p3)))))"

definition playback_set_speed ::
  "(nat \<Rightarrow> instant) \<Rightarrow> ReplayConfig \<Rightarrow> f64 \<Rightarrow> TimeSeriesStore \<Rightarrow> PlaybackInner \<Rightarrow> playback_result" where
  "playback_set_speed clk cfg v s p =
     (case validate_speed cfg v of
        Inl e \<Rightarrow> Some (Inl e)
      | Inr _ \<Rightarrow>
          (let bounds = active_time_bounds s in
           map_option (\<lambda>p1.
               let p2 = p1\<lparr>speed := v\<rparr>;
                   p3 = (if mode p2 = ReplayPlaying then p2\<lparr>anchor := Some (clk 2)\<rparr> else p2) in
               commit bounds p3)
             (update_effective_cursor clk bounds p)))"

definition step_target ::
  "PlaybackStepUnit \<Rightarrow> PlaybackStepDirection \<Rightarrow> f64 \<Rightarrow> nat \<Rightarrow> TimeSeriesStore \<Rightarrow> f64 option" where
  "step_target unit direction cursor cnt s =
     (case (unit, direction) of
        (Sample, Previous) \<Rightarrow> previous_global_state_timestamp cursor cnt s
      | (Sample, Next) \<Rightarrow> next_global_state_timestamp cursor cnt s
      | (EventUnit, Previous) \<Rightarrow> previous_global_event_timestamp cursor cnt s
      | (EventUnit, Next) \<Rightarrow> next_global_event_timestamp cursor cnt s)"

definition playback_step ::
  "(nat \<Rightarrow> instant) \<Rightarrow> PlaybackStepUnit \<Rightarrow> PlaybackStepDirection \<Rightarrow> nat \<Rightarrow> TimeSeriesStore
   \<Rightarrow> PlaybackInner \<Rightarrow> playback_result" where
  "playback_step clk unit direction cnt s p =
     (if cnt < 1 \<or> 100 < cnt then Some (Inl InvalidStepCount)
      else case active_time_bounds s of
        None \<Rightarrow> Some (Inl EmptyStore)
      | Some (lo, hi) \<Rightarrow>
          Option.bind (update_effective_cursor clk (Some (lo, hi)) p) (\<lambda>p1.
          let cursor = (case cursor_secs p1 of None \<Rightarrow> hi | Some c \<Rightarrow> c);
              target = step_target unit direction cursor cnt s in
          map_option (\<lambda>c. commit (Some (lo, hi))
              (p1\<lparr>mode := ReplayPaused, cursor_secs := Some c, anchor := None\<rparr>))
            (fclamp (case target of None \<Rightarrow> cursor | Some t \<Rightarrow> t) lo hi)))"

definition playback_reset_empty :: "PlaybackInner \<Rightarrow> playback_result" where
  "playback_reset_empty p =
     Some (commit None (p\<lparr>mode := ReplayPaused, cursor_secs := None, anchor := None\<rparr>))"

definition playback_reset_after_load :: "TimeSeriesStore \<Rightarrow> PlaybackInner \<Rightarrow> playback_result" where
  "playback_reset_after_load s p =
     (let bounds = active_time_bounds s in
      Some (commit bounds (p\<lparr>mode := ReplayPaused, cursor_secs := map_option fst bounds, anchor := None\<rparr>)))"

definition resolve_aircraft_with ::
  "PlaybackSnapshot \<Rightarrow> string \<Rightarrow> TimeSeriesStore \<Rightarrow> ResolvedState option" where
  "resolve_aircraft_with pb aid s =
     (case (if snap_mode pb = Live then get_latest aid s
            else Option.bind (snap_cursor pb) (\<lambda>c. get_state_at_or_before aid c s)) of
        None \<Rightarrow> None
      | Some sample \<Rightarrow>
          Some \<lparr>rs_sample = sample,
            rs_spawned = (if snap_mode pb = Live then is_spawned_at aid f_infinity s
              else (case snap_cursor pb of None \<Rightarrow> False | Some c \<Rightarrow> is_spawned_at aid c s))\<rparr>)"

definition resolve_aircraft ::
  "(nat \<Rightarrow> instant) \<Rightarrow> string \<Rightarrow> TimeSeriesStore \<Rightarrow> PlaybackInner \<Rightarrow> (ResolvedState option \<times> PlaybackInner) option" where
  "resolve_aircraft clk aid s p =
     (case playback_snapshot clk s p of
        Some (Inr (pb, p1)) \<Rightarrow> Some (resolve_aircraft_with pb aid s, p1)
      | _ \<Rightarrow> None)"

section \<open>Commands and the controller invariant\<close>

datatype PlaybackCmd = CmdSnapshot | CmdLive | CmdPause | CmdSeek f64 | CmdPlay "f64 option"
  | CmdSetSpeed f64 | CmdStep PlaybackStepUnit PlaybackStepDirection nat | CmdResetEmpty | CmdResetAfterLoad

fun run_playback ::
  "(nat \<Rightarrow> instant) \<Rightarrow> ReplayConfig \<Rightarrow> TimeSeriesStore \<Rightarrow> PlaybackCmd \<Rightarrow> PlaybackInner \<Rightarrow> playback_result" where
  "run_playback clk cfg s CmdSnapshot p = playback_snapshot clk s p"
| "run_playback clk cfg s CmdLive p = playback_live s p"
| "run_playback clk cfg s CmdPause p = playback_pause clk s p"
| "run_playback clk cfg s (CmdSeek t) p = playback_seek t s p"
| "run_playback clk cfg s (CmdPlay v) p = playback_play clk cfg v s p"
| "run_playback clk cfg s (CmdSetSpeed v) p = playback_set_speed clk cfg v s p"
| "run_playback clk cfg s (CmdStep u d n) p = playback_step clk u d n s p"
| "run_playback clk cfg s CmdResetEmpty p = playback_reset_empty p"
| "run_playback clk cfg s CmdResetAfterLoad p = playback_reset_after_load s p"

text \<open>The configuration the server validates: a positive finite range that holds the default.\<close>

definition replay_config_ok :: "ReplayConfig \<Rightarrow> bool" where
  "replay_config_ok cfg \<longleftrightarrow> flt f_zero (min_speed cfg) \<and> is_finite (default_speed cfg)
     \<and> f_within (min_speed cfg) (max_speed cfg) (default_speed cfg)"

definition inner_ok :: "ReplayConfig \<Rightarrow> PlaybackInner \<Rightarrow> bool" where
  "inner_ok cfg p \<longleftrightarrow>
     (case cursor_secs p of None \<Rightarrow> True | Some c \<Rightarrow> is_finite c)
     \<and> is_finite (speed p) \<and> f_within (min_speed cfg) (max_speed cfg) (speed p)
     \<and> (anchor p \<noteq> None \<longleftrightarrow> mode p = ReplayPlaying)
     \<and> (mode p = ReplayPlaying \<longrightarrow> cursor_secs p \<noteq> None)"

text \<open>Where a cursor has to be relative to the bounds a snapshot reports.\<close>

definition placed :: "(f64 \<times> f64) option \<Rightarrow> PlaybackInner \<Rightarrow> bool" where
  "placed bounds p \<longleftrightarrow>
     (case bounds of
        None \<Rightarrow> cursor_secs p = None \<and> mode p \<noteq> ReplayPlaying
      | Some (lo, hi) \<Rightarrow> (case cursor_secs p of None \<Rightarrow> False | Some c \<Rightarrow> is_finite c \<and> f_within lo hi c))"

section \<open>What the controller needs from its store\<close>

lemma within_finite: "is_finite lo \<Longrightarrow> is_finite hi \<Longrightarrow> f_within lo hi c \<Longrightarrow> is_finite c"
  by (auto simp: float_cmp is_finite_def is_nan_def ord_key_def split: if_splits)

text \<open>A source of bounds and step targets: bounds are finite and ordered, targets lie within them.\<close>

locale bounded_source =
  fixes valid :: "'s \<Rightarrow> bool"
    and bounds :: "'s \<Rightarrow> (f64 \<times> f64) option"
    and target :: "PlaybackStepUnit \<Rightarrow> PlaybackStepDirection \<Rightarrow> f64 \<Rightarrow> nat \<Rightarrow> 's \<Rightarrow> f64 option"
  assumes bounds_ok: "valid s \<Longrightarrow> bounds s = Some (lo, hi) \<Longrightarrow> is_finite lo \<and> is_finite hi \<and> fle lo hi"
    and target_within: "valid s \<Longrightarrow> bounds s = Some (lo, hi) \<Longrightarrow> is_finite c \<Longrightarrow>
      target u d c n s = Some t \<Longrightarrow> f_within lo hi t"
begin

lemma bounds_self: "valid s \<Longrightarrow> bounds s = Some (lo, hi) \<Longrightarrow> f_within lo hi lo \<and> f_within lo hi hi"
  using bounds_ok[of s lo hi] by (auto simp: f_within_def)

lemma clamp_total:
  assumes "valid s" "bounds s = Some (lo, hi)" "is_finite c"
  obtains r where "fclamp c lo hi = Some r" "is_finite r" "f_within lo hi r"
proof -
  have b: "is_finite lo" "is_finite hi" "fle lo hi" using bounds_ok[OF assms(1,2)] by simp_all
  obtain r where r: "fclamp c lo hi = Some r" using fclamp_defined[OF b(3)] by blast
  have "f_within lo hi r" using fclamp_within[OF r] assms(3) by simp
  with that r b show ?thesis by (blast intro: within_finite)
qed

lemma clamp_target:
  assumes "valid s" "bounds s = Some (lo, hi)" "is_finite c" "f_within lo hi c"
  shows "fclamp (case target u d c n s of None \<Rightarrow> c | Some t \<Rightarrow> t) lo hi
    = Some (case target u d c n s of None \<Rightarrow> c | Some t \<Rightarrow> t)"
  using target_within[OF assms(1-3)] assms(4) by (auto intro: fclamp_id split: option.split)

lemma playing_cursor:
  assumes "valid s" "bounds s = Some (lo, hi)" "\<not> fle hi next"
  shows "f_within lo hi (fmax next lo)" "is_finite (fmax next lo)"
proof -
  have b: "is_finite lo" "is_finite hi" "fle lo hi" using bounds_ok[OF assms(1,2)] by simp_all
  show w: "f_within lo hi (fmax next lo)"
    using b assms(3) by (auto simp: fmax_def float_cmp)
  show "is_finite (fmax next lo)" by (rule within_finite[OF b(1,2) w])
qed

lemma update_total:
  assumes v: "valid s" and p: "inner_ok cfg p"
  obtains p' where "update_effective_cursor clk (bounds s) p = Some p'" "inner_ok cfg p'" "placed (bounds s) p'"
proof (cases "bounds s")
  case None
  with p that show ?thesis
    by (cases "mode p") (auto simp: update_effective_cursor_def inner_ok_def placed_def)
next
  case (Some b)
  obtain lo hi where bd: "bounds s = Some (lo, hi)" using Some by (cases b) simp
  have fin: "is_finite lo" "is_finite hi" using bounds_ok[OF v bd] by simp_all
  note self = bounds_self[OF v bd]
  show ?thesis
  proof (cases "mode p")
    case Live
    with p bd fin self that show ?thesis
      by (auto simp: update_effective_cursor_def inner_ok_def placed_def)
  next
    case ReplayPaused
    have "is_finite (case cursor_secs p of None \<Rightarrow> lo | Some c \<Rightarrow> c)"
      using p fin by (auto simp: inner_ok_def split: option.splits)
    from clamp_total[OF v bd this] obtain r where
      r: "fclamp (case cursor_secs p of None \<Rightarrow> lo | Some c \<Rightarrow> c) lo hi = Some r" "is_finite r" "f_within lo hi r" .
    with ReplayPaused p bd that show ?thesis
      by (auto simp: update_effective_cursor_def inner_ok_def placed_def)
  next
    case ReplayPlaying
    define nxt where "nxt = fadd (case cursor_secs p of None \<Rightarrow> lo | Some c \<Rightarrow> c)
      (fmul (case anchor p of None \<Rightarrow> f_zero | Some a \<Rightarrow> as_secs_f64 (clk 0 - a)) (speed p))"
    show ?thesis
      using ReplayPlaying p bd fin self playing_cursor[OF v bd, of nxt] that
      by (cases "fle hi nxt")
        (auto simp: update_effective_cursor_def inner_ok_def placed_def Let_def nxt_def[symmetric])
  qed
qed

end

section \<open>The store is such a source\<close>

lemma adjacent_loop_mem:
  assumes inv: "store_inv s"
  shows "is_finite p \<Longrightarrow> adjacent_loop kind forward s n p r = Some t \<Longrightarrow> t \<in> kind_times kind s \<or> r = Some t"
proof (induction n arbitrary: p r)
  case (Suc n)
  show ?case
  proof (cases "candidate kind forward s p")
    case (Some c)
    have c: "c \<in> kind_times kind s" using candidate_spec(2)[OF inv Suc.prems(1) Some] by simp
    then have "is_finite c" by (rule kind_times_finite[OF inv])
    from Suc.IH[OF this, of "Some c"] Suc.prems(2) Some c show ?thesis by auto
  qed (use Suc.prems in simp)
qed simp

lemma step_target_mem:
  "store_inv s \<Longrightarrow> step_target u d c n s = Some t \<Longrightarrow> t \<in> store_times s"
  using adjacent_loop_mem[of s c _ _ n None t]
  by (auto intro!: kind_times_subset[THEN subsetD] simp: step_target_def previous_global_state_timestamp_def next_global_state_timestamp_def
      previous_global_event_timestamp_def next_global_event_timestamp_def adjacent_global_timestamp_def
      split: PlaybackStepUnit.splits PlaybackStepDirection.splits if_splits)

interpretation store_source: bounded_source store_inv active_time_bounds step_target
proof unfold_locales
  fix s lo hi
  assume "store_inv s" "active_time_bounds s = Some (lo, hi)"
  then show "is_finite lo \<and> is_finite hi \<and> fle lo hi" using bounds_Some by blast
next
  fix s lo hi c u d n t
  assume "store_inv s" "active_time_bounds s = Some (lo, hi)" "step_target u d c n s = Some t"
  then show "f_within lo hi t" using bounds_Some(6) step_target_mem by (auto simp: f_within_def)
qed

section \<open>Every command\<close>

definition result_ok :: "ReplayConfig \<Rightarrow> PlaybackError + PlaybackSnapshot \<times> PlaybackInner \<Rightarrow> bool" where
  "result_ok cfg r \<longleftrightarrow>
     (case r of
        Inl _ \<Rightarrow> True
      | Inr (snap, p) \<Rightarrow> inner_ok cfg p \<and> placed (snap_bounds snap) p
          \<and> snap = snapshot_from_inner p (snap_bounds snap))"

lemma commit_ok:
  "inner_ok cfg p \<Longrightarrow> placed b p \<Longrightarrow> result_ok cfg (commit b p)"
  by (auto simp: commit_def result_ok_def snapshot_from_inner_def inner_ok_def placed_def Let_def
      split: option.splits)

lemma paused_at_ok:
  assumes "inner_ok cfg p" "is_finite c" "f_within lo hi c"
  shows "result_ok cfg (commit (Some (lo, hi)) (p\<lparr>mode := ReplayPaused, cursor_secs := Some c, anchor := None\<rparr>))"
  using assms by (intro commit_ok) (simp_all add: inner_ok_def placed_def)

lemma validate_speed_Inr:
  "validate_speed cfg v = Inr u \<longleftrightarrow> is_finite v \<and> f_within (min_speed cfg) (max_speed cfg) v"
  by (auto simp: validate_speed_def)

lemma snapshot_ok:
  assumes "store_inv s" "inner_ok cfg p"
  shows "\<exists>r. playback_snapshot clk s p = Some r \<and> result_ok cfg r"
proof -
  obtain p' where "update_effective_cursor clk (active_time_bounds s) p = Some p'"
    "inner_ok cfg p'" "placed (active_time_bounds s) p'"
    using store_source.update_total[OF assms] by blast
  then show ?thesis by (simp add: playback_snapshot_def result_ok_def snapshot_from_inner_def Let_def)
qed

lemma live_ok: "store_inv s \<Longrightarrow> inner_ok cfg p \<Longrightarrow> \<exists>r. playback_live s p = Some r \<and> result_ok cfg r"
  using store_source.bounds_self[of s] bounds_Some(4)[of s]
  by (cases "active_time_bounds s")
    (auto simp: playback_live_def Let_def inner_ok_def placed_def intro!: commit_ok)

lemma pause_ok:
  assumes "store_inv s" "inner_ok cfg p"
  shows "\<exists>r. playback_pause clk s p = Some r \<and> result_ok cfg r"
proof (cases "active_time_bounds s")
  case (Some b)
  obtain lo hi where b: "active_time_bounds s = Some (lo, hi)" using Some by (cases b) simp
  obtain p' where p': "update_effective_cursor clk (active_time_bounds s) p = Some p'"
    "inner_ok cfg p'" "placed (active_time_bounds s) p'"
    using store_source.update_total[OF assms] by blast
  then obtain c where "cursor_secs p' = Some c" using b by (auto simp: placed_def split: option.splits)
  with p' b show ?thesis
    by (auto simp: playback_pause_def inner_ok_def placed_def intro!: commit_ok)
qed (simp add: playback_pause_def result_ok_def)

lemma seek_ok:
  assumes "store_inv s" "inner_ok cfg p"
  shows "\<exists>r. playback_seek t s p = Some r \<and> result_ok cfg r"
proof (cases "is_finite t \<and> active_time_bounds s \<noteq> None")
  case True
  then obtain lo hi where b: "active_time_bounds s = Some (lo, hi)" by auto
  obtain c where "fclamp t lo hi = Some c" "is_finite c" "f_within lo hi c"
    using store_source.clamp_total[OF assms(1) b] True by blast
  with True b assms(2) show ?thesis
    by (auto simp: playback_seek_def inner_ok_def placed_def intro!: commit_ok)
next
  case False
  then show ?thesis by (cases "active_time_bounds s") (auto simp: playback_seek_def result_ok_def)
qed

lemma set_speed_ok:
  assumes "store_inv s" "inner_ok cfg p"
  shows "\<exists>r. playback_set_speed clk cfg v s p = Some r \<and> result_ok cfg r"
proof (cases "validate_speed cfg v")
  case (Inr u)
  obtain p' where "update_effective_cursor clk (active_time_bounds s) p = Some p'"
    "inner_ok cfg p'" "placed (active_time_bounds s) p'"
    using store_source.update_total[OF assms] by blast
  moreover define p3 where "p3 = (let p2 = p'\<lparr>speed := v\<rparr> in
      if mode p2 = ReplayPlaying then p2\<lparr>anchor := Some (clk 2)\<rparr> else p2)"
  ultimately have "playback_set_speed clk cfg v s p = Some (commit (active_time_bounds s) p3)"
    "inner_ok cfg p3" "placed (active_time_bounds s) p3"
    using Inr validate_speed_Inr[THEN iffD1, OF Inr]
    by (auto simp: playback_set_speed_def Let_def inner_ok_def placed_def split: option.splits)
  then show ?thesis using commit_ok by simp
qed (simp add: playback_set_speed_def result_ok_def)

lemma step_ok:
  assumes "store_inv s" "inner_ok cfg p"
  shows "\<exists>r. playback_step clk u d n s p = Some r \<and> result_ok cfg r"
proof (cases "active_time_bounds s")
  case (Some b)
  obtain lo hi where b: "active_time_bounds s = Some (lo, hi)" using Some by (cases b) simp
  obtain p' where p': "update_effective_cursor clk (active_time_bounds s) p = Some p'"
    "inner_ok cfg p'" "placed (active_time_bounds s) p'"
    using store_source.update_total[OF assms] by blast
  then obtain c where c: "cursor_secs p' = Some c" "is_finite c" "f_within lo hi c"
    using b by (auto simp: placed_def split: option.splits)
  let ?t = "case step_target u d c n s of None \<Rightarrow> c | Some t \<Rightarrow> t"
  note clamp = store_source.clamp_target[OF assms(1) b c(2,3), of u d n]
  moreover have "f_within lo hi ?t"
    using store_source.target_within[OF assms(1) b c(2), of u d n] c(3) by (auto split: option.split)
  moreover from this have "is_finite ?t" using bounds_Some(3,4)[OF assms(1) b] within_finite by blast
  ultimately have "result_ok cfg (commit (Some (lo, hi)) (p'\<lparr>mode := ReplayPaused, cursor_secs := Some ?t, anchor := None\<rparr>))"
    using p'(2) by (intro paused_at_ok)
  then show ?thesis
    using p'(1) b c(1) clamp by (simp add: playback_step_def result_ok_def)
qed (simp add: playback_step_def result_ok_def)

lemma play_ok:
  assumes "store_inv s" "inner_ok cfg p"
  shows "\<exists>r. playback_play clk cfg v s p = Some r \<and> result_ok cfg r"
proof (cases "(case v of None \<Rightarrow> Inr () | Some x \<Rightarrow> validate_speed cfg x)")
  case Inr: (Inr u)
  show ?thesis
  proof (cases "active_time_bounds s")
    case (Some b)
    obtain lo hi where b: "active_time_bounds s = Some (lo, hi)" using Some by (cases b) simp
    obtain p1 where p1: "update_effective_cursor clk (Some (lo, hi)) p = Some p1"
      "inner_ok cfg p1" "placed (Some (lo, hi)) p1"
      using store_source.update_total[OF assms] b by metis
    define p2 where "p2 = (case v of None \<Rightarrow> p1 | Some x \<Rightarrow> p1\<lparr>speed := x\<rparr>)"
    obtain c where c: "cursor_secs p2 = Some c" "is_finite c" "f_within lo hi c"
      using p1(3) by (cases v) (auto simp: placed_def p2_def split: option.splits)
    define p3 where "p3 = p2\<lparr>cursor_secs := Some c, mode := ReplayPlaying, anchor := Some (clk 2),
        revision := revision p2 + 1\<rparr>"
    have "inner_ok cfg p3"
      using p1(2) c Inr by (auto simp: inner_ok_def p3_def p2_def validate_speed_Inr split: option.splits)
    then obtain p4 where p4: "update_effective_cursor (\<lambda>i. clk (i + 3)) (Some (lo, hi)) p3 = Some p4"
      "inner_ok cfg p4" "placed (Some (lo, hi)) p4"
      using store_source.update_total[OF assms(1)] b by metis
    have "playback_play clk cfg v s p = Some (Inr (snapshot_from_inner p4 (Some (lo, hi)), p4))"
      using Inr b p1(1) c(1) fclamp_id[OF c(3)] p4(1)
      by (simp add: playback_play_def p2_def[symmetric] p3_def[symmetric])
    then show ?thesis using p4(2,3) by (simp add: result_ok_def snapshot_from_inner_def)
  qed (use Inr in \<open>simp add: playback_play_def result_ok_def\<close>)
qed (simp add: playback_play_def result_ok_def)

lemma reset_ok:
  assumes "store_inv s" "inner_ok cfg p"
  shows "\<exists>r. playback_reset_empty p = Some r \<and> result_ok cfg r"
    "\<exists>r. playback_reset_after_load s p = Some r \<and> result_ok cfg r"
proof -
  show "\<exists>r. playback_reset_empty p = Some r \<and> result_ok cfg r"
    using assms(2) by (auto simp: playback_reset_empty_def inner_ok_def placed_def intro!: commit_ok)
  show "\<exists>r. playback_reset_after_load s p = Some r \<and> result_ok cfg r"
    using assms(2) store_source.bounds_self[OF assms(1)] bounds_Some(3)[OF assms(1)]
    by (cases "active_time_bounds s")
      (auto simp: playback_reset_after_load_def Let_def inner_ok_def placed_def intro!: commit_ok)
qed

lemma run_playback_ok:
  "store_inv s \<Longrightarrow> inner_ok cfg p \<Longrightarrow> \<exists>r. run_playback clk cfg s cmd p = Some r \<and> result_ok cfg r"
  by (cases cmd) (simp_all add: snapshot_ok live_ok pause_ok seek_ok play_ok set_speed_ok step_ok reset_ok)

lemma playback_new_ok: "replay_config_ok cfg \<Longrightarrow> inner_ok cfg (playback_new cfg)"
  by (simp add: replay_config_ok_def inner_ok_def playback_new_def)

end
