(* ===== verification/Samples.thy ===== *)
theory Samples
  imports Proto
begin

text \<open>
  Small concrete inputs for the witnesses: three timestamps, a telemetry schema, a spawn, a frame
  and a request.
\<close>

definition time_1 :: f64 where "time_1 = F64 0x3FF0000000000000"
definition time_2 :: f64 where "time_2 = F64 0x4000000000000000"
definition time_3 :: f64 where "time_3 = F64 0x4008000000000000"

lemma time_keys [simp]:
  "ord_key time_1 = 4607182418800017408" "ord_key time_2 = 4611686018427387904" "ord_key time_3 = 4613937818241073152"
  by (simp_all add: time_1_def time_2_def time_3_def f64_eval)

lemma time_finite [simp]: "is_finite time_1" "is_finite time_2" "is_finite time_3"
  by (simp_all add: time_1_def time_2_def time_3_def f64_eval)

lemma time_not_nan [simp]: "\<not> is_nan time_1" "\<not> is_nan time_2" "\<not> is_nan time_3"
  by (simp_all add: time_1_def time_2_def time_3_def f64_eval)

lemma nan_not_finite [simp]: "\<not> is_finite f_nan" "is_nan f_nan"
  by (simp_all add: f64_eval)

definition demo_schema :: TelemetryStreamSchema where
  "demo_schema = \<lparr>ts_stream_id = ''eng'', ts_name = ''Engine'', ts_nominal_rate_hz = None,
     ts_fields = [\<lparr>tf_field_id = ''rpm'', tf_label = '''', tf_group = '''', tf_unit = '''',
       tf_description = '''', tf_value_type = 1\<rparr>]\<rparr>"

definition demo_spawn :: AircraftSpawnInfo where
  "demo_spawn = \<lparr>sp_name = ''demo'', sp_toml_config = '''', sp_initial_state = Some empty_state,
     sp_telemetry_schemas = [demo_schema]\<rparr>"

definition demo_frame :: TelemetryFrame where
  "demo_frame = \<lparr>fr_stream_id = ''eng'', fr_sequence = 0, fr_values = [\<lparr>tv_kind = Some (F64Value time_3)\<rparr>]\<rparr>"

definition demo_request :: "f64 \<Rightarrow> CommandKind \<Rightarrow> Message" where
  "demo_request t k = Some (EnvRequest \<lparr>rq_id = None, rq_timestamp = t,
     rq_command = Some (Some (AircraftEventReq \<lparr>ae_aircraft_id = Some [7],
       ae_info = Some \<lparr>ci_kind = Some k\<rparr>\<rparr>))\<rparr>)"


end
