(* ===== verification/Store_Properties.thy ===== *)
theory Store_Properties
  imports Store_Global Samples
begin

text \<open>
  What the store of \<open>core/src/store.rs\<close> promises: the invariant of every reachable store, read after
  write, isolation between aircraft, window and page queries, lifecycle queries, telemetry
  validation, liveness receipts, stepping, bounds and the global event page. Each property is
  followed by a witness on a small concrete store.
\<close>

section \<open>A concrete store\<close>

text \<open>Aircraft \<open>07\<close> spawns with an initial state at 1, sends a state at 3 and a telemetry frame at 2.\<close>

definition demo_store :: TimeSeriesStore where
  "demo_store = append_message 30 (demo_request time_2 (TelemetryFrameCmd demo_frame))
     (append_message 20 (demo_request time_3 (StateUpdate empty_state))
       (append_message 10 (demo_request time_1 (Spawn demo_spawn)) store_new))"

lemma demo_reachable: "store_reachable demo_store"
  unfolding demo_store_def by (intro store_reachable.intros)

lemma demo_inv: "store_inv demo_store"
  by (rule store_reachable_invariant[OF demo_reachable])

lemma hex_07: "uuid_to_hex [7] = ''07''"
  by (simp add: uuid_to_hex_def byte_hex_def hex_digit_def)

lemma demo_schema_valid: "validate_telemetry_schemas [demo_schema] = Inr ()"
  by code_simp

lemma demo_frame_valid: "validate_telemetry_frame [demo_schema] demo_frame = Inr ()"
  by (simp add: validate_telemetry_frame_def demo_schema_def demo_frame_def value_matches_def value_type_of_def)

lemma lookup_new [simp]: "lookup store_new i = None"
  by (simp add: lookup_def store_new_def)

lemmas store_eval = append_state_def append_event_def append_telemetry_def series_of_def schemas_of_def
  config_of_spawn_def empty_series_def log_insert_def Let_def

lemma demo_data:
  "data demo_store = [(''07'',
    \<lparr>states = [\<lparr>st_time = time_1, st_state = empty_state\<rparr>, \<lparr>st_time = time_3, st_state = empty_state\<rparr>],
     events = [\<lparr>ev_time = time_1, ev_event = EvSpawn demo_spawn\<rparr>],
     telemetry = [\<lparr>tl_time = time_2, tl_frame = demo_frame\<rparr>],
     config = Some (config_of_spawn demo_spawn)\<rparr>)]"
  by (simp add: demo_store_def demo_request_def append_message_def apply_command_def event_aircraft_id_def
      hex_07 demo_schema_valid demo_spawn_def demo_frame_valid store_eval last_opt_def float_cmp
      put_series_def lookup_def store_new_def record_receipt_def)

lemma demo_lookup:
  "lookup demo_store ''07'' = Some
    \<lparr>states = [\<lparr>st_time = time_1, st_state = empty_state\<rparr>, \<lparr>st_time = time_3, st_state = empty_state\<rparr>],
     events = [\<lparr>ev_time = time_1, ev_event = EvSpawn demo_spawn\<rparr>],
     telemetry = [\<lparr>tl_time = time_2, tl_frame = demo_frame\<rparr>],
     config = Some (config_of_spawn demo_spawn)\<rparr>"
  by (simp add: lookup_def demo_data)

lemma demo_unknown: "aid \<noteq> ''07'' \<Longrightarrow> lookup demo_store aid = None"
  by (simp add: lookup_def demo_data)

section \<open>Invariant, reads and isolation\<close>



text \<open>Reading an aircraft's state at a time after a state was appended returns the appended state
  exactly when it lies at or before that time and no stored state lies between; every other read,
  and every read of another aircraft, is unchanged.\<close>

theorem state_read_after_append:
  assumes inv: "store_inv s" and t: "is_finite t" and u: "is_finite u"
  shows "get_state_at_or_before aid u (append_state who t st s) =
    (if aid = who \<and> fle t u
        \<and> (case get_state_at_or_before who u s of None \<Rightarrow> True | Some y \<Rightarrow> fle (st_time y) t)
     then Some \<lparr>st_time = t, st_state = st\<rparr>
     else get_state_at_or_before aid u s)"
proof (cases "aid = who")
  case True
  have ok: "timeline_ok st_time (states (series_of s who))"
    using series_of_ok[OF inv] by (simp add: series_ok_def)
  have old: "get_state_at_or_before who u s = at_or_before st_time u (states (series_of s who))"
    using u by (simp add: get_state_at_or_before_def series_of_def empty_series_def at_or_before_def
        checked_sub_def partition_point_def split: option.split)
  show ?thesis
    using True t u state_log.at_or_before_add[OF ok, of "\<lparr>st_time = t, st_state = st\<rparr>" u]
    by (simp add: old) (auto simp: get_state_at_or_before_def append_state_def Let_def split: option.splits)
qed (simp add: get_state_at_or_before_def append_state_def Let_def t u)

lemma state_read_after_append_witness:
  "get_state_at_or_before ''07'' time_2 (append_state ''07'' time_2 empty_state demo_store)
     = Some \<lparr>st_time = time_2, st_state = empty_state\<rparr>"
  using state_read_after_append[OF demo_inv, of time_2 time_2 "''07''" "''07''" empty_state]
  by (simp add: get_state_at_or_before_def demo_lookup at_or_before_def partition_point_def checked_sub_def
      nth_opt_def float_cmp)

definition message_target :: "Message \<Rightarrow> string option" where
  "message_target msg =
     (case msg of
        Some (EnvRequest req) \<Rightarrow>
          (case Option.bind (rq_command req) (\<lambda>k. k) of
             Some (AircraftEventReq e) \<Rightarrow> Some (event_aircraft_id e) | _ \<Rightarrow> None)
      | _ \<Rightarrow> None)"

lemma append_frame:
  "i \<noteq> aid \<Longrightarrow> lookup (append_state aid t st s) i = lookup s i"
  "i \<noteq> aid \<Longrightarrow> lookup (append_event aid t e s) i = lookup s i"
  "i \<noteq> aid \<Longrightarrow> append_telemetry aid t fr s = Inr s' \<Longrightarrow> lookup s' i = lookup s i"
  by (auto simp: append_state_def append_event_def append_telemetry_def Let_def
      split: if_splits option.splits sum.splits)

lemma append_receipts:
  "live_state_receipts (append_state aid t st s) = live_state_receipts s"
  "live_state_receipts (append_event aid t e s) = live_state_receipts s"
  "append_telemetry aid t fr s = Inr s' \<Longrightarrow> live_state_receipts s' = live_state_receipts s"
  by (auto simp: append_state_def append_event_def append_telemetry_def Let_def
      split: if_splits option.splits sum.splits)

lemma message_frame:
  "message_target msg \<noteq> Some aid \<Longrightarrow>
     lookup (append_message now msg s) aid = lookup s aid
     \<and> map_of (live_state_receipts (append_message now msg s)) aid = map_of (live_state_receipts s) aid"
  by (auto simp: append_message_def message_target_def apply_command_def Let_def append_frame append_receipts
      intro: append_frame(3)[OF not_sym] split: option.splits Envelope.splits RequestKind.splits CommandKind.splits sum.splits)

text \<open>A message changes at most the aircraft it names: series, receipts and hence liveness of every
  other aircraft are untouched, and a message that names none, or has a non-finite timestamp,
  changes nothing.\<close>

theorem append_message_isolated:
  "message_target msg \<noteq> Some aid \<Longrightarrow>
     lookup (append_message now msg s) aid = lookup s aid
     \<and> map_of (live_state_receipts (append_message now msg s)) aid = map_of (live_state_receipts s) aid"
  by (rule message_frame)

lemma append_message_isolated_witness:
  "lookup (append_message 5 (demo_request time_1 (StateUpdate empty_state)) demo_store) ''zz'' = None"
  using append_message_isolated[of "demo_request time_1 (StateUpdate empty_state)" "''zz''" 5 demo_store]
  by (simp add: message_target_def demo_request_def event_aircraft_id_def hex_07 demo_unknown)

section \<open>Windows and pages\<close>

lemma store_window:
  assumes "store_inv s" "lookup s aid = Some x" "fle start end"
  shows "window st_time start end (states x) = Some (window_filter st_time start end (states x))"
    "window ev_time start end (events x) = Some (window_filter ev_time start end (events x))"
    "window tl_time start end (telemetry x) = Some (window_filter tl_time start end (telemetry x))"
  using store_inv_series_ok[OF assms(1,2)] assms(3)
  by (simp_all add: series_ok_def state_log.window_eq_filter event_log.window_eq_filter
      telemetry_log.window_eq_filter)

lemma page_slice_items: "pg_items (page_slice xs offset limit) = take limit (drop offset xs)"
  by (cases "offset \<le> length xs") (simp_all add: page_slice_def Let_def min_def)

text \<open>On a window that is not inverted the binary-search page of states never panics and is the
  requested slice of what the linear range query returns, with the full count as its total.\<close>

theorem states_page_is_range_slice:
  assumes "store_inv s" "fle start end"
  shows "get_states_page aid start end offset limit s =
    Some (map_option (\<lambda>xs. \<lparr>pg_items = take limit (drop offset xs), pg_total = length xs,
        pg_offset = offset, pg_limit = limit\<rparr>) (get_states_range aid start end s))"
  using page_slice_items[of _ offset limit]
  by (auto simp: get_states_page_def get_states_range_def store_window[OF assms(1) _ assms(2)]
      page_slice_def Let_def split: option.split)

lemma states_page_is_range_slice_witness:
  "get_states_page ''07'' time_1 time_2 0 5 demo_store
     = Some (Some \<lparr>pg_items = [\<lparr>st_time = time_1, st_state = empty_state\<rparr>], pg_total = 1, pg_offset = 0, pg_limit = 5\<rparr>)"
  using states_page_is_range_slice[OF demo_inv, of time_1 time_2 "''07''" 0 5]
  by (simp add: get_states_range_def demo_lookup window_filter_def float_cmp)

lemma concat_pages: "concat (List.map (\<lambda>i. take n (drop (i * n) xs)) [0..<k]) = take (k * n) xs"
proof (induction k)
  case (Suc k)
  have "take (k * n) xs @ take n (drop (k * n) xs) = take (k * n + n) xs" by (simp add: take_add)
  with Suc show ?case by (simp add: add.commute)
qed simp

text \<open>Reading the events of an aircraft page by page loses, repeats and reorders nothing: the pages
  at offsets 0, n, 2n, ... concatenate to the range query's result once they cover it.\<close>

theorem event_pages_cover_range:
  assumes "store_inv s" "fle start end" "get_events_range aid start end s = Some xs" "length xs \<le> k * n"
  shows "concat (List.map (\<lambda>i. case get_events_page aid start end (i * n) n s of
            Some (Some pg) \<Rightarrow> pg_items pg | _ \<Rightarrow> []) [0..<k]) = xs"
proof -
  obtain x where x: "lookup s aid = Some x" "xs = window_filter ev_time start end (events x)"
    using assms(3) by (auto simp: get_events_range_def)
  have "(case get_events_page aid start end (i * n) n s of Some (Some pg) \<Rightarrow> pg_items pg | _ \<Rightarrow> [])
      = take n (drop (i * n) xs)" for i
    by (simp add: get_events_page_def x store_window[OF assms(1) x(1) assms(2)] page_slice_items)
  then show ?thesis using assms(4) by (simp add: concat_pages)
qed

lemma event_pages_cover_range_witness:
  "concat (List.map (\<lambda>i. case get_events_page ''07'' time_1 time_3 (i * 1) 1 demo_store of
      Some (Some pg) \<Rightarrow> pg_items pg | _ \<Rightarrow> []) [0..<1]) = [\<lparr>ev_time = time_1, ev_event = EvSpawn demo_spawn\<rparr>]"
  by (rule event_pages_cover_range[OF demo_inv])
    (simp_all add: get_events_range_def demo_lookup window_filter_def float_cmp)

text \<open>On an inverted window the paged query panics (the slice bounds cross) exactly when a stored
  state lies strictly between the two ends, where the range query returns no items instead.\<close>

theorem states_page_panics_iff:
  assumes inv: "store_inv s" and x: "lookup s aid = Some x" and nan: "\<not> is_nan start" "\<not> is_nan end"
  shows "(get_states_page aid start end offset limit s = None
      \<longleftrightarrow> (\<exists>st \<in> set (states x). flt end (st_time st) \<and> flt (st_time st) start))
    \<and> (flt end start \<longrightarrow> get_states_range aid start end s = Some [])"
proof -
  have ok: "timeline_ok st_time (states x)"
    using store_inv_series_ok[OF inv x] by (simp add: series_ok_def)
  have "flt end start \<Longrightarrow> window_filter st_time start end (states x) = []"
    by (auto simp: window_filter_def filter_empty_conv float_cmp)
  then show ?thesis
    using window_None_iff[OF ok nan] by (auto simp: get_states_page_def get_states_range_def x)
qed

lemma states_page_panics_iff_witness:
  "get_states_page ''07'' (F64 0x4000000000000000) f_zero 0 5 demo_store = None"
proof -
  have keys: "ord_key (F64 0x4000000000000000) = 4611686018427387904" "ord_key f_zero = 0"
    "\<not> is_nan (F64 0x4000000000000000)" "\<not> is_nan f_zero"
    by (simp_all add: f64_eval)
  show ?thesis
    using states_page_panics_iff[OF demo_inv demo_lookup, of "F64 0x4000000000000000" f_zero 0 5] keys
    by (simp add: float_cmp)
qed

section \<open>Lifecycle and liveness\<close>

definition last_lifecycle :: "f64 \<Rightarrow> TimestampedEvent list \<Rightarrow> bool option" where
  "last_lifecycle t es = find_map lifecycle_of (rev (filter (\<lambda>e. fle (ev_time e) t) es))"

lemma is_spawned_at_series:
  assumes inv: "store_inv s" and t: "is_finite t"
  shows "is_spawned_at aid t s \<longleftrightarrow> last_lifecycle t (events (series_of s aid)) = Some True"
proof (cases "lookup s aid")
  case (Some x)
  have "timeline_ok ev_time (events x)"
    using store_inv_series_ok[OF inv Some] by (simp add: series_ok_def)
  moreover have "\<not> is_infinite t" using t by (simp add: is_finite_def is_infinite_def)
  ultimately show ?thesis
    using Some t by (auto simp: is_spawned_at_def Let_def last_lifecycle_def series_of_def
        take_partition_point takeWhile_fle_filter split: option.split)
qed (simp add: is_spawned_at_def last_lifecycle_def series_of_def empty_series_def)

lemma last_lifecycle_add:
  assumes ok: "timeline_ok ev_time es" and e: "is_finite (ev_time e)"
  shows "last_lifecycle u (log_insert ev_time e es) =
    (if fle (ev_time e) u \<and> lifecycle_of e \<noteq> None
        \<and> (\<forall>y \<in> set es. flt (ev_time e) (ev_time y) \<and> fle (ev_time y) u \<longrightarrow> lifecycle_of y = None)
     then lifecycle_of e else last_lifecycle u es)"
proof -
  define A where "A = filter (\<lambda>y. fle (ev_time y) u) (filter (\<lambda>y. fle (ev_time y) (ev_time e)) es)"
  define B where "B = filter (\<lambda>y. fle (ev_time y) u) (filter (\<lambda>y. \<not> fle (ev_time y) (ev_time e)) es)"
  have "es = filter (\<lambda>y. fle (ev_time y) (ev_time e)) es @ filter (\<lambda>y. \<not> fle (ev_time y) (ev_time e)) es"
    using takeWhile_dropWhile_id[of "\<lambda>y. fle (ev_time y) (ev_time e)" es]
    by (simp only: takeWhile_fle_filter[OF ok] dropWhile_fle_filter[OF ok])
  then have "filter (\<lambda>y. fle (ev_time y) u) es = A @ B"
    unfolding A_def B_def by (metis filter_append)
  then have old: "last_lifecycle u es = find_map lifecycle_of (rev B @ rev A)"
    by (simp add: last_lifecycle_def)
  have new: "last_lifecycle u (log_insert ev_time e es)
      = find_map lifecycle_of (if fle (ev_time e) u then rev B @ e # rev A else rev B @ rev A)"
    by (simp add: last_lifecycle_def event_log.add_split[OF ok e] A_def B_def)
  have B: "(\<forall>y \<in> set es. flt (ev_time e) (ev_time y) \<and> fle (ev_time y) u \<longrightarrow> lifecycle_of y = None)
      \<longleftrightarrow> find_map lifecycle_of (rev B) = None"
    using timeline_okD[OF ok] e by (auto simp: find_map_None B_def not_fle)
  show ?thesis unfolding old new B
    by (cases "lifecycle_of e") (auto simp: find_map_append split: option.splits)
qed

text \<open>Whether an aircraft is spawned at a time, after an event was recorded: the new event decides
  when it is a spawn or despawn at or before that time and no stored spawn or despawn lies between;
  otherwise the answer is the old one. So late events cannot resurrect an aircraft.\<close>

theorem spawned_after_event:
  assumes inv: "store_inv s" and t: "is_finite t" and u: "is_finite u"
  shows "is_spawned_at aid u (append_event aid t e s) \<longleftrightarrow>
    (let n = lifecycle_of \<lparr>ev_time = t, ev_event = e\<rparr> in
     if n \<noteq> None \<and> fle t u
        \<and> (\<forall>y \<in> set (events (series_of s aid)). flt t (ev_time y) \<and> fle (ev_time y) u \<longrightarrow> lifecycle_of y = None)
     then n = Some True else is_spawned_at aid u s)"
proof -
  have ok: "timeline_ok ev_time (events (series_of s aid))"
    using series_of_ok[OF inv] by (simp add: series_ok_def)
  have "events (series_of (append_event aid t e s) aid)
      = log_insert ev_time \<lparr>ev_time = t, ev_event = e\<rparr> (events (series_of s aid))"
    using t by (cases e) (simp_all add: append_event_def Let_def series_of_def)
  then show ?thesis
    unfolding is_spawned_at_series[OF inv u] is_spawned_at_series[OF append_event_inv[OF inv] u]
    using t by (auto simp: last_lifecycle_add[OF ok] Let_def)
qed

lemma spawned_after_event_witness:
  "\<not> is_spawned_at ''07'' time_3 (append_event ''07'' time_2 (EvDespawn \<lparr>de_reason = None\<rparr>) demo_store)"
  using spawned_after_event[OF demo_inv, of time_2 time_3 "''07''" "EvDespawn \<lparr>de_reason = None\<rparr>"]
  by (simp add: lifecycle_of_def Let_def series_of_def demo_lookup float_cmp del: not_None_eq)

definition aircraft_request :: "uuid option \<Rightarrow> f64 \<Rightarrow> CommandKind \<Rightarrow> Message" where
  "aircraft_request u t k = Some (EnvRequest \<lparr>rq_id = None, rq_timestamp = t,
     rq_command = Some (Some (AircraftEventReq \<lparr>ae_aircraft_id = u, ae_info = Some \<lparr>ci_kind = Some k\<rparr>\<rparr>))\<rparr>)"

definition target_id :: "uuid option \<Rightarrow> string" where
  "target_id u = (case u of None \<Rightarrow> ''unknown'' | Some b \<Rightarrow> uuid_to_hex b)"

text \<open>A state update is live for exactly the timeout after its arrival, whatever its source
  timestamp; a despawn, clearing the store, cloning a snapshot and replacing the contents each make
  the aircraft stale at once.\<close>

theorem live_state_staleness:
  assumes "is_finite t"
  shows "(live_state_is_stale later (target_id u) timeout (append_message now (aircraft_request u t (StateUpdate st)) s)
        \<longleftrightarrow> timeout < later - now)
    \<and> live_state_is_stale later (target_id u) timeout (append_message now (aircraft_request u t (Despawn d)) s)
    \<and> live_state_is_stale later i timeout (clear_store s)
    \<and> live_state_is_stale later i timeout (snapshot_clone s)
    \<and> live_state_is_stale later i timeout (replace_from r s)"
  using assms
  by (simp add: append_message_def apply_command_def live_state_is_stale_def live_state_age_def
      aircraft_request_def event_aircraft_id_def target_id_def
      clear_store_def snapshot_clone_def replace_from_def split: option.split)

lemma live_state_staleness_witness:
  "live_state_is_stale 40 ''07'' 20 (append_message 10 (aircraft_request (Some [7]) time_1 (StateUpdate empty_state)) demo_store)
   \<and> \<not> live_state_is_stale 30 ''07'' 20 (append_message 10 (aircraft_request (Some [7]) time_1 (StateUpdate empty_state)) demo_store)"
  using live_state_staleness[OF time_finite(1), of 40 "Some [7]" 20 10 empty_state demo_store]
    live_state_staleness[OF time_finite(1), of 30 "Some [7]" 20 10 empty_state demo_store]
  by (simp add: target_id_def hex_07)

section \<open>Telemetry\<close>

definition frame_conforms :: "TelemetryStreamSchema list \<Rightarrow> TelemetryFrame \<Rightarrow> bool" where
  "frame_conforms cs fr \<longleftrightarrow>
     (\<exists>c \<in> set cs. ts_stream_id c = fr_stream_id fr \<and> list_all2 value_matches (ts_fields c) (fr_values fr))"

lemma find_mismatch:
  "find (\<lambda>(f, v). \<not> value_matches f v) ps = None \<longleftrightarrow> (\<forall>(f, v) \<in> set ps. value_matches f v)"
  by (auto simp: find_None_iff)

lemma validate_frame_Inr:
  "validate_telemetry_frame cs fr = Inr u \<longleftrightarrow>
     (\<exists>c. find (\<lambda>c. ts_stream_id c = fr_stream_id fr) cs = Some c \<and> list_all2 value_matches (ts_fields c) (fr_values fr))"
  unfolding validate_telemetry_frame_def list_all2_iff find_mismatch[symmetric]
  by (auto split: option.split)

lemma validate_frame_conforms: "validate_telemetry_frame cs fr = Inr u \<Longrightarrow> frame_conforms cs fr"
  by (auto simp: validate_frame_Inr frame_conforms_def find_Some_iff dest!: nth_mem)

definition telemetry_backed :: "TimeSeriesStore \<Rightarrow> bool" where
  "telemetry_backed s \<longleftrightarrow>
     (\<forall>aid x f. lookup s aid = Some x \<longrightarrow> f \<in> set (telemetry x) \<longrightarrow>
        (\<exists>e \<in> set (events x). \<exists>c. spawn_config e = Some c
           \<and> validate_telemetry_frame (cfg_telemetry_schemas c) (tl_frame f) = Inr ()))"

definition series_backed :: "AircraftTimeSeries \<Rightarrow> bool" where
  "series_backed x \<longleftrightarrow> (\<forall>f \<in> set (telemetry x).
     \<exists>e \<in> set (events x). \<exists>c. spawn_config e = Some c
       \<and> validate_telemetry_frame (cfg_telemetry_schemas c) (tl_frame f) = Inr ())"

lemma telemetry_backed_iff: "telemetry_backed s \<longleftrightarrow> (\<forall>aid x. lookup s aid = Some x \<longrightarrow> series_backed x)"
  by (auto simp: telemetry_backed_def series_backed_def)

lemma backed_put: "telemetry_backed s \<Longrightarrow> series_backed x \<Longrightarrow> telemetry_backed (put_series aid x s)"
  by (simp add: telemetry_backed_iff)

lemma backed_series_of: "telemetry_backed s \<Longrightarrow> series_backed (series_of s aid)"
  by (simp add: telemetry_backed_iff series_of_def series_backed_def empty_series_def split: option.split)

lemma backed_state: "telemetry_backed s \<Longrightarrow> telemetry_backed (append_state aid t st s)"
  using backed_series_of[of s aid]
  by (auto simp: append_state_def Let_def series_backed_def intro!: backed_put)

lemma backed_event:
  assumes "store_inv s" "telemetry_backed s"
  shows "telemetry_backed (append_event aid t e s)"
proof (cases "is_finite t")
  case True
  have "timeline_ok ev_time (events (series_of s aid))"
    using series_of_ok[OF assms(1)] by (simp add: series_ok_def)
  from event_log.set_add[OF this, of "\<lparr>ev_time = t, ev_event = e\<rparr>"] True backed_series_of[OF assms(2), of aid]
  show ?thesis
    by (cases e) (auto simp: append_event_def Let_def series_backed_def intro!: backed_put assms(2))
qed (simp add: append_event_def assms)

lemma backed_telemetry:
  assumes inv: "store_inv s" and b: "telemetry_backed s" and r: "append_telemetry aid t fr s = Inr s'"
  shows "telemetry_backed s'"
proof -
  obtain x u where x: "lookup s aid = Some x" "is_finite t" "validate_telemetry_frame (schemas_of x) fr = Inr u"
    "s' = put_series aid (x\<lparr>telemetry := log_insert tl_time \<lparr>tl_time = t, tl_frame = fr\<rparr> (telemetry x)\<rparr>) s"
    using r by (auto simp: append_telemetry_def split: if_splits option.splits sum.splits)
  have ok: "series_ok x" by (rule store_inv_series_ok[OF inv x(1)])
  obtain c where c: "config x = Some c" "validate_telemetry_frame (cfg_telemetry_schemas c) fr = Inr ()"
    using x(3) validate_frame_conforms[OF x(3)]
    by (cases "config x") (auto simp: schemas_of_def frame_conforms_def)
  obtain e where e: "e \<in> set (events x)" "spawn_config e = Some c"
    using ok c(1) by (auto simp: series_ok_def config_ok_def)
  have "timeline_ok tl_time (telemetry x)" using ok by (simp add: series_ok_def)
  from telemetry_log.set_add[OF this, of "\<lparr>tl_time = t, tl_frame = fr\<rparr>"] x(2)
  have "series_backed (x\<lparr>telemetry := log_insert tl_time \<lparr>tl_time = t, tl_frame = fr\<rparr> (telemetry x)\<rparr>)"
    using b x(1) c(2) e by (auto simp: telemetry_backed_iff series_backed_def)
  then show ?thesis using b unfolding x(4) by (intro backed_put)
qed

lemma backed_receipts: "telemetry_backed (record_receipt aid now s) = telemetry_backed s"
    "telemetry_backed (drop_receipt aid s) = telemetry_backed s"
  by (simp_all add: telemetry_backed_iff)

lemma backed_message:
  assumes "store_inv s" "telemetry_backed s"
  shows "telemetry_backed (append_message now msg s)"
  using assms
  by (auto simp: append_message_def apply_command_def Let_def backed_receipts
      intro: backed_state backed_event backed_telemetry inv_intros backed_receipts[THEN iffD2]
      split: option.splits Envelope.splits RequestKind.splits CommandKind.splits sum.splits)

lemma reachable_backed: "store_reachable s \<Longrightarrow> telemetry_backed s"
proof (induction rule: store_reachable.induct)
  case (message s now msg)
  then show ?case by (blast intro: backed_message store_reachable_invariant)
next
  case (event s aid t e)
  then show ?case by (blast intro: backed_event store_reachable_invariant)
next
  case (telemetry s aid t fr s')
  then show ?case by (blast intro: backed_telemetry store_reachable_invariant)
qed (simp_all add: telemetry_backed_iff[of store_new] backed_state,
     simp_all add: telemetry_backed_iff lookup_def clear_store_def snapshot_clone_def replace_from_def)

text \<open>No series is empty: an aircraft is entered with its first state or event.\<close>

definition store_filled :: "TimeSeriesStore \<Rightarrow> bool" where
  "store_filled s \<longleftrightarrow> (\<forall>aid x. lookup s aid = Some x \<longrightarrow> states x \<noteq> [] \<or> events x \<noteq> [])"

lemma filled_state: "store_filled s \<Longrightarrow> store_filled (append_state aid t st s)"
  by (simp add: store_filled_def append_state_def Let_def)

lemma filled_event: "store_filled s \<Longrightarrow> store_filled (append_event aid t e s)"
  by (simp add: store_filled_def append_event_def Let_def)

lemma filled_telemetry: "store_filled s \<Longrightarrow> append_telemetry aid t fr s = Inr s' \<Longrightarrow> store_filled s'"
  by (auto simp: store_filled_def append_telemetry_def split: if_splits option.splits sum.splits)

lemma filled_receipts: "store_filled (record_receipt aid now s) = store_filled s"
    "store_filled (drop_receipt aid s) = store_filled s"
  by (simp_all add: store_filled_def)

lemma reachable_filled: "store_reachable s \<Longrightarrow> store_filled s"
proof (induction rule: store_reachable.induct)
  case (message s now msg)
  then show ?case
    by (auto simp: append_message_def apply_command_def Let_def filled_receipts filled_state filled_event
        intro: filled_telemetry filled_event filled_state
        split: option.splits Envelope.splits RequestKind.splits CommandKind.splits sum.splits)
next
  case (telemetry s aid t fr s')
  then show ?case by (blast intro: filled_telemetry)
qed (simp_all add: filled_state filled_event,
     simp_all add: store_filled_def lookup_def store_new_def clear_store_def snapshot_clone_def replace_from_def)

text \<open>C33: Every telemetry frame in a reachable store conforms to the schemas announced by a spawn of the
  same aircraft: its stream is declared there, with as many values as fields, each of the field's
  type.\<close>

theorem telemetry_backed_by_spawn:
  assumes "store_reachable s" "lookup s aid = Some x" "f \<in> set (telemetry x)"
  shows "\<exists>e \<in> set (events x). \<exists>sp. ev_event e = EvSpawn sp \<and>
    (\<exists>c \<in> set (sp_telemetry_schemas sp). ts_stream_id c = fr_stream_id (tl_frame f)
        \<and> list_all2 value_matches (ts_fields c) (fr_values (tl_frame f)))"
proof -
  obtain e c where e: "e \<in> set (events x)" "spawn_config e = Some c"
    "validate_telemetry_frame (cfg_telemetry_schemas c) (tl_frame f) = Inr ()"
    using reachable_backed[OF assms(1)] assms(2,3) unfolding telemetry_backed_def by blast
  then obtain sp where "ev_event e = EvSpawn sp" "c = config_of_spawn sp"
    by (auto simp: spawn_config_def split: Event.splits)
  with e(1) validate_frame_conforms[OF e(3)] show ?thesis
    by (auto simp: frame_conforms_def config_of_spawn_def)
qed

lemma telemetry_backed_by_spawn_witness:
  "\<exists>c \<in> set (sp_telemetry_schemas demo_spawn). ts_stream_id c = ''eng''
     \<and> list_all2 value_matches (ts_fields c) (fr_values demo_frame)"
  using telemetry_backed_by_spawn[OF demo_reachable demo_lookup, of "\<lparr>tl_time = time_2, tl_frame = demo_frame\<rparr>"]
  by (simp add: demo_frame_def)

text \<open>A declarative reading of schema validation.\<close>

definition field_valid :: "TelemetryField \<Rightarrow> bool" where
  "field_valid f \<longleftrightarrow> \<not> trim_is_empty (tf_field_id f)
     \<and> value_type_of (tf_value_type f) \<in> {Some TVT_F64, Some TVT_I64, Some TVT_Bool}"

definition schema_valid :: "TelemetryStreamSchema \<Rightarrow> bool" where
  "schema_valid c \<longleftrightarrow> \<not> trim_is_empty (ts_stream_id c)
     \<and> (\<forall>r. ts_nominal_rate_hz c = Some r \<longrightarrow> is_finite r \<and> flt f_zero r)
     \<and> distinct (List.map tf_field_id (ts_fields c)) \<and> (\<forall>f \<in> set (ts_fields c). field_valid f)"

lemma value_type_valid:
  "(case value_type_of i of None \<Rightarrow> True | Some k \<Rightarrow> k = TVT_Unspecified)
     \<longleftrightarrow> value_type_of i \<notin> {Some TVT_F64, Some TVT_I64, Some TVT_Bool}"
  by (auto simp: value_type_of_def)

lemma validate_fields_Inr:
  "validate_fields stream seen fs = Inr () \<longleftrightarrow>
     (\<forall>f \<in> set fs. field_valid f) \<and> distinct (List.map tf_field_id fs) \<and> (\<forall>f \<in> set fs. tf_field_id f \<notin> set seen)"
  by (induction fs arbitrary: seen) (auto simp: field_valid_def value_type_valid image_iff)

lemma rate_valid:
  "(case r of None \<Rightarrow> False | Some rate \<Rightarrow> \<not> is_finite rate \<or> fle rate f_zero)
     \<longleftrightarrow> \<not> (\<forall>x. r = Some x \<longrightarrow> is_finite x \<and> flt f_zero x)"
proof -
  have "\<not> is_nan f_zero" by (simp add: f64_eval)
  then show ?thesis by (cases r) (auto simp: float_cmp)
qed

lemma seq_Inr: "(case v of Inl e \<Rightarrow> Inl e | Inr _ \<Rightarrow> w) = Inr () \<longleftrightarrow> v = Inr () \<and> w = Inr ()" for v :: "'e + unit"
  by (cases v) auto

lemma validate_schemas_from_Inr:
  "validate_schemas_from seen cs = Inr () \<longleftrightarrow>
     (\<forall>c \<in> set cs. schema_valid c) \<and> distinct (List.map ts_stream_id cs)
     \<and> (\<forall>c \<in> set cs. ts_stream_id c \<notin> set seen)"
  by (induction cs arbitrary: seen)
    (auto simp: schema_valid_def rate_valid seq_Inr validate_fields_Inr image_iff)

text \<open>Schema validation accepts a list of stream schemas exactly when stream identifiers are
  non-blank and distinct, nominal rates are finite and positive, and each stream's fields have
  non-blank distinct identifiers and a known value type.\<close>

theorem validate_schemas_iff:
  "validate_telemetry_schemas cs = Inr () \<longleftrightarrow>
     distinct (List.map ts_stream_id cs)
     \<and> (\<forall>c \<in> set cs. \<not> trim_is_empty (ts_stream_id c)
          \<and> (\<forall>r. ts_nominal_rate_hz c = Some r \<longrightarrow> is_finite r \<and> flt f_zero r)
          \<and> distinct (List.map tf_field_id (ts_fields c))
          \<and> (\<forall>f \<in> set (ts_fields c). \<not> trim_is_empty (tf_field_id f)
                \<and> value_type_of (tf_value_type f) \<in> {Some TVT_F64, Some TVT_I64, Some TVT_Bool}))"
  by (auto simp: validate_telemetry_schemas_def validate_schemas_from_Inr schema_valid_def field_valid_def)

lemma validate_schemas_iff_witness: "validate_telemetry_schemas [demo_schema, demo_schema] \<noteq> Inr ()"
  unfolding validate_schemas_iff by simp

section \<open>Queries over all aircraft\<close>

text \<open>C34: Stepping by a count from a finite cursor lands on the count-th distinct timestamp of the kind
  strictly beyond the cursor in the direction of travel, or on the furthest one when there are
  fewer, and reports nothing when there is none. Timestamps are compared by their IEEE key, so both
  zeros count once.\<close>

theorem adjacent_timestamp_spec:
  assumes "store_inv s" "is_finite cursor"
  shows "map_option (dkey forward) (adjacent_global_timestamp cursor cnt kind forward s) =
    last_opt (take cnt (sorted_list_of_set
      {k. \<exists>t \<in> kind_times kind s. k = dkey forward t \<and> dkey forward cursor < dkey forward t}))"
proof -
  have "ahead kind forward s cursor
      = {k. \<exists>t \<in> kind_times kind s. k = dkey forward t \<and> dkey forward cursor < dkey forward t}"
    by (auto simp: ahead_def)
  then show ?thesis
    using assms adjacent_loop_spec[OF assms(1,2), of forward kind cnt None]
    by (auto simp: adjacent_global_timestamp_def split: option.split)
qed

lemma demo_kind_times: "kind_times StateEntry demo_store = {time_1, time_3}"
  by (simp add: kind_times_def demo_data entry_times_def)

lemma adjacent_timestamp_spec_witness:
  "map_option ord_key (adjacent_global_timestamp time_1 2 StateEntry True demo_store) = Some (ord_key time_3)"
proof -
  have "{k. \<exists>t \<in> kind_times StateEntry demo_store. k = dkey True t \<and> dkey True time_1 < dkey True t} = {ord_key time_3}"
    unfolding demo_kind_times by (auto simp: dkey_def)
  then have "map_option (dkey True) (adjacent_global_timestamp time_1 2 StateEntry True demo_store)
      = last_opt (take 2 (sorted_list_of_set {ord_key time_3}))"
    using adjacent_timestamp_spec[OF demo_inv time_finite(1), of True 2 StateEntry] by (simp only:)
  moreover have "dkey True = ord_key" by (simp add: dkey_def fun_eq_iff)
  ultimately show ?thesis by (simp add: last_opt_def del: time_keys)
qed

text \<open>The global bounds are the earliest and latest stored timestamps over states, events and
  telemetry of every aircraft: both are stored, finite, and every stored timestamp lies between
  them; there are no bounds exactly when nothing is stored.\<close>

theorem time_bounds_spec:
  assumes "store_inv s"
  shows "case active_time_bounds s of
      None \<Rightarrow> store_times s = {}
    | Some (lo, hi) \<Rightarrow> lo \<in> store_times s \<and> hi \<in> store_times s \<and> is_finite lo \<and> is_finite hi
        \<and> (\<forall>t \<in> store_times s. fle lo t \<and> fle t hi)"
  using bounds_None[OF assms] bounds_Some[OF assms]
  by (cases "active_time_bounds s") (auto split: prod.split)

lemma time_bounds_spec_witness: "active_time_bounds demo_store \<noteq> None"
proof -
  have "time_1 \<in> store_times demo_store"
    by (simp add: store_times_def demo_data series_times_def)
  with time_bounds_spec[OF demo_inv] show ?thesis by (auto split: option.splits)
qed

definition all_events :: "f64 \<Rightarrow> f64 \<Rightarrow> (string \<times> AircraftTimeSeries) list \<Rightarrow> GlobalTimestampedEvent list" where
  "all_events start end m = concat (List.map (\<lambda>(aid, x). List.map (global_event aid) (window_filter ev_time start end (events x))) m)"

lemma collect_events_eq:
  assumes "store_inv s" "fle start end"
  shows "collect_events s start end ids =
    Some (concat (List.map (\<lambda>i. case lookup s i of None \<Rightarrow> [] | Some x \<Rightarrow>
       List.map (global_event i) (window_filter ev_time start end (events x))) ids))"
  by (induction ids) (auto simp: store_window[OF assms(1) _ assms(2)] split: option.split)

lemma mset_concat_map: "mset (concat (List.map g xs)) = (\<Sum>i \<in># mset xs. mset (g i))"
  by (induction xs) simp_all

lemma mset_all_events:
  assumes inv: "store_inv s"
  shows "mset (concat (List.map (\<lambda>i. case lookup s i of None \<Rightarrow> [] | Some x \<Rightarrow>
       List.map (global_event i) (window_filter ev_time start end (events x))) (get_aircraft_ids s)))
    = mset (all_events start end (data s))"
proof -
  let ?g = "\<lambda>i. case lookup s i of None \<Rightarrow> [] | Some x \<Rightarrow>
       List.map (global_event i) (window_filter ev_time start end (events x))"
  have "mset (concat (List.map ?g (get_aircraft_ids s))) = mset (concat (List.map ?g (al_keys (data s))))"
    by (simp only: mset_concat_map mset_sort get_aircraft_ids_def)
  also have "concat (List.map ?g (al_keys (data s))) = all_events start end (data s)"
  proof -
    have "?g (fst e) = (case e of (aid, x) \<Rightarrow> List.map (global_event aid) (window_filter ev_time start end (events x)))"
      if e: "e \<in> set (data s)" for e
    proof -
      have "lookup s (fst e) = Some (snd e)" using e in_data_lookup[OF inv, of "fst e" "snd e"] by simp
      then show ?thesis by (simp add: split_beta)
    qed
    then show ?thesis unfolding all_events_def by (auto intro!: arg_cong[of _ _ concat])
  qed
  finally show ?thesis .
qed

text \<open>The global event page over the whole result is exactly the multiset of every aircraft's
  in-range events, sorted by (timestamp, aircraft identifier), and events of one aircraft with the
  same timestamp stay in that aircraft's log order.\<close>

theorem global_events_page_spec:
  assumes inv: "store_inv s" and le: "fle start end"
    and pg: "get_global_events_page start end 0 limit s = Some pg" and all: "pg_total pg \<le> limit"
  shows "mset (pg_items pg) = mset (all_events start end (data s))
    \<and> sorted (List.map event_order (pg_items pg))
    \<and> filter (\<lambda>e. event_order e = (t, aid)) (pg_items pg)
        = List.map (global_event aid) (filter (\<lambda>e. ev_time e = t) (case lookup s aid of None \<Rightarrow> []
            | Some x \<Rightarrow> window_filter ev_time start end (events x)))"
proof -
  let ?g = "\<lambda>i. case lookup s i of None \<Rightarrow> [] | Some x \<Rightarrow>
       List.map (global_event i) (window_filter ev_time start end (events x))"
  define es where "es = concat (List.map ?g (get_aircraft_ids s))"
  have items: "pg_items pg = sort_key event_order es"
    using pg all by (auto simp: get_global_events_page_def collect_events_eq[OF inv le] es_def[symmetric]
        page_slice_def Let_def)
  have own: "filter (\<lambda>e. event_order e = (t, aid)) (?g i)
      = (if i = aid then List.map (global_event aid) (filter (\<lambda>e. ev_time e = t) (case lookup s aid of None \<Rightarrow> []
            | Some x \<Rightarrow> window_filter ev_time start end (events x))) else [])" for i
    by (auto simp: event_order_def global_event_def filter_map o_def split: option.split)
  have one: "distinct ids \<Longrightarrow> concat (List.map (\<lambda>i. if i = aid then w else []) ids) = (if aid \<in> set ids then w else [])"
    for ids and w :: "GlobalTimestampedEvent list"
    by (induction ids) auto
  have "distinct (get_aircraft_ids s)" "aid \<notin> set (get_aircraft_ids s) \<Longrightarrow> lookup s aid = None"
    using inv by (auto simp: get_aircraft_ids_def store_inv_def lookup_def map_of_eq_None_iff)
  then have "filter (\<lambda>e. event_order e = (t, aid)) es
      = List.map (global_event aid) (filter (\<lambda>e. ev_time e = t) (case lookup s aid of None \<Rightarrow> []
            | Some x \<Rightarrow> window_filter ev_time start end (events x)))"
    by (simp add: es_def filter_concat o_def own one cong: option.case_cong)
  moreover have "filter (\<lambda>e. event_order e = (t, aid)) (sort_key event_order es) = filter (\<lambda>e. event_order e = (t, aid)) es"
    by (rule sort_key_stable)
  ultimately show ?thesis
    using mset_all_events[OF inv, of start "end"] by (simp add: items es_def[symmetric])
qed

lemma global_events_page_spec_witness:
  "case get_global_events_page time_1 time_3 0 9 demo_store of None \<Rightarrow> False
    | Some pg \<Rightarrow> mset (pg_items pg) = {#global_event ''07'' \<lparr>ev_time = time_1, ev_event = EvSpawn demo_spawn\<rparr>#}"
proof -
  have le: "fle time_1 time_3" by (simp add: float_cmp)
  have ids: "get_aircraft_ids demo_store = [''07'']" by (simp add: get_aircraft_ids_def demo_data)
  have "all_events time_1 time_3 (data demo_store)
      = [global_event ''07'' \<lparr>ev_time = time_1, ev_event = EvSpawn demo_spawn\<rparr>]"
    by (simp add: all_events_def demo_data window_filter_def float_cmp)
  moreover obtain pg where pg: "get_global_events_page time_1 time_3 0 9 demo_store = Some pg" "pg_total pg \<le> 9"
    by (simp add: get_global_events_page_def ids collect_events_eq[OF demo_inv le] demo_lookup page_slice_def
        Let_def window_filter_def float_cmp del: collect_events.simps)
  ultimately show ?thesis using global_events_page_spec[OF demo_inv le pg] by simp
qed

end
