(* ===== verification/Playback_Properties.thy ===== *)
theory Playback_Properties
  imports Playback Store_Properties
begin

text \<open>
  What the playback controller of \<open>core/src/playback.rs\<close> promises under every interleaving of
  commands with store changes: it never panics, the cursor it reports lies within the bounds it
  reports, playing moves forward and stops at the end, seeking and stepping land where they say,
  and an aircraft is resolved without looking past the cursor.
\<close>

section \<open>Interleavings of commands and store changes\<close>

inductive playback_run :: "ReplayConfig \<Rightarrow> TimeSeriesStore \<Rightarrow> PlaybackInner \<Rightarrow> bool" for cfg where
  start: "store_reachable s \<Longrightarrow> playback_run cfg s (playback_new cfg)"
| store: "playback_run cfg s p \<Longrightarrow> store_reachable s' \<Longrightarrow> playback_run cfg s' p"
| command: "playback_run cfg s p \<Longrightarrow> run_playback clk cfg s cmd p = Some (Inr (snap, p'))
    \<Longrightarrow> playback_run cfg s p'"

inductive_cases command_run: "playback_run cfg s p"

lemma playback_run_inv:
  "playback_run cfg s p \<Longrightarrow> replay_config_ok cfg \<Longrightarrow> store_inv s \<and> inner_ok cfg p"
proof (induction rule: playback_run.induct)
  case (command s p clk cmd snap p')
  then show ?case using run_playback_ok[of s cfg p clk cmd] by (auto simp: result_ok_def)
qed (auto intro: store_reachable_invariant playback_new_ok)

lemma default_config_ok: "replay_config_ok replay_config_default"
  by (simp add: replay_config_ok_def replay_config_default_def f_within_def f64_eval)

section \<open>Properties\<close>

text \<open>C12: Whatever commands and store changes came before, every playback command returns (no clamp
  panics). On success the reported cursor is finite and within the reported bounds, or absent
  exactly when the bounds are; the speed stays within the configured range; and the wall-clock
  anchor is set exactly while playing.\<close>

theorem playback_commands_safe:
  assumes run: "playback_run cfg s p" and cfg: "replay_config_ok cfg"
  shows "case run_playback clk cfg s cmd p of
      None \<Rightarrow> False
    | Some (Inl _) \<Rightarrow> True
    | Some (Inr (snap, p')) \<Rightarrow>
        (case (snap_bounds snap, snap_cursor snap) of
           (None, None) \<Rightarrow> True
         | (Some (lo, hi), Some c) \<Rightarrow> is_finite c \<and> fle lo c \<and> fle c hi
         | _ \<Rightarrow> False)
        \<and> f_within (min_speed cfg) (max_speed cfg) (snap_speed snap)
        \<and> (anchor p' \<noteq> None \<longleftrightarrow> snap_mode snap = ReplayPlaying)"
proof -
  have "store_inv s" "inner_ok cfg p" using playback_run_inv[OF run cfg] by simp_all
  from run_playback_ok[OF this, of clk cmd] obtain r where r: "run_playback clk cfg s cmd p = Some r" "result_ok cfg r"
    by blast
  show ?thesis
  proof (cases r)
    case (Inr q)
    obtain snap p' where q: "q = (snap, p')" by (cases q)
    have f: "inner_ok cfg p'" "placed (snap_bounds snap) p'" "snap = snapshot_from_inner p' (snap_bounds snap)"
      using r(2) by (simp_all add: result_ok_def Inr q)
    then have "snap_cursor snap = cursor_secs p'" "snap_speed snap = speed p'" "snap_mode snap = mode p'"
      by (metis snapshot_from_inner_def PlaybackSnapshot.select_convs)+
    then show ?thesis
      using f(1,2) by (auto simp: r(1) Inr q inner_ok_def placed_def f_within_def split: option.splits)
  qed (simp add: r(1))
qed

lemma playback_commands_safe_witness:
  "run_playback (\<lambda>_. 0) replay_config_default demo_store (CmdStep Sample Next 3) (playback_new replay_config_default) \<noteq> None"
  using playback_commands_safe[OF start[OF demo_reachable] default_config_ok, of "\<lambda>_. 0" "CmdStep Sample Next 3"]
  by (auto split: option.splits)

lemma playing_next_ge:
  assumes "replay_config_ok cfg" "inner_ok cfg p" "is_finite c"
  shows "fle c (fadd c (fmul (case anchor p of None \<Rightarrow> f_zero | Some a \<Rightarrow> as_secs_f64 (clk 0 - a)) (speed p)))"
proof -
  have "is_finite (speed p)" "flt f_zero (speed p)"
    using assms(1,2) by (auto simp: replay_config_ok_def inner_ok_def f_within_def intro: flt_fle_trans)
  then show ?thesis
    by (intro fadd_nonneg_ge assms(3) fmul_pos_nonneg) (auto simp: as_secs_nonneg split: option.split)
qed

text \<open>While playing, the cursor never moves backward (as long as it still lies in the store's bounds): a
  snapshot either advances it and stays playing with the same revision, strictly before the end, or
  stops exactly at the end, paused, with the revision incremented once.\<close>

theorem playing_moves_forward:
  assumes cfg: "replay_config_ok cfg" and inv: "store_inv s" and ok: "inner_ok cfg p"
    and playing: "mode p = ReplayPlaying" and c: "cursor_secs p = Some c"
    and b: "active_time_bounds s = Some (lo, hi)" and c_in: "f_within lo hi c"
  shows "\<exists>snap p' c'. playback_snapshot clk s p = Some (Inr (snap, p')) \<and> snap_cursor snap = Some c' \<and> fle c c'
    \<and> ((snap_mode snap = ReplayPlaying \<and> flt c' hi \<and> snap_revision snap = revision p)
       \<or> (snap_mode snap = ReplayPaused \<and> c' = hi \<and> snap_revision snap = revision p + 1))"
proof -
  define nxt where "nxt = fadd c (fmul (case anchor p of None \<Rightarrow> f_zero | Some a \<Rightarrow> as_secs_f64 (clk 0 - a)) (speed p))"
  have fc: "is_finite c" using ok c by (simp add: inner_ok_def)
  have ge: "fle c nxt" unfolding nxt_def by (rule playing_next_ge[OF cfg ok fc])
  have fin: "is_finite hi" "is_finite lo" using bounds_Some[OF inv b] by simp_all
  show ?thesis
  proof (cases "fle hi nxt")
    case True
    with playing c b c_in show ?thesis
      by (auto simp: playback_snapshot_def update_effective_cursor_def Let_def nxt_def[symmetric]
          snapshot_from_inner_def f_within_def)
  next
    case False
    have nan: "\<not> is_nan nxt" using ge by (simp add: fle_def)
    have key: "ord_key (fmax nxt lo) = ord_key nxt" "\<not> is_nan (fmax nxt lo)"
      using fmax_key[of nxt lo] fmax_cases[of nxt lo] nan fin ge c_in by (auto simp: float_cmp)
    have "flt (fmax nxt lo) hi" "fle c (fmax nxt lo)"
      using False ge fin key by (auto simp: float_cmp)
    with False playing c b show ?thesis
      by (auto simp: playback_snapshot_def update_effective_cursor_def Let_def nxt_def[symmetric]
          snapshot_from_inner_def)
  qed
qed

definition demo_playing :: PlaybackInner where
  "demo_playing = \<lparr>mode = ReplayPlaying, cursor_secs = Some time_2, speed = f_one, anchor = Some 0, revision = 4\<rparr>"

lemma default_speeds:
  "f_within (min_speed replay_config_default) (max_speed replay_config_default) f_one"
  by (simp add: replay_config_default_def f_within_def f64_eval)

lemma demo_bounds: "active_time_bounds demo_store = Some (time_1, time_3)"
  by (simp add: active_time_bounds_def demo_data widen_def first_stamp_def last_stamp_def opt_list_def
      last_opt_def min_def max_def less_eq_f64_def tot_key_def time_1_def time_2_def time_3_def f64_eval)

lemma playing_moves_forward_witness:
  "\<exists>snap p' c'. playback_snapshot (\<lambda>_. 9) demo_store demo_playing = Some (Inr (snap, p'))
     \<and> snap_cursor snap = Some c' \<and> fle time_2 c'"
proof -
  have "inner_ok replay_config_default demo_playing"
    using default_speeds by (simp add: inner_ok_def demo_playing_def)
  moreover have "f_within time_1 time_3 time_2" by (simp add: float_cmp)
  ultimately show ?thesis
    using playing_moves_forward[OF default_config_ok demo_inv, of demo_playing time_2 time_1 time_3 "\<lambda>_. 9"]
    by (auto simp: demo_playing_def demo_bounds)
qed

text \<open>Seeking to a finite time pauses at that time, clamped into the store's bounds (by IEEE order),
  and every later snapshot of the unchanged store, at any clock reading, reports that same cursor
  and revision.\<close>

theorem seek_holds_cursor:
  assumes inv: "store_inv s" and t: "is_finite t" and b: "active_time_bounds s = Some (lo, hi)"
  shows "\<exists>snap p' c. playback_seek t s p = Some (Inr (snap, p')) \<and> snap_mode snap = ReplayPaused
    \<and> snap_cursor snap = Some c \<and> ord_key c = min (ord_key hi) (max (ord_key lo) (ord_key t))
    \<and> snap_revision snap = revision p + 1
    \<and> (\<forall>clk. playback_snapshot clk s p' = Some (Inr (snap, p')))"
proof -
  obtain c where c: "fclamp t lo hi = Some c" "is_finite c" "f_within lo hi c"
    using store_source.clamp_total[OF inv b t] by blast
  moreover have "ord_key c = min (ord_key hi) (max (ord_key lo) (ord_key t))"
    using fclamp_key[OF bounds_Some(5)[OF inv b] _ c(1)] t by simp
  ultimately show ?thesis
    using t b by (simp add: playback_seek_def commit_def Let_def snapshot_from_inner_def playback_snapshot_def
        update_effective_cursor_def fclamp_id)
qed

lemma seek_holds_cursor_witness:
  "\<exists>snap p'. playback_seek time_2 demo_store demo_playing = Some (Inr (snap, p')) \<and> snap_mode snap = ReplayPaused"
  using seek_holds_cursor[OF demo_inv time_finite(2) demo_bounds, of demo_playing] by blast

text \<open>A step from a paused cursor within the bounds lands on the count-th distinct stored timestamp
  of the chosen kind strictly beyond the cursor in the chosen direction (the furthest one when there
  are fewer), and stays put when there is none; counts outside 1..100 are refused.\<close>

theorem step_lands_on_timestamp:
  assumes inv: "store_inv s" and b: "active_time_bounds s = Some (lo, hi)"
    and paused: "mode p = ReplayPaused" "cursor_secs p = Some c" "f_within lo hi c"
  shows "case playback_step clk u d cnt s p of
      None \<Rightarrow> False
    | Some (Inl e) \<Rightarrow> e = InvalidStepCount \<and> (cnt = 0 \<or> 100 < cnt)
    | Some (Inr (snap, p')) \<Rightarrow> 1 \<le> cnt \<and> cnt \<le> 100 \<and> snap_mode snap = ReplayPaused
        \<and> map_option (dkey (d = Next)) (snap_cursor snap) = Some (case last_opt (take cnt (sorted_list_of_set
             (ahead (if u = Sample then StateEntry else EventEntry) (d = Next) s c)))
           of None \<Rightarrow> dkey (d = Next) c | Some k \<Rightarrow> k)"
proof -
  have fc: "is_finite c" using bounds_Some(3,4)[OF inv b] paused(3) by (rule within_finite)
  have upd: "update_effective_cursor clk (Some (lo, hi)) p = Some (p\<lparr>cursor_secs := Some c, anchor := None\<rparr>)"
    using paused by (simp add: update_effective_cursor_def fclamp_id)
  have target: "map_option (dkey (d = Next)) (step_target u d c cnt s)
      = last_opt (take cnt (sorted_list_of_set (ahead (if u = Sample then StateEntry else EventEntry) (d = Next) s c)))"
    using adjacent_loop_spec[OF inv fc, of "d = Next" "if u = Sample then StateEntry else EventEntry" cnt None] fc
    by (cases u; cases d) (auto simp: step_target_def previous_global_state_timestamp_def
        next_global_state_timestamp_def previous_global_event_timestamp_def next_global_event_timestamp_def
        adjacent_global_timestamp_def split: option.splits)
  show ?thesis
    using store_source.clamp_target[OF inv b fc paused(3), of u d cnt] target[symmetric] paused b
    by (auto simp: playback_step_def upd commit_def Let_def snapshot_from_inner_def split: option.split)
qed

definition demo_paused :: PlaybackInner where
  "demo_paused = \<lparr>mode = ReplayPaused, cursor_secs = Some time_2, speed = f_one, anchor = None, revision = 4\<rparr>"

lemma demo_ahead: "ahead StateEntry True demo_store time_2 = {ord_key time_3}"
  by (auto simp: ahead_def demo_kind_times dkey_def)

lemma step_lands_on_timestamp_witness:
  "case playback_step (\<lambda>_. 0) Sample Next 2 demo_store demo_paused of
      Some (Inr (snap, p')) \<Rightarrow> map_option ord_key (snap_cursor snap) = Some (ord_key time_3) | _ \<Rightarrow> False"
proof -
  have p: "mode demo_paused = ReplayPaused" "cursor_secs demo_paused = Some time_2" "f_within time_1 time_3 time_2"
    by (simp_all add: demo_paused_def float_cmp)
  have "dkey True = ord_key" by (simp add: dkey_def fun_eq_iff)
  then show ?thesis
    using step_lands_on_timestamp[OF demo_inv demo_bounds p, where clk = "\<lambda>_. 0" and u = Sample and d = Next and cnt = 2]
    by (auto simp: demo_ahead last_opt_def split: option.splits sum.splits)
qed

text \<open>Resolving an aircraft against a snapshot never looks past the snapshot's time (the cursor, or
  no limit when live): the sample is a stored state at or before it with none later among those, and
  the spawned flag is the last spawn or despawn at or before it.\<close>

theorem resolve_no_lookahead:
  assumes inv: "store_inv s"
    and limit: "if snap_mode pb = Live then limit = f_infinity
      else snap_cursor pb = Some limit \<and> is_finite limit"
    and r: "resolve_aircraft_with pb aid s = Some r"
  shows "\<exists>x. lookup s aid = Some x \<and> rs_sample r \<in> set (states x) \<and> fle (st_time (rs_sample r)) limit
    \<and> (\<forall>y \<in> set (states x). fle (st_time y) limit \<longrightarrow> fle (st_time y) (st_time (rs_sample r)))
    \<and> (rs_spawned r \<longleftrightarrow> last_lifecycle limit (events x) = Some True)"
proof (cases "snap_mode pb = Live")
  case True
  with limit have l: "limit = f_infinity" by simp
  obtain x where x: "lookup s aid = Some x" "last_opt (states x) = Some (rs_sample r)"
    and sp: "rs_spawned r = is_spawned_at aid f_infinity s"
    using r True by (auto simp: resolve_aircraft_with_def get_latest_def split: option.splits bind_splits)
  have ok: "timeline_ok st_time (states x)" "timeline_ok ev_time (events x)"
    using store_inv_series_ok[OF inv x(1)] by (simp_all add: series_ok_def)
  have ends: "is_infinite f_infinity" "is_sign_positive f_infinity"
    by (simp_all add: is_sign_positive_def f64_eval)
  have "filter (\<lambda>e. fle (ev_time e) f_infinity) (events x) = events x"
    using timeline_okD[OF ok(2)] by (auto intro!: filter_True)
  then have "rs_spawned r \<longleftrightarrow> last_lifecycle limit (events x) = Some True"
    using sp ends l x(1) by (auto simp: is_spawned_at_def last_lifecycle_def Let_def split: option.split)
  then show ?thesis
    using x(1) last_opt_Some[OF x(2)] timeline_last_max[OF ok(1) x(2)] timeline_okD[OF ok(1)] l
    by auto
next
  case False
  with limit have l: "snap_cursor pb = Some limit" "is_finite limit" by simp_all
  obtain x where x: "lookup s aid = Some x" "at_or_before st_time limit (states x) = Some (rs_sample r)"
    and sp: "rs_spawned r = is_spawned_at aid limit s"
    using r False l by (auto simp: resolve_aircraft_with_def get_state_at_or_before_def split: option.splits bind_splits)
  have ok: "timeline_ok st_time (states x)"
    using store_inv_series_ok[OF inv x(1)] by (simp add: series_ok_def)
  show ?thesis
    using x(1) state_log.at_or_before_Some[OF ok x(2)] is_spawned_at_series[OF inv l(2), of aid] sp
    by (auto simp: series_of_def)
qed

lemma resolve_no_lookahead_witness:
  "\<exists>r. resolve_aircraft_with (snapshot_from_inner demo_paused None) ''07'' demo_store = Some r
     \<and> rs_spawned r \<and> fle (st_time (rs_sample r)) time_2"
proof -
  let ?pb = "snapshot_from_inner demo_paused None"
  have pb: "snap_mode ?pb = ReplayPaused" "snap_cursor ?pb = Some time_2"
    by (simp_all add: snapshot_from_inner_def demo_paused_def)
  obtain r where r: "resolve_aircraft_with ?pb ''07'' demo_store = Some r"
    by (simp add: resolve_aircraft_with_def pb get_state_at_or_before_def demo_lookup at_or_before_def
        partition_point_def checked_sub_def nth_opt_def float_cmp)
  have "last_lifecycle time_2 [\<lparr>ev_time = time_1, ev_event = EvSpawn demo_spawn\<rparr>] = Some True"
    by (simp add: last_lifecycle_def lifecycle_of_def float_cmp)
  with resolve_no_lookahead[OF demo_inv _ r, of time_2] r pb show ?thesis
    by (auto simp: demo_lookup)
qed

end
