(* ===== verification/Store_Persist.thy ===== *)
theory Store_Persist
  imports Store_Properties
begin

text \<open>
  Saving and loading a session (\<open>save_to_disk\<close>, \<open>load_from_disk\<close> and their helpers in
  \<open>core/src/store.rs\<close>). A session directory is a record of its four optional files: the JSON
  document and the rows of the three Parquet tables. The protobuf, JSON and UTF-8 codecs are the
  parameter \<open>Codec\<close>; input/output failures are not modelled. The lemmas show what loading the
  saved rows rebuilds, the properties that a session round-trips when each aircraft's frames fit the
  schemas of its last spawn, and that it does not load at all otherwise.
\<close>

section \<open>Files and codecs\<close>

record MetaAircraft =
  ma_id :: string
  ma_name :: "string option"
  ma_toml_config :: "string option"
  ma_time_range :: "(f64 \<times> f64) option"
  ma_state_count :: nat
  ma_event_count :: nat

record MetaFile =
  mf_version :: string
  mf_aircrafts :: "MetaAircraft list"

record 'b Codec =
  enc_state :: "AircraftState \<Rightarrow> 'b"
  dec_state :: "'b \<Rightarrow> AircraftState option"
  enc_spawn :: "AircraftSpawnInfo \<Rightarrow> 'b"
  dec_spawn :: "'b \<Rightarrow> AircraftSpawnInfo option"
  enc_despawn :: "DespawnInfo \<Rightarrow> 'b"
  dec_despawn :: "'b \<Rightarrow> DespawnInfo option"
  enc_frame :: "TelemetryFrame \<Rightarrow> 'b"
  dec_frame :: "'b \<Rightarrow> TelemetryFrame option"
  as_bytes :: "string \<Rightarrow> 'b"
  from_utf8 :: "'b \<Rightarrow> string option"
  enc_meta :: "MetaFile \<Rightarrow> 'b"
  dec_meta :: "'b \<Rightarrow> MetaFile option"

definition codec_ok :: "'b Codec \<Rightarrow> bool" where
  "codec_ok k \<longleftrightarrow> (\<forall>x. dec_state k (enc_state k x) = Some x) \<and> (\<forall>x. dec_spawn k (enc_spawn k x) = Some x)
     \<and> (\<forall>x. dec_despawn k (enc_despawn k x) = Some x) \<and> (\<forall>x. dec_frame k (enc_frame k x) = Some x)
     \<and> (\<forall>x. from_utf8 k (as_bytes k x) = Some x) \<and> (\<forall>x. dec_meta k (enc_meta k x) = Some x)"

record 'b SessionDir =
  dir_meta :: "'b option"
  dir_states :: "(string \<times> f64 \<times> 'b) list option"
  dir_events :: "(string \<times> f64 \<times> string \<times> 'b) list option"
  dir_telemetry :: "(string \<times> f64 \<times> 'b) list option"

section \<open>Saving\<close>

definition meta_of :: "string \<times> AircraftTimeSeries \<Rightarrow> MetaAircraft" where
  "meta_of e = (case e of (aid, x) \<Rightarrow>
     \<lparr>ma_id = aid, ma_name = map_option cfg_name (config x),
      ma_toml_config = map_option cfg_toml_config (config x), ma_time_range = aircraft_time_range x,
      ma_state_count = length (states x), ma_event_count = length (events x)\<rparr>)"

definition write_meta :: "'b Codec \<Rightarrow> TimeSeriesStore \<Rightarrow> 'b" where
  "write_meta k s = enc_meta k \<lparr>mf_version = PROTOCOL_VERSION, mf_aircrafts = sort_key ma_id (map meta_of (data s))\<rparr>"

definition write_states :: "'b Codec \<Rightarrow> TimeSeriesStore \<Rightarrow> (string \<times> f64 \<times> 'b) list" where
  "write_states k s = concat (map (\<lambda>(aid, x).
     map (\<lambda>st. (aid, st_time st, enc_state k (st_state st))) (states x)) (data s))"

definition encode_event :: "'b Codec \<Rightarrow> Event \<Rightarrow> string \<times> 'b" where
  "encode_event k e =
     (case e of
        EvSpawn sp \<Rightarrow> (''spawn'', enc_spawn k sp)
      | EvDespawn d \<Rightarrow> (''despawn'', enc_despawn k d)
      | EvCustom c \<Rightarrow> (''custom'', as_bytes k c))"

definition write_events :: "'b Codec \<Rightarrow> TimeSeriesStore \<Rightarrow> (string \<times> f64 \<times> string \<times> 'b) list" where
  "write_events k s = concat (map (\<lambda>(aid, x).
     map (\<lambda>e. (aid, ev_time e, encode_event k (ev_event e))) (events x)) (data s))"

definition write_telemetry :: "'b Codec \<Rightarrow> TimeSeriesStore \<Rightarrow> (string \<times> f64 \<times> 'b) list" where
  "write_telemetry k s = concat (map (\<lambda>(aid, x).
     map (\<lambda>f. (aid, tl_time f, enc_frame k (tl_frame f))) (telemetry x)) (data s))"

definition save_to_disk :: "'b Codec \<Rightarrow> TimeSeriesStore \<Rightarrow> 'b SessionDir" where
  "save_to_disk k s =
     \<lparr>dir_meta = Some (write_meta k s), dir_states = Some (write_states k s),
      dir_events = Some (write_events k s), dir_telemetry = Some (write_telemetry k s)\<rparr>"

section \<open>Loading\<close>

definition decode_event :: "'b Codec \<Rightarrow> string \<Rightarrow> 'b \<Rightarrow> StoreError + Event" where
  "decode_event k kind payload =
     (if kind = ''spawn'' then (case dec_spawn k payload of None \<Rightarrow> Inl DecodeError | Some sp \<Rightarrow> Inr (EvSpawn sp))
      else if kind = ''despawn'' then (case dec_despawn k payload of None \<Rightarrow> Inl DecodeError | Some d \<Rightarrow> Inr (EvDespawn d))
      else if kind = ''custom'' then (case from_utf8 k payload of None \<Rightarrow> Inl (InvalidData InvalidUtf8Event) | Some c \<Rightarrow> Inr (EvCustom c))
      else Inl (InvalidData (UnknownEventType kind)))"

fun load_rows :: "('r \<Rightarrow> TimeSeriesStore \<Rightarrow> StoreError + TimeSeriesStore) \<Rightarrow> 'r list \<Rightarrow> TimeSeriesStore
    \<Rightarrow> StoreError + TimeSeriesStore" where
  "load_rows ld [] s = Inr s"
| "load_rows ld (r # rs) s = (case ld r s of Inl e \<Rightarrow> Inl e | Inr s' \<Rightarrow> load_rows ld rs s')"

definition read_state_row :: "'b Codec \<Rightarrow> string \<times> f64 \<times> 'b \<Rightarrow> TimeSeriesStore \<Rightarrow> StoreError + TimeSeriesStore" where
  "read_state_row k r s = (case r of (aid, t, payload) \<Rightarrow>
     (case dec_state k payload of None \<Rightarrow> Inl DecodeError | Some st \<Rightarrow> Inr (append_state aid t st s)))"

definition read_event_row ::
  "'b Codec \<Rightarrow> string \<times> f64 \<times> string \<times> 'b \<Rightarrow> TimeSeriesStore \<Rightarrow> StoreError + TimeSeriesStore" where
  "read_event_row k r s = (case r of (aid, t, kind, payload) \<Rightarrow>
     (case decode_event k kind payload of Inl e \<Rightarrow> Inl e | Inr e \<Rightarrow> Inr (append_event aid t e s)))"

definition read_telemetry_row ::
  "'b Codec \<Rightarrow> string \<times> f64 \<times> 'b \<Rightarrow> TimeSeriesStore \<Rightarrow> StoreError + TimeSeriesStore" where
  "read_telemetry_row k r s = (case r of (aid, t, payload) \<Rightarrow>
     (case dec_frame k payload of None \<Rightarrow> Inl DecodeError | Some fr \<Rightarrow> append_telemetry aid t fr s))"

definition apply_meta :: "MetaAircraft \<Rightarrow> TimeSeriesStore \<Rightarrow> TimeSeriesStore" where
  "apply_meta m s =
     (case lookup s (ma_id m) of
        None \<Rightarrow> s
      | Some x \<Rightarrow>
          (case (ma_name m, ma_toml_config m) of
             (Some name, Some toml) \<Rightarrow>
               put_series (ma_id m) (x\<lparr>config := Some \<lparr>cfg_name = name, cfg_toml_config = toml,
                 cfg_telemetry_schemas = schemas_of x\<rparr>\<rparr>) s
           | _ \<Rightarrow> s))"

definition read_meta :: "'b Codec \<Rightarrow> 'b option \<Rightarrow> TimeSeriesStore \<Rightarrow> StoreError + TimeSeriesStore" where
  "read_meta k file s =
     (case file of
        None \<Rightarrow> Inr s
      | Some b \<Rightarrow> (case dec_meta k b of
          None \<Rightarrow> Inl JsonError
        | Some m \<Rightarrow> Inr (fold apply_meta (mf_aircrafts m) s)))"

definition opt_rows :: "'r list option \<Rightarrow> 'r list" where
  "opt_rows f = (case f of None \<Rightarrow> [] | Some rs \<Rightarrow> rs)"

definition bind_store ::
  "StoreError + TimeSeriesStore \<Rightarrow> (TimeSeriesStore \<Rightarrow> StoreError + TimeSeriesStore) \<Rightarrow> StoreError + TimeSeriesStore" where
  "bind_store r f = (case r of Inl e \<Rightarrow> Inl e | Inr s \<Rightarrow> f s)"

definition load_session :: "'b Codec \<Rightarrow> 'b SessionDir \<Rightarrow> StoreError + TimeSeriesStore" where
  "load_session k d =
     bind_store (load_rows (read_state_row k) (opt_rows (dir_states d)) store_new) (\<lambda>s1.
     bind_store (load_rows (read_event_row k) (opt_rows (dir_events d)) s1) (\<lambda>s2.
     bind_store (load_rows (read_telemetry_row k) (opt_rows (dir_telemetry d)) s2) (\<lambda>s3.
     read_meta k (dir_meta d) s3)))"

definition load_from_disk :: "'b Codec \<Rightarrow> 'b SessionDir \<Rightarrow> TimeSeriesStore \<Rightarrow> StoreError + TimeSeriesStore" where
  "load_from_disk k d s = bind_store (load_session k d) (\<lambda>loaded. Inr (replace_from loaded s))"

section \<open>Loading aircraft by aircraft\<close>

lemma load_rows_append:
  "load_rows ld (rs @ rs') s = bind_store (load_rows ld rs s) (load_rows ld rs')"
  by (induction rs arbitrary: s) (auto simp: bind_store_def split: sum.split)

text \<open>
  The rows of one aircraft form a block; if every block acts on its own aircraft by \<open>g\<close>, the whole
  table acts on each aircraft by its own \<open>g\<close>.
\<close>

lemma load_blocks:
  assumes one: "\<And>aid x s. (aid, x) \<in> set m \<Longrightarrow> lookup s aid = before aid \<Longrightarrow>
      \<exists>r. load_rows ld (block (aid, x)) s = Inr r \<and> lookup r = (lookup s)(aid := after aid)"
    and m: "distinct (al_keys m)" and s: "\<And>aid. aid \<in> set (al_keys m) \<Longrightarrow> lookup s aid = before aid"
  shows "\<exists>r. load_rows ld (concat (map block m)) s = Inr r
    \<and> (\<forall>i. lookup r i = (if i \<in> set (al_keys m) then after i else lookup s i))"
  using assms
proof (induction m arbitrary: s)
  case (Cons e m)
  obtain aid x where e: "e = (aid, x)" by (cases e)
  have before: "lookup s aid = before aid" and mem: "(aid, x) \<in> set (e # m)"
    using Cons.prems(3) by (simp_all add: e)
  obtain r where r: "load_rows ld (block (aid, x)) s = Inr r" "lookup r = (lookup s)(aid := after aid)"
    using Cons.prems(1)[OF mem before] by blast
  have "\<exists>r'. load_rows ld (concat (map block m)) r = Inr r'
    \<and> (\<forall>i. lookup r' i = (if i \<in> set (al_keys m) then after i else lookup r i))"
    using Cons.prems by (intro Cons.IH) (auto simp: e r(2))
  then show ?case using r by (auto simp: e load_rows_append bind_store_def)
qed simp

lemma log_insert_last: "timeline_ok stamp (xs @ [x]) \<Longrightarrow> log_insert stamp x xs = xs @ [x]"
  by (auto simp: log_insert_def timeline_ok_append dest: last_opt_Some split: option.splits)

definition last_config :: "TimestampedEvent list \<Rightarrow> AircraftConfig option" where
  "last_config es = find_map spawn_config (rev es)"

text \<open>What the three passes leave for an aircraft whose saved series is \<open>x\<close>.\<close>

definition pass1 :: "AircraftTimeSeries \<Rightarrow> AircraftTimeSeries option" where
  "pass1 x = (if states x = [] then None else Some (empty_series\<lparr>states := states x\<rparr>))"

definition pass2 :: "AircraftTimeSeries \<Rightarrow> AircraftTimeSeries option" where
  "pass2 x = (if events x = [] then pass1 x
     else Some \<lparr>states = states x, events = events x, telemetry = [], config = last_config (events x)\<rparr>)"

definition pass3 :: "AircraftTimeSeries \<Rightarrow> AircraftTimeSeries option" where
  "pass3 x = map_option (\<lambda>y. y\<lparr>telemetry := telemetry x\<rparr>) (pass2 x)"

lemma entry_eta [simp]:
  "\<lparr>st_time = st_time a, st_state = st_state a\<rparr> = a" "\<lparr>ev_time = ev_time b, ev_event = ev_event b\<rparr> = b"
  "\<lparr>tl_time = tl_time c, tl_frame = tl_frame c\<rparr> = c"
  by simp_all

lemma event_round: "codec_ok k \<Longrightarrow> decode_event k (fst (encode_event k e)) (snd (encode_event k e)) = Inr e"
  by (cases e) (simp_all add: decode_event_def encode_event_def codec_ok_def)

lemma row_eval:
  assumes "codec_ok k"
  shows "read_state_row k (aid, t, enc_state k st) s = Inr (append_state aid t st s)"
    "read_event_row k (aid, t, encode_event k e) s = Inr (append_event aid t e s)"
    "read_telemetry_row k (aid, t, enc_frame k fr) s = append_telemetry aid t fr s"
  using assms event_round[OF assms, of e]
  by (cases "encode_event k e"; simp add: read_state_row_def read_event_row_def read_telemetry_row_def codec_ok_def)+

lemma state_block:
  assumes k: "codec_ok k" and ok: "timeline_ok st_time xs" and s: "lookup s aid = None"
  shows "\<exists>r. load_rows (read_state_row k) (map (\<lambda>st. (aid, st_time st, enc_state k (st_state st))) xs) s = Inr r
    \<and> lookup r = (lookup s)(aid := if xs = [] then None else Some (empty_series\<lparr>states := xs\<rparr>))"
  using ok
proof (induction xs rule: rev_induct)
  case (snoc x xs)
  have ok': "timeline_ok st_time xs" using snoc.prems by (simp add: timeline_ok_append)
  obtain r where r: "load_rows (read_state_row k) (map (\<lambda>st. (aid, st_time st, enc_state k (st_state st))) xs) s = Inr r"
    "lookup r = (lookup s)(aid := if xs = [] then None else Some (empty_series\<lparr>states := xs\<rparr>))"
    using snoc.IH[OF ok'] by blast
  have "states (series_of r aid) = xs" "series_of r aid = empty_series\<lparr>states := xs\<rparr>"
    by (simp_all add: series_of_def r(2) empty_series_def)
  moreover have "is_finite (st_time x)" using snoc.prems by (simp add: timeline_ok_append timeline_ok_Cons)
  ultimately have "lookup (append_state aid (st_time x) (st_state x) r)
      = (lookup s)(aid := Some (empty_series\<lparr>states := xs @ [x]\<rparr>))"
    using log_insert_last[OF snoc.prems]
    by (auto simp: append_state_def Let_def r(2) fun_eq_iff)
  then show ?case using r(1) k
    by (simp add: load_rows_append bind_store_def row_eval(1)[OF k] fun_upd_def)
qed (use s in \<open>simp add: fun_upd_idem\<close>)

lemma last_config_snoc:
  "last_config (es @ [e]) = (case spawn_config e of None \<Rightarrow> last_config es | Some c \<Rightarrow> Some c)"
  by (simp add: last_config_def split: option.split)

lemma event_block:
  assumes k: "codec_ok k" and ok: "timeline_ok ev_time (events x)" and s: "lookup s aid = pass1 x"
  shows "\<exists>r. load_rows (read_event_row k) (map (\<lambda>e. (aid, ev_time e, encode_event k (ev_event e))) (events x)) s = Inr r
    \<and> lookup r = (lookup s)(aid := pass2 x)"
proof -
  have "\<exists>r. load_rows (read_event_row k) (map (\<lambda>e. (aid, ev_time e, encode_event k (ev_event e))) es) s = Inr r
    \<and> lookup r = (lookup s)(aid := if es = [] then pass1 x
        else Some \<lparr>states = states x, events = es, telemetry = [], config = last_config es\<rparr>)"
    if "timeline_ok ev_time es" for es
    using that
  proof (induction es rule: rev_induct)
    case (snoc e es)
    have ok': "timeline_ok ev_time es" using snoc.prems by (simp add: timeline_ok_append)
    obtain r where r: "load_rows (read_event_row k) (map (\<lambda>e. (aid, ev_time e, encode_event k (ev_event e))) es) s = Inr r"
      "lookup r = (lookup s)(aid := if es = [] then pass1 x
        else Some \<lparr>states = states x, events = es, telemetry = [], config = last_config es\<rparr>)"
      using snoc.IH[OF ok'] by blast
    have so: "series_of r aid = \<lparr>states = states x, events = es, telemetry = [], config = last_config es\<rparr>"
      by (simp add: series_of_def r(2) pass1_def empty_series_def last_config_def)
    have "is_finite (ev_time e)" using snoc.prems by (simp add: timeline_ok_append timeline_ok_Cons)
    moreover have "append_event aid (ev_time e) (ev_event e) r
        = put_series aid ((case ev_event e of EvSpawn sp \<Rightarrow> (series_of r aid)\<lparr>config := Some (config_of_spawn sp)\<rparr>
            | _ \<Rightarrow> series_of r aid)\<lparr>events := log_insert ev_time e es\<rparr>) r"
      using calculation by (cases e; cases "ev_event e") (simp_all add: append_event_def Let_def so)
    ultimately have "lookup (append_event aid (ev_time e) (ev_event e) r)
        = (lookup s)(aid := Some \<lparr>states = states x, events = es @ [e], telemetry = [], config = last_config (es @ [e])\<rparr>)"
      using log_insert_last[OF snoc.prems]
      by (cases "ev_event e") (auto simp: so r(2) fun_eq_iff last_config_snoc spawn_config_def)
    then show ?case using r(1) by (simp add: load_rows_append bind_store_def row_eval(2)[OF k] fun_upd_def)
  qed (use s in \<open>simp add: fun_upd_idem\<close>)
  from this[OF ok] show ?thesis by (simp add: pass2_def)
qed

lemma telemetry_block:
  assumes k: "codec_ok k" and ok: "timeline_ok tl_time (telemetry x)" and s: "lookup s aid = pass2 x"
    and ev: "telemetry x \<noteq> [] \<Longrightarrow> events x \<noteq> []"
    and valid: "\<And>f y. f \<in> set (telemetry x) \<Longrightarrow> pass2 x = Some y \<Longrightarrow>
      validate_telemetry_frame (schemas_of y) (tl_frame f) = Inr ()"
  shows "\<exists>r. load_rows (read_telemetry_row k) (map (\<lambda>f. (aid, tl_time f, enc_frame k (tl_frame f))) (telemetry x)) s = Inr r
    \<and> lookup r = (lookup s)(aid := pass3 x)"
proof -
  have "\<exists>r. load_rows (read_telemetry_row k) (map (\<lambda>f. (aid, tl_time f, enc_frame k (tl_frame f))) fs) s = Inr r
    \<and> lookup r = (lookup s)(aid := map_option (\<lambda>y. y\<lparr>telemetry := fs\<rparr>) (pass2 x))"
    if "timeline_ok tl_time fs" "set fs \<subseteq> set (telemetry x)" for fs
    using that
  proof (induction fs rule: rev_induct)
    case Nil
    have "map_option (\<lambda>y. y\<lparr>telemetry := []\<rparr>) (pass2 x) = pass2 x"
      by (simp add: pass2_def pass1_def empty_series_def)
    then show ?case using s by (simp add: fun_upd_idem)
  next
    case (snoc f fs)
    have ok': "timeline_ok tl_time fs" "set fs \<subseteq> set (telemetry x)" using snoc.prems by (simp_all add: timeline_ok_append)
    obtain r where r: "load_rows (read_telemetry_row k) (map (\<lambda>f. (aid, tl_time f, enc_frame k (tl_frame f))) fs) s = Inr r"
      "lookup r = (lookup s)(aid := map_option (\<lambda>y. y\<lparr>telemetry := fs\<rparr>) (pass2 x))"
      using snoc.IH[OF ok'] by blast
    have f: "f \<in> set (telemetry x)" using snoc.prems by simp
    then obtain y where y: "pass2 x = Some y" using ev by (cases "telemetry x") (auto simp: pass2_def)
    have "schemas_of (y\<lparr>telemetry := fs\<rparr>) = schemas_of y" by (simp add: schemas_of_def)
    moreover have "is_finite (tl_time f)" using snoc.prems by (simp add: timeline_ok_append timeline_ok_Cons)
    moreover have "log_insert tl_time f fs = fs @ [f]" using snoc.prems by (intro log_insert_last) simp
    ultimately have "append_telemetry aid (tl_time f) (tl_frame f) r
        = Inr (put_series aid (y\<lparr>telemetry := fs @ [f]\<rparr>) r)"
      using valid[OF f y] by (simp add: append_telemetry_def r(2) y)
    moreover have "lookup (put_series aid (y\<lparr>telemetry := fs @ [f]\<rparr>) r)
        = (lookup s)(aid := Some (y\<lparr>telemetry := fs @ [f]\<rparr>))"
      by (auto simp: fun_eq_iff r(2))
    ultimately show ?case using r(1) k y
      by (simp add: load_rows_append bind_store_def row_eval(3)[OF k] fun_upd_def)
  qed
  from this[OF ok] show ?thesis by (simp add: pass3_def)
qed

section \<open>The metadata pass\<close>

definition meta_upd :: "MetaAircraft \<Rightarrow> AircraftTimeSeries option \<Rightarrow> AircraftTimeSeries option" where
  "meta_upd m old = (case (old, ma_name m, ma_toml_config m) of
     (Some x, Some name, Some toml) \<Rightarrow> Some (x\<lparr>config := Some \<lparr>cfg_name = name, cfg_toml_config = toml,
        cfg_telemetry_schemas = schemas_of x\<rparr>\<rparr>)
   | _ \<Rightarrow> old)"

lemma lookup_apply_meta: "lookup (apply_meta m s) i = (if i = ma_id m then meta_upd m (lookup s i) else lookup s i)"
  by (auto simp: apply_meta_def meta_upd_def split: option.split)

lemma lookup_fold_meta:
  "distinct (map ma_id ms) \<Longrightarrow> lookup (fold apply_meta ms s) i =
    (case find (\<lambda>m. ma_id m = i) ms of None \<Rightarrow> lookup s i | Some m \<Rightarrow> meta_upd m (lookup s i))"
proof (induction ms arbitrary: s)
  case (Cons m ms)
  have "i = ma_id m \<Longrightarrow> find (\<lambda>m. ma_id m = i) ms = None"
    using Cons.prems by (simp add: find_None_iff) (metis imageI)
  then show ?case using Cons by (auto simp: lookup_apply_meta split: option.split)
qed simp

lemma find_distinct: "distinct (map f ms) \<Longrightarrow> m \<in> set ms \<Longrightarrow> find (\<lambda>m'. f m' = f m) ms = Some m"
  by (induction ms) auto

section \<open>Round trip\<close>

definition saved_lookup :: "TimeSeriesStore \<Rightarrow> (AircraftTimeSeries \<Rightarrow> AircraftTimeSeries option) \<Rightarrow> string \<Rightarrow> AircraftTimeSeries option" where
  "saved_lookup s f i = Option.bind (lookup s i) f"

lemma load_pass:
  assumes inv: "store_inv s" and r: "\<And>i. lookup r i = saved_lookup s f i"
    and one: "\<And>aid x q. lookup s aid = Some x \<Longrightarrow> lookup q aid = f x \<Longrightarrow>
      \<exists>q'. load_rows ld (block (aid, x)) q = Inr q' \<and> lookup q' = (lookup q)(aid := g x)"
  shows "\<exists>r'. load_rows ld (concat (map block (data s))) r = Inr r' \<and> (\<forall>i. lookup r' i = saved_lookup s g i)"
proof -
  have "\<exists>r'. load_rows ld (concat (map block (data s))) r = Inr r'
    \<and> (\<forall>i. lookup r' i = (if i \<in> set (al_keys (data s)) then saved_lookup s g i else lookup r i))"
  proof (rule load_blocks[where before = "saved_lookup s f"])
    show "distinct (al_keys (data s))" using inv by (simp add: store_inv_def)
    fix aid x q
    assume "(aid, x) \<in> set (data s)" "lookup q aid = saved_lookup s f aid"
    then show "\<exists>r. load_rows ld (block (aid, x)) q = Inr r \<and> lookup r = (lookup q)(aid := saved_lookup s g aid)"
      using one[of aid x q] in_data_lookup[OF inv, of aid x] by (simp add: saved_lookup_def)
  qed (rule r)
  moreover have "saved_lookup s h i = None" if "i \<notin> set (al_keys (data s))" for h i
  proof -
    have "lookup s i = None" using that by (simp add: lookup_def map_of_eq_None_iff)
    then show ?thesis by (simp add: saved_lookup_def)
  qed
  ultimately show ?thesis using r by metis
qed

definition same_schemas :: "AircraftTimeSeries \<Rightarrow> bool" where
  "same_schemas x \<longleftrightarrow> (\<forall>e \<in> set (events x). \<forall>e' \<in> set (events x). \<forall>c c'.
     spawn_config e = Some c \<longrightarrow> spawn_config e' = Some c' \<longrightarrow> cfg_telemetry_schemas c = cfg_telemetry_schemas c')"

lemma last_config_mem: "last_config es = Some c \<Longrightarrow> \<exists>e \<in> set es. spawn_config e = Some c"
  using find_map_Some[of spawn_config "rev es" c] by (simp add: last_config_def)

lemma last_config_schemas:
  assumes "same_schemas x" "e \<in> set (events x)" "spawn_config e = Some c"
  shows "\<exists>c'. last_config (events x) = Some c' \<and> cfg_telemetry_schemas c' = cfg_telemetry_schemas c"
proof (cases "last_config (events x)")
  case None
  then show ?thesis using assms(2,3) by (auto simp: last_config_def find_map_None)
next
  case (Some c')
  then show ?thesis using last_config_mem[OF Some] assms unfolding same_schemas_def by blast
qed

lemma backed_events:
  assumes "telemetry_backed s" "lookup s aid = Some x" "telemetry x \<noteq> []"
  shows "events x \<noteq> []"
proof -
  have "hd (telemetry x) \<in> set (telemetry x)" using assms(3) by simp
  then obtain e where "e \<in> set (events x)" using assms(1,2) unfolding telemetry_backed_def by blast
  then show ?thesis by auto
qed

lemma pass3_meta:
  assumes "store_inv s" "store_filled s" "telemetry_backed s" "lookup s aid = Some x" "same_schemas x"
  shows "meta_upd (meta_of (aid, x)) (pass3 x) = Some x"
proof -
  have ok: "config_ok x" using store_inv_series_ok[OF assms(1,4)] by (simp add: series_ok_def)
  have ne: "states x \<noteq> [] \<or> events x \<noteq> []" using assms(2,4) by (simp add: store_filled_def)
  have tl: "telemetry x \<noteq> [] \<Longrightarrow> events x \<noteq> []"
    by (rule backed_events[OF assms(3,4)])
  define y where "y = x\<lparr>config := last_config (events x)\<rparr>"
  have y: "pass3 x = Some y"
    using ne tl by (cases x) (auto simp: pass3_def pass2_def pass1_def y_def empty_series_def last_config_def)
  show ?thesis
  proof (cases "config x")
    case None
    then have "last_config (events x) = None" using ok by (simp add: config_ok_def last_config_def find_map_None)
    with None y show ?thesis by (simp add: meta_upd_def meta_of_def y_def)
  next
    case (Some c)
    then obtain e where e: "e \<in> set (events x)" "spawn_config e = Some c" using ok by (auto simp: config_ok_def)
    have "schemas_of y = cfg_telemetry_schemas c"
      using last_config_schemas[OF assms(5) e] by (auto simp: schemas_of_def y_def)
    with Some y show ?thesis by (simp add: meta_upd_def meta_of_def y_def)
  qed
qed

lemma pass2_valid:
  assumes "telemetry_backed s" "lookup s aid = Some x" "same_schemas x"
    and f: "f \<in> set (telemetry x)" and y: "pass2 x = Some y"
  shows "validate_telemetry_frame (schemas_of y) (tl_frame f) = Inr ()"
proof -
  obtain e c where e: "e \<in> set (events x)" "spawn_config e = Some c"
    "validate_telemetry_frame (cfg_telemetry_schemas c) (tl_frame f) = Inr ()"
    using assms(1,2) f unfolding telemetry_backed_def by blast
  then show ?thesis
    using last_config_schemas[OF assms(3) e(1,2)] y by (auto simp: pass2_def schemas_of_def split: if_splits)
qed

lemma load_passes:
  assumes k: "codec_ok k" and inv: "store_inv s" and bk: "telemetry_backed s"
    and same: "\<And>aid x. lookup s aid = Some x \<Longrightarrow> same_schemas x"
  obtains s1 s2 s3 where "load_rows (read_state_row k) (write_states k s) store_new = Inr s1"
    "load_rows (read_event_row k) (write_events k s) s1 = Inr s2"
    "load_rows (read_telemetry_row k) (write_telemetry k s) s2 = Inr s3"
    "\<And>i. lookup s3 i = saved_lookup s pass3 i"
proof -
  have ok: "series_ok x" if "lookup s aid = Some x" for aid x using store_inv_series_ok[OF inv that] .
  have tl: "telemetry x \<noteq> [] \<Longrightarrow> events x \<noteq> []" if "lookup s aid = Some x" for aid x
    using backed_events[OF bk that] .
  obtain s1 where s1: "load_rows (read_state_row k) (write_states k s) store_new = Inr s1"
    "\<And>i. lookup s1 i = saved_lookup s pass1 i"
    using load_pass[OF inv, of store_new "\<lambda>_. None" "read_state_row k"
        "\<lambda>(aid, x). map (\<lambda>st. (aid, st_time st, enc_state k (st_state st))) (states x)" pass1]
      state_block[OF k] ok
    by (auto simp: write_states_def saved_lookup_def pass1_def series_ok_def Option.bind_eq_None_conv)
  obtain s2 where s2: "load_rows (read_event_row k) (write_events k s) s1 = Inr s2"
    "\<And>i. lookup s2 i = saved_lookup s pass2 i"
    using load_pass[OF inv s1(2), of "read_event_row k"
        "\<lambda>(aid, x). map (\<lambda>e. (aid, ev_time e, encode_event k (ev_event e))) (events x)" pass2]
      event_block[OF k] ok
    by (auto simp: write_events_def series_ok_def)
  obtain s3 where s3: "load_rows (read_telemetry_row k) (write_telemetry k s) s2 = Inr s3"
    "\<And>i. lookup s3 i = saved_lookup s pass3 i"
    using load_pass[OF inv s2(2), of "read_telemetry_row k"
        "\<lambda>(aid, x). map (\<lambda>f. (aid, tl_time f, enc_frame k (tl_frame f))) (telemetry x)" pass3]
      telemetry_block[OF k] ok tl pass2_valid[OF bk _ same]
    by (auto simp: write_telemetry_def series_ok_def)
  show ?thesis using that s1(1) s2(1) s3 by blast
qed

lemma session_restored:
  assumes k: "codec_ok k" and s: "store_reachable s"
    and same: "\<And>aid x e e' sp sp'. lookup s aid = Some x \<Longrightarrow> e \<in> set (events x) \<Longrightarrow> e' \<in> set (events x) \<Longrightarrow>
      ev_event e = EvSpawn sp \<Longrightarrow> ev_event e' = EvSpawn sp' \<Longrightarrow> sp_telemetry_schemas sp = sp_telemetry_schemas sp'"
  shows "\<exists>r. load_from_disk k (save_to_disk k s) current = Inr r
    \<and> (\<forall>aid. lookup r aid = lookup s aid) \<and> live_state_receipts r = []"
proof -
  note inv = store_reachable_invariant[OF s] and bk = reachable_backed[OF s] and fill = reachable_filled[OF s]
  have same': "same_schemas x" if x: "lookup s aid = Some x" for aid x
    unfolding same_schemas_def
  proof (intro ballI allI impI)
    fix e e' c c'
    assume e: "e \<in> set (events x)" "e' \<in> set (events x)"
      and "spawn_config e = Some c" "spawn_config e' = Some c'"
    then obtain sp sp' where sp: "ev_event e = EvSpawn sp" "c = config_of_spawn sp"
      "ev_event e' = EvSpawn sp'" "c' = config_of_spawn sp'"
      by (auto simp: spawn_config_def split: Event.splits)
    show "cfg_telemetry_schemas c = cfg_telemetry_schemas c'"
      using same[OF x e sp(1,3)] by (simp add: sp(2,4) config_of_spawn_def)
  qed
  obtain s1 s2 s3 where ld: "load_rows (read_state_row k) (write_states k s) store_new = Inr s1"
    "load_rows (read_event_row k) (write_events k s) s1 = Inr s2"
    "load_rows (read_telemetry_row k) (write_telemetry k s) s2 = Inr s3"
    "\<And>i. lookup s3 i = saved_lookup s pass3 i"
    by (rule load_passes[OF k inv bk], rule same', assumption) blast
  define ms where "ms = sort_key ma_id (map meta_of (data s))"
  have ids: "map ma_id (map meta_of (data s)) = al_keys (data s)"
    by (simp add: meta_of_def split_beta)
  have "mset (map ma_id ms) = mset (al_keys (data s))"
    unfolding ids[symmetric] ms_def by (simp only: mset_map mset_sort)
  from mset_eq_imp_distinct_iff[OF this] have dist: "distinct (map ma_id ms)"
    using inv by (simp add: store_inv_def)
  have "lookup (fold apply_meta ms s3) i = lookup s i" for i
  proof (cases "lookup s i")
    case None
    then have "lookup s3 i = None" by (simp add: ld(4) saved_lookup_def)
    then show ?thesis using None by (auto simp: lookup_fold_meta[OF dist] meta_upd_def split: option.split)
  next
    case (Some x)
    have "(i, x) \<in> set (data s)" using Some in_data_lookup[OF inv] by simp
    then have "meta_of (i, x) \<in> set ms" by (auto simp: ms_def)
    from find_distinct[OF dist this] have "find (\<lambda>m. ma_id m = i) ms = Some (meta_of (i, x))"
      by (simp add: meta_of_def)
    then show ?thesis
      using pass3_meta[OF inv fill bk Some same'[OF Some]] Some
      by (simp add: lookup_fold_meta[OF dist] ld(4) saved_lookup_def)
  qed
  then show ?thesis
    using k by (simp add: load_from_disk_def load_session_def save_to_disk_def opt_rows_def bind_store_def ld
        read_meta_def write_meta_def codec_ok_def ms_def[symmetric] replace_from_def lookup_def)
qed

text \<open>Saving and loading a session gives back every aircraft's series (states, events, telemetry and
  configuration) and forgets live receipts, provided every spawn of an aircraft announces the same
  telemetry schemas and the codecs decode what they encode.\<close>

theorem session_roundtrip:
  assumes k: "codec_ok k" and s: "store_reachable s"
    and same: "\<And>aid x e e' sp sp'. lookup s aid = Some x \<Longrightarrow> e \<in> set (events x) \<Longrightarrow> e' \<in> set (events x) \<Longrightarrow>
      ev_event e = EvSpawn sp \<Longrightarrow> ev_event e' = EvSpawn sp' \<Longrightarrow> sp_telemetry_schemas sp = sp_telemetry_schemas sp'"
  shows "\<exists>r. load_from_disk k (save_to_disk k s) current = Inr r
    \<and> (\<forall>aid. lookup r aid = lookup s aid) \<and> live_state_receipts r = []"
  by (rule session_restored[OF k s same])

text \<open>A concrete codec: the payload keeps the message it encodes.\<close>

datatype Payload = PState AircraftState | PSpawn AircraftSpawnInfo | PDespawn DespawnInfo
  | PFrame TelemetryFrame | PText string | PMeta MetaFile

definition demo_codec :: "Payload Codec" where
  "demo_codec = \<lparr>enc_state = PState, dec_state = (\<lambda>b. case b of PState x \<Rightarrow> Some x | _ \<Rightarrow> None),
     enc_spawn = PSpawn, dec_spawn = (\<lambda>b. case b of PSpawn x \<Rightarrow> Some x | _ \<Rightarrow> None),
     enc_despawn = PDespawn, dec_despawn = (\<lambda>b. case b of PDespawn x \<Rightarrow> Some x | _ \<Rightarrow> None),
     enc_frame = PFrame, dec_frame = (\<lambda>b. case b of PFrame x \<Rightarrow> Some x | _ \<Rightarrow> None),
     as_bytes = PText, from_utf8 = (\<lambda>b. case b of PText x \<Rightarrow> Some x | _ \<Rightarrow> None),
     enc_meta = PMeta, dec_meta = (\<lambda>b. case b of PMeta x \<Rightarrow> Some x | _ \<Rightarrow> None)\<rparr>"

lemma demo_codec_ok: "codec_ok demo_codec"
  by (simp add: codec_ok_def demo_codec_def)

lemma session_roundtrip_witness:
  "\<exists>r. load_from_disk demo_codec (save_to_disk demo_codec demo_store) store_new = Inr r
     \<and> lookup r ''07'' = lookup demo_store ''07''"
proof -
  have one: "lookup demo_store aid = Some x \<Longrightarrow> events x = [\<lparr>ev_time = time_1, ev_event = EvSpawn demo_spawn\<rparr>]" for aid x
    using demo_lookup demo_unknown[of aid] by (cases "aid = ''07''") auto
  show ?thesis
    using session_roundtrip[OF demo_codec_ok demo_reachable, of store_new] one by force
qed

text \<open>
  A second spawn with another schema replaces the schemas frames are validated against, also the
  frames already stored: they were accepted, but the saved session is refused when it is loaded.
\<close>

definition respawn_store :: TimeSeriesStore where
  "respawn_store = append_message 40 (demo_request time_3 (Spawn (demo_spawn\<lparr>sp_telemetry_schemas := []\<rparr>))) demo_store"

lemma respawn_reachable: "store_reachable respawn_store"
  unfolding respawn_store_def by (intro store_reachable.message demo_reachable)

lemma respawn_data:
  "data respawn_store = [(''07'',
    \<lparr>states = [\<lparr>st_time = time_1, st_state = empty_state\<rparr>, \<lparr>st_time = time_3, st_state = empty_state\<rparr>,
       \<lparr>st_time = time_3, st_state = empty_state\<rparr>],
     events = [\<lparr>ev_time = time_1, ev_event = EvSpawn demo_spawn\<rparr>,
       \<lparr>ev_time = time_3, ev_event = EvSpawn (demo_spawn\<lparr>sp_telemetry_schemas := []\<rparr>)\<rparr>],
     telemetry = [\<lparr>tl_time = time_2, tl_frame = demo_frame\<rparr>],
     config = Some (config_of_spawn (demo_spawn\<lparr>sp_telemetry_schemas := []\<rparr>))\<rparr>)]"
  by (simp add: respawn_store_def demo_request_def append_message_def apply_command_def event_aircraft_id_def
      hex_07 demo_data demo_spawn_def store_eval last_opt_def float_cmp lookup_def
      put_series_def record_receipt_def validate_telemetry_schemas_def)

text \<open>There is a store the public operations can build, saved without an error, that does not load:
  whatever the codecs, loading it fails because a frame's stream is unknown to the schemas of the
  aircraft's last spawn.\<close>

theorem respawn_session_unloadable:
  assumes "codec_ok k"
  shows "store_reachable respawn_store
    \<and> load_from_disk k (save_to_disk k respawn_store) current = Inl (InvalidData (UnknownStream ''eng''))"
proof -
  obtain x where x: "data respawn_store = [(''07'', x)]" "telemetry x = [\<lparr>tl_time = time_2, tl_frame = demo_frame\<rparr>]"
    "schemas_of \<lparr>states = states x, events = events x, telemetry = [], config = last_config (events x)\<rparr> = []"
    "events x \<noteq> []"
    by (auto simp: respawn_data schemas_of_def last_config_def spawn_config_def config_of_spawn_def)
  have "store_inv respawn_store" by (rule store_reachable_invariant[OF respawn_reachable])
  then have ok: "series_ok x" using x(1) by (simp add: store_inv_def lookup_def)
  have "lookup store_new ''07'' = None" by simp
  from state_block[OF assms _ this, of "states x"] ok obtain s1 where
    s1: "load_rows (read_state_row k) (write_states k respawn_store) store_new = Inr s1" "lookup s1 ''07'' = pass1 x"
    by (auto simp: write_states_def x(1) series_ok_def pass1_def)
  from event_block[OF assms _ s1(2)] ok obtain s2 where
    s2: "load_rows (read_event_row k) (write_events k respawn_store) s1 = Inr s2" "lookup s2 ''07'' = pass2 x"
    by (auto simp: write_events_def x(1) series_ok_def)
  have "load_rows (read_telemetry_row k) (write_telemetry k respawn_store) s2
      = Inl (InvalidData (UnknownStream ''eng''))"
    using x(3,4) by (simp add: write_telemetry_def x(1,2) row_eval(3)[OF assms] append_telemetry_def s2(2) pass2_def
        validate_telemetry_frame_def demo_frame_def)
  then show ?thesis
    by (simp add: respawn_reachable load_from_disk_def load_session_def save_to_disk_def opt_rows_def bind_store_def
        s1(1) s2(1))
qed

lemma respawn_session_unloadable_witness:
  "load_from_disk demo_codec (save_to_disk demo_codec respawn_store) store_new = Inl (InvalidData (UnknownStream ''eng''))"
  using respawn_session_unloadable[OF demo_codec_ok] by blast

end
