(* ===== verification/Cursor_Codec.thy ===== *)
theory Cursor_Codec
  imports Proto
begin

unbundle bit_operations_syntax

text \<open>
  Chunking of cursor payloads (\<open>core/src/cursor.rs\<close>: \<open>checksum32\<close>, \<open>encode_cursor_chunks\<close>) and
  their reassembly (\<open>CursorReassembler::push\<close>), with the transport errors of
  \<open>core/src/transport.rs\<close>. The property: however the network reorders the chunks of a payload,
  pushing them yields the payload exactly once, at the last one. An index out of range is a panic
  of the source and \<open>None\<close> here.
\<close>

datatype TransportError =
    Io
  | Decode
  | InvalidMessage string
  | UnregisteredClient
  | ClientChannelClosed string
  | HandshakeTimeout
  | HandshakeRejected string

definition CURSOR_CHUNK_BYTES :: nat where "CURSOR_CHUNK_BYTES = 1024"
definition MAX_CURSOR_PAYLOAD_BYTES :: nat where "MAX_CURSOR_PAYLOAD_BYTES = 4 * 1024 * 1024"

text \<open>500 milliseconds.\<close>

definition CURSOR_REASSEMBLY_TIMEOUT :: duration where "CURSOR_REASSEMBLY_TIMEOUT = 500 * 1000000"

definition div_ceil :: "nat \<Rightarrow> nat \<Rightarrow> nat" where
  "div_ceil a b = (if a mod b = 0 then a div b else a div b + 1)"

section \<open>Checksum\<close>

definition crc_bit :: "u32 \<Rightarrow> u32" where
  "crc_bit crc = (drop_bit 1 crc) XOR (0xEDB88320 AND (0 - (crc AND 1)))"

definition crc_byte :: "u8 \<Rightarrow> u32 \<Rightarrow> u32" where
  "crc_byte b crc = (crc_bit ^^ 8) (crc XOR ucast b)"

definition checksum32 :: "u8 list \<Rightarrow> u32" where
  "checksum32 payload = NOT (fold crc_byte payload (NOT 0))"

section \<open>Encoding\<close>

text \<open>\<open>slice::chunks\<close>; the chunk size is positive.\<close>

fun chunks_of :: "nat \<Rightarrow> 'a list \<Rightarrow> 'a list list" where
  "chunks_of n xs = (if n = 0 \<or> xs = [] then [] else take n xs # chunks_of n (drop n xs))"

declare chunks_of.simps [simp del]

datatype CursorPayloadKind = KindUnspecified | KindFrame | KindEventBatch | KindReset

definition kind_code :: "CursorPayloadKind \<Rightarrow> int" where
  "kind_code k = (case k of KindUnspecified \<Rightarrow> 0 | KindFrame \<Rightarrow> 1 | KindEventBatch \<Rightarrow> 2 | KindReset \<Rightarrow> 3)"

definition kind_of :: "int \<Rightarrow> CursorPayloadKind option" where
  "kind_of i = (if i = 0 then Some KindUnspecified else if i = 1 then Some KindFrame
     else if i = 2 then Some KindEventBatch else if i = 3 then Some KindReset else None)"

definition cursor_chunk :: "uuid \<Rightarrow> CursorPayloadKind \<Rightarrow> u64 \<Rightarrow> u8 list \<Rightarrow> nat \<times> u8 list \<Rightarrow> CursorChunk" where
  "cursor_chunk epoch kind sequence payload e = (case e of (chunk_index, bytes) \<Rightarrow>
     \<lparr>ch_server_epoch = Some epoch, ch_kind = kind_code kind, ch_sequence = sequence,
      ch_chunk_index = of_nat chunk_index,
      ch_chunk_count = of_nat (div_ceil (length payload) CURSOR_CHUNK_BYTES),
      ch_total_size = of_nat (length payload), ch_checksum = checksum32 payload, ch_payload = bytes\<rparr>)"

text \<open>\<open>payload\<close> is the protobuf encoding of the value.\<close>

definition encode_cursor_chunks ::
  "uuid \<Rightarrow> CursorPayloadKind \<Rightarrow> u64 \<Rightarrow> u8 list \<Rightarrow> TransportError + Message list" where
  "encode_cursor_chunks epoch kind sequence payload =
     (if payload = [] \<or> MAX_CURSOR_PAYLOAD_BYTES < length payload
      then Inl (InvalidMessage ''cursor payload exceeds allowed size'')
      else Inr (map (\<lambda>e. Some (EnvServerPush (Some (cursor_chunk epoch kind sequence payload e))))
             (List.enumerate 0 (chunks_of CURSOR_CHUNK_BYTES payload))))"

section \<open>Reassembly\<close>

record PartialPayload =
  created_at :: instant
  total_size :: nat
  pp_checksum :: u32
  pp_chunks :: "u8 list option list"

record CursorReassembler =
  partials :: "((int \<times> u64) \<times> PartialPayload) list"
  expired_payloads :: u64

definition reassembler_new :: CursorReassembler where
  "reassembler_new = \<lparr>partials = [], expired_payloads = 0\<rparr>"

text \<open>\<open>u64::saturating_add\<close>.\<close>

definition saturating_add :: "u64 \<Rightarrow> nat \<Rightarrow> u64" where
  "saturating_add a n = (if unat a + n < 2 ^ 64 then a + of_nat n else - 1)"

definition expire :: "instant \<Rightarrow> CursorReassembler \<Rightarrow> CursorReassembler" where
  "expire now r =
     (let kept = filter (\<lambda>(_, v). now - created_at v \<le> CURSOR_REASSEMBLY_TIMEOUT) (partials r) in
      \<lparr>partials = kept, expired_payloads = saturating_add (expired_payloads r) (length (partials r) - length kept)\<rparr>)"

definition bytes_of :: "u8 list option \<Rightarrow> u8 list" where
  "bytes_of x = (case x of None \<Rightarrow> [] | Some b \<Rightarrow> b)"

definition reassembler_push ::
  "instant \<Rightarrow> CursorChunk \<Rightarrow> CursorReassembler \<Rightarrow> ((TransportError + u8 list option) \<times> CursorReassembler) option" where
  "reassembler_push now chunk r0 =
     (let r = expire now r0;
          total = unat (ch_total_size chunk);
          cnt = unat (ch_chunk_count chunk);
          idx = unat (ch_chunk_index chunk)
      in if total = 0 \<or> MAX_CURSOR_PAYLOAD_BYTES < total \<or> cnt = 0
            \<or> div_ceil MAX_CURSOR_PAYLOAD_BYTES CURSOR_CHUNK_BYTES < cnt \<or> cnt \<le> idx
         then Some (Inl (InvalidMessage ''invalid cursor chunk bounds''), r)
         else
           (let key = (ch_kind chunk, ch_sequence chunk);
                partial = (case map_of (partials r) key of
                   Some p \<Rightarrow> p
                 | None \<Rightarrow> \<lparr>created_at = now, total_size = total, pp_checksum = ch_checksum chunk,
                            pp_chunks = replicate cnt None\<rparr>)
            in if total_size partial \<noteq> total \<or> pp_checksum partial \<noteq> ch_checksum chunk
                  \<or> length (pp_chunks partial) \<noteq> cnt
               then Some (Inl (InvalidMessage ''cursor chunk metadata changed during reassembly''),
                     r\<lparr>partials := al_del key (partials r)\<rparr>)
               else if length (pp_chunks partial) \<le> idx then None
               else
                 (let chunks = (pp_chunks partial)[idx := Some (ch_payload chunk)] in
                  if None \<in> set chunks
                  then Some (Inr None, r\<lparr>partials := al_put key (partial\<lparr>pp_chunks := chunks\<rparr>) (partials r)\<rparr>)
                  else
                    (let payload = concat (map bytes_of chunks);
                         done = r\<lparr>partials := al_del key (partials r)\<rparr>
                     in if length payload \<noteq> total \<or> checksum32 payload \<noteq> ch_checksum chunk
                        then Some (Inl (InvalidMessage ''cursor payload checksum mismatch''), done)
                        else Some (Inr (Some payload), done)))))"

section \<open>Chunks of a payload\<close>

lemma concat_chunks_of: "0 < n \<Longrightarrow> concat (chunks_of n xs) = xs"
  by (induction n xs rule: chunks_of.induct) (subst chunks_of.simps, simp)

lemma div_ceil_less: "0 < n \<Longrightarrow> 0 < a \<Longrightarrow> div_ceil a n = Suc (div_ceil (a - n) n)"
  by (cases "n \<le> a") (auto simp: div_ceil_def le_div_geq le_mod_geq)

lemma length_chunks_of: "0 < n \<Longrightarrow> length (chunks_of n xs) = div_ceil (length xs) n"
proof (induction n xs rule: chunks_of.induct)
  case (1 n xs)
  then show ?case
    by (cases "xs = []") (subst chunks_of.simps, simp add: div_ceil_def, subst chunks_of.simps, simp add: div_ceil_less)
qed

lemma div_ceil_mono: "0 < n \<Longrightarrow> a \<le> b \<Longrightarrow> div_ceil a n \<le> div_ceil b n"
proof (induction a arbitrary: b rule: less_induct)
  case (less a)
  show ?case
  proof (cases "a = 0")
    case False
    have "div_ceil (a - n) n \<le> div_ceil (b - n) n" using less False by (intro less.IH) auto
    then show ?thesis using less.prems False by (simp add: div_ceil_less)
  qed (simp add: div_ceil_def)
qed

lemma map_of_filter_val:
  "al_ok m \<Longrightarrow> map_of (filter (\<lambda>(_, v). P v) m) k = (case map_of m k of None \<Rightarrow> None | Some v \<Rightarrow> if P v then Some v else None)"
proof (induction m)
  case (Cons e m)
  obtain k' v where e: "e = (k', v)" by (cases e)
  have "k' \<notin> fst ` set m" using Cons.prems e by simp
  then have "map_of m k' = None" by (simp add: map_of_eq_None_iff)
  then show ?case using Cons e by (auto split: option.splits)
qed simp

lemma expire_simps:
  assumes "al_ok (partials r)"
  shows "al_ok (partials (expire now r))"
    "map_of (partials (expire now r)) k = (case map_of (partials r) k of None \<Rightarrow> None
       | Some v \<Rightarrow> if now - created_at v \<le> CURSOR_REASSEMBLY_TIMEOUT then Some v else None)"
  using assms by (simp_all add: expire_def Let_def al_ok_filter map_of_filter_val)

section \<open>One payload under reassembly\<close>

definition parts_of :: "u8 list \<Rightarrow> u8 list list" where
  "parts_of payload = chunks_of CURSOR_CHUNK_BYTES payload"

definition chunk_at :: "uuid \<Rightarrow> CursorPayloadKind \<Rightarrow> u64 \<Rightarrow> u8 list \<Rightarrow> nat \<Rightarrow> CursorChunk" where
  "chunk_at epoch kind sequence payload i = cursor_chunk epoch kind sequence payload (i, parts_of payload ! i)"

definition payload_ok :: "u8 list \<Rightarrow> bool" where
  "payload_ok payload \<longleftrightarrow> payload \<noteq> [] \<and> length payload \<le> MAX_CURSOR_PAYLOAD_BYTES"

lemma parts_length: "length (parts_of payload) = div_ceil (length payload) CURSOR_CHUNK_BYTES"
  by (simp add: parts_of_def length_chunks_of CURSOR_CHUNK_BYTES_def)

lemma concat_parts: "concat (parts_of payload) = payload"
  by (simp add: parts_of_def concat_chunks_of CURSOR_CHUNK_BYTES_def)

lemma parts_bounds:
  assumes "payload_ok payload"
  shows "0 < length (parts_of payload)" "length (parts_of payload) \<le> 4096"
    "0 < length payload" "length payload \<le> 4194304"
proof -
  show "0 < length payload" "length payload \<le> 4194304"
    using assms by (auto simp: payload_ok_def MAX_CURSOR_PAYLOAD_BYTES_def)
  then have "div_ceil (length payload) 1024 \<le> div_ceil 4194304 1024" by (intro div_ceil_mono) simp_all
  then show "length (parts_of payload) \<le> 4096" by (simp add: parts_length CURSOR_CHUNK_BYTES_def div_ceil_def[of 4194304])
  show "0 < length (parts_of payload)"
    using \<open>0 < length payload\<close> by (simp add: parts_length CURSOR_CHUNK_BYTES_def div_ceil_less)
qed

lemma chunk_fields:
  assumes ok: "payload_ok payload" and i: "i < length (parts_of payload)"
  shows "unat (ch_total_size (chunk_at epoch kind sequence payload i)) = length payload"
    "unat (ch_chunk_count (chunk_at epoch kind sequence payload i)) = length (parts_of payload)"
    "unat (ch_chunk_index (chunk_at epoch kind sequence payload i)) = i"
    "ch_checksum (chunk_at epoch kind sequence payload i) = checksum32 payload"
    "ch_payload (chunk_at epoch kind sequence payload i) = parts_of payload ! i"
    "ch_kind (chunk_at epoch kind sequence payload i) = kind_code kind"
    "ch_sequence (chunk_at epoch kind sequence payload i) = sequence"
  using parts_bounds[OF ok] i
  by (simp_all add: chunk_at_def cursor_chunk_def parts_length[symmetric] unat_of_nat)

text \<open>The entry of a payload of which the chunks in \<open>D\<close> have arrived, the first at \<open>t0\<close>.\<close>

definition entry_for :: "u8 list \<Rightarrow> instant \<Rightarrow> nat set \<Rightarrow> PartialPayload option" where
  "entry_for payload t0 D =
     (if D = {} then None
      else Some \<lparr>created_at = t0, total_size = length payload, pp_checksum = checksum32 payload,
        pp_chunks = map (\<lambda>i. if i \<in> D then Some (parts_of payload ! i) else None) [0..<length (parts_of payload)]\<rparr>)"

lemma push_step:
  assumes ok: "payload_ok payload" and i: "i < length (parts_of payload)" and al: "al_ok (partials r)"
    and e: "map_of (partials r) (kind_code kind, sequence) = entry_for payload t0 D"
    and fresh: "D \<noteq> {} \<Longrightarrow> now - t0 \<le> CURSOR_REASSEMBLY_TIMEOUT"
    and start: "D = {} \<Longrightarrow> t0 = now"
  shows "\<exists>r'. reassembler_push now (chunk_at epoch kind sequence payload i) r =
      Some (Inr (if {..<length (parts_of payload)} \<subseteq> insert i D then Some payload else None), r')
    \<and> al_ok (partials r')
    \<and> map_of (partials r') (kind_code kind, sequence) =
        (if {..<length (parts_of payload)} \<subseteq> insert i D then None else entry_for payload t0 (insert i D))"
proof -
  let ?n = "length (parts_of payload)" and ?c = "chunk_at epoch kind sequence payload i" and ?r = "expire now r"
  note f = chunk_fields[OF ok i, of epoch kind sequence] and b = parts_bounds[OF ok]
  let ?old = "map (\<lambda>j. if j \<in> D then Some (parts_of payload ! j) else None) [0..<?n]"
  let ?new = "map (\<lambda>j. if j \<in> insert i D then Some (parts_of payload ! j) else None) [0..<?n]"
  let ?p = "\<lparr>created_at = t0, total_size = length payload, pp_checksum = checksum32 payload, pp_chunks = ?old\<rparr>"
  have look: "map_of (partials ?r) (kind_code kind, sequence) = entry_for payload t0 D"
    using fresh by (simp add: expire_simps[OF al] e entry_for_def)
  have part: "(case map_of (partials ?r) (kind_code kind, sequence) of Some p \<Rightarrow> p
      | None \<Rightarrow> \<lparr>created_at = now, total_size = length payload, pp_checksum = checksum32 payload,
          pp_chunks = replicate ?n None\<rparr>) = ?p"
    unfolding look using start by (cases "D = {}") (simp_all add: entry_for_def map_replicate_const)
  have upd: "?old[i := Some (parts_of payload ! i)] = ?new"
    using i by (intro nth_equalityI) (auto simp: nth_list_update)
  have full: "None \<notin> set ?new \<longleftrightarrow> {..<?n} \<subseteq> insert i D" by auto
  have "{..<?n} \<subseteq> insert i D \<Longrightarrow> map bytes_of ?new = parts_of payload"
    by (intro nth_equalityI) (auto simp: bytes_of_def)
  then have whole: "{..<?n} \<subseteq> insert i D \<Longrightarrow> concat (map bytes_of ?new) = payload"
    by (simp only: concat_parts)
  have "\<not> (length payload = 0 \<or> MAX_CURSOR_PAYLOAD_BYTES < length payload \<or> ?n = 0
      \<or> div_ceil MAX_CURSOR_PAYLOAD_BYTES CURSOR_CHUNK_BYTES < ?n \<or> ?n \<le> i)"
    using b i by (simp add: MAX_CURSOR_PAYLOAD_BYTES_def CURSOR_CHUNK_BYTES_def div_ceil_def)
  then have push: "reassembler_push now ?c r =
      (if None \<in> set ?new
       then Some (Inr None, ?r\<lparr>partials := al_put (kind_code kind, sequence) (?p\<lparr>pp_chunks := ?new\<rparr>) (partials ?r)\<rparr>)
       else Some (Inr (Some payload), ?r\<lparr>partials := al_del (kind_code kind, sequence) (partials ?r)\<rparr>))"
    using i whole full unfolding reassembler_push_def Let_def f part by (auto simp: upd)
  show ?thesis
    unfolding push using full expire_simps(1)[OF al, of now]
    by (auto simp: entry_for_def simp del: map_eq_conv)
qed

section \<open>Delivery in any order\<close>

fun push_all ::
  "(instant \<times> CursorChunk) list \<Rightarrow> CursorReassembler \<Rightarrow> ((TransportError + u8 list option) list \<times> CursorReassembler) option" where
  "push_all [] r = Some ([], r)"
| "push_all ((now, c) # cs) r =
     (case reassembler_push now c r of
        None \<Rightarrow> None
      | Some (x, r1) \<Rightarrow> map_option (\<lambda>(xs, r2). (x # xs, r2)) (push_all cs r1))"

lemma push_rest:
  assumes ok: "payload_ok payload"
  shows "\<lbrakk>al_ok (partials r); map_of (partials r) (kind_code kind, sequence) = entry_for payload base D;
      D \<subset> {..<length (parts_of payload)};
      distinct (map snd arr); set (map snd arr) = {..<length (parts_of payload)} - D;
      \<forall>e \<in> set arr. fst e - base \<le> CURSOR_REASSEMBLY_TIMEOUT;
      D = {} \<Longrightarrow> fst (hd arr) = base\<rbrakk>
    \<Longrightarrow> \<exists>r'. push_all (map (\<lambda>(now, i). (now, chunk_at epoch kind sequence payload i)) arr) r
        = Some (replicate (length arr - 1) (Inr None) @ [Inr (Some payload)], r')
      \<and> al_ok (partials r') \<and> map_of (partials r') (kind_code kind, sequence) = None"
proof (induction arr arbitrary: r D)
  case (Cons a arr)
  obtain now i where a: "a = (now, i)" by (cases a)
  have i: "i < length (parts_of payload)" "i \<notin> D" using Cons.prems(5) by (auto simp: a)
  have rest: "set (map snd arr) = {..<length (parts_of payload)} - insert i D"
    using Cons.prems(4,5) by (auto simp: a)
  have fresh: "now - base \<le> CURSOR_REASSEMBLY_TIMEOUT" using Cons.prems(6) by (simp add: a)
  have start: "base = now" if "D = {}" using Cons.prems(7) that by (simp add: a)
  obtain r1 where r1: "reassembler_push now (chunk_at epoch kind sequence payload i) r =
      Some (Inr (if {..<length (parts_of payload)} \<subseteq> insert i D then Some payload else None), r1)"
    "al_ok (partials r1)"
    "map_of (partials r1) (kind_code kind, sequence) =
        (if {..<length (parts_of payload)} \<subseteq> insert i D then None else entry_for payload base (insert i D))"
    using push_step[OF ok i(1) Cons.prems(1,2) fresh start, of epoch] by blast
  show ?case
  proof (cases "{..<length (parts_of payload)} \<subseteq> insert i D")
    case True
    then have "arr = []" using rest by (simp add: Diff_eq_empty_iff[THEN iffD2])
    then show ?thesis using r1 unfolding if_P[OF True] by (simp add: a)
  next
    case False
    then have sub: "insert i D \<subset> {..<length (parts_of payload)}" using Cons.prems(3) i by auto
    have ne: "set (map snd arr) \<noteq> {}" using False rest by auto
    have entry: "map_of (partials r1) (kind_code kind, sequence) = entry_for payload base (insert i D)"
      using r1(3) False by simp
    have dist: "distinct (map snd arr)" using Cons.prems(4) by simp
    have time: "\<forall>e \<in> set arr. fst e - base \<le> CURSOR_REASSEMBLY_TIMEOUT" using Cons.prems(6) by simp
    have no: "insert i D = {} \<Longrightarrow> fst (hd arr) = base" by simp
    obtain r' where "push_all (map (\<lambda>(now, i). (now, chunk_at epoch kind sequence payload i)) arr) r1
        = Some (replicate (length arr - 1) (Inr None) @ [Inr (Some payload)], r')"
      "al_ok (partials r')" "map_of (partials r') (kind_code kind, sequence) = None"
      using Cons.IH[OF r1(2) entry sub dist rest time no] by blast
    moreover have "arr \<noteq> []" using ne by auto
    then obtain m where "length arr = Suc m" by (cases arr) auto
    ultimately show ?thesis using r1(1) unfolding if_not_P[OF False] by (simp add: a)
  qed
qed simp

definition message_chunk :: "Message \<Rightarrow> CursorChunk option" where
  "message_chunk m = (case m of Some (EnvServerPush (Some c)) \<Rightarrow> Some c | _ \<Rightarrow> None)"

lemma enumerate_parts:
  "map (\<lambda>e. cursor_chunk epoch kind sequence payload e) (List.enumerate 0 (chunks_of CURSOR_CHUNK_BYTES payload))
    = map (chunk_at epoch kind sequence payload) [0..<length (parts_of payload)]"
  by (intro nth_equalityI) (simp_all add: parts_of_def chunk_at_def nth_enumerate_eq)

text \<open>C11: The datagrams of an encoded payload, delivered once each in any order within the reassembly
  timeout of the first to arrive, never panic the reassembler and yield nothing until the last one,
  which yields exactly the encoded payload; no partial entry of it remains.\<close>

theorem chunks_reassemble_in_any_order:
  assumes enc: "encode_cursor_chunks epoch kind sequence payload = Inr msgs"
    and perm: "mset (map (\<lambda>(_, c). Some (EnvServerPush (Some c))) arrived) = mset msgs"
    and time: "\<And>now c. (now, c) \<in> set arrived \<Longrightarrow> now - fst (hd arrived) \<le> CURSOR_REASSEMBLY_TIMEOUT"
    and r: "distinct (al_keys (partials r))" "map_of (partials r) (kind_code kind, sequence) = None"
  shows "\<exists>r'. push_all arrived r = Some (replicate (length msgs - 1) (Inr None) @ [Inr (Some payload)], r')
    \<and> map_of (partials r') (kind_code kind, sequence) = None"
proof -
  let ?n = "length (parts_of payload)" and ?c = "chunk_at epoch kind sequence payload"
  have ok: "payload_ok payload" and msgs: "msgs = map (\<lambda>i. Some (EnvServerPush (Some (?c i)))) [0..<?n]"
    using enc arg_cong[OF enumerate_parts, of "map (\<lambda>c. Some (EnvServerPush (Some c)))" epoch kind sequence payload]
    by (auto simp: encode_cursor_chunks_def payload_ok_def o_def split: if_splits)
  define idx where "idx = (\<lambda>c :: CursorChunk. unat (ch_chunk_index c))"
  have idx: "i < ?n \<Longrightarrow> idx (?c i) = i" for i by (simp add: idx_def chunk_fields[OF ok])
  have "mset (map (the \<circ> message_chunk) (map (\<lambda>(_, c). Some (EnvServerPush (Some c))) arrived))
      = mset (map (the \<circ> message_chunk) msgs)"
    using perm by (metis mset_map)
  then have chunks: "mset (map snd arrived) = mset (map ?c [0..<?n])"
    by (simp add: msgs o_def split_beta message_chunk_def)
  define arr where "arr = map (\<lambda>(now, c). (now, idx c)) arrived"
  have "mset (map snd arr) = image_mset idx (mset (map snd arrived))"
    by (simp add: arr_def split_beta o_def image_mset.compositionality)
  also have "\<dots> = mset (map (\<lambda>i. idx (?c i)) [0..<?n])"
    unfolding chunks by (simp add: image_mset.compositionality o_def)
  also have "map (\<lambda>i. idx (?c i)) [0..<?n] = [0..<?n]" by (intro map_idI) (simp add: idx)
  finally have m: "mset (map snd arr) = mset [0..<?n]" .
  then have d: "distinct (map snd arr)" "set (map snd arr) = {..<?n} - {}"
    using mset_eq_imp_distinct_iff[OF m] mset_eq_setD[OF m] by auto
  have "c = ?c (idx c)" if "(now, c) \<in> set arrived" for now c
  proof -
    have "c \<in> set (map snd arrived)" using that by force
    then have "c \<in> set (map ?c [0..<?n])" using mset_eq_setD[OF chunks] by blast
    then show ?thesis using idx by auto
  qed
  then have arrived: "map (\<lambda>(now, i). (now, ?c i)) arr = arrived"
    unfolding arr_def map_map by (intro map_idI) auto
  have len: "length arr = length msgs" "length msgs = ?n" using arg_cong[OF perm, of size] by (simp_all add: arr_def msgs)
  have ne: "arr \<noteq> []" using len parts_bounds[OF ok] by auto
  have hd: "fst (hd arr) = fst (hd arrived)" using ne by (cases arrived) (auto simp: arr_def)
  have "\<exists>r'. push_all (map (\<lambda>(now, i). (now, ?c i)) arr) r
        = Some (replicate (length arr - 1) (Inr None) @ [Inr (Some payload)], r')
      \<and> al_ok (partials r') \<and> map_of (partials r') (kind_code kind, sequence) = None"
  proof (rule push_rest[OF ok r(1) _ _ d, where base = "fst (hd arr)"])
    show "map_of (partials r) (kind_code kind, sequence) = entry_for payload (fst (hd arr)) {}"
      using r(2) by (simp add: entry_for_def)
    show "{} \<subset> {..<?n}" using parts_bounds[OF ok] by auto
    show "\<forall>e \<in> set arr. fst e - fst (hd arr) \<le> CURSOR_REASSEMBLY_TIMEOUT"
      using time unfolding hd by (auto simp: arr_def)
  qed simp
  then show ?thesis unfolding arrived len by blast
qed

definition demo_payload :: "u8 list" where "demo_payload = [1, 2, 3]"

lemma demo_encode:
  "encode_cursor_chunks [9] KindFrame 4 demo_payload
     = Inr [Some (EnvServerPush (Some (cursor_chunk [9] KindFrame 4 demo_payload (0, demo_payload))))]"
proof -
  have "chunks_of CURSOR_CHUNK_BYTES demo_payload = [demo_payload]"
    by (subst chunks_of.simps, subst chunks_of.simps) (simp add: CURSOR_CHUNK_BYTES_def demo_payload_def)
  then show ?thesis
    by (simp add: encode_cursor_chunks_def) (simp add: demo_payload_def MAX_CURSOR_PAYLOAD_BYTES_def)
qed

lemma chunks_reassemble_in_any_order_witness:
  "\<exists>r'. push_all [(5, cursor_chunk [9] KindFrame 4 demo_payload (0, demo_payload))] reassembler_new
     = Some ([Inr (Some demo_payload)], r')"
  using chunks_reassemble_in_any_order[OF demo_encode,
      of "[(5, cursor_chunk [9] KindFrame 4 demo_payload (0, demo_payload))]" reassembler_new]
  by (auto simp: reassembler_new_def)

end
