(* ===== verification/Sessions.thy ===== *)
theory Sessions
  imports Cursor_Codec F64
begin

text \<open>
  The UDP server of \<open>core/src/transport/server.rs\<close>: the two session tables and their operations,
  the request dispatch with its acknowledgements, and the receive loop. Wall-clock and monotonic
  readings are arguments, as is the protobuf decoder. A socket address is the pair of its IP
  address, as a number, and its port. Socket failures other than undecodable datagrams are not
  modelled.
\<close>

type_synonym SocketAddr = "nat \<times> nat"

record Session =
  s_addr :: SocketAddr
  client_uuid_hex :: string
  last_seen_secs :: f64
  s_role :: ClientRole
  cursor_subscribed :: bool
  cursor_requested_hz :: f64
  cursor_event_ack :: u64
  cursor_epoch :: "u8 list"
  last_seen_at :: instant

record SessionState =
  by_addr :: "(SocketAddr \<times> Session) list"
  by_client_uuid :: "(string \<times> SocketAddr) list"

text \<open>A reading of both clocks: seconds since the epoch and the monotonic instant.\<close>

type_synonym clocks = "f64 \<times> instant"

definition default_hz :: f64 where "default_hz = F64 0x403E000000000000"

definition session_new :: "clocks \<Rightarrow> SocketAddr \<Rightarrow> string \<Rightarrow> ClientRole \<Rightarrow> Session" where
  "session_new now addr uuid r =
     \<lparr>s_addr = addr, client_uuid_hex = uuid, last_seen_secs = fst now, s_role = r, cursor_subscribed = False,
      cursor_requested_hz = default_hz, cursor_event_ack = 0, cursor_epoch = [], last_seen_at = snd now\<rparr>"

definition sessions_new :: SessionState where
  "sessions_new = \<lparr>by_addr = [], by_client_uuid = []\<rparr>"

section \<open>Session operations\<close>

definition update_session :: "SocketAddr \<Rightarrow> (Session \<Rightarrow> Session) \<Rightarrow> SessionState \<Rightarrow> SessionState" where
  "update_session addr f st =
     (case map_of (by_addr st) addr of
        None \<Rightarrow> st | Some s \<Rightarrow> st\<lparr>by_addr := al_put addr (f s) (by_addr st)\<rparr>)"

definition touch_addr :: "clocks \<Rightarrow> SocketAddr \<Rightarrow> SessionState \<Rightarrow> SessionState" where
  "touch_addr now addr st = update_session addr (\<lambda>s. s\<lparr>last_seen_secs := fst now, last_seen_at := snd now\<rparr>) st"

definition set_session :: "clocks \<Rightarrow> SocketAddr \<Rightarrow> string \<Rightarrow> ClientRole \<Rightarrow> SessionState \<Rightarrow> SessionState" where
  "set_session now addr uuid r st =
     (let kept = (case map_of (by_client_uuid st) uuid of
                    None \<Rightarrow> by_addr st | Some old \<Rightarrow> al_del old (by_addr st))
      in \<lparr>by_addr = al_put addr (session_new now addr uuid r) kept,
          by_client_uuid = al_put uuid addr (by_client_uuid st)\<rparr>)"

definition subscribe_cursor :: "SocketAddr \<Rightarrow> f64 \<Rightarrow> SessionState \<Rightarrow> bool \<times> SessionState" where
  "subscribe_cursor addr requested_hz st =
     (case map_of (by_addr st) addr of
        None \<Rightarrow> (False, st)
      | Some s \<Rightarrow>
          if s_role s \<noteq> CursorSubscriber then (False, st)
          else (True, update_session addr
            (\<lambda>s. s\<lparr>cursor_subscribed := True, cursor_requested_hz := requested_hz\<rparr>) st))"

definition acknowledge_cursor_event ::
  "SocketAddr \<Rightarrow> uuid option \<Rightarrow> u64 \<Rightarrow> SessionState \<Rightarrow> bool \<times> SessionState" where
  "acknowledge_cursor_event addr epoch sequence st =
     (case map_of (by_addr st) addr of
        None \<Rightarrow> (False, st)
      | Some s \<Rightarrow>
          if s_role s \<noteq> CursorSubscriber \<or> \<not> cursor_subscribed s
             \<or> (case epoch of None \<Rightarrow> True | Some v \<Rightarrow> v \<noteq> cursor_epoch s)
             \<or> sequence \<noteq> cursor_event_ack s + 1
          then (False, st)
          else (True, update_session addr (\<lambda>s. s\<lparr>cursor_event_ack := sequence\<rparr>) st))"

definition set_cursor_epoch :: "SocketAddr \<Rightarrow> u8 list \<Rightarrow> SessionState \<Rightarrow> SessionState" where
  "set_cursor_epoch addr epoch st =
     update_session addr (\<lambda>s. if s_role s = CursorSubscriber then s\<lparr>cursor_epoch := epoch\<rparr> else s) st"

definition session_role :: "SocketAddr \<Rightarrow> SessionState \<Rightarrow> ClientRole option" where
  "session_role addr st = map_option s_role (map_of (by_addr st) addr)"

definition drop_entry :: "SocketAddr \<times> string \<Rightarrow> SessionState \<Rightarrow> SessionState" where
  "drop_entry e st =
     \<lparr>by_addr = al_del (fst e) (by_addr st), by_client_uuid = al_del (snd e) (by_client_uuid st)\<rparr>"

definition remove_by_addr :: "SocketAddr \<Rightarrow> SessionState \<Rightarrow> SessionState" where
  "remove_by_addr addr st =
     (case map_of (by_addr st) addr of
        None \<Rightarrow> st
      | Some old \<Rightarrow> drop_entry (addr, client_uuid_hex old) st)"

definition session_list :: "SessionState \<Rightarrow> Session list" where
  "session_list st = map snd (by_addr st)"

definition cleanup_expired :: "instant \<Rightarrow> duration \<Rightarrow> SessionState \<Rightarrow> SessionState" where
  "cleanup_expired now timeout st =
     (let expired = map (\<lambda>(a, s). (a, client_uuid_hex s))
            (filter (\<lambda>(_, s). timeout < now - last_seen_at s) (by_addr st))
      in fold drop_entry expired st)"

section \<open>Responses\<close>

definition req_timestamp :: "f64 \<Rightarrow> Request \<Rightarrow> f64" where
  "req_timestamp now req = (if is_finite (rq_timestamp req) then rq_timestamp req else now)"

definition make_ack_for_request :: "f64 \<Rightarrow> Request \<Rightarrow> Message" where
  "make_ack_for_request now req = Some (EnvResponse
     \<lparr>rs_id = rq_id req, rs_timestamp = req_timestamp now req, rs_result = Some (RespOk (Some (Ack True)))\<rparr>)"

definition make_err_for_request :: "f64 \<Rightarrow> Request \<Rightarrow> ErrorCode \<Rightarrow> string \<Rightarrow> Message" where
  "make_err_for_request now req code msg = Some (EnvResponse
     \<lparr>rs_id = rq_id req, rs_timestamp = req_timestamp now req,
      rs_result = Some (RespErr \<lparr>re_code = code, re_message = msg\<rparr>)\<rparr>)"

section \<open>Dispatch\<close>

definition request_kind :: "Message \<Rightarrow> RequestKind option" where
  "request_kind msg =
     (case msg of Some (EnvRequest req) \<Rightarrow> Option.bind (rq_command req) (\<lambda>k. k) | _ \<Rightarrow> None)"

definition client_uuid_of :: "Message \<Rightarrow> string option" where
  "client_uuid_of msg =
     (case request_kind msg of
        Some (Handshake hs) \<Rightarrow> map_option uuid_to_hex (hs_client_uuid hs)
      | Some (Heartbeat hb) \<Rightarrow> map_option uuid_to_hex (hb_client_uuid hb)
      | _ \<Rightarrow> None)"

text \<open>The match on the request's kind: the response to send, if any, and the new session tables.\<close>

definition dispatch_request ::
  "clocks \<Rightarrow> SocketAddr \<Rightarrow> Request \<Rightarrow> RequestKind \<Rightarrow> string option \<Rightarrow> SessionState \<Rightarrow> Message option \<times> SessionState" where
  "dispatch_request now addr req kind client_uuid st =
     (case kind of
        Handshake hs \<Rightarrow>
          if hs_version hs = PROTOCOL_VERSION then
            (let r = (case role_of (hs_role hs) of None \<Rightarrow> RoleUnspecified | Some r \<Rightarrow> r) in
             if r = RoleUnspecified
             then (Some (make_err_for_request (fst now) req InvalidState
                     ''handshake role must be producer or cursor_subscriber''), st)
             else (case client_uuid of
                 None \<Rightarrow> (None, st)
               | Some uuid \<Rightarrow> (Some (make_ack_for_request (fst now) req), set_session now addr uuid r st)))
          else (Some (make_err_for_request (fst now) req ProtocolVersionMismatch ''protocol version mismatch''), st)
      | Heartbeat _ \<Rightarrow> (Some (make_ack_for_request (fst now) req), st)
      | CursorSubscribe hz \<Rightarrow>
          if \<not> is_finite hz \<or> fle hz f_zero
          then (Some (make_err_for_request (fst now) req InvalidState
                  ''requested cursor rate must be finite and greater than zero''), st)
          else (case subscribe_cursor addr hz st of
              (True, st') \<Rightarrow> (Some (make_ack_for_request (fst now) req), st')
            | (False, st') \<Rightarrow> (Some (make_err_for_request (fst now) req InvalidState
                  ''cursor subscription requires a subscriber handshake''), st'))
      | CursorEventAck a \<Rightarrow>
          (None, snd (acknowledge_cursor_event addr (ack_server_epoch a) (ack_event_sequence a) st))
      | AircraftEventReq _ \<Rightarrow>
          if session_role addr st \<noteq> Some Producer
          then (Some (make_err_for_request (fst now) req InvalidState
                  ''only producer sessions may upload aircraft events''), st)
          else (None, st))"

definition dispatch_message ::
  "clocks \<Rightarrow> SocketAddr \<Rightarrow> Message \<Rightarrow> SessionState \<Rightarrow> Message option \<times> SessionState" where
  "dispatch_message now addr msg st =
     (case msg of
        Some (EnvRequest req) \<Rightarrow>
          (case request_kind msg of
             None \<Rightarrow> (None, st)
           | Some kind \<Rightarrow> dispatch_request now addr req kind (client_uuid_of msg) st)
      | _ \<Rightarrow> (None, st))"

definition is_producer_event :: "SocketAddr \<Rightarrow> Message \<Rightarrow> SessionState \<Rightarrow> bool" where
  "is_producer_event addr msg st =
     ((case request_kind msg of Some (AircraftEventReq _) \<Rightarrow> True | _ \<Rightarrow> False)
      \<and> session_role addr st = Some Producer)"

section \<open>The receive loop\<close>

record ServerLoop =
  sessions :: SessionState
  running :: bool
  sent :: "(Message \<times> SocketAddr) list"
  handled :: "(Message \<times> SocketAddr) list"

definition server_new :: ServerLoop where
  "server_new = \<lparr>sessions = sessions_new, running = True, sent = [], handled = []\<rparr>"

text \<open>
  One iteration: expired sessions are dropped before waiting (\<open>clk 0\<close>), a datagram arrives, is
  decoded, its sender is touched (\<open>clk 1\<close>), and it is dispatched (\<open>clk 2\<close>). A decoding error ends
  the loop. An accepted producer event is queued and handled at once.
\<close>

definition serve_datagram ::
  "(u8 list \<Rightarrow> Message option) \<Rightarrow> duration \<Rightarrow> (nat \<Rightarrow> clocks) \<Rightarrow> SocketAddr \<Rightarrow> u8 list \<Rightarrow> ServerLoop \<Rightarrow> ServerLoop" where
  "serve_datagram dec timeout clk addr bytes sv =
     (if \<not> running sv then sv
      else let st0 = cleanup_expired (snd (clk 0)) timeout (sessions sv) in
        if bytes = [] then sv\<lparr>sessions := st0\<rparr>
        else case dec bytes of
            None \<Rightarrow> sv\<lparr>sessions := st0, running := False\<rparr>
          | Some msg \<Rightarrow>
              (let st1 = touch_addr (clk 1) addr st0;
                   (ack, st2) = dispatch_message (clk 2) addr msg st1
               in sv\<lparr>sessions := st2,
                    sent := sent sv @ (case ack of None \<Rightarrow> [] | Some a \<Rightarrow> [(a, addr)]),
                    handled := handled sv @ (if is_producer_event addr msg st2 then [(msg, addr)] else [])\<rparr>))"

section \<open>Invariant\<close>

definition sessions_ok :: "SessionState \<Rightarrow> bool" where
  "sessions_ok st \<longleftrightarrow> al_ok (by_addr st) \<and> al_ok (by_client_uuid st)
     \<and> (\<forall>a s. map_of (by_addr st) a = Some s \<longrightarrow> s_addr s = a \<and> map_of (by_client_uuid st) (client_uuid_hex s) = Some a)"

definition keeps_identity :: "(Session \<Rightarrow> Session) \<Rightarrow> bool" where
  "keeps_identity f \<longleftrightarrow> (\<forall>s. s_addr (f s) = s_addr s \<and> client_uuid_hex (f s) = client_uuid_hex s)"

lemma update_session_simps [simp]:
  "map_of (by_addr (update_session addr f st)) a
    = (if a = addr then map_option f (map_of (by_addr st) addr) else map_of (by_addr st) a)"
  "by_client_uuid (update_session addr f st) = by_client_uuid st"
  by (auto simp: update_session_def split: option.split)

lemma sessions_okI:
  assumes "al_ok (by_addr st)" "al_ok (by_client_uuid st)"
    "\<And>a s. map_of (by_addr st) a = Some s \<Longrightarrow> s_addr s = a \<and> map_of (by_client_uuid st) (client_uuid_hex s) = Some a"
  shows "sessions_ok st"
  using assms unfolding sessions_ok_def by blast

lemma sessions_okD:
  assumes "sessions_ok st" "map_of (by_addr st) a = Some s"
  shows "s_addr s = a" "map_of (by_client_uuid st) (client_uuid_hex s) = Some a"
  using assms unfolding sessions_ok_def by blast+

lemma sessions_ok_keys: "sessions_ok st \<Longrightarrow> al_ok (by_addr st)" "sessions_ok st \<Longrightarrow> al_ok (by_client_uuid st)"
  unfolding sessions_ok_def by blast+

lemma update_session_ok:
  assumes ok: "sessions_ok st" and f: "keeps_identity f"
  shows "sessions_ok (update_session addr f st)"
proof (rule sessions_okI)
  show "al_ok (by_addr (update_session addr f st))"
    using sessions_ok_keys(1)[OF ok] by (auto simp: update_session_def split: option.split)
  show "al_ok (by_client_uuid (update_session addr f st))" using sessions_ok_keys(2)[OF ok] by simp
  fix a s
  assume s: "map_of (by_addr (update_session addr f st)) a = Some s"
  then obtain s0 where "map_of (by_addr st) a = Some s0" "s = s0 \<or> s = f s0"
    by (auto split: if_splits)
  with sessions_okD[OF ok this(1)] f
  show "s_addr s = a \<and> map_of (by_client_uuid (update_session addr f st)) (client_uuid_hex s) = Some a"
    by (auto simp: keeps_identity_def)
qed

lemma touch_ok [inv_intros]: "sessions_ok st \<Longrightarrow> sessions_ok (touch_addr now addr st)"
  unfolding touch_addr_def by (rule update_session_ok) (simp_all add: keeps_identity_def)

lemma epoch_ok [inv_intros]: "sessions_ok st \<Longrightarrow> sessions_ok (set_cursor_epoch addr e st)"
  unfolding set_cursor_epoch_def by (rule update_session_ok) (simp_all add: keeps_identity_def)

lemma subscribe_ok [inv_intros]: "sessions_ok st \<Longrightarrow> sessions_ok (snd (subscribe_cursor addr hz st))"
  by (auto simp: subscribe_cursor_def keeps_identity_def intro!: update_session_ok split: option.split)

lemma acknowledge_ok [inv_intros]: "sessions_ok st \<Longrightarrow> sessions_ok (snd (acknowledge_cursor_event addr e n st))"
  by (auto simp: acknowledge_cursor_event_def keeps_identity_def intro!: update_session_ok split: option.split)

lemma set_session_ok [inv_intros]:
  assumes ok: "sessions_ok st"
  shows "sessions_ok (set_session now addr u r st)"
proof (rule sessions_okI)
  note keys = sessions_ok_keys[OF ok]
  show "al_ok (by_addr (set_session now addr u r st))" "al_ok (by_client_uuid (set_session now addr u r st))"
    using keys by (auto simp: set_session_def Let_def split: option.split)
  fix a s
  assume s: "map_of (by_addr (set_session now addr u r st)) a = Some s"
  show "s_addr s = a \<and> map_of (by_client_uuid (set_session now addr u r st)) (client_uuid_hex s) = Some a"
  proof (cases "a = addr")
    case True
    then have "s = session_new now addr u r" using s by (simp add: set_session_def Let_def)
    then show ?thesis using True by (simp add: set_session_def Let_def session_new_def)
  next
    case False
    then have old: "map_of (by_addr st) a = Some s" "map_of (by_client_uuid st) u \<noteq> Some a"
      using s by (auto simp: set_session_def Let_def split: option.splits if_splits)
    then show ?thesis using sessions_okD[OF ok old(1)] by (auto simp: set_session_def Let_def)
  qed
qed

lemma drop_entry_simps [simp]:
  "map_of (by_addr (drop_entry e st)) a = (if a = fst e then None else map_of (by_addr st) a)"
  "map_of (by_client_uuid (drop_entry e st)) u = (if u = snd e then None else map_of (by_client_uuid st) u)"
  by (simp_all add: drop_entry_def)

text \<open>Dropping an entry is safe when no other address holds a session of its client.\<close>

definition droppable :: "SessionState \<Rightarrow> SocketAddr \<times> string \<Rightarrow> bool" where
  "droppable st e \<longleftrightarrow> map_of (by_client_uuid st) (snd e) \<in> {None, Some (fst e)}"

lemma drop_entry_ok:
  assumes ok: "sessions_ok st" and e: "droppable st e"
  shows "sessions_ok (drop_entry e st)"
proof (rule sessions_okI)
  show "al_ok (by_addr (drop_entry e st))" "al_ok (by_client_uuid (drop_entry e st))"
    using sessions_ok_keys[OF ok] by (simp_all add: drop_entry_def al_ok_del)
  fix a s
  assume "map_of (by_addr (drop_entry e st)) a = Some s"
  then have s: "map_of (by_addr st) a = Some s" "a \<noteq> fst e" by (simp_all split: if_splits)
  then show "s_addr s = a \<and> map_of (by_client_uuid (drop_entry e st)) (client_uuid_hex s) = Some a"
    using sessions_okD[OF ok s(1)] e by (auto simp: droppable_def)
qed

lemma drop_entry_droppable: "droppable st e' \<Longrightarrow> droppable (drop_entry e st) e'"
  by (simp add: droppable_def)

lemma remove_ok [inv_intros]:
  assumes ok: "sessions_ok st"
  shows "sessions_ok (remove_by_addr addr st)"
proof (cases "map_of (by_addr st) addr")
  case (Some old)
  have "droppable st (addr, client_uuid_hex old)"
    using sessions_okD(2)[OF ok Some] by (simp add: droppable_def)
  from drop_entry_ok[OF ok this] Some show ?thesis by (simp add: remove_by_addr_def)
qed (simp add: remove_by_addr_def ok)

lemma drop_entries:
  "sessions_ok st \<Longrightarrow> \<forall>e \<in> set es. droppable st e \<Longrightarrow>
     sessions_ok (fold drop_entry es st)
     \<and> (\<forall>b. map_of (by_addr (fold drop_entry es st)) b = (if b \<in> fst ` set es then None else map_of (by_addr st) b))"
proof (induction es arbitrary: st)
  case (Cons e es)
  have "sessions_ok (drop_entry e st)" "\<forall>e' \<in> set es. droppable (drop_entry e st) e'"
    using Cons.prems by (auto intro: drop_entry_ok drop_entry_droppable)
  from Cons.IH[OF this] show ?case by auto
qed simp

lemma cleanup_spec:
  assumes ok: "sessions_ok st"
  shows "sessions_ok (cleanup_expired now timeout st)"
    "map_of (by_addr (cleanup_expired now timeout st)) a = (case map_of (by_addr st) a of
       None \<Rightarrow> None | Some s \<Rightarrow> if timeout < now - last_seen_at s then None else Some s)"
proof -
  let ?es = "map (\<lambda>(a, s). (a, client_uuid_hex s)) (filter (\<lambda>(_, s). timeout < now - last_seen_at s) (by_addr st))"
  have mem: "(a, s) \<in> set (by_addr st) \<longleftrightarrow> map_of (by_addr st) a = Some s" for a s
    using sessions_ok_keys(1)[OF ok] by simp
  have "\<forall>e \<in> set ?es. droppable st e"
  proof
    fix e assume "e \<in> set ?es"
    then obtain b s where "e = (b, client_uuid_hex s)" "(b, s) \<in> set (by_addr st)" by auto
    then show "droppable st e" using sessions_okD(2)[OF ok] mem by (simp add: droppable_def)
  qed
  note f = drop_entries[OF ok this]
  show "sessions_ok (cleanup_expired now timeout st)"
    unfolding cleanup_expired_def Let_def by (rule conjunct1[OF f])
  have "a \<in> fst ` set ?es \<longleftrightarrow> (\<exists>s. (a, s) \<in> set (by_addr st) \<and> timeout < now - last_seen_at s)"
    by force
  then show "map_of (by_addr (cleanup_expired now timeout st)) a = (case map_of (by_addr st) a of
       None \<Rightarrow> None | Some s \<Rightarrow> if timeout < now - last_seen_at s then None else Some s)"
    unfolding cleanup_expired_def Let_def spec[OF conjunct2[OF f], of a] mem
    by (auto split: option.splits)
qed

lemma dispatch_ok [inv_intros]: "sessions_ok st \<Longrightarrow> sessions_ok (snd (dispatch_message now addr msg st))"
  using subscribe_ok[of st addr]
  by (auto simp: dispatch_message_def dispatch_request_def Let_def
      intro: set_session_ok acknowledge_ok
      split: option.splits Envelope.splits RequestKind.splits prod.splits bool.splits) (metis snd_conv)+

lemma serve_ok:
  assumes "sessions_ok (sessions sv)"
  shows "sessions_ok (sessions (serve_datagram dec timeout clk addr bytes sv))"
proof -
  have "sessions_ok (cleanup_expired (snd (clk 0)) timeout (sessions sv))"
    by (rule cleanup_spec(1)[OF assms])
  moreover from this have "sessions_ok (snd (dispatch_message (clk 2) addr msg
      (touch_addr (clk 1) addr (cleanup_expired (snd (clk 0)) timeout (sessions sv)))))" for msg
    by (intro inv_intros)
  ultimately show ?thesis
    using assms by (auto simp: serve_datagram_def Let_def split_beta split: option.split)
qed

lemma sessions_new_ok: "sessions_ok sessions_new"
  by (rule sessions_okI) (simp_all add: sessions_new_def)

text \<open>Every session table the server and its cursor publisher can produce.\<close>

inductive sessions_reachable :: "SessionState \<Rightarrow> bool" where
  new: "sessions_reachable sessions_new"
| serve: "sessions_reachable (sessions sv) \<Longrightarrow> sessions_reachable (sessions (serve_datagram dec timeout clk addr bytes sv))"
| register: "sessions_reachable st \<Longrightarrow> sessions_reachable (set_session now addr u r st)"
| remove: "sessions_reachable st \<Longrightarrow> sessions_reachable (remove_by_addr addr st)"
| epoch: "sessions_reachable st \<Longrightarrow> sessions_reachable (set_cursor_epoch addr e st)"

lemma sessions_reachable_ok: "sessions_reachable st \<Longrightarrow> sessions_ok st"
  by (induction rule: sessions_reachable.induct)
    (auto intro: serve_ok sessions_new_ok inv_intros)

end
