(* ===== verification/Cursor_Publisher.thy ===== *)
theory Cursor_Publisher
  imports Sessions Playback "HOL-Library.Option_ord"
begin

unbundle bit_operations_syntax

text \<open>
  The server side of the cursor stream (\<open>core/src/cursor.rs\<close>): frames and event batches assembled
  from the store at the playback cursor, and one tick of the publisher over its subscribers, with
  the reliable-event queue of each. The protobuf encoders, \<open>Uuid::parse_str\<close> and the clocks are
  parameters. The store is read as one snapshot per tick. \<open>None\<close> is a panic of the publisher task:
  slicing an identifier inside a character, an inverted event window, or
  \<open>Duration::from_secs_f64\<close> out of range.
\<close>

section \<open>Wire records\<close>

record CursorAircraftSnapshot =
  ca_aircraft_id :: "uuid option"
  ca_name :: string
  ca_toml_config :: string
  ca_source_timestamp :: f64
  ca_stale :: bool
  ca_state :: "AircraftState option"

record CursorFrame =
  cf_server_epoch :: "uuid option"
  cf_frame_sequence :: u64
  cf_mode :: int
  cf_cursor :: "f64 option"
  cf_lower_bound :: "f64 option"
  cf_upper_bound :: "f64 option"
  cf_speed :: f64
  cf_revision :: u64
  cf_event_watermark :: u64
  cf_generated_at :: f64
  cf_aircraft :: "CursorAircraftSnapshot list"

record CursorEvent =
  ce_sequence :: u64
  ce_aircraft_id :: "uuid option"
  ce_source_timestamp :: f64
  ce_info :: "AircraftCommandInfo option"

record CursorEventBatch =
  cb_server_epoch :: "uuid option"
  cb_event_sequence :: u64
  cb_revision :: u64
  cb_baseline :: bool
  cb_baseline_complete :: bool
  cb_events :: "CursorEvent list"

record CursorReset =
  cr_server_epoch :: "uuid option"
  cr_revision :: u64
  cr_cursor :: "f64 option"
  cr_reason :: string

text \<open>What the stream takes from the prost and uuid crates.\<close>

record CursorCodec =
  enc_cursor_frame :: "CursorFrame \<Rightarrow> u8 list"
  enc_batch :: "CursorEventBatch \<Rightarrow> u8 list"
  enc_reset :: "CursorReset \<Rightarrow> u8 list"
  parse_uuid :: "string \<Rightarrow> uuid option"

record CursorStreamConfig =
  publish_hz :: f64
  max_subscribers :: nat
  stale_timeout :: duration
  event_retry_interval :: duration
  event_retry_limit :: u32

definition cursor_config_default :: CursorStreamConfig where
  "cursor_config_default = \<lparr>publish_hz = F64 0x403E000000000000, max_subscribers = 16,
     stale_timeout = 500 * 1000000, event_retry_interval = 250 * 1000000, event_retry_limit = 8\<rparr>"

section \<open>Identifiers and events\<close>

definition char_boundary :: "string \<Rightarrow> nat \<Rightarrow> bool" where
  "char_boundary s i \<longleftrightarrow> i = 0 \<or> i = length s \<or> (i < length s \<and> \<not> (128 \<le> (of_char (s ! i) :: nat) \<and> (of_char (s ! i) :: nat) < 192))"

definition str_slice :: "nat \<Rightarrow> nat \<Rightarrow> string \<Rightarrow> string option" where
  "str_slice a b s = (if a \<le> b \<and> char_boundary s a \<and> char_boundary s b then Some (take (b - a) (drop a s)) else None)"

definition hex_to_pb_uuid :: "(string \<Rightarrow> uuid option) \<Rightarrow> string \<Rightarrow> uuid option option" where
  "hex_to_pb_uuid parse v =
     (case parse v of
        Some u \<Rightarrow> Some (Some u)
      | None \<Rightarrow>
          if length v = 32 then
            (case (str_slice 0 8 v, str_slice 8 12 v, str_slice 12 16 v, str_slice 16 20 v, str_slice 20 32 v) of
               (Some a, Some b, Some c, Some d, Some e) \<Rightarrow>
                 Some (parse (a @ ''-'' @ b @ ''-'' @ c @ ''-'' @ d @ ''-'' @ e))
             | _ \<Rightarrow> None)
          else Some None)"

definition event_info :: "Event \<Rightarrow> CommandKind" where
  "event_info e = (case e of EvSpawn sp \<Rightarrow> Spawn sp | EvDespawn d \<Rightarrow> Despawn d | EvCustom c \<Rightarrow> CustomEvent c)"

definition cursor_event :: "(string \<Rightarrow> uuid option) \<Rightarrow> u64 \<Rightarrow> GlobalTimestampedEvent \<Rightarrow> CursorEvent option" where
  "cursor_event parse sequence e =
     map_option (\<lambda>u. \<lparr>ce_sequence = sequence, ce_aircraft_id = u, ce_source_timestamp = ge_time e,
        ce_info = Some \<lparr>ci_kind = Some (event_info (ge_event e))\<rparr>\<rparr>) (hex_to_pb_uuid parse (ge_aircraft_id e))"

text \<open>\<open>iter().rposition(..).unwrap_or(0)\<close> followed by \<open>skip\<close>.\<close>

definition is_spawn :: "TimestampedEvent \<Rightarrow> bool" where
  "is_spawn e = (case ev_event e of EvSpawn _ \<Rightarrow> True | _ \<Rightarrow> False)"

definition since_last_spawn :: "TimestampedEvent list \<Rightarrow> TimestampedEvent list" where
  "since_last_spawn es =
     (if \<exists>e \<in> set es. is_spawn e
      then drop (length es - Suc (length (takeWhile (\<lambda>e. \<not> is_spawn e) (rev es)))) es
      else es)"

definition baseline_of :: "PlaybackSnapshot \<Rightarrow> f64 \<Rightarrow> TimeSeriesStore \<Rightarrow> string \<Rightarrow> GlobalTimestampedEvent list" where
  "baseline_of snapshot cursor s aid =
     (case resolve_aircraft_with snapshot aid s of
        None \<Rightarrow> []
      | Some r \<Rightarrow>
          if \<not> rs_spawned r then []
          else (case get_events_range aid f_neg_infinity cursor s of
              None \<Rightarrow> []
            | Some es \<Rightarrow> map (global_event aid) (since_last_spawn es)))"

definition baseline_events :: "PlaybackSnapshot \<Rightarrow> TimeSeriesStore \<Rightarrow> GlobalTimestampedEvent list" where
  "baseline_events snapshot s =
     (case snap_cursor snapshot of
        None \<Rightarrow> []
      | Some cursor \<Rightarrow> sort_key event_order (concat (map (baseline_of snapshot cursor s) (get_aircraft_ids s))))"

definition usize_max :: nat where "usize_max = 2 ^ 64 - 1"

definition delta_events :: "f64 option \<Rightarrow> f64 option \<Rightarrow> TimeSeriesStore \<Rightarrow> GlobalTimestampedEvent list option" where
  "delta_events previous_cursor cursor s =
     (case (previous_cursor, cursor) of
        (Some previous, Some current) \<Rightarrow>
          if flt current previous then Some []
          else map_option (\<lambda>pg. filter (\<lambda>e. flt previous (ge_time e)) (pg_items pg))
                 (get_global_events_page previous current 0 usize_max s)
      | _ \<Rightarrow> Some [])"

section \<open>Frames\<close>

definition mode_code :: "PlaybackMode \<Rightarrow> int" where
  "mode_code m = (case m of Live \<Rightarrow> 1 | ReplayPaused \<Rightarrow> 2 | ReplayPlaying \<Rightarrow> 3)"

definition frame_aircraft ::
  "(string \<Rightarrow> uuid option) \<Rightarrow> instant \<Rightarrow> duration \<Rightarrow> PlaybackSnapshot \<Rightarrow> TimeSeriesStore \<Rightarrow> string
   \<Rightarrow> CursorAircraftSnapshot option list" where
  "frame_aircraft parse now timeout snapshot s aid =
     (case resolve_aircraft_with snapshot aid s of
        None \<Rightarrow> []
      | Some r \<Rightarrow>
          if \<not> rs_spawned r then []
          else
            (let cfg = Option.bind (lookup s aid) config in
             [map_option (\<lambda>u. \<lparr>ca_aircraft_id = u,
                 ca_name = (case cfg of None \<Rightarrow> '''' | Some c \<Rightarrow> cfg_name c),
                 ca_toml_config = (case cfg of None \<Rightarrow> '''' | Some c \<Rightarrow> cfg_toml_config c),
                 ca_source_timestamp = st_time (rs_sample r),
                 ca_stale = (snap_mode snapshot = Live \<and> live_state_is_stale now aid timeout s),
                 ca_state = Some (st_state (rs_sample r))\<rparr>) (hex_to_pb_uuid parse aid)]))"

definition assemble_cursor_frame ::
  "(string \<Rightarrow> uuid option) \<Rightarrow> clocks \<Rightarrow> PlaybackSnapshot \<Rightarrow> duration \<Rightarrow> uuid \<Rightarrow> u64 \<Rightarrow> u64 \<Rightarrow> TimeSeriesStore
   \<Rightarrow> CursorFrame option" where
  "assemble_cursor_frame parse now snapshot timeout epoch frame_sequence event_watermark s =
     map_option (\<lambda>aircraft.
        \<lparr>cf_server_epoch = Some epoch, cf_frame_sequence = frame_sequence, cf_mode = mode_code (snap_mode snapshot),
         cf_cursor = snap_cursor snapshot, cf_lower_bound = map_option fst (snap_bounds snapshot),
         cf_upper_bound = map_option snd (snap_bounds snapshot), cf_speed = snap_speed snapshot,
         cf_revision = snap_revision snapshot, cf_event_watermark = event_watermark,
         cf_generated_at = fst now, cf_aircraft = sort_key ca_aircraft_id aircraft\<rparr>)
       (those (concat (map (frame_aircraft parse (snd now) timeout snapshot s) (get_aircraft_ids s))))"

section \<open>Event batches\<close>

record PendingEvents =
  pe_sequence :: u64
  pe_revision :: u64
  pe_cursor :: "f64 option"
  pe_messages :: "Message list"
  pe_reset_messages :: "Message list"
  pe_last_sent :: instant
  pe_attempts :: u32
  pe_final_page :: bool

record SubscriberState =
  sub_last_revision :: "u64 option"
  sub_last_cursor :: "f64 option"
  sub_next_event_sequence :: u64
  sub_pending :: "PendingEvents list"
  sub_last_frame_sent :: "instant option"

definition subscriber_default :: SubscriberState where
  "subscriber_default = \<lparr>sub_last_revision = None, sub_last_cursor = None, sub_next_event_sequence = 0,
     sub_pending = [], sub_last_frame_sent = None\<rparr>"

definition next_sequence :: "u64 \<Rightarrow> u64" where
  "next_sequence n = max (n + 1) 1"

definition event_id :: "u64 \<Rightarrow> nat \<Rightarrow> u64" where
  "event_id batch_sequence index = (push_bit 32 batch_sequence) OR of_nat index"

definition page_events :: "nat \<Rightarrow> 'a list \<Rightarrow> 'a list" where
  "page_events page_index evs = take 32 (drop (page_index * 32) evs)"

definition page_count :: "'a list \<Rightarrow> nat" where
  "page_count evs = div_ceil (max (length evs) 1) 32"

definition event_batch ::
  "(string \<Rightarrow> uuid option) \<Rightarrow> uuid \<Rightarrow> u64 \<Rightarrow> bool \<Rightarrow> GlobalTimestampedEvent list \<Rightarrow> u64 \<Rightarrow> nat \<Rightarrow> CursorEventBatch option" where
  "event_batch parse epoch rev_no baseline evs batch_sequence page_index =
     map_option (\<lambda>es. \<lparr>cb_server_epoch = Some epoch, cb_event_sequence = batch_sequence, cb_revision = rev_no,
         cb_baseline = (baseline \<and> page_index = 0),
         cb_baseline_complete = (page_index + 1 = page_count evs), cb_events = es\<rparr>)
       (those (map (\<lambda>(index, e). cursor_event parse (event_id batch_sequence index) e)
          (List.enumerate 0 (page_events page_index evs))))"

definition reset_payload :: "uuid \<Rightarrow> PlaybackSnapshot \<Rightarrow> SubscriberState \<Rightarrow> CursorReset" where
  "reset_payload epoch snapshot st =
     \<lparr>cr_server_epoch = Some epoch, cr_revision = snap_revision snapshot, cr_cursor = snap_cursor snapshot,
      cr_reason = (if sub_last_revision st = None then ''initial_sync'' else ''timeline_revision'')\<rparr>"

text \<open>The page loop; an encoding error clears the queue and leaves the loop.\<close>

fun queue_pages ::
  "CursorCodec \<Rightarrow> instant \<Rightarrow> uuid \<Rightarrow> PlaybackSnapshot \<Rightarrow> bool \<Rightarrow> GlobalTimestampedEvent list \<Rightarrow> nat list
   \<Rightarrow> SubscriberState \<Rightarrow> SubscriberState option" where
  "queue_pages codec now epoch snapshot baseline evs [] st = Some st"
| "queue_pages codec now epoch snapshot baseline evs (i # is) st =
     (let sequence = next_sequence (sub_next_event_sequence st);
          st1 = st\<lparr>sub_next_event_sequence := sequence\<rparr> in
      case event_batch (parse_uuid codec) epoch (snap_revision snapshot) baseline evs sequence i of
        None \<Rightarrow> None
      | Some batch \<Rightarrow>
          (case encode_cursor_chunks epoch KindEventBatch sequence (enc_batch codec batch) of
             Inl _ \<Rightarrow> Some (st1\<lparr>sub_pending := []\<rparr>)
           | Inr messages \<Rightarrow>
               let reset_messages =
                     (if baseline \<and> i = 0
                      then (case encode_cursor_chunks epoch KindReset sequence
                              (enc_reset codec (reset_payload epoch snapshot st)) of
                              Inl _ \<Rightarrow> [] | Inr ms \<Rightarrow> ms)
                      else [])
               in queue_pages codec now epoch snapshot baseline evs is
                    (st1\<lparr>sub_pending := sub_pending st1 @ [\<lparr>pe_sequence = sequence,
                        pe_revision = snap_revision snapshot, pe_cursor = snap_cursor snapshot,
                        pe_messages = messages, pe_reset_messages = reset_messages, pe_last_sent = now,
                        pe_attempts = 0, pe_final_page = (i + 1 = page_count evs)\<rparr>]\<rparr>)))"

section \<open>One subscriber, one tick\<close>

definition complete_front :: "u64 \<Rightarrow> SubscriberState \<Rightarrow> SubscriberState" where
  "complete_front ack st =
     (case sub_pending st of
        [] \<Rightarrow> st
      | p # ps \<Rightarrow>
          if pe_sequence p \<le> ack then
            (let st1 = st\<lparr>sub_pending := ps\<rparr> in
             if pe_final_page p then st1\<lparr>sub_last_revision := Some (pe_revision p), sub_last_cursor := pe_cursor p\<rparr>
             else st1)
          else st)"

definition cursor_reversed :: "f64 option \<Rightarrow> f64 option \<Rightarrow> bool" where
  "cursor_reversed previous current =
     (case (previous, current) of (Some p, Some c) \<Rightarrow> flt c p | _ \<Rightarrow> False)"

definition refill ::
  "CursorCodec \<Rightarrow> instant \<Rightarrow> uuid \<Rightarrow> PlaybackSnapshot \<Rightarrow> TimeSeriesStore \<Rightarrow> SubscriberState \<Rightarrow> SubscriberState option" where
  "refill codec now epoch snapshot s st =
     (if sub_pending st \<noteq> [] then Some st
      else
        (let revision_changed = (sub_last_revision st \<noteq> Some (snap_revision snapshot));
             baseline = (sub_last_revision st = None \<or> revision_changed
                         \<or> cursor_reversed (sub_last_cursor st) (snap_cursor snapshot))
         in case (if baseline then Some (baseline_events snapshot s)
                  else delta_events (sub_last_cursor st) (snap_cursor snapshot) s) of
              None \<Rightarrow> None
            | Some evs \<Rightarrow>
                if baseline \<or> evs \<noteq> []
                then queue_pages codec now epoch snapshot baseline evs [0..<page_count evs] st
                else Some (st\<lparr>sub_last_revision := Some (snap_revision snapshot),
                              sub_last_cursor := snap_cursor snapshot\<rparr>)))"

text \<open>Sending the front batch: \<open>None\<close> removes the subscriber, whose retries are used up.\<close>

definition send_front ::
  "CursorStreamConfig \<Rightarrow> instant \<Rightarrow> SubscriberState \<Rightarrow> (Message list \<times> SubscriberState) option" where
  "send_front cfg now st =
     (case sub_pending st of
        [] \<Rightarrow> Some ([], st)
      | p # ps \<Rightarrow>
          if pe_attempts p = 0 \<or> event_retry_interval cfg \<le> now - pe_last_sent p then
            (if event_retry_limit cfg \<le> pe_attempts p then None
             else Some (pe_reset_messages p @ pe_messages p,
                        st\<lparr>sub_pending := p\<lparr>pe_attempts := pe_attempts p + 1, pe_last_sent := now\<rparr> # ps\<rparr>))
          else Some ([], st))"

definition watermark :: "u64 \<Rightarrow> SubscriberState \<Rightarrow> u64" where
  "watermark ack st = (case last_opt (sub_pending st) of None \<Rightarrow> ack | Some p \<Rightarrow> pe_sequence p)"

definition send_frame ::
  "CursorCodec \<Rightarrow> CursorStreamConfig \<Rightarrow> clocks \<Rightarrow> uuid \<Rightarrow> u64 \<Rightarrow> PlaybackSnapshot \<Rightarrow> TimeSeriesStore \<Rightarrow> Session
   \<Rightarrow> SubscriberState \<Rightarrow> (Message list \<times> SubscriberState) option" where
  "send_frame codec cfg now epoch frame_sequence snapshot s session st =
     (case from_secs_f64 (fdiv f_one (fmin (cursor_requested_hz session) (publish_hz cfg))) of
        None \<Rightarrow> None
      | Some frame_interval \<Rightarrow>
          if (case sub_last_frame_sent st of None \<Rightarrow> False | Some t \<Rightarrow> snd now - t < frame_interval)
          then Some ([], st)
          else
            (case assemble_cursor_frame (parse_uuid codec) now snapshot (stale_timeout cfg) epoch frame_sequence
                    (watermark (cursor_event_ack session) st) s of
               None \<Rightarrow> None
             | Some frame \<Rightarrow>
                 (case encode_cursor_chunks epoch KindFrame frame_sequence (enc_cursor_frame codec frame) of
                    Inl _ \<Rightarrow> Some ([], st)
                  | Inr ms \<Rightarrow> Some (ms, st\<lparr>sub_last_frame_sent := Some (snd now)\<rparr>))))"

text \<open>The result for one subscriber: the datagrams sent and its new state, or none when it is removed.\<close>

definition publish_to ::
  "CursorCodec \<Rightarrow> CursorStreamConfig \<Rightarrow> clocks \<Rightarrow> uuid \<Rightarrow> u64 \<Rightarrow> PlaybackSnapshot \<Rightarrow> TimeSeriesStore \<Rightarrow> Session
   \<Rightarrow> SubscriberState \<Rightarrow> (Message list \<times> SubscriberState option) option" where
  "publish_to codec cfg now epoch frame_sequence snapshot s session st =
     (case refill codec (snd now) epoch snapshot s (complete_front (cursor_event_ack session) st) of
        None \<Rightarrow> None
      | Some st1 \<Rightarrow>
          (case send_front cfg (snd now) st1 of
             None \<Rightarrow> Some ([], None)
           | Some (evs, st2) \<Rightarrow>
               map_option (\<lambda>(frames, st3). (evs @ frames, Some st3))
                 (send_frame codec cfg now epoch frame_sequence snapshot s session st2)))"

section \<open>The publisher's tick\<close>

record Publisher =
  pub_epoch :: uuid
  pub_states :: "(SocketAddr \<times> SubscriberState) list"
  pub_frame_sequence :: u64

definition subscribers_of :: "SessionState \<Rightarrow> Session list" where
  "subscribers_of ss = sort_key s_addr
     (filter (\<lambda>x. s_role x = CursorSubscriber \<and> cursor_subscribed x) (session_list ss))"

fun publish_all ::
  "CursorCodec \<Rightarrow> CursorStreamConfig \<Rightarrow> clocks \<Rightarrow> PlaybackSnapshot \<Rightarrow> TimeSeriesStore \<Rightarrow> Session list \<Rightarrow> Publisher
   \<Rightarrow> SessionState \<Rightarrow> ((Message \<times> SocketAddr) list \<times> Publisher \<times> SessionState) option" where
  "publish_all codec cfg now snapshot s [] pub ss = Some ([], pub, ss)"
| "publish_all codec cfg now snapshot s (x # xs) pub ss =
     (let addr = s_addr x;
          ss1 = set_cursor_epoch addr (pub_epoch pub) ss;
          st = (case map_of (pub_states pub) addr of None \<Rightarrow> subscriber_default | Some st \<Rightarrow> st) in
      case publish_to codec cfg now (pub_epoch pub) (pub_frame_sequence pub) snapshot s x st of
        None \<Rightarrow> None
      | Some (ms, r) \<Rightarrow>
          (let pub1 = (case r of
                 None \<Rightarrow> pub\<lparr>pub_states := al_del addr (pub_states pub)\<rparr>
               | Some st1 \<Rightarrow> pub\<lparr>pub_states := al_put addr st1 (pub_states pub)\<rparr>);
               ss2 = (if r = None then remove_by_addr addr ss1 else ss1) in
           map_option (\<lambda>(out, pub2, ss3). (map (\<lambda>m. (m, addr)) ms @ out, pub2, ss3))
             (publish_all codec cfg now snapshot s xs pub1 ss2)))"

definition publisher_tick ::
  "CursorCodec \<Rightarrow> CursorStreamConfig \<Rightarrow> clocks \<Rightarrow> PlaybackSnapshot \<Rightarrow> TimeSeriesStore \<Rightarrow> Publisher \<Rightarrow> SessionState
   \<Rightarrow> ((Message \<times> SocketAddr) list \<times> Publisher \<times> SessionState) option" where
  "publisher_tick codec cfg now snapshot s pub ss =
     (let all = subscribers_of ss;
          overflow = drop (max_subscribers cfg) all;
          subscribers = take (max_subscribers cfg) all;
          ss1 = fold (\<lambda>x. remove_by_addr (s_addr x)) overflow ss;
          active = map s_addr subscribers;
          pub1 = pub\<lparr>pub_states := filter (\<lambda>(a, _). a \<in> set active) (pub_states pub),
                     pub_frame_sequence := pub_frame_sequence pub + 1\<rparr>
      in publish_all codec cfg now snapshot s subscribers pub1 ss1)"

definition validate_stream_config :: "CursorStreamConfig \<Rightarrow> TransportError + unit" where
  "validate_stream_config cfg =
     (if \<not> is_finite (publish_hz cfg) \<or> fle (publish_hz cfg) f_zero
      then Inl (InvalidMessage ''cursor publish_hz must be finite and greater than zero'')
      else if max_subscribers cfg = 0
      then Inl (InvalidMessage ''cursor max_subscribers must be greater than zero'')
      else Inr ())"

end
