(* ===== verification/Sessions_Properties.thy ===== *)
theory Sessions_Properties
  imports Sessions Samples
begin

text \<open>
  What the UDP server of \<open>core/src/transport/server.rs\<close> promises: one session per client, events
  accepted from producers only, acknowledgements that advance by one; and two behaviours that break
  its service: an undecodable datagram ends the receive loop, and a client that left its address to
  another client evicts that client when it connects again.
\<close>

section \<open>Inputs for the witnesses\<close>

definition handshake_request :: "u8 list \<Rightarrow> int \<Rightarrow> Request" where
  "handshake_request u r = \<lparr>rq_id = None, rq_timestamp = time_1,
     rq_command = Some (Some (Handshake \<lparr>hs_version = PROTOCOL_VERSION, hs_client_uuid = Some u, hs_role = r\<rparr>))\<rparr>"

definition handshake :: "u8 list \<Rightarrow> int \<Rightarrow> Message" where
  "handshake u r = Some (EnvRequest (handshake_request u r))"

text \<open>A decoder for three datagrams: two handshakes and garbage.\<close>

definition demo_dec :: "u8 list \<Rightarrow> Message option" where
  "demo_dec b = (if b = [1] then Some (handshake [7] 1) else if b = [2] then Some (handshake [8] 1) else None)"

definition demo_clk :: "nat \<Rightarrow> clocks" where "demo_clk i = (time_1, 5)"

lemma serve_handshake:
  assumes "running sv" "dec bytes = Some (handshake u 1)" "bytes \<noteq> []"
  shows "sessions (serve_datagram dec timeout clk addr bytes sv)
    = set_session (clk 2) addr (uuid_to_hex u) Producer
        (touch_addr (clk 1) addr (cleanup_expired (snd (clk 0)) timeout (sessions sv)))"
    "running (serve_datagram dec timeout clk addr bytes sv)"
  using assms by (simp_all add: serve_datagram_def Let_def handshake_def handshake_request_def dispatch_message_def
      request_kind_def dispatch_request_def role_of_def client_uuid_of_def split_beta)

lemma cleanup_new [simp]: "cleanup_expired now timeout sessions_new = sessions_new"
  by (simp add: cleanup_expired_def sessions_new_def)

lemma touch_new [simp]: "touch_addr now addr sessions_new = sessions_new"
  by (simp add: touch_addr_def update_session_def sessions_new_def)

definition demo_server :: ServerLoop where
  "demo_server = serve_datagram demo_dec 60 demo_clk (2, 3) [1] server_new"

lemma demo_session: "map_of (by_addr (sessions demo_server)) (2, 3) = Some (session_new (time_1, 5) (2, 3) (uuid_to_hex [7]) Producer)"
  using serve_handshake(1)[of server_new demo_dec "[1]" "[7]" 60 demo_clk "(2, 3)"]
  by (simp add: demo_server_def server_new_def demo_dec_def set_session_def Let_def sessions_new_def demo_clk_def)

lemma demo_running: "running demo_server"
  using serve_handshake(2)[of server_new demo_dec "[1]" "[7]" 60 demo_clk "(2, 3)"]
  by (simp add: demo_server_def server_new_def demo_dec_def)

lemma demo_server_reachable: "sessions_reachable (sessions demo_server)"
  unfolding demo_server_def by (rule sessions_reachable.serve) (simp add: server_new_def sessions_reachable.new)

section \<open>Properties\<close>



lemma dispatch_event:
  "request_kind msg = Some (AircraftEventReq e) \<Longrightarrow> msg = Some (EnvRequest req) \<Longrightarrow>
     dispatch_message now addr msg st = (if session_role addr st \<noteq> Some Producer
       then Some (make_err_for_request (fst now) req InvalidState ''only producer sessions may upload aircraft events'')
       else None, st)"
  by (simp add: dispatch_message_def dispatch_request_def)

lemma role_after_touch: "session_role addr (touch_addr now a st) = session_role addr st"
  by (auto simp: session_role_def touch_addr_def option.map_comp o_def)

lemma role_after_cleanup:
  "sessions_ok st \<Longrightarrow> session_role addr (cleanup_expired now timeout st) = (case map_of (by_addr st) addr of
     None \<Rightarrow> None | Some s \<Rightarrow> if timeout < now - last_seen_at s then None else Some (s_role s))"
  by (simp add: session_role_def cleanup_spec(2) split: option.split)

text \<open>C35: An aircraft event reaches the store's handler exactly when its sender holds an unexpired
  producer session; every other sender's event is refused with an error response that echoes the
  request's identifier, and changes no session.\<close>

theorem events_from_producers_only:
  assumes ok: "sessions_reachable (sessions sv)" and run: "running sv" and bytes: "bytes \<noteq> []"
    and dec: "dec bytes = Some (Some (EnvRequest req))" "rq_command req = Some (Some (AircraftEventReq e))"
  shows "if \<exists>s. map_of (by_addr (sessions sv)) addr = Some s \<and> snd (clk 0) - last_seen_at s \<le> timeout \<and> s_role s = Producer
    then handled (serve_datagram dec timeout clk addr bytes sv) = handled sv @ [(Some (EnvRequest req), addr)]
      \<and> sent (serve_datagram dec timeout clk addr bytes sv) = sent sv
    else handled (serve_datagram dec timeout clk addr bytes sv) = handled sv
      \<and> sent (serve_datagram dec timeout clk addr bytes sv) = sent sv @ [(Some (EnvResponse
          \<lparr>rs_id = rq_id req, rs_timestamp = req_timestamp (fst (clk 2)) req,
           rs_result = Some (RespErr \<lparr>re_code = InvalidState, re_message = ''only producer sessions may upload aircraft events''\<rparr>)\<rparr>), addr)]"
proof -
  let ?st = "touch_addr (clk 1) addr (cleanup_expired (snd (clk 0)) timeout (sessions sv))"
  have k: "request_kind (Some (EnvRequest req)) = Some (AircraftEventReq e)" by (simp add: request_kind_def dec(2))
  have role: "session_role addr ?st = Some Producer \<longleftrightarrow>
      (\<exists>s. map_of (by_addr (sessions sv)) addr = Some s \<and> snd (clk 0) - last_seen_at s \<le> timeout \<and> s_role s = Producer)"
    unfolding role_after_touch role_after_cleanup[OF sessions_reachable_ok[OF ok]]
    by (auto split: option.splits)
  show ?thesis
    unfolding role[symmetric]
    by (simp add: serve_datagram_def run bytes dec(1) Let_def dispatch_event[OF k refl] is_producer_event_def k
        make_err_for_request_def)
qed

definition demo_event :: Request where
  "demo_event = \<lparr>rq_id = Some [3], rq_timestamp = time_1, rq_command = Some (Some (AircraftEventReq \<lparr>ae_aircraft_id = None, ae_info = None\<rparr>))\<rparr>"

lemma events_from_producers_only_witness:
  "handled (serve_datagram (\<lambda>_. Some (Some (EnvRequest demo_event))) 60 (\<lambda>_. (time_1, 9)) (2, 3) [4] demo_server)
     = handled demo_server @ [(Some (EnvRequest demo_event), (2, 3))]
   \<and> handled (serve_datagram (\<lambda>_. Some (Some (EnvRequest demo_event))) 60 (\<lambda>_. (time_1, 99)) (2, 3) [4] demo_server)
     = handled demo_server"
  using events_from_producers_only[OF demo_server_reachable demo_running, of "[4]" "\<lambda>_. Some (Some (EnvRequest demo_event))"
      demo_event "\<lparr>ae_aircraft_id = None, ae_info = None\<rparr>" "(2, 3)" "\<lambda>_. (time_1, 9)" 60]
    events_from_producers_only[OF demo_server_reachable demo_running, of "[4]" "\<lambda>_. Some (Some (EnvRequest demo_event))"
      demo_event "\<lparr>ae_aircraft_id = None, ae_info = None\<rparr>" "(2, 3)" "\<lambda>_. (time_1, 99)" 60]
  by (simp add: demo_session session_new_def demo_event_def)

text \<open>A session's event acknowledgement moves only in three ways when a message is dispatched: it
  stays, it is reset by a new handshake of its own address, or it advances by exactly one because its
  own subscribed cursor client acknowledged that next sequence for the current server epoch.\<close>

theorem acknowledgement_advances_by_one:
  assumes "map_of (by_addr st) a = Some s" "map_of (by_addr (snd (dispatch_message now addr msg st))) a = Some s'"
  shows "cursor_event_ack s' = cursor_event_ack s
    \<or> (a = addr \<and> (\<exists>hs. request_kind msg = Some (Handshake hs)) \<and> cursor_event_ack s' = 0)
    \<or> (a = addr \<and> cursor_event_ack s' = cursor_event_ack s + 1 \<and> s_role s = CursorSubscriber \<and> cursor_subscribed s
        \<and> request_kind msg = Some (CursorEventAck
             \<lparr>ack_server_epoch = Some (cursor_epoch s), ack_event_sequence = cursor_event_ack s + 1\<rparr>))"
proof (cases "request_kind msg")
  case None
  then show ?thesis using assms by (auto simp: dispatch_message_def split: option.splits Envelope.splits)
next
  case (Some k)
  then obtain req where m: "msg = Some (EnvRequest req)"
    by (auto simp: request_kind_def split: option.splits Envelope.splits)
  have d: "dispatch_message now addr msg st = dispatch_request now addr req k (client_uuid_of msg) st"
    using Some by (simp add: dispatch_message_def m)
  show ?thesis
  proof (cases k)
    case (CursorEventAck v)
    then show ?thesis using assms Some
      by (cases v) (auto simp: d dispatch_request_def acknowledge_cursor_event_def split: option.splits if_splits)
  next
    case (CursorSubscribe hz)
    then show ?thesis using assms
      by (auto simp: d dispatch_request_def subscribe_cursor_def split: option.splits if_splits)
  next
    case (Handshake hs)
    then show ?thesis using assms Some
      by (auto simp: d dispatch_request_def set_session_def session_new_def Let_def split: option.splits if_splits)
  qed (use assms in \<open>auto simp: d dispatch_request_def split: if_splits\<close>)
qed

definition demo_subscriber :: SessionState where
  "demo_subscriber = set_cursor_epoch (2, 3) [9] (snd (subscribe_cursor (2, 3) time_1
     (set_session (time_1, 5) (2, 3) ''07'' CursorSubscriber sessions_new)))"

definition demo_ack :: Message where
  "demo_ack = Some (EnvRequest \<lparr>rq_id = None, rq_timestamp = time_1,
     rq_command = Some (Some (CursorEventAck \<lparr>ack_server_epoch = Some [9], ack_event_sequence = 1\<rparr>))\<rparr>)"

lemma acknowledgement_advances_by_one_witness:
  "\<exists>s s'. map_of (by_addr demo_subscriber) (2, 3) = Some s
     \<and> map_of (by_addr (snd (dispatch_message (time_1, 6) (2, 3) demo_ack demo_subscriber))) (2, 3) = Some s'
     \<and> cursor_event_ack s = 0 \<and> cursor_event_ack s' = 1 \<and> s_role s = CursorSubscriber"
proof -
  obtain s where s: "map_of (by_addr demo_subscriber) (2, 3) = Some s" "cursor_event_ack s = 0"
    "s_role s = CursorSubscriber" "cursor_subscribed s" "cursor_epoch s = [9]"
    by (simp add: demo_subscriber_def subscribe_cursor_def set_cursor_epoch_def set_session_def sessions_new_def
        session_new_def Let_def)
  then obtain s' where s': "map_of (by_addr (snd (dispatch_message (time_1, 6) (2, 3) demo_ack demo_subscriber))) (2, 3) = Some s'"
    "cursor_event_ack s' = 1"
    by (simp add: dispatch_message_def dispatch_request_def acknowledge_cursor_event_def demo_ack_def request_kind_def)
  have "\<not> (\<exists>hs. request_kind demo_ack = Some (Handshake hs))" by (simp add: request_kind_def demo_ack_def)
  then have "s_role s = CursorSubscriber"
    using acknowledgement_advances_by_one[OF s(1) s'(1)] s(2) s'(2) by auto
  with s s' show ?thesis by blast
qed

text \<open>One datagram that does not decode ends the receive loop: the server stops, and whatever arrives
  afterwards, from any client, is neither handled nor answered.\<close>

theorem undecodable_datagram_ends_service:
  assumes "running sv" "bytes \<noteq> []" "dec bytes = None"
  shows "handled (fold (\<lambda>(clk', addr', bytes'). serve_datagram dec timeout clk' addr' bytes') later
        (serve_datagram dec timeout clk addr bytes sv)) = handled sv
    \<and> sent (fold (\<lambda>(clk', addr', bytes'). serve_datagram dec timeout clk' addr' bytes') later
        (serve_datagram dec timeout clk addr bytes sv)) = sent sv"
proof -
  have stopped: "\<not> running sv' \<Longrightarrow>
      fold (\<lambda>(clk', addr', bytes'). serve_datagram dec timeout clk' addr' bytes') later sv' = sv'" for sv'
    by (induction later) (auto simp: serve_datagram_def)
  have "\<not> running (serve_datagram dec timeout clk addr bytes sv)" using assms by (simp add: serve_datagram_def Let_def)
  from stopped[OF this] show ?thesis using assms by (simp add: serve_datagram_def Let_def)
qed

lemma undecodable_datagram_ends_service_witness:
  "handled (fold (\<lambda>(clk', addr', bytes'). serve_datagram demo_dec 60 clk' addr' bytes') [(demo_clk, (2, 3), [1])]
      (serve_datagram demo_dec 60 demo_clk (4, 5) [0xFF] demo_server)) = handled demo_server"
  using undecodable_datagram_ends_service[OF demo_running, of "[0xFF]" demo_dec 60 "[(demo_clk, (2, 3), [1])]" demo_clk "(4, 5)"]
  by (simp add: demo_dec_def)

text \<open>Client \<open>u\<close> registers at one address, client \<open>v\<close> then registers at that address, and
  \<open>u\<close> registers again elsewhere: \<open>v\<close>'s live session is removed by \<open>u\<close>'s handshake.\<close>

theorem reconnect_evicts_other_client:
  assumes "u \<noteq> v" "a \<noteq> b"
  shows "map_of (by_addr (set_session t2 a v r (set_session t1 a u r st))) a = Some (session_new t2 a v r)
    \<and> map_of (by_addr (set_session t3 b u r (set_session t2 a v r (set_session t1 a u r st)))) a = None"
  using assms by (simp add: set_session_def Let_def)

lemma reconnect_evicts_other_client_witness:
  "map_of (by_addr (set_session (time_3, 3) (9, 9) ''u'' Producer (set_session (time_2, 2) (2, 3) ''v'' Producer
     (set_session (time_1, 1) (2, 3) ''u'' Producer sessions_new)))) (2, 3) = None"
  using reconnect_evicts_other_client[of "''u''" "''v''" "(2, 3)" "(9, 9)" "(time_2, 2)" Producer "(time_1, 1)" sessions_new "(time_3, 3)"]
  by simp

end
