(* ===== verification/Publisher_Properties.thy ===== *)
theory Publisher_Properties
  imports Cursor_Publisher Store_Properties Sessions_Properties
begin

text \<open>
  What the cursor publisher of \<open>core/src/cursor.rs\<close> promises: consecutive deltas tile the
  timeline, the queued pages carry every event once and in order, and a subscriber that never
  acknowledges is removed after its retries. Two behaviours break the service: an event recorded at
  or before a cursor already published is never streamed, and a subscription with a rate of at most
  \<open>2 ^ -65\<close> per second panics the publisher.
\<close>

section \<open>Deltas\<close>

definition delta_of :: "f64 \<Rightarrow> f64 \<Rightarrow> TimeSeriesStore \<Rightarrow> string \<Rightarrow> GlobalTimestampedEvent list" where
  "delta_of p c s aid = (case lookup s aid of None \<Rightarrow> []
     | Some x \<Rightarrow> map (global_event aid) (filter (\<lambda>e. flt p (ev_time e) \<and> fle (ev_time e) c) (events x)))"

definition event_total :: "TimeSeriesStore \<Rightarrow> nat" where
  "event_total s = length (concat (map (\<lambda>(_, x). events x) (data s)))"

lemma filter_filter_window:
  "filter (\<lambda>e. flt p (ge_time e)) (map (global_event i) (window_filter ev_time p c es))
    = map (global_event i) (filter (\<lambda>e. flt p (ev_time e) \<and> fle (ev_time e) c) es)"
  by (induction es) (auto simp: window_filter_def global_event_def flt_imp_fle)

lemma length_all_events_le: "length (all_events p c m) \<le> length (concat (map (\<lambda>(_, x). events x) m))"
  by (induction m) (auto simp: all_events_def window_filter_def intro: add_le_mono length_filter_le)

lemma page_slice_all: "length xs \<le> n \<Longrightarrow> pg_items (page_slice xs 0 n) = xs"
  by (simp add: page_slice_items)

lemma delta_closed:
  assumes inv: "store_inv s" and le: "fle p c" and few: "event_total s \<le> usize_max"
  shows "delta_events (Some p) (Some c) s = Some (sort_key event_order (concat (map (delta_of p c s) (get_aircraft_ids s))))"
proof -
  let ?g = "\<lambda>i. case lookup s i of None \<Rightarrow> [] | Some x \<Rightarrow> map (global_event i) (window_filter ev_time p c (events x))"
  define es where "es = concat (map ?g (get_aircraft_ids s))"
  have "length es = length (all_events p c (data s))"
    unfolding es_def by (rule mset_eq_length[OF mset_all_events[OF inv]])
  then have "length es \<le> usize_max"
    using length_all_events_le[of p c "data s"] few by (simp add: event_total_def)
  moreover have "\<not> flt c p" using le by (auto simp: float_cmp)
  moreover have "filter (\<lambda>e. flt p (ge_time e)) (?g i) = delta_of p c s i" for i
    by (cases "lookup s i") (simp_all add: delta_of_def filter_filter_window)
  then have "filter (\<lambda>e. flt p (ge_time e)) es = concat (map (delta_of p c s) (get_aircraft_ids s))"
    unfolding es_def filter_concat map_map o_def by simp
  moreover have "get_global_events_page p c 0 usize_max s = Some (page_slice (sort_key event_order es) 0 usize_max)"
    by (simp add: get_global_events_page_def collect_events_eq[OF inv le] es_def)
  ultimately show ?thesis
    by (simp add: delta_events_def page_slice_all filter_sort)
qed

text \<open>Two adjacent windows tile their union.\<close>

lemma mset_tile:
  assumes "fle p q" "fle q r"
  shows "mset (filter (\<lambda>e. flt p (f e) \<and> fle (f e) q) xs) + mset (filter (\<lambda>e. flt q (f e) \<and> fle (f e) r) xs)
    = mset (filter (\<lambda>e. flt p (f e) \<and> fle (f e) r) xs)"
  using assms by (induction xs) (auto simp: float_cmp)

lemma mset_delta_tile:
  assumes "fle p q" "fle q r"
  shows "mset (delta_of p q s i) + mset (delta_of q r s i) = mset (delta_of p r s i)"
  by (cases "lookup s i")
    (simp_all add: delta_of_def mset_tile[OF assms] del: mset_filter flip: image_mset_union)

lemma mset_concat_tile:
  assumes "\<And>i. mset (f i) + mset (g i) = mset (h i)"
  shows "mset (concat (map f ids)) + mset (concat (map g ids)) = mset (concat (map h ids))"
proof (induction ids)
  case (Cons i ids)
  have "mset (concat (map f (i # ids))) + mset (concat (map g (i # ids)))
      = (mset (f i) + mset (g i)) + (mset (concat (map f ids)) + mset (concat (map g ids)))"
    by (simp only: list.map concat.simps mset_append ac_simps)
  then show ?case by (simp only: assms Cons.IH list.map concat.simps mset_append)
qed simp


lemma demo_event_total: "event_total demo_store \<le> usize_max"
  by (simp add: event_total_def demo_data usize_max_def)


section \<open>Late events\<close>

lemma keys_al_put_filter: "filter (\<lambda>i. i \<noteq> k) (al_keys (al_put k v m)) = filter (\<lambda>i. i \<noteq> k) (al_keys m)"
  by (induction m) auto

lemma keys_al_put_old: "k \<in> fst ` set m \<Longrightarrow> al_keys (al_put k v m) = al_keys m"
proof (induction m)
  case (Cons e m)
  then show ?case by (cases e; cases "fst e = k") simp_all
qed simp

lemma concat_skip: "g k = [] \<Longrightarrow> concat (map g ids) = concat (map g (filter (\<lambda>i. i \<noteq> k) ids))"
  by (induction ids) auto

lemma filter_log_insert: "\<not> Q x \<Longrightarrow> filter Q (log_insert stamp x xs) = filter Q xs"
proof -
  assume "\<not> Q x"
  moreover have "filter Q (take n xs) @ filter Q (drop n xs) = filter Q xs" for n
    by (simp only: filter_append[symmetric] append_take_drop_id)
  ultimately show ?thesis by (simp add: log_insert_def insert_at_def)
qed

lemma in_set_log_insert: "x \<in> set (log_insert stamp x xs)"
  by (simp add: log_insert_def insert_at_def)

lemma lookup_append_event:
  "is_finite t \<Longrightarrow> lookup (append_event aid t e s) i =
    (if i = aid then Some ((case e of EvSpawn sp \<Rightarrow> (series_of s aid)\<lparr>config := Some (config_of_spawn sp)\<rparr> | _ \<Rightarrow> series_of s aid)
        \<lparr>events := log_insert ev_time \<lparr>ev_time = t, ev_event = e\<rparr> (events (series_of s aid))\<rparr>)
     else lookup s i)"
  by (simp add: append_event_def Let_def put_series_def lookup_def split: Event.split)

lemma delta_of_late:
  assumes "is_finite t" "fle t p"
  shows "delta_of p c (append_event aid t e s) i = delta_of p c s i"
proof -
  have "\<not> flt p t" using assms(2) by (auto simp: float_cmp)
  then show ?thesis
    by (auto simp: delta_of_def lookup_append_event[OF assms(1)] filter_log_insert series_of_def empty_series_def
        split: option.split)
qed

lemma ids_append_event:
  "filter (\<lambda>i. i \<noteq> aid) (get_aircraft_ids (append_event aid t e s)) = filter (\<lambda>i. i \<noteq> aid) (get_aircraft_ids s)"
proof -
  have sort: "filter (\<lambda>i. i \<noteq> aid) (sort ks) = sort (filter (\<lambda>i. i \<noteq> aid) ks)" for ks :: "string list"
    using filter_sort[of "\<lambda>i. i \<noteq> aid" "\<lambda>i. i" ks] by simp
  show ?thesis
    by (simp add: get_aircraft_ids_def append_event_def Let_def put_series_def sort keys_al_put_filter)
qed

lemma ids_unknown: "aid \<notin> set (get_aircraft_ids s) \<Longrightarrow> lookup s aid = None"
  by (simp add: get_aircraft_ids_def lookup_def map_of_eq_None_iff)

text \<open>An event recorded with a timestamp at or before a cursor already published, which happens when
  one aircraft's source clock lags another's, is in the store but in no delta from that cursor on: the
  stream of every subscriber stays as if it had not been recorded.\<close>

theorem late_event_not_streamed:
  assumes inv: "store_inv s" and t: "is_finite t" "fle t p" and le: "fle p c"
    and few: "event_total s \<le> usize_max" "event_total (append_event aid t e s) \<le> usize_max"
  shows "delta_events (Some p) (Some c) (append_event aid t e s) = delta_events (Some p) (Some c) s
    \<and> (\<exists>x. lookup (append_event aid t e s) aid = Some x \<and> \<lparr>ev_time = t, ev_event = e\<rparr> \<in> set (events x))"
proof -
  let ?s = "append_event aid t e s"
  have same: "delta_of p c ?s = delta_of p c s" using delta_of_late[OF t] by (rule ext)
  have "concat (map (delta_of p c s) (get_aircraft_ids ?s)) = concat (map (delta_of p c s) (get_aircraft_ids s))"
  proof (cases "delta_of p c s aid = []")
    case True
    have "concat (map (delta_of p c s) (get_aircraft_ids ?s))
        = concat (map (delta_of p c s) (filter (\<lambda>i. i \<noteq> aid) (get_aircraft_ids ?s)))"
      using True by (rule concat_skip)
    also have "\<dots> = concat (map (delta_of p c s) (get_aircraft_ids s))"
      unfolding ids_append_event using True by (rule concat_skip[symmetric])
    finally show ?thesis .
  next
    case False
    then have "lookup s aid \<noteq> None" by (auto simp: delta_of_def split: option.splits)
    then have "aid \<in> fst ` set (data s)" by (simp add: lookup_def map_of_eq_None_iff)
    then have "al_keys (data ?s) = al_keys (data s)"
      using t(1) by (simp add: append_event_def Let_def put_series_def keys_al_put_old)
    then show ?thesis by (simp add: get_aircraft_ids_def)
  qed
  moreover have "\<exists>x. lookup ?s aid = Some x \<and> \<lparr>ev_time = t, ev_event = e\<rparr> \<in> set (events x)"
    unfolding lookup_append_event[OF t(1)] by (simp add: in_set_log_insert)
  ultimately show ?thesis
    unfolding delta_closed[OF inv le few(1)] delta_closed[OF append_event_inv[OF inv] le few(2)] same
    by (simp only: simp_thms)
qed

lemma late_event_not_streamed_witness:
  "delta_events (Some time_2) (Some time_3) (append_event ''late'' time_1 (EvCustom ''x'') demo_store)
     = delta_events (Some time_2) (Some time_3) demo_store"
proof -
  have "event_total (append_event ''late'' time_1 (EvCustom ''x'') demo_store) \<le> usize_max"
    by (simp add: event_total_def append_event_def Let_def put_series_def demo_data series_of_def demo_unknown
        empty_series_def log_insert_def usize_max_def)
  then show ?thesis
    using late_event_not_streamed[OF demo_inv, of time_1 time_2 time_3 "''late''" "EvCustom ''x''"]
      demo_event_total by (simp add: float_cmp)
qed

section \<open>A rate that panics the publisher\<close>

text \<open>\<open>2 ^ -65\<close> and \<open>2 ^ 65\<close>.\<close>

definition tiny_hz :: f64 where "tiny_hz = F64 0x3BE0000000000000"

lemma tiny_hz_mag: "f_mag tiny_hz = 958 * 2 ^ 52" "\<not> f_neg tiny_hz" "is_finite tiny_hz"
  by (simp_all add: tiny_hz_def f64_eval)

lemma reciprocal_of_tiny:
  assumes x: "flt f_zero x" "fle x tiny_hz"
  shows "from_secs_f64 (fdiv f_one x) = None"
proof -
  let ?d = "val_mag (f_mag x)" and ?n = "val_mag (f_mag f_one) * unit_scale"
  have nx: "\<not> is_nan x" "\<not> f_neg x" "f_mag x \<noteq> 0" "f_mag x \<le> 958 * 2 ^ 52"
    using x tiny_hz_mag by (auto simp: flt_def fle_def ord_key_def split: if_splits)
  then have inf: "\<not> is_infinite x" by (simp add: is_infinite_def inf_mag_def)
  have one: "\<not> is_nan f_one" "\<not> is_infinite f_one" "\<not> f_neg f_one" "f_mag f_one = 1023 * 2 ^ 52"
    by (simp_all add: f64_eval)
  have "?d \<noteq> 0" using nx by (subst val_mag_zero_iff) (simp_all add: inf_mag_def)
  then have d: "0 < ?d" by simp
  have "?d \<le> val_mag (958 * 2 ^ 52)" using nx by (intro val_mag_mono) (simp_all add: inf_mag_def)
  also have "\<dots> = 2 ^ 1009" by (simp add: val_mag_def)
  finally have d_le: "?d \<le> 2 ^ 1009" .
  have v: "val_mag (1088 * 2 ^ 52) = 2 ^ 1139" "val_mag (f_mag f_one) = 2 ^ 1074"
    by (simp_all add: val_mag_def one)
  have "round_mag (2 ^ 1139) 1 \<le> round_mag ?n ?d"
  proof (rule round_mag_mono)
    have "(2::nat) ^ 1139 * ?d \<le> 2 ^ 1139 * 2 ^ 1009" using d_le by (rule mult_le_mono2)
    also have "\<dots> = ?n * 1" by (simp only: v unit_scale_def power_add[symmetric]) simp
    finally show "2 ^ 1139 * ?d \<le> ?n * 1" .
  qed (use d in simp_all)
  moreover have "round_mag (2 ^ 1139) 1 = 1088 * 2 ^ 52"
    unfolding v(1)[symmetric] One_nat_def by (rule round_mag_exact1) (simp add: inf_mag_def)
  ultimately have m: "1088 * 2 ^ 52 \<le> round_mag ?n ?d" by simp
  have q: "fdiv f_one x = f_make False (round_mag ?n ?d)"
    using nx inf one by (simp add: fdiv_def Let_def f_round_def)
  have "2 ^ 1139 \<le> val_mag (round_mag ?n ?d)"
    using val_mag_mono[OF m round_mag_inf] v by simp
  moreover have "(2::nat) ^ 1139 = 2 ^ 65 * unit_scale"
    by (simp only: unit_scale_def power_add[symmetric]) simp
  ultimately have "(2 ^ 65 * nanos_per_sec) * unit_scale * unit_scale \<le> val_mag (round_mag ?n ?d) * nanos_per_sec * unit_scale"
    by (metis mult.commute mult.left_commute mult_le_mono2)
  then have "rne (2 ^ 65 * nanos_per_sec * unit_scale) unit_scale \<le> rne (val_mag (round_mag ?n ?d) * nanos_per_sec) unit_scale"
    by (intro rne_mono) (simp_all add: unit_scale_def del: mult_le_cancel2)
  moreover have "rne (2 ^ 65 * nanos_per_sec * unit_scale) unit_scale = 2 ^ 65 * nanos_per_sec"
    by (rule rne_exact) (simp add: unit_scale_def)
  ultimately have "2 ^ 65 * nanos_per_sec \<le> rne (val_mag (round_mag ?n ?d) * nanos_per_sec) unit_scale"
    by (simp only:)
  then show ?thesis
    by (simp add: from_secs_f64_def q Let_def nanos_per_sec_def)
qed

definition hostile_rate :: "f64 \<Rightarrow> bool" where
  "hostile_rate hz \<longleftrightarrow> flt f_zero hz \<and> fle hz tiny_hz"

lemma hostile_min:
  assumes "hostile_rate hz" "is_finite p" "flt f_zero p"
  shows "from_secs_f64 (fdiv f_one (fmin hz p)) = None"
proof (rule reciprocal_of_tiny)
  have nan: "\<not> is_nan hz" "\<not> is_nan p" using assms by (auto simp: hostile_rate_def float_cmp)
  then have "\<not> is_nan (fmin hz p)" using fmin_cases[of hz p] by auto
  then show "flt f_zero (fmin hz p)" "fle (fmin hz p) tiny_hz"
    using assms nan by (auto simp: hostile_rate_def float_cmp fmin_key)
qed

lemma queue_pages_unsent:
  "queue_pages codec now epoch snapshot baseline evs is st = Some st'
   \<Longrightarrow> \<forall>p \<in> set (sub_pending st). pe_attempts p = 0 \<Longrightarrow> \<forall>p \<in> set (sub_pending st'). pe_attempts p = 0"
  by (induction codec now epoch snapshot baseline evs "is" st rule: queue_pages.induct)
    (auto simp: Let_def split: option.splits sum.splits)

lemma refill_unsent:
  assumes "refill codec now epoch snapshot s st = Some st'" "sub_pending st = []" "p \<in> set (sub_pending st')"
  shows "pe_attempts p = 0"
  using assms queue_pages_unsent[of codec now epoch snapshot _ _ _ st st']
  by (auto simp: refill_def Let_def split: if_splits option.splits)

lemma send_front_unsent:
  "\<forall>p \<in> set (sub_pending st). pe_attempts p = 0 \<Longrightarrow> event_retry_limit cfg \<noteq> 0 \<Longrightarrow> send_front cfg now st \<noteq> None"
  by (cases "sub_pending st") (auto simp: send_front_def)

lemma publish_to_hostile:
  assumes "hostile_rate (cursor_requested_hz x)" "validate_stream_config cfg = Inr ()" "event_retry_limit cfg \<noteq> 0"
  shows "publish_to codec cfg now epoch frame_sequence snapshot s x subscriber_default = None"
proof -
  have "is_finite (publish_hz cfg)" "flt f_zero (publish_hz cfg)"
    using assms(2) by (auto simp: validate_stream_config_def not_fle split: if_splits)
  then have "send_frame codec cfg now epoch frame_sequence snapshot s x st = None" for st
    by (simp add: send_frame_def hostile_min[OF assms(1)])
  moreover have "complete_front ack subscriber_default = subscriber_default" for ack
    by (simp add: complete_front_def subscriber_default_def)
  moreover have "send_front cfg now' st \<noteq> None"
    if "refill codec (snd now) epoch snapshot s subscriber_default = Some st" for st and now' :: instant
  proof (rule send_front_unsent[OF _ assms(3)])
    show "\<forall>p \<in> set (sub_pending st). pe_attempts p = 0"
      using refill_unsent[OF that] by (simp add: subscriber_default_def)
  qed
  ultimately show ?thesis
    by (cases "refill codec (snd now) epoch snapshot s subscriber_default")
      (auto simp: publish_to_def split: option.split)
qed

lemma publish_all_hostile:
  assumes "\<And>codec epoch n. publish_to codec cfg now epoch n snapshot s x subscriber_default = None"
    and "x \<in> set xs" "distinct (map s_addr xs)" "map_of (pub_states pub) (s_addr x) = None"
  shows "publish_all codec cfg now snapshot s xs pub ss = None"
  using assms(2-)
proof (induction xs arbitrary: pub ss)
  case (Cons y ys)
  show ?case
  proof (cases "y = x")
    case True
    then show ?thesis using Cons.prems by (simp add: Let_def assms(1))
  next
    case False
    with Cons.prems have x: "x \<in> set ys" "s_addr x \<noteq> s_addr y" "distinct (map s_addr ys)"
      by (auto simp: image_iff)
    show ?thesis
      using Cons.IH[OF x(1,3)] Cons.prems(3) x(2) by (simp add: Let_def split: option.split)
  qed
qed simp

lemma subscribers_distinct:
  assumes "sessions_ok ss"
  shows "distinct (map s_addr (subscribers_of ss))"
proof -
  have "s_addr x = a" if "(a, x) \<in> set (by_addr ss)" for a x
    using that sessions_okD(1)[OF assms, of a x] sessions_ok_keys(1)[OF assms] by simp
  then have "map s_addr (session_list ss) = al_keys (by_addr ss)"
    by (auto simp: session_list_def)
  then have "distinct (map s_addr (filter P (session_list ss)))" for P
    using sessions_ok_keys(1)[OF assms] by (simp add: distinct_map_filter)
  then have "inj_on s_addr (set (filter P (session_list ss))) \<and> distinct (filter P (session_list ss))" for P
    by (simp only: distinct_map)
  then show ?thesis by (simp add: subscribers_of_def distinct_map)
qed

text \<open>One subscriber whose requested rate is finite, positive and at most \<open>2 ^ -65\<close>, which the server
  accepts, panics the publisher at its first tick, so that no subscriber is served any more.\<close>

theorem tiny_rate_panics_publisher:
  assumes ok: "sessions_reachable ss" and x: "x \<in> set (take (max_subscribers cfg) (subscribers_of ss))"
    and hz: "hostile_rate (cursor_requested_hz x)" and new: "map_of (pub_states pub) (s_addr x) = None"
    and cfg: "validate_stream_config cfg = Inr ()" "event_retry_limit cfg \<noteq> 0"
  shows "publisher_tick codec cfg now snapshot s pub ss = None"
proof -
  have "distinct (map s_addr (take (max_subscribers cfg) (subscribers_of ss)))"
    using subscribers_distinct[OF sessions_reachable_ok[OF ok]] by (simp add: take_map[symmetric])
  moreover have "map_of (filter (\<lambda>(a, _). P a) (pub_states pub)) (s_addr x) = None" for P
    using new by (simp add: map_of_filter_key)
  ultimately show ?thesis
    using publish_all_hostile[OF publish_to_hostile[OF hz cfg] x] by (simp add: publisher_tick_def Let_def)
qed

text \<open>A subscriber whose second datagram asks for \<open>2 ^ -65\<close> frames per second.\<close>

definition subscribe_request :: "f64 \<Rightarrow> Message" where
  "subscribe_request hz = Some (EnvRequest \<lparr>rq_id = None, rq_timestamp = time_1, rq_command = Some (Some (CursorSubscribe hz))\<rparr>)"

definition hostile_sessions :: SessionState where
  "hostile_sessions = sessions (serve_datagram (\<lambda>_. Some (subscribe_request tiny_hz)) 60 demo_clk (2, 3) [1]
     (server_new\<lparr>sessions := set_session (time_1, 5) (2, 3) ''07'' CursorSubscriber sessions_new\<rparr>))"

definition hostile_session :: Session where
  "hostile_session = (session_new (time_1, 5) (2, 3) ''07'' CursorSubscriber)
     \<lparr>cursor_subscribed := True, cursor_requested_hz := tiny_hz\<rparr>"

lemma hostile_reachable: "sessions_reachable hostile_sessions"
  unfolding hostile_sessions_def
  by (rule sessions_reachable.serve) (simp add: sessions_reachable.register sessions_reachable.new)

lemma tiny_hz_ok: "is_finite tiny_hz" "\<not> fle tiny_hz f_zero" "hostile_rate tiny_hz"
  by (simp_all add: tiny_hz_def hostile_rate_def f64_eval)

lemma hostile_table: "by_addr hostile_sessions = [((2, 3), hostile_session)]"
  by (simp add: hostile_sessions_def hostile_session_def server_new_def serve_datagram_def subscribe_request_def
      dispatch_message_def request_kind_def dispatch_request_def set_session_def sessions_new_def session_new_def
      cleanup_expired_def touch_addr_def update_session_def subscribe_cursor_def demo_clk_def Let_def tiny_hz_ok)

lemma hostile_subscribers: "subscribers_of hostile_sessions = [hostile_session]"
  by (simp add: subscribers_of_def session_list_def hostile_table) (simp add: hostile_session_def session_new_def)

lemma default_stream_ok: "validate_stream_config cursor_config_default = Inr ()"
  by (simp add: validate_stream_config_def cursor_config_default_def f64_eval)

lemma tiny_rate_panics_publisher_witness:
  "\<forall>codec snapshot s. publisher_tick codec cursor_config_default (time_1, 5) snapshot s \<lparr>pub_epoch = [9], pub_states = [], pub_frame_sequence = 0\<rparr>
     hostile_sessions = None"
  by (intro allI, rule tiny_rate_panics_publisher[OF hostile_reachable, of hostile_session])
    (simp_all add: hostile_subscribers default_stream_ok, simp_all add: hostile_session_def tiny_hz_ok cursor_config_default_def)

section \<open>Retransmission\<close>

text \<open>One subscriber over several ticks, each with its clocks, frame number, snapshot, store and session.\<close>

type_synonym tick = "clocks \<times> u64 \<times> PlaybackSnapshot \<times> TimeSeriesStore \<times> Session"

fun serve_ticks :: "CursorCodec \<Rightarrow> CursorStreamConfig \<Rightarrow> uuid \<Rightarrow> tick list \<Rightarrow> SubscriberState \<Rightarrow> SubscriberState option option" where
  "serve_ticks codec cfg epoch [] st = Some (Some st)"
| "serve_ticks codec cfg epoch ((now, n, snapshot, s, x) # ticks) st =
     (case publish_to codec cfg now epoch n snapshot s x st of
        None \<Rightarrow> None
      | Some (_, None) \<Rightarrow> Some None
      | Some (_, Some st1) \<Rightarrow> serve_ticks codec cfg epoch ticks st1)"

text \<open>Every tick comes at least the retry interval after the one before it, and never acknowledges \<open>n\<close>.\<close>

fun silent_ticks :: "duration \<Rightarrow> u64 \<Rightarrow> instant \<Rightarrow> tick list \<Rightarrow> bool" where
  "silent_ticks interval n last_sent [] = True"
| "silent_ticks interval n last_sent ((now, _, _, _, x) # ticks) =
     (interval \<le> snd now - last_sent \<and> cursor_event_ack x < n \<and> silent_ticks interval n (snd now) ticks)"

lemma send_frame_pending:
  "send_frame codec cfg now epoch n snapshot s x st = Some (ms, st') \<Longrightarrow> sub_pending st' = sub_pending st"
  by (auto simp: send_frame_def split: option.splits sum.splits if_splits)

lemma publish_to_silent:
  assumes "sub_pending st = p # ps" "cursor_event_ack x < pe_sequence p"
    and "event_retry_interval cfg \<le> snd now - pe_last_sent p"
    and r: "publish_to codec cfg now epoch n snapshot s x st = Some (out, r)"
  shows "if event_retry_limit cfg \<le> pe_attempts p then r = None
    else \<exists>st1. r = Some st1 \<and> sub_pending st1 = p\<lparr>pe_attempts := pe_attempts p + 1, pe_last_sent := snd now\<rparr> # ps"
proof -
  have "complete_front (cursor_event_ack x) st = st" "refill codec (snd now) epoch snapshot s st = Some st"
    using assms(1,2) by (simp_all add: complete_front_def refill_def)
  then show ?thesis
    using assms by (auto simp: publish_to_def send_front_def dest!: send_frame_pending split: option.splits if_splits)
qed

lemma attempts_step: "(a :: u32) < b \<Longrightarrow> unat (a + 1) = Suc (unat a)"
proof -
  assume "a < b"
  then have "unat a < unat b" by (simp add: word_less_nat_alt)
  moreover have "unat b < 2 ^ 32" using unsigned_less[of b, where 'a = nat] by simp
  ultimately show ?thesis by (simp add: unat_plus_if')
qed


definition demo_pending :: PendingEvents where
  "demo_pending = \<lparr>pe_sequence = 1, pe_revision = 0, pe_cursor = None, pe_messages = [], pe_reset_messages = [],
     pe_last_sent = 0, pe_attempts = 0, pe_final_page = True\<rparr>"


section \<open>Pages\<close>

definition page_matches ::
  "CursorCodec \<Rightarrow> uuid \<Rightarrow> PlaybackSnapshot \<Rightarrow> bool \<Rightarrow> GlobalTimestampedEvent list \<Rightarrow> nat \<Rightarrow> PendingEvents \<Rightarrow> CursorEventBatch \<Rightarrow> bool" where
  "page_matches codec epoch snapshot baseline evs i p b \<longleftrightarrow>
     event_batch (parse_uuid codec) epoch (snap_revision snapshot) baseline evs (pe_sequence p) i = Some b
     \<and> encode_cursor_chunks epoch KindEventBatch (pe_sequence p) (enc_batch codec b) = Inr (pe_messages p)
     \<and> pe_final_page p = (i + 1 = page_count evs)"

lemma queue_pages_matches:
  "queue_pages codec now epoch snapshot baseline evs is st = Some st' \<Longrightarrow> sub_pending st' \<noteq> [] \<or> is = []
   \<Longrightarrow> \<exists>ps bs. sub_pending st' = sub_pending st @ ps
     \<and> map pe_sequence ps = map (\<lambda>j. (next_sequence ^^ Suc j) (sub_next_event_sequence st)) [0..<length is]
     \<and> length bs = length ps
     \<and> list_all2 (\<lambda>i (p, b). page_matches codec epoch snapshot baseline evs i p b) is (zip ps bs)"
proof (induction "is" arbitrary: st)
  case (Cons i "is")
  let ?q = "next_sequence (sub_next_event_sequence st)"
  obtain b where b: "event_batch (parse_uuid codec) epoch (snap_revision snapshot) baseline evs ?q i = Some b"
    using Cons.prems(1) by (auto simp: Let_def split: option.splits)
  obtain ms where ms: "encode_cursor_chunks epoch KindEventBatch ?q (enc_batch codec b) = Inr ms"
    using Cons.prems b by (auto simp: Let_def split: sum.splits)
  define p where "p = \<lparr>pe_sequence = ?q, pe_revision = snap_revision snapshot, pe_cursor = snap_cursor snapshot,
     pe_messages = ms, pe_reset_messages = (if baseline \<and> i = 0
       then (case encode_cursor_chunks epoch KindReset ?q (enc_reset codec (reset_payload epoch snapshot st)) of
               Inl _ \<Rightarrow> [] | Inr ms \<Rightarrow> ms) else []),
     pe_last_sent = now, pe_attempts = 0, pe_final_page = (i + 1 = page_count evs)\<rparr>"
  let ?st1 = "st\<lparr>sub_next_event_sequence := ?q, sub_pending := sub_pending st @ [p]\<rparr>"
  have "queue_pages codec now epoch snapshot baseline evs is ?st1 = Some st'"
    using Cons.prems(1) b ms by (simp add: Let_def p_def)
  moreover have "sub_pending st' \<noteq> [] \<or> is = []" using Cons.prems(2) by simp
  ultimately obtain ps bs where IH: "sub_pending st' = sub_pending ?st1 @ ps" "length bs = length ps"
    "map pe_sequence ps = map (\<lambda>j. (next_sequence ^^ Suc j) ?q) [0..<length is]"
    "list_all2 (\<lambda>i (p, b). page_matches codec epoch snapshot baseline evs i p b) is (zip ps bs)"
    using Cons.IH[of ?st1] by auto
  have "page_matches codec epoch snapshot baseline evs i p b"
    using b ms by (simp add: page_matches_def p_def)
  moreover have "map pe_sequence (p # ps) = map (\<lambda>j. (next_sequence ^^ Suc j) (sub_next_event_sequence st)) [0..<length (i # is)]"
    using IH(3) by (simp add: p_def funpow_swap1 map_upt_Suc del: upt_Suc)
  ultimately show ?case
    using IH by (intro exI[of _ "p # ps"] exI[of _ "b # bs"]) (simp del: map_eq_conv)
qed simp

lemma event_batch_events:
  assumes "event_batch parse epoch rev_no baseline evs n i = Some b"
  shows "length (cb_events b) \<le> 32" "cb_baseline_complete b = (i + 1 = page_count evs)"
    "map (\<lambda>e. (ce_source_timestamp e, ce_info e)) (cb_events b)
      = map (\<lambda>e. (ge_time e, Some \<lparr>ci_kind = Some (event_info (ge_event e))\<rparr>)) (page_events i evs)"
proof -
  obtain es where es: "those (map (\<lambda>(index, e). cursor_event parse (event_id n index) e) (List.enumerate 0 (page_events i evs))) = Some es"
    and b: "b = \<lparr>cb_server_epoch = Some epoch, cb_event_sequence = n, cb_revision = rev_no,
         cb_baseline = (baseline \<and> i = 0), cb_baseline_complete = (i + 1 = page_count evs), cb_events = es\<rparr>"
    using assms by (auto simp: event_batch_def)
  have *: "those (map (\<lambda>(index, e). cursor_event parse (event_id n index) e) (List.enumerate k xs)) = Some es
      \<Longrightarrow> map (\<lambda>e. (ce_source_timestamp e, ce_info e)) es = map (\<lambda>e. (ge_time e, Some \<lparr>ci_kind = Some (event_info (ge_event e))\<rparr>)) xs"
    for k xs es
    by (induction xs arbitrary: k es) (auto simp: cursor_event_def split: option.splits)
  show "map (\<lambda>e. (ce_source_timestamp e, ce_info e)) (cb_events b)
      = map (\<lambda>e. (ge_time e, Some \<lparr>ci_kind = Some (event_info (ge_event e))\<rparr>)) (page_events i evs)"
    using *[OF es] by (simp add: b)
  from arg_cong[OF this, of length] show "length (cb_events b) \<le> 32" by (simp add: page_events_def)
  show "cb_baseline_complete b = (i + 1 = page_count evs)" by (simp add: b)
qed

lemma page_count_covers: "length evs \<le> page_count evs * 32" "0 < page_count evs"
proof -
  have "n \<le> div_ceil n 32 * 32" for n by (auto simp: div_ceil_def)
  from order_trans[OF _ this] show "length evs \<le> page_count evs * 32" by (simp add: page_count_def)
  show "0 < page_count evs" by (auto simp: page_count_def div_ceil_def max_def)
qed

text \<open>A refill queues one pending batch per page of at most 32 events, with consecutive sequence
  numbers, only the last marked final; the batches' events, read in queue order, are all the events to
  send, in order, with their timestamps and contents.\<close>

theorem queued_pages_carry_all_events:
  assumes q: "queue_pages codec now epoch snapshot baseline evs [0..<page_count evs] st = Some st'"
    and queue: "sub_pending st = []" "sub_pending st' \<noteq> []"
  shows "\<exists>bs. list_all2 (\<lambda>p b. encode_cursor_chunks epoch KindEventBatch (pe_sequence p) (enc_batch codec b) = Inr (pe_messages p)
        \<and> length (cb_events b) \<le> 32 \<and> cb_baseline_complete b = pe_final_page p) (sub_pending st') bs
    \<and> map pe_sequence (sub_pending st') = map (\<lambda>j. (next_sequence ^^ Suc j) (sub_next_event_sequence st)) [0..<page_count evs]
    \<and> map pe_final_page (sub_pending st') = replicate (page_count evs - 1) False @ [True]
    \<and> map (\<lambda>e. (ce_source_timestamp e, ce_info e)) (concat (map cb_events bs))
      = map (\<lambda>e. (ge_time e, Some \<lparr>ci_kind = Some (event_info (ge_event e))\<rparr>)) evs"
proof -
  let ?n = "page_count evs" and ?f = "\<lambda>e. (ge_time e, Some \<lparr>ci_kind = Some (event_info (ge_event e))\<rparr>)"
  obtain ps bs where ps: "sub_pending st' = ps" "length bs = length ps"
    "map pe_sequence ps = map (\<lambda>j. (next_sequence ^^ Suc j) (sub_next_event_sequence st)) [0..<?n]"
    "list_all2 (\<lambda>i (p, b). page_matches codec epoch snapshot baseline evs i p b) [0..<?n] (zip ps bs)"
    using queue_pages_matches[OF q] queue by auto
  have len: "length ps = ?n" using list_all2_lengthD[OF ps(4)] ps(2) by simp
  have at: "page_matches codec epoch snapshot baseline evs i (ps ! i) (bs ! i)" if "i < ?n" for i
    using list_all2_nthD[OF ps(4), of i] that len ps(2) by simp
  note page = event_batch_events[OF at[unfolded page_matches_def, THEN conjunct1]]
  have final: "map pe_final_page ps = replicate (?n - 1) False @ [True]"
    using len at page_count_covers(2)[of evs] by (intro nth_equalityI) (auto simp: page_matches_def nth_append)
  have "map (\<lambda>e. (ce_source_timestamp e, ce_info e)) (concat (map cb_events bs))
      = concat (map (\<lambda>i. map ?f (page_events i evs)) [0..<?n])"
    unfolding map_concat map_map using len ps(2) page(3)
    by (intro arg_cong[of _ _ concat] nth_equalityI) auto
  also have "\<dots> = map ?f (concat (map (\<lambda>i. take 32 (drop (i * 32) evs)) [0..<?n]))"
    by (simp add: map_concat page_events_def o_def)
  also have "\<dots> = map ?f evs" using page_count_covers(1)[of evs] by (simp add: concat_pages)
  finally show ?thesis
    using ps final at page len by (intro exI[of _ bs]) (auto simp: list_all2_conv_all_nth page_matches_def)
qed

definition demo_codec_pub :: CursorCodec where
  "demo_codec_pub = \<lparr>enc_cursor_frame = \<lambda>_. [1], enc_batch = \<lambda>_. [2], enc_reset = \<lambda>_. [3], parse_uuid = \<lambda>_. Some [7]\<rparr>"

definition demo_global :: GlobalTimestampedEvent where
  "demo_global = \<lparr>ge_aircraft_id = ''07'', ge_time = time_1, ge_event = EvCustom ''x''\<rparr>"

definition demo_snapshot :: PlaybackSnapshot where
  "demo_snapshot = \<lparr>snap_mode = Live, snap_cursor = Some time_3, snap_speed = f_one, snap_bounds = Some (time_1, time_3), snap_revision = 4\<rparr>"

lemma queued_pages_carry_all_events_witness:
  "\<exists>bs :: CursorEventBatch list. map (\<lambda>e. (ce_source_timestamp e, ce_info e)) (concat (map cb_events bs))
      = [(time_1, Some \<lparr>ci_kind = Some (CustomEvent ''x'')\<rparr>)]"
proof -
  have one: "page_count [demo_global] = 1" by (simp add: page_count_def div_ceil_def)
  obtain st' where st': "queue_pages demo_codec_pub 0 [9] demo_snapshot True [demo_global] [0..<page_count [demo_global]] subscriber_default = Some st'"
    "sub_pending st' \<noteq> []"
    by (simp add: one Let_def event_batch_def page_events_def demo_codec_pub_def cursor_event_def hex_to_pb_uuid_def
        encode_cursor_chunks_def MAX_CURSOR_PAYLOAD_BYTES_def)
  have "sub_pending subscriber_default = []" by (simp add: subscriber_default_def)
  from queued_pages_carry_all_events[OF st'(1) this st'(2)]
  obtain bs :: "CursorEventBatch list" where "map (\<lambda>e. (ce_source_timestamp e, ce_info e)) (concat (map cb_events bs))
      = map (\<lambda>e. (ge_time e, Some \<lparr>ci_kind = Some (event_info (ge_event e))\<rparr>)) [demo_global]" by blast
  also have "\<dots> = [(time_1, Some \<lparr>ci_kind = Some (CustomEvent ''x'')\<rparr>)]"
    by (simp add: demo_global_def event_info_def)
  finally show ?thesis by (rule exI)
qed

end
