(* ===== verification/Cursor_Client.thy ===== *)
theory Cursor_Client
  imports Cursor_Publisher
begin

text \<open>
  The receive-only cursor client (\<open>core/src/cursor.rs\<close>: \<open>CursorClient\<close>). The socket is the list
  of datagrams that arrive, each with the clocks at its arrival; the protobuf decoders are
  parameters. Sends are collected; an input or output error of the socket is not modelled. A
  reception that finds no further datagram is still waiting.
\<close>

section \<open>State\<close>

record CursorClientConfig =
  server_address :: string
  requested_hz :: f64

definition client_config_default :: CursorClientConfig where
  "client_config_default = \<lparr>server_address = ''127.0.0.1:18002'', requested_hz = F64 0x403E000000000000\<rparr>"

datatype CursorClientEvent = FrameItem CursorFrame | EventBatchItem CursorEventBatch | ResetItem CursorReset

record CursorClientStats =
  datagrams_received :: u64
  frames_received :: u64
  frames_dropped :: u64
  reassembly_failures :: u64
  event_batches_received :: u64
  event_retransmits :: u64

definition stats_zero :: CursorClientStats where
  "stats_zero = \<lparr>datagrams_received = 0, frames_received = 0, frames_dropped = 0,
     reassembly_failures = 0, event_batches_received = 0, event_retransmits = 0\<rparr>"

record CursorClient =
  cc_client_uuid :: uuid
  heartbeat_sequence :: u64
  reassembler :: CursorReassembler
  stream_epoch :: "u8 list"
  applied_event_sequence :: u64
  baseline_revision :: "u64 option"
  pending_frame :: "CursorFrame option"
  last_frame_sequence :: u64
  cc_stats :: CursorClientStats

definition cursor_client_new :: "uuid \<Rightarrow> CursorClient" where
  "cursor_client_new u = \<lparr>cc_client_uuid = u, heartbeat_sequence = 0, reassembler = reassembler_new,
     stream_epoch = [], applied_event_sequence = 0, baseline_revision = None, pending_frame = None,
     last_frame_sequence = 0, cc_stats = stats_zero\<rparr>"

text \<open>The decoders of the prost crate.\<close>

record ClientCodec =
  dec_message :: "u8 list \<Rightarrow> Message option"
  dec_cursor_frame :: "u8 list \<Rightarrow> CursorFrame option"
  dec_batch :: "u8 list \<Rightarrow> CursorEventBatch option"
  dec_reset :: "u8 list \<Rightarrow> CursorReset option"

text \<open>What one turn of the receive loop does: go on, return an item, return an error, or panic.\<close>

datatype turn = Continue | Return CursorClientEvent | Fail TransportError | Panic

definition client_request :: "clocks \<Rightarrow> RequestKind \<Rightarrow> Message" where
  "client_request now kind = Some (EnvRequest \<lparr>rq_id = None, rq_timestamp = fst now, rq_command = Some (Some kind)\<rparr>)"

section \<open>Receiving\<close>

definition count_frame :: "CursorClient \<Rightarrow> CursorClient" where
  "count_frame c = c\<lparr>cc_stats := (cc_stats c)\<lparr>frames_received := saturating_add (frames_received (cc_stats c)) 1\<rparr>\<rparr>"

definition count_dropped :: "CursorClient \<Rightarrow> CursorClient" where
  "count_dropped c = c\<lparr>cc_stats := (cc_stats c)\<lparr>frames_dropped := saturating_add (frames_dropped (cc_stats c)) 1\<rparr>\<rparr>"

definition count_failures :: "nat \<Rightarrow> CursorClient \<Rightarrow> CursorClient" where
  "count_failures n c =
     c\<lparr>cc_stats := (cc_stats c)\<lparr>reassembly_failures := saturating_add (reassembly_failures (cc_stats c)) n\<rparr>\<rparr>"

definition count_datagram :: "CursorClient \<Rightarrow> CursorClient" where
  "count_datagram c =
     c\<lparr>cc_stats := (cc_stats c)\<lparr>datagrams_received := saturating_add (datagrams_received (cc_stats c)) 1\<rparr>\<rparr>"

definition count_batch :: "CursorClient \<Rightarrow> CursorClient" where
  "count_batch c =
     c\<lparr>cc_stats := (cc_stats c)\<lparr>event_batches_received := saturating_add (event_batches_received (cc_stats c)) 1\<rparr>\<rparr>"

definition count_retransmit :: "CursorClient \<Rightarrow> CursorClient" where
  "count_retransmit c =
     c\<lparr>cc_stats := (cc_stats c)\<lparr>event_retransmits := saturating_add (event_retransmits (cc_stats c)) 1\<rparr>\<rparr>"

text \<open>The pending frame is taken when its events have been applied; it may be too old by then.\<close>

definition take_pending :: "CursorClient \<Rightarrow> CursorFrame option \<times> CursorClient" where
  "take_pending c =
     (case pending_frame c of
        None \<Rightarrow> (None, c)
      | Some f \<Rightarrow>
          if cf_event_watermark f \<le> applied_event_sequence c then
            (let c1 = c\<lparr>pending_frame := None\<rparr> in
             if last_frame_sequence c1 < cf_frame_sequence f
             then (Some f, count_frame (c1\<lparr>last_frame_sequence := cf_frame_sequence f\<rparr>))
             else (None, count_dropped c1))
          else (None, c))"

definition receive_frame :: "CursorFrame \<Rightarrow> CursorClient \<Rightarrow> turn \<times> CursorClient" where
  "receive_frame f c =
     (if cf_frame_sequence f \<le> last_frame_sequence c then (Continue, count_dropped c)
      else if cf_event_watermark f \<le> applied_event_sequence c
      then (Return (FrameItem f), count_frame (c\<lparr>last_frame_sequence := cf_frame_sequence f\<rparr>))
      else if (case pending_frame c of None \<Rightarrow> True | Some cur \<Rightarrow> cf_frame_sequence cur < cf_frame_sequence f)
      then (Continue, c\<lparr>pending_frame := Some f\<rparr>)
      else (Continue, c))"

definition epoch_bytes :: "uuid option \<Rightarrow> u8 list" where
  "epoch_bytes e = (case e of None \<Rightarrow> [] | Some v \<Rightarrow> v)"

definition enter_epoch :: "u8 list \<Rightarrow> CursorClient \<Rightarrow> CursorClient" where
  "enter_epoch epoch c =
     (if stream_epoch c \<noteq> epoch
      then c\<lparr>stream_epoch := epoch, applied_event_sequence := 0, baseline_revision := None,
             pending_frame := None, last_frame_sequence := 0\<rparr>
      else c)"

definition enter_baseline :: "CursorEventBatch \<Rightarrow> CursorClient \<Rightarrow> CursorClient" where
  "enter_baseline batch c =
     (if cb_baseline batch \<and> baseline_revision c \<noteq> Some (cb_revision batch)
      then c\<lparr>applied_event_sequence := 0, baseline_revision := Some (cb_revision batch), pending_frame := None\<rparr>
      else c)"

definition receive_batch :: "CursorEventBatch \<Rightarrow> CursorClient \<Rightarrow> turn \<times> CursorClient" where
  "receive_batch batch c =
     (let c1 = enter_baseline batch (enter_epoch (epoch_bytes (cb_server_epoch batch)) c) in
      if cb_event_sequence batch \<le> applied_event_sequence c1 then (Continue, count_retransmit c1)
      else (Return (EventBatchItem batch), count_batch (c1\<lparr>applied_event_sequence := cb_event_sequence batch\<rparr>)))"

definition receive_reset :: "CursorReset \<Rightarrow> CursorClient \<Rightarrow> turn \<times> CursorClient" where
  "receive_reset r c =
     (let epoch = epoch_bytes (cr_server_epoch r) in
      if stream_epoch c = epoch \<and> baseline_revision c = Some (cr_revision r) then (Continue, c)
      else (Return (ResetItem r),
            c\<lparr>stream_epoch := epoch, applied_event_sequence := 0, baseline_revision := Some (cr_revision r),
              pending_frame := None, last_frame_sequence := 0\<rparr>))"

definition batch_ack :: "CursorEventBatch \<Rightarrow> RequestKind" where
  "batch_ack batch = CursorEventAck \<lparr>ack_server_epoch = cb_server_epoch batch, ack_event_sequence = cb_event_sequence batch\<rparr>"

definition receive_payload ::
  "ClientCodec \<Rightarrow> clocks \<Rightarrow> CursorPayloadKind \<Rightarrow> u8 list \<Rightarrow> CursorClient \<Rightarrow> (turn \<times> CursorClient) \<times> Message list" where
  "receive_payload codec now kind payload c =
     (case kind of
        KindFrame \<Rightarrow>
          (case dec_cursor_frame codec payload of
             None \<Rightarrow> ((Fail Decode, c), [])
           | Some f \<Rightarrow> (receive_frame f c, []))
      | KindEventBatch \<Rightarrow>
          (case dec_batch codec payload of
             None \<Rightarrow> ((Fail Decode, c), [])
           | Some batch \<Rightarrow> (receive_batch batch c, [client_request now (batch_ack batch)]))
      | KindReset \<Rightarrow>
          (case dec_reset codec payload of
             None \<Rightarrow> ((Fail Decode, c), [])
           | Some r \<Rightarrow> (receive_reset r c, []))
      | KindUnspecified \<Rightarrow> ((Fail (InvalidMessage ''unspecified cursor payload kind''), c), []))"

text \<open>One chunk: reassembly with its failure counters, then the payload it completes.\<close>

definition receive_chunk ::
  "ClientCodec \<Rightarrow> clocks \<Rightarrow> CursorChunk \<Rightarrow> CursorClient \<Rightarrow> (turn \<times> CursorClient) \<times> Message list" where
  "receive_chunk codec now chunk c =
     (case kind_of (ch_kind chunk) of
        None \<Rightarrow> ((Fail (InvalidMessage ''unknown cursor payload kind''), c), [])
      | Some kind \<Rightarrow>
          (case reassembler_push (snd now) chunk (reassembler c) of
             None \<Rightarrow> ((Panic, c), [])
           | Some (result, r) \<Rightarrow>
               (let c1 = count_failures (unat (expired_payloads r) - unat (expired_payloads (reassembler c)))
                           (c\<lparr>reassembler := r\<rparr>)
                in case result of
                     Inl err \<Rightarrow> ((Fail err, count_failures 1 c1), [])
                   | Inr None \<Rightarrow> ((Continue, c1), [])
                   | Inr (Some payload) \<Rightarrow> receive_payload codec now kind payload c1)))"

definition receive_datagram ::
  "ClientCodec \<Rightarrow> clocks \<Rightarrow> u8 list \<Rightarrow> CursorClient \<Rightarrow> (turn \<times> CursorClient) \<times> Message list" where
  "receive_datagram codec now bytes c =
     (let c1 = count_datagram c in
      case dec_message codec bytes of
        None \<Rightarrow> ((Fail Decode, c1), [])
      | Some (Some (EnvServerPush (Some chunk))) \<Rightarrow> receive_chunk codec now chunk c1
      | Some _ \<Rightarrow> ((Continue, c1), []))"

record reception =
  outcome :: "turn option"
  client :: CursorClient
  unread :: "(clocks \<times> u8 list) list"
  replies :: "Message list"

fun recv_loop :: "ClientCodec \<Rightarrow> (clocks \<times> u8 list) list \<Rightarrow> CursorClient \<Rightarrow> reception" where
  "recv_loop codec [] c = \<lparr>outcome = None, client = c, unread = [], replies = []\<rparr>"
| "recv_loop codec ((now, bytes) # ds) c =
     (let ((t, c1), out) = receive_datagram codec now bytes c in
      if t = Continue
      then (let r = recv_loop codec ds c1 in r\<lparr>replies := out @ replies r\<rparr>)
      else \<lparr>outcome = Some t, client = c1, unread = ds, replies = out\<rparr>)"

definition recv :: "ClientCodec \<Rightarrow> (clocks \<times> u8 list) list \<Rightarrow> CursorClient \<Rightarrow> reception" where
  "recv codec ds c =
     (case take_pending c of
        (Some f, c1) \<Rightarrow> \<lparr>outcome = Some (Return (FrameItem f)), client = c1, unread = ds, replies = []\<rparr>
      | (None, c1) \<Rightarrow> recv_loop codec ds c1)"

definition cursor_heartbeat :: "clocks \<Rightarrow> CursorClient \<Rightarrow> Message \<times> CursorClient" where
  "cursor_heartbeat now c =
     (let c1 = c\<lparr>heartbeat_sequence := heartbeat_sequence c + 1\<rparr> in
      (client_request now (Heartbeat \<lparr>hb_seq_num = heartbeat_sequence c1, hb_client_uuid = Some (cc_client_uuid c1)\<rparr>), c1))"

section \<open>Connecting\<close>

text \<open>
  \<open>expect_ack\<close> reads datagrams until a response arrives, at most until the deadline one second
  after it starts. The result is the datagrams left unread, or the error.
\<close>

fun expect_ack :: "ClientCodec \<Rightarrow> instant \<Rightarrow> (clocks \<times> u8 list) list
    \<Rightarrow> TransportError + (clocks \<times> u8 list) list" where
  "expect_ack codec deadline [] = Inl HandshakeTimeout"
| "expect_ack codec deadline ((now, bytes) # ds) =
     (if deadline < snd now then Inl HandshakeTimeout
      else case dec_message codec bytes of
          None \<Rightarrow> Inl Decode
        | Some (Some (EnvResponse response)) \<Rightarrow>
            (case rs_result response of
               Some (RespOk (Some (Ack True))) \<Rightarrow> Inr ds
             | Some (RespErr e) \<Rightarrow> Inl (HandshakeRejected (re_message e))
             | _ \<Rightarrow> Inl (InvalidMessage ''cursor subscription was not acknowledged''))
        | Some _ \<Rightarrow> expect_ack codec deadline ds)"

text \<open>
  \<open>connect\<close> with the address parser as a parameter; \<open>t1\<close> and \<open>t2\<close> are the clocks when the
  handshake and the subscription are sent. The result has the requests sent so far.
\<close>

definition cursor_connect ::
  "(string \<Rightarrow> string + SocketAddr) \<Rightarrow> ClientCodec \<Rightarrow> CursorClientConfig \<Rightarrow> uuid \<Rightarrow> clocks \<Rightarrow> clocks
   \<Rightarrow> (clocks \<times> u8 list) list \<Rightarrow> (TransportError + CursorClient \<times> (clocks \<times> u8 list) list) \<times> Message list" where
  "cursor_connect parse codec cfg u t1 t2 ds =
     (if \<not> is_finite (requested_hz cfg) \<or> fle (requested_hz cfg) f_zero
      then (Inl (InvalidMessage ''requested_hz must be finite and greater than zero''), [])
      else case parse (server_address cfg) of
          Inl msg \<Rightarrow> (Inl (InvalidMessage msg), [])
        | Inr _ \<Rightarrow>
            (let hello = client_request t1 (Handshake \<lparr>hs_version = PROTOCOL_VERSION, hs_client_uuid = Some u,
                           hs_role = role_code CursorSubscriber\<rparr>);
                 subscription = client_request t2 (CursorSubscribe (requested_hz cfg))
             in case expect_ack codec (snd t1 + nanos_per_sec) ds of
                  Inl e \<Rightarrow> (Inl e, [hello])
                | Inr ds1 \<Rightarrow>
                    (case expect_ack codec (snd t2 + nanos_per_sec) ds1 of
                       Inl e \<Rightarrow> (Inl e, [hello, subscription])
                     | Inr ds2 \<Rightarrow> (Inr (cursor_client_new u, ds2), [hello, subscription]))))"

end
