(* ===== verification/Cursor_Client_Properties.thy ===== *)
theory Cursor_Client_Properties
  imports Cursor_Client Samples
begin

text \<open>
  What the cursor client promises against a network that loses, repeats and reorders datagrams:
  between two changes of the stream's epoch or baseline, batches come out in strictly increasing
  sequence (each at most once), frames come out in strictly increasing sequence, and a frame only
  after every event up to its watermark. A late baseline batch of an older revision does restart the
  stream: it is returned a second time.
\<close>

section \<open>The receive loop never panics\<close>

lemma reassembler_push_total: "reassembler_push now chunk r \<noteq> None"
  by (simp add: reassembler_push_def Let_def)

section \<open>Items since the last reset\<close>

definition items_of :: "turn \<Rightarrow> CursorClientEvent list" where
  "items_of t = (case t of Return e \<Rightarrow> [e] | _ \<Rightarrow> [])"

definition stream_key :: "CursorClient \<Rightarrow> u8 list \<times> u64 option" where
  "stream_key c = (stream_epoch c, baseline_revision c)"

text \<open>
  The items returned since the client entered its present epoch and baseline; the reset item that
  announces them belongs to the past. A turn is one datagram, whatever it holds, or the delivery of
  the pending frame that starts every reception.
\<close>

inductive segment :: "ClientCodec \<Rightarrow> CursorClientEvent list \<Rightarrow> CursorClient \<Rightarrow> bool" for codec where
  start: "segment codec [] (cursor_client_new u)"
| stay: "segment codec es c \<Longrightarrow> receive_datagram codec now bytes c = ((t, c'), out) \<Longrightarrow> stream_key c' = stream_key c
    \<Longrightarrow> segment codec (es @ items_of t) c'"
| enter: "segment codec es c \<Longrightarrow> receive_datagram codec now bytes c = ((t, c'), out) \<Longrightarrow> stream_key c' \<noteq> stream_key c
    \<Longrightarrow> segment codec (case t of Return (EventBatchItem b) \<Rightarrow> [EventBatchItem b] | _ \<Rightarrow> []) c'"
| pending: "segment codec es c \<Longrightarrow> take_pending c = (f, c')
    \<Longrightarrow> segment codec (es @ (case f of None \<Rightarrow> [] | Some f \<Rightarrow> [FrameItem f])) c'"

definition batch_seqs :: "CursorClientEvent list \<Rightarrow> u64 list" where
  "batch_seqs es = List.map_filter (\<lambda>e. case e of EventBatchItem b \<Rightarrow> Some (cb_event_sequence b) | _ \<Rightarrow> None) es"

definition frame_seqs :: "CursorClientEvent list \<Rightarrow> u64 list" where
  "frame_seqs es = List.map_filter (\<lambda>e. case e of FrameItem f \<Rightarrow> Some (cf_frame_sequence f) | _ \<Rightarrow> None) es"

text \<open>The last event sequence handed out, 0 before the first batch.\<close>

definition applied_of :: "CursorClientEvent list \<Rightarrow> u64" where
  "applied_of es = (case last_opt (batch_seqs es) of None \<Rightarrow> 0 | Some n \<Rightarrow> n)"

definition segment_ok :: "CursorClientEvent list \<Rightarrow> CursorClient \<Rightarrow> bool" where
  "segment_ok es c \<longleftrightarrow> applied_event_sequence c = applied_of es
     \<and> sorted_wrt (<) (batch_seqs es) \<and> sorted_wrt (<) (frame_seqs es)
     \<and> (\<forall>n \<in> set (frame_seqs es). n \<le> last_frame_sequence c)
     \<and> (\<forall>xs f ys. es = xs @ FrameItem f # ys \<longrightarrow> cf_event_watermark f \<le> applied_of xs)"

lemma seqs_simps [simp]:
  "batch_seqs [] = []" "frame_seqs [] = []"
  "batch_seqs (xs @ ys) = batch_seqs xs @ batch_seqs ys" "frame_seqs (xs @ ys) = frame_seqs xs @ frame_seqs ys"
  "batch_seqs [EventBatchItem b] = [cb_event_sequence b]" "batch_seqs [FrameItem f] = []"
  "frame_seqs [FrameItem f] = [cf_frame_sequence f]" "frame_seqs [EventBatchItem b] = []"
  by (simp_all add: batch_seqs_def frame_seqs_def List.map_filter_def)

lemma applied_simps [simp]:
  "applied_of [] = 0" "applied_of (xs @ [EventBatchItem b]) = cb_event_sequence b"
  "applied_of (xs @ [FrameItem f]) = applied_of xs" "applied_of [EventBatchItem b] = cb_event_sequence b"
  by (simp_all add: applied_of_def last_opt_append last_opt_def)

lemma snoc_split: "xs @ [x] = ys @ z # zs \<longleftrightarrow> (zs = [] \<and> ys = xs \<and> z = x) \<or> (\<exists>ws. zs = ws @ [x] \<and> xs = ys @ z # ws)"
  by (cases zs rule: rev_cases) auto

lemma applied_max: "segment_ok es c \<Longrightarrow> n \<in> set (batch_seqs es) \<Longrightarrow> n \<le> applied_event_sequence c"
proof -
  assume ok: "segment_ok es c" and n: "n \<in> set (batch_seqs es)"
  then obtain ns m where "batch_seqs es = ns @ [m]" by (cases "batch_seqs es" rule: rev_cases) auto
  then show ?thesis using ok n by (auto simp: segment_ok_def applied_of_def sorted_wrt_append intro: less_imp_le)
qed

text \<open>Changes that the invariant does not see.\<close>

lemma segment_ok_cong:
  "segment_ok es c \<Longrightarrow> applied_event_sequence c' = applied_event_sequence c
   \<Longrightarrow> last_frame_sequence c \<le> last_frame_sequence c' \<Longrightarrow> segment_ok es c'"
  by (auto simp: segment_ok_def intro: order_trans)

lemma segment_ok_fresh: "applied_event_sequence c = 0 \<Longrightarrow> segment_ok [] c"
  by (simp add: segment_ok_def)

lemma segment_ok_frame:
  assumes "segment_ok es c" "last_frame_sequence c < cf_frame_sequence f" "cf_event_watermark f \<le> applied_event_sequence c"
    "applied_event_sequence c' = applied_event_sequence c" "last_frame_sequence c' = cf_frame_sequence f"
  shows "segment_ok (es @ [FrameItem f]) c'"
  using assms by (auto simp: segment_ok_def sorted_wrt_append snoc_split intro: le_less_trans less_imp_le order_trans)

lemma segment_ok_batch:
  assumes "segment_ok es c" "applied_event_sequence c < cb_event_sequence b"
    "applied_event_sequence c' = cb_event_sequence b" "last_frame_sequence c \<le> last_frame_sequence c'"
  shows "segment_ok (es @ [EventBatchItem b]) c'"
  using assms applied_max[OF assms(1)]
  by (auto simp: segment_ok_def sorted_wrt_append snoc_split intro: le_less_trans order_trans)

lemma count_simps [simp]:
  "applied_event_sequence (count_frame c) = applied_event_sequence c" "last_frame_sequence (count_frame c) = last_frame_sequence c"
  "applied_event_sequence (count_dropped c) = applied_event_sequence c" "last_frame_sequence (count_dropped c) = last_frame_sequence c"
  "applied_event_sequence (count_failures n c) = applied_event_sequence c" "last_frame_sequence (count_failures n c) = last_frame_sequence c"
  "applied_event_sequence (count_datagram c) = applied_event_sequence c" "last_frame_sequence (count_datagram c) = last_frame_sequence c"
  "applied_event_sequence (count_batch c) = applied_event_sequence c" "last_frame_sequence (count_batch c) = last_frame_sequence c"
  "applied_event_sequence (count_retransmit c) = applied_event_sequence c" "last_frame_sequence (count_retransmit c) = last_frame_sequence c"
  "stream_key (count_frame c) = stream_key c" "stream_key (count_dropped c) = stream_key c"
  "stream_key (count_failures n c) = stream_key c" "stream_key (count_datagram c) = stream_key c"
  "stream_key (count_batch c) = stream_key c" "stream_key (count_retransmit c) = stream_key c"
  by (simp_all add: count_frame_def count_dropped_def count_failures_def count_datagram_def count_batch_def
      count_retransmit_def stream_key_def)

lemma stream_key_simps [simp]:
  "stream_key (c\<lparr>last_frame_sequence := n\<rparr>) = stream_key c" "stream_key (c\<lparr>pending_frame := f\<rparr>) = stream_key c"
  "stream_key (c\<lparr>applied_event_sequence := n\<rparr>) = stream_key c" "stream_key (c\<lparr>reassembler := r\<rparr>) = stream_key c"
  by (simp_all add: stream_key_def)

text \<open>What one turn does to the state, as far as the invariant is concerned.\<close>

definition turn_ok :: "CursorClient \<Rightarrow> turn \<Rightarrow> CursorClient \<Rightarrow> bool" where
  "turn_ok c t c' \<longleftrightarrow> (if stream_key c' = stream_key c
     then \<forall>es. segment_ok es c \<longrightarrow> segment_ok (es @ items_of t) c'
     else segment_ok (case t of Return (EventBatchItem b) \<Rightarrow> [EventBatchItem b] | _ \<Rightarrow> []) c')"

lemma turn_ok_same:
  "stream_key c' = stream_key c \<Longrightarrow> applied_event_sequence c' = applied_event_sequence c
   \<Longrightarrow> last_frame_sequence c \<le> last_frame_sequence c' \<Longrightarrow> items_of t = [] \<Longrightarrow> turn_ok c t c'"
  by (auto simp: turn_ok_def intro: segment_ok_cong)

lemma turn_ok_frame: "receive_frame f c = (t, c') \<Longrightarrow> turn_ok c t c'"
  by (auto simp: receive_frame_def turn_ok_def items_of_def not_le split: if_splits
      intro!: segment_ok_frame elim: segment_ok_cong)

lemma turn_ok_reset: "receive_reset r c = (t, c') \<Longrightarrow> turn_ok c t c'"
  by (auto simp: receive_reset_def Let_def turn_ok_def items_of_def stream_key_def split: if_splits
      intro!: segment_ok_fresh)

lemma enter_simps:
  "stream_key (enter_baseline b (enter_epoch e c)) = stream_key c
     \<Longrightarrow> applied_event_sequence (enter_baseline b (enter_epoch e c)) = applied_event_sequence c
       \<and> last_frame_sequence (enter_baseline b (enter_epoch e c)) = last_frame_sequence c"
  "stream_key (enter_baseline b (enter_epoch e c)) \<noteq> stream_key c
     \<Longrightarrow> applied_event_sequence (enter_baseline b (enter_epoch e c)) = 0"
  by (auto simp: enter_baseline_def enter_epoch_def stream_key_def split: if_splits)

lemma segment_ok_first: "applied_event_sequence c' = cb_event_sequence b \<Longrightarrow> segment_ok [EventBatchItem b] c'"
  by (auto simp: segment_ok_def Cons_eq_append_conv)

lemma turn_ok_batch: "receive_batch b c = (t, c') \<Longrightarrow> turn_ok c t c'"
proof -
  let ?c = "enter_baseline b (enter_epoch (epoch_bytes (cb_server_epoch b)) c)"
  assume r: "receive_batch b c = (t, c')"
  show ?thesis
  proof (cases "cb_event_sequence b \<le> applied_event_sequence ?c")
    case True
    then have t: "t = Continue" "c' = count_retransmit ?c" using r by (simp_all add: receive_batch_def Let_def)
    show ?thesis
      using enter_simps[of b "epoch_bytes (cb_server_epoch b)" c]
      by (auto simp: turn_ok_def t items_of_def intro: segment_ok_cong segment_ok_fresh)
  next
    case False
    then have t: "t = Return (EventBatchItem b)"
      "c' = count_batch (?c\<lparr>applied_event_sequence := cb_event_sequence b\<rparr>)"
      using r by (simp_all add: receive_batch_def Let_def)
    have key: "stream_key c' = stream_key ?c" by (simp add: t)
    have "segment_ok (es @ [EventBatchItem b]) c'" if "stream_key ?c = stream_key c" "segment_ok es c" for es
      using enter_simps(1)[OF that(1)] False that(2) by (intro segment_ok_batch) (auto simp: t not_le)
    then show ?thesis
      unfolding turn_ok_def key by (auto simp: t items_of_def intro: segment_ok_first)
  qed
qed

lemma turn_ok_weaken:
  "turn_ok c1 t c' \<Longrightarrow> stream_key c1 = stream_key c \<Longrightarrow> applied_event_sequence c1 = applied_event_sequence c
   \<Longrightarrow> last_frame_sequence c1 = last_frame_sequence c \<Longrightarrow> turn_ok c t c'"
  by (auto simp: turn_ok_def segment_ok_def)

lemma turn_ok_payload:
  assumes "receive_payload codec now kind payload c = ((t, c'), out)"
  shows "turn_ok c t c'"
  using assms by (auto simp: receive_payload_def items_of_def split: CursorPayloadKind.splits option.splits
      intro: turn_ok_frame turn_ok_batch turn_ok_reset turn_ok_same)

lemma turn_ok_chunk:
  assumes "receive_chunk codec now chunk c = ((t, c'), out)"
  shows "turn_ok c t c'"
  using assms
  by (auto simp: receive_chunk_def Let_def items_of_def split: option.splits prod.splits sum.splits
      intro!: turn_ok_same elim!: turn_ok_weaken[OF turn_ok_payload])

lemma turn_ok_datagram:
  assumes "receive_datagram codec now bytes c = ((t, c'), out)"
  shows "turn_ok c t c'"
  using assms
  by (auto simp: receive_datagram_def Let_def items_of_def split: option.splits Envelope.splits
      intro!: turn_ok_same elim!: turn_ok_weaken[OF turn_ok_chunk])

lemma segment_invariant: "segment codec es c \<Longrightarrow> segment_ok es c"
proof (induction rule: segment.induct)
  case (start u)
  show ?case by (rule segment_ok_fresh) (simp add: cursor_client_new_def)
next
  case (stay es c now bytes t c' out)
  then show ?case using turn_ok_datagram by (auto simp: turn_ok_def)
next
  case (enter es c now bytes t c' out)
  then show ?case using turn_ok_datagram[of codec now bytes c t c' out] by (simp add: turn_ok_def)
next
  case (pending es c f c')
  then show ?case
    by (auto simp: take_pending_def Let_def split: option.splits if_splits
        intro!: segment_ok_frame elim: segment_ok_cong)
qed

text \<open>C3: As long as the epoch and the baseline stay the same, whatever the network does to the
  datagrams, the items a client hands out are coherent: batches in strictly increasing sequence, so each
  at most once; frames in strictly increasing sequence; and no frame before the events up to its
  watermark.\<close>

theorem client_items_coherent:
  assumes "segment codec es c"
  shows "sorted_wrt (<) (batch_seqs es) \<and> sorted_wrt (<) (frame_seqs es)
    \<and> (\<forall>xs f ys. es = xs @ FrameItem f # ys \<longrightarrow> cf_event_watermark f \<le> applied_of xs)
    \<and> applied_event_sequence c = applied_of es"
  using segment_invariant[OF assms] by (auto simp: segment_ok_def)

text \<open>A codec for the witnesses: payloads and datagrams of one byte, and a chunk that carries its payload
  whole.\<close>

definition demo_batch :: "u64 \<Rightarrow> u64 \<Rightarrow> CursorEventBatch" where
  "demo_batch n r = \<lparr>cb_server_epoch = Some [9], cb_event_sequence = n, cb_revision = r, cb_baseline = True,
     cb_baseline_complete = True, cb_events = []\<rparr>"

definition demo_client_codec :: ClientCodec where
  "demo_client_codec = \<lparr>dec_message = \<lambda>bytes. Some (Some (EnvServerPush (Some (cursor_chunk [9] KindEventBatch (ucast (hd bytes)) bytes (0, bytes))))),
     dec_cursor_frame = \<lambda>_. None, dec_batch = \<lambda>bytes. Some (demo_batch (ucast (hd bytes)) (ucast (hd bytes))), dec_reset = \<lambda>_. None\<rparr>"

text \<open>A datagram with a payload of one chunk is reassembled at once.\<close>

lemma push_single:
  assumes "payload \<noteq> []" "length payload \<le> CURSOR_CHUNK_BYTES" "map_of (partials (expire now r)) (kind_code kind, n) = None"
  shows "reassembler_push now (cursor_chunk epoch kind n payload (0, payload)) r
    = Some (Inr (Some payload), (expire now r)\<lparr>partials := al_del (kind_code kind, n) (partials (expire now r))\<rparr>)"
proof -
  have one: "div_ceil (length payload) CURSOR_CHUNK_BYTES = 1"
    using assms(1,2) by (cases "length payload = CURSOR_CHUNK_BYTES") (auto simp: div_ceil_def CURSOR_CHUNK_BYTES_def)
  have len: "unat (of_nat (length payload) :: u32) = length payload"
    using assms(2) by (simp add: CURSOR_CHUNK_BYTES_def unat_of_nat take_bit_nat_eq_self)
  have max: "div_ceil MAX_CURSOR_PAYLOAD_BYTES CURSOR_CHUNK_BYTES = 4096" "\<not> MAX_CURSOR_PAYLOAD_BYTES < length payload"
    using assms(2) by (simp_all add: div_ceil_def MAX_CURSOR_PAYLOAD_BYTES_def CURSOR_CHUNK_BYTES_def)
  show ?thesis
    using assms by (simp add: reassembler_push_def cursor_chunk_def one len max Let_def bytes_of_def)
qed

lemma demo_receive:
  "\<exists>c' out. receive_datagram demo_client_codec (time_1, 0) [1] (cursor_client_new [7])
     = ((Return (EventBatchItem (demo_batch 1 1)), c'), out) \<and> stream_key c' \<noteq> stream_key (cursor_client_new [7])
     \<and> applied_event_sequence c' = 1"
proof -
  let ?c = "count_datagram (cursor_client_new [7])"
  have r: "reassembler ?c = reassembler_new" by (simp add: count_datagram_def cursor_client_new_def)
  have push: "reassembler_push 0 (cursor_chunk [9] KindEventBatch 1 [1] (0, [1])) reassembler_new
      = Some (Inr (Some [1]), (expire 0 reassembler_new)\<lparr>partials := []\<rparr>)"
    using push_single[of "[1]" 0 reassembler_new KindEventBatch 1 "[9]"]
    by (simp add: CURSOR_CHUNK_BYTES_def expire_def reassembler_new_def al_del_def)
  have "kind_of (ch_kind (cursor_chunk [9] KindEventBatch 1 [1] (0, [1]))) = Some KindEventBatch"
    by (simp add: cursor_chunk_def kind_of_def kind_code_def)
  then show ?thesis
    by (simp add: receive_datagram_def receive_chunk_def demo_client_codec_def r push Let_def receive_payload_def
        receive_batch_def enter_epoch_def enter_baseline_def demo_batch_def epoch_bytes_def stream_key_def
        count_failures_def count_datagram_def count_batch_def cursor_client_new_def)
qed

lemma client_items_coherent_witness:
  "sorted_wrt (<) (batch_seqs [EventBatchItem (demo_batch 1 1)]) \<and> sorted_wrt (<) (frame_seqs [EventBatchItem (demo_batch 1 1)])"
proof -
  obtain c' out where r: "receive_datagram demo_client_codec (time_1, 0) [1] (cursor_client_new [7])
     = ((Return (EventBatchItem (demo_batch 1 1)), c'), out)" "stream_key c' \<noteq> stream_key (cursor_client_new [7])"
    using demo_receive by blast
  from client_items_coherent[OF segment.enter[OF segment.start r]] show ?thesis by simp
qed

lemma receive_new_baseline:
  assumes "cb_baseline b" "baseline_revision c \<noteq> Some (cb_revision b)" "0 < cb_event_sequence b"
  shows "fst (receive_batch b c) = Return (EventBatchItem b)"
    "applied_event_sequence (snd (receive_batch b c)) = cb_event_sequence b"
    "baseline_revision (snd (receive_batch b c)) = Some (cb_revision b)"
proof -
  let ?c = "enter_baseline b (enter_epoch (epoch_bytes (cb_server_epoch b)) c)"
  have "applied_event_sequence ?c = 0" "baseline_revision ?c = Some (cb_revision b)"
    using assms(1,2) by (simp_all add: enter_baseline_def enter_epoch_def)
  then show "fst (receive_batch b c) = Return (EventBatchItem b)"
    "applied_event_sequence (snd (receive_batch b c)) = cb_event_sequence b"
    "baseline_revision (snd (receive_batch b c)) = Some (cb_revision b)"
    using assms(3) by (simp_all add: receive_batch_def Let_def count_batch_def count_retransmit_def word_gt_0)
qed

text \<open>A baseline batch of an older revision that the network delivers again, after the baseline of a
  newer revision, is handed out a second time and sets the applied sequence back to its own: across
  baselines a batch is not applied exactly once.\<close>

theorem stale_baseline_replayed:
  assumes "cb_baseline old" "cb_baseline new" "cb_revision old \<noteq> cb_revision new"
    "cb_server_epoch old = cb_server_epoch new" "0 < cb_event_sequence old" "0 < cb_event_sequence new"
  shows "let c1 = snd (receive_batch old (cursor_client_new u)); c2 = snd (receive_batch new c1);
             (t, c3) = receive_batch old c2
         in fst (receive_batch old (cursor_client_new u)) = Return (EventBatchItem old)
            \<and> fst (receive_batch new c1) = Return (EventBatchItem new)
            \<and> t = Return (EventBatchItem old) \<and> applied_event_sequence c3 = cb_event_sequence old"
proof -
  have first: "baseline_revision (cursor_client_new u) \<noteq> Some (cb_revision old)" by (simp add: cursor_client_new_def)
  note c1 = receive_new_baseline[OF assms(1) first assms(5)]
  have "baseline_revision (snd (receive_batch old (cursor_client_new u))) \<noteq> Some (cb_revision new)"
    using c1(3) assms(3) by simp
  note c2 = receive_new_baseline[OF assms(2) this assms(6)]
  have "baseline_revision (snd (receive_batch new (snd (receive_batch old (cursor_client_new u))))) \<noteq> Some (cb_revision old)"
    using c2(3) assms(3) by simp
  note c3 = receive_new_baseline[OF assms(1) this assms(5)]
  show ?thesis using c1(1) c2(1) c3(1,2) by (simp add: Let_def split_beta)
qed

lemma stale_baseline_replayed_witness:
  "let c1 = snd (receive_batch (demo_batch 1 1) (cursor_client_new [7])); c2 = snd (receive_batch (demo_batch 2 2) c1);
       (t, c3) = receive_batch (demo_batch 1 1) c2
   in t = Return (EventBatchItem (demo_batch 1 1)) \<and> applied_event_sequence c3 = 1"
  using stale_baseline_replayed[of "demo_batch 1 1" "demo_batch 2 2" "[7]"]
  by (simp add: demo_batch_def Let_def split_beta)

end
