(* ===== verification/Gate.thy ===== *)
theory Gate
  imports Prelude
begin

text \<open>
  The ingestion gate (\<open>core/src/management/gate.rs\<close>) as an interleaving of threads: an atomic flag,
  a counter, a maintenance mutex and a readers-writer lock, with one step per atomic action of
  \<open>with_ingestion\<close> and \<open>with_paused\<close>. A step that leaves an action stands for its return and for
  its panic: both run the same guards' drops (fields in declaration order: the flag is set by
  \<open>Drop\<close>, then the mutex is released, then the write lock). Results: mutual exclusion, the flag is
  down exactly while maintenance needs it, and every state can drain to an idle, enabled gate.
\<close>

section \<open>State and steps\<close>

datatype pc =
    Idle
  | IngestWantRead | IngestRead | IngestAction
  | PauseLocked | PauseDisabled | PauseAction | PauseResumed | PauseUnlocked

record gate =
  enabled :: bool
  dropped :: u64
  maintenance :: "nat option"
  readers :: "nat set"
  writer :: "nat option"
  pcs :: "nat \<Rightarrow> pc"

definition gate_new :: gate where
  "gate_new = \<lparr>enabled = True, dropped = 0, maintenance = None, readers = {}, writer = None, pcs = \<lambda>_. Idle\<rparr>"

definition goto :: "nat \<Rightarrow> pc \<Rightarrow> gate \<Rightarrow> gate" where
  "goto t p g = g\<lparr>pcs := (pcs g)(t := p)\<rparr>"

definition count_drop :: "gate \<Rightarrow> gate" where
  "count_drop g = g\<lparr>dropped := dropped g + 1\<rparr>"

text \<open>The entry points, which a thread takes when it calls the gate.\<close>

inductive gate_call :: "gate \<Rightarrow> gate \<Rightarrow> bool" where
  refuse: "pcs g t = Idle \<Longrightarrow> \<not> enabled g \<Longrightarrow> gate_call g (count_drop g)"
| refuse_nested: "pcs g t = PauseAction \<Longrightarrow> \<not> enabled g \<Longrightarrow> gate_call g (count_drop g)"
| check: "pcs g t = Idle \<Longrightarrow> enabled g \<Longrightarrow> gate_call g (goto t IngestWantRead g)"
| lock: "pcs g t = Idle \<Longrightarrow> maintenance g = None \<Longrightarrow> gate_call g (goto t PauseLocked (g\<lparr>maintenance := Some t\<rparr>))"

text \<open>The remaining steps of a call that has begun.\<close>

inductive gate_run :: "gate \<Rightarrow> gate \<Rightarrow> bool" where
  read: "pcs g t = IngestWantRead \<Longrightarrow> writer g = None \<Longrightarrow> gate_run g (goto t IngestRead (g\<lparr>readers := insert t (readers g)\<rparr>))"
| recheck_fails: "pcs g t = IngestRead \<Longrightarrow> \<not> enabled g
    \<Longrightarrow> gate_run g (goto t Idle (count_drop (g\<lparr>readers := readers g - {t}\<rparr>)))"
| recheck: "pcs g t = IngestRead \<Longrightarrow> enabled g \<Longrightarrow> gate_run g (goto t IngestAction g)"
| ingested: "pcs g t = IngestAction \<Longrightarrow> gate_run g (goto t Idle (g\<lparr>readers := readers g - {t}\<rparr>))"
| disable: "pcs g t = PauseLocked \<Longrightarrow> gate_run g (goto t PauseDisabled (g\<lparr>enabled := False\<rparr>))"
| acquire: "pcs g t = PauseDisabled \<Longrightarrow> writer g = None \<Longrightarrow> readers g = {}
    \<Longrightarrow> gate_run g (goto t PauseAction (g\<lparr>writer := Some t\<rparr>))"
| resume: "pcs g t = PauseAction \<Longrightarrow> gate_run g (goto t PauseResumed (g\<lparr>enabled := True\<rparr>))"
| unlock: "pcs g t = PauseResumed \<Longrightarrow> gate_run g (goto t PauseUnlocked (g\<lparr>maintenance := None\<rparr>))"
| release: "pcs g t = PauseUnlocked \<Longrightarrow> gate_run g (goto t Idle (g\<lparr>writer := None\<rparr>))"

inductive gate_reachable :: "gate \<Rightarrow> bool" where
  new: "gate_reachable gate_new"
| call: "gate_reachable g \<Longrightarrow> gate_call g g' \<Longrightarrow> gate_reachable g'"
| run: "gate_reachable g \<Longrightarrow> gate_run g g' \<Longrightarrow> gate_reachable g'"

section \<open>Invariant\<close>

fun holds_lock :: "pc \<Rightarrow> bool" where
  "holds_lock PauseLocked = True" | "holds_lock PauseDisabled = True" | "holds_lock PauseAction = True"
| "holds_lock PauseResumed = True" | "holds_lock _ = False"

fun holds_write :: "pc \<Rightarrow> bool" where
  "holds_write PauseAction = True" | "holds_write PauseResumed = True" | "holds_write PauseUnlocked = True"
| "holds_write _ = False"

fun holds_read :: "pc \<Rightarrow> bool" where
  "holds_read IngestRead = True" | "holds_read IngestAction = True" | "holds_read _ = False"

fun wants_pause :: "pc \<Rightarrow> bool" where
  "wants_pause PauseDisabled = True" | "wants_pause PauseAction = True" | "wants_pause _ = False"

lemma wants_pause_lock: "wants_pause p \<Longrightarrow> holds_lock p"
  by (cases p) simp_all

definition gate_ok :: "gate \<Rightarrow> bool" where
  "gate_ok g \<longleftrightarrow> (\<forall>t. maintenance g = Some t \<longleftrightarrow> holds_lock (pcs g t))
     \<and> (\<forall>t. writer g = Some t \<longleftrightarrow> holds_write (pcs g t))
     \<and> readers g = {t. holds_read (pcs g t)}
     \<and> (writer g \<noteq> None \<longrightarrow> readers g = {})
     \<and> (enabled g \<longleftrightarrow> (\<forall>t. \<not> wants_pause (pcs g t)))
     \<and> finite {t. pcs g t \<noteq> Idle}"

lemma gate_okD:
  assumes "gate_ok g"
  shows "maintenance g = Some t \<longleftrightarrow> holds_lock (pcs g t)" "writer g = Some t \<longleftrightarrow> holds_write (pcs g t)"
    "t \<in> readers g \<longleftrightarrow> holds_read (pcs g t)" "writer g \<noteq> None \<Longrightarrow> readers g = {}"
    "enabled g \<longleftrightarrow> (\<forall>t. \<not> wants_pause (pcs g t))" "finite {t. pcs g t \<noteq> Idle}"
  using assms unfolding gate_ok_def by blast+

lemma goto_simps [simp]:
  "enabled (goto t p g) = enabled g" "dropped (goto t p g) = dropped g" "maintenance (goto t p g) = maintenance g"
  "readers (goto t p g) = readers g" "writer (goto t p g) = writer g" "pcs (goto t p g) = (pcs g)(t := p)"
  "enabled (count_drop g) = enabled g" "maintenance (count_drop g) = maintenance g"
  "readers (count_drop g) = readers g" "writer (count_drop g) = writer g" "pcs (count_drop g) = pcs g"
  by (simp_all add: goto_def count_drop_def)

lemma finite_goto: "finite {u. f u \<noteq> Idle} \<Longrightarrow> finite {u. (f(t := p)) u \<noteq> Idle}"
  by (rule finite_subset[of _ "insert t {u. f u \<noteq> Idle}"]) auto

lemma gate_ok_new: "gate_ok gate_new"
  by (simp add: gate_ok_def gate_new_def)

lemma gate_ok_drop: "gate_ok (count_drop g) = gate_ok g"
  by (simp add: gate_ok_def)

lemma gate_okI:
  assumes "\<And>t. maintenance g = Some t \<longleftrightarrow> holds_lock (pcs g t)" "\<And>t. writer g = Some t \<longleftrightarrow> holds_write (pcs g t)"
    "\<And>t. t \<in> readers g \<longleftrightarrow> holds_read (pcs g t)" "writer g \<noteq> None \<Longrightarrow> readers g = {}"
    "enabled g \<longleftrightarrow> (\<forall>t. \<not> wants_pause (pcs g t))" "finite {t. pcs g t \<noteq> Idle}"
  shows "gate_ok g"
  using assms unfolding gate_ok_def by blast

lemma gate_excl:
  assumes "gate_ok g"
  shows "holds_write (pcs g t) \<Longrightarrow> readers g = {}" "holds_read (pcs g t) \<Longrightarrow> writer g = None"
    "holds_lock (pcs g t) \<Longrightarrow> maintenance g = Some t" "holds_write (pcs g t) \<Longrightarrow> writer g = Some t"
    "t \<in> readers g \<longleftrightarrow> holds_read (pcs g t)"
  using gate_okD(1-3)[OF assms, of t] gate_okD(4)[OF assms] by (cases "writer g"; auto)+

text \<open>A thread's move keeps the invariant when it takes and gives up what its two places say.\<close>

lemma gate_ok_goto:
  assumes ok: "gate_ok g" and pcs: "pcs g' = (pcs g)(t := p)"
    and lock: "maintenance g' = (if holds_lock p then Some t else if holds_lock (pcs g t) then None else maintenance g)"
      "holds_lock p \<Longrightarrow> maintenance g = None \<or> maintenance g = Some t"
    and wr: "writer g' = (if holds_write p then Some t else if holds_write (pcs g t) then None else writer g)"
      "holds_write p \<Longrightarrow> writer g = None \<or> writer g = Some t"
    and rd: "readers g' = (if holds_read p then insert t (readers g) else readers g - {t})"
    and excl: "holds_write p \<Longrightarrow> readers g = {}" "holds_write p \<Longrightarrow> \<not> holds_read p" "holds_read p \<Longrightarrow> writer g = None"
    and en: "enabled g' = (if wants_pause p then False else if wants_pause (pcs g t) then True else enabled g)"
  shows "gate_ok g'"
proof (rule gate_okI)
  note D = gate_okD[OF ok]
  show "maintenance g' = Some u \<longleftrightarrow> holds_lock (pcs g' u)" for u
    unfolding pcs lock(1) using lock(2) D(1)[of u] D(1)[of t] by (cases "u = t") auto
  show "writer g' = Some u \<longleftrightarrow> holds_write (pcs g' u)" for u
    unfolding pcs wr(1) using wr(2) D(2)[of u] D(2)[of t] by (cases "u = t") auto
  show "u \<in> readers g' \<longleftrightarrow> holds_read (pcs g' u)" for u
    unfolding pcs rd using D(3)[of u] by (cases "u = t") auto
  show "readers g' = {}" if "writer g' \<noteq> None"
  proof (cases "holds_write p")
    case True
    then show ?thesis using excl(1,2) by (simp add: rd)
  next
    case False
    then have "\<not> holds_write (pcs g t)" "writer g \<noteq> None" using that by (auto simp: wr(1) split: if_splits)
    then show ?thesis using excl(3) D(4) by (auto simp: rd)
  qed
  have alone: "\<not> wants_pause (pcs g u)" if "u \<noteq> t" "holds_lock (pcs g t) \<or> holds_lock p" for u
    using that lock(2) D(1)[of u] D(1)[of t] wants_pause_lock[of "pcs g u"] by auto
  show "enabled g' \<longleftrightarrow> (\<forall>u. \<not> wants_pause (pcs g' u))"
  proof (cases "wants_pause p \<or> wants_pause (pcs g t)")
    case True
    then have "\<not> wants_pause (pcs g u)" if "u \<noteq> t" for u
      using alone[OF that] wants_pause_lock by blast
    then show ?thesis unfolding pcs en using True by auto
  next
    case False
    then have "wants_pause (((pcs g)(t := p)) u) \<longleftrightarrow> wants_pause (pcs g u)" for u by (cases "u = t") auto
    then show ?thesis using False unfolding pcs en D(5) by simp
  qed
  show "finite {u. pcs g' u \<noteq> Idle}" unfolding pcs using D(6) by (rule finite_goto)
qed

lemma gate_ok_call: "gate_call g g' \<Longrightarrow> gate_ok g \<Longrightarrow> gate_ok g'"
proof (induction rule: gate_call.induct)
  case (check g t)
  then show ?case using gate_excl(5)[OF check(3), of t] by - (rule gate_ok_goto[of g _ t IngestWantRead], auto)
next
  case (lock g t)
  then show ?case using gate_excl(5)[OF lock(3), of t] by - (rule gate_ok_goto[of g _ t PauseLocked], auto)
qed (simp_all add: gate_ok_drop)

lemma gate_ok_run: "gate_run g g' \<Longrightarrow> gate_ok g \<Longrightarrow> gate_ok g'"
proof (induction rule: gate_run.induct)
  case (read g t)
  then show ?case using gate_excl[OF read(3), of t] by - (rule gate_ok_goto[of g _ t IngestRead], auto)
next
  case (recheck_fails g t)
  then show ?case using gate_excl[OF recheck_fails(3), of t] by - (rule gate_ok_goto[of g _ t Idle], auto)
next
  case (recheck g t)
  then show ?case using gate_excl[OF recheck(3), of t] by - (rule gate_ok_goto[of g _ t IngestAction], auto)
next
  case (ingested g t)
  then show ?case using gate_excl[OF ingested(2), of t] by - (rule gate_ok_goto[of g _ t Idle], auto)
next
  case (disable g t)
  then show ?case using gate_excl[OF disable(2), of t] by - (rule gate_ok_goto[of g _ t PauseDisabled], auto)
next
  case (acquire g t)
  have "\<not> enabled g" using acquire(1) gate_okD(5)[OF acquire(4)] by (auto intro!: exI[of _ t])
  with acquire show ?case using gate_excl[OF acquire(4), of t] by - (rule gate_ok_goto[of g _ t PauseAction], auto)
next
  case (resume g t)
  then show ?case using gate_excl[OF resume(2), of t] by - (rule gate_ok_goto[of g _ t PauseResumed], auto)
next
  case (unlock g t)
  then show ?case using gate_excl[OF unlock(2), of t] by - (rule gate_ok_goto[of g _ t PauseUnlocked], auto)
next
  case (release g t)
  then show ?case using gate_excl[OF release(2), of t] by - (rule gate_ok_goto[of g _ t Idle], auto)
qed

lemma gate_reachable_ok: "gate_reachable g \<Longrightarrow> gate_ok g"
  by (induction rule: gate_reachable.induct) (auto intro: gate_ok_new gate_ok_call gate_ok_run)

section \<open>Properties\<close>

text \<open>C18: While a paused action runs, ingestion is disabled, no ingestion action runs and no other paused
  action runs; and whenever no thread is between disabling and resuming, ingestion is enabled, so no
  sequence of maintenance windows leaves the gate closed.\<close>

theorem paused_action_is_exclusive:
  assumes "gate_reachable g"
  shows "(\<forall>t. pcs g t = PauseAction \<longrightarrow> \<not> enabled g \<and> (\<forall>u. pcs g u \<noteq> IngestAction \<and> (pcs g u = PauseAction \<longrightarrow> u = t)))
    \<and> (enabled g \<longleftrightarrow> (\<forall>t. pcs g t \<noteq> PauseDisabled \<and> pcs g t \<noteq> PauseAction))"
proof -
  note ok = gate_reachable_ok[OF assms]
  have "pcs g u \<noteq> IngestAction \<and> (pcs g u = PauseAction \<longrightarrow> u = t)" if "pcs g t = PauseAction" for t u
    using that gate_excl[OF ok, of t] gate_excl[OF ok, of u] by auto
  moreover have "wants_pause p \<longleftrightarrow> p = PauseDisabled \<or> p = PauseAction" for p by (cases p) simp_all
  ultimately show ?thesis using gate_okD(5)[OF ok] by auto
qed

text \<open>A reachable state with a thread inside a paused action: thread 3 is in its window.\<close>

definition demo_gate :: gate where
  "demo_gate = goto 3 PauseAction ((goto 3 PauseDisabled ((goto 3 PauseLocked (gate_new\<lparr>maintenance := Some 3\<rparr>))
     \<lparr>enabled := False\<rparr>))\<lparr>writer := Some 3\<rparr>)"

lemma demo_gate_reachable: "gate_reachable demo_gate"
proof -
  have "gate_reachable (goto 3 PauseLocked (gate_new\<lparr>maintenance := Some 3\<rparr>))"
    by (rule gate_reachable.call[OF gate_reachable.new]) (rule gate_call.lock, simp_all add: gate_new_def)
  then have "gate_reachable (goto 3 PauseDisabled ((goto 3 PauseLocked (gate_new\<lparr>maintenance := Some 3\<rparr>))\<lparr>enabled := False\<rparr>))"
    by (rule gate_reachable.run) (rule gate_run.disable, simp)
  then show ?thesis
    unfolding demo_gate_def by (rule gate_reachable.run) (rule gate_run.acquire, simp_all add: gate_new_def)
qed

lemma paused_action_is_exclusive_witness:
  "pcs demo_gate 3 = PauseAction \<and> \<not> enabled demo_gate"
  using paused_action_is_exclusive[OF demo_gate_reachable] by (auto simp: demo_gate_def)

section \<open>Draining\<close>

text \<open>How far a thread is from the end of its call.\<close>

fun remaining :: "pc \<Rightarrow> nat" where
  "remaining Idle = 0"
| "remaining IngestWantRead = 3" | "remaining IngestRead = 2" | "remaining IngestAction = 1"
| "remaining PauseLocked = 5" | "remaining PauseDisabled = 4" | "remaining PauseAction = 3"
| "remaining PauseResumed = 2" | "remaining PauseUnlocked = 1"

definition work :: "gate \<Rightarrow> nat" where
  "work g = (\<Sum>t | pcs g t \<noteq> Idle. remaining (pcs g t))"

lemma work_goto:
  assumes ok: "gate_ok g" and q: "pcs g t = q" and g1: "pcs g1 = pcs g" and less: "remaining p < remaining q"
  shows "work (goto t p g1) < work g"
proof -
  let ?A = "{u. pcs g u \<noteq> Idle}" and ?f = "\<lambda>u. remaining (if u = t then p else pcs g u)"
  have fin: "finite ?A" using gate_okD(6)[OF ok] .
  have t: "t \<in> ?A" using less q by (cases q) auto
  have "work (goto t p g1) = (\<Sum>u \<in> ?A. ?f u)"
    unfolding work_def using fin t by (intro sum.mono_neutral_cong_left) (auto simp: g1)
  also have "\<dots> < (\<Sum>u \<in> ?A. remaining (pcs g u))"
    by (rule sum_strict_mono_ex1) (use fin t less q in auto)
  finally show ?thesis by (simp add: work_def)
qed

lemma run_decreases: "gate_run g g' \<Longrightarrow> gate_ok g \<Longrightarrow> work g' < work g"
  by (induction rule: gate_run.induct) (erule work_goto, assumption, simp, simp)+

lemma run_progress:
  assumes ok: "gate_ok g" and t: "pcs g t \<noteq> Idle"
  shows "\<exists>g'. gate_run g g'"
proof (cases "writer g")
  case (Some u)
  then have "holds_write (pcs g u)" using gate_okD(2)[OF ok] by simp
  then show ?thesis
    by (cases "pcs g u") (auto intro: gate_run.resume gate_run.unlock gate_run.release)
next
  case None
  show ?thesis
  proof (cases "readers g = {}")
    case False
    then obtain u where "holds_read (pcs g u)" using gate_okD(3)[OF ok] by blast
    then show ?thesis
      by (cases "pcs g u"; cases "enabled g")
        (auto intro: gate_run.recheck gate_run.recheck_fails gate_run.ingested)
  next
    case True
    have "\<not> holds_write (pcs g t)" "\<not> holds_read (pcs g t)"
      using None True gate_okD(2,3)[OF ok, of t] by auto
    then show ?thesis
      using t None True by (cases "pcs g t") (auto intro: gate_run.read gate_run.disable gate_run.acquire)
  qed
qed

lemma drain: "gate_ok g \<Longrightarrow> \<exists>g'. gate_run\<^sup>*\<^sup>* g g' \<and> gate_ok g' \<and> (\<forall>t. pcs g' t = Idle)"
proof (induction "work g" arbitrary: g rule: less_induct)
  case less
  show ?case
  proof (cases "\<forall>t. pcs g t = Idle")
    case False
    then obtain g1 where g1: "gate_run g g1" using run_progress[OF less.prems] by blast
    from less.hyps[OF run_decreases[OF g1 less.prems] gate_ok_run[OF g1 less.prems]] g1 show ?thesis
      by (blast intro: converse_rtranclp_into_rtranclp)
  qed (use less.prems in blast)
qed

text \<open>C19: The gate cannot deadlock or run for ever: from every reachable state the calls in progress can
  finish without new ones, every one of their steps decreases the work left, and when they have
  finished no thread holds anything and ingestion is enabled.\<close>

theorem gate_calls_terminate:
  assumes "gate_reachable g"
  shows "(\<forall>g'. gate_run g g' \<longrightarrow> work g' < work g)
    \<and> (\<exists>g'. gate_run\<^sup>*\<^sup>* g g' \<and> (\<forall>t. pcs g' t = Idle) \<and> enabled g' \<and> readers g' = {} \<and> writer g' = None \<and> maintenance g' = None)"
proof -
  note ok = gate_reachable_ok[OF assms]
  obtain g' where g': "gate_run\<^sup>*\<^sup>* g g'" "gate_ok g'" "\<And>t. pcs g' t = Idle" using drain[OF ok] by blast
  have "readers g' = {}" "enabled g'" "\<And>t. writer g' \<noteq> Some t" "\<And>t. maintenance g' \<noteq> Some t"
    using gate_okD(1-3,5)[OF g'(2)] by (auto simp: g'(3))
  then have "writer g' = None" "maintenance g' = None" by (cases "writer g'"; cases "maintenance g'"; auto)+
  with \<open>readers g' = {}\<close> \<open>enabled g'\<close> g' run_decreases[OF _ ok] show ?thesis by blast
qed

lemma gate_calls_terminate_witness: "\<exists>g'. gate_run\<^sup>*\<^sup>* demo_gate g' \<and> enabled g'"
  using gate_calls_terminate[OF demo_gate_reachable] by blast

end
