(* ===== verification/Lttb.thy ===== *)
theory Lttb
  imports F64_Arith
begin

text \<open>
  The down-sampling of series (\<open>core/src/management/series.rs\<close>: \<open>lttb\<close>), in floating point. An
  index or slice out of range is a panic, \<open>None\<close> here. The bucket borders are rounded products; the
  lemmas bound them on the dyadic grid of \<open>2 ^ -16\<close>, which rounding does not leave.
\<close>

section \<open>The algorithm\<close>

type_synonym point = "f64 \<times> f64"

definition border :: "f64 \<Rightarrow> nat \<Rightarrow> nat" where
  "border every b = floor_as_usize (fmul (f_of_nat b) every)"

definition average_of :: "point list \<Rightarrow> point" where
  "average_of ps =
     (let s = foldl (\<lambda>(sx, sy) (x, y). (fadd sx x, fadd sy y)) (f_zero, f_zero) ps
      in (fdiv (fst s) (f_of_nat (length ps)), fdiv (snd s) (f_of_nat (length ps))))"

definition triangle_area :: "point \<Rightarrow> point \<Rightarrow> point \<Rightarrow> f64" where
  "triangle_area anchor avg p =
     fabs (fsub (fmul (fsub (fst anchor) (fst avg)) (fsub (snd p) (snd anchor)))
                (fmul (fsub (fst anchor) (fst p)) (fsub (snd avg) (snd anchor))))"

definition minus_one :: f64 where "minus_one = F64 0xBFF0000000000000"

text \<open>The candidate with the largest area; \<open>index.min(len - 2)\<close> is in range when there are two points.\<close>

definition scan_bucket :: "point list \<Rightarrow> point \<Rightarrow> point \<Rightarrow> f64 \<times> nat \<Rightarrow> nat list \<Rightarrow> f64 \<times> nat" where
  "scan_bucket pts anchor avg = foldl (\<lambda>(max_area, next_index) index.
     let area = triangle_area anchor avg (pts ! min index (length pts - 2)) in
     if flt max_area area then (area, min index (length pts - 2)) else (max_area, next_index))"

text \<open>The indices one bucket scans; an empty bucket still scans its first index.\<close>

definition bucket_range :: "f64 \<Rightarrow> nat \<Rightarrow> nat \<Rightarrow> nat list" where
  "bucket_range every n bucket =
     (let range_start = border every bucket + 1;
          range_end = min (border every (bucket + 1) + 1) (n - 1)
      in [range_start..<max range_end (range_start + 1)])"

definition lttb_step :: "point list \<Rightarrow> f64 \<Rightarrow> nat \<Rightarrow> nat \<Rightarrow> (nat \<times> point) option" where
  "lttb_step pts every bucket selected =
     (let n = length pts;
          average_start = min (border every (bucket + 1) + 1) n;
          average_end = min (border every (bucket + 2) + 1) n
      in case (slice_range average_start average_end pts, nth_opt pts (min (average_start - 1) (n - 1)),
               nth_opt pts selected) of
           (Some window_pts, Some fallback, Some anchor) \<Rightarrow>
             (let avg = (if window_pts = [] then fallback else average_of window_pts);
                  chosen = snd (scan_bucket pts anchor avg (minus_one, border every bucket + 1) (bucket_range every n bucket))
              in map_option (\<lambda>p. (chosen, p)) (nth_opt pts chosen))
         | _ \<Rightarrow> None)"

fun lttb_buckets :: "point list \<Rightarrow> f64 \<Rightarrow> nat list \<Rightarrow> nat \<Rightarrow> point list option" where
  "lttb_buckets pts every [] selected = Some []"
| "lttb_buckets pts every (b # bs) selected =
     (case lttb_step pts every b selected of
        None \<Rightarrow> None
      | Some (chosen, p) \<Rightarrow> map_option (\<lambda>ps. p # ps) (lttb_buckets pts every bs chosen))"

definition lttb_every :: "nat \<Rightarrow> nat \<Rightarrow> f64" where
  "lttb_every n threshold = fdiv (f_of_nat (n - 2)) (f_of_nat (threshold - 2))"

definition lttb :: "point list \<Rightarrow> nat \<Rightarrow> point list option" where
  "lttb pts threshold =
     (if length pts \<le> threshold \<or> threshold < 3 then Some pts
      else map_option (\<lambda>ps. hd pts # ps @ [last pts])
             (lttb_buckets pts (lttb_every (length pts) threshold) [0..<threshold - 2] 0))"

section \<open>The grid\<close>

definition grid :: nat where "grid = 2 ^ 1058"

lemma unit_grid: "unit_scale = 2 ^ 16 * grid" "0 < grid" "0 < unit_scale"
  by (simp_all add: unit_scale_def grid_def)

lemma normalise:
  assumes "0 < k" "k < (2::nat) ^ 53"
  shows "\<exists>j h. j \<le> 52 \<and> k * 2 ^ j = 2 ^ 52 + h \<and> h < 2 ^ 52"
proof -
  let ?l = "bitlen k"
  have l: "2 ^ (?l - 1) \<le> k" "k < 2 ^ ?l" "0 < ?l"
    using bitlen_ge[OF assms(1)] bitlen_less[of k] assms(1) by (simp_all add: bitlen.simps[of k])
  have l53: "?l \<le> 53" using assms(2) by (rule bitlen_le)
  have "2 ^ 52 \<le> k * 2 ^ (53 - ?l)"
  proof -
    have "(2::nat) ^ 52 = 2 ^ (?l - 1) * 2 ^ (53 - ?l)" using l(3) l53 by (simp flip: power_add)
    also have "\<dots> \<le> k * 2 ^ (53 - ?l)" using l(1) by (rule mult_le_mono1)
    finally show ?thesis .
  qed
  moreover have "k * 2 ^ (53 - ?l) < 2 ^ 53"
  proof -
    have "k * 2 ^ (53 - ?l) < 2 ^ ?l * 2 ^ (53 - ?l)" using l(2) by simp
    also have "\<dots> = (2::nat) ^ 53" using l53 by (simp flip: power_add)
    finally show ?thesis .
  qed
  ultimately show ?thesis
    using l(3) by (intro exI[of _ "53 - ?l"] exI[of _ "k * 2 ^ (53 - ?l) - 2 ^ 52"]) auto
qed

text \<open>Every multiple of the grid below \<open>2 ^ 53\<close> is a finite magnitude.\<close>

lemma grid_exact:
  assumes "k < 2 ^ 53"
  shows "\<exists>m < inf_mag. val_mag m = k * grid"
proof (cases "k = 0")
  case True
  then show ?thesis by (intro exI[of _ 0]) (simp add: inf_mag_def)
next
  case False
  then obtain j h where j: "j \<le> 52" "k * 2 ^ j = 2 ^ 52 + h" "h < 2 ^ 52"
    using normalise[of k] assms by auto
  let ?e = "1058 - j + 1" and ?m = "(1058 - j + 1) * 2 ^ 52 + h"
  have "?m div 2 ^ 52 = ?e" "?m mod 2 ^ 52 = h"
    using j(3) div_mult_self3[of "2 ^ 52" h ?e] mod_mult_self3[of ?e "2 ^ 52" h] by (simp_all add: div_less mod_less)
  then have "val_mag ?m = (2 ^ 52 + h) * 2 ^ (1058 - j)" by (simp add: val_mag_def)
  also have "\<dots> = k * (2 ^ j * 2 ^ (1058 - j))" by (simp only: j(2)[symmetric] mult.assoc)
  also have "(2::nat) ^ j * 2 ^ (1058 - j) = grid" using j(1) by (simp add: grid_def flip: power_add)
  finally have "val_mag ?m = k * grid" .
  moreover have "?m < inf_mag"
  proof -
    have "?m < (?e + 1) * 2 ^ 52" using j(3) by simp
    also have "\<dots> \<le> 1060 * 2 ^ 52" using j(1) by (intro mult_le_mono1) simp
    also have "\<dots> < inf_mag" by (simp add: inf_mag_def)
    finally show ?thesis .
  qed
  ultimately show ?thesis by blast
qed

lemma round_grid:
  assumes "k < 2 ^ 53" "0 < d"
  shows "n \<le> k * grid * d \<Longrightarrow> val_mag (round_mag n d) \<le> k * grid \<and> round_mag n d < inf_mag"
    "k * grid * d \<le> n \<Longrightarrow> k * grid \<le> val_mag (round_mag n d)"
proof -
  obtain m where m: "m < inf_mag" "val_mag m = k * grid" using grid_exact[OF assms(1)] by blast
  have r: "round_mag (k * grid * d) d = m" using round_mag_exact[OF assms(2), of m] m by simp
  show "val_mag (round_mag n d) \<le> k * grid \<and> round_mag n d < inf_mag" if "n \<le> k * grid * d"
  proof -
    have "round_mag n d \<le> m" using round_mag_mono[OF assms(2,2), of n "k * grid * d"] that r by simp
    then show ?thesis using val_mag_mono[of "round_mag n d" m] m by simp
  qed
  show "k * grid \<le> val_mag (round_mag n d)" if "k * grid * d \<le> n"
  proof -
    have "m \<le> round_mag n d" using round_mag_mono[OF assms(2,2), of "k * grid * d" n] that r by simp
    then show ?thesis using val_mag_mono[of m "round_mag n d"] m by simp
  qed
qed

section \<open>Bucket borders\<close>

text \<open>The sizes for which the argument holds; a query asks for at most 20000 points.\<close>

definition lttb_sizes :: "nat \<Rightarrow> nat \<Rightarrow> bool" where
  "lttb_sizes n threshold \<longleftrightarrow> 3 \<le> threshold \<and> threshold < n \<and> threshold \<le> 2 ^ 15 \<and> n \<le> 2 ^ 36"

lemma of_nat_exact:
  assumes "k < 2 ^ 37"
  shows "val_mag (f_mag (f_of_nat k)) = k * unit_scale" "is_finite (f_of_nat k)" "\<not> f_neg (f_of_nat k)"
    "f_mag (f_of_nat k) = 0 \<longleftrightarrow> k = 0"
proof -
  have k: "k * 2 ^ 16 < 2 ^ 53" using assms by simp
  have e: "k * unit_scale = (k * 2 ^ 16) * grid" by (simp add: unit_grid)
  have "val_mag (round_mag (k * unit_scale) 1) \<le> k * unit_scale" "round_mag (k * unit_scale) 1 < inf_mag"
    "k * unit_scale \<le> val_mag (round_mag (k * unit_scale) 1)"
    using round_grid[OF k, of 1 "k * unit_scale"] unfolding e by auto
  then have v: "val_mag (round_mag (k * unit_scale) 1) = k * unit_scale" "round_mag (k * unit_scale) 1 < inf_mag" by auto
  have m: "f_mag (f_of_nat k) = round_mag (k * unit_scale) 1" by (simp add: f_of_nat_def f_round_def)
  show "val_mag (f_mag (f_of_nat k)) = k * unit_scale" using v by (simp add: m)
  show "is_finite (f_of_nat k)" using v by (simp add: m is_finite_def)
  show "\<not> f_neg (f_of_nat k)" by (simp add: f_of_nat_def f_round_def)
  show "f_mag (f_of_nat k) = 0 \<longleftrightarrow> k = 0"
    using v val_mag_zero_iff[of "f_mag (f_of_nat k)"] unit_grid(3) by (simp add: m)
qed

definition step_units :: "nat \<Rightarrow> nat \<Rightarrow> nat" where
  "step_units n threshold = val_mag (f_mag (lttb_every n threshold))"

text \<open>The step lies between \<open>1 + 2 ^ -15\<close> and the next grid point above the exact quotient.\<close>

lemma step_bounds:
  assumes sz: "lttb_sizes n t"
  shows "(2 ^ 16 + 2) * grid \<le> step_units n t"
    "step_units n t * (t - 2) \<le> ((n - 2) * 2 ^ 16 + (t - 2)) * grid"
    "is_finite (lttb_every n t)" "\<not> f_neg (lttb_every n t)"
proof -
  have t: "3 \<le> t" "t < n" "t \<le> 2 ^ 15" "n \<le> 2 ^ 36" using sz by (simp_all add: lttb_sizes_def)
  let ?p = "n - 2" and ?q = "t - 2"
  have q: "0 < ?q" "?q < ?p" "?p < 2 ^ 36" using t by auto
  note fp = of_nat_exact[of ?p] and fq = of_nat_exact[of ?q]
  have small: "?p < 2 ^ 37" "?q < 2 ^ 37" using q by auto
  have every: "lttb_every n t = f_round False (?p * unit_scale * unit_scale) (?q * unit_scale)"
    using fp(1)[OF small(1)] fq(1)[OF small(2)] fp(2,3)[OF small(1)] fq(2,3)[OF small(2)] fq(4)[OF small(2)] q(1)
    by (simp add: lttb_every_def fdiv_def Let_def is_infinite_def is_finite_def)
  have m: "f_mag (lttb_every n t) = round_mag (?p * unit_scale * unit_scale) (?q * unit_scale)"
    by (simp add: every f_round_def)
  have d: "0 < ?q * unit_scale" using q unit_grid by simp
  show "(2 ^ 16 + 2) * grid \<le> step_units n t"
    unfolding step_units_def m
  proof (rule round_grid(2)[OF _ d])
    have "(2 ^ 16 + 2) * ?q \<le> ?p * 2 ^ 16"
    proof -
      have "(2 ^ 16 + 2) * ?q \<le> 2 ^ 16 * ?q + 2 ^ 16" using t by simp
      also have "\<dots> = 2 ^ 16 * (?q + 1)" by simp
      also have "\<dots> \<le> 2 ^ 16 * ?p" using q by (intro mult_le_mono2) simp
      finally show ?thesis by (simp add: mult.commute)
    qed
    then have "((2 ^ 16 + 2) * ?q) * (grid * unit_scale) \<le> (?p * 2 ^ 16) * (grid * unit_scale)" by (rule mult_le_mono1)
    then show "(2 ^ 16 + 2) * grid * (?q * unit_scale) \<le> ?p * unit_scale * unit_scale"
      by (simp only: unit_grid(1) mult.assoc mult.commute mult.left_commute)
  qed simp
  define K where "K = ?p * 2 ^ 16 div ?q + 1"
  have K1: "?p * 2 ^ 16 \<le> K * ?q"
    unfolding K_def using dividend_less_div_times[OF q(1), of "?p * 2 ^ 16"] by (simp only: distrib_right mult_1)
  have K2: "K * ?q \<le> ?p * 2 ^ 16 + ?q"
    unfolding K_def using div_times_less_eq_dividend[of "?p * 2 ^ 16" ?q] by (simp only: distrib_right mult_1)
  have K3: "K < 2 ^ 53"
  proof -
    have "K \<le> ?p * 2 ^ 16 + 1" by (simp add: K_def)
    also have "\<dots> < 2 ^ 53" using q(3) by simp
    finally show ?thesis .
  qed
  have up: "val_mag (f_mag (lttb_every n t)) \<le> K * grid \<and> f_mag (lttb_every n t) < inf_mag"
    unfolding m
  proof (rule round_grid(1)[OF K3 d])
    have "(?p * 2 ^ 16) * (grid * unit_scale) \<le> (K * ?q) * (grid * unit_scale)" using K1 by (rule mult_le_mono1)
    then show "?p * unit_scale * unit_scale \<le> K * grid * (?q * unit_scale)"
      by (simp only: unit_grid(1) mult.assoc mult.commute mult.left_commute)
  qed
  then have "step_units n t * ?q \<le> K * grid * ?q" by (simp add: step_units_def)
  also have "\<dots> = (K * ?q) * grid" by simp
  also have "\<dots> \<le> (?p * 2 ^ 16 + ?q) * grid" using K2 by (rule mult_le_mono1)
  finally show "step_units n t * ?q \<le> (?p * 2 ^ 16 + ?q) * grid" .
  show "is_finite (lttb_every n t)" using up by (simp add: is_finite_def)
  show "\<not> f_neg (lttb_every n t)" by (simp add: every f_round_def)
qed

text \<open>A border is the integer part of a rounded product; products on either side of a grid point stay there.\<close>

lemma border_bounds:
  assumes sz: "lttb_sizes n t" and b: "b < 2 ^ 37" and k: "k < 2 ^ 53"
  shows "b * step_units n t \<le> k * grid \<Longrightarrow> border (lttb_every n t) b \<le> k div 2 ^ 16"
    "k * grid \<le> b * step_units n t \<Longrightarrow> k div 2 ^ 16 \<le> border (lttb_every n t) b"
proof -
  note e = step_bounds[OF sz] and fb = of_nat_exact[OF b]
  let ?m = "round_mag (b * unit_scale * step_units n t) unit_scale"
  have prod: "fmul (f_of_nat b) (lttb_every n t) = f_round False (b * unit_scale * step_units n t) unit_scale"
    using e(3,4) fb by (simp add: fmul_def Let_def step_units_def is_infinite_def is_finite_def)
  have brd: "border (lttb_every n t) b = (if ?m = inf_mag then 2 ^ 64 - 1 else min (2 ^ 64 - 1) (val_mag ?m div unit_scale))"
    by (simp add: border_def prod floor_as_usize_def f_round_def is_nan_def is_infinite_def not_less round_mag_inf[THEN leD])
  have div: "(j * grid) div unit_scale = j div 2 ^ 16" for j
    using unit_grid(2) by (simp add: unit_grid(1) div_mult2_eq[symmetric] mult.commute)
  have k64: "k div 2 ^ 16 \<le> 2 ^ 64 - 1"
  proof -
    have "k div 2 ^ 16 \<le> k" by simp
    also have "\<dots> \<le> 2 ^ 64 - 1" using k by simp
    finally show ?thesis .
  qed
  show "border (lttb_every n t) b \<le> k div 2 ^ 16" if "b * step_units n t \<le> k * grid"
  proof -
    have "(b * step_units n t) * unit_scale \<le> (k * grid) * unit_scale" using that by (rule mult_le_mono1)
    then have "val_mag ?m \<le> k * grid \<and> ?m < inf_mag"
      by (intro round_grid(1)[OF k unit_grid(3)]) (simp only: mult.assoc mult.commute mult.left_commute)
    then show ?thesis using div_le_mono[of "val_mag ?m" "k * grid" unit_scale] by (simp add: brd div)
  qed
  show "k div 2 ^ 16 \<le> border (lttb_every n t) b" if "k * grid \<le> b * step_units n t"
  proof -
    have "(k * grid) * unit_scale \<le> (b * step_units n t) * unit_scale" using that by (rule mult_le_mono1)
    then have "k * grid \<le> val_mag ?m"
      by (intro round_grid(2)[OF k unit_grid(3)]) (simp only: mult.assoc mult.commute mult.left_commute)
    then show ?thesis using div_le_mono[of "k * grid" "val_mag ?m" unit_scale] k64 by (simp add: brd div)
  qed
qed

lemma border_0: "lttb_sizes n t \<Longrightarrow> border (lttb_every n t) 0 = 0"
  using border_bounds(1)[of n t 0 0] by simp

lemma border_top:
  assumes sz: "lttb_sizes n t" and b: "b \<le> t - 2"
  shows "border (lttb_every n t) b \<le> n - 2"
proof -
  have t: "3 \<le> t" "t < n" "t \<le> 2 ^ 15" "n \<le> 2 ^ 36" using sz by (simp_all add: lttb_sizes_def)
  let ?k = "(n - 2) * 2 ^ 16 + (t - 2)"
  have "b * step_units n t \<le> (t - 2) * step_units n t" using b by (rule mult_le_mono1)
  also have "\<dots> = step_units n t * (t - 2)" by (rule mult.commute)
  also have "\<dots> \<le> ?k * grid" by (rule step_bounds(2)[OF sz])
  finally have le: "b * step_units n t \<le> ?k * grid" .
  have k: "?k < 2 ^ 53" "b < 2 ^ 37" using t b by auto
  have "border (lttb_every n t) b \<le> ?k div 2 ^ 16" by (rule border_bounds(1)[OF sz k(2,1) le])
  also have "?k div 2 ^ 16 = n - 2" using t by simp
  finally show ?thesis .
qed

lemma border_step:
  assumes sz: "lttb_sizes n t" and b: "b \<le> t - 2"
  shows "border (lttb_every n t) b < border (lttb_every n t) (b + 1)"
proof -
  have t: "3 \<le> t" "t < n" "t \<le> 2 ^ 15" "n \<le> 2 ^ 36" using sz by (simp_all add: lttb_sizes_def)
  let ?E = "step_units n t" and ?k = "border (lttb_every n t) b"
  have k: "?k \<le> n - 2" by (rule border_top[OF sz b])
  have b37: "b < 2 ^ 37" "b + 1 < 2 ^ 37" using b t by auto
  have "(?k + 1) * 2 ^ 16 * grid \<le> (b + 1) * ?E"
  proof (cases "?k = 0")
    case True
    have "1 * ?E \<le> (b + 1) * ?E" by (rule mult_le_mono1) simp
    moreover have "2 ^ 16 * grid \<le> (2 ^ 16 + 2) * grid" by (rule mult_le_mono1) simp
    ultimately show ?thesis using step_bounds(1)[OF sz] True by simp
  next
    case False
    have small: "?k * 2 ^ 16 - 1 < 2 ^ 53" using k t(4) by simp
    have "(?k * 2 ^ 16 - 1) * grid \<le> b * ?E"
    proof (rule ccontr)
      assume "\<not> (?k * 2 ^ 16 - 1) * grid \<le> b * ?E"
      then have "?k \<le> (?k * 2 ^ 16 - 1) div 2 ^ 16"
        using border_bounds(1)[OF sz b37(1) small] by simp
      then have "?k * 2 ^ 16 \<le> ?k * 2 ^ 16 - 1" by (simp add: less_eq_div_iff_mult_less_eq)
      then show False using False by simp
    qed
    then have "(?k * 2 ^ 16 - 1) * grid + (2 ^ 16 + 2) * grid \<le> b * ?E + ?E"
      using step_bounds(1)[OF sz] by (rule add_le_mono)
    moreover have "(?k + 1) * 2 ^ 16 * grid \<le> (?k * 2 ^ 16 - 1) * grid + (2 ^ 16 + 2) * grid"
    proof -
      have "(?k + 1) * 2 ^ 16 \<le> (?k * 2 ^ 16 - 1) + (2 ^ 16 + 2)" by simp
      then have "(?k + 1) * 2 ^ 16 * grid \<le> ((?k * 2 ^ 16 - 1) + (2 ^ 16 + 2)) * grid" by (rule mult_le_mono1)
      then show ?thesis by (simp only: distrib_right)
    qed
    ultimately show ?thesis by simp
  qed
  moreover have "(?k + 1) * 2 ^ 16 < 2 ^ 53"
  proof -
    have "(?k + 1) * 2 ^ 16 \<le> 2 ^ 36 * 2 ^ 16" using k t by (intro mult_le_mono1) simp
    then show ?thesis by (rule le_less_trans) simp
  qed
  ultimately have "(?k + 1) * 2 ^ 16 div 2 ^ 16 \<le> border (lttb_every n t) (b + 1)"
    using border_bounds(2)[OF sz b37(2)] by blast
  then show ?thesis by simp
qed

section \<open>One bucket\<close>

lemma scan_result:
  "snd (scan_bucket pts anchor avg st is) \<in> insert (snd st) ((\<lambda>i. min i (length pts - 2)) ` set is)"
proof (induction "is" arbitrary: st)
  case Nil
  then show ?case by (simp add: scan_bucket_def)
next
  case (Cons i "is")
  define st' where "st' = scan_bucket pts anchor avg st [i]"
  have "snd st' = snd st \<or> snd st' = min i (length pts - 2)"
    by (simp add: st'_def scan_bucket_def Let_def split_beta)
  moreover have "scan_bucket pts anchor avg st (i # is) = scan_bucket pts anchor avg st' is"
    by (simp add: st'_def scan_bucket_def)
  ultimately show ?case using Cons.IH[of st'] by auto
qed

lemma lttb_step_result:
  assumes sz: "lttb_sizes (length pts) t" and b: "b < t - 2" and sel: "selected < length pts"
  shows "\<exists>c. lttb_step pts (lttb_every (length pts) t) b selected = Some (c, pts ! c)
    \<and> border (lttb_every (length pts) t) b < c \<and> c \<le> border (lttb_every (length pts) t) (b + 1) \<and> c \<le> length pts - 2"
proof -
  let ?n = "length pts" and ?B = "border (lttb_every (length pts) t)"
  have t: "3 \<le> t" "t < ?n" using sz by (simp_all add: lttb_sizes_def)
  have s: "?B b < ?B (b + 1)" "?B (b + 1) < ?B (b + 1 + 1)" "?B (b + 1) \<le> ?n - 2"
    using border_step[OF sz, of b] border_step[OF sz, of "b + 1"] border_top[OF sz, of "b + 1"] b by simp_all
  have le: "min (?B (b + 1) + 1) ?n \<le> min (?B (b + 2) + 1) ?n"
    using s(2) by (intro min.mono) (simp_all add: numeral_2_eq_2)
  obtain w where w: "slice_range (min (?B (b + 1) + 1) ?n) (min (?B (b + 2) + 1) ?n) pts = Some w"
    using le unfolding slice_range_def by simp
  obtain fb where fb: "nth_opt pts (min (min (?B (b + 1) + 1) ?n - 1) (?n - 1)) = Some fb"
  proof -
    have "min (min (?B (b + 1) + 1) ?n - 1) (?n - 1) < ?n" using t by linarith
    then show ?thesis using that by (simp add: nth_opt_def)
  qed
  have an: "nth_opt pts selected = Some (pts ! selected)" using sel by (simp add: nth_opt_def)
  define avg where "avg = (if w = [] then fb else average_of w)"
  define c where "c = snd (scan_bucket pts (pts ! selected) avg (minus_one, ?B b + 1) (bucket_range (lttb_every ?n t) ?n b))"
  have step: "lttb_step pts (lttb_every ?n t) b selected = map_option (\<lambda>p. (c, p)) (nth_opt pts c)"
    unfolding lttb_step_def Let_def w fb an option.case prod.case avg_def[symmetric] c_def[symmetric] ..
  have "c \<in> insert (?B b + 1) ((\<lambda>i. min i (?n - 2)) ` set (bucket_range (lttb_every ?n t) ?n b))"
    unfolding c_def using scan_result[of pts "pts ! selected" avg "(minus_one, ?B b + 1)"] by simp
  moreover have "i \<in> set (bucket_range (lttb_every ?n t) ?n b) \<Longrightarrow> ?B b < i \<and> i \<le> ?B (b + 1) \<and> i \<le> ?n - 2" for i
    using s(1,3) t unfolding bucket_range_def Let_def by auto
  ultimately have c: "?B b < c" "c \<le> ?B (b + 1)" "c \<le> ?n - 2"
    using s(1,3) by auto
  then have "nth_opt pts c = Some (pts ! c)" using t by (simp add: nth_opt_def)
  with c step show ?thesis by simp
qed

lemma lttb_buckets_result:
  assumes sz: "lttb_sizes (length pts) t"
  shows "a \<le> t - 2 \<Longrightarrow> selected < length pts \<Longrightarrow> selected \<le> border (lttb_every (length pts) t) a
    \<Longrightarrow> \<exists>cs. lttb_buckets pts (lttb_every (length pts) t) [a..<t - 2] selected = Some (map ((!) pts) cs)
      \<and> length cs = t - 2 - a \<and> sorted_wrt (<) (selected # cs) \<and> (\<forall>c \<in> set cs. c \<le> length pts - 2)"
proof (induction "t - 2 - a" arbitrary: a selected)
  case 0
  then show ?case by (intro exI[of _ "[]"]) simp
next
  case (Suc k)
  then have a: "a < t - 2" "k = t - 2 - Suc a" by simp_all
  obtain c where c: "lttb_step pts (lttb_every (length pts) t) a selected = Some (c, pts ! c)"
    "border (lttb_every (length pts) t) a < c" "c \<le> border (lttb_every (length pts) t) (a + 1)" "c \<le> length pts - 2"
    using lttb_step_result[OF sz a(1) Suc.prems(2)] by blast
  have "c < length pts" using c(4) sz by (auto simp: lttb_sizes_def)
  with Suc.hyps(1)[OF a(2), of c] c(3) a(1) obtain cs where cs:
    "lttb_buckets pts (lttb_every (length pts) t) [Suc a..<t - 2] c = Some (map ((!) pts) cs)"
    "length cs = t - 2 - Suc a" "sorted_wrt (<) (c # cs)" "\<forall>c \<in> set cs. c \<le> length pts - 2"
    by auto
  then show ?case
    using a(1) c Suc.prems(3) by (intro exI[of _ "c # cs"]) (auto simp: upt_conv_Cons)
qed

section \<open>Result\<close>

lemma lttb_in_order:
  assumes "lttb_sizes (length pts) threshold"
  shows "\<exists>cs. lttb pts threshold = Some (map ((!) pts) cs) \<and> length cs = threshold
    \<and> sorted_wrt (<) cs \<and> hd cs = 0 \<and> last cs = length pts - 1"
proof -
  have t: "3 \<le> threshold" "threshold < length pts" using assms by (simp_all add: lttb_sizes_def)
  then have "0 < length pts" by linarith
  with lttb_buckets_result[OF assms, of 0 0] obtain cs where cs:
    "lttb_buckets pts (lttb_every (length pts) threshold) [0..<threshold - 2] 0 = Some (map ((!) pts) cs)"
    "length cs = threshold - 2" "sorted_wrt (<) (0 # cs)" "\<forall>c \<in> set cs. c \<le> length pts - 2"
    by auto
  have "pts \<noteq> []" using \<open>0 < length pts\<close> by simp
  then have "lttb pts threshold = Some (map ((!) pts) (0 # cs @ [length pts - 1]))"
    using t cs(1) by (simp add: lttb_def hd_conv_nth last_conv_nth)
  moreover have "sorted_wrt (<) (0 # cs @ [length pts - 1])"
    using cs(3,4) t by (auto simp: sorted_wrt_append)
  ultimately show ?thesis
    using cs(2) t by (intro exI[of _ "0 # cs @ [length pts - 1]"]) simp
qed

text \<open>C28: Down-sampling more than \<open>threshold\<close> points never panics and returns exactly \<open>threshold\<close> of them,
  at strictly increasing positions that start with the first point and end with the last, whatever
  the rounding of the bucket borders and even when areas overflow to NaN.\<close>

theorem lttb_selects_in_order:
  assumes "lttb_sizes (length pts) threshold"
  shows "\<exists>cs. lttb pts threshold = Some (map ((!) pts) cs) \<and> length cs = threshold
    \<and> sorted_wrt (<) cs \<and> hd cs = 0 \<and> last cs = length pts - 1"
  using assms by (rule lttb_in_order)

lemma lttb_selects_in_order_witness:
  "\<exists>cs. lttb (replicate 5 (f_zero, f_one)) 4 = Some (map ((!) (replicate 5 (f_zero, f_one))) cs) \<and> length cs = 4 \<and> last cs = 4"
  using lttb_selects_in_order[of "replicate 5 (f_zero, f_one)" 4] by (auto simp: lttb_sizes_def)

end
