(* ===== verification/Series.thy ===== *)
theory Series
  imports Lttb Store
begin

text \<open>
  Series selection and queries (\<open>core/src/management/series.rs\<close>): selectors with their order and
  keys, the catalog of an aircraft, and the query that extracts, filters, summarises and
  down-samples. \<open>eul\<close> is the Euler angles of a quaternion, \<open>Attitude::try_from\<close> and
  \<open>Attitude::euler\<close> over the nalgebra crate. The outer \<open>option\<close> is a panic.
\<close>

definition DEFAULT_MAX_POINTS :: nat where "DEFAULT_MAX_POINTS = 2000"
definition MIN_MAX_POINTS :: nat where "MIN_MAX_POINTS = 100"
definition MAX_MAX_POINTS :: nat where "MAX_MAX_POINTS = 20000"
definition MAX_SELECTIONS :: nat where "MAX_SELECTIONS = 64"

section \<open>Selectors\<close>

datatype PropulsorField = ThrottleRatio | Rpm | BladePitchRad | ThrustNewton | TorqueNewtonMeter

datatype SeriesSelector =
    Standard string
  | Propulsor string PropulsorField
  | Telemetry string string

text \<open>The derived order: by variant, then by the fields in turn.\<close>

definition field_rank :: "PropulsorField \<Rightarrow> nat" where
  "field_rank f = (case f of ThrottleRatio \<Rightarrow> 0 | Rpm \<Rightarrow> 1 | BladePitchRad \<Rightarrow> 2 | ThrustNewton \<Rightarrow> 3 | TorqueNewtonMeter \<Rightarrow> 4)"

definition selector_rank :: "SeriesSelector \<Rightarrow> nat \<times> string \<times> nat \<times> string" where
  "selector_rank s = (case s of Standard p \<Rightarrow> (0, p, 0, [])
     | Propulsor i f \<Rightarrow> (1, i, field_rank f, [])
     | Telemetry i f \<Rightarrow> (2, i, 0, f))"

lemma field_rank_inject: "field_rank f = field_rank g \<longleftrightarrow> f = g"
  by (cases f; cases g) (simp_all add: field_rank_def)

lemma selector_rank_inject: "selector_rank s = selector_rank t \<longleftrightarrow> s = t"
  by (cases s; cases t) (simp_all add: selector_rank_def field_rank_inject)

instantiation SeriesSelector :: linorder
begin

definition less_eq_SeriesSelector :: "SeriesSelector \<Rightarrow> SeriesSelector \<Rightarrow> bool" where
  "less_eq_SeriesSelector s t \<longleftrightarrow> selector_rank s \<le> selector_rank t"

definition less_SeriesSelector :: "SeriesSelector \<Rightarrow> SeriesSelector \<Rightarrow> bool" where
  "less_SeriesSelector s t \<longleftrightarrow> selector_rank s < selector_rank t"

instance
  by standard (auto simp: less_eq_SeriesSelector_def less_SeriesSelector_def less_le_not_le selector_rank_inject
      dest: order.trans antisym)

end

definition field_key :: "PropulsorField \<Rightarrow> string" where
  "field_key f = (case f of ThrottleRatio \<Rightarrow> ''throttle_ratio'' | Rpm \<Rightarrow> ''rpm'' | BladePitchRad \<Rightarrow> ''blade_pitch_rad''
     | ThrustNewton \<Rightarrow> ''thrust_newton'' | TorqueNewtonMeter \<Rightarrow> ''torque_newton_meter'')"

definition field_label :: "PropulsorField \<Rightarrow> string" where
  "field_label f = (case f of ThrottleRatio \<Rightarrow> ''Throttle'' | Rpm \<Rightarrow> ''RPM'' | BladePitchRad \<Rightarrow> ''Blade pitch''
     | ThrustNewton \<Rightarrow> ''Thrust'' | TorqueNewtonMeter \<Rightarrow> ''Torque'')"

definition field_unit :: "PropulsorField \<Rightarrow> string" where
  "field_unit f = (case f of ThrottleRatio \<Rightarrow> ''ratio'' | Rpm \<Rightarrow> ''rpm'' | BladePitchRad \<Rightarrow> ''rad''
     | ThrustNewton \<Rightarrow> ''N'' | TorqueNewtonMeter \<Rightarrow> ''N'' @ [CHR 0xC2] @ [CHR 0xB7] @ ''m'')"

definition selector_key :: "SeriesSelector \<Rightarrow> string" where
  "selector_key s = (case s of Standard path \<Rightarrow> ''standard:'' @ path
     | Propulsor propulsor_id f \<Rightarrow> ''propulsor:'' @ propulsor_id @ '':'' @ field_key f
     | Telemetry stream_id field_id \<Rightarrow> ''telemetry:'' @ stream_id @ '':'' @ field_id)"

section \<open>Values\<close>

definition standard_fields :: "(string \<times> string \<times> string \<times> string option) list" where
  "standard_fields =
    [(''position.x'', ''position'', ''Position X'', Some ''m''),
     (''position.y'', ''position'', ''Position Y'', Some ''m''),
     (''position.z'', ''position'', ''Position Z'', Some ''m''),
     (''velocity.x'', ''velocity'', ''Velocity X'', Some ''m/s''),
     (''velocity.y'', ''velocity'', ''Velocity Y'', Some ''m/s''),
     (''velocity.z'', ''velocity'', ''Velocity Z'', Some ''m/s''),
     (''attitude.w'', ''attitude'', ''Quaternion W'', None),
     (''attitude.x'', ''attitude'', ''Quaternion X'', None),
     (''attitude.y'', ''attitude'', ''Quaternion Y'', None),
     (''attitude.z'', ''attitude'', ''Quaternion Z'', None),
     (''attitude.roll'', ''attitude'', ''Roll'', Some ''rad''),
     (''attitude.pitch'', ''attitude'', ''Pitch'', Some ''rad''),
     (''attitude.yaw'', ''attitude'', ''Yaw'', Some ''rad''),
     (''angular_velocity.x'', ''angular_velocity'', ''Roll rate'', Some ''rad/s''),
     (''angular_velocity.y'', ''angular_velocity'', ''Pitch rate'', Some ''rad/s''),
     (''angular_velocity.z'', ''angular_velocity'', ''Yaw rate'', Some ''rad/s''),
     (''derived.lat'', ''derived'', ''Latitude'', Some ''deg''),
     (''derived.lon'', ''derived'', ''Longitude'', Some ''deg''),
     (''derived.altitude'', ''derived'', ''Altitude'', Some ''m''),
     (''derived.alpha'', ''derived'', ''Angle of attack'', Some ''rad''),
     (''derived.beta'', ''derived'', ''Sideslip angle'', Some ''rad''),
     (''derived.tas'', ''derived'', ''True airspeed'', Some ''m/s''),
     (''derived.eas'', ''derived'', ''Equivalent airspeed'', Some ''m/s''),
     (''derived.gamma'', ''derived'', ''Flight path angle'', Some ''rad''),
     (''derived.chi'', ''derived'', ''Track angle'', Some ''rad''),
     (''derived.ias'', ''derived'', ''Indicated airspeed'', Some ''m/s''),
     (''derived.cas'', ''derived'', ''Calibrated airspeed'', Some ''m/s''),
     (''derived.mach'', ''derived'', ''Mach'', None),
     (''derived.ground_speed'', ''derived'', ''Ground speed'', Some ''m/s''),
     (''derived.vertical_speed'', ''derived'', ''Vertical speed'', Some ''m/s''),
     (''derived.dynamic_pressure'', ''derived'', ''Dynamic pressure'', Some ''Pa''),
     (''derived.normal_load_factor'', ''derived'', ''Normal load factor'', Some ''g''),
     (''linear_acceleration_body.x'', ''acceleration'', ''Body acceleration X'', Some (''m/s'' @ [CHR 0xC2] @ [CHR 0xB2])),
     (''linear_acceleration_body.y'', ''acceleration'', ''Body acceleration Y'', Some (''m/s'' @ [CHR 0xC2] @ [CHR 0xB2])),
     (''linear_acceleration_body.z'', ''acceleration'', ''Body acceleration Z'', Some (''m/s'' @ [CHR 0xC2] @ [CHR 0xB2])),
     (''control_surfaces.aileron_left_rad'', ''control_surfaces'', ''Left aileron'', Some ''rad''),
     (''control_surfaces.aileron_right_rad'', ''control_surfaces'', ''Right aileron'', Some ''rad''),
     (''control_surfaces.elevator_rad'', ''control_surfaces'', ''Elevator'', Some ''rad''),
     (''control_surfaces.rudder_rad'', ''control_surfaces'', ''Rudder'', Some ''rad''),
     (''control_surfaces.flaps_left_ratio'', ''control_surfaces'', ''Left flaps'', Some ''ratio''),
     (''control_surfaces.flaps_right_ratio'', ''control_surfaces'', ''Right flaps'', Some ''ratio''),
     (''control_surfaces.spoilers_ratio'', ''control_surfaces'', ''Spoilers'', Some ''ratio'')]"

text \<open>The match on the path, one row per arm.\<close>

definition standard_values ::
  "(Quaternion \<Rightarrow> (f64 \<times> f64 \<times> f64) option) \<Rightarrow> AircraftState \<Rightarrow> (string \<times> f64 option) list" where
  "standard_values eul state =
    [(''position.x'', map_option v_x (a_position state)),
     (''position.y'', map_option v_y (a_position state)),
     (''position.z'', map_option v_z (a_position state)),
     (''velocity.x'', map_option v_x (a_velocity state)),
     (''velocity.y'', map_option v_y (a_velocity state)),
     (''velocity.z'', map_option v_z (a_velocity state)),
     (''attitude.w'', map_option q_w (a_attitude state)),
     (''attitude.x'', map_option q_x (a_attitude state)),
     (''attitude.y'', map_option q_y (a_attitude state)),
     (''attitude.z'', map_option q_z (a_attitude state)),
     (''attitude.roll'', map_option fst (Option.bind (a_attitude state) eul)),
     (''attitude.pitch'', map_option (\<lambda>e. fst (snd e)) (Option.bind (a_attitude state) eul)),
     (''attitude.yaw'', map_option (\<lambda>e. snd (snd e)) (Option.bind (a_attitude state) eul)),
     (''angular_velocity.x'', map_option v_x (a_angular_velocity state)),
     (''angular_velocity.y'', map_option v_y (a_angular_velocity state)),
     (''angular_velocity.z'', map_option v_z (a_angular_velocity state)),
     (''derived.lat'', map_option d_lat (a_derived state)),
     (''derived.lon'', map_option d_lon (a_derived state)),
     (''derived.altitude'', map_option d_altitude (a_derived state)),
     (''derived.alpha'', map_option d_alpha (a_derived state)),
     (''derived.beta'', map_option d_beta (a_derived state)),
     (''derived.tas'', map_option d_tas (a_derived state)),
     (''derived.eas'', map_option d_eas (a_derived state)),
     (''derived.gamma'', map_option d_gamma (a_derived state)),
     (''derived.chi'', map_option d_chi (a_derived state)),
     (''derived.ias'', Option.bind (a_derived state) d_ias),
     (''derived.cas'', Option.bind (a_derived state) d_cas),
     (''derived.mach'', Option.bind (a_derived state) d_mach),
     (''derived.ground_speed'', Option.bind (a_derived state) d_ground_speed),
     (''derived.vertical_speed'', Option.bind (a_derived state) d_vertical_speed),
     (''derived.dynamic_pressure'', Option.bind (a_derived state) d_dynamic_pressure),
     (''derived.normal_load_factor'', Option.bind (a_derived state) d_normal_load_factor),
     (''linear_acceleration_body.x'', map_option v_x (a_linear_acceleration_body state)),
     (''linear_acceleration_body.y'', map_option v_y (a_linear_acceleration_body state)),
     (''linear_acceleration_body.z'', map_option v_z (a_linear_acceleration_body state)),
     (''control_surfaces.aileron_left_rad'', Option.bind (a_control_surfaces state) c_aileron_left_rad),
     (''control_surfaces.aileron_right_rad'', Option.bind (a_control_surfaces state) c_aileron_right_rad),
     (''control_surfaces.elevator_rad'', Option.bind (a_control_surfaces state) c_elevator_rad),
     (''control_surfaces.rudder_rad'', Option.bind (a_control_surfaces state) c_rudder_rad),
     (''control_surfaces.flaps_left_ratio'', Option.bind (a_control_surfaces state) c_flaps_left_ratio),
     (''control_surfaces.flaps_right_ratio'', Option.bind (a_control_surfaces state) c_flaps_right_ratio),
     (''control_surfaces.spoilers_ratio'', Option.bind (a_control_surfaces state) c_spoilers_ratio)]"

definition standard_value :: "(Quaternion \<Rightarrow> (f64 \<times> f64 \<times> f64) option) \<Rightarrow> AircraftState \<Rightarrow> string \<Rightarrow> f64 option" where
  "standard_value eul state path = Option.bind (map_of (standard_values eul state) path) (\<lambda>v. v)"

definition propulsor_value :: "PropulsorState \<Rightarrow> PropulsorField \<Rightarrow> f64 option" where
  "propulsor_value p f = (case f of ThrottleRatio \<Rightarrow> p_throttle_ratio p | Rpm \<Rightarrow> p_rpm p
     | BladePitchRad \<Rightarrow> p_blade_pitch_rad p | ThrustNewton \<Rightarrow> p_thrust_newton p
     | TorqueNewtonMeter \<Rightarrow> p_torque_newton_meter p)"

definition extract_value ::
  "(Quaternion \<Rightarrow> (f64 \<times> f64 \<times> f64) option) \<Rightarrow> AircraftState \<Rightarrow> SeriesSelector \<Rightarrow> f64 option" where
  "extract_value eul state selector =
     (case selector of
        Standard path \<Rightarrow> standard_value eul state path
      | Propulsor propulsor_id f \<Rightarrow>
          Option.bind (find (\<lambda>p. p_propulsor_id p = propulsor_id) (rev (a_propulsors state))) (\<lambda>p. propulsor_value p f)
      | Telemetry _ _ \<Rightarrow> None)"

definition telemetry_numeric :: "TelemetryValue \<Rightarrow> f64 option" where
  "telemetry_numeric v = (case tv_kind v of None \<Rightarrow> None
     | Some (F64Value x) \<Rightarrow> Some x
     | Some (I64Value i) \<Rightarrow> Some (f_of_int i)
     | Some (BoolValue b) \<Rightarrow> Some (f_of_nat (if b then 1 else 0)))"

definition telemetry_field :: "TelemetryStreamSchema list \<Rightarrow> string \<Rightarrow> string \<Rightarrow> (TelemetryStreamSchema \<times> nat) option" where
  "telemetry_field schemas stream_id field_id =
     (case find (\<lambda>c. ts_stream_id c = stream_id) schemas of
        None \<Rightarrow> None
      | Some c \<Rightarrow>
          (let i = length (takeWhile (\<lambda>f. tf_field_id f \<noteq> field_id) (ts_fields c)) in
           if i < length (ts_fields c) then Some (c, i) else None))"

section \<open>Catalog\<close>

record SeriesCatalogItem =
  ct_selector :: SeriesSelector
  ct_group :: string
  ct_label :: string
  ct_unit :: "string option"

datatype SeriesError =
    SeriesAircraftNotFound string
  | InvalidSelectionCount
  | InvalidMaxPoints
  | InvalidTimeRange
  | UnknownStandardField string
  | UnknownTelemetryField string string

definition collect_state_selectors ::
  "(Quaternion \<Rightarrow> (f64 \<times> f64 \<times> f64) option) \<Rightarrow> AircraftState \<Rightarrow> SeriesSelector list" where
  "collect_state_selectors eul state =
     filter (\<lambda>s. extract_value eul state s \<noteq> None) (map (\<lambda>(path, _). Standard path) standard_fields)
     @ concat (map (\<lambda>p. map (Propulsor (p_propulsor_id p)) (filter (\<lambda>f. propulsor_value p f \<noteq> None)
          [ThrottleRatio, Rpm, BladePitchRad, ThrustNewton, TorqueNewtonMeter])) (a_propulsors state))"

definition schema_selectors :: "TelemetryStreamSchema list \<Rightarrow> SeriesSelector list" where
  "schema_selectors schemas = concat (map (\<lambda>c. map (\<lambda>f. Telemetry (ts_stream_id c) (tf_field_id f)) (ts_fields c)) schemas)"

text \<open>\<open>None\<close>: one of the two \<open>expect\<close>s of the catalog panics.\<close>

definition catalog_item :: "SeriesSelector \<Rightarrow> SeriesCatalogItem option" where
  "catalog_item selector =
     (case selector of
        Standard path \<Rightarrow>
          map_option (\<lambda>(_, grp, lbl, un). \<lparr>ct_selector = selector, ct_group = grp, ct_label = lbl, ct_unit = un\<rparr>)
            (find (\<lambda>(candidate, _). candidate = path) standard_fields)
      | Propulsor propulsor_id f \<Rightarrow>
          Some \<lparr>ct_selector = selector, ct_group = ''propulsors'', ct_label = propulsor_id @ '' '' @ field_label f,
                ct_unit = Some (field_unit f)\<rparr>
      | Telemetry stream_id field_id \<Rightarrow>
          Some \<lparr>ct_selector = selector, ct_group = stream_id, ct_label = field_id, ct_unit = None\<rparr>)"

definition telemetry_item :: "TelemetryStreamSchema list \<Rightarrow> string \<Rightarrow> string \<Rightarrow> SeriesCatalogItem option" where
  "telemetry_item schemas stream_id field_id =
     map_option (\<lambda>(c, index). let f = ts_fields c ! index in
        \<lparr>ct_selector = Telemetry stream_id field_id,
         ct_group = (if tf_group f = [] then ts_name c else tf_group f),
         ct_label = (if tf_label f = [] then tf_field_id f else tf_label f),
         ct_unit = (if tf_unit f \<noteq> [] then Some (tf_unit f) else None)\<rparr>)
       (telemetry_field schemas stream_id field_id)"

definition catalog ::
  "(Quaternion \<Rightarrow> (f64 \<times> f64 \<times> f64) option) \<Rightarrow> TimeSeriesStore \<Rightarrow> string \<Rightarrow> (SeriesError + SeriesCatalogItem list) option" where
  "catalog eul s aid =
     (case visit_states_range aid f_neg_infinity f_infinity
             (\<lambda>samples. concat (map (\<lambda>x. collect_state_selectors eul (st_state x)) samples)) s of
        None \<Rightarrow> None
      | Some None \<Rightarrow> Some (Inl (SeriesAircraftNotFound aid))
      | Some (Some found) \<Rightarrow>
          (let schemas = (case get_telemetry_schemas aid s of None \<Rightarrow> [] | Some cs \<Rightarrow> cs);
               selectors = sort (remdups (found @ schema_selectors schemas))
           in map_option Inr (those (map (\<lambda>selector.
                (case selector of Telemetry stream_id field_id \<Rightarrow> telemetry_item schemas stream_id field_id
                 | _ \<Rightarrow> catalog_item selector)) selectors))))"

section \<open>Query\<close>

record SeriesSelection =
  sl_aircraft_id :: string
  sl_selector :: SeriesSelector

record SeriesQueryRequest =
  sq_selections :: "SeriesSelection list"
  sq_time_range :: "(f64 \<times> f64) option"
  sq_max_points :: "nat option"

record SeriesStats =
  ss_min :: f64
  ss_max :: f64
  ss_last :: f64
  ss_start :: f64
  ss_end :: f64

record SeriesData =
  sd_key :: string
  sd_aircraft_id :: string
  sd_selector :: SeriesSelector
  sd_points :: "point list"
  sd_total_points :: nat
  sd_returned_points :: nat
  sd_stats :: "SeriesStats option"

definition series_stats :: "point list \<Rightarrow> SeriesStats option" where
  "series_stats pts =
     (case (first_opt pts, last_opt pts) of
        (Some head_point, Some final) \<Rightarrow>
          (let (lo, hi) = foldl (\<lambda>(lo, hi) p. (fmin lo (snd p), fmax hi (snd p))) (f_infinity, f_neg_infinity) pts
           in Some \<lparr>ss_min = lo, ss_max = hi, ss_last = snd final, ss_start = fst head_point, ss_end = fst final\<rparr>)
      | _ \<Rightarrow> None)"

definition validate_selector :: "SeriesSelector \<Rightarrow> SeriesError option" where
  "validate_selector selector =
     (case selector of
        Standard path \<Rightarrow>
          if \<exists>e \<in> set standard_fields. fst e = path then None else Some (UnknownStandardField path)
      | _ \<Rightarrow> None)"

definition finite_point :: "f64 \<Rightarrow> f64 option \<Rightarrow> point option" where
  "finite_point t v = (case v of None \<Rightarrow> None | Some x \<Rightarrow> if is_finite t \<and> is_finite x then Some (t, x) else None)"

definition state_points ::
  "(Quaternion \<Rightarrow> (f64 \<times> f64 \<times> f64) option) \<Rightarrow> SeriesSelector \<Rightarrow> TimestampedState list \<Rightarrow> point list" where
  "state_points eul selector samples =
     List.map_filter (\<lambda>x. finite_point (st_time x) (extract_value eul (st_state x) selector)) samples"

definition frame_points :: "TelemetryStreamSchema list \<Rightarrow> SeriesSelector \<Rightarrow> TimestampedTelemetryFrame list \<Rightarrow> point list" where
  "frame_points schemas selector frames =
     (case selector of
        Telemetry stream_id field_id \<Rightarrow>
          (case telemetry_field schemas stream_id field_id of
             None \<Rightarrow> []
           | Some (c, index) \<Rightarrow>
               List.map_filter (\<lambda>x. if fr_stream_id (tl_frame x) \<noteq> ts_stream_id c then None
                 else finite_point (tl_time x) (Option.bind (nth_opt (fr_values (tl_frame x)) index) telemetry_numeric)) frames)
      | _ \<Rightarrow> [])"

definition missing_field :: "TelemetryStreamSchema list \<Rightarrow> SeriesSelector \<Rightarrow> SeriesError option" where
  "missing_field schemas selector =
     (case selector of
        Telemetry stream_id field_id \<Rightarrow>
          if telemetry_field schemas stream_id field_id = None then Some (UnknownTelemetryField stream_id field_id) else None
      | _ \<Rightarrow> None)"

definition series_data :: "nat \<Rightarrow> string \<Rightarrow> SeriesSelector \<Rightarrow> point list \<Rightarrow> SeriesData option" where
  "series_data max_points aid selector full =
     map_option (\<lambda>sampled. \<lparr>sd_key = aid @ ''::'' @ selector_key selector, sd_aircraft_id = aid, sd_selector = selector,
         sd_points = sampled, sd_total_points = length full, sd_returned_points = length sampled,
         sd_stats = series_stats full\<rparr>) (lttb full max_points)"

text \<open>One aircraft's group of selections, with their positions in the request.\<close>

definition query_aircraft ::
  "(Quaternion \<Rightarrow> (f64 \<times> f64 \<times> f64) option) \<Rightarrow> TimeSeriesStore \<Rightarrow> f64 \<Rightarrow> f64 \<Rightarrow> nat \<Rightarrow> string \<Rightarrow> (nat \<times> SeriesSelector) list
   \<Rightarrow> (SeriesError + (nat \<times> SeriesData) list) option" where
  "query_aircraft eul s start end max_points aid selections =
     (case visit_states_range aid start end (\<lambda>xs. map (\<lambda>(_, selector). state_points eul selector xs) selections) s of
        None \<Rightarrow> None
      | Some None \<Rightarrow> Some (Inl (SeriesAircraftNotFound aid))
      | Some (Some from_states) \<Rightarrow>
          (case get_telemetry_schemas aid s of
             None \<Rightarrow> Some (Inl (SeriesAircraftNotFound aid))
           | Some schemas \<Rightarrow>
               (case find_map (\<lambda>(_, selector). missing_field schemas selector) selections of
                  Some e \<Rightarrow> Some (Inl e)
                | None \<Rightarrow>
                    (case visit_telemetry_range aid start end
                            (\<lambda>xs. map (\<lambda>(_, selector). frame_points schemas selector xs) selections) s of
                       None \<Rightarrow> None
                     | Some from_frames \<Rightarrow>
                         (let frames = (case from_frames of None \<Rightarrow> map (\<lambda>_. []) selections | Some ps \<Rightarrow> ps);
                              full = map2 (@) from_states frames
                          in map_option Inr (those (map2 (\<lambda>(output_index, selector) pts.
                               map_option (Pair output_index) (series_data max_points aid selector pts)) selections full)))))))"

fun query_groups ::
  "(Quaternion \<Rightarrow> (f64 \<times> f64 \<times> f64) option) \<Rightarrow> TimeSeriesStore \<Rightarrow> f64 \<Rightarrow> f64 \<Rightarrow> nat \<Rightarrow> (nat \<times> SeriesSelection) list \<Rightarrow> string list
   \<Rightarrow> (SeriesError + (nat \<times> SeriesData) list) option" where
  "query_groups eul s start end max_points indexed [] = Some (Inr [])"
| "query_groups eul s start end max_points indexed (aid # aids) =
     (case query_aircraft eul s start end max_points aid
             (map (\<lambda>(i, x). (i, sl_selector x)) (filter (\<lambda>(_, x). sl_aircraft_id x = aid) indexed)) of
        None \<Rightarrow> None
      | Some (Inl e) \<Rightarrow> Some (Inl e)
      | Some (Inr out) \<Rightarrow>
          map_option (map_sum id (\<lambda>rest. out @ rest)) (query_groups eul s start end max_points indexed aids))"

definition series_query ::
  "(Quaternion \<Rightarrow> (f64 \<times> f64 \<times> f64) option) \<Rightarrow> TimeSeriesStore \<Rightarrow> SeriesQueryRequest \<Rightarrow> (SeriesError + SeriesData list) option" where
  "series_query eul s req =
     (let selections = sq_selections req;
          max_points = (case sq_max_points req of None \<Rightarrow> DEFAULT_MAX_POINTS | Some n \<Rightarrow> n);
          (start, end) = (case sq_time_range req of None \<Rightarrow> (f_neg_infinity, f_infinity) | Some r \<Rightarrow> r)
      in if selections = [] \<or> MAX_SELECTIONS < length selections then Some (Inl InvalidSelectionCount)
         else if max_points < MIN_MAX_POINTS \<or> MAX_MAX_POINTS < max_points then Some (Inl InvalidMaxPoints)
         else if is_nan start \<or> is_nan end \<or> flt end start then Some (Inl InvalidTimeRange)
         else case find_map (\<lambda>x. validate_selector (sl_selector x)) selections of
             Some e \<Rightarrow> Some (Inl e)
           | None \<Rightarrow>
               map_option (map_sum id (\<lambda>out. List.map_filter (map_of out) [0..<length selections]))
                 (query_groups eul s start end max_points (List.enumerate 0 selections)
                    (sort (remdups (map sl_aircraft_id selections)))))"

end
