(* ===== verification/Series_Properties.thy ===== *)
theory Series_Properties
  imports Series Store_Properties
begin

text \<open>
  Series queries: the catalog of an aircraft never panics and lists in order what its states and
  schemas offer; a valid query answers every selection, in request order, with the points of its
  window, their statistics and an ordered sample of at most \<open>max_points\<close> of them.
\<close>

section \<open>Catalog\<close>

lemma whole_window:
  assumes "store_inv s" "lookup s aid = Some x"
  shows "window st_time f_neg_infinity f_infinity (states x) = Some (states x)"
proof -
  have "fle f_neg_infinity f_infinity" by simp
  from store_window(1)[OF assms this]
  have "window st_time f_neg_infinity f_infinity (states x) = Some (window_filter st_time f_neg_infinity f_infinity (states x))" .
  moreover have "is_finite (st_time y)" if "y \<in> set (states x)" for y
    using series_times_finite[OF store_inv_series_ok[OF assms], of "st_time y"] that by (auto simp: series_times_def)
  then have "window_filter st_time f_neg_infinity f_infinity (states x) = states x"
    by (auto simp: window_filter_def intro!: filter_True)
  ultimately show ?thesis by simp
qed

lemma find_Some_iff_mem: "find P xs \<noteq> None \<longleftrightarrow> (\<exists>x \<in> set xs. P x)"
  by (induction xs) auto

lemma length_takeWhile_found: "\<exists>x \<in> set xs. \<not> P x \<Longrightarrow> length (takeWhile P xs) < length xs"
  by (induction xs) auto

lemma telemetry_field_schema:
  assumes "Telemetry a b \<in> set (schema_selectors schemas)" "distinct (map ts_stream_id schemas)"
  shows "telemetry_field schemas a b \<noteq> None"
proof -
  obtain c f where c: "c \<in> set schemas" "f \<in> set (ts_fields c)" "a = ts_stream_id c" "b = tf_field_id f"
    using assms(1) by (auto simp: schema_selectors_def)
  have "find (\<lambda>c'. ts_stream_id c' = a) schemas = Some c"
    using c(1,3) assms(2) by (induction schemas) auto
  moreover have "length (takeWhile (\<lambda>f. tf_field_id f \<noteq> b) (ts_fields c)) < length (ts_fields c)"
    using c(2,4) by (intro length_takeWhile_found) auto
  ultimately show ?thesis by (simp add: telemetry_field_def Let_def)
qed

lemma catalog_item_selector: "catalog_item sel = Some it \<Longrightarrow> ct_selector it = sel"
  by (auto simp: catalog_item_def split: SeriesSelector.splits)

lemma catalog_item_known:
  assumes "sel \<in> set (collect_state_selectors eul st)"
  shows "(case sel of Telemetry a b \<Rightarrow> False | _ \<Rightarrow> catalog_item sel \<noteq> None)"
proof -
  have "find (\<lambda>(candidate, _). candidate = fst e) standard_fields \<noteq> None" if "e \<in> set standard_fields" for e
    unfolding find_Some_iff_mem using that by (intro bexI[of _ e]) (auto simp: split_beta)
  then show ?thesis
    using assms by (fastforce simp: collect_state_selectors_def catalog_item_def split: SeriesSelector.splits)
qed

lemma those_map: "\<forall>x \<in> set xs. f x \<noteq> None \<Longrightarrow> those (map f xs) = Some (map (\<lambda>x. the (f x)) xs)"
  by (induction xs) auto

definition available :: "(Quaternion \<Rightarrow> (f64 \<times> f64 \<times> f64) option) \<Rightarrow> AircraftTimeSeries \<Rightarrow> SeriesSelector set" where
  "available eul x = (\<Union>y \<in> set (states x). set (collect_state_selectors eul (st_state y))) \<union> set (schema_selectors (schemas_of x))"

text \<open>The catalog of an aircraft whose schemas have distinct stream identifiers never panics: it has
  exactly one item for each selector that some stored state or registered schema offers, in the order
  of the selectors.\<close>

theorem catalog_lists_available:
  assumes inv: "store_inv s" and x: "lookup s aid = Some x" and ids: "distinct (map ts_stream_id (schemas_of x))"
  shows "\<exists>items. catalog eul s aid = Some (Inr items) \<and> map ct_selector items = sorted_list_of_set (available eul x)"
proof -
  define sels where "sels = sort (remdups (concat (map (\<lambda>y. collect_state_selectors eul (st_state y)) (states x))
      @ schema_selectors (schemas_of x)))"
  let ?item = "\<lambda>selector. case selector of Telemetry a b \<Rightarrow> telemetry_item (schemas_of x) a b | _ \<Rightarrow> catalog_item selector"
  have set_sels: "set sels = available eul x" by (simp add: sels_def available_def)
  have item: "?item sel \<noteq> None \<and> ct_selector (the (?item sel)) = sel" if "sel \<in> set sels" for sel
  proof (cases sel)
    case (Telemetry a b)
    have "Telemetry a b \<in> set (schema_selectors (schemas_of x))"
      using that catalog_item_known[of sel eul] unfolding set_sels available_def Telemetry by auto
    then obtain c i where "telemetry_field (schemas_of x) a b = Some (c, i)"
      using telemetry_field_schema[OF _ ids] by fastforce
    then show ?thesis by (simp add: Telemetry telemetry_item_def Let_def)
  next
    case (Standard p)
    have "catalog_item sel \<noteq> None"
      using that catalog_item_known[of sel eul] unfolding set_sels available_def Standard
      by (auto simp: schema_selectors_def)
    then show ?thesis using catalog_item_selector[of sel] by (auto simp: Standard)
  next
    case (Propulsor p f)
    then show ?thesis by (simp add: catalog_item_def)
  qed
  have "catalog eul s aid = map_option Inr (those (map ?item sels))"
    by (simp add: catalog_def visit_states_range_def x whole_window[OF inv x] get_telemetry_schemas_def sels_def o_def Let_def)
  also have "\<dots> = Some (Inr (map (\<lambda>sel. the (?item sel)) sels))"
    using item by (subst those_map) auto
  finally have "catalog eul s aid = Some (Inr (map (\<lambda>sel. the (?item sel)) sels))" .
  moreover have "map ct_selector (map (\<lambda>sel. the (?item sel)) sels) = sels"
    using item by (auto intro!: map_idI)
  moreover have "sels = sorted_list_of_set (available eul x)"
    unfolding set_sels[symmetric]
    by (rule sorted_list_of_set.idem_if_sorted_distinct[symmetric]) (simp_all add: sels_def)
  ultimately show ?thesis by auto
qed

lemma catalog_lists_available_witness:
  "\<exists>items. catalog (\<lambda>_. None) demo_store ''07'' = Some (Inr items) \<and> map ct_selector items = [Telemetry ''eng'' ''rpm'']"
proof -
  obtain x where x: "lookup demo_store ''07'' = Some x" "schemas_of x = [demo_schema]" "map st_state (states x) = [empty_state, empty_state]"
    by (simp add: demo_lookup schemas_of_def config_of_spawn_def demo_spawn_def)
  have "collect_state_selectors (\<lambda>_. None) empty_state = []"
    by (simp add: collect_state_selectors_def filter_empty_conv extract_value_def standard_value_def standard_values_def
        empty_state_def split: SeriesSelector.split)
  moreover have "st_state y = empty_state" if "y \<in> set (states x)" for y
    using x(3) that by (metis (no_types) imageI list.set_map set_ConsD empty_iff list.set(1))
  ultimately have "available (\<lambda>_. None) x = {Telemetry ''eng'' ''rpm''}"
    by (auto simp: available_def x(2) schema_selectors_def demo_schema_def)
  then show ?thesis
    using catalog_lists_available[OF demo_inv x(1), of "\<lambda>_. None"] x(2) by simp
qed

section \<open>Query\<close>

text \<open>The points of a selection in a window, read off the logs by linear filters.\<close>

definition raw_points ::
  "(Quaternion \<Rightarrow> (f64 \<times> f64 \<times> f64) option) \<Rightarrow> AircraftTimeSeries \<Rightarrow> f64 \<Rightarrow> f64 \<Rightarrow> SeriesSelector \<Rightarrow> point list" where
  "raw_points eul x start end selector =
     state_points eul selector (window_filter st_time start end (states x))
     @ frame_points (schemas_of x) selector (window_filter tl_time start end (telemetry x))"

definition answer ::
  "(Quaternion \<Rightarrow> (f64 \<times> f64 \<times> f64) option) \<Rightarrow> TimeSeriesStore \<Rightarrow> f64 \<Rightarrow> f64 \<Rightarrow> nat \<Rightarrow> SeriesSelection \<Rightarrow> SeriesData" where
  "answer eul s start end max_points sel =
     the (series_data max_points (sl_aircraft_id sel) (sl_selector sel)
       (raw_points eul (the (lookup s (sl_aircraft_id sel))) start end (sl_selector sel)))"

text \<open>What a selection needs: a known aircraft, a known field, and a window of a practical size.\<close>

definition answerable ::
  "(Quaternion \<Rightarrow> (f64 \<times> f64 \<times> f64) option) \<Rightarrow> TimeSeriesStore \<Rightarrow> f64 \<Rightarrow> f64 \<Rightarrow> SeriesSelection \<Rightarrow> bool" where
  "answerable eul s start end sel \<longleftrightarrow>
     (case lookup s (sl_aircraft_id sel) of None \<Rightarrow> False
      | Some x \<Rightarrow> missing_field (schemas_of x) (sl_selector sel) = None \<and> validate_selector (sl_selector sel) = None
          \<and> length (raw_points eul x start end (sl_selector sel)) \<le> 2 ^ 36)"

definition points_ok :: "nat \<Rightarrow> bool" where
  "points_ok n \<longleftrightarrow> MIN_MAX_POINTS \<le> n \<and> n \<le> MAX_MAX_POINTS"

lemma lttb_sample:
  assumes "points_ok n" "length pts \<le> 2 ^ 36"
  shows "\<exists>cs. lttb pts n = Some (map ((!) pts) cs) \<and> length cs = min (length pts) n \<and> sorted_wrt (<) cs
    \<and> (\<forall>c \<in> set cs. c < length pts)"
proof (cases "length pts \<le> n")
  case True
  then have "lttb pts n = Some (map ((!) pts) [0..<length pts])" by (simp add: lttb_def map_nth)
  with True show ?thesis by (intro exI[of _ "[0..<length pts]"]) (simp add: strict_sorted_iff)
next
  case False
  then have "lttb_sizes (length pts) n"
    using assms by (simp add: lttb_sizes_def points_ok_def MIN_MAX_POINTS_def MAX_MAX_POINTS_def)
  from lttb_in_order[OF this] obtain cs where cs: "lttb pts n = Some (map ((!) pts) cs)" "length cs = n"
    "sorted_wrt (<) cs" "hd cs = 0" "last cs = length pts - 1" by blast
  have le: "c \<le> last cs" if "c \<in> set cs" for c
  proof -
    have ne: "cs \<noteq> []" using that by auto
    then have "sorted_wrt (<) (butlast cs @ [last cs])" using cs(3) by simp
    moreover have "c \<in> set (butlast cs @ [last cs])" using that ne by simp
    ultimately show ?thesis by (auto simp: sorted_wrt_append)
  qed
  have "c < length pts" if "c \<in> set cs" for c using le[OF that] cs(5) False by linarith
  then show ?thesis using cs(1-3) False by (intro exI[of _ cs]) (simp add: min_def)
qed

lemma series_data_defined:
  "points_ok n \<Longrightarrow> length pts \<le> 2 ^ 36 \<Longrightarrow> series_data n aid sel pts \<noteq> None"
  using lttb_sample[of n pts] by (auto simp: series_data_def)

lemma answerable_unfold:
  assumes "answerable eul s start end sel"
  obtains x where "lookup s (sl_aircraft_id sel) = Some x" "missing_field (schemas_of x) (sl_selector sel) = None"
    "validate_selector (sl_selector sel) = None" "length (raw_points eul x start end (sl_selector sel)) \<le> 2 ^ 36"
  using assms by (auto simp: answerable_def split: option.splits)

lemma query_aircraft_answers:
  assumes inv: "store_inv s" and le: "fle start end" and n: "points_ok n"
    and sels: "\<forall>(i, sel) \<in> set xs. sl_aircraft_id sel = aid \<and> answerable eul s start end sel" and ne: "xs \<noteq> []"
  shows "query_aircraft eul s start end n aid (map (\<lambda>(i, sel). (i, sl_selector sel)) xs)
    = Some (Inr (map (\<lambda>(i, sel). (i, answer eul s start end n sel)) xs))"
proof -
  obtain j sel0 where "(j, sel0) \<in> set xs" using ne by (cases xs) auto
  then have "sl_aircraft_id sel0 = aid" "answerable eul s start end sel0" using sels by auto
  then obtain x where x: "lookup s aid = Some x" by (auto elim: answerable_unfold)
  let ?ys = "map (\<lambda>(i, sel). (i, sl_selector sel)) xs"
  let ?from = "map (\<lambda>(_, selector). state_points eul selector (window_filter st_time start end (states x))) ?ys"
  let ?frames = "map (\<lambda>(_, selector). frame_points (schemas_of x) selector (window_filter tl_time start end (telemetry x))) ?ys"
  have ok: "missing_field (schemas_of x) (sl_selector sel) = None
      \<and> series_data n aid (sl_selector sel) (raw_points eul x start end (sl_selector sel)) = Some (answer eul s start end n sel)"
    if "(i, sel) \<in> set xs" for i sel
  proof -
    have a: "sl_aircraft_id sel = aid" "answerable eul s start end sel" using sels that by auto
    then have m: "missing_field (schemas_of x) (sl_selector sel) = None" "length (raw_points eul x start end (sl_selector sel)) \<le> 2 ^ 36"
      using x by (auto simp: answerable_def)
    then show ?thesis using series_data_defined[OF n m(2)] x a by (simp add: answer_def)
  qed
  have "find_map (\<lambda>(_, selector). missing_field (schemas_of x) selector) ?ys = None"
    using ok by (auto simp: find_map_None)
  moreover have "map2 (\<lambda>(output_index, selector) pts. map_option (Pair output_index) (series_data n aid selector pts)) ?ys
      (map2 (@) ?from ?frames) = map (\<lambda>(i, sel). Some (i, answer eul s start end n sel)) xs"
  proof (rule nth_equalityI)
    fix k assume "k < length (map2 (\<lambda>(output_index, selector) pts. map_option (Pair output_index) (series_data n aid selector pts)) ?ys
      (map2 (@) ?from ?frames))"
    then have k: "k < length xs" by simp
    obtain i sel where e: "xs ! k = (i, sel)" by (cases "xs ! k")
    with k have "(i, sel) \<in> set xs" by (metis nth_mem)
    from ok[OF this] k e show "map2 (\<lambda>(output_index, selector) pts. map_option (Pair output_index) (series_data n aid selector pts)) ?ys
      (map2 (@) ?from ?frames) ! k = map (\<lambda>(i, sel). Some (i, answer eul s start end n sel)) xs ! k"
      by (simp add: raw_points_def)
  qed simp
  moreover have "those (map (\<lambda>(i, sel). Some (i, answer eul s start end n sel)) xs)
      = Some (map (\<lambda>(i, sel). (i, answer eul s start end n sel)) xs)"
    by (induction xs) auto
  ultimately show ?thesis
    by (simp add: query_aircraft_def visit_states_range_def visit_telemetry_range_def x store_window[OF inv x le]
        get_telemetry_schemas_def Let_def)
qed

lemma query_groups_answers:
  assumes inv: "store_inv s" and le: "fle start end" and n: "points_ok n"
    and all: "\<forall>(i, sel) \<in> set indexed. answerable eul s start end sel"
    and used: "set aids \<subseteq> (sl_aircraft_id \<circ> snd) ` set indexed"
  shows "query_groups eul s start end n indexed aids
    = Some (Inr (concat (map (\<lambda>aid. map (\<lambda>(i, sel). (i, answer eul s start end n sel))
        (filter (\<lambda>(_, sel). sl_aircraft_id sel = aid) indexed)) aids)))"
  using used
proof (induction aids)
  case (Cons aid aids)
  let ?xs = "filter (\<lambda>(_, sel). sl_aircraft_id sel = aid) indexed"
  have sels: "\<forall>(i, sel) \<in> set ?xs. sl_aircraft_id sel = aid \<and> answerable eul s start end sel" using all by auto
  have ne: "?xs \<noteq> []" using Cons.prems by (force simp: filter_empty_conv)
  show ?case
    using query_aircraft_answers[OF inv le n sels ne] Cons by (simp add: case_prod_beta')
qed simp

lemma map_of_answers:
  assumes "i < length sels" "\<And>j d. (j, d) \<in> set out \<longleftrightarrow> j < length sels \<and> d = f (sels ! j)"
  shows "map_of out i = Some (f (sels ! i))"
proof -
  have "(i, f (sels ! i)) \<in> set out" using assms by simp
  then have "map_of out i \<noteq> None" by (metis map_of_eq_None_iff fst_conv image_eqI)
  then obtain d where d: "map_of out i = Some d" by blast
  from map_of_SomeD[OF d] assms(2) d show ?thesis by simp
qed

lemma map_filter_all: "\<forall>x \<in> set xs. f x = Some (g x) \<Longrightarrow> List.map_filter f xs = map g xs"
  by (induction xs) (auto simp: map_filter_simps)

lemma in_concat_map: "x \<in> set (f a) \<Longrightarrow> a \<in> set ids \<Longrightarrow> x \<in> set (concat (map f ids))"
  by auto

text \<open>C29: A valid request over known aircraft and fields is answered selection by selection, in the order
  of the request: the counts are the points of the window, the statistics are those of all of them, and
  the points returned are at most \<open>max_points\<close> of them, in their order. No store in its invariant makes
  the query panic.\<close>

theorem query_answers_selections:
  assumes inv: "store_inv s" and count: "sq_selections req \<noteq> []" "length (sq_selections req) \<le> MAX_SELECTIONS"
    and range: "(case sq_time_range req of None \<Rightarrow> (f_neg_infinity, f_infinity) | Some r \<Rightarrow> r) = (start, end)" "fle start end"
    and n: "(case sq_max_points req of None \<Rightarrow> DEFAULT_MAX_POINTS | Some n \<Rightarrow> n) = n" "points_ok n"
    and all: "list_all (answerable eul s start end) (sq_selections req)"
  shows "\<exists>out. series_query eul s req = Some (Inr out) \<and>
    list_all2 (\<lambda>sel d. sd_aircraft_id d = sl_aircraft_id sel \<and> sd_selector d = sl_selector sel
      \<and> (let raw = raw_points eul (the (lookup s (sl_aircraft_id sel))) start end (sl_selector sel) in
          sd_total_points d = length raw \<and> sd_returned_points d = min (length raw) n \<and> sd_stats d = series_stats raw
          \<and> (\<exists>cs. sd_points d = map ((!) raw) cs \<and> length cs = min (length raw) n \<and> sorted_wrt (<) cs
              \<and> list_all (\<lambda>c. c < length raw) cs))) (sq_selections req) out"
proof -
  let ?sels = "sq_selections req" and ?ans = "answer eul s start end n"
  let ?ix = "List.enumerate 0 ?sels" and ?ids = "sort (remdups (map sl_aircraft_id ?sels))"
  have ix: "(j, sel) \<in> set ?ix \<longleftrightarrow> j < length ?sels \<and> sel = ?sels ! j" for j sel
    by (auto simp: in_set_enumerate_eq)
  have ok: "\<forall>(i, sel) \<in> set ?ix. answerable eul s start end sel"
    using all by (auto simp: ix list_all_iff)
  have used: "set ?ids \<subseteq> (sl_aircraft_id \<circ> snd) ` set ?ix"
  proof
    fix a assume "a \<in> set ?ids"
    then obtain j where "j < length ?sels" "a = sl_aircraft_id (?sels ! j)" by (auto simp: in_set_conv_nth)
    then show "a \<in> (sl_aircraft_id \<circ> snd) ` set ?ix" by (intro image_eqI[of _ _ "(j, ?sels ! j)"]) (simp_all add: ix)
  qed
  note groups = query_groups_answers[OF inv range(2) n(2) ok used]
  define out where "out = concat (map (\<lambda>aid. map (\<lambda>(i, sel). (i, ?ans sel)) (filter (\<lambda>(_, sel). sl_aircraft_id sel = aid) ?ix)) ?ids)"
  have mem: "(j, d) \<in> set out \<longleftrightarrow> j < length ?sels \<and> d = ?ans (?sels ! j)" for j d
  proof
    assume "(j, d) \<in> set out"
    then show "j < length ?sels \<and> d = ?ans (?sels ! j)" by (auto simp: out_def ix)
  next
    assume j: "j < length ?sels \<and> d = ?ans (?sels ! j)"
    then have "(j, ?sels ! j) \<in> set (filter (\<lambda>(_, sel). sl_aircraft_id sel = sl_aircraft_id (?sels ! j)) ?ix)"
      by (simp add: ix)
    then have "(j, d) \<in> set (map (\<lambda>(i, sel). (i, ?ans sel)) (filter (\<lambda>(_, sel). sl_aircraft_id sel = sl_aircraft_id (?sels ! j)) ?ix))"
      using j by (force simp: image_iff)
    moreover have "sl_aircraft_id (?sels ! j) \<in> set ?ids" using j by simp
    ultimately show "(j, d) \<in> set out" unfolding out_def by (rule in_concat_map)
  qed
  have "map_of out i = Some (?ans (?sels ! i))" if "i < length ?sels" for i
    by (rule map_of_answers[OF that mem])
  then have "List.map_filter (map_of out) [0..<length ?sels] = map (\<lambda>i. ?ans (?sels ! i)) [0..<length ?sels]"
    by (intro map_filter_all) simp
  also have "\<dots> = map ?ans ?sels" by (rule nth_equalityI) simp_all
  finally have result: "List.map_filter (map_of out) [0..<length ?sels] = map ?ans ?sels" .
  have "find_map (\<lambda>x. validate_selector (sl_selector x)) ?sels = None"
    using all by (auto simp: find_map_None list_all_iff answerable_def split: option.splits)
  moreover have "\<not> is_nan start" "\<not> is_nan end" "\<not> flt end start" using range(2) by (auto simp: float_cmp)
  ultimately have query: "series_query eul s req = Some (Inr (map ?ans ?sels))"
    using count n range(1) groups result
    by (simp add: series_query_def points_ok_def not_less out_def[symmetric])
  have each: "sd_aircraft_id (?ans sel) = sl_aircraft_id sel \<and> sd_selector (?ans sel) = sl_selector sel
      \<and> (let raw = raw_points eul (the (lookup s (sl_aircraft_id sel))) start end (sl_selector sel) in
          sd_total_points (?ans sel) = length raw \<and> sd_returned_points (?ans sel) = min (length raw) n
          \<and> sd_stats (?ans sel) = series_stats raw
          \<and> (\<exists>cs. sd_points (?ans sel) = map ((!) raw) cs \<and> length cs = min (length raw) n \<and> sorted_wrt (<) cs
              \<and> list_all (\<lambda>c. c < length raw) cs))" if member: "sel \<in> set ?sels" for sel
  proof -
    have "answerable eul s start end sel" using all member by (simp add: list_all_iff)
    then obtain x where x: "lookup s (sl_aircraft_id sel) = Some x" "length (raw_points eul x start end (sl_selector sel)) \<le> 2 ^ 36"
      by (rule answerable_unfold)
    obtain cs where "lttb (raw_points eul x start end (sl_selector sel)) n = Some (map ((!) (raw_points eul x start end (sl_selector sel))) cs)"
      "length cs = min (length (raw_points eul x start end (sl_selector sel))) n" "sorted_wrt (<) cs"
      "\<forall>c \<in> set cs. c < length (raw_points eul x start end (sl_selector sel))"
      using lttb_sample[OF n(2) x(2)] by blast
    then show ?thesis by (auto simp: answer_def series_data_def x(1) Let_def list_all_iff)
  qed
  show ?thesis
    using query each by (intro exI[of _ "map ?ans ?sels"]) (simp add: list_all2_conv_all_nth)
qed

definition demo_query :: SeriesQueryRequest where
  "demo_query = \<lparr>sq_selections = [\<lparr>sl_aircraft_id = ''07'', sl_selector = Telemetry ''eng'' ''rpm''\<rparr>],
     sq_time_range = None, sq_max_points = None\<rparr>"

lemma query_answers_selections_witness:
  "\<exists>out. series_query (\<lambda>_. None) demo_store demo_query = Some (Inr out) \<and> map sd_total_points out = [1]"
proof -
  have raw: "raw_points (\<lambda>_. None) (the (lookup demo_store ''07'')) f_neg_infinity f_infinity (Telemetry ''eng'' ''rpm'') = [(time_2, time_3)]"
    by (simp add: demo_lookup raw_points_def state_points_def window_filter_def extract_value_def frame_points_def
        schemas_of_def config_of_spawn_def demo_spawn_def demo_schema_def telemetry_field_def demo_frame_def
        finite_point_def nth_opt_def telemetry_numeric_def List.map_filter_def)
  have "answerable (\<lambda>_. None) demo_store f_neg_infinity f_infinity \<lparr>sl_aircraft_id = ''07'', sl_selector = Telemetry ''eng'' ''rpm''\<rparr>"
    using raw by (simp add: answerable_def demo_lookup missing_field_def validate_selector_def
        schemas_of_def config_of_spawn_def demo_spawn_def demo_schema_def telemetry_field_def)
  then show ?thesis
    using query_answers_selections[OF demo_inv, of demo_query f_neg_infinity f_infinity 2000 "\<lambda>_. None"] raw
    by (auto simp: demo_query_def MAX_SELECTIONS_def DEFAULT_MAX_POINTS_def points_ok_def MIN_MAX_POINTS_def
        MAX_MAX_POINTS_def list_all2_Cons1 Let_def)
qed

end
