(* ===== verification/Workspace.thy ===== *)
theory Workspace
  imports Series
begin

text \<open>
  The workspace document of the management console (\<open>core/src/management/workspace.rs\<close>): its data,
  the validation, and the file-backed store. The three files of the directory \<open>.fly-ruler\<close> are the
  state; every file operation of \<open>save\<close> can fail, and the trace of file states shows what a crash
  between two operations leaves. The JSON encoder and decoder of the serde_json crate are a
  parameter, and so is the wall clock. Results: what a save leaves for every fault and every crash
  point, that a save of a validated snapshot without faults succeeds, and that a crash between the two renames hides
  the document.
\<close>

section \<open>The document\<close>

definition MAX_WORKSPACE_BYTES :: nat where "MAX_WORKSPACE_BYTES = 1024 * 1024"
definition MAX_CHARTS :: nat where "MAX_CHARTS = 64"
definition MAX_CURVES_PER_CHART :: nat where "MAX_CURVES_PER_CHART = 64"

datatype WorkspaceTheme = Light | Dark

record WorkspaceCurveStyle =
  wc_aircraft_id :: string
  wc_selector :: SeriesSelector
  wc_alias :: string
  wc_color :: string
  wc_line_pattern :: string
  wc_line_width :: f64
  wc_opacity :: f64
  wc_visible :: bool
  wc_y_axis :: string
  wc_smooth :: bool
  wc_show_symbol :: bool
  wc_scale :: f64
  wc_offset :: f64
  wc_unit :: "string option"
  wc_value_format :: string
  wc_precision :: u8

definition curve_default :: WorkspaceCurveStyle where
  "curve_default = \<lparr>wc_aircraft_id = [], wc_selector = Standard ''derived.altitude'', wc_alias = [],
     wc_color = ''#4b92f0'', wc_line_pattern = ''solid'', wc_line_width = F64 0x4000000000000000, wc_opacity = f_one,
     wc_visible = True, wc_y_axis = ''left'', wc_smooth = False, wc_show_symbol = False, wc_scale = f_one,
     wc_offset = f_zero, wc_unit = None, wc_value_format = ''auto'', wc_precision = 3\<rparr>"

record WorkspaceChartView =
  zoom_start :: "f64 option"
  zoom_end :: "f64 option"
  zoom_start_value :: "f64 option"
  zoom_end_value :: "f64 option"

definition view_default :: WorkspaceChartView where
  "view_default = \<lparr>zoom_start = None, zoom_end = None, zoom_start_value = None, zoom_end_value = None\<rparr>"

record WorkspaceChart =
  wh_id :: string
  wh_title :: string
  wh_x :: "32 word"
  wh_y :: "32 word"
  wh_w :: u32
  wh_h :: u32
  wh_legend_visible :: bool
  wh_curves :: "WorkspaceCurveStyle list"
  wh_view :: WorkspaceChartView

definition chart_default :: WorkspaceChart where
  "chart_default = \<lparr>wh_id = [], wh_title = [], wh_x = 0, wh_y = 0, wh_w = 6, wh_h = 5, wh_legend_visible = True,
     wh_curves = [], wh_view = view_default\<rparr>"

record WorkspaceSnapshot =
  wk_version :: u32
  wk_theme :: WorkspaceTheme
  wk_locale :: string
  left_panel_open :: bool
  right_panel_open :: bool
  basket_open :: bool
  selected_aircraft_id :: "string option"
  selected_chart_id :: "string option"
  sync_charts :: bool
  query_start :: "f64 option"
  query_end :: "f64 option"
  wk_max_points :: nat
  wk_charts :: "WorkspaceChart list"
  wk_basket :: "WorkspaceCurveStyle list"

definition snapshot_default :: WorkspaceSnapshot where
  "snapshot_default = \<lparr>wk_version = 1, wk_theme = Dark, wk_locale = ''zh-CN'', left_panel_open = True,
     right_panel_open = True, basket_open = True, selected_aircraft_id = None, selected_chart_id = None,
     sync_charts = True, query_start = None, query_end = None, wk_max_points = 2000, wk_charts = [], wk_basket = []\<rparr>"

record WorkspaceDocument =
  wd_revision :: u64
  updated_at_secs :: f64
  workspace :: WorkspaceSnapshot

datatype WorkspaceError = WsIo | WsJson | TooLarge | TooComplex | InvalidValue

section \<open>Validation\<close>

definition curve_invalid :: "WorkspaceCurveStyle \<Rightarrow> bool" where
  "curve_invalid c \<longleftrightarrow>
     \<not> is_finite (wc_line_width c) \<or> \<not> f_within (F64 0x3FE0000000000000) (F64 0x4020000000000000) (wc_line_width c)
     \<or> \<not> is_finite (wc_opacity c) \<or> \<not> f_within f_zero f_one (wc_opacity c)
     \<or> \<not> is_finite (wc_scale c) \<or> \<not> is_finite (wc_offset c) \<or> 8 < wc_precision c
     \<or> wc_line_pattern c \<notin> {''solid'', ''dashed'', ''dotted''}
     \<or> wc_y_axis c \<notin> {''left'', ''right''}
     \<or> wc_value_format c \<notin> {''auto'', ''fixed'', ''scientific''}"

definition some_nonfinite :: "f64 option \<Rightarrow> bool" where
  "some_nonfinite v = (case v of None \<Rightarrow> False | Some x \<Rightarrow> \<not> is_finite x)"

definition workspace_validate :: "WorkspaceSnapshot \<Rightarrow> WorkspaceError option" where
  "workspace_validate w =
     (if wk_version w \<noteq> 1 \<or> \<not> (100 \<le> wk_max_points w \<and> wk_max_points w \<le> 20000)
         \<or> MAX_CHARTS < length (wk_charts w)
         \<or> (\<exists>ch \<in> set (wk_charts w). MAX_CURVES_PER_CHART < length (wh_curves ch))
      then Some TooComplex
      else if some_nonfinite (query_start w) \<or> some_nonfinite (query_end w)
         \<or> (case (query_start w, query_end w) of (Some a, Some b) \<Rightarrow> flt b a | _ \<Rightarrow> False)
      then Some InvalidValue
      else if \<exists>c \<in> set (concat (map wh_curves (wk_charts w)) @ wk_basket w). curve_invalid c
      then Some InvalidValue
      else None)"

section \<open>The store\<close>

record Files =
  main_file :: "u8 list option"
  backup_file :: "u8 list option"
  temporary_file :: "u8 list option"

text \<open>
  The faults of one save. A failed write leaves the temporary file in any state; a failed removal
  or rename leaves the files as they were.
\<close>

record Faults =
  create_dir_fails :: bool
  write_fails :: "u8 list option option"
  remove_stale_fails :: bool
  rename_main_fails :: bool
  rename_temporary_fails :: bool
  restore_fails :: bool
  remove_backup_fails :: bool

definition no_faults :: Faults where
  "no_faults = \<lparr>create_dir_fails = False, write_fails = None, remove_stale_fails = False, rename_main_fails = False,
     rename_temporary_fails = False, restore_fails = False, remove_backup_fails = False\<rparr>"

text \<open>The file states from the initial one on, in order, and whether the operations succeed.\<close>

definition write_files :: "u8 list \<Rightarrow> Faults \<Rightarrow> Files \<Rightarrow> Files list \<times> bool" where
  "write_files bytes x f0 =
     (if create_dir_fails x then ([f0], False)
      else case write_fails x of
        Some left \<Rightarrow> ([f0, f0\<lparr>temporary_file := left\<rparr>], False)
      | None \<Rightarrow>
          let f1 = f0\<lparr>temporary_file := Some bytes\<rparr> in
          if main_file f1 \<noteq> None then
            let f2 = (if remove_stale_fails x then f1 else f1\<lparr>backup_file := None\<rparr>) in
            if rename_main_fails x then ([f0, f1, f2], False)
            else
              let f3 = f2\<lparr>backup_file := main_file f2, main_file := None\<rparr> in
              if rename_temporary_fails x then
                ([f0, f1, f2, f3, if restore_fails x then f3 else f3\<lparr>main_file := backup_file f3, backup_file := None\<rparr>], False)
              else
                let f4 = f3\<lparr>main_file := temporary_file f3, temporary_file := None\<rparr> in
                ([f0, f1, f2, f3, f4, if remove_backup_fails x then f4 else f4\<lparr>backup_file := None\<rparr>], True)
          else if rename_temporary_fails x then ([f0, f1], False)
          else ([f0, f1, f1\<lparr>main_file := temporary_file f1, temporary_file := None\<rparr>], True))"

record Json =
  to_vec_pretty :: "WorkspaceDocument \<Rightarrow> u8 list option"
  from_slice :: "u8 list \<Rightarrow> WorkspaceDocument option"

record WorkspaceStore =
  ws_files :: Files
  ws_revision :: u64

definition workspace_new :: "Json \<Rightarrow> bool \<Rightarrow> Files \<Rightarrow> WorkspaceStore" where
  "workspace_new j read_fails f =
     \<lparr>ws_files = f,
      ws_revision = (case Option.bind (if read_fails then None else main_file f) (from_slice j) of
                       None \<Rightarrow> 0 | Some d \<Rightarrow> wd_revision d)\<rparr>"

definition workspace_load :: "Json \<Rightarrow> bool \<Rightarrow> WorkspaceStore \<Rightarrow> WorkspaceError + WorkspaceDocument option" where
  "workspace_load j read_fails st =
     (case main_file (ws_files st) of
        None \<Rightarrow> if read_fails then Inl WsIo else Inr None
      | Some bytes \<Rightarrow>
          if read_fails then Inl WsIo
          else case from_slice j bytes of None \<Rightarrow> Inl WsJson | Some d \<Rightarrow> Inr (Some d))"

record save_result =
  sr_result :: "WorkspaceError + WorkspaceDocument"
  sr_store :: WorkspaceStore
  sr_trace :: "Files list"

definition workspace_save :: "Json \<Rightarrow> f64 \<Rightarrow> Faults \<Rightarrow> WorkspaceSnapshot \<Rightarrow> WorkspaceStore \<Rightarrow> save_result" where
  "workspace_save j now x w st =
     (case workspace_validate w of
        Some e \<Rightarrow> \<lparr>sr_result = Inl e, sr_store = st, sr_trace = [ws_files st]\<rparr>
      | None \<Rightarrow>
          let doc = \<lparr>wd_revision = ws_revision st + 1, updated_at_secs = now, workspace = w\<rparr>;
              st1 = st\<lparr>ws_revision := ws_revision st + 1\<rparr>
          in case to_vec_pretty j doc of
               None \<Rightarrow> \<lparr>sr_result = Inl WsJson, sr_store = st1, sr_trace = [ws_files st]\<rparr>
             | Some bytes \<Rightarrow>
                 if MAX_WORKSPACE_BYTES < length bytes
                 then \<lparr>sr_result = Inl TooLarge, sr_store = st1, sr_trace = [ws_files st]\<rparr>
                 else
                   let (trace, ok) = write_files bytes x (ws_files st) in
                   \<lparr>sr_result = (if ok then Inr doc else Inl WsIo), sr_store = st1\<lparr>ws_files := last trace\<rparr>, sr_trace = trace\<rparr>)"

section \<open>What a save leaves\<close>

text \<open>A file state that still holds the last document, or already the new one.\<close>

definition document_kept :: "u8 list option \<Rightarrow> u8 list \<Rightarrow> Files \<Rightarrow> bool" where
  "document_kept old new f \<longleftrightarrow> main_file f = old \<or> main_file f = Some new \<or> main_file f = None \<and> backup_file f = old"

lemma write_files_kept: "\<forall>f \<in> set (fst (write_files bytes x f0)). document_kept (main_file f0) bytes f"
  by (simp add: write_files_def document_kept_def Let_def split: option.split)

lemma write_files_ok:
  "snd (write_files bytes x f0) \<Longrightarrow>
     main_file (last (fst (write_files bytes x f0))) = Some bytes \<and> temporary_file (last (fst (write_files bytes x f0))) = None"
  by (simp add: write_files_def Let_def split: option.splits if_splits)

lemma write_files_failed:
  "\<not> snd (write_files bytes x f0) \<Longrightarrow>
     main_file (last (fst (write_files bytes x f0))) = main_file f0
     \<or> restore_fails x \<and> rename_temporary_fails x \<and> main_file (last (fst (write_files bytes x f0))) = None
        \<and> backup_file (last (fst (write_files bytes x f0))) = main_file f0"
  by (simp add: write_files_def Let_def split: option.splits if_splits)

lemma write_files_no_faults: "snd (write_files bytes no_faults f0)"
  by (simp add: write_files_def Let_def no_faults_def)

lemma write_files_nonempty: "fst (write_files bytes x f0) \<noteq> []"
  by (simp add: write_files_def Let_def split: option.split)

lemma write_files_hidden:
  assumes "main_file f0 = Some old"
  shows "\<exists>f \<in> set (fst (write_files bytes no_faults f0)). main_file f = None \<and> backup_file f = Some old"
  using assms by (simp add: write_files_def Let_def no_faults_def)

lemma save_valid:
  assumes "workspace_validate w = None"
    and "to_vec_pretty j \<lparr>wd_revision = ws_revision st + 1, updated_at_secs = now, workspace = w\<rparr> = Some bytes"
    and "length bytes \<le> MAX_WORKSPACE_BYTES"
  shows "sr_trace (workspace_save j now x w st) = fst (write_files bytes x (ws_files st))"
    and "sr_result (workspace_save j now x w st)
           = (if snd (write_files bytes x (ws_files st))
              then Inr \<lparr>wd_revision = ws_revision st + 1, updated_at_secs = now, workspace = w\<rparr> else Inl WsIo)"
    and "ws_files (sr_store (workspace_save j now x w st)) = last (fst (write_files bytes x (ws_files st)))"
  using assms by (simp_all add: workspace_save_def Let_def split_beta)

lemma save_cases:
  obtains (refused) e where "sr_result (workspace_save j now x w st) = Inl e"
      "sr_trace (workspace_save j now x w st) = [ws_files st]"
      "ws_files (sr_store (workspace_save j now x w st)) = ws_files st"
  | (written) bytes where "workspace_validate w = None"
      "to_vec_pretty j \<lparr>wd_revision = ws_revision st + 1, updated_at_secs = now, workspace = w\<rparr> = Some bytes"
      "length bytes \<le> MAX_WORKSPACE_BYTES"
proof (cases "workspace_validate w")
  case None
  show ?thesis
  proof (cases "to_vec_pretty j \<lparr>wd_revision = ws_revision st + 1, updated_at_secs = now, workspace = w\<rparr>")
    case None
    with \<open>workspace_validate w = None\<close> show ?thesis
      by (intro refused[of WsJson]) (simp_all add: workspace_save_def)
  next
    case (Some bytes)
    with \<open>workspace_validate w = None\<close> show ?thesis
      by (cases "length bytes \<le> MAX_WORKSPACE_BYTES")
        (auto intro: written refused[of TooLarge] simp: workspace_save_def)
  qed
qed (auto intro: refused simp: workspace_save_def)

section \<open>Properties\<close>

text \<open>C21: Whatever fails and wherever a crash stops it, a save never destroys the last document:
  a successful save leaves exactly the encoding of the validated snapshot with the next revision
  in the main file; a failed one leaves the main file as it was or, when restoring failed too, the
  old document in the backup; and every file state in between has the old document in the main
  file or in the backup, or the new document in the main file.\<close>

theorem workspace_save_keeps_document:
  "(case sr_result (workspace_save j now x w st) of
      Inr d \<Rightarrow> workspace d = w \<and> wd_revision d = ws_revision st + 1 \<and> workspace_validate w = None
        \<and> (\<exists>bytes. to_vec_pretty j d = Some bytes \<and> length bytes \<le> MAX_WORKSPACE_BYTES
             \<and> main_file (ws_files (sr_store (workspace_save j now x w st))) = Some bytes)
    | Inl _ \<Rightarrow>
        main_file (ws_files (sr_store (workspace_save j now x w st))) = main_file (ws_files st)
        \<or> restore_fails x \<and> main_file (ws_files (sr_store (workspace_save j now x w st))) = None
           \<and> backup_file (ws_files (sr_store (workspace_save j now x w st))) = main_file (ws_files st))
   \<and> (\<forall>f \<in> set (sr_trace (workspace_save j now x w st)).
        main_file f = main_file (ws_files st)
        \<or> main_file f = None \<and> backup_file f = main_file (ws_files st)
        \<or> (\<exists>d bytes. workspace d = w \<and> to_vec_pretty j d = Some bytes \<and> main_file f = Some bytes))"
proof (cases rule: save_cases[of j now x w st])
  case (written bytes)
  let ?d = "\<lparr>wd_revision = ws_revision st + 1, updated_at_secs = now, workspace = w\<rparr>"
  have "\<forall>f \<in> set (fst (write_files bytes x (ws_files st))).
      main_file f = main_file (ws_files st) \<or> main_file f = None \<and> backup_file f = main_file (ws_files st)
      \<or> (\<exists>d bytes. workspace d = w \<and> to_vec_pretty j d = Some bytes \<and> main_file f = Some bytes)"
  proof
    fix f assume "f \<in> set (fst (write_files bytes x (ws_files st)))"
    then have "document_kept (main_file (ws_files st)) bytes f" using write_files_kept by blast
    with written(2) show "main_file f = main_file (ws_files st) \<or> main_file f = None \<and> backup_file f = main_file (ws_files st)
      \<or> (\<exists>d bytes. workspace d = w \<and> to_vec_pretty j d = Some bytes \<and> main_file f = Some bytes)"
      unfolding document_kept_def by (metis WorkspaceDocument.select_convs(3))
  qed
  with written write_files_ok[of bytes x "ws_files st"] write_files_failed[of bytes x "ws_files st"]
  show ?thesis
    unfolding save_valid[OF written] by (cases "snd (write_files bytes x (ws_files st))") auto
qed simp

text \<open>A fault-free save of a workspace that was saved before passes through a file state in which
  a restarted console finds no document and starts again at revision 0, although the backup still
  holds the last document: \<open>load\<close> never looks at the backup.\<close>

theorem workspace_crash_hides_document:
  assumes "main_file (ws_files st) = Some old" and "workspace_validate w = None"
    and "to_vec_pretty j \<lparr>wd_revision = ws_revision st + 1, updated_at_secs = now, workspace = w\<rparr> = Some bytes"
    and "length bytes \<le> MAX_WORKSPACE_BYTES"
  shows "\<exists>f \<in> set (sr_trace (workspace_save j now no_faults w st)).
           backup_file f = Some old
           \<and> workspace_load j False (workspace_new j False f) = Inr None
           \<and> ws_revision (workspace_new j False f) = 0"
  using write_files_hidden[OF assms(1), of bytes]
  unfolding save_valid(1)[OF assms(2-4)]
  by (fastforce simp: workspace_load_def workspace_new_def)

section \<open>A concrete save\<close>

definition demo_json :: Json where
  "demo_json = \<lparr>to_vec_pretty = \<lambda>d. Some [ucast (wd_revision d)],
     from_slice = \<lambda>bs. (case bs of [b] \<Rightarrow> Some \<lparr>wd_revision = ucast b, updated_at_secs = f_zero, workspace = snapshot_default\<rparr>
                            | _ \<Rightarrow> None)\<rparr>"

definition demo_workspace :: WorkspaceStore where
  "demo_workspace = workspace_new demo_json False \<lparr>main_file = Some [7], backup_file = None, temporary_file = None\<rparr>"

lemma default_valid: "workspace_validate snapshot_default = None"
  by (simp add: workspace_validate_def snapshot_default_def some_nonfinite_def)

lemma demo_workspace_eval:
  "ws_revision demo_workspace = 7" "main_file (ws_files demo_workspace) = Some [7]"
  by (simp_all add: demo_workspace_def workspace_new_def demo_json_def)

lemma demo_encoded:
  "to_vec_pretty demo_json \<lparr>wd_revision = ws_revision demo_workspace + 1, updated_at_secs = f_one, workspace = snapshot_default\<rparr>
     = Some [8]"
  "length [8 :: u8] \<le> MAX_WORKSPACE_BYTES"
  by (simp_all add: demo_json_def demo_workspace_eval MAX_WORKSPACE_BYTES_def)

lemma workspace_save_keeps_document_witness:
  "sr_result (workspace_save demo_json f_one no_faults snapshot_default demo_workspace)
     = Inr \<lparr>wd_revision = 8, updated_at_secs = f_one, workspace = snapshot_default\<rparr>
   \<and> main_file (ws_files (sr_store (workspace_save demo_json f_one no_faults snapshot_default demo_workspace))) = Some [8]"
proof -
  have r: "sr_result (workspace_save demo_json f_one no_faults snapshot_default demo_workspace)
     = Inr \<lparr>wd_revision = 8, updated_at_secs = f_one, workspace = snapshot_default\<rparr>"
    using save_valid(2)[OF default_valid demo_encoded] by (simp add: write_files_no_faults demo_workspace_eval)
  from workspace_save_keeps_document[of demo_json f_one no_faults snapshot_default demo_workspace] r
  show ?thesis by (simp add: demo_json_def)
qed

lemma workspace_crash_hides_document_witness:
  "\<exists>f \<in> set (sr_trace (workspace_save demo_json f_one no_faults snapshot_default demo_workspace)).
     backup_file f = Some [7] \<and> workspace_load demo_json False (workspace_new demo_json False f) = Inr None
     \<and> ws_revision (workspace_new demo_json False f) = 0"
  by (rule workspace_crash_hides_document[OF demo_workspace_eval(2) default_valid demo_encoded])

end
