(* ===== verification/Aircraft_Client.thy ===== *)
theory Aircraft_Client
  imports Cursor_Client
begin

text \<open>
  The producer client (\<open>core/src/transport/client.rs\<close>): message builders, the handshake, and
  \<open>AircraftClient\<close> with its three background tasks. The handle's methods are functions; the tasks
  (operations, heartbeats, sender) are a step relation, one step per received or queued item, over
  the two unbounded channels and the stop flag of the watch channel. \<open>wire\<close> records the messages
  given to the socket. A socket error is a step of the sender that may happen at any send.
\<close>

section \<open>Messages\<close>

definition validate_source_timestamp :: "f64 option \<Rightarrow> TransportError + unit" where
  "validate_source_timestamp timestamp =
     (if (case timestamp of None \<Rightarrow> False | Some t \<Rightarrow> \<not> is_finite t)
      then Inl (InvalidMessage ''source timestamp must be finite'') else Inr ())"

text \<open>\<open>now\<close> is the wall clock when the message is built.\<close>

definition make_request :: "f64 \<Rightarrow> RequestKind \<Rightarrow> f64 option \<Rightarrow> Message" where
  "make_request now command timestamp = Some (EnvRequest
     \<lparr>rq_id = None, rq_timestamp = (case timestamp of None \<Rightarrow> now | Some t \<Rightarrow> t), rq_command = Some (Some command)\<rparr>)"

definition build_handshake_message :: "f64 \<Rightarrow> uuid \<Rightarrow> Message" where
  "build_handshake_message now u = make_request now
     (Handshake \<lparr>hs_version = PROTOCOL_VERSION, hs_client_uuid = Some u, hs_role = role_code Producer\<rparr>) None"

definition build_heartbeat_message :: "f64 \<Rightarrow> u64 \<Rightarrow> uuid \<Rightarrow> Message" where
  "build_heartbeat_message now n u = make_request now (Heartbeat \<lparr>hb_seq_num = n, hb_client_uuid = Some u\<rparr>) None"

text \<open>What the spawn, state, event, telemetry and despawn builders share.\<close>

definition build_command_message :: "f64 \<Rightarrow> uuid \<Rightarrow> CommandKind \<Rightarrow> f64 option \<Rightarrow> Message" where
  "build_command_message now aircraft k timestamp = make_request now
     (AircraftEventReq \<lparr>ae_aircraft_id = Some aircraft, ae_info = Some \<lparr>ci_kind = Some k\<rparr>\<rparr>) timestamp"

datatype Operation =
    UpdateState AircraftState "f64 option"
  | CreateEvent string "f64 option"
  | PublishTelemetry TelemetryFrame "f64 option"
  | DespawnOp "string option" "f64 option"
  | Stop

datatype Outbound = Send Message | Shutdown

text \<open>What the operation task sends for an operation.\<close>

definition operation_outbound :: "f64 \<Rightarrow> uuid \<Rightarrow> Operation \<Rightarrow> Outbound" where
  "operation_outbound now aircraft op =
     (case op of
        UpdateState st t \<Rightarrow> Send (build_command_message now aircraft (StateUpdate st) t)
      | CreateEvent n t \<Rightarrow> Send (build_command_message now aircraft (CustomEvent n) t)
      | PublishTelemetry f t \<Rightarrow> Send (build_command_message now aircraft (TelemetryFrameCmd f) t)
      | DespawnOp r t \<Rightarrow> Send (build_command_message now aircraft (Despawn \<lparr>de_reason = r\<rparr>) t)
      | Stop \<Rightarrow> Shutdown)"

section \<open>Connecting\<close>

definition error_code_text :: "ErrorCode \<Rightarrow> string" where
  "error_code_text c = (case c of EC_Unspecified \<Rightarrow> ''0'' | InvalidAircraftId \<Rightarrow> ''1'' | TomlParseError \<Rightarrow> ''2''
     | UnknownField \<Rightarrow> ''3'' | ProtocolVersionMismatch \<Rightarrow> ''4'' | InvalidState \<Rightarrow> ''5''
     | InvalidTelemetrySchema \<Rightarrow> ''6'' | InvalidTelemetryFrame \<Rightarrow> ''7'')"

definition validate_handshake_ack :: "Message \<Rightarrow> TransportError + unit" where
  "validate_handshake_ack msg =
     (case msg of
        Some (EnvResponse response) \<Rightarrow>
          (case rs_result response of
             Some (RespOk (Some (Ack True))) \<Rightarrow> Inr ()
           | Some (RespErr e) \<Rightarrow> Inl (HandshakeRejected (''code='' @ error_code_text (re_code e) @ '' message='' @ re_message e))
           | _ \<Rightarrow> Inl (InvalidMessage ''handshake response did not contain ACK=true''))
      | _ \<Rightarrow> Inl (InvalidMessage ''expected response envelope for handshake''))"

text \<open>
  \<open>establish_session\<close> after its send: the first datagram decides, when it arrives within a second;
  an empty one is \<open>recv\<close>'s \<open>Ok(None)\<close>.
\<close>

definition establish_session ::
  "(u8 list \<Rightarrow> Message option) \<Rightarrow> instant \<Rightarrow> (clocks \<times> u8 list) list \<Rightarrow> TransportError + unit" where
  "establish_session dec t0 ds =
     (case ds of
        [] \<Rightarrow> Inl HandshakeTimeout
      | (now, bytes) # _ \<Rightarrow>
          if t0 + nanos_per_sec < snd now then Inl HandshakeTimeout
          else if bytes = [] then Inl (InvalidMessage ''server closed during handshake'')
          else case dec bytes of None \<Rightarrow> Inl Decode | Some msg \<Rightarrow> validate_handshake_ack msg)"

datatype OperationTask = Spawning AircraftSpawnInfo "f64 option" | Draining | OperationsDone
datatype HeartbeatTask = Starting f64 | Ticking u64 | HeartbeatsDone | HeartbeatPanicked

record AircraftClient =
  client_uuid :: uuid
  aircraft_uuid :: uuid
  op_open :: bool
  stop_requested :: bool
  closed :: bool
  despawned :: bool
  op_queue :: "Operation list"
  out_queue :: "Outbound list"
  operation_task :: OperationTask
  heartbeat_task :: HeartbeatTask
  sender_running :: bool
  wire :: "Message list"

definition client_started :: "uuid \<Rightarrow> uuid \<Rightarrow> AircraftSpawnInfo \<Rightarrow> f64 option \<Rightarrow> f64 \<Rightarrow> AircraftClient" where
  "client_started u a spawn t interval = \<lparr>client_uuid = u, aircraft_uuid = a, op_open = True, stop_requested = False,
     closed = False, despawned = False, op_queue = [], out_queue = [], operation_task = Spawning spawn t,
     heartbeat_task = Starting interval, sender_running = True, wire = []\<rparr>"

text \<open>
  \<open>connect_with_telemetry_at\<close> with the address parser and the decoder as parameters; \<open>u\<close> and \<open>a\<close>
  are the fresh identifiers. The result has the requests sent before the tasks start.
\<close>

definition aircraft_connect ::
  "(string \<Rightarrow> string + SocketAddr) \<Rightarrow> (u8 list \<Rightarrow> Message option) \<Rightarrow> string \<Rightarrow> uuid \<Rightarrow> uuid \<Rightarrow> AircraftSpawnInfo
   \<Rightarrow> f64 option \<Rightarrow> f64 \<Rightarrow> clocks \<Rightarrow> (clocks \<times> u8 list) list \<Rightarrow> (TransportError + AircraftClient) \<times> Message list" where
  "aircraft_connect parse dec addr u a spawn spawn_timestamp interval now ds =
     (case validate_source_timestamp spawn_timestamp of
        Inl e \<Rightarrow> (Inl e, [])
      | Inr _ \<Rightarrow>
          if \<not> is_finite interval \<or> fle interval f_zero
          then (Inl (InvalidMessage ''heartbeat interval must be finite and greater than zero''), [])
          else case parse addr of
              Inl msg \<Rightarrow> (Inl (InvalidMessage (''invalid socket addr: '' @ msg)), [])
            | Inr _ \<Rightarrow>
                (case establish_session dec (snd now) ds of
                   Inl e \<Rightarrow> (Inl e, [build_handshake_message (fst now) u])
                 | Inr _ \<Rightarrow> (Inr (client_started u a spawn spawn_timestamp interval), [build_handshake_message (fst now) u])))"

section \<open>The handle\<close>

definition ensure_open :: "AircraftClient \<Rightarrow> TransportError + unit" where
  "ensure_open c = (if closed c then Inl (ClientChannelClosed ''client is closed'') else Inr ())"

definition send_operation :: "Operation \<Rightarrow> AircraftClient \<Rightarrow> (TransportError + unit) \<times> AircraftClient" where
  "send_operation op c =
     (if \<not> op_open c then (Inl (ClientChannelClosed ''operation queue is closed''), c)
      else if operation_task c = OperationsDone then (Inl (ClientChannelClosed ''failed to enqueue operation''), c)
      else (Inr (), c\<lparr>op_queue := op_queue c @ [op]\<rparr>))"

definition checked_operation :: "f64 option \<Rightarrow> Operation \<Rightarrow> AircraftClient \<Rightarrow> (TransportError + unit) \<times> AircraftClient" where
  "checked_operation timestamp op c =
     (case ensure_open c of
        Inl e \<Rightarrow> (Inl e, c)
      | Inr _ \<Rightarrow> (case validate_source_timestamp timestamp of Inl e \<Rightarrow> (Inl e, c) | Inr _ \<Rightarrow> send_operation op c))"

definition update_state :: "AircraftState \<Rightarrow> f64 option \<Rightarrow> AircraftClient \<Rightarrow> (TransportError + unit) \<times> AircraftClient" where
  "update_state st timestamp = checked_operation timestamp (UpdateState st timestamp)"

definition create_event :: "string \<Rightarrow> f64 option \<Rightarrow> AircraftClient \<Rightarrow> (TransportError + unit) \<times> AircraftClient" where
  "create_event n timestamp = checked_operation timestamp (CreateEvent n timestamp)"

definition publish_telemetry :: "TelemetryFrame \<Rightarrow> f64 option \<Rightarrow> AircraftClient \<Rightarrow> (TransportError + unit) \<times> AircraftClient" where
  "publish_telemetry f timestamp = checked_operation timestamp (PublishTelemetry f timestamp)"

definition client_despawn :: "string option \<Rightarrow> f64 option \<Rightarrow> AircraftClient \<Rightarrow> (TransportError + unit) \<times> AircraftClient" where
  "client_despawn reason timestamp c =
     (case ensure_open c of
        Inl e \<Rightarrow> (Inl e, c)
      | Inr _ \<Rightarrow>
          if despawned c then (Inr (), c)
          else case validate_source_timestamp timestamp of
              Inl e \<Rightarrow> (Inl e, c)
            | Inr _ \<Rightarrow>
                (case send_operation (DespawnOp reason timestamp) c of
                   (Inl e, c1) \<Rightarrow> (Inl e, c1)
                 | (Inr _, c1) \<Rightarrow> (Inr (), c1\<lparr>despawned := True\<rparr>)))"

text \<open>\<open>close\<close> up to its first await: the despawn, the stop flag, the stop marker, the queue handle.\<close>

definition close_begin :: "AircraftClient \<Rightarrow> AircraftClient" where
  "close_begin c =
     (if closed c then c
      else
        let c1 = (if despawned c then c
                  else (snd (send_operation (DespawnOp (Some ''client_close'') None) c))\<lparr>despawned := True\<rparr>);
            c2 = c1\<lparr>stop_requested := True\<rparr>;
            c3 = (if op_open c2 then snd (send_operation Stop c2) else c2)
        in c3\<lparr>op_open := False\<rparr>)"

definition tasks_done :: "AircraftClient \<Rightarrow> bool" where
  "tasks_done c \<longleftrightarrow> heartbeat_task c \<in> {HeartbeatsDone, HeartbeatPanicked} \<and> operation_task c = OperationsDone
     \<and> \<not> sender_running c"

text \<open>Dropping the handle drops the queue handle and the stop sender.\<close>

definition client_drop :: "AircraftClient \<Rightarrow> AircraftClient" where
  "client_drop c = c\<lparr>op_open := False, stop_requested := True\<rparr>"

section \<open>The tasks\<close>

text \<open>\<open>send_outbound\<close>: the sender's queue is gone once its task has ended.\<close>

definition send_outbound :: "Outbound \<Rightarrow> AircraftClient \<Rightarrow> AircraftClient" where
  "send_outbound ob c = (if sender_running c then c\<lparr>out_queue := out_queue c @ [ob]\<rparr> else c)"

inductive task_step :: "AircraftClient \<Rightarrow> AircraftClient \<Rightarrow> bool" where
  spawn: "operation_task c = Spawning s t
    \<Longrightarrow> task_step c ((send_outbound (Send (build_command_message now (aircraft_uuid c) (Spawn s) t)) c)\<lparr>operation_task := Draining\<rparr>)"
| operate: "operation_task c = Draining \<Longrightarrow> op_queue c = op # ops \<Longrightarrow> op \<noteq> Stop
    \<Longrightarrow> task_step c (send_outbound (operation_outbound now (aircraft_uuid c) op) (c\<lparr>op_queue := ops\<rparr>))"
| stop: "operation_task c = Draining \<Longrightarrow> op_queue c = Stop # ops
    \<Longrightarrow> task_step c ((send_outbound Shutdown c)\<lparr>op_queue := [], operation_task := OperationsDone\<rparr>)"
| queue_closed: "operation_task c = Draining \<Longrightarrow> op_queue c = [] \<Longrightarrow> \<not> op_open c
    \<Longrightarrow> task_step c (c\<lparr>operation_task := OperationsDone\<rparr>)"
| interval: "heartbeat_task c = Starting secs \<Longrightarrow> from_secs_f64 (fmax secs (F64 0x3FB999999999999A)) = Some d
    \<Longrightarrow> task_step c (c\<lparr>heartbeat_task := Ticking 0\<rparr>)"
| interval_panics: "heartbeat_task c = Starting secs \<Longrightarrow> from_secs_f64 (fmax secs (F64 0x3FB999999999999A)) = None
    \<Longrightarrow> task_step c (c\<lparr>heartbeat_task := HeartbeatPanicked\<rparr>)"
| tick: "heartbeat_task c = Ticking n \<Longrightarrow> \<not> stop_requested c
    \<Longrightarrow> task_step c ((send_outbound (Send (build_heartbeat_message now (saturating_add n 1) (client_uuid c))) c)
          \<lparr>heartbeat_task := Ticking (saturating_add n 1)\<rparr>)"
| heartbeat_stop: "heartbeat_task c = Ticking n \<Longrightarrow> stop_requested c \<Longrightarrow> task_step c (c\<lparr>heartbeat_task := HeartbeatsDone\<rparr>)"
| transmit: "sender_running c \<Longrightarrow> out_queue c = Send m # os \<Longrightarrow> task_step c (c\<lparr>out_queue := os, wire := wire c @ [m]\<rparr>)"
| shutdown: "sender_running c \<Longrightarrow> out_queue c = Shutdown # os \<Longrightarrow> task_step c (c\<lparr>out_queue := [], sender_running := False\<rparr>)"
| senders_gone: "sender_running c \<Longrightarrow> out_queue c = [] \<Longrightarrow> operation_task c = OperationsDone
    \<Longrightarrow> heartbeat_task c \<in> {HeartbeatsDone, HeartbeatPanicked} \<Longrightarrow> task_step c (c\<lparr>sender_running := False\<rparr>)"

text \<open>A send that fails ends the sender; what is queued is lost.\<close>

inductive send_fails :: "AircraftClient \<Rightarrow> AircraftClient \<Rightarrow> bool" where
  "sender_running c \<Longrightarrow> out_queue c = Send m # os \<Longrightarrow> send_fails c (c\<lparr>out_queue := [], sender_running := False\<rparr>)"

end
