(* ===== verification/Aircraft_Client_Properties.thy ===== *)
theory Aircraft_Client_Properties
  imports Aircraft_Client Samples
begin

text \<open>
  The producer client over all interleavings of its tasks with the caller: the aircraft commands on
  the wire are the accepted operations in order after the spawn, and closing delivers all of them
  and ends every task.
\<close>

section \<open>Runs\<close>

datatype phase = Open | Closing | Dropped

text \<open>
  A run of a client from its start: the operations the handle accepted, whether a socket send
  failed, and how far the handle is. Calls that return an error change nothing.
\<close>

inductive client_run :: "AircraftClient \<Rightarrow> Operation list \<Rightarrow> bool \<Rightarrow> phase \<Rightarrow> AircraftClient \<Rightarrow> bool" for c0 where
  start: "client_run c0 [] False Open c0"
| task: "client_run c0 acc lossy ph c \<Longrightarrow> task_step c c' \<Longrightarrow> client_run c0 acc lossy ph c'"
| fail: "client_run c0 acc lossy ph c \<Longrightarrow> send_fails c c' \<Longrightarrow> client_run c0 acc True ph c'"
| update: "client_run c0 acc lossy ph c \<Longrightarrow> ph \<noteq> Dropped \<Longrightarrow> update_state st t c = (Inr (), c')
    \<Longrightarrow> client_run c0 (acc @ [UpdateState st t]) lossy ph c'"
| event: "client_run c0 acc lossy ph c \<Longrightarrow> ph \<noteq> Dropped \<Longrightarrow> create_event n t c = (Inr (), c')
    \<Longrightarrow> client_run c0 (acc @ [CreateEvent n t]) lossy ph c'"
| telemetry: "client_run c0 acc lossy ph c \<Longrightarrow> ph \<noteq> Dropped \<Longrightarrow> publish_telemetry f t c = (Inr (), c')
    \<Longrightarrow> client_run c0 (acc @ [PublishTelemetry f t]) lossy ph c'"
| despawn: "client_run c0 acc lossy ph c \<Longrightarrow> ph \<noteq> Dropped \<Longrightarrow> client_despawn r t c = (Inr (), c')
    \<Longrightarrow> client_run c0 (acc @ (if despawned c then [] else [DespawnOp r t])) lossy ph c'"
| close_open: "client_run c0 acc lossy Open c
    \<Longrightarrow> client_run c0 (acc @ (if despawned c then [] else [DespawnOp (Some ''client_close'') None])) lossy Closing (close_begin c)"
| close_again: "client_run c0 acc lossy Closing c \<Longrightarrow> client_run c0 acc lossy Closing (close_begin c)"
| close_end: "client_run c0 acc lossy Closing c \<Longrightarrow> tasks_done c \<Longrightarrow> client_run c0 acc lossy Closing (c\<lparr>closed := True\<rparr>)"
| drop: "client_run c0 acc lossy ph c \<Longrightarrow> client_run c0 acc lossy Dropped (client_drop c)"

section \<open>Commands\<close>

fun op_command :: "Operation \<Rightarrow> (CommandKind \<times> f64 option) option" where
  "op_command (UpdateState st t) = Some (StateUpdate st, t)"
| "op_command (CreateEvent n t) = Some (CustomEvent n, t)"
| "op_command (PublishTelemetry f t) = Some (TelemetryFrameCmd f, t)"
| "op_command (DespawnOp r t) = Some (Despawn \<lparr>de_reason = r\<rparr>, t)"
| "op_command Stop = None"

definition script :: "AircraftSpawnInfo \<Rightarrow> f64 option \<Rightarrow> Operation list \<Rightarrow> (CommandKind \<times> f64 option) list" where
  "script s t ops = (Spawn s, t) # List.map_filter op_command ops"

text \<open>The message carries the command, with the command's time or the clock when it was built.\<close>

definition carries :: "uuid \<Rightarrow> CommandKind \<times> f64 option \<Rightarrow> Message \<Rightarrow> bool" where
  "carries a e m \<longleftrightarrow> (\<exists>now. m = build_command_message now a (fst e) (snd e))"

definition is_command :: "Message \<Rightarrow> bool" where
  "is_command m \<longleftrightarrow> (case request_kind m of Some (AircraftEventReq _) \<Rightarrow> True | _ \<Rightarrow> False)"

definition commands :: "Message list \<Rightarrow> Message list" where
  "commands ms = filter is_command ms"

definition is_despawn :: "Operation \<Rightarrow> bool" where
  "is_despawn op \<longleftrightarrow> (case op of DespawnOp _ _ \<Rightarrow> True | _ \<Rightarrow> False)"

definition despawns :: "Operation list \<Rightarrow> nat" where
  "despawns ops = length (filter is_despawn ops)"

fun out_messages :: "Outbound list \<Rightarrow> Message list" where
  "out_messages [] = []"
| "out_messages (Send m # os) = m # out_messages os"
| "out_messages (Shutdown # os) = out_messages os"

lemma out_messages_append [simp]: "out_messages (xs @ ys) = out_messages xs @ out_messages ys"
  by (induction xs rule: out_messages.induct) simp_all

lemma commands_simps [simp]:
  "commands [] = []" "commands (xs @ ys) = commands xs @ commands ys"
  "commands (build_command_message now a k t # ms) = build_command_message now a k t # commands ms"
  "commands (build_heartbeat_message now n u # ms) = commands ms"
  by (simp_all add: commands_def is_command_def build_command_message_def build_heartbeat_message_def
      make_request_def request_kind_def)

lemma despawns_simps [simp]:
  "despawns [] = 0" "despawns (xs @ ys) = despawns xs + despawns ys"
  "despawns [UpdateState st t] = 0" "despawns [CreateEvent n t] = 0" "despawns [PublishTelemetry f t] = 0"
  "despawns [DespawnOp r t] = 1"
  by (simp_all add: despawns_def is_despawn_def)

declare map_filter_append [simp]

lemma script_append: "script s t (xs @ ys) = script s t xs @ List.map_filter op_command ys"
  by (simp add: script_def)

lemma operation_outbound_command:
  "op_command op = Some e \<Longrightarrow> \<exists>m. operation_outbound now a op = Send m \<and> carries a e m \<and> commands [m] = [m]"
  by (cases op) (auto simp: operation_outbound_def carries_def)

section \<open>Invariant\<close>

definition pending :: "AircraftClient \<Rightarrow> (CommandKind \<times> f64 option) list" where
  "pending c = (case operation_task c of Spawning s t \<Rightarrow> [(Spawn s, t)] | _ \<Rightarrow> [])
     @ List.map_filter op_command (op_queue c)"

definition dispatched :: "AircraftClient \<Rightarrow> Message list" where
  "dispatched c = commands (wire c @ out_messages (out_queue c))"

text \<open>Commands already handed over, then the pending ones, are the script; a failed send may lose a suffix.\<close>

definition script_ok :: "uuid \<Rightarrow> (CommandKind \<times> f64 option) list \<Rightarrow> bool \<Rightarrow> AircraftClient \<Rightarrow> bool" where
  "script_ok a es lossy c \<longleftrightarrow>
     (\<exists>past. es = past @ pending c \<and> list_all2 (carries a) (take (length (dispatched c)) past) (dispatched c)
        \<and> (\<not> lossy \<longrightarrow> length (dispatched c) = length past))"

definition queue_ok :: "bool \<Rightarrow> phase \<Rightarrow> AircraftClient \<Rightarrow> bool" where
  "queue_ok lossy ph c \<longleftrightarrow>
     (op_open c \<longleftrightarrow> ph = Open) \<and> (stop_requested c \<longleftrightarrow> ph \<noteq> Open)
     \<and> (op_open c \<longrightarrow> operation_task c \<noteq> OperationsDone \<and> Stop \<notin> set (op_queue c) \<and> \<not> closed c)
     \<and> (\<forall>xs ys. op_queue c = xs @ Stop # ys \<longrightarrow> ys = [])
     \<and> (operation_task c = OperationsDone \<longrightarrow> op_queue c = [])
     \<and> (sender_running c \<longrightarrow> \<not> lossy)
     \<and> (\<not> sender_running c \<longrightarrow> out_queue c = [] \<and> (lossy \<or> operation_task c = OperationsDone))
     \<and> (\<forall>xs ys. out_queue c = xs @ Shutdown # ys \<longrightarrow> commands (out_messages ys) = [] \<and> operation_task c = OperationsDone)
     \<and> (closed c \<longrightarrow> tasks_done c)"

definition client_ok :: "AircraftSpawnInfo \<Rightarrow> f64 option \<Rightarrow> uuid \<Rightarrow> Operation list \<Rightarrow> bool \<Rightarrow> phase \<Rightarrow> AircraftClient \<Rightarrow> bool" where
  "client_ok s t a acc lossy ph c \<longleftrightarrow>
     aircraft_uuid c = a \<and> script_ok a (script s t acc) lossy c \<and> queue_ok lossy ph c
     \<and> despawns acc = (if despawned c then 1 else 0) \<and> (ph = Closing \<longrightarrow> despawned c)"

lemma script_same:
  assumes "script_ok a es lossy c" "pending c' = pending c" "dispatched c' = dispatched c"
  shows "script_ok a es lossy c'"
  using assms by (simp add: script_ok_def)

lemma script_step:
  assumes "script_ok a es lossy c" "\<not> lossy" "pending c = e # pending c'" "dispatched c' = dispatched c @ [m]" "carries a e m"
  shows "script_ok a es lossy c'"
proof -
  obtain past where "es = past @ pending c" "list_all2 (carries a) past (dispatched c)" "length (dispatched c) = length past"
    using assms(1,2) by (auto simp: script_ok_def)
  with assms(3-5) show ?thesis
    unfolding script_ok_def by (intro exI[of _ "past @ [e]"]) (auto intro: list_all2_appendI)
qed

lemma script_lost:
  assumes "script_ok a es lossy c" "lossy" "pending c = e # pending c'" "dispatched c' = dispatched c"
  shows "script_ok a es lossy c'"
proof -
  obtain past where p: "es = past @ pending c" "list_all2 (carries a) (take (length (dispatched c)) past) (dispatched c)"
    using assms(1) by (auto simp: script_ok_def)
  from list_all2_lengthD[OF p(2)] have "length (dispatched c) \<le> length past" by simp
  with p assms(2-4) show ?thesis
    unfolding script_ok_def by (intro exI[of _ "past @ [e]"]) simp
qed

lemma script_cut:
  assumes "script_ok a es lossy c" "pending c' = pending c" "dispatched c = dispatched c' @ ms"
  shows "script_ok a es True c'"
proof -
  obtain past where p: "es = past @ pending c" "list_all2 (carries a) (take (length (dispatched c)) past) (dispatched c)"
    using assms(1) by (auto simp: script_ok_def)
  from list_all2_takeI[OF p(2), of "length (dispatched c')"]
  have "list_all2 (carries a) (take (length (dispatched c')) past) (dispatched c')"
    by (simp add: assms(3) min_def)
  with p(1) assms(2) show ?thesis unfolding script_ok_def by auto
qed

lemma script_extend:
  assumes "script_ok a es lossy c" "pending c' = pending c @ ext" "dispatched c' = dispatched c"
  shows "script_ok a (es @ ext) lossy c'"
  using assms by (auto simp: script_ok_def)

text \<open>How a queued message shows in the state.\<close>

lemma send_outbound_simps [simp]:
  "pending (send_outbound ob c) = pending c" "aircraft_uuid (send_outbound ob c) = aircraft_uuid c"
  "op_open (send_outbound ob c) = op_open c" "stop_requested (send_outbound ob c) = stop_requested c"
  "closed (send_outbound ob c) = closed c" "despawned (send_outbound ob c) = despawned c"
  "op_queue (send_outbound ob c) = op_queue c" "operation_task (send_outbound ob c) = operation_task c"
  "sender_running (send_outbound ob c) = sender_running c" "heartbeat_task (send_outbound ob c) = heartbeat_task c"
  "wire (send_outbound ob c) = wire c"
  by (simp_all add: send_outbound_def pending_def)

lemma out_queue_send: "out_queue (send_outbound ob c) = (if sender_running c then out_queue c @ [ob] else out_queue c)"
  by (simp add: send_outbound_def)

lemma dispatched_send:
  "dispatched (send_outbound ob c) = dispatched c @ (if sender_running c then commands (out_messages [ob]) else [])"
  by (simp add: dispatched_def out_queue_send)

lemma append_last_eq: "xs @ [x] = ys @ y # zs \<longleftrightarrow> (zs = [] \<and> xs = ys \<and> x = y) \<or> (\<exists>ws. zs = ws @ [x] \<and> xs = ys @ y # ws)"
  by (cases zs rule: rev_cases) auto

lemma pending_upd [simp]:
  "pending (c\<lparr>wire := w\<rparr>) = pending c" "pending (c\<lparr>out_queue := q\<rparr>) = pending c" "pending (c\<lparr>heartbeat_task := h\<rparr>) = pending c"
  "pending (c\<lparr>sender_running := b\<rparr>) = pending c" "pending (c\<lparr>closed := b\<rparr>) = pending c"
  "pending (c\<lparr>op_open := b\<rparr>) = pending c" "pending (c\<lparr>stop_requested := b\<rparr>) = pending c" "pending (c\<lparr>despawned := b\<rparr>) = pending c"
  by (simp_all add: pending_def)

lemma dispatched_upd [simp]:
  "dispatched (c\<lparr>op_queue := ops\<rparr>) = dispatched c" "dispatched (c\<lparr>heartbeat_task := h\<rparr>) = dispatched c"
  "dispatched (c\<lparr>sender_running := b\<rparr>) = dispatched c" "dispatched (c\<lparr>closed := b\<rparr>) = dispatched c"
  "dispatched (c\<lparr>op_open := b\<rparr>) = dispatched c" "dispatched (c\<lparr>stop_requested := b\<rparr>) = dispatched c"
  "dispatched (c\<lparr>despawned := b\<rparr>) = dispatched c" "dispatched (c\<lparr>operation_task := p\<rparr>) = dispatched c"
  by (simp_all add: dispatched_def)

lemma queue_task:
  assumes "queue_ok lossy ph c" "task_step c c'"
  shows "queue_ok lossy ph c'"
  using assms(2)
proof cases
  case (spawn s t now)
  with assms(1) show ?thesis
    by (auto simp: queue_ok_def out_queue_send append_last_eq tasks_done_def)
next
  case (operate op ops now)
  have "operation_outbound now (aircraft_uuid c) op \<noteq> Shutdown"
    using operate(4) by (cases op) (simp_all add: operation_outbound_def)
  moreover have "xs @ Stop # ys = ops \<Longrightarrow> ys = []" for xs ys
    using assms(1) operate(3) unfolding queue_ok_def by (metis append_Cons)
  ultimately show ?thesis
    using assms(1) operate by (auto simp: queue_ok_def out_queue_send append_last_eq tasks_done_def)
next
  case (stop ops)
  with assms(1) show ?thesis
    by (auto simp: queue_ok_def out_queue_send append_last_eq tasks_done_def)
next
  case (tick n now)
  with assms(1) show ?thesis
    by (auto simp: queue_ok_def out_queue_send append_last_eq tasks_done_def)
next
  case (transmit m os)
  have "xs @ Shutdown # ys = os \<Longrightarrow> commands (out_messages ys) = [] \<and> operation_task c = OperationsDone" for xs ys
    using assms(1) transmit(3) unfolding queue_ok_def by (metis append_Cons)
  with assms(1) transmit show ?thesis
    by (auto simp: queue_ok_def tasks_done_def)
next
  case (shutdown os)
  from assms(1) have "operation_task c = OperationsDone"
    unfolding queue_ok_def using shutdown(3) by (metis append_Nil)
  with assms(1) shutdown show ?thesis
    by (auto simp: queue_ok_def tasks_done_def)
qed (use assms(1) in \<open>auto simp: queue_ok_def tasks_done_def\<close>)

lemma script_task:
  assumes q: "queue_ok lossy ph c" and s: "script_ok a es lossy c" and a: "aircraft_uuid c = a" and st: "task_step c c'"
  shows "script_ok a es lossy c'"
  using st
proof cases
  case (spawn s t now)
  let ?m = "build_command_message now (aircraft_uuid c) (Spawn s) t"
  have p: "pending c = (Spawn s, t) # pending c'" using spawn by (simp add: pending_def)
  have m: "carries a (Spawn s, t) ?m" using a by (auto simp: carries_def)
  show ?thesis
  proof (cases "sender_running c")
    case True
    with q have "\<not> lossy" by (auto simp: queue_ok_def)
    from script_step[OF s this p _ m] True spawn(1) show ?thesis by (simp add: dispatched_send)
  next
    case False
    with q spawn have "lossy" by (auto simp: queue_ok_def)
    from script_lost[OF s this p] False spawn(1) show ?thesis by (simp add: dispatched_send)
  qed
next
  case (operate op ops now)
  obtain e where e: "op_command op = Some e" using operate(4) by (cases op) simp_all
  from operation_outbound_command[OF this, of now "aircraft_uuid c"] obtain m
    where m: "operation_outbound now (aircraft_uuid c) op = Send m" "carries a e m" "commands [m] = [m]"
    using a by auto
  have p: "pending c = e # pending c'" using operate e by (simp add: pending_def)
  show ?thesis
  proof (cases "sender_running c")
    case True
    with q have "\<not> lossy" by (auto simp: queue_ok_def)
    from script_step[OF s this p _ m(2)] True operate(1) m show ?thesis by (simp add: dispatched_send)
  next
    case False
    with q operate have "lossy" by (auto simp: queue_ok_def)
    from script_lost[OF s this p] False operate(1) show ?thesis by (simp add: dispatched_send)
  qed
next
  case (stop ops)
  have "ops = []" using q stop(3) unfolding queue_ok_def by (metis append_Nil)
  with stop have "pending c' = pending c" by (simp add: pending_def)
  with stop show ?thesis by (intro script_same[OF s]) (simp_all add: dispatched_send)
next
  case queue_closed
  then have "pending c' = pending c" by (simp add: pending_def)
  with queue_closed show ?thesis by (intro script_same[OF s]) simp_all
next
  case (tick n now)
  then show ?thesis by (intro script_same[OF s]) (simp_all add: dispatched_send)
next
  case (transmit m os)
  then show ?thesis by (intro script_same[OF s]) (simp_all add: dispatched_def)
next
  case (shutdown os)
  from q shutdown(3) have "commands (out_messages os) = []" unfolding queue_ok_def by (metis append_Nil)
  with shutdown show ?thesis by (intro script_same[OF s]) (simp_all add: dispatched_def)
qed (simp_all add: script_same[OF s])

lemma fail_ok:
  assumes "client_ok s t a acc lossy ph c" "send_fails c c'"
  shows "client_ok s t a acc True ph c'"
proof -
  from assms(2) have c': "c' = c\<lparr>out_queue := [], sender_running := False\<rparr>" by cases
  have "dispatched c = dispatched c' @ commands (out_messages (out_queue c))" by (simp add: c' dispatched_def)
  moreover have "pending c' = pending c" by (simp add: c' pending_def)
  ultimately have "script_ok a (script s t acc) True c'" using assms(1) by (auto simp: client_ok_def intro: script_cut)
  moreover have "queue_ok True ph c'" using assms by (auto simp: client_ok_def queue_ok_def c' tasks_done_def elim!: send_fails.cases)
  ultimately show ?thesis using assms(1) by (simp add: client_ok_def c')
qed

lemma task_uuid: "task_step c c' \<Longrightarrow> aircraft_uuid c' = aircraft_uuid c \<and> despawned c' = despawned c"
  by (induction rule: task_step.induct) simp_all

lemma task_ok: "client_ok s t a acc lossy ph c \<Longrightarrow> task_step c c' \<Longrightarrow> client_ok s t a acc lossy ph c'"
  using task_uuid[of c c'] by (auto simp: client_ok_def intro: queue_task script_task)

text \<open>An accepted operation is queued behind the others, while the queue is open.\<close>

lemma send_accepted:
  assumes "send_operation op c = (Inr (), c')"
  shows "op_open c \<and> c' = c\<lparr>op_queue := op_queue c @ [op]\<rparr>"
  using assms by (simp add: send_operation_def split: if_splits)

lemma enqueue_ok:
  assumes ok: "client_ok s t a acc lossy ph c" and "op_open c" "op \<noteq> Stop"
    and d: "despawns [op] + despawns acc = (if b then 1 else 0)" "ph = Closing \<Longrightarrow> b"
  shows "client_ok s t a (acc @ [op]) lossy ph (c\<lparr>op_queue := op_queue c @ [op], despawned := b\<rparr>)"
proof -
  let ?c = "c\<lparr>op_queue := op_queue c @ [op], despawned := b\<rparr>"
  have q: "queue_ok lossy ph c" and "aircraft_uuid c = a" "script_ok a (script s t acc) lossy c"
    using ok by (simp_all add: client_ok_def)
  moreover have "queue_ok lossy ph ?c"
    using q assms(2,3) by (auto simp: queue_ok_def tasks_done_def append_last_eq)
  moreover have "script_ok a (script s t (acc @ [op])) lossy ?c"
    unfolding script_append
    by (rule script_extend) (use calculation in \<open>simp_all add: pending_def\<close>)
  ultimately show ?thesis using d by (simp add: client_ok_def)
qed

lemma accepted_ok:
  assumes ok: "client_ok s t a acc lossy ph c" and "checked_operation ts op c = (Inr (), c')" "op \<noteq> Stop" "\<not> is_despawn op"
  shows "client_ok s t a (acc @ [op]) lossy ph c'"
proof -
  have "send_operation op c = (Inr (), c')"
    using assms(2) by (simp add: checked_operation_def split: sum.splits)
  note c' = send_accepted[OF this]
  have "despawns [op] = 0" using assms(4) by (simp add: despawns_def)
  with enqueue_ok[OF ok _ assms(3), of "despawned c"] c' ok show ?thesis
    by (auto simp: client_ok_def)
qed

lemma despawn_ok:
  assumes ok: "client_ok s t a acc lossy ph c" and "client_despawn r ts c = (Inr (), c')"
  shows "client_ok s t a (acc @ (if despawned c then [] else [DespawnOp r ts])) lossy ph c'"
proof (cases "despawned c")
  case False
  with assms(2) obtain c1 where c1: "send_operation (DespawnOp r ts) c = (Inr (), c1)" "c' = c1\<lparr>despawned := True\<rparr>"
    by (auto simp: client_despawn_def split: sum.splits prod.splits)
  from send_accepted[OF c1(1)] c1(2) have "op_open c" "c' = c\<lparr>op_queue := op_queue c @ [DespawnOp r ts], despawned := True\<rparr>"
    by simp_all
  with enqueue_ok[OF ok, of "DespawnOp r ts" True] False ok show ?thesis by (simp add: client_ok_def)
qed (use assms in \<open>simp add: client_despawn_def split: sum.splits\<close>)

lemma close_eq:
  assumes "queue_ok lossy Open c"
  shows "close_begin c = c\<lparr>op_queue := op_queue c @ (if despawned c then [] else [DespawnOp (Some ''client_close'') None]) @ [Stop],
           despawned := True, stop_requested := True, op_open := False\<rparr>"
  using assms by (auto simp: close_begin_def Let_def send_operation_def queue_ok_def)

lemma close_ok:
  assumes ok: "client_ok s t a acc lossy Open c"
  shows "client_ok s t a (acc @ (if despawned c then [] else [DespawnOp (Some ''client_close'') None])) lossy Closing (close_begin c)"
proof -
  let ?d = "if despawned c then [] else [DespawnOp (Some ''client_close'') None]"
  have q: "queue_ok lossy Open c" using ok by (simp add: client_ok_def)
  note eq = close_eq[OF q]
  have "Stop \<notin> set (op_queue c @ ?d)" using q by (auto simp: queue_ok_def)
  then have "queue_ok lossy Closing (close_begin c)"
    using q by (auto simp: eq queue_ok_def tasks_done_def append_last_eq simp flip: append_assoc dest: arg_cong[where f = set])
  moreover have "script_ok a (script s t (acc @ ?d)) lossy (close_begin c)"
    unfolding script_append
    by (rule script_extend) (use ok in \<open>simp_all add: client_ok_def eq pending_def List.map_filter_def dispatched_def\<close>)
  ultimately show ?thesis using ok by (simp add: client_ok_def eq)
qed

lemma client_run_ok:
  assumes "client_run (client_started u a s t interval) acc lossy ph c"
  shows "client_ok s t a acc lossy ph c"
  using assms
proof (induction rule: client_run.induct)
  case start
  show ?case
    by (simp add: client_ok_def client_started_def script_ok_def queue_ok_def pending_def dispatched_def script_def
        List.map_filter_def tasks_done_def)
next
  case (close_again acc lossy c)
  have "close_begin c = c"
    using close_again.IH by (simp add: close_begin_def client_ok_def queue_ok_def)
  with close_again.IH show ?case by simp
next
  case (close_end acc lossy c)
  then show ?case by (auto simp: client_ok_def queue_ok_def tasks_done_def intro: script_same)
next
  case (drop acc lossy ph c)
  then show ?case by (auto simp: client_ok_def queue_ok_def client_drop_def tasks_done_def intro: script_same)
next
  case (despawn acc lossy ph c r ts c')
  from despawn_ok[OF despawn.IH despawn.hyps(3)] show ?case .
next
  case (close_open acc lossy c)
  from close_ok[OF close_open.IH] show ?case .
qed (auto intro: task_ok fail_ok accepted_ok
      simp: update_state_def create_event_def publish_telemetry_def is_despawn_def)

section \<open>Closing ends\<close>

definition task_work :: "AircraftClient \<Rightarrow> nat" where
  "task_work c = 2 * length (op_queue c) + length (out_queue c)
     + (case operation_task c of Spawning _ _ \<Rightarrow> 4 | Draining \<Rightarrow> 2 | OperationsDone \<Rightarrow> 0)
     + (case heartbeat_task c of Starting _ \<Rightarrow> 2 | Ticking _ \<Rightarrow> 1 | _ \<Rightarrow> 0)
     + (if sender_running c then 1 else 0)"

lemma closing_step_decreases:
  assumes "task_step c c'" "stop_requested c"
  shows "task_work c' < task_work c \<and> stop_requested c'"
  using assms by cases (auto simp: task_work_def out_queue_send split: HeartbeatTask.splits OperationTask.splits)

lemma closing_stuck:
  assumes "stop_requested c" "\<not> op_open c" "queue_ok lossy ph c" "\<forall>c'. \<not> task_step c c'"
  shows "tasks_done c"
proof -
  have op: "operation_task c = OperationsDone"
  proof (cases "operation_task c")
    case (Spawning s t)
    then show ?thesis using assms(4) task_step.spawn by blast
  next
    case Draining
    then show ?thesis
      using assms(2,4) task_step.operate[of c] task_step.stop[of c] task_step.queue_closed[of c]
      by (metis neq_Nil_conv)
  qed simp
  moreover have hb: "heartbeat_task c \<in> {HeartbeatsDone, HeartbeatPanicked}"
  proof (cases "heartbeat_task c")
    case (Starting secs)
    then show ?thesis
      using assms(4) task_step.interval[OF Starting] task_step.interval_panics[OF Starting] by blast
  next
    case (Ticking n)
    then show ?thesis using assms(1,4) task_step.heartbeat_stop by blast
  qed simp_all
  moreover have "\<not> sender_running c"
  proof
    assume run: "sender_running c"
    show False
    proof (cases "out_queue c")
      case (Cons ob os)
      then show False using run assms(4) task_step.transmit[of c] task_step.shutdown[of c] by (cases ob) blast+
    qed (use run op hb assms(4) task_step.senders_gone[of c] in blast)
  qed
  ultimately show ?thesis by (simp add: tasks_done_def)
qed

lemma run_steps:
  "task_step\<^sup>*\<^sup>* c c' \<Longrightarrow> client_run c0 acc lossy ph c \<Longrightarrow> client_run c0 acc lossy ph c'"
  by (induction rule: rtranclp_induct) (auto intro: client_run.task)

lemma no_infinite_closing:
  assumes "stop_requested (f 0)"
  shows "\<not> (\<forall>i. task_step (f i) (f (Suc i)))"
proof
  assume st: "\<forall>i. task_step (f i) (f (Suc i))"
  have stop: "stop_requested (f i)" for i
    by (induction i) (use assms closing_step_decreases st in blast)+
  have "task_work (f i) + i \<le> task_work (f 0)" for i
  proof (induction i)
    case (Suc i)
    from closing_step_decreases[OF spec[OF st, of i] stop] Suc show ?case by simp
  qed simp
  from this[of "Suc (task_work (f 0))"] show False by simp
qed

lemma closing_reaches_end:
  "stop_requested c \<Longrightarrow> \<exists>c'. task_step\<^sup>*\<^sup>* c c' \<and> (\<forall>c''. \<not> task_step c' c'')"
proof (induction "task_work c" arbitrary: c rule: less_induct)
  case less
  show ?case
  proof (cases "\<exists>d. task_step c d")
    case True
    then obtain d where d: "task_step c d" by blast
    from less.hyps[of d] closing_step_decreases[OF d less.prems] d show ?thesis
      by (meson converse_rtranclp_into_rtranclp)
  qed blast
qed

section \<open>Properties\<close>

lemma client_run_commands:
  assumes "client_run (client_started u a s t interval) acc lossy ph c"
  shows "(\<exists>n. list_all2 (carries a) (take n (script s t acc)) (commands (wire c))) \<and> despawns acc \<le> 1"
proof -
  have ok: "client_ok s t a acc lossy ph c" by (rule client_run_ok[OF assms])
  then obtain past where p: "script s t acc = past @ pending c"
      "list_all2 (carries a) (take (length (dispatched c)) past) (dispatched c)"
    by (auto simp: client_ok_def script_ok_def)
  let ?n = "length (commands (wire c))"
  from list_all2_lengthD[OF p(2)] have "length (dispatched c) \<le> length past" by simp
  then have "take ?n (script s t acc) = take ?n (take (length (dispatched c)) past)"
    by (simp add: p(1) dispatched_def min_def)
  with list_all2_takeI[OF p(2), of ?n] have "list_all2 (carries a) (take ?n (script s t acc)) (commands (wire c))"
    by (simp add: dispatched_def)
  with ok show ?thesis by (auto simp: client_ok_def)
qed

text \<open>C16: In every interleaving of the caller, the three tasks and socket failures, the aircraft
  commands on the wire are a prefix of the spawn followed by the accepted operations in the order
  in which they were accepted, each with its own timestamp or the clock when it was built; at most
  one of them is a despawn.\<close>

theorem client_commands_in_order:
  assumes "client_run (client_started u a s t interval) acc lossy ph c"
  shows "(\<exists>n. list_all2 (carries a) (take n (script s t acc)) (commands (wire c))) \<and> despawns acc \<le> 1"
  by (rule client_run_commands[OF assms])

text \<open>C17: Once the client is closing and as long as no socket send fails, its tasks can only take
  finitely many steps, they can always go on until all three have ended, and then the spawn and
  every accepted operation are on the wire, among them exactly one despawn.\<close>

theorem close_delivers_everything:
  assumes "client_run (client_started u a s t interval) acc False Closing c"
  shows "(\<exists>c'. task_step\<^sup>*\<^sup>* c c' \<and> tasks_done c')
    \<and> (\<forall>f. \<not> (f 0 = c \<and> (\<forall>i. task_step (f i) (f (Suc i)))))
    \<and> (\<forall>c'. task_step\<^sup>*\<^sup>* c c' \<and> (\<forall>c''. \<not> task_step c' c'')
          \<longrightarrow> tasks_done c' \<and> list_all2 (carries a) (script s t acc) (commands (wire c')))
    \<and> despawns acc = 1"
proof -
  have ok: "client_ok s t a acc False Closing c" by (rule client_run_ok[OF assms])
  then have stop: "stop_requested c" by (simp add: client_ok_def queue_ok_def)
  have fin: "tasks_done c' \<and> list_all2 (carries a) (script s t acc) (commands (wire c'))"
    if "task_step\<^sup>*\<^sup>* c c'" "\<forall>c''. \<not> task_step c' c''" for c'
  proof -
    have ok': "client_ok s t a acc False Closing c'" by (rule client_run_ok[OF run_steps[OF that(1) assms]])
    then have q: "queue_ok False Closing c'" by (simp add: client_ok_def)
    with that(2) have td: "tasks_done c'" by (auto intro: closing_stuck simp: queue_ok_def)
    then have "pending c' = []" "dispatched c' = commands (wire c')"
      using q by (auto simp: tasks_done_def queue_ok_def pending_def dispatched_def List.map_filter_def)
    with ok' td show ?thesis by (auto simp: client_ok_def script_ok_def)
  qed
  show ?thesis
    using closing_reaches_end[OF stop] no_infinite_closing[of _] stop fin ok
    by (intro conjI) (blast, blast, blast, simp add: client_ok_def)
qed

section \<open>A concrete run\<close>

definition demo_client :: AircraftClient where
  "demo_client = client_started [1] [2] demo_spawn None f_one"

definition closing_client :: AircraftClient where
  "closing_client = close_begin (snd (create_event ''gear'' None demo_client))"

lemma closing_client_run:
  "client_run (client_started [1] [2] demo_spawn None f_one)
     [CreateEvent ''gear'' None, DespawnOp (Some ''client_close'') None] False Closing closing_client"
proof -
  let ?c = "snd (create_event ''gear'' None demo_client)"
  have c: "create_event ''gear'' None demo_client = (Inr (), ?c)" "\<not> despawned ?c"
    by (simp_all add: create_event_def checked_operation_def ensure_open_def validate_source_timestamp_def
        send_operation_def demo_client_def client_started_def)
  have "client_run demo_client ([] @ [CreateEvent ''gear'' None]) False Open ?c"
    by (rule client_run.event[OF client_run.start _ c(1)]) simp
  from client_run.close_open[OF this] c(2) show ?thesis
    by (simp add: closing_client_def demo_client_def)
qed

lemma client_commands_in_order_witness:
  "\<exists>n. list_all2 (carries [2])
     (take n [(Spawn demo_spawn, None), (CustomEvent ''gear'', None), (Despawn \<lparr>de_reason = Some ''client_close''\<rparr>, None)])
     (commands (wire closing_client))"
  using client_commands_in_order[OF closing_client_run] by (simp add: script_def List.map_filter_def)

lemma close_delivers_everything_witness:
  "\<exists>c'. task_step\<^sup>*\<^sup>* closing_client c' \<and> tasks_done c'
     \<and> list_all2 (carries [2])
         [(Spawn demo_spawn, None), (CustomEvent ''gear'', None), (Despawn \<lparr>de_reason = Some ''client_close''\<rparr>, None)]
         (commands (wire c'))"
proof -
  have "stop_requested closing_client"
    using client_run_ok[OF closing_client_run] by (simp add: client_ok_def queue_ok_def)
  from closing_reaches_end[OF this] close_delivers_everything[OF closing_client_run]
  show ?thesis by (auto simp: script_def List.map_filter_def)
qed

end
