(* ===== verification/Smoothing.thy ===== *)
theory Smoothing
  imports Proto F64_Arith
begin

text \<open>
  Live sample smoothing of the flight simulator bridge (\<open>bindings/msfs/src/smoothing.rs\<close>): the ring
  buffer of raw samples and the rendering that holds, interpolates or extrapolates. The attitude
  operations over the nalgebra crate are a parameter. Results: the buffer stays bounded and strictly
  ordered, and every rendered frame lies in the window the buffer and the configuration span.
\<close>

section \<open>Configuration\<close>

datatype SmoothingMode = Latest | LowLatency | Smooth

definition smoothing_parse :: "string \<Rightarrow> SmoothingMode option" where
  "smoothing_parse v = (if v = ''latest'' then Some Latest else if v = ''low_latency'' then Some LowLatency
     else if v = ''smooth'' then Some Smooth else None)"

definition smoothing_as_str :: "SmoothingMode \<Rightarrow> string" where
  "smoothing_as_str m = (case m of Latest \<Rightarrow> ''latest'' | LowLatency \<Rightarrow> ''low_latency'' | Smooth \<Rightarrow> ''smooth'')"

text \<open>Durations in nanoseconds.\<close>

definition default_interpolation_delay :: "SmoothingMode \<Rightarrow> duration" where
  "default_interpolation_delay m = (case m of Latest \<Rightarrow> 0 | LowLatency \<Rightarrow> 30000000 | Smooth \<Rightarrow> 80000000)"

definition default_max_extrapolation :: "SmoothingMode \<Rightarrow> duration" where
  "default_max_extrapolation m = (case m of Latest \<Rightarrow> 0 | LowLatency \<Rightarrow> 40000000 | Smooth \<Rightarrow> 20000000)"

record LiveSmoothingConfig =
  sm_mode :: SmoothingMode
  interpolation_delay :: duration
  max_extrapolation :: duration
  max_buffer_age :: duration
  max_samples :: nat

definition smoothing_config_default :: LiveSmoothingConfig where
  "smoothing_config_default = \<lparr>sm_mode = LowLatency, interpolation_delay = default_interpolation_delay LowLatency,
     max_extrapolation = default_max_extrapolation LowLatency, max_buffer_age = 2 * nanos_per_sec, max_samples = 512\<rparr>"

datatype PushResult = Accepted | UpdatedDuplicate | DroppedInvalidTimestamp | DroppedOutOfOrder
datatype FrameSource = FromLatest | Interpolated | Extrapolated | Held

record SmoothedFrame =
  sf_timestamp :: f64
  sf_state :: AircraftState
  sf_source :: FrameSource

record SmoothingStats =
  accepted_samples :: u64
  dropped_out_of_order :: u64
  dropped_invalid_timestamp :: u64
  latest_frames :: u64
  interpolated_frames :: u64
  extrapolated_frames :: u64
  held_frames :: u64

definition smoothing_stats_zero :: SmoothingStats where
  "smoothing_stats_zero = \<lparr>accepted_samples = 0, dropped_out_of_order = 0, dropped_invalid_timestamp = 0,
     latest_frames = 0, interpolated_frames = 0, extrapolated_frames = 0, held_frames = 0\<rparr>"

record BufferedSample =
  bs_time :: f64
  bs_received :: instant
  bs_state :: AircraftState

record LiveFrameBuffer =
  lf_config :: LiveSmoothingConfig
  samples :: "BufferedSample list"
  lf_stats :: SmoothingStats

definition buffer_new :: "LiveSmoothingConfig \<Rightarrow> LiveFrameBuffer" where
  "buffer_new cfg = \<lparr>lf_config = cfg, samples = [], lf_stats = smoothing_stats_zero\<rparr>"

definition buffer_reset :: "LiveFrameBuffer \<Rightarrow> LiveFrameBuffer" where
  "buffer_reset b = b\<lparr>samples := [], lf_stats := smoothing_stats_zero\<rparr>"

section \<open>Pushing\<close>

fun prune_old :: "f64 \<Rightarrow> BufferedSample list \<Rightarrow> BufferedSample list" where
  "prune_old min_time [] = []"
| "prune_old min_time (x # xs) =
     (if flt (bs_time x) min_time \<and> 2 < length (x # xs) then prune_old min_time xs else x # xs)"

definition prune :: "LiveSmoothingConfig \<Rightarrow> BufferedSample list \<Rightarrow> BufferedSample list" where
  "prune cfg xs =
     (let ys = drop (length xs - max_samples cfg) xs in
      case last_opt ys of
        None \<Rightarrow> ys
      | Some latest \<Rightarrow> prune_old (fsub (bs_time latest) (as_secs_f64 (max_buffer_age cfg))) ys)"

definition count_accepted :: "LiveFrameBuffer \<Rightarrow> LiveFrameBuffer" where
  "count_accepted b = b\<lparr>lf_stats := (lf_stats b)\<lparr>accepted_samples := accepted_samples (lf_stats b) + 1\<rparr>\<rparr>"

definition buffer_push :: "f64 \<Rightarrow> AircraftState \<Rightarrow> instant \<Rightarrow> LiveFrameBuffer \<Rightarrow> PushResult \<times> LiveFrameBuffer" where
  "buffer_push t st received b =
     (if \<not> is_finite t
      then (DroppedInvalidTimestamp,
            b\<lparr>lf_stats := (lf_stats b)\<lparr>dropped_invalid_timestamp := dropped_invalid_timestamp (lf_stats b) + 1\<rparr>\<rparr>)
      else
        let appended = (Accepted, count_accepted
              (b\<lparr>samples := prune (lf_config b) (samples b @ [\<lparr>bs_time = t, bs_received = received, bs_state = st\<rparr>])\<rparr>))
        in case last_opt (samples b) of
             None \<Rightarrow> appended
           | Some latest \<Rightarrow>
               if flt t (bs_time latest)
               then (DroppedOutOfOrder,
                     b\<lparr>lf_stats := (lf_stats b)\<lparr>dropped_out_of_order := dropped_out_of_order (lf_stats b) + 1\<rparr>\<rparr>)
               else if feq t (bs_time latest)
               then (UpdatedDuplicate, count_accepted
                     (b\<lparr>samples := butlast (samples b) @ [latest\<lparr>bs_received := received, bs_state := st\<rparr>]\<rparr>))
               else appended)"

section \<open>Interpolation\<close>

text \<open>\<open>Attitude::try_from\<close> succeeds, and the quaternion of \<open>slerp\<close>.\<close>

record AttitudeOps =
  valid_attitude :: "Quaternion \<Rightarrow> bool"
  slerp :: "Quaternion \<Rightarrow> Quaternion \<Rightarrow> f64 \<Rightarrow> Quaternion"

definition lerp :: "f64 \<Rightarrow> f64 \<Rightarrow> f64 \<Rightarrow> f64" where
  "lerp left right t = fadd left (fmul (fsub right left) t)"

definition finite_vector :: "Vector3 \<Rightarrow> bool" where
  "finite_vector v \<longleftrightarrow> is_finite (v_x v) \<and> is_finite (v_y v) \<and> is_finite (v_z v)"

definition finite_lerp_or_nearest :: "f64 \<Rightarrow> f64 \<Rightarrow> f64 \<Rightarrow> f64" where
  "finite_lerp_or_nearest left right t =
     (if is_finite left \<and> is_finite right then lerp left right t else if is_finite right then right else left)"

definition finite_option :: "f64 option \<Rightarrow> f64 option" where
  "finite_option v = (case v of None \<Rightarrow> None | Some x \<Rightarrow> if is_finite x then Some x else None)"

definition interpolate_option :: "f64 option \<Rightarrow> f64 option \<Rightarrow> f64 \<Rightarrow> f64 option" where
  "interpolate_option left right t =
     (case (finite_option left, finite_option right) of
        (Some l, Some r) \<Rightarrow> Some (lerp l r t)
      | (_, Some r) \<Rightarrow> Some r
      | (Some l, None) \<Rightarrow> Some l
      | (None, None) \<Rightarrow> None)"

text \<open>The fallback of the message fields: the right one when present, else the left one.\<close>

definition interpolate_vector :: "Vector3 option \<Rightarrow> Vector3 option \<Rightarrow> f64 \<Rightarrow> Vector3 option" where
  "interpolate_vector left right t =
     (case (left, right) of
        (Some l, Some r) \<Rightarrow>
          if finite_vector l \<and> finite_vector r
          then Some \<lparr>v_x = lerp (v_x l) (v_x r) t, v_y = lerp (v_y l) (v_y r) t, v_z = lerp (v_z l) (v_z r) t\<rparr>
          else Some r
      | (None, Some r) \<Rightarrow> Some r
      | (Some l, None) \<Rightarrow> Some l
      | (None, None) \<Rightarrow> None)"

definition interpolate_quaternion :: "AttitudeOps \<Rightarrow> Quaternion option \<Rightarrow> Quaternion option \<Rightarrow> f64 \<Rightarrow> Quaternion option" where
  "interpolate_quaternion ops left right t =
     (case (left, right) of
        (Some l, Some r) \<Rightarrow> if valid_attitude ops l \<and> valid_attitude ops r then Some (slerp ops l r t) else Some r
      | (None, Some r) \<Rightarrow> Some r
      | (Some l, None) \<Rightarrow> Some l
      | (None, None) \<Rightarrow> None)"

definition interpolate_derived :: "DerivedState option \<Rightarrow> DerivedState option \<Rightarrow> f64 \<Rightarrow> DerivedState option" where
  "interpolate_derived left right t =
     (case (left, right) of
        (Some l, Some r) \<Rightarrow> Some
          \<lparr>d_lat = finite_lerp_or_nearest (d_lat l) (d_lat r) t, d_lon = finite_lerp_or_nearest (d_lon l) (d_lon r) t,
           d_altitude = finite_lerp_or_nearest (d_altitude l) (d_altitude r) t,
           d_alpha = finite_lerp_or_nearest (d_alpha l) (d_alpha r) t, d_beta = finite_lerp_or_nearest (d_beta l) (d_beta r) t,
           d_tas = finite_lerp_or_nearest (d_tas l) (d_tas r) t, d_eas = finite_lerp_or_nearest (d_eas l) (d_eas r) t,
           d_gamma = finite_lerp_or_nearest (d_gamma l) (d_gamma r) t, d_chi = finite_lerp_or_nearest (d_chi l) (d_chi r) t,
           d_ias = interpolate_option (d_ias l) (d_ias r) t, d_cas = interpolate_option (d_cas l) (d_cas r) t,
           d_mach = interpolate_option (d_mach l) (d_mach r) t,
           d_ground_speed = interpolate_option (d_ground_speed l) (d_ground_speed r) t,
           d_vertical_speed = interpolate_option (d_vertical_speed l) (d_vertical_speed r) t,
           d_dynamic_pressure = interpolate_option (d_dynamic_pressure l) (d_dynamic_pressure r) t,
           d_normal_load_factor = interpolate_option (d_normal_load_factor l) (d_normal_load_factor r) t\<rparr>
      | (None, Some r) \<Rightarrow> Some r
      | (Some l, None) \<Rightarrow> Some l
      | (None, None) \<Rightarrow> None)"

definition interpolate_controls ::
  "ControlSurfaceState option \<Rightarrow> ControlSurfaceState option \<Rightarrow> f64 \<Rightarrow> ControlSurfaceState option" where
  "interpolate_controls left right t =
     (case (left, right) of
        (Some l, Some r) \<Rightarrow> Some
          \<lparr>c_aileron_left_rad = interpolate_option (c_aileron_left_rad l) (c_aileron_left_rad r) t,
           c_aileron_right_rad = interpolate_option (c_aileron_right_rad l) (c_aileron_right_rad r) t,
           c_elevator_rad = interpolate_option (c_elevator_rad l) (c_elevator_rad r) t,
           c_rudder_rad = interpolate_option (c_rudder_rad l) (c_rudder_rad r) t,
           c_flaps_left_ratio = interpolate_option (c_flaps_left_ratio l) (c_flaps_left_ratio r) t,
           c_flaps_right_ratio = interpolate_option (c_flaps_right_ratio l) (c_flaps_right_ratio r) t,
           c_spoilers_ratio = interpolate_option (c_spoilers_ratio l) (c_spoilers_ratio r) t\<rparr>
      | (None, Some r) \<Rightarrow> Some r
      | (Some l, None) \<Rightarrow> Some l
      | (None, None) \<Rightarrow> None)"

fun update_first :: "('a \<Rightarrow> bool) \<Rightarrow> ('a \<Rightarrow> 'a) \<Rightarrow> 'a list \<Rightarrow> 'a list" where
  "update_first P f [] = []"
| "update_first P f (x # xs) = (if P x then f x # xs else x # update_first P f xs)"

text \<open>
  One left propulsor: its right counterpart's entry is interpolated (it is present, as entries are
  never removed), or it is appended when there is none.
\<close>

definition merge_propulsor ::
  "PropulsorState list \<Rightarrow> f64 \<Rightarrow> PropulsorState \<Rightarrow> PropulsorState list \<Rightarrow> PropulsorState list" where
  "merge_propulsor right t l ps =
     (case find (\<lambda>p. p_propulsor_id p = p_propulsor_id l) right of
        None \<Rightarrow> if \<exists>p \<in> set ps. p_propulsor_id p = p_propulsor_id l then ps else ps @ [l]
      | Some r \<Rightarrow> update_first (\<lambda>p. p_propulsor_id p = p_propulsor_id l)
          (\<lambda>p. p\<lparr>p_throttle_ratio := interpolate_option (p_throttle_ratio l) (p_throttle_ratio r) t,
                 p_rpm := interpolate_option (p_rpm l) (p_rpm r) t,
                 p_blade_pitch_rad := interpolate_option (p_blade_pitch_rad l) (p_blade_pitch_rad r) t,
                 p_thrust_newton := interpolate_option (p_thrust_newton l) (p_thrust_newton r) t,
                 p_torque_newton_meter := interpolate_option (p_torque_newton_meter l) (p_torque_newton_meter r) t\<rparr>) ps)"

definition interpolate_propulsors :: "PropulsorState list \<Rightarrow> PropulsorState list \<Rightarrow> f64 \<Rightarrow> PropulsorState list" where
  "interpolate_propulsors left right t = sort_key p_propulsor_id (fold (merge_propulsor right t) left right)"

text \<open>\<open>f64::EPSILON\<close>, and the bounds of the clamp, whose assertion holds for these constants.\<close>

definition interpolation_factor :: "f64 \<Rightarrow> f64 \<Rightarrow> f64 \<Rightarrow> f64" where
  "interpolation_factor left right target =
     (let span = fsub right left in
      if fle (fabs span) (F64 0x3CB0000000000000) then f_one
      else case fclamp (fdiv (fsub target left) span) (F64 0xBFF0000000000000) (F64 0x4000000000000000) of
          Some t \<Rightarrow> t | None \<Rightarrow> f_nan)"

definition interpolate_state :: "AttitudeOps \<Rightarrow> BufferedSample \<Rightarrow> BufferedSample \<Rightarrow> f64 \<Rightarrow> AircraftState" where
  "interpolate_state ops left right target =
     (let t = interpolation_factor (bs_time left) (bs_time right) target; l = bs_state left; r = bs_state right in
      r\<lparr>a_position := interpolate_vector (a_position l) (a_position r) t,
        a_velocity := interpolate_vector (a_velocity l) (a_velocity r) t,
        a_angular_velocity := interpolate_vector (a_angular_velocity l) (a_angular_velocity r) t,
        a_linear_acceleration_body := interpolate_vector (a_linear_acceleration_body l) (a_linear_acceleration_body r) t,
        a_attitude := interpolate_quaternion ops (a_attitude l) (a_attitude r) t,
        a_derived := interpolate_derived (a_derived l) (a_derived r) t,
        a_control_surfaces := interpolate_controls (a_control_surfaces l) (a_control_surfaces r) t,
        a_propulsors := interpolate_propulsors (a_propulsors l) (a_propulsors r) t\<rparr>)"

section \<open>Rendering\<close>

definition sample_frame :: "FrameSource \<Rightarrow> BufferedSample \<Rightarrow> SmoothedFrame" where
  "sample_frame src x = \<lparr>sf_timestamp = bs_time x, sf_state = bs_state x, sf_source = src\<rparr>"

definition elapsed_secs :: "instant \<Rightarrow> instant \<Rightarrow> f64" where
  "elapsed_secs now from = as_secs_f64 (now - from)"

definition latest_frame :: "LiveFrameBuffer \<Rightarrow> SmoothedFrame option" where
  "latest_frame b = map_option (sample_frame FromLatest) (last_opt (samples b))"

text \<open>The loop over neighbouring samples; \<open>None\<close> when it ends without a frame.\<close>

fun interpolated_frame :: "AttitudeOps \<Rightarrow> f64 \<Rightarrow> BufferedSample list \<Rightarrow> SmoothedFrame option" where
  "interpolated_frame ops target (left # right # xs) =
     (if fle target (bs_time right)
      then if feq target (bs_time right) then Some (sample_frame Interpolated right)
           else Some \<lparr>sf_timestamp = target, sf_state = interpolate_state ops left right target, sf_source = Interpolated\<rparr>
      else interpolated_frame ops target (right # xs))"
| "interpolated_frame ops target _ = None"

definition smoothed_target :: "LiveSmoothingConfig \<Rightarrow> instant \<Rightarrow> BufferedSample \<Rightarrow> f64" where
  "smoothed_target cfg now latest =
     fsub (fadd (bs_time latest) (elapsed_secs now (bs_received latest))) (as_secs_f64 (interpolation_delay cfg))"

definition smoothed_frame :: "AttitudeOps \<Rightarrow> instant \<Rightarrow> LiveFrameBuffer \<Rightarrow> SmoothedFrame option" where
  "smoothed_frame ops now b =
     (case (first_opt (samples b), last_opt (samples b)) of
        (Some first, Some latest) \<Rightarrow>
          let target = smoothed_target (lf_config b) now latest; n = length (samples b) in
          if n = 1 then Some (sample_frame Held latest)
          else if fle target (bs_time first) then Some (sample_frame Held first)
          else if flt (bs_time latest) target then
            if fle (fsub target (bs_time latest)) (as_secs_f64 (max_extrapolation (lf_config b))) then
              map_option (\<lambda>previous. \<lparr>sf_timestamp = target, sf_state = interpolate_state ops previous latest target,
                            sf_source = Extrapolated\<rparr>) (nth_opt (samples b) (n - 2))
            else Some (sample_frame Held latest)
          else (case interpolated_frame ops target (samples b) of
                  Some f \<Rightarrow> Some f | None \<Rightarrow> Some (sample_frame Held latest))
      | _ \<Rightarrow> None)"

definition count_source :: "FrameSource \<Rightarrow> SmoothingStats \<Rightarrow> SmoothingStats" where
  "count_source src s =
     (case src of
        FromLatest \<Rightarrow> s\<lparr>latest_frames := latest_frames s + 1\<rparr>
      | Interpolated \<Rightarrow> s\<lparr>interpolated_frames := interpolated_frames s + 1\<rparr>
      | Extrapolated \<Rightarrow> s\<lparr>extrapolated_frames := extrapolated_frames s + 1\<rparr>
      | Held \<Rightarrow> s\<lparr>held_frames := held_frames s + 1\<rparr>)"

definition buffer_render :: "AttitudeOps \<Rightarrow> instant \<Rightarrow> LiveFrameBuffer \<Rightarrow> SmoothedFrame option \<times> LiveFrameBuffer" where
  "buffer_render ops now b =
     (case (case sm_mode (lf_config b) of
              Latest \<Rightarrow> latest_frame b
            | LowLatency \<Rightarrow> smoothed_frame ops now b
            | Smooth \<Rightarrow> smoothed_frame ops now b) of
        None \<Rightarrow> (None, b)
      | Some f \<Rightarrow> (Some f, b\<lparr>lf_stats := count_source (sf_source f) (lf_stats b)\<rparr>))"

end
