(* ===== verification/Smoothing_Properties.thy ===== *)
theory Smoothing_Properties
  imports Smoothing Samples
begin

text \<open>
  The live buffer stays strictly ordered and within its capacity, and each rendered frame is at a
  time the buffer covers, or at most the configured distance beyond its newest sample.
\<close>

section \<open>The buffer invariant\<close>

definition ordered :: "BufferedSample list \<Rightarrow> bool" where
  "ordered xs \<longleftrightarrow> sorted_wrt (\<lambda>x y. flt (bs_time x) (bs_time y)) xs \<and> (\<forall>x \<in> set xs. is_finite (bs_time x))"

inductive buffer_reachable :: "LiveSmoothingConfig \<Rightarrow> LiveFrameBuffer \<Rightarrow> bool" for cfg where
  new: "buffer_reachable cfg (buffer_new cfg)"
| push: "buffer_reachable cfg b \<Longrightarrow> buffer_reachable cfg (snd (buffer_push t st received b))"
| render: "buffer_reachable cfg b \<Longrightarrow> buffer_reachable cfg (snd (buffer_render ops now b))"
| reset: "buffer_reachable cfg b \<Longrightarrow> buffer_reachable cfg (buffer_reset b)"

definition buffer_ok :: "LiveSmoothingConfig \<Rightarrow> LiveFrameBuffer \<Rightarrow> bool" where
  "buffer_ok cfg b \<longleftrightarrow> lf_config b = cfg \<and> ordered (samples b) \<and> length (samples b) \<le> max_samples cfg"

lemma prune_old_suffix: "\<exists>n. prune_old m xs = drop n xs"
proof (induction m xs rule: prune_old.induct)
  case (2 m x xs)
  then show ?case by (auto intro: exI[of _ 0]) (metis drop_Suc_Cons)
qed simp

lemma prune_suffix: "\<exists>n. prune cfg xs = drop n xs \<and> length xs - max_samples cfg \<le> n"
proof -
  let ?k = "length xs - max_samples cfg"
  obtain n where "prune cfg xs = drop n (drop ?k xs)"
  proof (cases "last_opt (drop ?k xs)")
    case (Some l)
    obtain n where "prune_old (fsub (bs_time l) (as_secs_f64 (max_buffer_age cfg))) (drop ?k xs) = drop n (drop ?k xs)"
      using prune_old_suffix by blast
    then have "prune cfg xs = drop n (drop ?k xs)" unfolding prune_def Let_def Some option.case .
    then show ?thesis by (rule that)
  next
    case None
    have "prune cfg xs = drop 0 (drop ?k xs)" unfolding prune_def Let_def None by simp
    then show ?thesis by (rule that)
  qed
  then show ?thesis by (intro exI[of _ "n + ?k"]) simp
qed

lemma ordered_drop: "ordered xs \<Longrightarrow> ordered (drop n xs)"
  unfolding ordered_def by (auto intro: sorted_wrt_drop dest: in_set_dropD)

lemma ordered_snoc:
  assumes "ordered xs" "is_finite (bs_time x)" "case last_opt xs of None \<Rightarrow> True | Some l \<Rightarrow> flt (bs_time l) (bs_time x)"
  shows "ordered (xs @ [x])"
proof -
  have "flt (bs_time y) (bs_time x)" if y: "y \<in> set xs" for y
  proof -
    obtain ys l where xs: "xs = ys @ [l]" using y by (cases xs rule: rev_cases) auto
    with assms(1) y have "y = l \<or> flt (bs_time y) (bs_time l)" by (auto simp: ordered_def sorted_wrt_append)
    with assms(3) xs show ?thesis by (auto simp: last_opt_def float_cmp)
  qed
  with assms show ?thesis by (auto simp: ordered_def sorted_wrt_append)
qed

lemma ordered_replace_last:
  assumes "ordered xs" "last_opt xs = Some l" "bs_time l' = bs_time l"
  shows "ordered (butlast xs @ [l'])"
proof -
  from assms(2) have "xs = butlast xs @ [l]" by (auto simp: last_opt_def split: if_splits)
  with assms(1) have "ordered (butlast xs @ [l])" by simp
  with assms(3) show ?thesis by (auto simp: ordered_def sorted_wrt_append)
qed

lemma push_ok:
  assumes "buffer_ok cfg b"
  shows "buffer_ok cfg (snd (buffer_push t st received b))"
proof -
  let ?x = "\<lparr>bs_time = t, bs_received = received, bs_state = st\<rparr>"
  let ?app = "count_accepted (b\<lparr>samples := prune (lf_config b) (samples b @ [?x])\<rparr>)"
  have app: "buffer_ok cfg ?app"
    if "is_finite t" "case last_opt (samples b) of None \<Rightarrow> True | Some l \<Rightarrow> flt (bs_time l) t"
  proof -
    have o: "ordered (samples b @ [?x])" using assms that by (intro ordered_snoc) (auto simp: buffer_ok_def split: option.splits)
    obtain n where "prune cfg (samples b @ [?x]) = drop n (samples b @ [?x])" "length (samples b @ [?x]) - max_samples cfg \<le> n"
      using prune_suffix by blast
    with assms ordered_drop[OF o, of n] show ?thesis by (auto simp: buffer_ok_def count_accepted_def)
  qed
  have neg: "flt (bs_time l) t" if "is_finite t" "last_opt (samples b) = Some l" "\<not> flt t (bs_time l)" "\<not> feq t (bs_time l)" for l
  proof -
    have "is_finite (bs_time l)" using assms that(2) by (auto simp: buffer_ok_def ordered_def last_opt_def split: if_splits)
    with that show ?thesis by (auto simp: float_cmp finite_not_nan)
  qed
  show ?thesis
    using assms app neg ordered_replace_last[of "samples b"]
    by (auto simp: buffer_push_def Let_def buffer_ok_def count_accepted_def last_opt_def split: option.splits if_splits)
qed

lemma render_ok: "buffer_ok cfg b \<Longrightarrow> buffer_ok cfg (snd (buffer_render ops now b))"
  by (auto simp: buffer_render_def buffer_ok_def split: option.split)

lemma buffer_reachable_ok: "buffer_reachable cfg b \<Longrightarrow> buffer_ok cfg b"
proof (induction rule: buffer_reachable.induct)
  case new
  show ?case by (simp add: buffer_ok_def buffer_new_def ordered_def)
next
  case (reset b)
  then show ?case by (simp add: buffer_ok_def buffer_reset_def ordered_def)
qed (rule push_ok render_ok, assumption)+

section \<open>Rendering\<close>

lemma ordered_first: "ordered xs \<Longrightarrow> first_opt xs = Some x \<Longrightarrow> y \<in> set xs \<Longrightarrow> fle (bs_time x) (bs_time y)"
  by (cases xs) (auto simp: ordered_def first_opt_def float_cmp finite_not_nan)

lemma interpolated_between:
  assumes "interpolated_frame ops target xs = Some f" "first_opt xs = Some x" "flt (bs_time x) target" "ordered xs"
  shows "sf_source f = Interpolated
    \<and> (\<exists>ys left right zs. xs = ys @ left # right # zs \<and> flt (bs_time left) (sf_timestamp f) \<and> fle (sf_timestamp f) (bs_time right))"
  using assms
proof (induction ops target xs arbitrary: x rule: interpolated_frame.induct)
  case (1 ops target left right xs)
  have x: "x = left" using "1.prems"(2) by (simp add: first_opt_def)
  have right: "\<not> is_nan (bs_time right)" using "1.prems"(4) by (auto simp: ordered_def finite_not_nan)
  show ?case
  proof (cases "fle target (bs_time right)")
    case True
    with 1 x have "sf_source f = Interpolated \<and> flt (bs_time left) (sf_timestamp f) \<and> fle (sf_timestamp f) (bs_time right)"
      by (auto simp: sample_frame_def float_cmp split: if_splits)
    then show ?thesis by (intro conjI exI[of _ "[]"] exI[of _ left] exI[of _ right] exI[of _ xs]) simp_all
  next
    case False
    with "1.prems"(3) right have "flt (bs_time right) target" by (auto simp: float_cmp)
    moreover have "ordered (right # xs)" using "1.prems"(4) by (auto simp: ordered_def)
    moreover have "interpolated_frame ops target (right # xs) = Some f" using "1.prems"(1) False by simp
    ultimately have "sf_source f = Interpolated
      \<and> (\<exists>ys l r zs. right # xs = ys @ l # r # zs \<and> flt (bs_time l) (sf_timestamp f) \<and> fle (sf_timestamp f) (bs_time r))"
      using "1.IH"[OF False, of right] by (simp add: first_opt_def)
    then show ?thesis by (metis append_Cons)
  qed
qed simp_all

lemma interpolated_nan: "is_nan target \<Longrightarrow> interpolated_frame ops target xs = None"
  by (induction ops target xs rule: interpolated_frame.induct) (simp_all add: float_cmp)

text \<open>Where a frame may be, by its source.\<close>

definition frame_in_window :: "LiveSmoothingConfig \<Rightarrow> BufferedSample list \<Rightarrow> SmoothedFrame \<Rightarrow> bool" where
  "frame_in_window cfg xs f \<longleftrightarrow>
     (case sf_source f of
        FromLatest \<Rightarrow> sm_mode cfg = Latest \<and> f = sample_frame FromLatest (last xs)
      | Held \<Rightarrow> sm_mode cfg \<noteq> Latest \<and> (f = sample_frame Held (hd xs) \<or> f = sample_frame Held (last xs))
      | Interpolated \<Rightarrow> sm_mode cfg \<noteq> Latest
          \<and> (\<exists>ys left right zs. xs = ys @ left # right # zs \<and> flt (bs_time left) (sf_timestamp f)
               \<and> fle (sf_timestamp f) (bs_time right))
      | Extrapolated \<Rightarrow> sm_mode cfg \<noteq> Latest \<and> 2 \<le> length xs \<and> flt (bs_time (last xs)) (sf_timestamp f)
          \<and> fle (fsub (sf_timestamp f) (bs_time (last xs))) (as_secs_f64 (max_extrapolation cfg)))"

lemma smoothed_in_window:
  assumes o: "ordered (samples b)" and "samples b \<noteq> []" and m: "sm_mode (lf_config b) \<noteq> Latest"
  shows "\<exists>f. smoothed_frame ops now b = Some f \<and> frame_in_window (lf_config b) (samples b) f"
proof -
  have ends: "first_opt (samples b) = Some (hd (samples b))" "last_opt (samples b) = Some (last (samples b))"
    using assms(2) by (auto simp: first_opt_def last_opt_def split: list.split)
  let ?target = "smoothed_target (lf_config b) now (last (samples b))"
  let ?n = "length (samples b)"
  consider "?n = 1" | "?n \<noteq> 1" "fle ?target (bs_time (hd (samples b)))"
    | "?n \<noteq> 1" "\<not> fle ?target (bs_time (hd (samples b)))" "flt (bs_time (last (samples b))) ?target"
    | "?n \<noteq> 1" "\<not> fle ?target (bs_time (hd (samples b)))" "\<not> flt (bs_time (last (samples b))) ?target"
    by blast
  then show ?thesis
  proof cases
    case 3
    have "2 \<le> ?n" using 3(1) assms(2) by (cases "samples b") (auto simp: Suc_le_eq)
    then show ?thesis
      using 3 m by (auto simp: smoothed_frame_def ends Let_def frame_in_window_def sample_frame_def nth_opt_def)
  next
    case 4
    show ?thesis
    proof (cases "interpolated_frame ops ?target (samples b)")
      case None
      with 4 m show ?thesis by (auto simp: smoothed_frame_def ends Let_def frame_in_window_def sample_frame_def)
    next
      case (Some f)
      have "\<not> is_nan (bs_time (hd (samples b)))" "\<not> is_nan (bs_time (last (samples b)))"
        using o assms(2) by (auto simp: ordered_def finite_not_nan)
      then have "flt (bs_time (hd (samples b))) ?target \<or> is_nan ?target"
        using 4(2) by (auto simp: float_cmp)
      moreover have "\<not> is_nan ?target" using Some interpolated_nan by auto
      ultimately show ?thesis
        using interpolated_between[OF Some ends(1) _ o] 4 m Some
        by (auto simp: smoothed_frame_def ends Let_def frame_in_window_def)
    qed
  qed (use m in \<open>auto simp: smoothed_frame_def ends Let_def frame_in_window_def sample_frame_def\<close>)
qed

section \<open>Properties\<close>

text \<open>Every reachable buffer holds at most the configured number of samples, with finite
  timestamps that increase strictly.\<close>

theorem smoothing_buffer_ordered:
  assumes "buffer_reachable cfg b"
  shows "length (samples b) \<le> max_samples cfg
    \<and> sorted_wrt (\<lambda>x y. flt (bs_time x) (bs_time y)) (samples b) \<and> (\<forall>x \<in> set (samples b). is_finite (bs_time x))"
  using buffer_reachable_ok[OF assms] by (simp add: buffer_ok_def ordered_def)

text \<open>C30: Rendering a reachable buffer gives a frame exactly when the buffer holds a sample. The frame
  is the newest sample in the latest mode; otherwise it is the first or the newest sample held, or
  lies between two neighbouring samples, or lies beyond the newest sample by at most the configured
  extrapolation. Rendering changes no sample.\<close>

theorem rendered_frame_in_window:
  assumes "buffer_reachable cfg b"
  shows "samples (snd (buffer_render ops now b)) = samples b
    \<and> (case fst (buffer_render ops now b) of
         None \<Rightarrow> samples b = []
       | Some f \<Rightarrow> samples b \<noteq> [] \<and> frame_in_window cfg (samples b) f)"
proof -
  have ok: "lf_config b = cfg" "ordered (samples b)" using buffer_reachable_ok[OF assms] by (simp_all add: buffer_ok_def)
  show ?thesis
  proof (cases "samples b = []")
    case True
    then show ?thesis
      by (auto simp: buffer_render_def latest_frame_def smoothed_frame_def first_opt_def last_opt_def split: SmoothingMode.split)
  next
    case False
    show ?thesis
    proof (cases "sm_mode cfg = Latest")
      case True
      with False ok(1) show ?thesis
        by (auto simp: buffer_render_def latest_frame_def last_opt_def frame_in_window_def sample_frame_def)
    next
      case mode: False
      with smoothed_in_window[OF ok(2) False] ok(1) obtain f
        where "smoothed_frame ops now b = Some f" "frame_in_window cfg (samples b) f" by blast
      with mode False ok(1) show ?thesis by (cases "sm_mode cfg") (auto simp: buffer_render_def)
    qed
  qed
qed

section \<open>A concrete buffer\<close>

definition demo_buffer :: LiveFrameBuffer where
  "demo_buffer = snd (buffer_push time_2 empty_state 1000 (snd (buffer_push time_1 empty_state 0 (buffer_new smoothing_config_default))))"

lemma demo_buffer_reachable: "buffer_reachable smoothing_config_default demo_buffer"
  unfolding demo_buffer_def by (intro buffer_reachable.intros)

lemma smoothing_buffer_ordered_witness: "length (samples demo_buffer) \<le> 512"
  using smoothing_buffer_ordered[OF demo_buffer_reachable] by (simp add: smoothing_config_default_def)

lemma demo_buffer_samples: "samples demo_buffer \<noteq> []"
  by (simp add: demo_buffer_def buffer_push_def buffer_new_def count_accepted_def smoothing_config_default_def
      prune_def last_opt_def Let_def float_cmp)

lemma rendered_frame_in_window_witness:
  "\<forall>ops. \<exists>f. fst (buffer_render ops 1000 demo_buffer) = Some f \<and> frame_in_window smoothing_config_default (samples demo_buffer) f"
proof
  fix ops
  from rendered_frame_in_window[OF demo_buffer_reachable, of ops 1000] demo_buffer_samples
  show "\<exists>f. fst (buffer_render ops 1000 demo_buffer) = Some f \<and> frame_in_window smoothing_config_default (samples demo_buffer) f"
    by (auto split: option.splits)
qed

end
