(* ===== verification/Operations.thy ===== *)
theory Operations
  imports Store_Persist Playback
begin

text \<open>
  Persistence operations of the management server (\<open>core/src/management/server.rs\<close>:
  \<open>OperationManager\<close>, \<open>validate_session_name\<close>, \<open>save_snapshot_atomic\<close>; the session and clear
  handlers of \<open>routes.rs\<close>). The data root is a map from names to entries, every file operation of a
  save can fail, and the background task of an accepted request is a job with one step per
  \<open>update\<close> and per blocking action. A maintenance action is one step: the gate excludes ingestion
  while it runs. JSON bodies, the router and path canonicalisation (the identity on a direct child
  that is no link) are not modelled. Operation identifiers are fresh (\<open>Uuid::new_v4\<close>).
\<close>

section \<open>Operation records\<close>

definition MAX_OPERATIONS :: nat where "MAX_OPERATIONS = 128"

datatype OperationState = Queued | Running | Succeeded | Failed

record OperationRecord =
  or_id :: string
  or_kind :: string
  or_session :: string
  or_state :: OperationState
  or_created_at_secs :: f64
  or_updated_at_secs :: f64
  or_error :: "string option"

datatype ApiError = BadRequest string string | NotFoundError string string | MethodNotAllowed string string | Conflict string string
  | Internal string | InternalCode string string

datatype Notification = OperationStatus OperationRecord | StoreChanged string | WorkspaceChanged u64

record OperationManager =
  om_active :: bool
  om_records :: "OperationRecord list"
  om_sent :: "Notification list"

definition operations_new :: OperationManager where
  "operations_new = \<lparr>om_active = False, om_records = [], om_sent = []\<rparr>"

text \<open>Both run under the coordination mutex, so each is one step.\<close>

definition operations_begin ::
  "f64 \<Rightarrow> string \<Rightarrow> string \<Rightarrow> string \<Rightarrow> OperationManager \<Rightarrow> (ApiError + OperationRecord) \<times> OperationManager" where
  "operations_begin now i kind session m =
     (if om_active m
      then (Inl (Conflict ''operation_busy'' ''another persistence operation is already running''), m)
      else
        let record = \<lparr>or_id = i, or_kind = kind, or_session = session, or_state = Queued,
              or_created_at_secs = now, or_updated_at_secs = now, or_error = None\<rparr>;
            rs = om_records m @ [record]
        in (Inr record, \<lparr>om_active = True, om_records = drop (length rs - MAX_OPERATIONS) rs,
                         om_sent = om_sent m @ [OperationStatus record]\<rparr>))"

fun update_record :: "string \<Rightarrow> (OperationRecord \<Rightarrow> OperationRecord) \<Rightarrow> OperationRecord list \<Rightarrow> OperationRecord list" where
  "update_record i f [] = []"
| "update_record i f (r # rs) = (if or_id r = i then f r # rs else r # update_record i f rs)"

definition terminal_state :: "OperationState \<Rightarrow> bool" where
  "terminal_state st \<longleftrightarrow> st \<in> {Succeeded, Failed}"

definition operations_update ::
  "f64 \<Rightarrow> string \<Rightarrow> OperationState \<Rightarrow> string option \<Rightarrow> OperationManager \<Rightarrow> OperationManager" where
  "operations_update now i st err m =
     (case find (\<lambda>r. or_id r = i) (om_records m) of
        None \<Rightarrow> m
      | Some r \<Rightarrow>
          let r' = r\<lparr>or_state := st, or_error := err, or_updated_at_secs := now\<rparr>
          in \<lparr>om_active = (if terminal_state st then False else om_active m),
              om_records = update_record i (\<lambda>_. r') (om_records m),
              om_sent = om_sent m @ [OperationStatus r']\<rparr>)"

definition operations_get :: "string \<Rightarrow> OperationManager \<Rightarrow> OperationRecord option" where
  "operations_get i m = find (\<lambda>r. or_id r = i) (om_records m)"

definition notify_store_changed :: "string \<Rightarrow> OperationManager \<Rightarrow> OperationManager" where
  "notify_store_changed reason m = m\<lparr>om_sent := om_sent m @ [StoreChanged reason]\<rparr>"

section \<open>Session directories\<close>

definition name_char :: "char \<Rightarrow> bool" where
  "name_char c \<longleftrightarrow> (let b = of_char c :: nat in
     48 \<le> b \<and> b \<le> 57 \<or> 65 \<le> b \<and> b \<le> 90 \<or> 97 \<le> b \<and> b \<le> 122 \<or> c \<in> {CHR ''.'', CHR ''_'', CHR ''-''})"

definition validate_session_name :: "string \<Rightarrow> ApiError + unit" where
  "validate_session_name name =
     (if name \<noteq> [] \<and> length name \<le> 128 \<and> name \<noteq> ''.'' \<and> name \<noteq> ''..'' \<and> list_all name_char name then Inr ()
      else Inl (BadRequest ''invalid_session_name''
             ''session name must match [A-Za-z0-9._-]{1,128} and cannot be . or ..''))"

datatype 'b DirEntry = Directory "'b SessionDir" | OtherFile | Symlink

type_synonym 'b DataRoot = "string \<Rightarrow> 'b DirEntry option"

text \<open>\<open>fs::rename\<close> and \<open>fs::remove_dir_all\<close> when they succeed.\<close>

definition rename_entry :: "string \<Rightarrow> string \<Rightarrow> 'b DataRoot \<Rightarrow> 'b DataRoot" where
  "rename_entry a b root = (root(b := root a))(a := None)"

definition remove_entry :: "string \<Rightarrow> 'b DataRoot \<Rightarrow> 'b DataRoot" where
  "remove_entry a root = root(a := None)"

text \<open>
  Which file operations of a save fail. A failed write leaves any entry under the temporary name;
  the other failures leave the entries as they were.
\<close>

record 'b SaveFaults =
  clear_temporary_fails :: bool
  save_fails :: "(StoreError \<times> 'b DirEntry option) option"
  cleanup_fails :: bool
  clear_backup_fails :: bool
  retire_fails :: bool
  place_fails :: bool
  sv_restore_fails :: bool
  drop_backup_fails :: bool

definition temporary_name :: "string \<Rightarrow> string \<Rightarrow> string" where
  "temporary_name name i = ''.'' @ name @ ''.tmp-'' @ i"

definition backup_name :: "string \<Rightarrow> string \<Rightarrow> string" where
  "backup_name name i = ''.'' @ name @ ''.bak-'' @ i"

text \<open>\<open>let _ = fs::remove_dir_all(&temporary)\<close>.\<close>

definition try_remove :: "bool \<Rightarrow> string \<Rightarrow> 'b DataRoot \<Rightarrow> 'b DataRoot" where
  "try_remove failing a root = (if failing then root else remove_entry a root)"

text \<open>The replacement of an existing target, with the data root after each step.\<close>

definition replace_target ::
  "'b SaveFaults \<Rightarrow> string \<Rightarrow> string \<Rightarrow> string \<Rightarrow> 'b DataRoot \<Rightarrow> (StoreError + unit) \<times> 'b DataRoot list" where
  "replace_target x target temporary backup r1 =
     (if r1 backup \<noteq> None \<and> clear_backup_fails x then (Inl IoError, [r1])
      else let r2 = remove_entry backup r1 in
        if retire_fails x then (Inl IoError, [r1, r2])
        else let r3 = rename_entry target backup r2 in
          if place_fails x then
            (let r4 = (if sv_restore_fails x then r3 else rename_entry backup target r3)
             in (Inl IoError, [r1, r2, r3, r4, try_remove (cleanup_fails x) temporary r4]))
          else let r4 = rename_entry temporary target r3 in
            if drop_backup_fails x then (Inl IoError, [r1, r2, r3, r4])
            else (Inr (), [r1, r2, r3, r4, remove_entry backup r4]))"

definition save_snapshot_atomic ::
  "'b Codec \<Rightarrow> 'b SaveFaults \<Rightarrow> TimeSeriesStore \<Rightarrow> string \<Rightarrow> bool \<Rightarrow> string \<Rightarrow> 'b DataRoot
   \<Rightarrow> (StoreError + unit) \<times> 'b DataRoot list" where
  "save_snapshot_atomic k x snapshot name overwrite i root =
     (let target = name; temporary = temporary_name name i; backup = backup_name name i in
      if root temporary \<noteq> None \<and> clear_temporary_fails x then (Inl IoError, [root])
      else let r0 = remove_entry temporary root in
        case save_fails x of
          Some (e, left) \<Rightarrow>
            (let r1 = r0(temporary := left) in (Inl e, [root, r0, r1, try_remove (cleanup_fails x) temporary r1]))
        | None \<Rightarrow>
            let r1 = r0(temporary := Some (Directory (save_to_disk k snapshot))) in
            if r1 target = None then
              (if place_fails x then (Inl IoError, [root, r0, r1])
               else (Inr (), [root, r0, r1, rename_entry temporary target r1]))
            else if \<not> overwrite then
              (if cleanup_fails x then (Inl IoError, [root, r0, r1])
               else (Inl (InvalidData SessionExists), [root, r0, r1, remove_entry temporary r1]))
            else (let (result, rs) = replace_target x target temporary backup r1 in (result, [root, r0] @ rs)))"

text \<open>Entries that the session list shows.\<close>

definition contains :: "string \<Rightarrow> string \<Rightarrow> bool" where
  "contains needle s \<longleftrightarrow> (\<exists>n \<in> {0..length s}. take (length needle) (drop n s) = needle)"

definition listed :: "'b DataRoot \<Rightarrow> string \<Rightarrow> bool" where
  "listed root name \<longleftrightarrow>
     (case root name of Some (Directory d) \<Rightarrow> dir_meta d \<noteq> None | _ \<Rightarrow> False)
     \<and> \<not> (first_opt name = Some (CHR ''.'') \<and> (contains ''.tmp-'' name \<or> contains ''.bak-'' name))"

section \<open>Handlers and jobs\<close>

datatype JobPhase = Accepted | Working | Finished "string option"

datatype Job =
    SaveJob (job_id: string) (job_session: string) (job_overwrite: bool) (job_phase: JobPhase)
  | LoadJob (job_id: string) (job_session: string) (job_phase: JobPhase)

record 'b Management =
  mg_operations :: OperationManager
  mg_store :: TimeSeriesStore
  mg_playback :: PlaybackInner
  mg_root :: "'b DataRoot"
  mg_jobs :: "Job list"

definition management_new :: "TimeSeriesStore \<Rightarrow> PlaybackInner \<Rightarrow> 'b DataRoot \<Rightarrow> 'b Management" where
  "management_new s p root = \<lparr>mg_operations = operations_new, mg_store = s, mg_playback = p, mg_root = root, mg_jobs = []\<rparr>"

definition accept_job :: "f64 \<Rightarrow> string \<Rightarrow> string \<Rightarrow> string \<Rightarrow> Job \<Rightarrow> 'b Management \<Rightarrow> (ApiError + string) \<times> 'b Management" where
  "accept_job now i kind name job m =
     (case operations_begin now i kind name (mg_operations m) of
        (Inl e, ops) \<Rightarrow> (Inl e, m\<lparr>mg_operations := ops\<rparr>)
      | (Inr r, ops) \<Rightarrow> (Inr (or_id r), m\<lparr>mg_operations := ops, mg_jobs := mg_jobs m @ [job]\<rparr>))"

definition session_save :: "f64 \<Rightarrow> string \<Rightarrow> string \<Rightarrow> bool \<Rightarrow> 'b Management \<Rightarrow> (ApiError + string) \<times> 'b Management" where
  "session_save now i name overwrite m =
     (case validate_session_name name of
        Inl e \<Rightarrow> (Inl e, m)
      | Inr _ \<Rightarrow>
          if mg_root m name \<noteq> None \<and> \<not> overwrite
          then (Inl (Conflict ''session_exists'' ''session already exists; set overwrite=true to replace it''), m)
          else accept_job now i ''save'' name (SaveJob i name overwrite Accepted) m)"

definition checked_existing_session_path :: "string \<Rightarrow> 'b DataRoot \<Rightarrow> ApiError + unit" where
  "checked_existing_session_path name root =
     (case root name of
        None \<Rightarrow> Inl (NotFoundError ''session_not_found'' ''session directory not found'')
      | Some Symlink \<Rightarrow> Inl (BadRequest ''invalid_session_path'' ''session symlinks are not allowed'')
      | Some _ \<Rightarrow> Inr ())"

definition session_load :: "f64 \<Rightarrow> string \<Rightarrow> string \<Rightarrow> 'b Management \<Rightarrow> (ApiError + string) \<times> 'b Management" where
  "session_load now i name m =
     (case validate_session_name name of
        Inl e \<Rightarrow> (Inl e, m)
      | Inr _ \<Rightarrow>
          (case checked_existing_session_path name (mg_root m) of
             Inl e \<Rightarrow> (Inl e, m)
           | Inr _ \<Rightarrow>
               if (case mg_root m name of Some (Directory _) \<Rightarrow> False | _ \<Rightarrow> True)
               then (Inl (NotFoundError ''session_not_found'' ''session directory not found''), m)
               else accept_job now i ''load'' name (LoadJob i name Accepted) m))"

definition memory_clear :: "bool \<Rightarrow> 'b Management \<Rightarrow> (ApiError + unit) \<times> 'b Management" where
  "memory_clear confirm m =
     (if \<not> confirm then (Inl (BadRequest ''confirmation_required'' ''confirm must be true''), m)
      else if om_active (mg_operations m)
      then (Inl (Conflict ''operation_busy'' ''a persistence operation is running''), m)
      else (Inr (), m\<lparr>mg_store := clear_store (mg_store m),
                     mg_playback := (case playback_reset_empty (mg_playback m) of Some (Inr (_, p)) \<Rightarrow> p | _ \<Rightarrow> mg_playback m),
                     mg_operations := notify_store_changed ''clear'' (mg_operations m)\<rparr>))"

text \<open>The blocking part of a load: the outcome with its error text.\<close>

definition load_into :: "'b Codec \<Rightarrow> (StoreError \<Rightarrow> string) \<Rightarrow> string \<Rightarrow> 'b Management \<Rightarrow> string option \<times> 'b Management" where
  "load_into k show_error name m =
     (case mg_root m name of
        Some (Directory d) \<Rightarrow>
          (case load_from_disk k d store_new of
             Inl e \<Rightarrow> (Some (show_error e), m)
           | Inr loaded \<Rightarrow>
               let s = replace_from loaded (mg_store m) in
               (None, m\<lparr>mg_store := s,
                  mg_playback := (case playback_reset_after_load s (mg_playback m) of Some (Inr (_, p)) \<Rightarrow> p | _ \<Rightarrow> mg_playback m)\<rparr>))
      | _ \<Rightarrow> (Some (show_error IoError), m))"

definition run_save ::
  "'b Codec \<Rightarrow> (StoreError \<Rightarrow> string) \<Rightarrow> 'b SaveFaults \<Rightarrow> string \<Rightarrow> string \<Rightarrow> bool \<Rightarrow> 'b Management \<Rightarrow> string option \<times> 'b Management" where
  "run_save k show_error x i name overwrite m =
     (let (result, roots) = save_snapshot_atomic k x (snapshot_clone (mg_store m)) name overwrite i (mg_root m)
      in (case result of Inl e \<Rightarrow> Some (show_error e) | Inr _ \<Rightarrow> None, m\<lparr>mg_root := last roots\<rparr>))"

definition finish_job :: "f64 \<Rightarrow> Job \<Rightarrow> string option \<Rightarrow> OperationManager \<Rightarrow> OperationManager" where
  "finish_job now j err ops =
     (let ops1 = operations_update now (job_id j) (if err = None then Succeeded else Failed) err ops in
      case j of LoadJob _ _ _ \<Rightarrow> if err = None then notify_store_changed ''load'' ops1 else ops1 | _ \<Rightarrow> ops1)"

text \<open>
  The steps: requests, the steps of the spawned tasks (a panic of the blocking part is its
  \<open>JoinError\<close>), and the rest of the program acting on the store and the playback controller.
\<close>

inductive management_step :: "'b Codec \<Rightarrow> (StoreError \<Rightarrow> string) \<Rightarrow> 'b Management \<Rightarrow> 'b Management \<Rightarrow> bool"
  for k show_error where
  save: "i \<notin> or_id ` set (om_records (mg_operations m)) \<Longrightarrow> management_step k show_error m (snd (session_save now i name ow m))"
| load: "i \<notin> or_id ` set (om_records (mg_operations m)) \<Longrightarrow> management_step k show_error m (snd (session_load now i name m))"
| clear: "management_step k show_error m (snd (memory_clear confirm m))"
| begin_save: "mg_jobs m = js @ SaveJob i name ow Accepted # js' \<Longrightarrow> management_step k show_error m
    (m\<lparr>mg_operations := operations_update now i Running None (mg_operations m), mg_jobs := js @ SaveJob i name ow Working # js'\<rparr>)"
| begin_load: "mg_jobs m = js @ LoadJob i name Accepted # js' \<Longrightarrow> management_step k show_error m
    (m\<lparr>mg_operations := operations_update now i Running None (mg_operations m), mg_jobs := js @ LoadJob i name Working # js'\<rparr>)"
| work_save: "mg_jobs m = js @ SaveJob i name ow Working # js' \<Longrightarrow> run_save k show_error x i name ow m = (err, m')
    \<Longrightarrow> management_step k show_error m (m'\<lparr>mg_jobs := js @ SaveJob i name ow (Finished err) # js'\<rparr>)"
| work_load: "mg_jobs m = js @ LoadJob i name Working # js' \<Longrightarrow> load_into k show_error name m = (err, m')
    \<Longrightarrow> management_step k show_error m (m'\<lparr>mg_jobs := js @ LoadJob i name (Finished err) # js'\<rparr>)"
| panic_save: "mg_jobs m = js @ SaveJob i name ow Working # js'
    \<Longrightarrow> management_step k show_error m (m\<lparr>mg_jobs := js @ SaveJob i name ow (Finished (Some join_error)) # js'\<rparr>)"
| panic_load: "mg_jobs m = js @ LoadJob i name Working # js'
    \<Longrightarrow> management_step k show_error m (m\<lparr>mg_jobs := js @ LoadJob i name (Finished (Some join_error)) # js'\<rparr>)"
| finish: "mg_jobs m = js @ j # js' \<Longrightarrow> job_phase j = Finished err
    \<Longrightarrow> management_step k show_error m (m\<lparr>mg_operations := finish_job now j err (mg_operations m), mg_jobs := js @ js'\<rparr>)"
| ingest: "management_step k show_error m (m\<lparr>mg_store := append_message now' msg (mg_store m)\<rparr>)"
| control: "management_step k show_error m (m\<lparr>mg_playback := p\<rparr>)"

end
