(* ===== verification/Operations_Properties.thy ===== *)
theory Operations_Properties
  imports Operations Samples
begin

text \<open>
  The management server runs one persistence operation at a time, its records say so, and a save
  never loses the session it replaces, whatever fails.
\<close>

section \<open>One operation at a time\<close>

definition management_reachable ::
  "'b Codec \<Rightarrow> (StoreError \<Rightarrow> string) \<Rightarrow> 'b Management \<Rightarrow> 'b Management \<Rightarrow> bool" where
  "management_reachable k show_error m0 m \<longleftrightarrow> (management_step k show_error)\<^sup>*\<^sup>* m0 m"

definition records_ok :: "string set \<Rightarrow> OperationManager \<Rightarrow> bool" where
  "records_ok ids ops \<longleftrightarrow>
     (om_active ops \<longleftrightarrow> ids \<noteq> {}) \<and> distinct (map or_id (om_records ops)) \<and> length (om_records ops) \<le> MAX_OPERATIONS
     \<and> ids \<subseteq> or_id ` set (om_records ops)
     \<and> (\<forall>r \<in> set (om_records ops). terminal_state (or_state r) \<longleftrightarrow> or_id r \<notin> ids)"

definition jobs_ok :: "'b Management \<Rightarrow> bool" where
  "jobs_ok m \<longleftrightarrow> length (mg_jobs m) \<le> 1 \<and> records_ok (job_id ` set (mg_jobs m)) (mg_operations m)"

lemma map_update_record: "or_id (f r) = i \<Longrightarrow> find (\<lambda>r. or_id r = i) rs = Some r
    \<Longrightarrow> map or_id (update_record i (\<lambda>_. f r) rs) = map or_id rs"
  by (induction rs) (auto split: if_splits)

lemma set_update_record:
  "find (\<lambda>r. or_id r = i) rs = Some r \<Longrightarrow> distinct (map or_id rs)
    \<Longrightarrow> set (update_record i (\<lambda>_. r') rs) = insert r' {x \<in> set rs. or_id x \<noteq> i}"
proof (induction rs)
  case (Cons x rs)
  show ?case
  proof (cases "or_id x = i")
    case True
    with Cons.prems(2) have "{y \<in> set rs. or_id y \<noteq> i} = set rs" by (auto simp: image_iff)
    with True show ?thesis by auto
  qed (use Cons in auto)
qed simp

lemma length_update_record [simp]: "length (update_record i f rs) = length rs"
  by (induction rs) simp_all

lemma update_records_ok:
  assumes ok: "records_ok {i} ops"
  shows "records_ok (if terminal_state st then {} else {i}) (operations_update now i st err ops)"
proof -
  obtain r where r: "find (\<lambda>r. or_id r = i) (om_records ops) = Some r"
    using ok by (cases "find (\<lambda>r. or_id r = i) (om_records ops)") (auto simp: records_ok_def find_None_iff)
  then have i: "or_id r = i" by (auto simp: find_Some_iff)
  have "set (update_record i (\<lambda>_. r\<lparr>or_state := st, or_error := err, or_updated_at_secs := now\<rparr>) (om_records ops))
      = insert (r\<lparr>or_state := st, or_error := err, or_updated_at_secs := now\<rparr>) {x \<in> set (om_records ops). or_id x \<noteq> i}"
    using ok by (intro set_update_record[OF r]) (simp add: records_ok_def)
  with ok r i map_update_record[of "\<lambda>r. r\<lparr>or_state := st, or_error := err, or_updated_at_secs := now\<rparr>" r i "om_records ops"]
  show ?thesis by (auto simp: records_ok_def operations_update_def Let_def)
qed

lemma begin_records_ok:
  assumes ok: "records_ok {} ops" and fresh: "i \<notin> or_id ` set (om_records ops)"
    and "operations_begin now i kind name ops = (Inr r, ops')"
  shows "records_ok {i} ops' \<and> or_id r = i"
proof -
  let ?r = "\<lparr>or_id = i, or_kind = kind, or_session = name, or_state = Queued, or_created_at_secs = now,
      or_updated_at_secs = now, or_error = None\<rparr>"
  have r: "r = ?r" and ops': "om_active ops'"
      "om_records ops' = drop (length (om_records ops) + 1 - MAX_OPERATIONS) (om_records ops @ [?r])"
    using assms(3) by (auto simp: operations_begin_def Let_def split: if_splits)
  have "length (om_records ops) \<le> MAX_OPERATIONS" using ok by (simp add: records_ok_def)
  then have "om_records ops' = drop (length (om_records ops) + 1 - MAX_OPERATIONS) (om_records ops) @ [?r]"
    unfolding ops'(2) by (simp add: MAX_OPERATIONS_def)
  with ok fresh ops'(1) r show ?thesis
    by (auto simp: records_ok_def terminal_state_def MAX_OPERATIONS_def drop_map[symmetric] dest: in_set_dropD)
qed

lemma accept_ok:
  assumes ok: "jobs_ok m" and fresh: "i \<notin> or_id ` set (om_records (mg_operations m))" and "job_id job = i"
  shows "jobs_ok (snd (accept_job now i kind name job m))"
proof (cases "operations_begin now i kind name (mg_operations m)")
  case (Pair res ops)
  show ?thesis
  proof (cases res)
    case (Inl e)
    with Pair have "ops = mg_operations m" by (auto simp: operations_begin_def Let_def split: if_splits)
    with Pair Inl ok show ?thesis by (simp add: accept_job_def jobs_ok_def)
  next
    case (Inr r)
    with Pair have "\<not> om_active (mg_operations m)" by (auto simp: operations_begin_def split: if_splits)
    with ok have "mg_jobs m = []" by (auto simp: jobs_ok_def records_ok_def)
    with ok begin_records_ok[of "mg_operations m" i now kind name r ops] fresh Pair Inr assms(3) show ?thesis
      by (simp add: accept_job_def jobs_ok_def)
  qed
qed

lemma one_job: "jobs_ok m \<Longrightarrow> mg_jobs m = js @ j # js' \<Longrightarrow> js = [] \<and> js' = []"
  by (auto simp: jobs_ok_def)

lemma working_ok:
  assumes ok: "jobs_ok m" and j: "mg_jobs m = js @ j # js'" "job_id j' = job_id j" and m': "mg_operations m' = mg_operations m"
  shows "jobs_ok (m'\<lparr>mg_jobs := js @ j' # js'\<rparr>)"
  using ok j m' one_job[OF ok j(1)] by (simp add: jobs_ok_def)

lemma notify_ok [simp]: "records_ok ids (notify_store_changed reason ops) = records_ok ids ops"
  by (simp add: records_ok_def notify_store_changed_def)

lemma run_save_frame: "mg_operations (snd (run_save k sh x i name ow m)) = mg_operations m"
  by (simp add: run_save_def split_beta)

lemma load_into_frame: "mg_operations (snd (load_into k sh name m)) = mg_operations m"
  by (auto simp: load_into_def Let_def split: option.split DirEntry.split sum.split)

lemma step_jobs_ok:
  assumes ok: "jobs_ok m" and st: "management_step k sh m m'"
  shows "jobs_ok m'"
  using st
proof cases
  case (save i now name ow)
  then show ?thesis using ok by (auto simp: session_save_def intro: accept_ok split: sum.split)
next
  case (load i now name)
  then show ?thesis using ok by (auto simp: session_load_def intro: accept_ok split: sum.split DirEntry.split option.split)
next
  case (clear confirm)
  then show ?thesis using ok by (auto simp: memory_clear_def jobs_ok_def)
next
  case (begin_save js i name ow js' now)
  from update_records_ok[of i "mg_operations m" Running now None] ok one_job[OF ok begin_save(2)] begin_save
  show ?thesis by (simp add: jobs_ok_def terminal_state_def)
next
  case (begin_load js i name js' now)
  from update_records_ok[of i "mg_operations m" Running now None] ok one_job[OF ok begin_load(2)] begin_load
  show ?thesis by (simp add: jobs_ok_def terminal_state_def)
next
  case (work_save js i name ow js' x err m1)
  then show ?thesis using working_ok[OF ok work_save(2), of _ m1] run_save_frame[of k sh x i name ow m] by simp
next
  case (work_load js i name js' err m1)
  then show ?thesis using working_ok[OF ok work_load(2), of _ m1] load_into_frame[of k sh name m] by simp
next
  case (panic_save js i name ow js' e)
  then show ?thesis using working_ok[OF ok panic_save(2), of _ m] by simp
next
  case (panic_load js i name js' e)
  then show ?thesis using working_ok[OF ok panic_load(2), of _ m] by simp
next
  case (finish js j js' err now)
  let ?st = "if err = None then Succeeded else Failed"
  from update_records_ok[of "job_id j" "mg_operations m" ?st now err] ok one_job[OF ok finish(2)] finish
  have "records_ok {} (finish_job now j err (mg_operations m))"
    by (cases j; cases err) (simp_all add: finish_job_def jobs_ok_def terminal_state_def Let_def)
  with finish one_job[OF ok finish(2)] show ?thesis by (simp add: jobs_ok_def)
qed (use ok in \<open>simp_all add: jobs_ok_def\<close>)

lemma management_new_ok: "jobs_ok (management_new s p root)"
  by (simp add: jobs_ok_def records_ok_def management_new_def operations_new_def)

lemma management_reachable_ok:
  assumes "management_reachable k sh (management_new s p root) m"
  shows "jobs_ok m"
  using assms unfolding management_reachable_def
  by (induction rule: rtranclp_induct) (rule management_new_ok, rule step_jobs_ok)

section \<open>Saves\<close>

lemma session_names:
  "temporary_name name i \<noteq> name" "backup_name name i \<noteq> name" "temporary_name name i \<noteq> backup_name name i"
  by (auto simp: temporary_name_def backup_name_def dest: arg_cong[where f = length])

text \<open>What a data root may look like during a save: \<open>d\<close> is the new session.\<close>

definition session_kept :: "string \<Rightarrow> string \<Rightarrow> 'b DirEntry \<Rightarrow> 'b DataRoot \<Rightarrow> 'b DataRoot \<Rightarrow> bool" where
  "session_kept name i d root r \<longleftrightarrow>
     (\<forall>n. n \<notin> {name, temporary_name name i, backup_name name i} \<longrightarrow> r n = root n)
     \<and> (r name = root name \<or> r name = Some d \<or> r name = None \<and> r (backup_name name i) = root name)"

lemma save_trace_kept:
  "\<forall>r \<in> set (snd (save_snapshot_atomic k x snapshot name ow i root)).
     session_kept name i (Directory (save_to_disk k snapshot)) root r"
  using session_names[of name i]
  by (auto simp: save_snapshot_atomic_def replace_target_def session_kept_def try_remove_def remove_entry_def rename_entry_def
      Let_def split: option.split prod.split)

lemma save_result:
  "(case fst (save_snapshot_atomic k x snapshot name ow i root) of
      Inr _ \<Rightarrow> last (snd (save_snapshot_atomic k x snapshot name ow i root)) name = Some (Directory (save_to_disk k snapshot))
        \<and> last (snd (save_snapshot_atomic k x snapshot name ow i root)) (temporary_name name i) = None
    | Inl _ \<Rightarrow> last (snd (save_snapshot_atomic k x snapshot name ow i root)) name = root name
        \<or> sv_restore_fails x \<and> last (snd (save_snapshot_atomic k x snapshot name ow i root)) name = None
           \<and> last (snd (save_snapshot_atomic k x snapshot name ow i root)) (backup_name name i) = root name
        \<or> drop_backup_fails x
           \<and> last (snd (save_snapshot_atomic k x snapshot name ow i root)) name = Some (Directory (save_to_disk k snapshot)))"
  using session_names[of name i]
  by (auto simp: save_snapshot_atomic_def replace_target_def try_remove_def remove_entry_def rename_entry_def
      Let_def split: option.split prod.split)

text \<open>A valid session name that the session list hides.\<close>

lemma hidden_session_name:
  "validate_session_name ''.a.tmp-1'' = Inr () \<and> \<not> listed root ''.a.tmp-1''"
proof -
  have "contains ''.tmp-'' ''.a.tmp-1''" unfolding contains_def by (intro bexI[of _ 2]) simp_all
  then show ?thesis by (simp add: validate_session_name_def name_char_def listed_def first_opt_def)
qed

section \<open>Properties\<close>


text \<open>C20: Whichever file operations fail and wherever a crash stops it, a save touches no other
  session, and at each moment the session of that name is the old one, or the new one, or missing
  with the old one in the backup directory. A save that reports success has put exactly the
  snapshot in place; one that reports an error has left the old session, or its backup when
  restoring failed too, or has replaced the session and failed only to drop the backup.\<close>

theorem session_save_keeps_session:
  "(\<forall>r \<in> set (snd (save_snapshot_atomic k x snapshot name ow i root)).
      (\<forall>n. n \<notin> {name, temporary_name name i, backup_name name i} \<longrightarrow> r n = root n)
      \<and> (r name = root name \<or> r name = Some (Directory (save_to_disk k snapshot))
         \<or> r name = None \<and> r (backup_name name i) = root name))
   \<and> (case fst (save_snapshot_atomic k x snapshot name ow i root) of
        Inr _ \<Rightarrow> last (snd (save_snapshot_atomic k x snapshot name ow i root)) name = Some (Directory (save_to_disk k snapshot))
          \<and> last (snd (save_snapshot_atomic k x snapshot name ow i root)) (temporary_name name i) = None
      | Inl _ \<Rightarrow> last (snd (save_snapshot_atomic k x snapshot name ow i root)) name = root name
          \<or> sv_restore_fails x \<and> last (snd (save_snapshot_atomic k x snapshot name ow i root)) name = None
             \<and> last (snd (save_snapshot_atomic k x snapshot name ow i root)) (backup_name name i) = root name
          \<or> drop_backup_fails x
             \<and> last (snd (save_snapshot_atomic k x snapshot name ow i root)) name = Some (Directory (save_to_disk k snapshot)))"
  using save_trace_kept[of k x snapshot name ow i root] save_result[of k x snapshot name ow i root]
  by (simp add: session_kept_def)

section \<open>A concrete save\<close>

definition demo_management :: "PlaybackInner \<Rightarrow> Payload Management" where
  "demo_management p = management_new store_new p (\<lambda>_. None)"

definition demo_saving :: "PlaybackInner \<Rightarrow> Payload Management" where
  "demo_saving p = snd (session_save time_1 ''op'' ''s'' False (demo_management p))"

lemma demo_saving_job: "mg_jobs (demo_saving p) = [SaveJob ''op'' ''s'' False Accepted]"
  by (simp add: demo_saving_def demo_management_def session_save_def validate_session_name_def name_char_def
      management_new_def accept_job_def operations_begin_def operations_new_def Let_def)

lemma demo_saving_reachable: "management_reachable k show_error (management_new store_new p (\<lambda>_. None)) (demo_saving p)"
  unfolding management_reachable_def demo_saving_def demo_management_def
  by (intro r_into_rtranclp management_step.save) (simp add: management_new_def operations_new_def)


definition demo_faults :: "Payload SaveFaults" where
  "demo_faults = \<lparr>clear_temporary_fails = False, save_fails = None, cleanup_fails = False, clear_backup_fails = False,
     retire_fails = False, place_fails = True, sv_restore_fails = False, drop_backup_fails = False\<rparr>"

lemma session_save_keeps_session_witness:
  "last (snd (save_snapshot_atomic demo_codec demo_faults store_new ''s'' True ''1'' (\<lambda>n. if n = ''s'' then Some OtherFile else None))) ''s''
     = Some OtherFile"
proof -
  let ?root = "\<lambda>n. if n = ''s'' then Some OtherFile else None"
  have "fst (save_snapshot_atomic demo_codec demo_faults store_new ''s'' True ''1'' ?root) = Inl IoError"
    by (simp add: save_snapshot_atomic_def replace_target_def demo_faults_def Let_def remove_entry_def temporary_name_def backup_name_def)
  with session_save_keeps_session[of demo_codec demo_faults store_new "''s''" True "''1''" ?root]
  show ?thesis by (simp add: demo_faults_def)
qed

end
