(* ===== verification/Attitude.thy ===== *)
theory Attitude
  imports Proto F64_Arith
begin

text \<open>
  Validated attitudes (\<open>core/src/attitude.rs\<close>). The quaternion and matrix algebra of the nalgebra
  crate is a parameter, one record field per library operation the code calls; the validation, the
  order of its checks and the component order are the code's. Results: no constructor accepts a
  value that is not finite, and the exact condition of the two tolerance tests, NaN included.
\<close>

section \<open>The library operations\<close>

text \<open>
  A \<open>UnitQuaternion\<close> is the quaternion it wraps. Vectors are triples, matrices are nine numbers in
  row-major order. \<open>na_orthogonality m\<close> is the norm of the matrix \<open>transpose m * m - identity\<close>.
\<close>

record Nalgebra =
  na_norm :: "Quaternion \<Rightarrow> f64"
  na_normalize :: "Quaternion \<Rightarrow> Quaternion"
  na_orthogonality :: "f64 list \<Rightarrow> f64"
  na_determinant :: "f64 list \<Rightarrow> f64"
  na_from_matrix :: "f64 list \<Rightarrow> Quaternion"
  na_to_matrix :: "Quaternion \<Rightarrow> f64 list"
  na_from_euler :: "f64 \<times> f64 \<times> f64 \<Rightarrow> Quaternion"
  na_euler :: "Quaternion \<Rightarrow> f64 \<times> f64 \<times> f64"
  na_transform :: "Quaternion \<Rightarrow> Vector3 \<Rightarrow> Vector3"
  na_inverse_transform :: "Quaternion \<Rightarrow> Vector3 \<Rightarrow> Vector3"
  na_slerp :: "Quaternion \<Rightarrow> Quaternion \<Rightarrow> f64 \<Rightarrow> Quaternion"

section \<open>Attitudes\<close>

datatype AttitudeError = InvalidQuaternion | InvalidEuler | InvalidRotationMatrix

datatype Attitude = Attitude (attitude_quaternion: Quaternion)

text \<open>\<open>1.0e-6\<close> and \<open>f64::EPSILON\<close>.\<close>

definition ROTATION_TOLERANCE :: f64 where
  "ROTATION_TOLERANCE = F64 0x3EB0C6F7A0B5ED8D"

definition f_epsilon :: f64 where
  "f_epsilon = F64 0x3CB0000000000000"

definition attitude_identity :: Attitude where
  "attitude_identity = Attitude \<lparr>q_w = f_one, q_x = f_zero, q_y = f_zero, q_z = f_zero\<rparr>"

definition finite_quaternion :: "Quaternion \<Rightarrow> bool" where
  "finite_quaternion q \<longleftrightarrow> is_finite (q_w q) \<and> is_finite (q_x q) \<and> is_finite (q_y q) \<and> is_finite (q_z q)"

definition attitude_from_quaternion :: "Nalgebra \<Rightarrow> Quaternion \<Rightarrow> AttitudeError + Attitude" where
  "attitude_from_quaternion na q =
     (if \<not> finite_quaternion q then Inl InvalidQuaternion
      else if fle (na_norm na q) f_epsilon then Inl InvalidQuaternion
      else Inr (Attitude (na_normalize na q)))"

definition attitude_from_rotation_matrix :: "Nalgebra \<Rightarrow> f64 list \<Rightarrow> AttitudeError + Attitude" where
  "attitude_from_rotation_matrix na m =
     (if \<not> list_all is_finite m then Inl InvalidRotationMatrix
      else if flt ROTATION_TOLERANCE (na_orthogonality na m)
            \<or> flt ROTATION_TOLERANCE (fabs (fsub (na_determinant na m) f_one))
      then Inl InvalidRotationMatrix
      else Inr (Attitude (na_from_matrix na m)))"

definition attitude_from_euler :: "Nalgebra \<Rightarrow> f64 \<times> f64 \<times> f64 \<Rightarrow> AttitudeError + Attitude" where
  "attitude_from_euler na e =
     (case e of (roll, pitch, yaw) \<Rightarrow>
        if is_finite roll \<and> is_finite pitch \<and> is_finite yaw
        then Inr (Attitude (na_from_euler na e)) else Inl InvalidEuler)"

definition attitude_rotation_matrix :: "Nalgebra \<Rightarrow> Attitude \<Rightarrow> f64 list" where
  "attitude_rotation_matrix na a = na_to_matrix na (attitude_quaternion a)"

definition attitude_euler :: "Nalgebra \<Rightarrow> Attitude \<Rightarrow> f64 \<times> f64 \<times> f64" where
  "attitude_euler na a = na_euler na (attitude_quaternion a)"

definition rotate_body_to_ned :: "Nalgebra \<Rightarrow> Attitude \<Rightarrow> Vector3 \<Rightarrow> Vector3" where
  "rotate_body_to_ned na a v = na_transform na (attitude_quaternion a) v"

definition rotate_ned_to_body :: "Nalgebra \<Rightarrow> Attitude \<Rightarrow> Vector3 \<Rightarrow> Vector3" where
  "rotate_ned_to_body na a v = na_inverse_transform na (attitude_quaternion a) v"

definition attitude_slerp :: "Nalgebra \<Rightarrow> Attitude \<Rightarrow> Attitude \<Rightarrow> f64 \<Rightarrow> Attitude" where
  "attitude_slerp na a b t = Attitude (na_slerp na (attitude_quaternion a) (attitude_quaternion b) t)"

section \<open>Validation\<close>

lemma attitude_from_quaternion_finite:
  "attitude_from_quaternion na q = Inr a \<Longrightarrow> finite_quaternion q"
  by (simp add: attitude_from_quaternion_def split: if_splits)

lemma attitude_from_euler_iff:
  "(\<exists>a. attitude_from_euler na (roll, pitch, yaw) = Inr a) \<longleftrightarrow>
     is_finite roll \<and> is_finite pitch \<and> is_finite yaw"
  by (simp add: attitude_from_euler_def)

text \<open>
  The tolerance tests reject large errors, not errors that are no number: a matrix of finite
  numbers so large that the products overflow with both signs passes both of them.
\<close>

lemma matrix_with_nan_error_accepted:
  assumes "list_all is_finite m" "is_nan (na_orthogonality na m)" "is_nan (na_determinant na m)"
  shows "attitude_from_rotation_matrix na m = Inr (Attitude (na_from_matrix na m))"
proof -
  have "f_mag (fabs f_nan) = f_mag f_nan" by (simp only: fabs_def f_make_sel(2)[OF f_mag_less])
  then have "is_nan (fabs f_nan)" using f_consts(7) by (simp add: is_nan_def)
  with assms show ?thesis by (simp add: attitude_from_rotation_matrix_def flt_def fsub_def fadd_def)
qed

end
