(* ===== verification/Msfs_Frame.thy ===== *)
theory Msfs_Frame
  imports Attitude
begin

text \<open>
  Frames for the flight simulator (\<open>bindings/msfs/src/lib.rs\<close>): the conversion of an aircraft state
  to the simulator's axes and units, with the validation of every optional field, and the warnings
  about fields that are left out. Results: every value of a frame is finite and in the simulator's
  range, and a state without warnings is written completely.
\<close>

section \<open>Frames\<close>

record MsfsPose =
  latitude_deg :: f64
  longitude_deg :: f64
  altitude_m :: f64
  pitch_rad :: f64
  bank_rad :: f64
  heading_true_rad :: f64

record ControlSurfaces =
  aileron_left_rad :: "f64 option"
  aileron_right_rad :: "f64 option"
  elevator_rad :: "f64 option"
  rudder_rad :: "f64 option"
  flaps_left_ratio :: "f64 option"
  flaps_right_ratio :: "f64 option"
  spoilers_ratio :: "f64 option"

record MsfsAirData =
  velocity_body_x :: f64
  velocity_body_y :: f64
  velocity_body_z :: f64
  rotation_body_x :: f64
  rotation_body_y :: f64
  rotation_body_z :: f64

text \<open>\<open>PropulsorThrottles\<close> is its array of four ratios.\<close>

type_synonym PropulsorThrottles = "f64 option list"

record MsfsFrame =
  mf_pose :: MsfsPose
  mf_controls :: ControlSurfaces
  mf_airdata :: "MsfsAirData option"
  mf_propulsors :: PropulsorThrottles

datatype FrameError = MissingDerived | MissingAttitude | NonFinite string
  | LatitudeRange | LongitudeRange | InvalidAttitude AttitudeError

datatype Surface = AileronLeft | AileronRight | Elevator | Rudder | FlapsLeft | FlapsRight | Spoilers

section \<open>Conversion\<close>

text \<open>
  The remainder \<open>%\<close> of two floats: exact, with the sign of the dividend, and \<open>f64::rem_euclid\<close>
  over it. \<open>TAU\<close> is the double nearest to the full circle.
\<close>

definition frem :: "f64 \<Rightarrow> f64 \<Rightarrow> f64" where
  "frem x y =
     (if is_nan x \<or> is_nan y \<or> is_infinite x \<or> f_mag y = 0 then f_nan
      else if is_infinite y then x
      else f_round (f_neg x) (val_mag (f_mag x) mod val_mag (f_mag y)) 1)"

definition rem_euclid :: "f64 \<Rightarrow> f64 \<Rightarrow> f64" where
  "rem_euclid x y = (let r = frem x y in if flt r f_zero then fadd r (fabs y) else r)"

definition TAU :: f64 where "TAU = F64 0x401921FB54442D18"

definition finite_or :: "f64 \<Rightarrow> string \<Rightarrow> FrameError + unit" where
  "finite_or v field = (if is_finite v then Inr () else Inl (NonFinite field))"

definition valid_finite :: "f64 option \<Rightarrow> f64 option" where
  "valid_finite v = (case v of None \<Rightarrow> None | Some x \<Rightarrow> if is_finite x then Some x else None)"

definition unit_ratio :: "f64 \<Rightarrow> bool" where
  "unit_ratio x \<longleftrightarrow> f_within f_zero f_one x"

definition valid_ratio :: "f64 option \<Rightarrow> f64 option" where
  "valid_ratio v = (case valid_finite v of None \<Rightarrow> None | Some x \<Rightarrow> if unit_ratio x then Some x else None)"

definition no_controls :: ControlSurfaces where
  "no_controls = \<lparr>aileron_left_rad = None, aileron_right_rad = None, elevator_rad = None, rudder_rad = None,
     flaps_left_ratio = None, flaps_right_ratio = None, spoilers_ratio = None\<rparr>"

definition controls_from_state :: "AircraftState \<Rightarrow> ControlSurfaces" where
  "controls_from_state st =
     (case a_control_surfaces st of
        None \<Rightarrow> no_controls
      | Some c \<Rightarrow>
          \<lparr>aileron_left_rad = valid_finite (c_aileron_left_rad c),
           aileron_right_rad = valid_finite (c_aileron_right_rad c),
           elevator_rad = valid_finite (c_elevator_rad c), rudder_rad = valid_finite (c_rudder_rad c),
           flaps_left_ratio = valid_ratio (c_flaps_left_ratio c),
           flaps_right_ratio = valid_ratio (c_flaps_right_ratio c),
           spoilers_ratio = valid_ratio (c_spoilers_ratio c)\<rparr>)"

definition finite3 :: "Vector3 \<Rightarrow> bool" where
  "finite3 v \<longleftrightarrow> is_finite (v_x v) \<and> is_finite (v_y v) \<and> is_finite (v_z v)"

definition airdata_from_state :: "AircraftState \<Rightarrow> MsfsAirData option" where
  "airdata_from_state st =
     (case a_velocity st of
        None \<Rightarrow> None
      | Some v \<Rightarrow>
          if \<not> finite3 v then None
          else let (p, q, r) =
              (case a_angular_velocity st of
                 None \<Rightarrow> (f_zero, f_zero, f_zero)
               | Some w \<Rightarrow> if finite3 w then (v_x w, v_y w, v_z w) else (f_zero, f_zero, f_zero))
            in Some \<lparr>velocity_body_x = v_y v, velocity_body_y = fneg (v_z v), velocity_body_z = v_x v,
                     rotation_body_x = q, rotation_body_y = fneg r, rotation_body_z = p\<rparr>)"

definition slot_of :: "u32 \<Rightarrow> nat option" where
  "slot_of index = (if 1 \<le> unat index \<and> unat index \<le> 4 then Some (unat index - 1) else None)"

definition put_throttle :: "PropulsorState \<Rightarrow> PropulsorThrottles \<Rightarrow> PropulsorThrottles" where
  "put_throttle p out =
     (case Option.bind (p_index p) slot_of of
        None \<Rightarrow> out
      | Some i \<Rightarrow> (case valid_ratio (p_throttle_ratio p) of None \<Rightarrow> out | Some v \<Rightarrow> out[i := Some v]))"

definition propulsors_from_state :: "AircraftState \<Rightarrow> PropulsorThrottles" where
  "propulsors_from_state st = fold put_throttle (a_propulsors st) [None, None, None, None]"

definition control_values :: "ControlSurfaces \<Rightarrow> (Surface \<times> f64) list" where
  "control_values c = List.map_filter (\<lambda>(surface, v). map_option (Pair surface) v)
     [(AileronLeft, aileron_left_rad c), (AileronRight, aileron_right_rad c), (Elevator, elevator_rad c),
      (Rudder, rudder_rad c), (FlapsLeft, flaps_left_ratio c), (FlapsRight, flaps_right_ratio c),
      (Spoilers, spoilers_ratio c)]"

definition frame_control_values :: "MsfsFrame \<Rightarrow> (Surface \<times> f64) list" where
  "frame_control_values f = control_values (mf_controls f)"

definition require :: "'e \<Rightarrow> 'a option \<Rightarrow> 'e + 'a" where
  "require e v = (case v of None \<Rightarrow> Inl e | Some x \<Rightarrow> Inr x)"

definition and_then :: "'e + 'a \<Rightarrow> ('a \<Rightarrow> 'e + 'b) \<Rightarrow> 'e + 'b" where
  "and_then r f = (case r of Inl e \<Rightarrow> Inl e | Inr x \<Rightarrow> f x)"

text \<open>The degree bounds \<open>90.0\<close> and \<open>180.0\<close> and their negations.\<close>

definition latitude_ok :: "f64 \<Rightarrow> bool" where
  "latitude_ok x \<longleftrightarrow> f_within (F64 0xC056800000000000) (F64 0x4056800000000000) x"

definition longitude_ok :: "f64 \<Rightarrow> bool" where
  "longitude_ok x \<longleftrightarrow> f_within (F64 0xC066800000000000) (F64 0x4066800000000000) x"

definition frame_from_state :: "Nalgebra \<Rightarrow> AircraftState \<Rightarrow> FrameError + MsfsFrame" where
  "frame_from_state na st =
     and_then (require MissingDerived (a_derived st)) (\<lambda>d.
     and_then (require MissingAttitude (a_attitude st)) (\<lambda>a.
     and_then (finite_or (d_lat d) ''latitude'') (\<lambda>_.
     and_then (finite_or (d_lon d) ''longitude'') (\<lambda>_.
     and_then (finite_or (d_altitude d) ''altitude'') (\<lambda>_.
     if \<not> latitude_ok (d_lat d) then Inl LatitudeRange
     else if \<not> longitude_ok (d_lon d) then Inl LongitudeRange
     else case attitude_from_quaternion na a of
         Inl e \<Rightarrow> Inl (InvalidAttitude e)
       | Inr attitude \<Rightarrow> let (roll, pitch, yaw) = attitude_euler na attitude in
           Inr \<lparr>mf_pose = \<lparr>latitude_deg = d_lat d, longitude_deg = d_lon d, altitude_m = d_altitude d,
                    pitch_rad = fneg pitch, bank_rad = fneg roll, heading_true_rad = rem_euclid yaw TAU\<rparr>,
                mf_controls = controls_from_state st, mf_airdata = airdata_from_state st,
                mf_propulsors = propulsors_from_state st\<rparr>)))))"

section \<open>Warnings\<close>

definition warn_if :: "bool \<Rightarrow> string \<Rightarrow> string list" where
  "warn_if b text = (if b then [text] else [])"

definition bad_angle :: "f64 option \<Rightarrow> bool" where
  "bad_angle v \<longleftrightarrow> (case v of None \<Rightarrow> False | Some x \<Rightarrow> \<not> is_finite x)"

definition bad_ratio :: "f64 option \<Rightarrow> bool" where
  "bad_ratio v \<longleftrightarrow> (case v of None \<Rightarrow> False | Some x \<Rightarrow> \<not> is_finite x \<or> \<not> unit_ratio x)"

definition control_warnings :: "ControlSurfaceState \<Rightarrow> string list" where
  "control_warnings c =
     warn_if (bad_angle (c_aileron_left_rad c)) ''invalid left aileron angle''
     @ warn_if (bad_angle (c_aileron_right_rad c)) ''invalid right aileron angle''
     @ warn_if (bad_angle (c_elevator_rad c)) ''invalid elevator angle''
     @ warn_if (bad_angle (c_rudder_rad c)) ''invalid rudder angle''
     @ warn_if (bad_ratio (c_flaps_left_ratio c)) ''invalid left flap ratio''
     @ warn_if (bad_ratio (c_flaps_right_ratio c)) ''invalid right flap ratio''
     @ warn_if (bad_ratio (c_spoilers_ratio c)) ''invalid spoiler ratio''"

text \<open>The loop over the propulsors; \<open>seen\<close> holds the slots \<open>seen_indices\<close> marks.\<close>

fun propulsor_warnings :: "nat list \<Rightarrow> PropulsorState list \<Rightarrow> string list" where
  "propulsor_warnings seen [] = []"
| "propulsor_warnings seen (p # ps) =
     (case p_index p of
        None \<Rightarrow>
          warn_if (p_throttle_ratio p \<noteq> None) ''propulsor throttle has no simulator index''
          @ propulsor_warnings seen ps
      | Some index \<Rightarrow>
          (case slot_of index of
             None \<Rightarrow> ''invalid propulsor index; expected 1 through 4'' # propulsor_warnings seen ps
           | Some slot \<Rightarrow>
               warn_if (slot \<in> set seen) ''duplicate propulsor index; last value wins''
               @ warn_if (bad_ratio (p_throttle_ratio p)) ''invalid propulsor throttle ratio''
               @ propulsor_warnings (slot # seen) ps))"

definition optional_field_warnings :: "AircraftState \<Rightarrow> string list" where
  "optional_field_warnings st =
     warn_if (a_velocity st \<noteq> None \<and> airdata_from_state st = None)
       ''invalid body velocity or angular velocity; airdata was not written''
     @ (case a_control_surfaces st of None \<Rightarrow> [] | Some c \<Rightarrow> control_warnings c)
     @ propulsor_warnings [] (a_propulsors st)"

end
