(* ===== verification/Msfs_Frame_Properties.thy ===== *)
theory Msfs_Frame_Properties
  imports Msfs_Frame
begin

text \<open>
  What a frame may contain and what the warnings mean: the ranges of every value the simulator is
  given, that a state without warnings is written completely, and the two places where the code
  deviates from its messages (angular velocity that is replaced silently, and a heading of a full
  circle).
\<close>

section \<open>The heading\<close>

lemma TAU_facts: "is_finite TAU" "\<not> f_neg TAU" "ord_key TAU = int (f_mag TAU)" "0 < f_mag TAU"
    "fabs TAU = TAU"
proof -
  have n: "\<not> f_neg TAU" by (simp add: TAU_def f_neg_def bits_nat_def)
  show "is_finite TAU" "0 < f_mag TAU"
    by (simp_all add: TAU_def is_finite_def f_mag_def bits_nat_def inf_mag_def)
  show "\<not> f_neg TAU" "ord_key TAU = int (f_mag TAU)" using n by (simp_all add: ord_key_def)
  show "fabs TAU = TAU" using f_make_same[of TAU] n by (simp add: fabs_def)
qed

lemma round_below:
  assumes "n \<le> val_mag m" "m \<le> inf_mag"
  shows "round_mag n 1 \<le> m"
proof -
  have "round_mag n 1 \<le> round_mag (val_mag m) 1" using assms by (intro round_mag_mono) simp_all
  with assms show ?thesis by simp
qed

text \<open>The remainder by a positive divisor, brought up by it when negative, lies between zero and it.\<close>

lemma rem_euclid_bounds:
  assumes x: "is_finite x" and y: "is_finite y" "\<not> f_neg y" "0 < f_mag y"
  shows "fle f_zero (rem_euclid x y) \<and> fle (rem_euclid x y) y"
proof -
  let ?n = "val_mag (f_mag x) mod val_mag (f_mag y)" and ?r = "frem x y"
  have my: "f_mag y < inf_mag" and ky: "ord_key y = int (f_mag y)"
    using y by (simp_all add: is_finite_def ord_key_def)
  have "val_mag (f_mag y) \<noteq> 0" using val_mag_zero_iff[of "f_mag y"] my y(3) by simp
  then have n: "?n < val_mag (f_mag y)" by simp
  have r: "?r = f_round (f_neg x) ?n 1"
    using x y my by (simp add: frem_def is_infinite_def is_finite_def)
  have le: "round_mag ?n 1 \<le> f_mag y" using n my by (intro round_below) simp_all
  show ?thesis
  proof (cases "flt ?r f_zero")
    case False
    then have "0 \<le> ord_key ?r" by (simp add: flt_def r)
    moreover from this le have "ord_key ?r \<le> ord_key y" by (simp add: r ky split: if_splits)
    ultimately show ?thesis using False y(1) by (simp add: rem_euclid_def r fle_def)
  next
    case True
    then have neg: "f_neg x" and pos: "0 < round_mag ?n 1"
      by (auto simp: flt_def r split: if_splits)
    let ?m = "round_mag ?n 1"
    have fr: "f_neg ?r" "f_mag ?r = ?m" "is_finite ?r" "\<not> is_infinite ?r" "\<not> is_infinite y"
      using neg le my by (simp_all add: r f_round_def is_finite_def is_infinite_def)
    have v: "0 \<le> f_units y + f_units ?r" "f_units y + f_units ?r \<le> int (val_mag (f_mag y))"
      using val_mag_mono[OF le] my fr y by (simp_all add: f_units_def)
    have fy: "fabs y = y" using f_make_same[of y] y(2) by (simp add: fabs_def)
    have e: "rem_euclid x y = fadd ?r y" using True fy by (simp add: rem_euclid_def)
    show ?thesis
    proof (cases "f_units ?r + f_units y = 0")
      case True
      with fr y(1,2) have "fadd ?r y = f_make False 0"
        by (simp add: fadd_def Let_def)
      then show ?thesis using y ky by (simp add: e fle_def)
    next
      case False
      define s where "s = f_units ?r + f_units y"
      have s: "0 < s" "nat s \<le> val_mag (f_mag y)"
        using False v by (simp_all add: s_def)
      have "fadd ?r y = f_round False (nat s) 1"
        using fr y(1,2) s(1) by (simp add: fadd_def Let_def s_def[symmetric])
      moreover have "round_mag (nat s) 1 \<le> f_mag y" using s(2) my by (intro round_below) simp_all
      ultimately show ?thesis using y ky by (simp add: e fle_def)
    qed
  qed
qed

lemmas heading_bounds = rem_euclid_bounds[OF _ TAU_facts(1,2,4)]

section \<open>Every value is writable\<close>

lemma fneg_finite [simp]: "is_finite (fneg x) \<longleftrightarrow> is_finite x"
proof -
  have "f_mag (fneg x) = f_mag x" by (simp only: fneg_def f_make_sel(2)[OF f_mag_less])
  then show ?thesis by (simp add: is_finite_def)
qed

lemma valid_finite_Some [simp]: "valid_finite v = Some x \<longleftrightarrow> v = Some x \<and> is_finite x"
  by (auto simp: valid_finite_def split: option.splits)

lemma valid_ratio_Some [simp]: "valid_ratio v = Some x \<longleftrightarrow> v = Some x \<and> is_finite x \<and> unit_ratio x"
  by (auto simp: valid_ratio_def valid_finite_def split: option.splits if_splits)

lemma and_then_Inr: "and_then r f = Inr y \<longleftrightarrow> (\<exists>x. r = Inr x \<and> f x = Inr y)"
  by (cases r) (simp_all add: and_then_def)

lemma require_Inr: "require e v = Inr x \<longleftrightarrow> v = Some x"
  by (cases v) (simp_all add: require_def)

lemma finite_or_Inr: "finite_or v n = Inr u \<longleftrightarrow> is_finite v"
  by (simp add: finite_or_def)

definition ratio_surface :: "Surface \<Rightarrow> bool" where
  "ratio_surface s \<longleftrightarrow> s \<in> {FlapsLeft, FlapsRight, Spoilers}"

definition airdata_finite :: "MsfsAirData \<Rightarrow> bool" where
  "airdata_finite a \<longleftrightarrow> is_finite (velocity_body_x a) \<and> is_finite (velocity_body_y a) \<and> is_finite (velocity_body_z a)
     \<and> is_finite (rotation_body_x a) \<and> is_finite (rotation_body_y a) \<and> is_finite (rotation_body_z a)"

definition pose_valid :: "MsfsPose \<Rightarrow> bool" where
  "pose_valid p \<longleftrightarrow> latitude_ok (latitude_deg p) \<and> longitude_ok (longitude_deg p) \<and> is_finite (altitude_m p)
     \<and> is_finite (pitch_rad p) \<and> is_finite (bank_rad p) \<and> f_within f_zero TAU (heading_true_rad p)"

definition frame_valid :: "MsfsFrame \<Rightarrow> bool" where
  "frame_valid f \<longleftrightarrow> pose_valid (mf_pose f)
     \<and> (\<forall>(s, v) \<in> set (frame_control_values f). is_finite v \<and> (ratio_surface s \<longrightarrow> unit_ratio v))
     \<and> (case mf_airdata f of None \<Rightarrow> True | Some a \<Rightarrow> airdata_finite a)
     \<and> length (mf_propulsors f) = 4 \<and> (\<forall>v \<in> set (mf_propulsors f). case v of None \<Rightarrow> True | Some r \<Rightarrow> unit_ratio r)"

definition surface_value :: "Surface \<Rightarrow> ControlSurfaces \<Rightarrow> f64 option" where
  "surface_value s c = (case s of AileronLeft \<Rightarrow> aileron_left_rad c | AileronRight \<Rightarrow> aileron_right_rad c
     | Elevator \<Rightarrow> elevator_rad c | Rudder \<Rightarrow> rudder_rad c | FlapsLeft \<Rightarrow> flaps_left_ratio c
     | FlapsRight \<Rightarrow> flaps_right_ratio c | Spoilers \<Rightarrow> spoilers_ratio c)"

lemma set_control_values: "(s, v) \<in> set (control_values c) \<longleftrightarrow> surface_value s c = Some v"
  unfolding control_values_def set_map_filter_iff by (cases s) (simp_all add: surface_value_def)

lemma controls_valid:
  "(s, v) \<in> set (control_values (controls_from_state st)) \<Longrightarrow>
     is_finite v \<and> (ratio_surface s \<longrightarrow> unit_ratio v)"
  by (cases s) (auto simp: set_control_values surface_value_def controls_from_state_def no_controls_def
      ratio_surface_def split: option.splits)

lemma airdata_valid: "airdata_from_state st = Some a \<Longrightarrow> airdata_finite a"
  by (auto simp: airdata_from_state_def airdata_finite_def finite3_def Let_def split: option.splits if_splits)

lemma put_throttle_length [simp]: "length (put_throttle p out) = length out"
  by (simp add: put_throttle_def split: option.splits)

lemma fold_throttle_length [simp]: "length (fold put_throttle ps out) = length out"
  by (induction ps arbitrary: out) simp_all

definition throttles_ok :: "PropulsorThrottles \<Rightarrow> bool" where
  "throttles_ok out \<longleftrightarrow> (\<forall>v \<in> set out. case v of None \<Rightarrow> True | Some r \<Rightarrow> unit_ratio r)"

lemma put_throttle_ok: "throttles_ok out \<Longrightarrow> throttles_ok (put_throttle p out)"
  by (auto simp: put_throttle_def throttles_ok_def split: option.splits
      dest!: set_update_subset_insert[THEN subsetD])

lemma fold_throttle_ok: "throttles_ok out \<Longrightarrow> throttles_ok (fold put_throttle ps out)"
  by (induction ps arbitrary: out) (simp_all add: put_throttle_ok)

lemma frame_fields:
  assumes "frame_from_state na st = Inr f"
  obtains d a attitude roll pitch yaw where
    "a_derived st = Some d" "a_attitude st = Some a" "attitude_from_quaternion na a = Inr attitude"
    "attitude_euler na attitude = (roll, pitch, yaw)"
    "latitude_ok (d_lat d)" "longitude_ok (d_lon d)" "is_finite (d_altitude d)"
    "mf_pose f = \<lparr>latitude_deg = d_lat d, longitude_deg = d_lon d, altitude_m = d_altitude d,
       pitch_rad = fneg pitch, bank_rad = fneg roll, heading_true_rad = rem_euclid yaw TAU\<rparr>"
    "mf_controls f = controls_from_state st" "mf_airdata f = airdata_from_state st"
    "mf_propulsors f = propulsors_from_state st"
  using assms
  by (auto simp: frame_from_state_def and_then_Inr require_Inr finite_or_Inr Let_def
      split: if_splits sum.splits prod.splits)

text \<open>Every frame made from a state is writable.\<close>

theorem frame_values_valid:
  assumes "frame_from_state na st = Inr f"
    and euler: "\<And>a. case attitude_euler na a of (roll, pitch, yaw) \<Rightarrow> is_finite roll \<and> is_finite pitch \<and> is_finite yaw"
  shows "frame_valid f"
  using assms(1)
proof (rule frame_fields)
  fix d a attitude roll pitch yaw
  assume e: "attitude_euler na attitude = (roll, pitch, yaw)"
    and d: "latitude_ok (d_lat d)" "longitude_ok (d_lon d)" "is_finite (d_altitude d)"
    and p: "mf_pose f = \<lparr>latitude_deg = d_lat d, longitude_deg = d_lon d, altitude_m = d_altitude d,
       pitch_rad = fneg pitch, bank_rad = fneg roll, heading_true_rad = rem_euclid yaw TAU\<rparr>"
    and c: "mf_controls f = controls_from_state st" and ad: "mf_airdata f = airdata_from_state st"
    and t: "mf_propulsors f = propulsors_from_state st"
  have "pose_valid (mf_pose f)"
    using euler[of attitude] e d heading_bounds[of yaw] by (simp add: p pose_valid_def f_within_def)
  moreover have "throttles_ok (mf_propulsors f)"
    unfolding t propulsors_from_state_def by (rule fold_throttle_ok) (simp add: throttles_ok_def)
  moreover have "length (mf_propulsors f) = 4" by (simp add: t propulsors_from_state_def)
  ultimately show ?thesis
    using controls_valid[of _ _ st] airdata_valid[of st]
    by (auto simp: frame_valid_def frame_control_values_def c ad throttles_ok_def split: option.split)
qed

text \<open>A library in which every quaternion is its own normal form, and a complete state.\<close>

definition demo_na :: Nalgebra where
  "demo_na = \<lparr>na_norm = (\<lambda>q. fabs (q_w q)), na_normalize = (\<lambda>q. q), na_orthogonality = (\<lambda>m. f_zero),
     na_determinant = (\<lambda>m. f_one), na_from_matrix = (\<lambda>m. attitude_quaternion attitude_identity),
     na_to_matrix = (\<lambda>q. []), na_from_euler = (\<lambda>e. attitude_quaternion attitude_identity),
     na_euler = (\<lambda>q. (f_zero, f_zero, f_one)), na_transform = (\<lambda>q v. v), na_inverse_transform = (\<lambda>q v. v),
     na_slerp = (\<lambda>a b t. a)\<rparr>"

definition demo_flying :: AircraftState where
  "demo_flying = empty_state\<lparr>
     a_velocity := Some \<lparr>v_x = f_one, v_y = f_zero, v_z = f_one\<rparr>,
     a_attitude := Some (attitude_quaternion attitude_identity),
     a_derived := Some \<lparr>d_lat = f_one, d_lon = f_one, d_altitude = f_one, d_alpha = f_zero, d_beta = f_zero,
       d_tas = f_zero, d_eas = f_zero, d_gamma = f_zero, d_chi = f_zero, d_ias = None, d_cas = None, d_mach = None,
       d_ground_speed = None, d_vertical_speed = None, d_dynamic_pressure = None, d_normal_load_factor = None\<rparr>,
     a_control_surfaces := Some \<lparr>c_aileron_left_rad = Some f_one, c_aileron_right_rad = None, c_elevator_rad = None,
       c_rudder_rad = None, c_flaps_left_ratio = Some f_one, c_flaps_right_ratio = None, c_spoilers_ratio = None\<rparr>,
     a_propulsors := [\<lparr>p_propulsor_id = ''e'', p_kind = 0, p_throttle_ratio = Some f_one, p_rpm = None,
       p_blade_pitch_rad = None, p_thrust_newton = None, p_torque_newton_meter = None, p_index = Some 2\<rparr>]\<rparr>"

lemma demo_frame_made: "\<exists>f. frame_from_state demo_na demo_flying = Inr f"
proof -
  have "latitude_ok f_one" "longitude_ok f_one" "\<not> fle (fabs f_one) f_epsilon"
    by (simp_all add: latitude_ok_def longitude_ok_def f_within_def fle_def is_nan_def ord_key_def f_mag_def f_neg_def
        bits_nat_def f_one_def f_epsilon_def inf_mag_def fabs_def f_make_def)
  then show ?thesis
    by (simp add: frame_from_state_def demo_flying_def empty_state_def and_then_def require_def finite_or_def
        attitude_from_quaternion_def attitude_identity_def finite_quaternion_def demo_na_def split: prod.split)
qed

lemma frame_values_valid_witness:
  "\<exists>f. frame_from_state demo_na demo_flying = Inr f \<and> frame_valid f"
  using demo_frame_made frame_values_valid[of demo_na demo_flying]
  by (auto simp: demo_na_def attitude_euler_def)

section \<open>What the warnings cover\<close>

definition sent_controls :: "ControlSurfaceState option \<Rightarrow> ControlSurfaces" where
  "sent_controls c = (case c of None \<Rightarrow> no_controls | Some c \<Rightarrow>
     \<lparr>aileron_left_rad = c_aileron_left_rad c, aileron_right_rad = c_aileron_right_rad c,
      elevator_rad = c_elevator_rad c, rudder_rad = c_rudder_rad c, flaps_left_ratio = c_flaps_left_ratio c,
      flaps_right_ratio = c_flaps_right_ratio c, spoilers_ratio = c_spoilers_ratio c\<rparr>)"

lemma warn_if_Nil [simp]: "warn_if b t = [] \<longleftrightarrow> \<not> b"
  by (simp add: warn_if_def)

lemma good_angle: "\<not> bad_angle v \<Longrightarrow> valid_finite v = v"
  by (cases v) (simp_all add: bad_angle_def valid_finite_def)

lemma good_ratio: "\<not> bad_ratio v \<Longrightarrow> valid_ratio v = v"
  by (cases v) (simp_all add: bad_ratio_def valid_ratio_def valid_finite_def)

lemma slot_of_less: "slot_of i = Some k \<Longrightarrow> k < 4"
  by (auto simp: slot_of_def split: if_splits)

lemma put_throttle_slot:
  assumes "p_index p = Some i" "slot_of i = Some k" "\<not> bad_ratio (p_throttle_ratio p)"
  shows "put_throttle p out = (case p_throttle_ratio p of None \<Rightarrow> out | Some v \<Rightarrow> out[k := Some v])"
  using assms good_ratio[of "p_throttle_ratio p"] by (simp add: put_throttle_def split: option.split)

lemma silent_propulsors:
  assumes "propulsor_warnings seen ps = []" "length out = 4"
  shows "(\<forall>k \<in> set seen. fold put_throttle ps out ! k = out ! k)
    \<and> (\<forall>p \<in> set ps. \<forall>v. p_throttle_ratio p = Some v \<longrightarrow>
         (\<exists>i k. p_index p = Some i \<and> slot_of i = Some k \<and> fold put_throttle ps out ! k = Some v))"
  using assms
proof (induction ps arbitrary: seen out)
  case (Cons p ps)
  show ?case
  proof (cases "p_index p")
    case None
    then have "put_throttle p out = out" by (simp add: put_throttle_def)
    with Cons.IH[of seen out] Cons.prems None show ?thesis by auto
  next
    case (Some i)
    with Cons.prems obtain k where k: "slot_of i = Some k" "k \<notin> set seen" "\<not> bad_ratio (p_throttle_ratio p)"
      "propulsor_warnings (k # seen) ps = []"
      by (auto split: option.splits)
    define out' where "out' = put_throttle p out"
    have IH: "\<forall>j \<in> set (k # seen). fold put_throttle ps out' ! j = out' ! j"
      "\<forall>q \<in> set ps. \<forall>v. p_throttle_ratio q = Some v \<longrightarrow>
         (\<exists>i k. p_index q = Some i \<and> slot_of i = Some k \<and> fold put_throttle ps out' ! k = Some v)"
      using Cons.IH[OF k(4), of out'] Cons.prems(2) by (simp_all add: out'_def)
    have out': "out' = (case p_throttle_ratio p of None \<Rightarrow> out | Some v \<Rightarrow> out[k := Some v])"
      unfolding out'_def by (rule put_throttle_slot[OF Some k(1,3)])
    have "out' ! j = out ! j" if "j \<in> set seen" for j
      using that k(2) by (cases "j = k") (auto simp: out' split: option.split)
    moreover have "out' ! k = Some v" if "p_throttle_ratio p = Some v" for v
      using that slot_of_less[OF k(1)] Cons.prems(2) by (simp add: out')
    ultimately show ?thesis using IH Some k(1) by (auto simp: out'_def[symmetric])
  qed
qed simp

text \<open>A state that raises no warning is written completely.\<close>

theorem silent_state_written_completely:
  assumes f: "frame_from_state na st = Inr f" and silent: "optional_field_warnings st = []"
  shows "mf_controls f = sent_controls (a_control_surfaces st)
    \<and> (mf_airdata f = None \<longleftrightarrow> a_velocity st = None)
    \<and> (\<forall>p \<in> set (a_propulsors st). \<forall>v. p_throttle_ratio p = Some v \<longrightarrow>
         (\<exists>i k. p_index p = Some i \<and> slot_of i = Some k \<and> mf_propulsors f ! k = Some v))"
proof (intro conjI)
  have eq: "mf_controls f = controls_from_state st" "mf_airdata f = airdata_from_state st"
    "mf_propulsors f = propulsors_from_state st"
    using f by (auto elim: frame_fields)
  have c: "case a_control_surfaces st of None \<Rightarrow> True | Some c \<Rightarrow> control_warnings c = []"
    and p: "propulsor_warnings [] (a_propulsors st) = []"
    and v: "a_velocity st = None \<or> airdata_from_state st \<noteq> None"
    using silent by (auto simp: optional_field_warnings_def split: option.splits)
  show "mf_controls f = sent_controls (a_control_surfaces st)"
    using c by (auto simp: eq controls_from_state_def sent_controls_def control_warnings_def good_angle good_ratio
        split: option.splits)
  show "mf_airdata f = None \<longleftrightarrow> a_velocity st = None"
    using v by (auto simp: eq airdata_from_state_def)
  show "\<forall>p \<in> set (a_propulsors st). \<forall>v. p_throttle_ratio p = Some v \<longrightarrow>
         (\<exists>i k. p_index p = Some i \<and> slot_of i = Some k \<and> mf_propulsors f ! k = Some v)"
    using silent_propulsors[OF p, of "[None, None, None, None]"] by (simp add: eq propulsors_from_state_def)
qed

lemma silent_state_written_completely_witness:
  "\<exists>f. frame_from_state demo_na demo_flying = Inr f \<and> aileron_left_rad (mf_controls f) = Some f_one
    \<and> mf_airdata f \<noteq> None \<and> mf_propulsors f ! 1 = Some f_one"
proof -
  obtain f where f: "frame_from_state demo_na demo_flying = Inr f" using demo_frame_made by blast
  have "unit_ratio f_one"
    by (simp add: unit_ratio_def f_within_def fle_def ord_key_def is_nan_def f_mag_def f_neg_def bits_nat_def f_one_def
        f_zero_def inf_mag_def)
  then have "optional_field_warnings demo_flying = []"
    by (simp add: optional_field_warnings_def demo_flying_def empty_state_def airdata_from_state_def finite3_def
        control_warnings_def warn_if_def bad_angle_def bad_ratio_def slot_of_def)
  from silent_state_written_completely[OF f this] f show ?thesis
    by (auto simp: demo_flying_def empty_state_def sent_controls_def slot_of_def)
qed

text \<open>
  The warning about airdata names the angular velocity, which never suppresses it: rates that are
  not finite are replaced by zeros, without a warning.
\<close>

lemma bad_rates_zeroed:
  assumes "a_velocity st = Some v" "finite3 v" "a_angular_velocity st = Some w" "\<not> finite3 w"
  shows "airdata_from_state st = Some \<lparr>velocity_body_x = v_y v, velocity_body_y = fneg (v_z v), velocity_body_z = v_x v,
      rotation_body_x = f_zero, rotation_body_y = fneg f_zero, rotation_body_z = f_zero\<rparr>"
    and "optional_field_warnings (st\<lparr>a_control_surfaces := None, a_propulsors := []\<rparr>) = []"
  using assms by (simp_all add: airdata_from_state_def optional_field_warnings_def warn_if_def)

text \<open>The heading is documented as normalised below the full circle; it can be the full circle.\<close>

lemma quotient_remainder: "r < m \<Longrightarrow> (q * m + r) div m = q \<and> (q * m + r) mod m = (r :: nat)"
  by simp

lemma round_predecessor:
  assumes c: "2 ^ 52 < c" "c < 2 ^ 53" and n: "2 \<le> n" "n * 2 ^ 52 + c \<le> inf_mag"
  shows "round_mag (c * 2 ^ n - 1) 1 = n * 2 ^ 52 + c"
proof -
  let ?s = "c * 2 ^ n - (1::nat)"
  have two: "4 \<le> (2::nat) ^ n" using power_increasing[OF n(1), of "2::nat"] by simp
  have split: "?s = (c - 1) * 2 ^ n + (2 ^ n - 1)"
    using c two by (simp add: diff_mult_distrib)
  have "2 ^ (52 + n) \<le> ?s"
  proof -
    have "2 ^ 52 * 2 ^ n \<le> (c - 1) * (2::nat) ^ n" using c by (intro mult_le_mono1) simp
    then show ?thesis by (simp only: split power_add)
  qed
  moreover have "?s < 2 ^ Suc (52 + n)"
  proof -
    have "c * 2 ^ n < 2 ^ 53 * (2::nat) ^ n" using c by simp
    then have "?s < 2 ^ 53 * 2 ^ n" by linarith
    then show ?thesis by (simp add: power_add)
  qed
  ultimately have k: "bitlen ?s - 53 = n" by (simp add: bitlen_eqI)
  have "?s div 2 ^ n = c - 1" "?s mod 2 ^ n = 2 ^ n - 1"
    unfolding split using quotient_remainder[of "2 ^ n - 1" "2 ^ n" "c - 1"] two by simp_all
  moreover have "\<not> 2 * (m - 1) < m \<and> 2 * (m - 1) \<noteq> m" if "4 \<le> m" for m :: nat
    using that by linarith
  ultimately have "rne ?s (2 ^ n) = c" using two c by (simp add: rne_def Let_def)
  with k n show ?thesis by (simp add: round_mag_def Let_def)
qed

lemma heading_of_tiny_yaw: "rem_euclid (F64 0x8000000000000001) TAU = TAU"
proof -
  let ?y = "F64 0x8000000000000001" and ?c = "0x1921FB54442D18 :: nat"
  have y: "f_neg ?y" "f_mag ?y = 1" "\<not> is_nan ?y" "\<not> is_infinite ?y"
    by (simp_all add: f_neg_def f_mag_def is_nan_def is_infinite_def inf_mag_def bits_nat_def)
  have t: "f_mag TAU = 1024 * 2 ^ 52 + ?c" "\<not> is_nan TAU" "\<not> is_infinite TAU"
    using TAU_facts(1) by (simp_all add: TAU_def f_mag_def bits_nat_def is_infinite_def is_finite_def)
  have vt: "val_mag (f_mag TAU) = ?c * 2 ^ 1024" by (simp add: t(1) val_mag_def)
  define V where "V = val_mag (f_mag TAU)"
  have V: "1 < V" "round_mag (V - 1) 1 = f_mag TAU"
  proof -
    show "1 < V" unfolding V_def vt by (rule less_le_trans[of _ "?c"]) simp_all
    show "round_mag (V - 1) 1 = f_mag TAU"
      unfolding V_def vt unfolding t(1) by (rule round_predecessor) (simp_all add: inf_mag_def)
  qed
  have v1: "val_mag (Suc 0) = 1" by (simp add: val_mag_def)
  have r1: "round_mag 1 1 = 1" using round_mag_exact1[of 1] v1 by (simp add: inf_mag_def)
  have r: "frem ?y TAU = f_make True 1"
    using y t(2,3) TAU_facts(4) V(1) r1 v1 by (simp add: frem_def f_round_def V_def[symmetric])
  have k: "f_neg (f_make True 1)" "f_mag (f_make True 1) = 1" by simp_all
  then have fr: "\<not> is_nan (f_make True 1)" "\<not> is_infinite (f_make True 1)" "flt (f_make True 1) f_zero"
    "f_units (f_make True 1) = - 1"
    using v1 by (simp_all add: is_nan_def is_infinite_def inf_mag_def flt_def f_units_def ord_key_def)
  have "f_units TAU = int V" using TAU_facts(2) by (simp add: f_units_def V_def)
  then have "fadd (f_make True 1) TAU = f_round False (nat (int V - 1)) 1"
    using fr t(2,3) V(1) by (simp add: fadd_def Let_def)
  also have "nat (int V - 1) = V - 1" by simp
  also have "f_round False (V - 1) 1 = TAU"
    using V(2) f_make_same[of TAU] TAU_facts(2) by (simp add: f_round_def)
  finally show ?thesis using fr(3) TAU_facts(5) by (simp add: rem_euclid_def r)
qed

end
