(* ===== verification/Gear.thy ===== *)
theory Gear
  imports Playback
begin

text \<open>
  Aircraft selection and landing-gear events of the flight simulator bridge
  (\<open>bindings/msfs/src/lib.rs\<close>): \<open>select_aircraft_at\<close> and the \<open>GearEventTracker\<close> that turns the
  recorded gear events into commands while the playback cursor moves, jumps or runs live. Results:
  the selected aircraft is the one with the earliest spawn, and after every call the commands issued
  so far leave the gear handle where the last gear event at the cursor puts it.
\<close>

section \<open>Selecting an aircraft\<close>

definition first_spawn :: "string \<Rightarrow> TimeSeriesStore \<Rightarrow> f64 option" where
  "first_spawn aid s =
     Option.bind (get_events_range aid f_neg_infinity f_infinity s)
       (find_map (\<lambda>e. case ev_event e of EvSpawn _ \<Rightarrow> Some (ev_time e) | _ \<Rightarrow> None))"

definition spawn_candidates :: "f64 \<Rightarrow> TimeSeriesStore \<Rightarrow> (f64 \<times> string) list" where
  "spawn_candidates t s =
     filter (\<lambda>(spawn, _). fle spawn t)
       (List.map_filter (\<lambda>aid. map_option (\<lambda>spawn. (spawn, aid)) (first_spawn aid s))
         (filter (\<lambda>aid. is_spawned_at aid t s) (get_aircraft_ids s)))"

text \<open>\<open>min_by\<close> over the total order of timestamps, then identifiers.\<close>

definition select_aircraft_at :: "TimeSeriesStore \<Rightarrow> string option \<Rightarrow> f64 \<Rightarrow> string option" where
  "select_aircraft_at s requested t =
     (case requested of
        Some aid \<Rightarrow> if is_spawned_at aid t s then Some aid else None
      | None \<Rightarrow> (case spawn_candidates t s of [] \<Rightarrow> None | c # cs \<Rightarrow> Some (snd (fold min cs c))))"

section \<open>Gear events\<close>

datatype GearCommand = GearUp | GearDown

definition gear_command_from_event :: "Event \<Rightarrow> GearCommand option" where
  "gear_command_from_event e =
     (case e of
        EvCustom ev \<Rightarrow> if ev = GEAR_UP then Some GearUp else if ev = GEAR_DOWN then Some GearDown else None
      | _ \<Rightarrow> None)"

definition latest_gear_command :: "TimeSeriesStore \<Rightarrow> string \<Rightarrow> f64 \<Rightarrow> GearCommand option" where
  "latest_gear_command s aid t =
     Option.bind (get_events_range aid f_neg_infinity t s)
       (\<lambda>es. find_map (\<lambda>e. gear_command_from_event (ev_event e)) (rev es))"

definition gear_commands_between :: "TimeSeriesStore \<Rightarrow> string \<Rightarrow> f64 \<Rightarrow> f64 \<Rightarrow> GearCommand list" where
  "gear_commands_between s aid start stop =
     List.map_filter (\<lambda>e. gear_command_from_event (ev_event e))
       (filter (\<lambda>e. flt start (ev_time e))
         (case get_events_range aid start stop s of None \<Rightarrow> [] | Some es \<Rightarrow> es))"

record GearEventTracker =
  gt_aircraft :: "string option"
  gt_cursor :: "f64 option"
  gt_revision :: "u64 option"
  gt_mode :: "PlaybackMode option"
  gt_last :: "GearCommand option"

definition gear_tracker_new :: GearEventTracker where
  "gear_tracker_new = \<lparr>gt_aircraft = None, gt_cursor = None, gt_revision = None, gt_mode = None, gt_last = None\<rparr>"

text \<open>The \<open>retain\<close> closure: drops a command that repeats the last one.\<close>

fun drop_repeats :: "GearCommand option \<Rightarrow> GearCommand list \<Rightarrow> GearCommand list \<times> GearCommand option" where
  "drop_repeats l [] = ([], l)"
| "drop_repeats l (c # cs) =
     (if l = Some c then drop_repeats l cs
      else let (kept, l') = drop_repeats (Some c) cs in (c # kept, l'))"

definition gear_discontinuity :: "string \<Rightarrow> PlaybackMode \<Rightarrow> f64 \<Rightarrow> u64 \<Rightarrow> GearEventTracker \<Rightarrow> bool" where
  "gear_discontinuity aid m t rv tr \<longleftrightarrow>
     gt_aircraft tr \<noteq> Some aid \<or> gt_cursor tr = None \<or> gt_revision tr \<noteq> Some rv \<or> gt_mode tr \<noteq> Some m
     \<or> (case gt_cursor tr of None \<Rightarrow> False | Some previous \<Rightarrow> flt t previous)"

definition commands_to_apply ::
  "TimeSeriesStore \<Rightarrow> string \<Rightarrow> PlaybackMode \<Rightarrow> f64 \<Rightarrow> u64 \<Rightarrow> GearEventTracker \<Rightarrow> GearCommand list \<times> GearEventTracker" where
  "commands_to_apply s aid m t rv tr =
     (if \<not> is_finite t then ([], tr)
      else
        let jump = gear_discontinuity aid m t rv tr;
            latest = latest_gear_command s aid t;
            (cmds, l) =
              (if jump then ((case latest of None \<Rightarrow> [] | Some c \<Rightarrow> [c]), latest)
               else drop_repeats (gt_last tr)
                      (gear_commands_between s aid (case gt_cursor tr of None \<Rightarrow> t | Some p \<Rightarrow> p) t));
            (cmds, l) =
              (if m = Live \<and> \<not> jump
               then (case latest of
                       None \<Rightarrow> (cmds, l)
                     | Some c \<Rightarrow> if l \<noteq> Some c then (cmds @ [c], Some c) else (cmds, l))
               else (cmds, l))
        in (cmds, \<lparr>gt_aircraft = Some aid, gt_cursor = Some t, gt_revision = Some rv, gt_mode = Some m, gt_last = l\<rparr>))"

section \<open>The earliest spawn is selected\<close>

lemma fold_min_le: "fold min cs c \<in> insert c (set cs) \<and> (\<forall>x \<in> insert c (set cs). fold min cs (c :: 'a :: linorder) \<le> x)"
proof (induction cs arbitrary: c)
  case (Cons d cs)
  from Cons[of "min d c"] show ?case
    by (auto simp: min_def split: if_splits intro: order_trans)
qed simp

lemma spawn_candidates_iff:
  "(spawn, aid) \<in> set (spawn_candidates t s) \<longleftrightarrow>
     aid \<in> set (get_aircraft_ids s) \<and> is_spawned_at aid t s \<and> first_spawn aid s = Some spawn \<and> fle spawn t"
  by (auto simp: spawn_candidates_def set_map_filter_iff)

lemma selected_is_earliest:
  assumes "select_aircraft_at s None t = Some aid"
  obtains spawn where "(spawn, aid) \<in> set (spawn_candidates t s)"
    "\<forall>c \<in> set (spawn_candidates t s). (spawn, aid) \<le> c"
proof -
  obtain c cs where c: "spawn_candidates t s = c # cs" "aid = snd (fold min cs c)"
    using assms by (auto simp: select_aircraft_at_def split: list.splits)
  with fold_min_le[of cs c] that[of "fst (fold min cs c)"] show thesis by simp
qed

lemma no_aircraft_selected:
  "select_aircraft_at s None t = None \<longleftrightarrow> spawn_candidates t s = []"
  by (simp add: select_aircraft_at_def split: list.splits)

section \<open>The gear handle follows the log\<close>

definition gear_history :: "TimeSeriesStore \<Rightarrow> string \<Rightarrow> f64 \<Rightarrow> GearCommand list" where
  "gear_history s aid t = List.map_filter (\<lambda>e. gear_command_from_event (ev_event e))
     (filter (\<lambda>e. fle (ev_time e) t) (events (series_of s aid)))"

lemma find_map_rev: "find_map f (rev xs) = last_opt (List.map_filter f xs)"
proof (induction xs)
  case (Cons x xs)
  then show ?case by (auto simp: find_map_append map_filter_simps last_opt_Cons split: option.splits)
qed (simp add: map_filter_simps)

lemma event_stamps_finite:
  "store_inv s \<Longrightarrow> lookup s aid = Some x \<Longrightarrow> timeline_ok ev_time (events x)"
  by (auto simp: store_inv_def series_ok_def)

lemma latest_is_last:
  assumes inv: "store_inv s" and t: "is_finite t"
  shows "latest_gear_command s aid t = last_opt (gear_history s aid t)"
proof (cases "lookup s aid")
  case None
  then show ?thesis
    by (simp add: latest_gear_command_def get_events_range_def gear_history_def series_of_def empty_series_def
        map_filter_simps)
next
  case (Some x)
  have "filter (\<lambda>e. fle f_neg_infinity (ev_time e) \<and> fle (ev_time e) t) (events x) = filter (\<lambda>e. fle (ev_time e) t) (events x)"
    using timeline_okD[OF event_stamps_finite[OF inv Some]] fle_neg_infinity
    by (intro filter_cong) auto
  with Some show ?thesis
    by (simp add: latest_gear_command_def get_events_range_def window_filter_def find_map_rev gear_history_def series_of_def)
qed

lemma history_extends:
  assumes inv: "store_inv s" and t: "is_finite p" "fle p t"
  shows "gear_history s aid t = gear_history s aid p @ gear_commands_between s aid p t"
proof (cases "lookup s aid")
  case None
  then show ?thesis
    by (simp add: gear_commands_between_def get_events_range_def gear_history_def series_of_def empty_series_def
        map_filter_simps)
next
  case (Some x)
  let ?es = "events x"
  note ok = event_stamps_finite[OF inv Some]
  have split: "?es = filter (\<lambda>e. fle (ev_time e) p) ?es @ filter (\<lambda>e. \<not> fle (ev_time e) p) ?es"
    using takeWhile_dropWhile_id[of "\<lambda>e. fle (ev_time e) p" ?es]
    by (simp only: takeWhile_fle_filter[OF ok] dropWhile_fle_filter[OF ok])
  have "filter (\<lambda>e. fle (ev_time e) t) ?es
      = filter (\<lambda>e. fle (ev_time e) t) (filter (\<lambda>e. fle (ev_time e) p) ?es)
        @ filter (\<lambda>e. fle (ev_time e) t) (filter (\<lambda>e. \<not> fle (ev_time e) p) ?es)"
    by (subst split) simp
  also have "filter (\<lambda>e. fle (ev_time e) t) (filter (\<lambda>e. fle (ev_time e) p) ?es) = filter (\<lambda>e. fle (ev_time e) p) ?es"
    unfolding filter_filter using t(2) by (intro filter_cong) (auto intro: fle_trans)
  also have "filter (\<lambda>e. fle (ev_time e) t) (filter (\<lambda>e. \<not> fle (ev_time e) p) ?es)
      = filter (\<lambda>e. flt p (ev_time e)) (window_filter ev_time p t ?es)"
    unfolding window_filter_def filter_filter using timeline_okD[OF ok] t(1)
    by (intro filter_cong) (auto simp: not_fle intro: flt_imp_fle)
  finally show ?thesis
    using Some by (simp add: gear_history_def gear_commands_between_def get_events_range_def series_of_def map_filter_append)
qed

lemma drop_repeats_last: "snd (drop_repeats l cs) = (case last_opt cs of None \<Rightarrow> l | Some c \<Rightarrow> Some c)"
  by (induction l cs rule: drop_repeats.induct)
    (auto simp: last_opt_Cons Let_def split: prod.splits option.splits)

text \<open>The handle after a list of commands; \<open>None\<close> is its unknown position before the first one.\<close>

definition gear_handle :: "GearCommand option \<Rightarrow> GearCommand list \<Rightarrow> GearCommand option" where
  "gear_handle g cs = (case last_opt cs of None \<Rightarrow> g | Some c \<Rightarrow> Some c)"

lemma drop_repeats_handle:
  assumes "l \<noteq> None \<Longrightarrow> g = l" "snd (drop_repeats l cs) \<noteq> None"
  shows "gear_handle g (fst (drop_repeats l cs)) = snd (drop_repeats l cs)"
  using assms
proof (induction l cs arbitrary: g rule: drop_repeats.induct)
  case (2 l c cs)
  show ?case
  proof (cases "l = Some c")
    case False
    obtain kept l' where d: "drop_repeats (Some c) cs = (kept, l')" by fastforce
    with 2(2)[OF False, of "Some c"] False 2(4) show ?thesis
      by (auto simp: gear_handle_def last_opt_Cons split: option.splits)
  qed (use 2 in auto)
qed (auto simp: gear_handle_def)

text \<open>One call, with the store as it is at that moment.\<close>

record GearCall =
  gc_store :: TimeSeriesStore
  gc_aircraft :: string
  gc_mode :: PlaybackMode
  gc_cursor :: f64
  gc_revision :: u64

definition latest_at :: "GearCall \<Rightarrow> GearCommand option" where
  "latest_at c = latest_gear_command (gc_store c) (gc_aircraft c) (gc_cursor c)"

fun gear_run :: "GearEventTracker \<times> GearCommand option \<Rightarrow> GearCall list \<Rightarrow> GearEventTracker \<times> GearCommand option" where
  "gear_run st [] = st"
| "gear_run (tr, g) (c # cs) =
     (let (cmds, tr') = commands_to_apply (gc_store c) (gc_aircraft c) (gc_mode c) (gc_cursor c) (gc_revision c) tr
      in gear_run (tr', gear_handle g cmds) cs)"

text \<open>
  Between two calls the store may grow, but outside live mode no gear event may arrive behind the
  cursor of the first one.
\<close>

definition gear_history_kept :: "GearCall \<Rightarrow> GearCall \<Rightarrow> bool" where
  "gear_history_kept p c \<longleftrightarrow>
     latest_gear_command (gc_store c) (gc_aircraft p) (gc_cursor p) = latest_at p
     \<or> (gc_mode c = Live \<and> latest_at c \<noteq> None)"

definition gear_calls_ok :: "GearCall list \<Rightarrow> bool" where
  "gear_calls_ok cs \<longleftrightarrow> (\<forall>c \<in> set cs. store_inv (gc_store c) \<and> is_finite (gc_cursor c)) \<and> successively gear_history_kept cs"

definition gear_synced :: "GearCall \<Rightarrow> GearEventTracker \<times> GearCommand option \<Rightarrow> bool" where
  "gear_synced c st \<longleftrightarrow> (case st of (tr, g) \<Rightarrow>
     gt_last tr = latest_at c \<and> gt_aircraft tr = Some (gc_aircraft c) \<and> gt_cursor tr = Some (gc_cursor c)
     \<and> (gt_last tr \<noteq> None \<longrightarrow> g = gt_last tr))"

lemma gear_step_jump:
  assumes "is_finite (gc_cursor c)" "gear_discontinuity (gc_aircraft c) (gc_mode c) (gc_cursor c) (gc_revision c) tr"
  shows "gear_synced c (gear_run (tr, g) [c])"
  using assms by (auto simp: commands_to_apply_def Let_def gear_synced_def latest_at_def gear_handle_def last_opt_Cons split: option.split)

lemma gear_step_play:
  assumes inv: "store_inv (gc_store c)" and t: "is_finite (gc_cursor c)" "is_finite (gc_cursor p)"
    and synced: "gear_synced p (tr, g)" and kept: "gear_history_kept p c"
    and play: "\<not> gear_discontinuity (gc_aircraft c) (gc_mode c) (gc_cursor c) (gc_revision c) tr"
  shows "gear_synced c (gear_run (tr, g) [c])"
proof -
  let ?s = "gc_store c" and ?a = "gc_aircraft c" and ?p = "gc_cursor p" and ?t = "gc_cursor c"
  let ?between = "gear_commands_between ?s ?a ?p ?t"
  have p: "gt_cursor tr = Some ?p" "gc_aircraft p = ?a" "fle ?p ?t" "gt_last tr = latest_at p"
    and g: "gt_last tr \<noteq> None \<Longrightarrow> g = gt_last tr"
    using synced play t by (auto simp: gear_synced_def gear_discontinuity_def not_flt)
  obtain kept l where d: "drop_repeats (gt_last tr) ?between = (kept, l)" by fastforce
  have h: "l \<noteq> None \<Longrightarrow> gear_handle g kept = l"
    using drop_repeats_handle[of "gt_last tr" g ?between] g d by simp
  have l: "l = (case last_opt ?between of None \<Rightarrow> gt_last tr | Some x \<Rightarrow> Some x)"
    using drop_repeats_last[of "gt_last tr" ?between] d by simp
  have latest: "latest_at c = (case last_opt ?between of None \<Rightarrow> latest_gear_command ?s ?a ?p | Some x \<Rightarrow> Some x)"
    using history_extends[OF inv t(2) p(3), of ?a]
    by (simp add: latest_at_def latest_is_last[OF inv] t last_opt_append split: option.split)
  have in_sync: "l = latest_at c \<or> (gc_mode c = Live \<and> latest_at c \<noteq> None)"
    using kept p by (auto simp: gear_history_kept_def l latest split: option.split)
  show ?thesis
    using play t p(1) d h in_sync
    by (auto simp: commands_to_apply_def Let_def gear_synced_def latest_at_def gear_handle_def split: option.splits)
qed

lemma gear_run_synced:
  assumes "gear_calls_ok (cs @ [c])"
  shows "gear_synced c (gear_run (gear_tracker_new, g) (cs @ [c]))"
  using assms
proof (induction cs arbitrary: c rule: rev_induct)
  case Nil
  then have "gear_synced c (gear_run (gear_tracker_new, g) [c])"
    by (intro gear_step_jump) (auto simp: gear_calls_ok_def gear_discontinuity_def gear_tracker_new_def)
  then show ?case by simp
next
  case (snoc p cs)
  have run: "gear_run st (xs @ [x]) = gear_run (gear_run st xs) [x]" for st xs x
    by (induction st xs rule: gear_run.induct) (simp_all split: prod.split)
  obtain tr g' where st: "gear_run (gear_tracker_new, g) (cs @ [p]) = (tr, g')" by fastforce
  have ok: "gear_calls_ok (cs @ [p])" "store_inv (gc_store c)" "is_finite (gc_cursor c)" "is_finite (gc_cursor p)"
    "gear_history_kept p c"
    using snoc.prems by (auto simp: gear_calls_ok_def successively_append_iff)
  have "gear_synced p (tr, g')" using snoc.IH[OF ok(1)] st by simp
  then have "gear_synced c (gear_run (tr, g') [c])"
    using ok gear_step_jump[of c tr g'] gear_step_play[of c p tr g'] by blast
  then show ?case unfolding run[of _ "cs @ [p]"] st .
qed


definition demo_gear_call :: GearCall where
  "demo_gear_call = \<lparr>gc_store = append_event ''a'' f_one (EvCustom GEAR_UP) store_new, gc_aircraft = ''a'',
     gc_mode = Live, gc_cursor = f_one, gc_revision = 0\<rparr>"


end
