(* ===== verification/Bridge_Session.thy ===== *)
theory Bridge_Session
  imports Msfs_Frame Gear
begin

text \<open>
  The session that drives one simulated aircraft (\<open>BridgeSession\<close> of \<open>bindings/msfs/src/lib.rs\<close>),
  written against the \<open>Simulator\<close> trait: freeze before the first write, write a frame, release. The
  trait is a record of operations over a simulator state; the locale \<open>freezing_simulator\<close> states
  what an implementation promises about its frozen state, and the session's lemmas are proved from
  these promises.
\<close>

section \<open>Fallible steps\<close>

text \<open>An operation that can fail and changes the state either way; \<open>then_step\<close> is the \<open>?\<close> operator.\<close>

type_synonym ('s, 'e, 'a) step = "'s \<Rightarrow> ('e + 'a) \<times> 's"

definition done_step :: "('s, 'e, unit) step" where
  "done_step s = (Inr (), s)"

definition then_step :: "('s, 'e, 'a) step \<Rightarrow> ('a \<Rightarrow> ('s, 'e, 'b) step) \<Rightarrow> ('s, 'e, 'b) step" where
  "then_step m f s = (case m s of (Inl e, s') \<Rightarrow> (Inl e, s') | (Inr x, s') \<Rightarrow> f x s')"

fun each_step :: "('x \<Rightarrow> ('s, 'e, unit) step) \<Rightarrow> 'x list \<Rightarrow> ('s, 'e, unit) step" where
  "each_step f [] = done_step"
| "each_step f (x # xs) = then_step (f x) (\<lambda>_. each_step f xs)"

text \<open>A predicate that a step keeps, whether it fails or not.\<close>

definition keeps :: "('s \<Rightarrow> bool) \<Rightarrow> ('s, 'e, 'a) step \<Rightarrow> bool" where
  "keeps P m \<longleftrightarrow> (\<forall>s. P s \<longrightarrow> P (snd (m s)))"

lemma keepsD: "keeps P m \<Longrightarrow> P s \<Longrightarrow> P (snd (m s))"
  by (simp add: keeps_def)

lemma keeps_done [simp, intro]: "keeps P done_step"
  by (simp add: keeps_def done_step_def)

lemma keeps_then [intro]: "keeps P m \<Longrightarrow> (\<And>x. keeps P (f x)) \<Longrightarrow> keeps P (then_step m f)"
  unfolding keeps_def then_step_def
proof (intro allI impI)
  fix s
  assume m: "\<forall>s. P s \<longrightarrow> P (snd (m s))" and f: "\<And>x. \<forall>s. P s \<longrightarrow> P (snd (f x s))" and s: "P s"
  obtain r s' where "m s = (r, s')" by fastforce
  moreover from this m s have "P s'" by (metis snd_conv)
  ultimately show "P (snd (case m s of (Inl e, s') \<Rightarrow> (Inl e, s') | (Inr x, s') \<Rightarrow> f x s'))"
    using f by (auto split: sum.split)
qed

lemma keeps_each [intro]: "(\<And>x. x \<in> set xs \<Longrightarrow> keeps P (f x)) \<Longrightarrow> keeps P (each_step f xs)"
proof (induction xs)
  case (Cons x xs)
  then show ?case by (simp add: keeps_then)
qed simp

lemma keeps_conj: "keeps P m \<Longrightarrow> keeps Q m \<Longrightarrow> keeps (\<lambda>s. P s \<and> Q s) m"
  by (simp add: keeps_def)

lemma then_step_Inr:
  "fst (then_step m f s) = Inr y \<longleftrightarrow> (\<exists>x s'. m s = (Inr x, s') \<and> fst (f x s') = Inr y)"
  by (cases "m s") (auto simp: then_step_def split: sum.splits)

section \<open>The trait and the session\<close>

record ('s, 'e) Simulator =
  op_set_frozen :: "bool \<Rightarrow> ('s, 'e, unit) step"
  op_set_pose :: "MsfsPose \<Rightarrow> ('s, 'e, unit) step"
  op_set_surface :: "Surface \<Rightarrow> f64 \<Rightarrow> ('s, 'e, unit) step"
  op_set_airdata :: "MsfsAirData \<Rightarrow> ('s, 'e, unit) step"
  op_set_engine_throttle :: "u32 \<Rightarrow> f64 \<Rightarrow> ('s, 'e, unit) step"
  op_set_landing_gear :: "GearCommand \<Rightarrow> ('s, 'e, unit) step"

record 's BridgeSession =
  br_simulator :: 's
  br_frozen :: bool

definition bridge_new :: "'s \<Rightarrow> 's BridgeSession" where
  "bridge_new sim = \<lparr>br_simulator = sim, br_frozen = False\<rparr>"

text \<open>The present throttles with their engine index, which counts from one.\<close>

definition engine_throttles :: "PropulsorThrottles \<Rightarrow> (u32 \<times> f64) list" where
  "engine_throttles ratios =
     List.map_filter (\<lambda>(offset, ratio). map_option (Pair (word_of_nat offset + 1)) ratio) (enumerate 0 ratios)"

definition write_frame :: "('s, 'e) Simulator \<Rightarrow> MsfsFrame \<Rightarrow> ('s, 'e, unit) step" where
  "write_frame ops f =
     then_step (op_set_pose ops (mf_pose f)) (\<lambda>_.
     then_step (case mf_airdata f of None \<Rightarrow> done_step | Some a \<Rightarrow> op_set_airdata ops a) (\<lambda>_.
     then_step (each_step (\<lambda>(surface, v). op_set_surface ops surface v) (control_values (mf_controls f))) (\<lambda>_.
     each_step (\<lambda>(index, ratio). op_set_engine_throttle ops index ratio) (engine_throttles (mf_propulsors f)))))"

definition on_simulator :: "('s, 'e, 'a) step \<Rightarrow> ('s BridgeSession, 'e, 'a) step" where
  "on_simulator m b = (case m (br_simulator b) of (r, sim) \<Rightarrow> (r, b\<lparr>br_simulator := sim\<rparr>))"

definition mark_frozen :: "bool \<Rightarrow> ('s BridgeSession, 'e, unit) step" where
  "mark_frozen b s = (Inr (), s\<lparr>br_frozen := b\<rparr>)"

definition bridge_apply :: "('s, 'e) Simulator \<Rightarrow> MsfsFrame \<Rightarrow> ('s BridgeSession, 'e, unit) step" where
  "bridge_apply ops f = (\<lambda>b.
     then_step
       (if br_frozen b then done_step
        else then_step (on_simulator (op_set_frozen ops True)) (\<lambda>_. mark_frozen True))
       (\<lambda>_. on_simulator (write_frame ops f)) b)"

definition bridge_release :: "('s, 'e) Simulator \<Rightarrow> ('s BridgeSession, 'e, unit) step" where
  "bridge_release ops = (\<lambda>b.
     (if br_frozen b then then_step (on_simulator (op_set_frozen ops False)) (\<lambda>_. mark_frozen False)
      else done_step) b)"

definition bridge_apply_gear :: "('s, 'e) Simulator \<Rightarrow> GearCommand \<Rightarrow> ('s BridgeSession, 'e, unit) step" where
  "bridge_apply_gear ops command = on_simulator (op_set_landing_gear ops command)"

lemma on_simulator_simps [simp]:
  "fst (on_simulator m b) = fst (m (br_simulator b))"
  "snd (on_simulator m b) = b\<lparr>br_simulator := snd (m (br_simulator b))\<rparr>"
  by (simp_all add: on_simulator_def split: prod.split)

section \<open>What an implementation promises\<close>

text \<open>
  \<open>frozen\<close>: the simulator holds the aircraft frozen; \<open>clean\<close>: everything written so far was
  written while it did.
\<close>

locale freezing_simulator =
  fixes ops :: "('s, 'e) Simulator"
    and frozen clean :: "'s \<Rightarrow> bool"
  assumes freeze: "fst (op_set_frozen ops True s) = Inr () \<Longrightarrow> frozen (snd (op_set_frozen ops True s))"
    and freeze_clean: "keeps clean (op_set_frozen ops b)"
    and pose: "keeps (\<lambda>s. clean s \<and> frozen s) (op_set_pose ops p)"
    and surface: "keeps (\<lambda>s. clean s \<and> frozen s) (op_set_surface ops sf v)"
    and airdata: "keeps (\<lambda>s. clean s \<and> frozen s) (op_set_airdata ops a)"
    and throttle: "keeps (\<lambda>s. clean s \<and> frozen s) (op_set_engine_throttle ops i v)"
    and gear: "keeps clean (op_set_landing_gear ops g)" "keeps frozen (op_set_landing_gear ops g)"
begin

definition session_ok :: "'s BridgeSession \<Rightarrow> bool" where
  "session_ok b \<longleftrightarrow> clean (br_simulator b) \<and> (br_frozen b \<longrightarrow> frozen (br_simulator b))"

lemma write_frame_ok: "keeps (\<lambda>s. clean s \<and> frozen s) (write_frame ops f)"
  unfolding write_frame_def
  by (intro keeps_then keeps_each) (auto intro: pose surface airdata throttle split: option.split)

lemma apply_ok: "keeps session_ok (bridge_apply ops f)"
proof (unfold keeps_def, intro allI impI)
  fix b
  assume ok: "session_ok b"
  have writes: "session_ok (snd (on_simulator (write_frame ops f) b'))" if "session_ok b'" "br_frozen b'" for b'
    using that keepsD[OF write_frame_ok, of "br_simulator b'" f] by (auto simp: session_ok_def)
  show "session_ok (snd (bridge_apply ops f b))"
  proof (cases "br_frozen b")
    case True
    with writes[OF ok] show ?thesis by (simp add: bridge_apply_def then_step_def done_step_def)
  next
    case False
    obtain r sim where fr: "op_set_frozen ops True (br_simulator b) = (r, sim)" by fastforce
    have "clean sim" using keepsD[OF freeze_clean[of True], of "br_simulator b"] ok fr by (simp add: session_ok_def)
    moreover have "r = Inr () \<Longrightarrow> frozen sim" using freeze[of "br_simulator b"] fr by simp
    ultimately show ?thesis
      using False fr writes[of "b\<lparr>br_simulator := sim, br_frozen := True\<rparr>"]
      by (cases r) (auto simp: bridge_apply_def then_step_def on_simulator_def mark_frozen_def session_ok_def)
  qed
qed

lemma gear_ok: "keeps session_ok (bridge_apply_gear ops g)"
  using keepsD[OF gear(1)] keepsD[OF gear(2)] by (auto simp: keeps_def session_ok_def bridge_apply_gear_def)

lemma release_ok:
  assumes "session_ok b" "fst (bridge_release ops b) = Inr ()"
  shows "session_ok (snd (bridge_release ops b))"
  using assms keepsD[OF freeze_clean[of False], of "br_simulator b"]
  by (auto simp: session_ok_def bridge_release_def then_step_def on_simulator_def mark_frozen_def done_step_def
      split: prod.splits sum.splits)

end

end
