(* ===== verification/Simconnect.thy ===== *)
theory Simconnect
  imports Bridge_Session
begin

text \<open>
  The client of the flight simulator's native interface (\<open>bindings/msfs/src/simconnect.rs\<close>). The
  foreign functions are a parameter: each call is a value of \<open>SimCall\<close>, and the library answers it
  from the history of all calls. The client keeps that history, so properties can speak about the
  order of the calls. A sleep moves the clock by at least its length. Everything else, the decoding
  of the received messages from their 32-bit words included, is the code's.
\<close>

section \<open>The foreign interface\<close>

record InitPosition =
  ip_latitude :: f64
  ip_longitude :: f64
  ip_altitude :: f64
  ip_pitch :: f64
  ip_bank :: f64
  ip_heading :: f64
  ip_on_ground :: u32
  ip_airspeed :: u32

datatype SimCall =
    FOpen
  | FClose
  | FGetNextDispatch
  | FGetLastSentPacketID
  | FAddToDataDefinition u32 string string int
  | FRequestData u32 u32 u32
  | FSetData u32 u32 "f64 list"
  | FMapEvent u32 string
  | FTransmit u32 u32 u32
  | FCreateAi string string string InitPosition u32
  | FReleaseControl u32
  | FRemoveObject u32

text \<open>
  \<open>lib_result\<close> is the \<open>HRESULT\<close> of a call after a history, \<open>lib_message\<close> the words of the message
  a \<open>GetNextDispatch\<close> stores (\<open>None\<close>: a null pointer), \<open>lib_packet\<close> what \<open>GetLastSentPacketID\<close>
  stores, and \<open>lib_oversleep\<close> how much longer than asked a sleep takes.
\<close>

record SimLib =
  lib_result :: "SimCall list \<Rightarrow> SimCall \<Rightarrow> 32 word"
  lib_message :: "SimCall list \<Rightarrow> u32 list option"
  lib_packet :: "SimCall list \<Rightarrow> u32"
  lib_oversleep :: "SimCall list \<Rightarrow> duration"

definition OBJECT_USER :: u32 where "OBJECT_USER = 0"
definition DATATYPE_INT32 :: int where "DATATYPE_INT32 = 1"
definition DATATYPE_FLOAT64 :: int where "DATATYPE_FLOAT64 = 4"
definition DEFINE_POSE :: u32 where "DEFINE_POSE = 1"
definition DEFINE_FREEZE_STATE :: u32 where "DEFINE_FREEZE_STATE = 2"
definition DEFINE_AIRDATA :: u32 where "DEFINE_AIRDATA = 3"
definition DEFINE_ENGINE_COUNT :: u32 where "DEFINE_ENGINE_COUNT = 4"
definition REQUEST_FREEZE_STATE :: u32 where "REQUEST_FREEZE_STATE = 1"
definition REQUEST_ENGINE_COUNT :: u32 where "REQUEST_ENGINE_COUNT = 2"
definition REQUEST_AI_BASE :: u32 where "REQUEST_AI_BASE = 10000"
definition EVENT_FREEZE_LAT_LON :: u32 where "EVENT_FREEZE_LAT_LON = 100"
definition EVENT_FREEZE_ALTITUDE :: u32 where "EVENT_FREEZE_ALTITUDE = 101"
definition EVENT_FREEZE_ATTITUDE :: u32 where "EVENT_FREEZE_ATTITUDE = 102"
definition EVENT_GEAR_UP :: u32 where "EVENT_GEAR_UP = 103"
definition EVENT_GEAR_DOWN :: u32 where "EVENT_GEAR_DOWN = 104"

section \<open>The client\<close>

text \<open>\<open>SimPanic\<close> is the panic of \<open>CString::new(...).expect(...)\<close> on a string with a NUL byte.\<close>

datatype SimConnectError = CallFailed string u32 | Disconnected
datatype SimFault = SimError SimConnectError | SimPanic

record SimConnectException =
  ex_exception :: u32
  ex_send_id :: u32
  ex_index :: u32

record AiCreateRequest =
  ar_request_id :: u32
  ar_send_id :: u32

record SimConnectClient =
  original_freeze :: "bool list"
  acquired_freeze :: bool
  engine_count :: u32
  reported_unsupported_engines :: "bool list"
  next_ai_request_id :: u32
  assigned_objects :: "(u32 \<times> u32) list"
  exceptions :: "SimConnectException list"
  sim_history :: "SimCall list"
  sim_now :: instant

type_synonym 'a sim = "(SimConnectClient, SimFault, 'a) step"

definition value_step :: "'a \<Rightarrow> 'a sim" where
  "value_step x st = (Inr x, st)"

definition check_hresult :: "string \<Rightarrow> 32 word \<Rightarrow> SimConnectError + unit" where
  "check_hresult operation result = (if 0 \<le> sint result then Inr () else Inl (CallFailed operation result))"

text \<open>One checked foreign call.\<close>

definition sim_call :: "SimLib \<Rightarrow> string \<Rightarrow> SimCall \<Rightarrow> unit sim" where
  "sim_call lib operation c st =
     ((case check_hresult operation (lib_result lib (sim_history st) c) of
         Inl e \<Rightarrow> Inl (SimError e) | Inr u \<Rightarrow> Inr u),
      st\<lparr>sim_history := sim_history st @ [c]\<rparr>)"

definition sim_sleep :: "SimLib \<Rightarrow> duration \<Rightarrow> SimConnectClient \<Rightarrow> SimConnectClient" where
  "sim_sleep lib d st = st\<lparr>sim_now := sim_now st + d + lib_oversleep lib (sim_history st)\<rparr>"

definition c_string :: "string \<Rightarrow> unit sim" where
  "c_string text st = ((if CHR 0x00 \<in> set text then Inl SimPanic else Inr ()), st)"

section \<open>Configuration\<close>

definition surface_definition :: "Surface \<Rightarrow> u32 \<times> string \<times> string" where
  "surface_definition s = (case s of
     AileronLeft \<Rightarrow> (10, ''AILERON LEFT DEFLECTION'', ''radians'')
   | AileronRight \<Rightarrow> (11, ''AILERON RIGHT DEFLECTION'', ''radians'')
   | Elevator \<Rightarrow> (12, ''ELEVATOR DEFLECTION'', ''radians'')
   | Rudder \<Rightarrow> (13, ''RUDDER DEFLECTION'', ''radians'')
   | FlapsLeft \<Rightarrow> (14, ''TRAILING EDGE FLAPS LEFT PERCENT'', ''Percent Over 100'')
   | FlapsRight \<Rightarrow> (15, ''TRAILING EDGE FLAPS RIGHT PERCENT'', ''Percent Over 100'')
   | Spoilers \<Rightarrow> (16, ''SPOILERS HANDLE POSITION'', ''Percent Over 100''))"

definition engine_definition :: "u32 \<Rightarrow> u32" where
  "engine_definition index = 20 + index"

definition add_definition :: "SimLib \<Rightarrow> u32 \<times> string \<times> string \<times> int \<Rightarrow> unit sim" where
  "add_definition lib = (\<lambda>(d, label, units, data_type).
     sim_call lib ''SimConnect_AddToDataDefinition'' (FAddToDataDefinition d label units data_type))"

definition engine_digit :: "u32 \<Rightarrow> string" where
  "engine_digit index = [char_of (48 + unat index)]"

definition configure :: "SimLib \<Rightarrow> unit sim" where
  "configure lib =
     then_step (each_step (\<lambda>(label, units). add_definition lib (DEFINE_POSE, label, units, DATATYPE_FLOAT64))
       [(''PLANE LATITUDE'', ''degrees''), (''PLANE LONGITUDE'', ''degrees''), (''PLANE ALTITUDE'', ''meters''),
        (''PLANE PITCH DEGREES'', ''radians''), (''PLANE BANK DEGREES'', ''radians''),
        (''PLANE HEADING DEGREES TRUE'', ''radians'')]) (\<lambda>_.
     then_step (each_step (\<lambda>label. add_definition lib (DEFINE_FREEZE_STATE, label, ''Bool'', DATATYPE_INT32))
       [''IS LATITUDE LONGITUDE FREEZE ON'', ''IS ALTITUDE FREEZE ON'', ''IS ATTITUDE FREEZE ON'']) (\<lambda>_.
     then_step (each_step (\<lambda>(event, label). sim_call lib ''SimConnect_MapClientEventToSimEvent'' (FMapEvent event label))
       [(EVENT_FREEZE_LAT_LON, ''FREEZE_LATITUDE_LONGITUDE_SET''), (EVENT_FREEZE_ALTITUDE, ''FREEZE_ALTITUDE_SET''),
        (EVENT_FREEZE_ATTITUDE, ''FREEZE_ATTITUDE_SET''), (EVENT_GEAR_UP, ''GEAR_UP''),
        (EVENT_GEAR_DOWN, ''GEAR_DOWN'')]) (\<lambda>_.
     then_step (each_step (\<lambda>s. case surface_definition s of (d, label, units) \<Rightarrow>
         add_definition lib (d, label, units, DATATYPE_FLOAT64))
       [AileronLeft, AileronRight, Elevator, Rudder, FlapsLeft, FlapsRight, Spoilers]) (\<lambda>_.
     then_step (each_step (\<lambda>(label, units). add_definition lib (DEFINE_AIRDATA, label, units, DATATYPE_FLOAT64))
       [(''VELOCITY BODY X'', ''meters per second''), (''VELOCITY BODY Y'', ''meters per second''),
        (''VELOCITY BODY Z'', ''meters per second''), (''ROTATION VELOCITY BODY X'', ''radians per second''),
        (''ROTATION VELOCITY BODY Y'', ''radians per second''), (''ROTATION VELOCITY BODY Z'', ''radians per second'')]) (\<lambda>_.
     then_step (add_definition lib (DEFINE_ENGINE_COUNT, ''NUMBER OF ENGINES'', ''Number'', DATATYPE_INT32)) (\<lambda>_.
     each_step (\<lambda>index. add_definition lib (engine_definition index,
         ''GENERAL ENG THROTTLE LEVER POSITION:'' @ engine_digit index, ''Percent Over 100'', DATATYPE_FLOAT64))
       [1, 2, 3, 4]))))))"

section \<open>Receiving\<close>

datatype Dispatch = DEmpty | DOther | DFreezeState "bool list" | DEngineCount u32
  | DAssignedObject u32 u32 | DException SimConnectException

text \<open>
  The structures the SDK sends are packed sequences of 32-bit fields. A field beyond the received
  words would be read out of bounds; the code relies on the SDK sending whole structures.
\<close>

definition word_at :: "u32 list \<Rightarrow> nat \<Rightarrow> u32" where
  "word_at ws i = (if i < length ws then ws ! i else 0)"

definition decode_dispatch :: "u32 list \<Rightarrow> SimConnectError + Dispatch" where
  "decode_dispatch ws =
     (let id = word_at ws 2 in
      if id = 1 then Inr (DException \<lparr>ex_exception = word_at ws 3, ex_send_id = word_at ws 4, ex_index = word_at ws 5\<rparr>)
      else if id = 3 then Inl Disconnected
      else if id = 12 then Inr (DAssignedObject (word_at ws 3) (word_at ws 4))
      else if id = 8 then
        (let request_id = word_at ws 3; define_count = word_at ws 9 in
         if request_id = REQUEST_FREEZE_STATE \<and> define_count = 3
         then Inr (DFreezeState [word_at ws 10 \<noteq> 0, word_at ws 11 \<noteq> 0, word_at ws 12 \<noteq> 0])
         else if request_id = REQUEST_ENGINE_COUNT
         then Inr (DEngineCount (if sint (word_at ws 10) < 0 then 0 else word_at ws 10))
         else Inr DOther)
      else Inr DOther)"

definition next_dispatch :: "SimLib \<Rightarrow> Dispatch sim" where
  "next_dispatch lib st =
     (let st' = st\<lparr>sim_history := sim_history st @ [FGetNextDispatch]\<rparr> in
      if lib_result lib (sim_history st) FGetNextDispatch \<noteq> 0 then (Inr DEmpty, st')
      else case lib_message lib (sim_history st) of
          None \<Rightarrow> (Inr DEmpty, st')
        | Some ws \<Rightarrow> ((case decode_dispatch ws of Inl e \<Rightarrow> Inl (SimError e) | Inr d \<Rightarrow> Inr d), st'))"

lemma next_dispatch_state [simp]:
  "snd (next_dispatch lib st) = st\<lparr>sim_history := sim_history st @ [FGetNextDispatch]\<rparr>"
  by (simp add: next_dispatch_def Let_def split: option.split)

lemma next_dispatch_pair:
  "next_dispatch lib st = (r, st') \<Longrightarrow> st' = st\<lparr>sim_history := sim_history st @ [FGetNextDispatch]\<rparr>"
  by (metis next_dispatch_state snd_conv)

text \<open>The polling loop of both reads: until the deadline, ten milliseconds between two dispatches.\<close>

function await_dispatch :: "SimLib \<Rightarrow> (Dispatch \<Rightarrow> 'a option) \<Rightarrow> instant \<Rightarrow> 'a option sim" where
  "await_dispatch lib f deadline st =
     (if sim_now st < deadline
      then case next_dispatch lib st of
          (Inl e, st') \<Rightarrow> (Inl e, st')
        | (Inr d, st') \<Rightarrow> (case f d of
              Some x \<Rightarrow> (Inr (Some x), st')
            | None \<Rightarrow> await_dispatch lib f deadline (sim_sleep lib 10000000 st'))
      else (Inr None, st))"
  by pat_completeness auto
termination
proof (relation "measure (\<lambda>(lib, f, deadline, st). deadline - sim_now st)", goal_cases)
  case (2 lib f deadline st r st' d)
  have "st' = snd (next_dispatch lib st)" using 2 by (metis snd_conv)
  then show ?case using 2(1) by (simp add: sim_sleep_def)
qed simp

declare await_dispatch.simps [simp del]

definition freeze_of_dispatch :: "Dispatch \<Rightarrow> bool list option" where
  "freeze_of_dispatch d = (case d of DFreezeState vs \<Rightarrow> Some vs | _ \<Rightarrow> None)"

definition engines_of_dispatch :: "Dispatch \<Rightarrow> u32 option" where
  "engines_of_dispatch d = (case d of DEngineCount n \<Rightarrow> Some n | _ \<Rightarrow> None)"

definition read_original_freeze :: "SimLib \<Rightarrow> duration \<Rightarrow> bool list sim" where
  "read_original_freeze lib timeout =
     then_step (sim_call lib ''SimConnect_RequestDataOnSimObject''
       (FRequestData REQUEST_FREEZE_STATE DEFINE_FREEZE_STATE OBJECT_USER)) (\<lambda>_.
     then_step (\<lambda>st. await_dispatch lib freeze_of_dispatch (sim_now st + timeout) st) (\<lambda>r.
     value_step (case r of Some vs \<Rightarrow> vs | None \<Rightarrow> [False, False, False])))"

definition read_engine_count :: "SimLib \<Rightarrow> duration \<Rightarrow> u32 sim" where
  "read_engine_count lib timeout =
     then_step (sim_call lib ''SimConnect_RequestDataOnSimObject(engine_count)''
       (FRequestData REQUEST_ENGINE_COUNT DEFINE_ENGINE_COUNT OBJECT_USER)) (\<lambda>_.
     then_step (\<lambda>st. await_dispatch lib engines_of_dispatch (sim_now st + timeout) st) (\<lambda>r.
     value_step (case r of Some n \<Rightarrow> min n 4 | None \<Rightarrow> 4)))"

text \<open>\<open>pump\<close> reads until the queue is empty; \<open>None\<close> when it never is.\<close>

definition pump_dispatch :: "Dispatch \<Rightarrow> SimConnectClient \<Rightarrow> SimConnectClient" where
  "pump_dispatch d st =
     (case d of
        DAssignedObject request_id object_id \<Rightarrow> st\<lparr>assigned_objects := assigned_objects st @ [(request_id, object_id)]\<rparr>
      | DException x \<Rightarrow> st\<lparr>exceptions := exceptions st @ [x]\<rparr>
      | _ \<Rightarrow> st)"

partial_function (option) pump :: "SimLib \<Rightarrow> SimConnectClient \<Rightarrow> ((SimFault + unit) \<times> SimConnectClient) option" where
  "pump lib st =
     (case next_dispatch lib st of
        (Inl e, st') \<Rightarrow> Some (Inl e, st')
      | (Inr d, st') \<Rightarrow> if d = DEmpty then Some (Inr (), st') else pump lib (pump_dispatch d st'))"

definition drain_exceptions :: "SimConnectClient \<Rightarrow> SimConnectException list \<times> SimConnectClient" where
  "drain_exceptions st = (exceptions st, st\<lparr>exceptions := []\<rparr>)"

fun take_assigned :: "u32 \<Rightarrow> (u32 \<times> u32) list \<Rightarrow> u32 option \<times> (u32 \<times> u32) list" where
  "take_assigned request_id [] = (None, [])"
| "take_assigned request_id ((cand, object_id) # rest) =
     (if cand = request_id then (Some object_id, rest)
      else case take_assigned request_id rest of (r, rest') \<Rightarrow> (r, (cand, object_id) # rest'))"

definition take_assigned_object :: "u32 \<Rightarrow> SimConnectClient \<Rightarrow> u32 option \<times> SimConnectClient" where
  "take_assigned_object request_id st =
     (case take_assigned request_id (assigned_objects st) of (r, rest) \<Rightarrow> (r, st\<lparr>assigned_objects := rest\<rparr>))"

end
