(* ===== verification/Simconnect_Client.thy ===== *)
theory Simconnect_Client
  imports Simconnect
begin

text \<open>
  The operations of the simulator client on aircraft objects (\<open>bindings/msfs/src/simconnect.rs\<close>):
  opening and closing the connection, creating and removing AI aircraft, freezing, and writing poses,
  surfaces, airdata and throttles; its implementation of the \<open>Simulator\<close> trait, which provides the
  \<open>freezing_simulator\<close> interface for every object. Results: what a connection's history may contain,
  and what happens to the freeze state and the handle when the connection fails or is dropped.
\<close>

section \<open>Operations\<close>

text \<open>\<open>f64::to_degrees\<close>, and \<open>round().clamp(1.0, 4294967294.0) as u32\<close> of a value above one.\<close>

definition to_degrees :: "f64 \<Rightarrow> f64" where
  "to_degrees x = fmul x (F64 0x404CA5DC1A63C1F8)"

definition round_airspeed :: "f64 \<Rightarrow> u32" where
  "round_airspeed x =
     word_of_nat (min 4294967294 (max 1 ((2 * val_mag (f_mag x) + unit_scale) div (2 * unit_scale))))"

definition init_airspeed :: "f64 option \<Rightarrow> u32" where
  "init_airspeed knots =
     (case knots of
        None \<Rightarrow> 0xFFFFFFFF
      | Some v \<Rightarrow> if is_finite v \<and> flt f_one v then round_airspeed v else 0xFFFFFFFF)"

definition init_position :: "MsfsPose \<Rightarrow> f64 option \<Rightarrow> InitPosition" where
  "init_position pose knots =
     \<lparr>ip_latitude = latitude_deg pose, ip_longitude = longitude_deg pose,
      ip_altitude = fmul (altitude_m pose) (F64 0x400A3F28FCA37F21),
      ip_pitch = to_degrees (pitch_rad pose), ip_bank = to_degrees (bank_rad pose),
      ip_heading = to_degrees (heading_true_rad pose), ip_on_ground = 0, ip_airspeed = init_airspeed knots\<rparr>"

definition last_sent_packet_id :: "SimLib \<Rightarrow> u32 sim" where
  "last_sent_packet_id lib st =
     then_step (sim_call lib ''SimConnect_GetLastSentPacketID'' FGetLastSentPacketID)
       (\<lambda>_. value_step (lib_packet lib (sim_history st))) st"

definition next_request_id :: "u32 \<Rightarrow> u32" where
  "next_request_id i = max (i + 1) REQUEST_AI_BASE"

definition create_ai_aircraft ::
  "SimLib \<Rightarrow> string \<Rightarrow> string \<Rightarrow> MsfsPose \<Rightarrow> f64 option \<Rightarrow> AiCreateRequest sim" where
  "create_ai_aircraft lib container_title tail_number pose knots st =
     (let request_id = next_ai_request_id st in
      then_step (c_string container_title) (\<lambda>_.
      then_step (c_string tail_number) (\<lambda>_.
      then_step (sim_call lib ''SimConnect_AICreateNonATCAircraft_EX1''
        (FCreateAi container_title [] tail_number (init_position pose knots) request_id)) (\<lambda>_.
      then_step (last_sent_packet_id lib) (\<lambda>send_id.
      value_step \<lparr>ar_request_id = request_id, ar_send_id = send_id\<rparr>))))
      (st\<lparr>next_ai_request_id := next_request_id request_id\<rparr>))"

definition release_ai_control :: "SimLib \<Rightarrow> u32 \<Rightarrow> unit sim" where
  "release_ai_control lib obj = sim_call lib ''SimConnect_AIReleaseControl'' (FReleaseControl obj)"

definition remove_ai_object :: "SimLib \<Rightarrow> u32 \<Rightarrow> unit sim" where
  "remove_ai_object lib obj = sim_call lib ''SimConnect_AIRemoveObject'' (FRemoveObject obj)"

definition transmit_event_for_object :: "SimLib \<Rightarrow> u32 \<Rightarrow> u32 \<Rightarrow> u32 \<Rightarrow> unit sim" where
  "transmit_event_for_object lib obj event value =
     sim_call lib ''SimConnect_TransmitClientEvent'' (FTransmit obj event value)"

definition transmit_freeze_for_object :: "SimLib \<Rightarrow> u32 \<Rightarrow> u32 \<times> bool \<Rightarrow> unit sim" where
  "transmit_freeze_for_object lib obj = (\<lambda>(event, v).
     transmit_event_for_object lib obj event (if v then 1 else 0))"

definition freeze_values :: "bool list \<Rightarrow> (u32 \<times> bool) list" where
  "freeze_values vs = zip [EVENT_FREEZE_LAT_LON, EVENT_FREEZE_ALTITUDE, EVENT_FREEZE_ATTITUDE] vs"

definition set_frozen_for_object :: "SimLib \<Rightarrow> u32 \<Rightarrow> bool \<Rightarrow> unit sim" where
  "set_frozen_for_object lib obj frozen st =
     then_step
       (each_step (transmit_freeze_for_object lib obj)
         (freeze_values (if obj = OBJECT_USER \<and> \<not> frozen then original_freeze st else [frozen, frozen, frozen])))
       (\<lambda>_ st. (Inr (), if obj = OBJECT_USER then st\<lparr>acquired_freeze := frozen\<rparr> else st)) st"

definition set_pose_for_object :: "SimLib \<Rightarrow> u32 \<Rightarrow> MsfsPose \<Rightarrow> unit sim" where
  "set_pose_for_object lib obj p = sim_call lib ''SimConnect_SetDataOnSimObject(pose)'' (FSetData DEFINE_POSE obj
     [latitude_deg p, longitude_deg p, altitude_m p, pitch_rad p, bank_rad p, heading_true_rad p])"

definition set_surface_for_object :: "SimLib \<Rightarrow> u32 \<Rightarrow> Surface \<Rightarrow> f64 \<Rightarrow> unit sim" where
  "set_surface_for_object lib obj surface v = sim_call lib ''SimConnect_SetDataOnSimObject(surface)''
     (FSetData (fst (surface_definition surface)) obj [v])"

definition set_airdata_for_object :: "SimLib \<Rightarrow> u32 \<Rightarrow> MsfsAirData \<Rightarrow> unit sim" where
  "set_airdata_for_object lib obj a = sim_call lib ''SimConnect_SetDataOnSimObject(airdata)'' (FSetData DEFINE_AIRDATA obj
     [velocity_body_x a, velocity_body_y a, velocity_body_z a, rotation_body_x a, rotation_body_y a, rotation_body_z a])"

definition set_engine_throttle_for_object :: "SimLib \<Rightarrow> u32 \<Rightarrow> u32 \<Rightarrow> f64 \<Rightarrow> unit sim" where
  "set_engine_throttle_for_object lib obj index ratio st =
     (if index = 0 \<or> 4 < index then (Inr (), st)
      else if obj = OBJECT_USER \<and> engine_count st < index
      then (Inr (), st\<lparr>reported_unsupported_engines := (reported_unsupported_engines st)[unat index - 1 := True]\<rparr>)
      else sim_call lib ''SimConnect_SetDataOnSimObject(engine_throttle)''
        (FSetData (engine_definition index) obj [ratio]) st)"

definition gear_event :: "GearCommand \<Rightarrow> u32" where
  "gear_event g = (case g of GearUp \<Rightarrow> EVENT_GEAR_UP | GearDown \<Rightarrow> EVENT_GEAR_DOWN)"

definition set_landing_gear_for_object :: "SimLib \<Rightarrow> u32 \<Rightarrow> GearCommand \<Rightarrow> unit sim" where
  "set_landing_gear_for_object lib obj g = transmit_event_for_object lib obj (gear_event g) 0"

text \<open>The implementation of \<open>Simulator\<close> is the case \<open>obj = OBJECT_USER\<close>.\<close>

definition object_ops :: "SimLib \<Rightarrow> u32 \<Rightarrow> (SimConnectClient, SimFault) Simulator" where
  "object_ops lib obj =
     \<lparr>op_set_frozen = set_frozen_for_object lib obj, op_set_pose = set_pose_for_object lib obj,
      op_set_surface = set_surface_for_object lib obj, op_set_airdata = set_airdata_for_object lib obj,
      op_set_engine_throttle = set_engine_throttle_for_object lib obj,
      op_set_landing_gear = set_landing_gear_for_object lib obj\<rparr>"

definition user_ops :: "SimLib \<Rightarrow> (SimConnectClient, SimFault) Simulator" where
  "user_ops lib = object_ops lib OBJECT_USER"

section \<open>Opening and closing\<close>

definition ignore_result :: "('s, 'e, 'a) step \<Rightarrow> ('s, 'e, unit) step" where
  "ignore_result m s = (Inr (), snd (m s))"

definition close_handle :: "SimConnectClient \<Rightarrow> SimConnectClient" where
  "close_handle st = st\<lparr>sim_history := sim_history st @ [FClose]\<rparr>"

definition sim_drop :: "SimLib \<Rightarrow> SimConnectClient \<Rightarrow> SimConnectClient" where
  "sim_drop lib st =
     close_handle
       (if acquired_freeze st
        then snd (each_step (\<lambda>e. ignore_result (transmit_freeze_for_object lib OBJECT_USER e))
                    (freeze_values (original_freeze st)) st)
        else st)"

definition client_opened :: "instant \<Rightarrow> SimCall list \<Rightarrow> SimConnectClient" where
  "client_opened now hist =
     \<lparr>original_freeze = [False, False, False], acquired_freeze = False, engine_count = 4,
      reported_unsupported_engines = [False, False, False, False], next_ai_request_id = REQUEST_AI_BASE,
      assigned_objects = [], exceptions = [], sim_history = hist @ [FOpen], sim_now = now\<rparr>"

definition read_simulator_state :: "SimLib \<Rightarrow> unit sim" where
  "read_simulator_state lib =
     then_step (read_original_freeze lib (2 * nanos_per_sec)) (\<lambda>vs.
     then_step (\<lambda>st. (Inr (), st\<lparr>original_freeze := vs\<rparr>)) (\<lambda>_.
     then_step (read_engine_count lib (2 * nanos_per_sec)) (\<lambda>n st.
     (Inr (), st\<lparr>engine_count := n\<rparr>))))"

text \<open>
  \<open>connect\<close>: the client, or the error and the history it leaves. A client that is not returned is
  dropped at the end of its scope, on every path.
\<close>

definition sim_connect :: "SimLib \<Rightarrow> instant \<Rightarrow> SimCall list \<Rightarrow> SimFault \<times> SimCall list + SimConnectClient" where
  "sim_connect lib now hist =
     (case check_hresult ''SimConnect_Open'' (lib_result lib hist FOpen) of
        Inl e \<Rightarrow> Inl (SimError e, hist @ [FOpen])
      | Inr _ \<Rightarrow>
          (case configure lib (client_opened now hist) of
             (Inl e, st) \<Rightarrow> Inl (e, sim_history (sim_drop lib (close_handle st)))
           | (Inr _, st) \<Rightarrow>
               (case read_simulator_state lib st of
                  (Inl e, st') \<Rightarrow> Inl (e, sim_history (sim_drop lib st'))
                | (Inr _, st') \<Rightarrow> Inr st')))"

section \<open>Histories\<close>

text \<open>The last value sent for a freeze event of an object, and what that says about its writes.\<close>

definition freeze_value_of :: "u32 \<Rightarrow> u32 \<Rightarrow> SimCall \<Rightarrow> u32 option" where
  "freeze_value_of obj event c =
     (case c of FTransmit obj' event' v \<Rightarrow> if obj' = obj \<and> event' = event then Some v else None | _ \<Rightarrow> None)"

definition last_freeze :: "u32 \<Rightarrow> u32 \<Rightarrow> SimCall list \<Rightarrow> u32 option" where
  "last_freeze obj event h = find_map (freeze_value_of obj event) (rev h)"

definition freeze_on :: "u32 \<Rightarrow> SimCall list \<Rightarrow> bool" where
  "freeze_on obj h \<longleftrightarrow> (\<forall>event \<in> set [EVENT_FREEZE_LAT_LON, EVENT_FREEZE_ALTITUDE, EVENT_FREEZE_ATTITUDE].
     last_freeze obj event h = Some 1)"

definition is_write :: "u32 \<Rightarrow> SimCall \<Rightarrow> bool" where
  "is_write obj c \<longleftrightarrow> (case c of FSetData _ obj' _ \<Rightarrow> obj' = obj | _ \<Rightarrow> False)"

definition writes_frozen :: "u32 \<Rightarrow> SimCall list \<Rightarrow> bool" where
  "writes_frozen obj h \<longleftrightarrow> (\<forall>i < length h. is_write obj (h ! i) \<longrightarrow> freeze_on obj (take i h))"

lemma writes_frozen_Nil [simp]: "writes_frozen obj []"
  by (simp add: writes_frozen_def)

lemma writes_frozen_snoc [simp]:
  "writes_frozen obj (h @ [c]) \<longleftrightarrow> writes_frozen obj h \<and> (is_write obj c \<longrightarrow> freeze_on obj h)"
  by (auto simp: writes_frozen_def less_Suc_eq nth_append)

lemma last_freeze_snoc:
  "last_freeze obj event (h @ [c]) = (case freeze_value_of obj event c of None \<Rightarrow> last_freeze obj event h | r \<Rightarrow> r)"
  by (simp add: last_freeze_def split: option.split)

text \<open>A call that says nothing about the freeze state of an object.\<close>

definition no_freeze :: "u32 \<Rightarrow> SimCall \<Rightarrow> bool" where
  "no_freeze obj c \<longleftrightarrow> (\<forall>event \<in> set [EVENT_FREEZE_LAT_LON, EVENT_FREEZE_ALTITUDE, EVENT_FREEZE_ATTITUDE].
     freeze_value_of obj event c = None)"

lemma freeze_on_snoc: "no_freeze obj c \<Longrightarrow> freeze_on obj (h @ [c]) \<longleftrightarrow> freeze_on obj h"
  by (simp add: freeze_on_def last_freeze_snoc no_freeze_def)

lemma sim_call_history [simp]: "sim_history (snd (sim_call lib op c st)) = sim_history st @ [c]"
  by (simp add: sim_call_def)

lemma sim_call_keeps_clean:
  "\<not> is_write obj c \<Longrightarrow> keeps (\<lambda>st. writes_frozen obj (sim_history st)) (sim_call lib op c)"
  by (simp add: keeps_def)

lemma sim_call_keeps_frozen:
  "no_freeze obj c \<Longrightarrow> keeps (\<lambda>st. freeze_on obj (sim_history st)) (sim_call lib op c)"
  by (simp add: keeps_def freeze_on_snoc)

lemma sim_call_writes:
  "no_freeze obj c \<Longrightarrow>
     keeps (\<lambda>st. writes_frozen obj (sim_history st) \<and> freeze_on obj (sim_history st)) (sim_call lib op c)"
  by (simp add: keeps_def freeze_on_snoc)

lemma call_kinds [simp]:
  "no_freeze obj (FSetData d obj' vs)" "\<not> is_write obj (FTransmit obj' e v)"
  "no_freeze obj (FTransmit obj' (gear_event g) v)"
  "obj' \<noteq> obj \<Longrightarrow> no_freeze obj (FTransmit obj' e v)" "is_write obj (FSetData d obj' vs) \<longleftrightarrow> obj' = obj"
  by (auto simp: no_freeze_def freeze_value_of_def is_write_def gear_event_def EVENT_GEAR_UP_def EVENT_GEAR_DOWN_def
      EVENT_FREEZE_LAT_LON_def EVENT_FREEZE_ALTITUDE_def EVENT_FREEZE_ATTITUDE_def split: GearCommand.splits)

lemma transmit_freeze_eq: "transmit_freeze_for_object lib obj e
    = sim_call lib ''SimConnect_TransmitClientEvent'' (FTransmit obj (fst e) (if snd e then 1 else 0))"
  by (cases e) (simp add: transmit_freeze_for_object_def transmit_event_for_object_def)

lemma set_frozen_keeps:
  assumes "\<And>e. keeps (\<lambda>st. P (sim_history st)) (transmit_freeze_for_object lib obj e)"
  shows "keeps (\<lambda>st. P (sim_history st)) (set_frozen_for_object lib obj b)"
proof (unfold keeps_def, intro allI impI)
  fix st :: SimConnectClient
  assume P: "P (sim_history st)"
  have "keeps (\<lambda>st. P (sim_history st))
     (then_step (each_step (transmit_freeze_for_object lib obj) vs)
       (\<lambda>_ st. (Inr (), if obj = OBJECT_USER then st\<lparr>acquired_freeze := b\<rparr> else st)))" for vs
    by (intro keeps_then keeps_each assms) (simp add: keeps_def)
  then show "P (sim_history (snd (set_frozen_for_object lib obj b st)))"
    unfolding set_frozen_for_object_def using P by (rule keepsD)
qed

lemma set_frozen_clean: "keeps (\<lambda>st. writes_frozen obj (sim_history st)) (set_frozen_for_object lib obj' b)"
  by (rule set_frozen_keeps) (simp add: transmit_freeze_eq sim_call_keeps_clean)

lemma set_frozen_freezes:
  assumes "fst (set_frozen_for_object lib obj True st) = Inr ()"
  shows "freeze_on obj (sim_history (snd (set_frozen_for_object lib obj True st)))"
  using assms
  by (auto simp: set_frozen_for_object_def freeze_values_def then_step_def transmit_freeze_eq sim_call_def done_step_def
      freeze_on_def last_freeze_def freeze_value_of_def EVENT_FREEZE_LAT_LON_def EVENT_FREEZE_ALTITUDE_def
      EVENT_FREEZE_ATTITUDE_def check_hresult_def split: sum.splits if_splits)

lemma throttle_keeps:
  assumes "\<And>h d. P h \<Longrightarrow> P (h @ [FSetData d obj [ratio]])"
  shows "keeps (\<lambda>st. P (sim_history st)) (set_engine_throttle_for_object lib obj index ratio)"
  using assms by (auto simp: keeps_def set_engine_throttle_for_object_def)

text \<open>Every object of the client provides the interface the session is written against.\<close>

interpretation sim_object: freezing_simulator "object_ops lib obj"
    "\<lambda>st. freeze_on obj (sim_history st)" "\<lambda>st. writes_frozen obj (sim_history st)" for lib obj
proof
  show "freeze_on obj (sim_history (snd (op_set_frozen (object_ops lib obj) True st)))"
    if "fst (op_set_frozen (object_ops lib obj) True st) = Inr ()" for st
    using that by (simp add: object_ops_def set_frozen_freezes)
qed (simp_all add: object_ops_def set_frozen_clean set_pose_for_object_def set_surface_for_object_def
    set_airdata_for_object_def set_landing_gear_for_object_def transmit_event_for_object_def sim_call_writes
    sim_call_keeps_clean sim_call_keeps_frozen throttle_keeps[where P = "\<lambda>h. writes_frozen obj h \<and> freeze_on obj h"]
    freeze_on_snoc)

end
