(* ===== verification/Bridge_Aircraft.thy ===== *)
theory Bridge_Aircraft
  imports Simconnect_Client Smoothing Samples
begin

text \<open>
  Driving one aircraft object (\<open>bindings/msfs/src/aircraft.rs\<close>): the object's session with the
  freeze state, the runtime that remembers what was last seen of the aircraft, and \<open>process\<close>, which
  runs once per loop: gear commands, the sample the playback state resolves to, smoothing in live
  mode, and the write. The clock readings of a step are indexed by their order in it. Logging is
  left out, except for the fields that decide what is logged.
\<close>

section \<open>Sessions\<close>

record ObjectSession =
  os_object_id :: u32
  os_frozen :: bool
  os_user_aircraft :: bool

definition session_user :: ObjectSession where
  "session_user = \<lparr>os_object_id = OBJECT_USER, os_frozen = False, os_user_aircraft = True\<rparr>"

definition session_ai :: "u32 \<Rightarrow> ObjectSession" where
  "session_ai obj = \<lparr>os_object_id = obj, os_frozen = False, os_user_aircraft = False\<rparr>"

definition on_client :: "'a sim \<Rightarrow> ('x \<times> SimConnectClient, SimFault, 'a) step" where
  "on_client m = (\<lambda>(x, st). case m st of (r, st') \<Rightarrow> (r, (x, st')))"

definition upd :: "('x \<Rightarrow> 'x) \<Rightarrow> ('x \<times> SimConnectClient, SimFault, unit) step" where
  "upd f = (\<lambda>(x, st). (Inr (), (f x, st)))"

definition object_write :: "SimLib \<Rightarrow> u32 \<Rightarrow> MsfsFrame \<Rightarrow> unit sim" where
  "object_write lib obj f =
     then_step (set_pose_for_object lib obj (mf_pose f)) (\<lambda>_.
     then_step (case mf_airdata f of None \<Rightarrow> done_step | Some a \<Rightarrow> set_airdata_for_object lib obj a) (\<lambda>_.
     then_step (each_step (\<lambda>(surface, v). set_surface_for_object lib obj surface v) (frame_control_values f)) (\<lambda>_.
     each_step (\<lambda>(index, ratio). set_engine_throttle_for_object lib obj index ratio) (engine_throttles (mf_propulsors f)))))"

type_synonym 'a session_step = "(ObjectSession \<times> SimConnectClient, SimFault, 'a) step"

definition session_apply :: "SimLib \<Rightarrow> MsfsFrame \<Rightarrow> unit session_step" where
  "session_apply lib f = (\<lambda>(se, st).
     then_step
       (if os_frozen se then done_step
        else then_step (on_client (set_frozen_for_object lib (os_object_id se) True))
               (\<lambda>_. upd (\<lambda>se. se\<lparr>os_frozen := True\<rparr>)))
       (\<lambda>_. on_client (object_write lib (os_object_id se) f)) (se, st))"

definition session_apply_gear :: "SimLib \<Rightarrow> GearCommand \<Rightarrow> unit session_step" where
  "session_apply_gear lib g = (\<lambda>(se, st). on_client (set_landing_gear_for_object lib (os_object_id se) g) (se, st))"

definition session_release :: "SimLib \<Rightarrow> unit session_step" where
  "session_release lib = (\<lambda>(se, st).
     (if os_user_aircraft se \<and> os_frozen se
      then then_step (on_client (set_frozen_for_object lib (os_object_id se) False))
             (\<lambda>_. upd (\<lambda>se. se\<lparr>os_frozen := False\<rparr>))
      else done_step) (se, st))"

section \<open>Comparing states\<close>

text \<open>The derived \<open>PartialEq\<close> of the messages: floats compare as numbers.\<close>

definition opt_eq :: "('a \<Rightarrow> 'a \<Rightarrow> bool) \<Rightarrow> 'a option \<Rightarrow> 'a option \<Rightarrow> bool" where
  "opt_eq eq a b = (case (a, b) of (None, None) \<Rightarrow> True | (Some x, Some y) \<Rightarrow> eq x y | _ \<Rightarrow> False)"

definition vector_eq :: "Vector3 \<Rightarrow> Vector3 \<Rightarrow> bool" where
  "vector_eq a b \<longleftrightarrow> feq (v_x a) (v_x b) \<and> feq (v_y a) (v_y b) \<and> feq (v_z a) (v_z b)"

definition quaternion_eq :: "Quaternion \<Rightarrow> Quaternion \<Rightarrow> bool" where
  "quaternion_eq a b \<longleftrightarrow> feq (q_w a) (q_w b) \<and> feq (q_x a) (q_x b) \<and> feq (q_y a) (q_y b) \<and> feq (q_z a) (q_z b)"

definition derived_eq :: "DerivedState \<Rightarrow> DerivedState \<Rightarrow> bool" where
  "derived_eq a b \<longleftrightarrow>
     list_all (\<lambda>f. feq (f a) (f b)) [d_lat, d_lon, d_altitude, d_alpha, d_beta, d_tas, d_eas, d_gamma, d_chi]
     \<and> list_all (\<lambda>f. opt_eq feq (f a) (f b)) [d_ias, d_cas, d_mach, d_ground_speed, d_vertical_speed,
          d_dynamic_pressure, d_normal_load_factor]"

definition control_state_eq :: "ControlSurfaceState \<Rightarrow> ControlSurfaceState \<Rightarrow> bool" where
  "control_state_eq a b \<longleftrightarrow>
     list_all (\<lambda>f. opt_eq feq (f a) (f b)) [c_aileron_left_rad, c_aileron_right_rad, c_elevator_rad, c_rudder_rad,
       c_flaps_left_ratio, c_flaps_right_ratio, c_spoilers_ratio]"

definition propulsor_eq :: "PropulsorState \<Rightarrow> PropulsorState \<Rightarrow> bool" where
  "propulsor_eq a b \<longleftrightarrow> p_propulsor_id a = p_propulsor_id b \<and> p_kind a = p_kind b \<and> p_index a = p_index b
     \<and> list_all (\<lambda>f. opt_eq feq (f a) (f b)) [p_throttle_ratio, p_rpm, p_blade_pitch_rad, p_thrust_newton,
          p_torque_newton_meter]"

definition state_eq :: "AircraftState \<Rightarrow> AircraftState \<Rightarrow> bool" where
  "state_eq a b \<longleftrightarrow>
     list_all (\<lambda>f. opt_eq vector_eq (f a) (f b)) [a_position, a_velocity, a_angular_velocity, a_linear_acceleration_body]
     \<and> opt_eq quaternion_eq (a_attitude a) (a_attitude b) \<and> opt_eq derived_eq (a_derived a) (a_derived b)
     \<and> opt_eq control_state_eq (a_control_surfaces a) (a_control_surfaces b)
     \<and> list_all2 propulsor_eq (a_propulsors a) (a_propulsors b)"

section \<open>The runtime of an aircraft\<close>

record AircraftRuntime =
  rt_session :: ObjectSession
  rt_smoother :: LiveFrameBuffer
  rt_sample_key :: "(64 word \<times> u64) option"
  rt_last_state :: "AircraftState option"
  rt_stale_reported :: bool
  rt_warnings :: "string list"
  rt_gear :: GearEventTracker
  rt_mode :: "PlaybackMode option"
  rt_stats :: SmoothingStats
  rt_log :: instant

definition runtime_new :: "ObjectSession \<Rightarrow> LiveSmoothingConfig \<Rightarrow> instant \<Rightarrow> AircraftRuntime" where
  "runtime_new se cfg now =
     \<lparr>rt_session = se, rt_smoother = buffer_new cfg, rt_sample_key = None, rt_last_state = None,
      rt_stale_reported = False, rt_warnings = [], rt_gear = gear_tracker_new, rt_mode = None,
      rt_stats = smoothing_stats_zero, rt_log = now\<rparr>"

definition reset_timeline_state :: "instant \<Rightarrow> AircraftRuntime \<Rightarrow> AircraftRuntime" where
  "reset_timeline_state now rt =
     rt\<lparr>rt_smoother := buffer_reset (rt_smoother rt), rt_sample_key := None, rt_last_state := None,
        rt_stale_reported := False, rt_warnings := [], rt_gear := gear_tracker_new,
        rt_stats := smoothing_stats_zero, rt_log := now\<rparr>"

type_synonym 'a runtime_step = "(AircraftRuntime \<times> SimConnectClient, SimFault, 'a) step"

definition on_session :: "'a session_step \<Rightarrow> 'a runtime_step" where
  "on_session m = (\<lambda>(rt, st). case m (rt_session rt, st) of (r, (se, st')) \<Rightarrow> (r, (rt\<lparr>rt_session := se\<rparr>, st')))"

definition resolve_sample :: "TimeSeriesStore \<Rightarrow> PlaybackSnapshot \<Rightarrow> string \<Rightarrow> TimestampedState option" where
  "resolve_sample s pb aid =
     (if snap_mode pb = Live
      then if is_spawned_at aid f_infinity s then get_latest aid s else None
      else case snap_cursor pb of
          None \<Rightarrow> None
        | Some c \<Rightarrow> if is_spawned_at aid c s then get_state_at_or_before aid c s else None)"

text \<open>\<open>Attitude::try_from\<close> and \<open>slerp\<close> as the smoothing uses them.\<close>

definition attitude_ops :: "Nalgebra \<Rightarrow> AttitudeOps" where
  "attitude_ops na =
     \<lparr>valid_attitude = (\<lambda>q. case attitude_from_quaternion na q of Inr _ \<Rightarrow> True | Inl _ \<Rightarrow> False),
      slerp = (\<lambda>a b t. case (attitude_from_quaternion na a, attitude_from_quaternion na b) of
         (Inr x, Inr y) \<Rightarrow> attitude_quaternion (attitude_slerp na x y t) | _ \<Rightarrow> b)\<rparr>"

definition apply_state ::
  "SimLib \<Rightarrow> Nalgebra \<Rightarrow> AircraftState \<Rightarrow> FrameSource option \<Rightarrow> bool \<Rightarrow> unit runtime_step" where
  "apply_state lib na state source live_stale =
     then_step (upd (\<lambda>rt. rt\<lparr>rt_warnings := optional_field_warnings state\<rparr>)) (\<lambda>_.
     case frame_from_state na state of
       Inl _ \<Rightarrow> done_step
     | Inr frame \<Rightarrow>
         then_step (on_session (session_apply lib frame)) (\<lambda>_.
         upd (\<lambda>rt. if source = Some Held \<and> live_stale \<and> \<not> rt_stale_reported rt
                    then rt\<lparr>rt_stale_reported := True\<rparr> else rt)))"

definition sample_changed :: "TimestampedState \<Rightarrow> u64 \<Rightarrow> AircraftRuntime \<Rightarrow> bool" where
  "sample_changed sample rv rt \<longleftrightarrow>
     rt_sample_key rt \<noteq> Some (to_bits (st_time sample), rv)
     \<or> \<not> opt_eq state_eq (rt_last_state rt) (Some (st_state sample))"

definition remember_sample :: "TimestampedState \<Rightarrow> u64 \<Rightarrow> AircraftRuntime \<Rightarrow> AircraftRuntime" where
  "remember_sample sample rv rt =
     rt\<lparr>rt_sample_key := Some (to_bits (st_time sample), rv), rt_last_state := Some (st_state sample)\<rparr>"

definition push_sample :: "TimestampedState \<Rightarrow> instant \<Rightarrow> AircraftRuntime \<Rightarrow> AircraftRuntime" where
  "push_sample sample now rt =
     (case buffer_push (st_time sample) (st_state sample) now (rt_smoother rt) of (result, buffer) \<Rightarrow>
        if result = Accepted \<or> result = UpdatedDuplicate
        then rt\<lparr>rt_smoother := buffer, rt_stale_reported := False\<rparr> else rt\<lparr>rt_smoother := buffer\<rparr>)"

definition process_live ::
  "SimLib \<Rightarrow> Nalgebra \<Rightarrow> u64 \<Rightarrow> TimestampedState \<Rightarrow> bool \<Rightarrow> instant \<Rightarrow> SmoothingMode \<Rightarrow> unit runtime_step" where
  "process_live lib na rv sample live_stale loop_start smode = (\<lambda>(rt, st).
     let rt = (if live_stale then rt else rt\<lparr>rt_stale_reported := False\<rparr>);
         raw_changed = sample_changed sample rv rt;
         rt = (if raw_changed then remember_sample sample rv (push_sample sample loop_start rt) else rt)
     in if smode \<noteq> Latest \<or> raw_changed
        then (case buffer_render (attitude_ops na) loop_start (rt_smoother rt) of
                (None, buffer) \<Rightarrow> (Inr (), (rt\<lparr>rt_smoother := buffer\<rparr>, st))
              | (Some smoothed, buffer) \<Rightarrow>
                  apply_state lib na (sf_state smoothed) (Some (sf_source smoothed)) live_stale
                    (rt\<lparr>rt_smoother := buffer\<rparr>, st))
        else if live_stale \<and> \<not> rt_stale_reported rt then (Inr (), (rt\<lparr>rt_stale_reported := True\<rparr>, st))
        else (Inr (), (rt, st)))"

definition process_replay :: "SimLib \<Rightarrow> Nalgebra \<Rightarrow> u64 \<Rightarrow> TimestampedState \<Rightarrow> unit runtime_step" where
  "process_replay lib na rv sample = (\<lambda>(rt, st).
     if sample_changed sample rv rt
     then then_step (apply_state lib na (st_state sample) None False)
            (\<lambda>_. upd (\<lambda>rt. (remember_sample sample rv rt)\<lparr>rt_stale_reported := False\<rparr>)) (rt, st)
     else (Inr (), (rt, st)))"

definition log_stats :: "instant \<Rightarrow> instant \<Rightarrow> AircraftRuntime \<Rightarrow> AircraftRuntime" where
  "log_stats now now' rt =
     (if 5 * nanos_per_sec \<le> now - rt_log rt then rt\<lparr>rt_stats := lf_stats (rt_smoother rt), rt_log := now'\<rparr> else rt)"

definition gear_step :: "SimLib \<Rightarrow> TimeSeriesStore \<Rightarrow> PlaybackSnapshot \<Rightarrow> string \<Rightarrow> unit runtime_step" where
  "gear_step lib s pb aid = (\<lambda>(rt, st).
     case snap_cursor pb of
       None \<Rightarrow> (Inr (), (rt, st))
     | Some c \<Rightarrow>
         (case commands_to_apply s aid (snap_mode pb) c (snap_revision pb) (rt_gear rt) of (cmds, tracker) \<Rightarrow>
            each_step (\<lambda>g. on_session (session_apply_gear lib g)) cmds (rt\<lparr>rt_gear := tracker\<rparr>, st)))"

definition enter_mode :: "PlaybackMode \<Rightarrow> instant \<Rightarrow> AircraftRuntime \<Rightarrow> AircraftRuntime" where
  "enter_mode m now rt =
     (if rt_mode rt \<noteq> Some m then (reset_timeline_state now rt)\<lparr>rt_mode := Some m\<rparr> else rt)"

definition process ::
  "SimLib \<Rightarrow> Nalgebra \<Rightarrow> TimeSeriesStore \<Rightarrow> PlaybackSnapshot \<Rightarrow> string \<Rightarrow> (nat \<Rightarrow> instant) \<Rightarrow> instant \<Rightarrow> duration
     \<Rightarrow> SmoothingMode \<Rightarrow> unit runtime_step" where
  "process lib na s pb aid clk loop_start stale_timeout smode =
     then_step (upd (enter_mode (snap_mode pb) (clk 0))) (\<lambda>_.
     then_step (gear_step lib s pb aid) (\<lambda>_.
     case resolve_sample s pb aid of
       None \<Rightarrow> done_step
     | Some sample \<Rightarrow>
         then_step
           (if snap_mode pb = Live
            then process_live lib na (snap_revision pb) sample (live_state_is_stale (clk 1) aid stale_timeout s) loop_start smode
            else process_replay lib na (snap_revision pb) sample) (\<lambda>_.
         upd (log_stats (clk 2) (clk 3)))))"

end
