(* ===== verification/Ai_Registry.thy ===== *)
theory Ai_Registry
  imports Bridge_Aircraft
begin

text \<open>
  The AI aircraft of the flight simulator bridge (\<open>bindings/msfs/src/ai.rs\<close>): which aircraft are
  shown as AI traffic, the creation requests and their answers, retries, and the removal of aircraft
  that disappear. The three hash maps are association lists. Each loop of \<open>update\<close> reads the clock;
  its readings are indexed by loop.
\<close>

section \<open>State\<close>

record PendingAi =
  pa_request_id :: u32
  pa_send_id :: u32
  pa_first_frame :: MsfsFrame
  pa_requested_at :: instant

record AiRegistry =
  ai_active :: "(string \<times> AircraftRuntime) list"
  ai_pending :: "(string \<times> PendingAi) list"
  ai_retry_after :: "(string \<times> instant) list"

definition ai_registry_new :: AiRegistry where
  "ai_registry_new = \<lparr>ai_active = [], ai_pending = [], ai_retry_after = []\<rparr>"

type_synonym 'a ai_step = "(AiRegistry \<times> SimConnectClient, SimFault, 'a) step"

text \<open>The settings \<open>update\<close> is called with.\<close>

record AiSettings =
  ais_user_aircraft :: "string option"
  ais_title :: string
  ais_max :: nat
  ais_smoothing :: LiveSmoothingConfig
  ais_loop_start :: instant
  ais_stale_timeout :: duration
  ais_mode :: SmoothingMode

section \<open>Candidates\<close>

definition selection_cursor :: "PlaybackSnapshot \<Rightarrow> f64" where
  "selection_cursor pb =
     (if snap_mode pb = Live then f_infinity
      else case snap_cursor pb of None \<Rightarrow> f_neg_infinity | Some c \<Rightarrow> c)"

definition candidates :: "TimeSeriesStore \<Rightarrow> PlaybackSnapshot \<Rightarrow> string option \<Rightarrow> nat \<Rightarrow> string list" where
  "candidates s pb user limit =
     take limit (sort (filter (\<lambda>aid. is_spawned_at aid (selection_cursor pb) s)
       (filter (\<lambda>aid. user \<noteq> Some aid) (get_aircraft_ids s))))"

definition ascii_alphanumeric :: "char \<Rightarrow> bool" where
  "ascii_alphanumeric c \<longleftrightarrow> (let n = of_char c :: nat in
     48 \<le> n \<and> n \<le> 57 \<or> 65 \<le> n \<and> n \<le> 90 \<or> 97 \<le> n \<and> n \<le> 122)"

definition tail_number :: "string \<Rightarrow> string" where
  "tail_number aid = take 12 (''FR'' @ take 8 (filter ascii_alphanumeric aid))"

section \<open>Air speed\<close>

text \<open>
  The integer square root, and the correctly rounded square root over it: the scaled root has
  hundreds of bits, so whether it is exact decides every tie.
\<close>

fun isqrt :: "nat \<Rightarrow> nat" where
  "isqrt n = (if n = 0 then 0 else let r = 2 * isqrt (n div 4) in if (r + 1) * (r + 1) \<le> n then r + 1 else r)"

declare isqrt.simps [simp del]

lemma isqrt_bounds: "isqrt n * isqrt n \<le> n \<and> n < (isqrt n + 1) * (isqrt n + 1)"
proof (induction n rule: isqrt.induct)
  case (1 n)
  show ?case
  proof (cases "n = 0")
    case False
    define q where "q = isqrt (n div 4)"
    have q: "q * q \<le> n div 4" "n div 4 < (q + 1) * (q + 1)" using 1[OF False] by (simp_all add: q_def)
    have "4 * (q * q) \<le> n" using q(1) by linarith
    moreover have "n < 4 * ((q + 1) * (q + 1))" using q(2) by linarith
    moreover have "isqrt n = (if (2 * q + 1) * (2 * q + 1) \<le> n then 2 * q + 1 else 2 * q)"
      using False by (subst isqrt.simps) (simp add: q_def Let_def)
    ultimately show ?thesis by (simp add: algebra_simps)
  qed (simp add: isqrt.simps)
qed

definition f_sqrt :: "f64 \<Rightarrow> f64" where
  "f_sqrt x =
     (if is_nan x then f_nan else if f_mag x = 0 then x else if f_neg x then f_nan
      else if is_infinite x then x
      else let n = val_mag (f_mag x) * unit_scale; r = isqrt n
        in f_round False (2 * r + (if r * r = n then 0 else 1)) 2)"

definition f_square :: "f64 \<Rightarrow> f64" where
  "f_square x = fmul x x"

definition airspeed_knots :: "MsfsAirData \<Rightarrow> f64" where
  "airspeed_knots a =
     fmul (f_sqrt (fadd (fadd (f_square (velocity_body_x a)) (f_square (velocity_body_y a))) (f_square (velocity_body_z a))))
       (F64 0x3FFF19FCAE9A654F)"

section \<open>Removing\<close>

definition remove_session :: "SimLib \<Rightarrow> AircraftRuntime \<Rightarrow> SimConnectClient \<Rightarrow> SimConnectClient" where
  "remove_session lib rt st = snd (remove_ai_object lib (os_object_id (rt_session rt)) st)"

definition ai_clear :: "SimLib \<Rightarrow> AiRegistry \<times> SimConnectClient \<Rightarrow> AiRegistry \<times> SimConnectClient" where
  "ai_clear lib = (\<lambda>(reg, st).
     (ai_registry_new, fold (\<lambda>(_, rt). remove_session lib rt) (ai_active reg) st))"

definition remove_missing :: "SimLib \<Rightarrow> string list \<Rightarrow> AiRegistry \<times> SimConnectClient \<Rightarrow> AiRegistry \<times> SimConnectClient" where
  "remove_missing lib kept = (\<lambda>(reg, st).
     (reg\<lparr>ai_pending := filter (\<lambda>(aid, _). aid \<in> set kept) (ai_pending reg),
          ai_active := filter (\<lambda>(aid, _). aid \<in> set kept) (ai_active reg)\<rparr>,
      fold (\<lambda>(_, rt). remove_session lib rt) (filter (\<lambda>(aid, _). aid \<notin> set kept) (ai_active reg)) st))"

section \<open>Answers to creation requests\<close>

definition retry_delay :: duration where
  "retry_delay = 5 * nanos_per_sec"

definition drop_pending :: "string \<Rightarrow> instant \<Rightarrow> AiRegistry \<Rightarrow> AiRegistry" where
  "drop_pending aid now reg =
     reg\<lparr>ai_pending := al_del aid (ai_pending reg), ai_retry_after := al_put aid (now + retry_delay) (ai_retry_after reg)\<rparr>"

definition reject_request :: "instant \<Rightarrow> SimConnectException \<Rightarrow> AiRegistry \<Rightarrow> AiRegistry" where
  "reject_request now ex reg =
     (case find (\<lambda>(_, p). pa_send_id p = ex_send_id ex) (ai_pending reg) of
        None \<Rightarrow> reg
      | Some (aid, _) \<Rightarrow> drop_pending aid now reg)"

definition expire_requests :: "instant \<Rightarrow> AiRegistry \<Rightarrow> AiRegistry" where
  "expire_requests now reg =
     fold (\<lambda>aid. drop_pending aid now)
       (map fst (filter (\<lambda>(_, p). 10 * nanos_per_sec \<le> now - pa_requested_at p) (ai_pending reg))) reg"

text \<open>
  One pending request: nothing without an assigned object; otherwise the entry is removed, and the
  new runtime becomes active after the control was released and the first frame written.
\<close>

definition activate ::
  "SimLib \<Rightarrow> AiSettings \<Rightarrow> instant \<Rightarrow> string \<Rightarrow> PendingAi \<Rightarrow> u32 \<Rightarrow> unit ai_step" where
  "activate lib cfg now aid p obj =
     then_step (on_client (release_ai_control lib obj)) (\<lambda>_ (reg, st).
       case on_session (session_apply lib (pa_first_frame p)) (runtime_new (session_ai obj) (ais_smoothing cfg) now, st) of
         (Inl e, (rt, st')) \<Rightarrow> (Inl e, (reg, st'))
       | (Inr _, (rt, st')) \<Rightarrow> (Inr (), (reg\<lparr>ai_active := al_put aid rt (ai_active reg)\<rparr>, st')))"

definition assign_one :: "SimLib \<Rightarrow> AiSettings \<Rightarrow> instant \<Rightarrow> string list \<Rightarrow> string \<Rightarrow> unit ai_step" where
  "assign_one lib cfg now kept aid = (\<lambda>(reg, st).
     case map_of (ai_pending reg) aid of
       None \<Rightarrow> (Inr (), (reg, st))
     | Some p \<Rightarrow>
         (case take_assigned_object (pa_request_id p) st of
            (None, st') \<Rightarrow> (Inr (), (reg, st'))
          | (Some obj, st') \<Rightarrow>
              let reg' = reg\<lparr>ai_pending := al_del aid (ai_pending reg)\<rparr> in
              if aid \<notin> set kept then on_client (remove_ai_object lib obj) (reg', st')
              else activate lib cfg now aid p obj (reg', st')))"

section \<open>Requesting aircraft\<close>

definition request_ai ::
  "SimLib \<Rightarrow> Nalgebra \<Rightarrow> TimeSeriesStore \<Rightarrow> PlaybackSnapshot \<Rightarrow> AiSettings \<Rightarrow> instant \<Rightarrow> string \<Rightarrow> unit ai_step" where
  "request_ai lib na s pb cfg now aid = (\<lambda>(reg, st).
     case resolve_sample s pb aid of
       None \<Rightarrow> (Inr (), (reg, st))
     | Some sample \<Rightarrow>
         (case frame_from_state na (st_state sample) of
            Inl _ \<Rightarrow> (Inr (), (reg, st))
          | Inr frame \<Rightarrow>
              (case create_ai_aircraft lib (ais_title cfg) (tail_number aid) (mf_pose frame)
                  (map_option airspeed_knots (mf_airdata frame)) st of
                 (Inr r, st') \<Rightarrow>
                   (Inr (), (reg\<lparr>ai_pending := al_put aid \<lparr>pa_request_id = ar_request_id r, pa_send_id = ar_send_id r,
                      pa_first_frame = frame, pa_requested_at = ais_loop_start cfg\<rparr> (ai_pending reg)\<rparr>, st'))
               | (Inl (SimError _), st') \<Rightarrow>
                   (Inr (), (reg\<lparr>ai_retry_after := al_put aid (now + retry_delay) (ai_retry_after reg)\<rparr>, st'))
               | (Inl SimPanic, st') \<Rightarrow> (Inl SimPanic, (reg, st')))))"

definition known_ai :: "string \<Rightarrow> AiRegistry \<Rightarrow> bool" where
  "known_ai aid reg \<longleftrightarrow> aid \<in> set (al_keys (ai_active reg)) \<or> aid \<in> set (al_keys (ai_pending reg))"

definition must_wait :: "instant \<Rightarrow> string \<Rightarrow> AiRegistry \<Rightarrow> bool" where
  "must_wait now aid reg \<longleftrightarrow> (case map_of (ai_retry_after reg) aid of None \<Rightarrow> False | Some t \<Rightarrow> now < t)"

fun request_loop ::
  "SimLib \<Rightarrow> Nalgebra \<Rightarrow> TimeSeriesStore \<Rightarrow> PlaybackSnapshot \<Rightarrow> AiSettings \<Rightarrow> instant \<Rightarrow> string list \<Rightarrow> unit ai_step" where
  "request_loop lib na s pb cfg now [] = done_step"
| "request_loop lib na s pb cfg now (aid # aids) = (\<lambda>(reg, st).
     if known_ai aid reg then request_loop lib na s pb cfg now aids (reg, st)
     else if ais_max cfg \<le> length (ai_active reg) + length (ai_pending reg) then (Inr (), (reg, st))
     else if must_wait now aid reg then request_loop lib na s pb cfg now aids (reg, st)
     else then_step (request_ai lib na s pb cfg now aid) (\<lambda>_. request_loop lib na s pb cfg now aids) (reg, st))"

section \<open>The update\<close>

definition process_one ::
  "SimLib \<Rightarrow> Nalgebra \<Rightarrow> TimeSeriesStore \<Rightarrow> PlaybackSnapshot \<Rightarrow> AiSettings \<Rightarrow> (nat \<Rightarrow> instant) \<Rightarrow> string \<Rightarrow> unit ai_step" where
  "process_one lib na s pb cfg clk aid = (\<lambda>(reg, st).
     case map_of (ai_active reg) aid of
       None \<Rightarrow> (Inr (), (reg, st))
     | Some rt \<Rightarrow>
         (case process lib na s pb aid clk (ais_loop_start cfg) (ais_stale_timeout cfg) (ais_mode cfg) (rt, st) of
            (r, (rt', st')) \<Rightarrow> (r, (reg\<lparr>ai_active := al_put aid rt' (ai_active reg)\<rparr>, st'))))"

definition ai_update ::
  "SimLib \<Rightarrow> Nalgebra \<Rightarrow> TimeSeriesStore \<Rightarrow> PlaybackSnapshot \<Rightarrow> AiSettings \<Rightarrow> (nat \<Rightarrow> instant) \<Rightarrow> unit ai_step" where
  "ai_update lib na s pb cfg clk = (\<lambda>x.
     let cands = candidates s pb (ais_user_aircraft cfg) (ais_max cfg);
         (reg, st) = remove_missing lib cands x;
         (raised, st) = drain_exceptions st;
         reg = expire_requests (clk 1) (fold (reject_request (clk 0)) raised reg)
     in then_step (each_step (assign_one lib cfg (clk 2) cands) (al_keys (ai_pending reg))) (\<lambda>_.
        then_step (request_loop lib na s pb cfg (clk 3) cands) (\<lambda>_.
        each_step (process_one lib na s pb cfg (\<lambda>n. clk (4 + n))) cands)) (reg, st))"

end
