(* ===== verification/Bridge_Aircraft_Properties.thy ===== *)
theory Bridge_Aircraft_Properties
  imports Bridge_Aircraft Msfs_Frame_Properties
begin

text \<open>
  Properties of driving one aircraft: the object's session is the library's bridge session over the
  client's operations on that object, so everything is written while the object is frozen as long
  as no release fails; what a failed release leads to; and that an aircraft that is not spawned is
  not written.
\<close>

section \<open>The session is a bridge session\<close>

definition bridge_of :: "ObjectSession \<times> SimConnectClient \<Rightarrow> SimConnectClient BridgeSession" where
  "bridge_of x = \<lparr>br_simulator = snd x, br_frozen = os_frozen (fst x)\<rparr>"

definition from_bridge :: "ObjectSession \<Rightarrow> ('r \<times> SimConnectClient BridgeSession) \<Rightarrow> 'r \<times> ObjectSession \<times> SimConnectClient" where
  "from_bridge se = (\<lambda>(r, b). (r, (se\<lparr>os_frozen := br_frozen b\<rparr>, br_simulator b)))"

lemma object_write_eq: "object_write lib obj f = write_frame (object_ops lib obj) f"
  by (cases "mf_airdata f") (simp_all add: object_write_def write_frame_def object_ops_def frame_control_values_def)

lemma session_apply_bridge:
  "session_apply lib f (se, st) = from_bridge se (bridge_apply (object_ops lib (os_object_id se)) f (bridge_of (se, st)))"
  by (auto simp: session_apply_def bridge_apply_def from_bridge_def bridge_of_def then_step_def on_client_def upd_def
      on_simulator_def mark_frozen_def done_step_def object_write_eq object_ops_def split: prod.splits sum.splits)

lemma session_gear_bridge:
  "session_apply_gear lib g (se, st) = from_bridge se (bridge_apply_gear (object_ops lib (os_object_id se)) g (bridge_of (se, st)))"
  by (auto simp: session_apply_gear_def bridge_apply_gear_def from_bridge_def bridge_of_def on_client_def
      on_simulator_def object_ops_def split: prod.splits)

lemma session_release_bridge:
  "os_user_aircraft se \<Longrightarrow>
   session_release lib (se, st) = from_bridge se (bridge_release (object_ops lib (os_object_id se)) (bridge_of (se, st)))"
  by (auto simp: session_release_def bridge_release_def from_bridge_def bridge_of_def then_step_def on_client_def upd_def
      on_simulator_def mark_frozen_def done_step_def object_ops_def split: prod.splits sum.splits)

section \<open>Writes happen while frozen\<close>

text \<open>The session of one object and the history of the connection.\<close>

definition session_inv :: "u32 \<Rightarrow> ObjectSession \<times> SimConnectClient \<Rightarrow> bool" where
  "session_inv obj x \<longleftrightarrow> os_object_id (fst x) = obj \<and> sim_object.session_ok obj (bridge_of x)"

lemma session_inv_iff:
  "session_inv obj (se, st) \<longleftrightarrow> os_object_id se = obj \<and> writes_frozen obj (sim_history st)
     \<and> (os_frozen se \<longrightarrow> freeze_on obj (sim_history st))"
  by (simp add: session_inv_def bridge_of_def sim_object.session_ok_def)

lemma from_bridge_inv:
  assumes "os_object_id se = obj" "sim_object.session_ok obj (snd rb)"
  shows "session_inv obj (snd (from_bridge se rb))"
  using assms by (cases rb) (simp add: session_inv_iff from_bridge_def sim_object.session_ok_def)

lemma apply_inv: "keeps (session_inv obj) (session_apply lib f)"
  using keepsD[OF sim_object.apply_ok]
  by (auto simp: keeps_def session_apply_bridge session_inv_def[of obj "(a, b)" for a b] intro!: from_bridge_inv)

lemma gear_inv: "keeps (session_inv obj) (session_apply_gear lib g)"
  using keepsD[OF sim_object.gear_ok]
  by (auto simp: keeps_def session_gear_bridge session_inv_def[of obj "(a, b)" for a b] intro!: from_bridge_inv)

lemma release_inv:
  assumes inv: "session_inv obj (se, st)" and ok: "fst (session_release lib (se, st)) = Inr ()"
  shows "session_inv obj (snd (session_release lib (se, st)))"
proof (cases "os_user_aircraft se")
  case True
  let ?b = "bridge_release (object_ops lib obj) (bridge_of (se, st))"
  have id: "os_object_id se = obj" using inv by (simp add: session_inv_iff)
  have "fst ?b = Inr ()" using ok by (cases ?b) (simp add: session_release_bridge[OF True] from_bridge_def id)
  then show ?thesis
    using inv unfolding session_release_bridge[OF True] id
    by (intro from_bridge_inv[OF id] sim_object.release_ok) (simp_all add: session_inv_def)
next
  case False
  with inv show ?thesis by (simp add: session_release_def done_step_def)
qed

definition runtime_inv :: "u32 \<Rightarrow> AircraftRuntime \<times> SimConnectClient \<Rightarrow> bool" where
  "runtime_inv obj x \<longleftrightarrow> session_inv obj (rt_session (fst x), snd x)"

lemma keeps_on_session: "keeps (session_inv obj) m \<Longrightarrow> keeps (runtime_inv obj) (on_session m)"
  by (auto simp: keeps_def runtime_inv_def on_session_def split: prod.split) (metis snd_conv)

lemma keeps_upd: "(\<And>rt. rt_session (f rt) = rt_session rt) \<Longrightarrow> keeps (runtime_inv obj) (upd f)"
  by (simp add: keeps_def runtime_inv_def upd_def split: prod.split)

lemma session_updates [simp]:
  "rt_session (reset_timeline_state now rt) = rt_session rt"
  "rt_session (enter_mode m now rt) = rt_session rt"
  "rt_session (remember_sample sample rv rt) = rt_session rt"
  "rt_session (push_sample sample now rt) = rt_session rt"
  "rt_session (log_stats now now' rt) = rt_session rt"
  by (simp_all add: reset_timeline_state_def enter_mode_def remember_sample_def push_sample_def log_stats_def
      split: prod.split)

lemma apply_state_inv: "keeps (runtime_inv obj) (apply_state lib na state src stale)"
  unfolding apply_state_def
  by (intro keeps_then keeps_upd) (auto intro!: keeps_then keeps_on_session keeps_upd apply_inv split: sum.split)

lemma gear_step_inv: "keeps (runtime_inv obj) (gear_step lib s pb aid)"
proof (unfold keeps_def, intro allI impI)
  fix x assume inv: "runtime_inv obj x"
  obtain rt st where x: "x = (rt, st)" by fastforce
  have each: "keeps (runtime_inv obj) (each_step (\<lambda>g. on_session (session_apply_gear lib g)) cmds)" for cmds
    by (intro keeps_each keeps_on_session gear_inv)
  show "runtime_inv obj (snd (gear_step lib s pb aid x))"
    using inv x keepsD[OF each] by (auto simp: gear_step_def runtime_inv_def split: option.split prod.split)
qed

lemma process_live_inv: "keeps (runtime_inv obj) (process_live lib na rv sample stale start smode)"
proof (unfold keeps_def, intro allI impI)
  fix x assume inv: "runtime_inv obj x"
  obtain rt st where x: "x = (rt, st)" by fastforce
  show "runtime_inv obj (snd (process_live lib na rv sample stale start smode x))"
    using inv x keepsD[OF apply_state_inv, of obj _ lib na]
    by (auto simp: process_live_def runtime_inv_def Let_def split: option.split prod.split)
qed

lemma process_replay_inv: "keeps (runtime_inv obj) (process_replay lib na rv sample)"
proof (unfold keeps_def, intro allI impI)
  fix x assume inv: "runtime_inv obj x"
  obtain rt st where x: "x = (rt, st)" by fastforce
  have "keeps (runtime_inv obj) (then_step (apply_state lib na (st_state sample) None False)
      (\<lambda>_. upd (\<lambda>rt. (remember_sample sample rv rt)\<lparr>rt_stale_reported := False\<rparr>)))"
    by (intro keeps_then keeps_upd apply_state_inv) simp
  from keepsD[OF this inv] inv show "runtime_inv obj (snd (process_replay lib na rv sample x))"
    by (simp add: process_replay_def x)
qed

lemma process_inv: "keeps (runtime_inv obj) (process lib na s pb aid clk start timeout smode)"
  unfolding process_def
  by (intro keeps_then keeps_upd gear_step_inv)
    (auto intro!: keeps_then keeps_upd process_live_inv process_replay_inv split: option.split)

text \<open>What the main loop does with the runtime of one aircraft.\<close>

record DriveCall =
  dc_store :: TimeSeriesStore
  dc_playback :: PlaybackSnapshot
  dc_aircraft :: string
  dc_clock :: "nat \<Rightarrow> instant"
  dc_loop_start :: instant
  dc_timeout :: duration
  dc_smoothing :: SmoothingMode

datatype DriveOp = DProcess DriveCall | DReset instant | DRelease

definition drive_op :: "SimLib \<Rightarrow> Nalgebra \<Rightarrow> DriveOp \<Rightarrow> unit runtime_step" where
  "drive_op lib na dop =
     (case dop of
        DProcess c \<Rightarrow> process lib na (dc_store c) (dc_playback c) (dc_aircraft c) (dc_clock c) (dc_loop_start c)
          (dc_timeout c) (dc_smoothing c)
      | DReset now \<Rightarrow> upd (reset_timeline_state now)
      | DRelease \<Rightarrow> on_session (session_release lib))"

fun drive :: "SimLib \<Rightarrow> Nalgebra \<Rightarrow> DriveOp list \<Rightarrow> AircraftRuntime \<times> SimConnectClient
    \<Rightarrow> (DriveOp \<times> (SimFault + unit)) list \<times> (AircraftRuntime \<times> SimConnectClient)" where
  "drive lib na [] x = ([], x)"
| "drive lib na (dop # dops) x =
     (case drive_op lib na dop x of (r, x') \<Rightarrow>
       (case drive lib na dops x' of (rs, x'') \<Rightarrow> ((dop, r) # rs, x'')))"

lemma drive_op_inv:
  assumes "runtime_inv obj x" "dop = DRelease \<Longrightarrow> fst (drive_op lib na dop x) = Inr ()"
  shows "runtime_inv obj (snd (drive_op lib na dop x))"
proof (cases dop)
  case DRelease
  obtain rt st where x: "x = (rt, st)" by fastforce
  obtain r se st' where r: "session_release lib (rt_session rt, st) = (r, (se, st'))" by (metis prod.exhaust)
  have "fst (session_release lib (rt_session rt, st)) = Inr ()"
    using assms(2) DRelease by (simp add: drive_op_def on_session_def x r)
  from release_inv[OF _ this, of obj] assms(1) show ?thesis
    by (simp add: DRelease drive_op_def on_session_def x r runtime_inv_def)
qed (use assms(1) keepsD[OF process_inv] keepsD[OF keeps_upd] in \<open>simp_all add: drive_op_def\<close>)

lemma drive_inv:
  assumes "runtime_inv obj x" "drive lib na dops x = (rs, x')" "\<forall>r. (DRelease, r) \<in> set rs \<longrightarrow> r = Inr ()"
  shows "runtime_inv obj x'"
  using assms
proof (induction dops arbitrary: x rs)
  case (Cons dop dops)
  obtain r x1 where op: "drive_op lib na dop x = (r, x1)" by (cases "drive_op lib na dop x")
  obtain rs1 where rest: "drive lib na dops x1 = (rs1, x')" "rs = (dop, r) # rs1"
    using Cons.prems(2) op by (auto split: prod.splits)
  have ok: "dop = DRelease \<Longrightarrow> r = Inr ()" "\<forall>r. (DRelease, r) \<in> set rs1 \<longrightarrow> r = Inr ()"
    using rest(2) Cons.prems(3) by simp_all
  have "fst (drive_op lib na dop x) = Inr ()" if "dop = DRelease"
    using ok(1)[OF that] by (simp only: op fst_conv)
  from drive_op_inv[OF Cons.prems(1) this] have "runtime_inv obj x1" by (simp add: op)
  from Cons.IH[OF this rest(1) ok(2)] show ?case .
qed simp

text \<open>C13: Whatever the playback state, the store, the clock and the failures of the simulator do, every
  write to the driven object happens while all three of its axes are frozen, unless a release failed.\<close>

theorem writes_only_while_frozen:
  assumes "drive lib na dops (runtime_new se cfg now, st) = (rs, (rt, st'))"
    and "\<not> os_frozen se" "writes_frozen (os_object_id se) (sim_history st)"
    and "\<forall>r. (DRelease, r) \<in> set rs \<longrightarrow> r = Inr ()"
  shows "writes_frozen (os_object_id se) (sim_history st')"
proof -
  have "runtime_inv (os_object_id se) (runtime_new se cfg now, st)"
    using assms(2,3) by (simp add: runtime_inv_def session_inv_iff runtime_new_def)
  from drive_inv[OF this assms(1,4)] show ?thesis by (simp add: runtime_inv_def session_inv_iff)
qed

lemma drive_labels: "map fst (fst (drive lib na dops x)) = dops"
proof (induction dops arbitrary: x)
  case (Cons dop dops)
  obtain r x' where op: "drive_op lib na dop x = (r, x')" by (cases "drive_op lib na dop x")
  obtain rs x'' where rest: "drive lib na dops x' = (rs, x'')" by (cases "drive lib na dops x'")
  from Cons[of x'] show ?case by (simp add: op rest)
qed simp

definition working_lib :: SimLib where
  "working_lib = \<lparr>lib_result = (\<lambda>h c. 0), lib_message = (\<lambda>h. None), lib_packet = (\<lambda>h. 0), lib_oversleep = (\<lambda>h. 0)\<rparr>"

definition demo_drive :: DriveCall where
  "demo_drive = \<lparr>dc_store = store_new,
     dc_playback = \<lparr>snap_mode = Live, snap_cursor = Some f_one, snap_speed = f_one, snap_bounds = None, snap_revision = 0\<rparr>,
     dc_aircraft = ''a'', dc_clock = (\<lambda>n. n), dc_loop_start = 0, dc_timeout = 0, dc_smoothing = Latest\<rparr>"

lemma writes_only_while_frozen_witness:
  "writes_frozen OBJECT_USER (sim_history (snd (snd
     (drive working_lib demo_na [DProcess demo_drive, DReset 0]
        (runtime_new session_user smoothing_config_default 0, client_opened 0 [])))))"
proof -
  let ?x = "(runtime_new session_user smoothing_config_default 0, client_opened 0 [])"
  obtain rs rt st where d: "drive working_lib demo_na [DProcess demo_drive, DReset 0] ?x = (rs, (rt, st))"
    by (metis prod.exhaust)
  then have "map fst rs = [DProcess demo_drive, DReset 0]"
    using drive_labels[of working_lib demo_na _ ?x] by (metis fst_conv)
  then have "\<forall>r. (DRelease, r) \<in> set rs \<longrightarrow> r = Inr ()" by (auto simp: map_eq_Cons_conv)
  then show ?thesis
    using writes_only_while_frozen[OF d] unfolding d
    by (simp add: session_user_def client_opened_def is_write_def writes_frozen_def)
qed

section \<open>A release that fails\<close>

text \<open>
  \<open>release\<close> keeps its frozen flag when the simulator refuses one of the three axes, although the
  axes before it are released already; the main loop only logs the error, so the next aircraft is
  written with these axes free.
\<close>

lemma unfrozen_kept [intro]:
  "keeps (\<lambda>st. \<not> writes_frozen obj (sim_history st)) (set_airdata_for_object lib obj' a)"
  "keeps (\<lambda>st. \<not> writes_frozen obj (sim_history st)) (set_surface_for_object lib obj' sf v)"
  "keeps (\<lambda>st. \<not> writes_frozen obj (sim_history st)) (set_engine_throttle_for_object lib obj' i v)"
  by (simp_all add: keeps_def set_airdata_for_object_def set_surface_for_object_def set_engine_throttle_for_object_def)

lemma unfrozen_write:
  "\<not> freeze_on obj (sim_history st) \<Longrightarrow> \<not> writes_frozen obj (sim_history (snd (set_pose_for_object lib obj p st)))"
  by (simp add: set_pose_for_object_def)

lemma failed_release_writes_unfrozen:
  assumes user: "os_user_aircraft se" "os_frozen se" "os_object_id se = OBJECT_USER"
    and st: "original_freeze st = [False, b, c]"
    and results: "0 \<le> sint (lib_result lib (sim_history st) (FTransmit OBJECT_USER EVENT_FREEZE_LAT_LON 0))"
      "sint (lib_result lib (sim_history st @ [FTransmit OBJECT_USER EVENT_FREEZE_LAT_LON 0])
         (FTransmit OBJECT_USER EVENT_FREEZE_ALTITUDE (if b then 1 else 0))) < 0"
  obtains e se' st' where "session_release lib (se, st) = (Inl e, (se', st'))" "os_frozen se'"
    "\<not> writes_frozen OBJECT_USER (sim_history (snd (snd (session_apply lib f (se', st')))))"
proof -
  let ?st' = "st\<lparr>sim_history := sim_history st @ [FTransmit OBJECT_USER EVENT_FREEZE_LAT_LON 0,
      FTransmit OBJECT_USER EVENT_FREEZE_ALTITUDE (if b then 1 else 0)]\<rparr>"
  have "\<exists>e. session_release lib (se, st) = (Inl e, (se, ?st'))"
    using user st results
    by (simp add: session_release_def then_step_def on_client_def set_frozen_for_object_def freeze_values_def
        transmit_freeze_eq sim_call_def check_hresult_def)
  moreover have "\<not> writes_frozen OBJECT_USER (sim_history (snd (snd (session_apply lib f (se, ?st')))))"
  proof -
    have off: "\<not> freeze_on OBJECT_USER (sim_history ?st')"
      by (simp add: freeze_on_def last_freeze_def freeze_value_of_def EVENT_FREEZE_LAT_LON_def EVENT_FREEZE_ALTITUDE_def)
    have "\<not> writes_frozen OBJECT_USER (sim_history (snd (object_write lib OBJECT_USER f ?st')))"
    proof -
      obtain r st1 where p: "set_pose_for_object lib OBJECT_USER (mf_pose f) ?st' = (r, st1)" by fastforce
      then have "\<not> writes_frozen OBJECT_USER (sim_history st1)"
        using unfrozen_write[OF off, of lib "mf_pose f"] by simp
      moreover obtain R where R: "object_write lib OBJECT_USER f
          = then_step (set_pose_for_object lib OBJECT_USER (mf_pose f)) (\<lambda>_. R)"
        and k: "keeps (\<lambda>st. \<not> writes_frozen OBJECT_USER (sim_history st)) R"
        by (rule that[OF object_write_def]) (intro keeps_then keeps_each; auto split: option.split)
      ultimately show ?thesis using keepsD[OF k, of st1] by (simp add: R then_step_def p split: sum.split)
    qed
    moreover obtain r2 st2 where "object_write lib OBJECT_USER f ?st' = (r2, st2)" by fastforce
    ultimately show ?thesis
      using user by (simp add: session_apply_def then_step_def done_step_def on_client_def)
  qed
  ultimately show thesis using user(2) that by blast
qed

section \<open>Aircraft that are not spawned\<close>

lemma gear_calls_only:
  "\<exists>gs. sim_history (snd (snd (each_step (\<lambda>g. on_session (session_apply_gear lib g)) cmds (rt, st))))
      = sim_history st @ map (\<lambda>g. FTransmit (os_object_id (rt_session rt)) (gear_event g) 0) gs"
proof (induction cmds arbitrary: rt st)
  case (Cons g cmds)
  let ?c = "FTransmit (os_object_id (rt_session rt)) (gear_event g) 0"
  obtain r st' where c: "set_landing_gear_for_object lib (os_object_id (rt_session rt)) g st = (r, st')" by fastforce
  then have h: "sim_history st' = sim_history st @ [?c]"
    by (auto simp: set_landing_gear_for_object_def transmit_event_for_object_def sim_call_def)
  have step: "on_session (session_apply_gear lib g) (rt, st) = (r, (rt, st'))"
    by (simp add: on_session_def session_apply_gear_def on_client_def c)
  show ?case
  proof (cases r)
    case (Inl e)
    then have "sim_history (snd (snd (each_step (\<lambda>g. on_session (session_apply_gear lib g)) (g # cmds) (rt, st))))
        = sim_history st @ map (\<lambda>g. FTransmit (os_object_id (rt_session rt)) (gear_event g) 0) [g]"
      by (simp add: then_step_def step h)
    then show ?thesis by blast
  next
    case (Inr u)
    from Cons[of rt st'] obtain gs where
      "sim_history (snd (snd (each_step (\<lambda>g. on_session (session_apply_gear lib g)) (g # cmds) (rt, st))))
        = sim_history st @ map (\<lambda>g. FTransmit (os_object_id (rt_session rt)) (gear_event g) 0) (g # gs)"
      by (auto simp: then_step_def step h Inr)
    then show ?thesis by blast
  qed
qed (auto simp: done_step_def intro: exI[of _ "[]"])

text \<open>While the playback state resolves to no sample, because the aircraft is not spawned at the cursor
  or has no state there, processing it writes nothing and freezes nothing: the only calls are gear
  commands.\<close>

theorem unresolved_aircraft_not_written:
  assumes "resolve_sample s pb aid = None"
  shows "\<exists>gs. sim_history (snd (snd (process lib na s pb aid clk start timeout smode (rt, st))))
      = sim_history st @ map (\<lambda>g. FTransmit (os_object_id (rt_session rt)) (gear_event g) 0) gs"
proof -
  let ?rt = "enter_mode (snap_mode pb) (clk 0) rt"
  have "snd (process lib na s pb aid clk start timeout smode (rt, st)) = snd (gear_step lib s pb aid (?rt, st))"
    using assms by (simp add: process_def then_step_def upd_def done_step_def split: prod.split sum.split)
  moreover have "\<exists>gs. sim_history (snd (snd (gear_step lib s pb aid (?rt, st))))
      = sim_history st @ map (\<lambda>g. FTransmit (os_object_id (rt_session rt)) (gear_event g) 0) gs"
  proof (cases "snap_cursor pb")
    case None
    then show ?thesis by (auto simp: gear_step_def intro: exI[of _ "[]"])
  next
    case (Some c)
    obtain cmds tr where "commands_to_apply s aid (snap_mode pb) c (snap_revision pb) (rt_gear ?rt) = (cmds, tr)"
      by fastforce
    with Some gear_calls_only[of lib cmds "?rt\<lparr>rt_gear := tr\<rparr>" st] show ?thesis by (simp add: gear_step_def)
  qed
  ultimately show ?thesis by metis
qed

lemma unresolved_aircraft_not_written_witness:
  "\<exists>gs. sim_history (snd (snd (process working_lib demo_na store_new (dc_playback demo_drive) ''a'' (\<lambda>n. n) 0 0 Latest
        (runtime_new session_user smoothing_config_default 0, client_opened 0 []))))
      = [FOpen] @ map (\<lambda>g. FTransmit OBJECT_USER (gear_event g) 0) gs"
proof -
  have "resolve_sample store_new (dc_playback demo_drive) ''a'' = None"
    by (simp add: resolve_sample_def demo_drive_def is_spawned_at_def lookup_def store_new_def)
  from unresolved_aircraft_not_written[OF this, of working_lib demo_na "\<lambda>n. n" 0 0 Latest
      "runtime_new session_user smoothing_config_default 0" "client_opened 0 []"]
  show ?thesis by (simp add: runtime_new_def session_user_def client_opened_def)
qed

end
