(* ===== verification/Aircraft_Contract.thy ===== *)
theory Aircraft_Contract
  imports Ai_Registry Bridge_Aircraft_Properties
begin

text \<open>
  What the bridge may do to the simulator client. A property of the client that freezing an object,
  writing a frame to it and moving its gear keep is kept by everything the bridge does with one
  aircraft (locale \<open>driven_client\<close>); one that creating, releasing and removing AI aircraft, taking
  messages and polling keep as well is kept by the whole AI registry (locale \<open>ai_client\<close>).
\<close>

section \<open>Predicates of the parts of a step\<close>

text \<open>A client predicate together with the object of the session; sessions never change their object.\<close>

definition held :: "(SimConnectClient \<Rightarrow> bool) \<Rightarrow> u32 \<Rightarrow> ObjectSession \<times> SimConnectClient \<Rightarrow> bool" where
  "held Q i x \<longleftrightarrow> Q (snd x) \<and> os_object_id (fst x) = i"

definition driven :: "(SimConnectClient \<Rightarrow> bool) \<Rightarrow> u32 \<Rightarrow> AircraftRuntime \<times> SimConnectClient \<Rightarrow> bool" where
  "driven Q i x \<longleftrightarrow> held Q i (rt_session (fst x), snd x)"

lemma held_client: "keeps Q m \<Longrightarrow> keeps (held Q i) (on_client m)"
  by (simp add: keeps_def on_client_def held_def split_beta)

lemma held_upd: "(\<And>se. os_object_id (f se) = os_object_id se) \<Longrightarrow> keeps (held Q i) (upd f)"
  by (simp add: keeps_def upd_def held_def split_beta)

lemma driven_upd: "(\<And>rt. rt_session (f rt) = rt_session rt) \<Longrightarrow> keeps (driven Q i) (upd f)"
  by (simp add: keeps_def upd_def driven_def split_beta)

lemma driven_session: "keeps (held Q i) m \<Longrightarrow> keeps (driven Q i) (on_session m)"
  by (simp add: keeps_def on_session_def driven_def split_beta)

section \<open>Predicates kept by every call\<close>

lemma set_frozen_by_calls:
  assumes "\<And>op e v. keeps Q (sim_call lib op (FTransmit obj e v))"
    and "\<And>st. Q st \<Longrightarrow> Q (st\<lparr>acquired_freeze := b\<rparr>)"
  shows "keeps Q (set_frozen_for_object lib obj b)"
proof (unfold keeps_def, intro allI impI)
  fix st :: SimConnectClient
  assume Q: "Q st"
  have "keeps Q (then_step (each_step (transmit_freeze_for_object lib obj) vs)
       (\<lambda>_ st. (Inr (), if obj = OBJECT_USER then st\<lparr>acquired_freeze := b\<rparr> else st)))" for vs
    using assms by (intro keeps_then keeps_each) (auto simp: transmit_freeze_eq keeps_def)
  then show "Q (snd (set_frozen_for_object lib obj b st))"
    unfolding set_frozen_for_object_def using Q by (rule keepsD)
qed

lemma object_write_by_calls:
  assumes "\<And>op d vs. keeps Q (sim_call lib op (FSetData d obj vs))"
    and "\<And>st v. Q st \<Longrightarrow> Q (st\<lparr>reported_unsupported_engines := v\<rparr>)"
  shows "keeps Q (object_write lib obj f)"
proof -
  have "keeps Q (set_engine_throttle_for_object lib obj i v)" for i v
    using assms by (auto simp: keeps_def set_engine_throttle_for_object_def)
  then show ?thesis
    unfolding object_write_def
    by (intro keeps_then keeps_each)
      (auto simp: set_pose_for_object_def set_airdata_for_object_def set_surface_for_object_def
        intro!: assms(1) split: option.split)
qed

lemma landing_gear_by_calls:
  "(\<And>op. keeps Q (sim_call lib op (FTransmit obj (gear_event g) 0))) \<Longrightarrow> keeps Q (set_landing_gear_for_object lib obj g)"
  by (simp add: set_landing_gear_for_object_def transmit_event_for_object_def)

section \<open>Driving one aircraft\<close>

locale driven_client =
  fixes lib :: SimLib and Q :: "SimConnectClient \<Rightarrow> bool"
  assumes freezing: "keeps Q (set_frozen_for_object lib obj b)"
    and writing: "keeps Q (object_write lib obj f)"
    and moving_gear: "keeps Q (set_landing_gear_for_object lib obj g)"
begin

lemma apply_held: "keeps (held Q i) (session_apply lib f)"
proof (unfold keeps_def, intro allI impI)
  fix x :: "ObjectSession \<times> SimConnectClient"
  assume Q: "held Q i x"
  obtain se st where x: "x = (se, st)" by fastforce
  have "keeps (held Q i) (then_step
       (if os_frozen se then done_step
        else then_step (on_client (set_frozen_for_object lib (os_object_id se) True))
               (\<lambda>_. upd (\<lambda>se. se\<lparr>os_frozen := True\<rparr>)))
       (\<lambda>_. on_client (object_write lib (os_object_id se) f)))"
    by (auto intro!: keeps_then held_client held_upd freezing writing)
  from keepsD[OF this Q] show "held Q i (snd (session_apply lib f x))" by (simp add: session_apply_def x)
qed

lemma gear_held: "keeps (held Q i) (session_apply_gear lib g)"
  using held_client[OF moving_gear] by (auto simp: keeps_def session_apply_gear_def)

lemma release_held: "keeps (held Q i) (session_release lib)"
proof (unfold keeps_def, intro allI impI)
  fix x :: "ObjectSession \<times> SimConnectClient"
  assume Q: "held Q i x"
  obtain se st where x: "x = (se, st)" by fastforce
  have "keeps (held Q i) (if os_user_aircraft se \<and> os_frozen se
      then then_step (on_client (set_frozen_for_object lib (os_object_id se) False)) (\<lambda>_. upd (\<lambda>se. se\<lparr>os_frozen := False\<rparr>))
      else done_step)"
    by (auto intro!: keeps_then held_client held_upd freezing)
  from keepsD[OF this Q] show "held Q i (snd (session_release lib x))" by (simp add: session_release_def x)
qed

lemma apply_state_driven: "keeps (driven Q i) (apply_state lib na state src stale)"
  unfolding apply_state_def
  by (auto intro!: keeps_then driven_upd driven_session apply_held split: sum.split)

lemma gear_step_driven: "keeps (driven Q i) (gear_step lib s pb aid)"
proof (unfold keeps_def, intro allI impI)
  fix x assume Q: "driven Q i x"
  have "keeps (driven Q i) (each_step (\<lambda>g. on_session (session_apply_gear lib g)) cmds)" for cmds
    by (intro keeps_each driven_session gear_held)
  from keepsD[OF this] Q show "driven Q i (snd (gear_step lib s pb aid x))"
    by (cases x) (auto simp: gear_step_def driven_def split: option.split prod.split)
qed

lemma live_driven: "keeps (driven Q i) (process_live lib na rv sample stale start smode)"
proof (unfold keeps_def, intro allI impI)
  fix x assume Q: "driven Q i x"
  show "driven Q i (snd (process_live lib na rv sample stale start smode x))"
    using Q keepsD[OF apply_state_driven, of i _ na]
    by (cases x) (auto simp: process_live_def driven_def Let_def split: option.split prod.split)
qed

lemma replay_driven: "keeps (driven Q i) (process_replay lib na rv sample)"
proof (unfold keeps_def, intro allI impI)
  fix x assume Q: "driven Q i x"
  have "keeps (driven Q i) (then_step (apply_state lib na (st_state sample) None False)
      (\<lambda>_. upd (\<lambda>rt. (remember_sample sample rv rt)\<lparr>rt_stale_reported := False\<rparr>)))"
    by (intro keeps_then driven_upd apply_state_driven) simp
  from keepsD[OF this Q] Q show "driven Q i (snd (process_replay lib na rv sample x))"
    by (cases x) (simp add: process_replay_def)
qed

lemma process_driven: "keeps (driven Q i) (process lib na s pb aid clk start timeout smode)"
  unfolding process_def
  by (auto intro!: keeps_then driven_upd gear_step_driven live_driven replay_driven split: option.split)

end

section \<open>The AI registry\<close>

definition of_client :: "(SimConnectClient \<Rightarrow> bool) \<Rightarrow> 'x \<times> SimConnectClient \<Rightarrow> bool" where
  "of_client Q x \<longleftrightarrow> Q (snd x)"

lemma of_client_on: "keeps Q m \<Longrightarrow> keeps (of_client Q) (on_client m)"
  by (simp add: keeps_def on_client_def of_client_def split_beta)

locale ai_client = driven_client +
  assumes removing: "keeps Q (remove_ai_object lib obj)"
    and releasing: "keeps Q (release_ai_control lib obj)"
    and creating: "keeps Q (create_ai_aircraft lib title tail pose knots)"
    and assigning: "Q st \<Longrightarrow> Q (st\<lparr>assigned_objects := xs\<rparr>)"
    and raising: "Q st \<Longrightarrow> Q (st\<lparr>exceptions := es\<rparr>)"
    and polling: "Q st \<Longrightarrow> Q (st\<lparr>sim_history := sim_history st @ [FGetNextDispatch]\<rparr>)"
begin

lemma sessions_removed: "Q st \<Longrightarrow> Q (fold (\<lambda>(_, rt). remove_session lib rt) xs st)"
  by (induction xs arbitrary: st) (auto simp: remove_session_def keepsD[OF removing])

lemma clear_kept: "of_client Q x \<Longrightarrow> of_client Q (ai_clear lib x)"
  by (cases x) (simp add: ai_clear_def of_client_def sessions_removed)

lemma activate_kept: "keeps (of_client Q) (activate lib cfg now aid p obj)"
proof -
  let ?rt = "runtime_new (session_ai obj) (ais_smoothing cfg) now"
  have "Q (snd (snd (on_session (session_apply lib (pa_first_frame p)) (?rt, st))))" if "Q st" for st
    using keepsD[OF driven_session[OF apply_held], of obj "(?rt, st)" "pa_first_frame p"] that
    by (simp add: driven_def held_def runtime_new_def session_ai_def)
  then have "keeps (of_client Q) (\<lambda>(reg, st).
       case on_session (session_apply lib (pa_first_frame p)) (?rt, st) of
         (Inl e, (rt, st')) \<Rightarrow> (Inl e, (reg, st'))
       | (Inr _, (rt, st')) \<Rightarrow> (Inr (), (reg\<lparr>ai_active := al_put aid rt (ai_active reg)\<rparr>, st')))"
    by (auto simp: keeps_def of_client_def split: prod.splits sum.splits) (metis snd_conv)+
  then show ?thesis unfolding activate_def by (intro keeps_then of_client_on releasing)
qed

lemma assign_kept: "keeps (of_client Q) (assign_one lib cfg now kept aid)"
proof (unfold keeps_def, intro allI impI)
  fix x :: "AiRegistry \<times> SimConnectClient" assume Q: "of_client Q x"
  obtain reg st where x: "x = (reg, st)" by fastforce
  show "of_client Q (snd (assign_one lib cfg now kept aid x))"
  proof (cases "map_of (ai_pending reg) aid")
    case (Some p)
    obtain res st' where t: "take_assigned_object (pa_request_id p) st = (res, st')" by fastforce
    then have st': "of_client Q (reg', st')" for reg'
      using Q assigning by (auto simp: x of_client_def take_assigned_object_def split: prod.splits)
    show ?thesis
      using st' keepsD[OF activate_kept st'] keepsD[OF of_client_on[OF removing] st'] Some t
      by (auto simp: x assign_one_def Let_def split: option.split)
  qed (use Q in \<open>simp add: x assign_one_def\<close>)
qed

lemma request_kept: "keeps (of_client Q) (request_ai lib na s pb cfg now aid)"
  using keepsD[OF creating]
  by (auto simp: keeps_def of_client_def request_ai_def split: option.split sum.split prod.split SimFault.split)
    (metis snd_conv)+

lemma request_loop_kept: "keeps (of_client Q) (request_loop lib na s pb cfg now aids)"
proof (induction aids)
  case (Cons aid aids)
  have "keeps (of_client Q) (then_step (request_ai lib na s pb cfg now aid) (\<lambda>_. request_loop lib na s pb cfg now aids))"
    by (intro keeps_then request_kept Cons)
  with Cons show ?case by (auto simp: keeps_def)
qed simp

lemma process_one_kept: "keeps (of_client Q) (process_one lib na s pb cfg clk aid)"
proof (unfold keeps_def, intro allI impI)
  fix x :: "AiRegistry \<times> SimConnectClient" assume Q: "of_client Q x"
  obtain reg st where x: "x = (reg, st)" by fastforce
  have "Q (snd (snd (process lib na s pb aid clk start timeout smode (rt, st))))" for start timeout smode rt
    using keepsD[OF process_driven, of "os_object_id (rt_session rt)" "(rt, st)" na s pb aid clk start timeout smode] Q
    by (simp add: x driven_def held_def of_client_def)
  then show "of_client Q (snd (process_one lib na s pb cfg clk aid x))"
    using Q by (auto simp: x process_one_def of_client_def split: option.split prod.split) (metis snd_conv)
qed

lemma update_kept: "keeps (of_client Q) (ai_update lib na s pb cfg clk)"
proof (unfold keeps_def, intro allI impI)
  fix x :: "AiRegistry \<times> SimConnectClient" assume Q: "of_client Q x"
  let ?cands = "candidates s pb (ais_user_aircraft cfg) (ais_max cfg)"
  obtain reg st where rm: "remove_missing lib ?cands x = (reg, st)" by fastforce
  then have start: "of_client Q (reg', st\<lparr>exceptions := []\<rparr>)" for reg'
    using Q raising sessions_removed by (cases x) (auto simp: remove_missing_def of_client_def)
  have "keeps (of_client Q)
      (then_step (each_step (assign_one lib cfg (clk 2) ?cands) aids) (\<lambda>_.
        then_step (request_loop lib na s pb cfg (clk 3) ?cands) (\<lambda>_.
        each_step (process_one lib na s pb cfg (\<lambda>n. clk (4 + n))) ?cands)))" for aids
    by (intro keeps_then keeps_each assign_kept request_loop_kept process_one_kept)
  from keepsD[OF this start] show "of_client Q (snd (ai_update lib na s pb cfg clk x))"
    by (simp add: ai_update_def Let_def rm drain_exceptions_def)
qed

lemma dispatch_kept: "Q st \<Longrightarrow> Q (pump_dispatch d st)"
  by (simp add: pump_dispatch_def assigning raising split: Dispatch.split)

lemma pump_kept:
  assumes "pump lib st = Some y" "Q st"
  shows "Q (snd y)"
proof -
  have "lib = lib \<longrightarrow> Q st \<longrightarrow> Q (snd y)"
  proof (rule pump.raw_induct[where P = "\<lambda>l s z. l = lib \<longrightarrow> Q s \<longrightarrow> Q (snd z)", OF _ assms(1)])
    fix rec l s z
    assume IH: "\<And>l s z. rec l s = Some z \<Longrightarrow> l = lib \<longrightarrow> Q s \<longrightarrow> Q (snd z)"
      and step: "(case next_dispatch l s of
          (Inl e, s') \<Rightarrow> Some (Inl e, s')
        | (Inr d, s') \<Rightarrow> if d = DEmpty then Some (Inr (), s') else rec l (pump_dispatch d s')) = Some z"
    obtain r s' where n: "next_dispatch l s = (r, s')" by fastforce
    have "Q s \<Longrightarrow> Q s'" using polling[of s] next_dispatch_pair[OF n] by simp
    with step n IH[of l "pump_dispatch _ s'" z] show "l = lib \<longrightarrow> Q s \<longrightarrow> Q (snd z)"
      by (auto intro: dispatch_kept split: sum.splits if_splits)
  qed
  with assms(2) show ?thesis by simp
qed

end

end
