(* ===== verification/Ai_Registry_Properties.thy ===== *)
theory Ai_Registry_Properties
  imports Aircraft_Contract
begin

text \<open>
  Properties of the AI aircraft registry: it never shows or requests more aircraft than configured,
  nor any that is not a candidate, and what becomes of an object that the simulator assigns after
  its request was dropped.
\<close>

section \<open>Bounds\<close>

definition active_ids :: "AiRegistry \<Rightarrow> string set" where
  "active_ids reg = set (al_keys (ai_active reg))"

definition pending_ids :: "AiRegistry \<Rightarrow> string set" where
  "pending_ids reg = set (al_keys (ai_pending reg))"

definition registry_ok :: "nat \<Rightarrow> AiRegistry \<Rightarrow> bool" where
  "registry_ok n reg \<longleftrightarrow> al_ok (ai_active reg) \<and> al_ok (ai_pending reg) \<and> active_ids reg \<inter> pending_ids reg = {}
     \<and> card (active_ids reg \<union> pending_ids reg) \<le> n"

definition within_candidates :: "string list \<Rightarrow> AiRegistry \<Rightarrow> bool" where
  "within_candidates cands reg \<longleftrightarrow> active_ids reg \<union> pending_ids reg \<subseteq> set cands"

lemma ids_finite [simp]: "finite (active_ids reg)" "finite (pending_ids reg)"
  by (simp_all add: active_ids_def pending_ids_def)

lemma count_ids:
  assumes "registry_ok n reg"
  shows "length (ai_active reg) + length (ai_pending reg) = card (active_ids reg \<union> pending_ids reg)"
proof -
  have "length (ai_active reg) = card (active_ids reg)" "length (ai_pending reg) = card (pending_ids reg)"
    using assms distinct_card[of "al_keys (ai_active reg)"] distinct_card[of "al_keys (ai_pending reg)"]
    by (simp_all add: registry_ok_def active_ids_def pending_ids_def)
  with assms show ?thesis by (simp add: registry_ok_def card_Un_disjoint)
qed

lemma keys_filter: "fst ` set (filter (\<lambda>(k, _). P k) m) = {k \<in> fst ` set m. P k}"
  by (force simp: image_iff)

lemma drop_pending_ids:
  "active_ids (drop_pending aid now reg) = active_ids reg"
  "pending_ids (drop_pending aid now reg) = pending_ids reg - {aid}"
  "al_ok (ai_pending reg) \<Longrightarrow> al_ok (ai_pending (drop_pending aid now reg))"
  "ai_active (drop_pending aid now reg) = ai_active reg"
  by (simp_all add: drop_pending_def active_ids_def pending_ids_def set_keys_al_del)

text \<open>What every part of \<open>update\<close> keeps.\<close>

definition ai_inv :: "nat \<Rightarrow> string list \<Rightarrow> AiRegistry \<Rightarrow> bool" where
  "ai_inv n cands reg \<longleftrightarrow> registry_ok n reg \<and> within_candidates cands reg"

lemma ai_inv_smaller:
  assumes "ai_inv n cands reg" "active_ids reg' \<subseteq> active_ids reg" "pending_ids reg' \<subseteq> pending_ids reg"
    "al_ok (ai_active reg')" "al_ok (ai_pending reg')"
  shows "ai_inv n cands reg'"
proof -
  have "card (active_ids reg' \<union> pending_ids reg') \<le> card (active_ids reg \<union> pending_ids reg)"
    using assms(2,3) by (intro card_mono) auto
  with assms show ?thesis by (auto simp: ai_inv_def registry_ok_def within_candidates_def)
qed

lemma drop_pending_inv: "ai_inv n cands reg \<Longrightarrow> ai_inv n cands (drop_pending aid now reg)"
  by (rule ai_inv_smaller) (auto simp: drop_pending_ids ai_inv_def registry_ok_def)

lemma fold_inv: "(\<And>x reg. P reg \<Longrightarrow> P (f x reg)) \<Longrightarrow> P reg \<Longrightarrow> P (fold f xs reg)"
  by (induction xs arbitrary: reg) simp_all

lemma reject_inv: "ai_inv n cands reg \<Longrightarrow> ai_inv n cands (reject_request now ex reg)"
  by (auto simp: reject_request_def drop_pending_inv split: option.split)

lemma expire_inv: "ai_inv n cands reg \<Longrightarrow> ai_inv n cands (expire_requests now reg)"
  unfolding expire_requests_def by (rule fold_inv) (rule drop_pending_inv)

definition ai_client_inv :: "nat \<Rightarrow> string list \<Rightarrow> AiRegistry \<times> SimConnectClient \<Rightarrow> bool" where
  "ai_client_inv n cands x \<longleftrightarrow> ai_inv n cands (fst x)"

lemma on_client_inv: "keeps (ai_client_inv n cands) (on_client m)"
  by (simp add: keeps_def ai_client_inv_def on_client_def split: prod.split)

lemma assigned_inv:
  assumes inv: "ai_inv n cands reg" and aid: "aid \<in> pending_ids reg"
  shows "ai_inv n cands (reg\<lparr>ai_pending := al_del aid (ai_pending reg)\<rparr>)"
    and "ai_inv n cands (reg\<lparr>ai_pending := al_del aid (ai_pending reg), ai_active := al_put aid rt (ai_active reg)\<rparr>)"
proof -
  show "ai_inv n cands (reg\<lparr>ai_pending := al_del aid (ai_pending reg)\<rparr>)"
    using inv by (rule ai_inv_smaller)
      (use inv in \<open>auto simp: active_ids_def pending_ids_def set_keys_al_del ai_inv_def registry_ok_def\<close>)
  have "insert aid (active_ids reg) \<union> (pending_ids reg - {aid}) = active_ids reg \<union> pending_ids reg"
    using aid by auto
  with inv aid show "ai_inv n cands (reg\<lparr>ai_pending := al_del aid (ai_pending reg), ai_active := al_put aid rt (ai_active reg)\<rparr>)"
    by (auto simp: ai_inv_def registry_ok_def within_candidates_def active_ids_def pending_ids_def set_keys_al_del)
qed

lemma assign_inv: "keeps (ai_client_inv n cands) (assign_one lib cfg now cands aid)"
proof (unfold keeps_def, intro allI impI)
  fix x assume inv: "ai_client_inv n cands x"
  obtain reg st where x: "x = (reg, st)" by fastforce
  show "ai_client_inv n cands (snd (assign_one lib cfg now cands aid x))"
  proof (cases "map_of (ai_pending reg) aid")
    case (Some p)
    then have aid: "aid \<in> pending_ids reg" by (force simp: pending_ids_def dest: map_of_SomeD)
    note kept = assigned_inv[OF inv[unfolded x ai_client_inv_def fst_conv] aid]
    show ?thesis
      using inv kept Some
      by (auto simp: x assign_one_def activate_def then_step_def on_client_def Let_def ai_client_inv_def
          split: prod.splits option.splits sum.splits)
  qed (use inv in \<open>simp add: x assign_one_def\<close>)
qed

lemma request_inv:
  assumes inv: "ai_inv n cands reg" and aid: "aid \<in> set cands" "\<not> known_ai aid reg"
    and room: "length (ai_active reg) + length (ai_pending reg) < n"
  shows "ai_client_inv n cands (snd (request_ai lib na s pb cfg now aid (reg, st)))"
proof -
  have "ai_inv n cands (reg\<lparr>ai_pending := al_put aid p (ai_pending reg)\<rparr>)" for p
  proof -
    have "card (insert aid (active_ids reg \<union> pending_ids reg)) \<le> n"
      using room count_ids[of n reg] inv by (simp add: ai_inv_def card_insert_if)
    then show ?thesis
      using inv aid by (auto simp: ai_inv_def registry_ok_def within_candidates_def known_ai_def active_ids_def pending_ids_def)
  qed
  moreover have "ai_inv n cands (reg\<lparr>ai_retry_after := r\<rparr>)" for r
    using inv by (simp add: ai_inv_def registry_ok_def within_candidates_def active_ids_def pending_ids_def)
  ultimately show ?thesis
    using inv by (auto simp: request_ai_def ai_client_inv_def split: option.split sum.split prod.split SimFault.split)
qed

lemma request_loop_inv:
  assumes "ai_client_inv (ais_max cfg) cands x" "set aids \<subseteq> set cands"
  shows "ai_client_inv (ais_max cfg) cands (snd (request_loop lib na s pb cfg now aids x))"
  using assms
proof (induction aids arbitrary: x)
  case (Cons aid aids)
  obtain reg st where x: "x = (reg, st)" by fastforce
  have IH: "ai_client_inv (ais_max cfg) cands (snd (request_loop lib na s pb cfg now aids y))"
    if "ai_client_inv (ais_max cfg) cands y" for y
    using Cons.IH[OF that] Cons.prems(2) by simp
  have step: "ai_client_inv (ais_max cfg) cands (snd (then_step (request_ai lib na s pb cfg now aid)
      (\<lambda>_. request_loop lib na s pb cfg now aids) (reg, st)))"
    if "\<not> known_ai aid reg" "\<not> ais_max cfg \<le> length (ai_active reg) + length (ai_pending reg)"
  proof -
    obtain r y where r: "request_ai lib na s pb cfg now aid (reg, st) = (r, y)"
      by (cases "request_ai lib na s pb cfg now aid (reg, st)")
    have "ai_client_inv (ais_max cfg) cands y"
      using request_inv[of "ais_max cfg" cands reg aid lib na s pb cfg now st] Cons.prems that
      by (simp add: x ai_client_inv_def r)
    then show ?thesis using IH[of y] by (simp add: then_step_def r split: sum.split)
  qed
  show ?case using IH[of x] Cons.prems(1) step by (auto simp: x)
qed (simp add: done_step_def)

lemma process_one_inv: "keeps (ai_client_inv n cands) (process_one lib na s pb cfg clk aid)"
proof (unfold keeps_def, intro allI impI)
  fix x assume inv: "ai_client_inv n cands x"
  obtain reg st where x: "x = (reg, st)" by fastforce
  have "ai_inv n cands (reg\<lparr>ai_active := al_put aid rt (ai_active reg)\<rparr>)" if "map_of (ai_active reg) aid = Some rt0" for rt rt0
  proof -
    have "insert aid (active_ids reg) = active_ids reg"
      using that by (force simp: active_ids_def dest: map_of_SomeD)
    then show ?thesis
      using inv by (simp add: x ai_client_inv_def ai_inv_def registry_ok_def within_candidates_def active_ids_def pending_ids_def)
  qed
  then show "ai_client_inv n cands (snd (process_one lib na s pb cfg clk aid x))"
    using inv by (auto simp: x process_one_def ai_client_inv_def split: option.split prod.split)
qed

lemma remove_missing_inv:
  assumes "registry_ok n (fst x)"
  shows "ai_inv n cands (fst (remove_missing lib cands x))"
proof -
  obtain reg st where x: "x = (reg, st)" by fastforce
  let ?reg = "fst (remove_missing lib cands x)"
  have ids: "active_ids ?reg = active_ids reg \<inter> set cands" "pending_ids ?reg = pending_ids reg \<inter> set cands"
    by (auto simp: x remove_missing_def active_ids_def pending_ids_def keys_filter)
  moreover have "card ((active_ids reg \<inter> set cands) \<union> (pending_ids reg \<inter> set cands)) \<le> card (active_ids reg \<union> pending_ids reg)"
    by (intro card_mono) auto
  moreover have "al_ok (ai_active ?reg)" "al_ok (ai_pending ?reg)"
    using assms by (simp_all add: x remove_missing_def registry_ok_def al_ok_filter)
  ultimately show ?thesis using assms by (auto simp: x ai_inv_def registry_ok_def within_candidates_def)
qed

lemma update_inv:
  assumes "registry_ok (ais_max cfg) (fst x)"
  shows "ai_inv (ais_max cfg) (candidates s pb (ais_user_aircraft cfg) (ais_max cfg))
    (fst (snd (ai_update lib na s pb cfg clk x)))"
proof -
  let ?cands = "candidates s pb (ais_user_aircraft cfg) (ais_max cfg)" and ?n = "ais_max cfg"
  obtain reg st where rm: "remove_missing lib ?cands x = (reg, st)" by fastforce
  define reg' where "reg' = expire_requests (clk 1) (fold (reject_request (clk 0)) (exceptions st) reg)"
  have "ai_inv ?n ?cands reg" using remove_missing_inv[OF assms, of ?cands lib] rm by simp
  then have reg': "ai_client_inv ?n ?cands (reg', st\<lparr>exceptions := []\<rparr>)"
    unfolding ai_client_inv_def reg'_def fst_conv by (intro expire_inv fold_inv[of "ai_inv ?n ?cands"] reject_inv)
  have loop: "keeps (ai_client_inv ?n ?cands) (request_loop lib na s pb cfg (clk 3) ?cands)"
    using request_loop_inv[of cfg ?cands _ ?cands] by (simp add: keeps_def)
  have "keeps (ai_client_inv ?n ?cands)
      (then_step (each_step (assign_one lib cfg (clk 2) ?cands) (al_keys (ai_pending reg'))) (\<lambda>_.
        then_step (request_loop lib na s pb cfg (clk 3) ?cands) (\<lambda>_.
        each_step (process_one lib na s pb cfg (\<lambda>n. clk (4 + n))) ?cands)))"
    by (intro keeps_then keeps_each assign_inv loop process_one_inv)
  from keepsD[OF this reg'] show ?thesis
    by (simp add: ai_update_def Let_def rm drain_exceptions_def reg'_def ai_client_inv_def)
qed

text \<open>The registry over the life of a connection, with what the loop passes to it.\<close>

record AiCall =
  ac_store :: TimeSeriesStore
  ac_playback :: PlaybackSnapshot
  ac_settings :: AiSettings
  ac_clock :: "nat \<Rightarrow> instant"

datatype AiOp = AiUpdate AiCall | AiClear | AiPump "Dispatch list"

definition ai_op :: "SimLib \<Rightarrow> Nalgebra \<Rightarrow> AiOp \<Rightarrow> AiRegistry \<times> SimConnectClient \<Rightarrow> AiRegistry \<times> SimConnectClient" where
  "ai_op lib na x = (case x of
     AiUpdate c \<Rightarrow> snd \<circ> ai_update lib na (ac_store c) (ac_playback c) (ac_settings c) (ac_clock c)
   | AiClear \<Rightarrow> ai_clear lib
   | AiPump ds \<Rightarrow> (\<lambda>(reg, st). (reg, fold pump_dispatch ds st)))"

text \<open>C14: However the candidates, the answers and the failures of the simulator alternate, at most the
  configured number of AI aircraft is shown or requested, no aircraft is both, and after an update,
  also one that failed, each of them is a current candidate.\<close>

theorem ai_registry_bounded:
  assumes "\<forall>x \<in> set ops. case x of AiUpdate c \<Rightarrow> ais_max (ac_settings c) = n | _ \<Rightarrow> True"
    and "fold (ai_op lib na) ops (ai_registry_new, st) = (reg, st')"
  shows "length (ai_active reg) + length (ai_pending reg) \<le> n
    \<and> active_ids reg \<inter> pending_ids reg = {}
    \<and> (case last_opt ops of
         Some (AiUpdate c) \<Rightarrow> active_ids reg \<union> pending_ids reg
           \<subseteq> set (candidates (ac_store c) (ac_playback c) (ais_user_aircraft (ac_settings c)) n)
       | _ \<Rightarrow> True)"
proof -
  have step: "registry_ok n (fst (ai_op lib na x y))
      \<and> (case x of AiUpdate c \<Rightarrow>
           within_candidates (candidates (ac_store c) (ac_playback c) (ais_user_aircraft (ac_settings c)) n) (fst (ai_op lib na x y))
         | _ \<Rightarrow> True)"
    if "registry_ok n (fst y)" "case x of AiUpdate c \<Rightarrow> ais_max (ac_settings c) = n | _ \<Rightarrow> True" for x y
    using that update_inv[of _ y]
    by (cases x; cases y) (auto simp: ai_op_def ai_inv_def ai_clear_def ai_registry_new_def registry_ok_def active_ids_def pending_ids_def)
  have ok: "registry_ok n (fst (fold (ai_op lib na) xs (ai_registry_new, st)))"
    if "\<forall>x \<in> set xs. case x of AiUpdate c \<Rightarrow> ais_max (ac_settings c) = n | _ \<Rightarrow> True" for xs
    using that
  proof (induction xs rule: rev_induct)
    case (snoc x xs)
    then show ?case using step[of "fold (ai_op lib na) xs (ai_registry_new, st)" x] by simp
  qed (simp add: registry_ok_def ai_registry_new_def active_ids_def pending_ids_def)
  have reg: "registry_ok n reg" using ok[OF assms(1)] assms(2) by simp
  have "case last_opt ops of Some (AiUpdate c) \<Rightarrow>
      within_candidates (candidates (ac_store c) (ac_playback c) (ais_user_aircraft (ac_settings c)) n) reg | _ \<Rightarrow> True"
  proof (cases ops rule: rev_cases)
    case (snoc xs x)
    then show ?thesis
      using step[OF ok[of xs], of x] assms by (auto split: AiOp.splits)
  qed simp
  then show ?thesis
    using reg count_ids[OF reg] by (auto simp: registry_ok_def within_candidates_def split: option.splits AiOp.splits)
qed

definition demo_ai_settings :: AiSettings where
  "demo_ai_settings = \<lparr>ais_user_aircraft = None, ais_title = ''Rafale M'', ais_max = 1,
     ais_smoothing = smoothing_config_default, ais_loop_start = 0, ais_stale_timeout = 0, ais_mode = Latest\<rparr>"

definition demo_ai_call :: AiCall where
  "demo_ai_call = \<lparr>ac_store = append_state ''a'' f_one demo_flying (append_event ''a'' f_one (EvSpawn \<lparr>sp_name = ''a'',
       sp_toml_config = [], sp_initial_state = None, sp_telemetry_schemas = []\<rparr>) store_new),
     ac_playback = dc_playback demo_drive, ac_settings = demo_ai_settings, ac_clock = (\<lambda>n. n)\<rparr>"

lemma ai_registry_bounded_witness:
  "length (ai_active (fst (fold (ai_op working_lib demo_na) [AiClear, AiUpdate demo_ai_call] (ai_registry_new, client_opened 0 []))))
     + length (ai_pending (fst (fold (ai_op working_lib demo_na) [AiClear, AiUpdate demo_ai_call] (ai_registry_new, client_opened 0 []))))
   \<le> 1"
proof -
  obtain reg st where r: "fold (ai_op working_lib demo_na) [AiClear, AiUpdate demo_ai_call] (ai_registry_new, client_opened 0 [])
      = (reg, st)" by fastforce
  show ?thesis
    using ai_registry_bounded[OF _ r, of 1] unfolding r by (simp add: demo_ai_call_def demo_ai_settings_def)
qed

section \<open>Late assignments\<close>

text \<open>An assigned object nobody waits for: its request is no longer pending, and no aircraft has it.\<close>

definition orphaned :: "u32 \<Rightarrow> u32 \<Rightarrow> nat \<Rightarrow> SimConnectClient \<Rightarrow> bool" where
  "orphaned r obj k st \<longleftrightarrow> (r, obj) \<in> set (assigned_objects st)
     \<and> (\<forall>(r', obj') \<in> set (assigned_objects st). obj' = obj \<longrightarrow> r' = r)
     \<and> unat r < unat (next_ai_request_id st) \<and> 10000 \<le> unat (next_ai_request_id st)
     \<and> unat (next_ai_request_id st) + k < 2 ^ 32 \<and> FRemoveObject obj \<notin> set (sim_history st)"

definition unowned :: "u32 \<Rightarrow> u32 \<Rightarrow> AiRegistry \<Rightarrow> bool" where
  "unowned r obj reg \<longleftrightarrow> (\<forall>(aid, p) \<in> set (ai_pending reg). pa_request_id p \<noteq> r)
     \<and> (\<forall>(aid, rt) \<in> set (ai_active reg). os_object_id (rt_session rt) \<noteq> obj)"

definition orphan_inv :: "u32 \<Rightarrow> u32 \<Rightarrow> nat \<Rightarrow> AiRegistry \<times> SimConnectClient \<Rightarrow> bool" where
  "orphan_inv r obj k x \<longleftrightarrow> unowned r obj (fst x) \<and> orphaned r obj k (snd x)"

lemma call_orphaned: "c \<noteq> FRemoveObject obj \<Longrightarrow> keeps (orphaned r obj k) (sim_call lib op c)"
  by (auto simp: keeps_def orphaned_def sim_call_def)

interpretation orphan: driven_client lib "orphaned r obj k" for lib r obj k
  by unfold_locales (auto intro!: set_frozen_by_calls object_write_by_calls landing_gear_by_calls call_orphaned
      simp: orphaned_def)

lemma orphaned_less: "orphaned r obj (k + j) st \<Longrightarrow> orphaned r obj k st"
  by (simp add: orphaned_def)

lemma remove_others:
  assumes "orphaned r obj k st" "\<forall>(aid, rt) \<in> set xs. os_object_id (rt_session rt) \<noteq> obj"
  shows "orphaned r obj k (fold (\<lambda>(_, rt). remove_session lib rt) xs st)"
  using assms
proof (induction xs arbitrary: st)
  case (Cons y xs)
  obtain aid rt where y: "y = (aid, rt)" by fastforce
  have "orphaned r obj k (remove_session lib rt st)"
    unfolding remove_session_def remove_ai_object_def
    by (rule keepsD[OF call_orphaned Cons.prems(1)]) (use Cons.prems(2) y in auto)
  with Cons y show ?case by simp
qed simp

lemma unowned_pending: "unowned r obj reg \<Longrightarrow> set (ai_pending reg') \<subseteq> set (ai_pending reg)
    \<Longrightarrow> ai_active reg' = ai_active reg \<Longrightarrow> unowned r obj reg'"
  by (auto simp: unowned_def)

lemma drop_unowned: "unowned r obj reg \<Longrightarrow> unowned r obj (drop_pending aid now reg)"
  by (rule unowned_pending) (auto simp: drop_pending_def al_del_def)

lemma take_subset:
  "take_assigned r' xs = (res, xs') \<Longrightarrow> set xs' \<subseteq> set xs \<and> (\<forall>obj'. res = Some obj' \<longrightarrow> (r', obj') \<in> set xs)"
proof (induction r' xs arbitrary: res xs' rule: take_assigned.induct)
  case (2 r' c obj' rest)
  obtain res1 rest1 where t: "take_assigned r' rest = (res1, rest1)" by fastforce
  show ?case
  proof (cases "c = r'")
    case False
    with 2(1)[OF False t] 2(2) t show ?thesis by auto
  qed (use 2(2) in auto)
qed simp

lemma take_other:
  "take_assigned r' xs = (res, xs') \<Longrightarrow> r' \<noteq> r \<Longrightarrow> (r, obj) \<in> set xs \<Longrightarrow> (r, obj) \<in> set xs'"
proof (induction r' xs arbitrary: res xs' rule: take_assigned.induct)
  case (2 r' c obj' rest)
  obtain res1 rest1 where t: "take_assigned r' rest = (res1, rest1)" by fastforce
  show ?case
  proof (cases "c = r'")
    case False
    with 2(1)[OF False t 2(3)] 2(2,4) t show ?thesis by auto
  qed (use 2(2-) in auto)
qed simp

lemma orphaned_update [simp]:
  "orphaned r obj k (st\<lparr>exceptions := xs\<rparr>) = orphaned r obj k st"
  by (simp add: orphaned_def)

lemma take_keeps_orphan:
  assumes "orphaned r obj k st" "take_assigned_object r' st = (res, st')" "r' \<noteq> r"
  shows "orphaned r obj k st' \<and> (\<forall>obj'. res = Some obj' \<longrightarrow> obj' \<noteq> obj)"
proof -
  obtain xs' where t: "take_assigned r' (assigned_objects st) = (res, xs')" and st': "st' = st\<lparr>assigned_objects := xs'\<rparr>"
    using assms(2) by (auto simp: take_assigned_object_def split: prod.splits)
  from take_other[OF t assms(3), of obj] take_subset[OF t] assms(1,3) show ?thesis
    by (fastforce simp: st' orphaned_def)
qed

lemma unowned_active:
  "unowned r obj reg \<Longrightarrow> os_object_id (rt_session rt) \<noteq> obj \<Longrightarrow> al_ok (ai_active reg)
    \<Longrightarrow> unowned r obj (reg\<lparr>ai_active := al_put aid rt (ai_active reg)\<rparr>)"
  by (auto simp: unowned_def in_set_al_put)

text \<open>The association lists are maps, which the updates of single entries rely on.\<close>

definition orphan_ok :: "u32 \<Rightarrow> u32 \<Rightarrow> nat \<Rightarrow> AiRegistry \<times> SimConnectClient \<Rightarrow> bool" where
  "orphan_ok r obj k x \<longleftrightarrow> orphan_inv r obj k x \<and> al_ok (ai_active (fst x)) \<and> al_ok (ai_pending (fst x))"

lemma assign_orphan: "keeps (orphan_ok r obj k) (assign_one lib cfg now cands aid)"
proof (unfold keeps_def, intro allI impI)
  fix x assume inv: "orphan_ok r obj k x"
  obtain reg st where x: "x = (reg, st)" by fastforce
  have un: "unowned r obj reg" "orphaned r obj k st" "al_ok (ai_active reg)" "al_ok (ai_pending reg)"
    using inv by (simp_all add: x orphan_ok_def orphan_inv_def)
  show "orphan_ok r obj k (snd (assign_one lib cfg now cands aid x))"
  proof (cases "map_of (ai_pending reg) aid")
    case None
    with inv show ?thesis by (simp add: x assign_one_def)
  next
    case (Some p)
    then have p: "pa_request_id p \<noteq> r" using un(1) by (auto simp: unowned_def dest: map_of_SomeD)
    obtain res st' where t: "take_assigned_object (pa_request_id p) st = (res, st')" by fastforce
    note st' = take_keeps_orphan[OF un(2) t p]
    show ?thesis
    proof (cases res)
      case None
      with st' un Some show ?thesis by (simp add: x assign_one_def t orphan_ok_def orphan_inv_def)
    next
      case (Some obj')
      have obj': "obj' \<noteq> obj" and o': "orphaned r obj k st'" using st' Some by auto
      let ?reg = "reg\<lparr>ai_pending := al_del aid (ai_pending reg)\<rparr>"
      have un': "unowned r obj ?reg" using un(1) by (rule unowned_pending) (auto simp: al_del_def)
      have kept: "keeps (orphaned r obj k) (remove_ai_object lib obj')" "keeps (orphaned r obj k) (release_ai_control lib obj')"
        using obj' by (auto simp: remove_ai_object_def release_ai_control_def intro: call_orphaned)
      have removed: "orphan_ok r obj k (snd (on_client (remove_ai_object lib obj') (?reg, st')))"
        using keepsD[OF kept(1) o'] un' un(3,4)
        by (simp add: on_client_def orphan_ok_def orphan_inv_def split_beta)
      have act: "orphan_ok r obj k (snd (activate lib cfg now aid p obj' (?reg, st')))"
      proof -
        obtain r1 st1 where rel: "release_ai_control lib obj' st' = (r1, st1)" by fastforce
        have o1: "orphaned r obj k st1" using keepsD[OF kept(2) o'] rel by simp
        have "driven (orphaned r obj k) obj' (runtime_new (session_ai obj') (ais_smoothing cfg) now, st1)"
          using o1 by (simp add: driven_def held_def runtime_new_def session_ai_def)
        from keepsD[OF driven_session[OF orphan.apply_held] this, of lib "pa_first_frame p"]
        have "driven (orphaned r obj k) obj' (snd (on_session (session_apply lib (pa_first_frame p))
            (runtime_new (session_ai obj') (ais_smoothing cfg) now, st1)))" .
        then show ?thesis
          using un' un(3,4) o1 obj' unowned_active[OF un']
          by (auto simp: activate_def then_step_def on_client_def rel orphan_ok_def orphan_inv_def driven_def held_def
              split: sum.splits prod.splits)
      qed
      have "assign_one lib cfg now cands aid x = (if aid \<notin> set cands
          then on_client (remove_ai_object lib obj') (?reg, st') else activate lib cfg now aid p obj' (?reg, st'))"
        using Some \<open>map_of (ai_pending reg) aid = Some p\<close> by (simp add: x assign_one_def t Let_def)
      then show ?thesis using removed act by simp
    qed
  qed
qed

lemma create_orphan:
  assumes "orphaned r obj (Suc k) st" "create_ai_aircraft lib title tail pose knots st = (res, st')"
  shows "orphaned r obj k st' \<and> (\<forall>q. res = Inr q \<longrightarrow> ar_request_id q \<noteq> r)"
proof -
  let ?n = "next_ai_request_id st"
  have n: "unat r < unat ?n" "10000 \<le> unat ?n" "unat ?n + Suc k < 2 ^ 32" using assms(1) by (simp_all add: orphaned_def)
  have "unat (?n + 1) = unat ?n + 1" using n(3) by (simp add: unat_word_ariths(1))
  then have next_id: "unat (next_request_id ?n) = unat ?n + 1"
    using n(2) by (simp add: next_request_id_def REQUEST_AI_BASE_def max_def word_le_nat_alt)
  let ?st = "st\<lparr>next_ai_request_id := next_request_id ?n\<rparr>"
  have o: "orphaned r obj k ?st" using assms(1) n by (simp add: orphaned_def next_id)
  have strings: "keeps (orphaned r obj k) (c_string t)" for t by (simp add: keeps_def c_string_def)
  have packet: "keeps (orphaned r obj k) (last_sent_packet_id lib)"
  proof (unfold keeps_def, intro allI impI)
    fix st :: SimConnectClient
    assume o: "orphaned r obj k st"
    have "keeps (orphaned r obj k) (then_step (sim_call lib op FGetLastSentPacketID) (\<lambda>_. value_step v))" for op and v :: u32
      by (intro keeps_then call_orphaned) (simp_all add: keeps_def value_step_def)
    from keepsD[OF this o] show "orphaned r obj k (snd (last_sent_packet_id lib st))"
      by (simp add: last_sent_packet_id_def)
  qed
  have create: "keeps (orphaned r obj k)
      (then_step (c_string title) (\<lambda>_. then_step (c_string tail) (\<lambda>_.
        then_step (sim_call lib op (FCreateAi title [] tail ip i)) (\<lambda>_.
        then_step (last_sent_packet_id lib) (\<lambda>send_id. value_step (f send_id))))))" for op ip i and f :: "u32 \<Rightarrow> AiCreateRequest"
    by (intro keeps_then strings packet call_orphaned) (simp_all add: keeps_def value_step_def)
  have "orphaned r obj k st'"
    using keepsD[OF create o] assms(2) unfolding create_ai_aircraft_def Let_def by (metis snd_conv)
  moreover have "ar_request_id q \<noteq> r" if "res = Inr q" for q
  proof -
    have "ar_request_id q = ?n"
      using assms(2) that
      by (auto simp: create_ai_aircraft_def Let_def then_step_def value_step_def split: prod.splits sum.splits)
    with n(1) show ?thesis by auto
  qed
  ultimately show ?thesis by blast
qed

lemma request_orphan:
  assumes "orphan_ok r obj (Suc k) (reg, st)"
  shows "orphan_ok r obj k (snd (request_ai lib na s pb cfg now aid (reg, st)))"
proof -
  have un: "unowned r obj reg" "orphaned r obj (Suc k) st" "al_ok (ai_active reg)" "al_ok (ai_pending reg)"
    using assms by (simp_all add: orphan_ok_def orphan_inv_def)
  have o: "orphaned r obj k st" using un(2) by (simp add: orphaned_def)
  have pend: "unowned r obj (reg\<lparr>ai_pending := al_put aid p (ai_pending reg)\<rparr>)" if "pa_request_id p \<noteq> r" for p
    using un(1,4) that by (auto simp: unowned_def in_set_al_put)
  have retry: "unowned r obj (reg\<lparr>ai_retry_after := v\<rparr>)" for v using un(1) by (simp add: unowned_def)
  show ?thesis
    using un(1,3,4) o pend retry create_orphan[OF un(2)]
    by (auto simp: request_ai_def orphan_ok_def orphan_inv_def split: option.split sum.split prod.split SimFault.split)
qed

lemma orphan_less: "orphan_ok r obj m x \<Longrightarrow> k \<le> m \<Longrightarrow> orphan_ok r obj k x"
  by (simp add: orphan_ok_def orphan_inv_def orphaned_def)

lemma request_loop_orphan:
  "orphan_ok r obj (k + length aids) x \<Longrightarrow> orphan_ok r obj k (snd (request_loop lib na s pb cfg now aids x))"
proof (induction aids arbitrary: x)
  case (Cons aid aids)
  obtain reg st where x: "x = (reg, st)" by fastforce
  obtain q y where q: "request_ai lib na s pb cfg now aid (reg, st) = (q, y)"
    by (cases "request_ai lib na s pb cfg now aid (reg, st)")
  have "orphan_ok r obj (Suc (k + length aids)) (reg, st)" using Cons.prems by (simp add: x)
  from request_orphan[OF this, of lib na s pb cfg now aid] q have y: "orphan_ok r obj (k + length aids) y" by simp
  then have y0: "orphan_ok r obj k y" by (rule orphan_less) simp
  have skip: "orphan_ok r obj (k + length aids) x" "orphan_ok r obj k x"
    by (rule orphan_less[OF Cons.prems]; simp)+
  show ?case
    using Cons.IH[OF skip(1)] Cons.IH[OF y] y0 skip(2) q
    by (auto simp: x then_step_def split: sum.split)
qed (simp add: done_step_def)

lemma process_one_orphan: "keeps (orphan_ok r obj k) (process_one lib na s pb cfg clk aid)"
proof (unfold keeps_def, intro allI impI)
  fix x assume inv: "orphan_ok r obj k x"
  obtain reg st where x: "x = (reg, st)" by fastforce
  have un: "unowned r obj reg" "orphaned r obj k st" "al_ok (ai_active reg)"
    using inv by (simp_all add: x orphan_ok_def orphan_inv_def)
  show "orphan_ok r obj k (snd (process_one lib na s pb cfg clk aid x))"
  proof (cases "map_of (ai_active reg) aid")
    case (Some rt)
    let ?i = "os_object_id (rt_session rt)"
    have i: "?i \<noteq> obj" using Some un(1) by (auto simp: unowned_def dest: map_of_SomeD)
    obtain q rt' st' where p: "process lib na s pb aid clk (ais_loop_start cfg) (ais_stale_timeout cfg) (ais_mode cfg) (rt, st)
        = (q, (rt', st'))" by (metis prod.exhaust)
    have "driven (orphaned r obj k) ?i (rt, st)" using un(2) by (simp add: driven_def held_def)
    from keepsD[OF orphan.process_driven this, of lib na s pb aid clk "ais_loop_start cfg"
        "ais_stale_timeout cfg" "ais_mode cfg"]
    have d: "orphaned r obj k st'" "os_object_id (rt_session rt') = ?i" by (simp_all add: p driven_def held_def)
    then have "unowned r obj (reg\<lparr>ai_active := al_put aid rt' (ai_active reg)\<rparr>)"
      using unowned_active[OF un(1) _ un(3)] i by simp
    with d(1) inv Some show ?thesis by (simp add: x process_one_def p orphan_ok_def orphan_inv_def)
  qed (use inv in \<open>simp add: x process_one_def\<close>)
qed

lemma removal_orphan:
  assumes "orphan_ok r obj k x"
  shows "orphan_ok r obj k (remove_missing lib cands x)" "orphan_ok r obj k (ai_clear lib x)"
proof -
  obtain reg st where x: "x = (reg, st)" by fastforce
  have un: "unowned r obj reg" "orphaned r obj k st" "al_ok (ai_active reg)" "al_ok (ai_pending reg)"
    using assms by (simp_all add: x orphan_ok_def orphan_inv_def)
  have others: "orphaned r obj k (fold (\<lambda>(_, rt). remove_session lib rt) xs st)" if "set xs \<subseteq> set (ai_active reg)" for xs
    using that un(1) by (intro remove_others[OF un(2)]) (auto simp: unowned_def)
  show "orphan_ok r obj k (remove_missing lib cands x)"
    using un others[of "filter (\<lambda>(aid, _). aid \<notin> set cands) (ai_active reg)"]
    by (auto simp: x remove_missing_def orphan_ok_def orphan_inv_def al_ok_filter unowned_def)
  show "orphan_ok r obj k (ai_clear lib x)"
    using others[of "ai_active reg"]
    by (simp add: x ai_clear_def orphan_ok_def orphan_inv_def unowned_def ai_registry_new_def)
qed

lemma requests_orphan:
  assumes "unowned r obj reg" "al_ok (ai_active reg)" "al_ok (ai_pending reg)"
  shows "unowned r obj (expire_requests t (fold (reject_request t') xs reg))
    \<and> al_ok (ai_active (expire_requests t (fold (reject_request t') xs reg)))
    \<and> al_ok (ai_pending (expire_requests t (fold (reject_request t') xs reg)))"
proof -
  let ?P = "\<lambda>reg. unowned r obj reg \<and> al_ok (ai_active reg) \<and> al_ok (ai_pending reg)"
  have drop: "?P (drop_pending aid now reg)" if "?P reg" for aid now reg
    using that by (simp add: drop_unowned drop_pending_ids)
  have reject: "?P (reject_request t' ex reg)" if "?P reg" for ex reg
    using drop that by (auto simp: reject_request_def split: option.split)
  have "?P (fold (reject_request t') xs reg)"
    by (rule fold_inv[of ?P, OF reject]) (use assms in simp_all)
  then show ?thesis
    unfolding expire_requests_def by (intro fold_inv[of ?P, OF drop]) simp_all
qed

lemma update_orphan:
  assumes "orphan_ok r obj (k + ais_max cfg) x"
  shows "orphan_ok r obj k (snd (ai_update lib na s pb cfg clk x))"
proof -
  let ?cands = "candidates s pb (ais_user_aircraft cfg) (ais_max cfg)"
  obtain j where j: "ais_max cfg = length ?cands + j"
    using le_Suc_ex[of "length ?cands" "ais_max cfg"] by (auto simp: candidates_def)
  obtain reg st where rm: "remove_missing lib ?cands x = (reg, st)" by fastforce
  define reg' where "reg' = expire_requests (clk 1) (fold (reject_request (clk 0)) (exceptions st) reg)"
  have "orphan_ok r obj (k + length ?cands + j) (reg, st)"
    using removal_orphan(1)[OF assms, of lib ?cands] rm j by (simp add: add.assoc)
  then have start: "orphan_ok r obj (k + length ?cands) (reg', st\<lparr>exceptions := []\<rparr>)"
    using requests_orphan[of r obj reg "clk 1" "clk 0" "exceptions st"] orphaned_less[of r obj "k + length ?cands" j st]
    by (simp add: orphan_ok_def orphan_inv_def reg'_def)
  have assigned: "keeps (orphan_ok r obj (k + length ?cands))
      (each_step (assign_one lib cfg (clk 2) ?cands) (al_keys (ai_pending reg')))"
    by (intro keeps_each assign_orphan)
  have rest: "orphan_ok r obj k (snd (then_step (request_loop lib na s pb cfg (clk 3) ?cands)
      (\<lambda>_. each_step (process_one lib na s pb cfg (\<lambda>n. clk (4 + n))) ?cands) y))"
    if "orphan_ok r obj (k + length ?cands) y" for y
  proof -
    obtain q z where q: "request_loop lib na s pb cfg (clk 3) ?cands y = (q, z)"
      by (cases "request_loop lib na s pb cfg (clk 3) ?cands y")
    have z: "orphan_ok r obj k z" using request_loop_orphan[OF that, of lib na s pb cfg "clk 3"] q by simp
    have "keeps (orphan_ok r obj k) (each_step (process_one lib na s pb cfg (\<lambda>n. clk (4 + n))) ?cands)"
      by (intro keeps_each process_one_orphan)
    from z keepsD[OF this z] q show ?thesis by (simp add: then_step_def split: sum.split)
  qed
  obtain q y where q: "each_step (assign_one lib cfg (clk 2) ?cands) (al_keys (ai_pending reg')) (reg', st\<lparr>exceptions := []\<rparr>) = (q, y)"
    by (cases "each_step (assign_one lib cfg (clk 2) ?cands) (al_keys (ai_pending reg')) (reg', st\<lparr>exceptions := []\<rparr>)")
  have y: "orphan_ok r obj (k + length ?cands) y" using keepsD[OF assigned start] q by simp
  then have "orphan_ok r obj k y" by (rule orphan_less) simp
  with rest[OF y] q show ?thesis
    by (simp add: ai_update_def Let_def rm drain_exceptions_def reg'_def then_step_def split: sum.split)
qed

definition request_budget :: "AiOp \<Rightarrow> nat" where
  "request_budget x = (case x of AiUpdate c \<Rightarrow> ais_max (ac_settings c) | _ \<Rightarrow> 0)"

definition assigns_elsewhere :: "u32 \<Rightarrow> AiOp \<Rightarrow> bool" where
  "assigns_elsewhere obj x \<longleftrightarrow>
     (case x of AiPump ds \<Rightarrow> (\<forall>d \<in> set ds. case d of DAssignedObject _ obj' \<Rightarrow> obj' \<noteq> obj | _ \<Rightarrow> True) | _ \<Rightarrow> True)"

lemma pump_orphan:
  assumes "orphaned r obj k st" "\<forall>d \<in> set ds. case d of DAssignedObject _ obj' \<Rightarrow> obj' \<noteq> obj | _ \<Rightarrow> True"
  shows "orphaned r obj k (fold pump_dispatch ds st)"
  using assms
proof (induction ds arbitrary: st)
  case (Cons d ds)
  have "orphaned r obj k (pump_dispatch d st)"
    using Cons.prems by (auto simp: pump_dispatch_def orphaned_def split: Dispatch.split)
  with Cons show ?case by simp
qed simp

lemma op_orphan:
  assumes "orphan_ok r obj (k + request_budget x) y" "assigns_elsewhere obj x"
  shows "orphan_ok r obj k (ai_op lib na x y)"
proof (cases x)
  case (AiUpdate c)
  then show ?thesis using update_orphan[of r obj k "ac_settings c" y] assms(1) by (simp add: ai_op_def request_budget_def)
next
  case AiClear
  then show ?thesis using removal_orphan(2)[of r obj k y] assms(1) by (simp add: ai_op_def request_budget_def)
next
  case (AiPump ds)
  then show ?thesis
    using assms pump_orphan[of r obj k "snd y" ds]
    by (cases y) (simp add: ai_op_def request_budget_def assigns_elsewhere_def orphan_ok_def orphan_inv_def)
qed

text \<open>C36: An object that the simulator assigns to a request the registry has dropped, because the aircraft left
  the candidates, the request timed out or the registry was cleared, is never taken and never removed,
  by no later update or clear: the AI aircraft stays in the simulation, and its entry in the queue.\<close>

theorem late_assignment_orphaned:
  assumes "orphan_ok r obj (\<Sum>x\<leftarrow>ops. request_budget x) x" "\<forall>x \<in> set ops. assigns_elsewhere obj x"
    and "fold (ai_op lib na) ops x = (reg, st)"
  shows "(r, obj) \<in> set (assigned_objects st) \<and> FRemoveObject obj \<notin> set (sim_history st)
    \<and> (\<forall>(aid, rt) \<in> set (ai_active reg). os_object_id (rt_session rt) \<noteq> obj)"
proof -
  have "orphan_ok r obj 0 (fold (ai_op lib na) ops x)"
    using assms(1,2)
  proof (induction ops arbitrary: x)
    case (Cons y ops)
    then show ?case using op_orphan[of r obj "\<Sum>x\<leftarrow>ops. request_budget x" y x lib na] by (simp add: add.commute)
  qed simp
  with assms(3) show ?thesis by (simp add: orphan_ok_def orphan_inv_def orphaned_def unowned_def)
qed

definition demo_frame :: MsfsFrame where
  "demo_frame = \<lparr>mf_pose = \<lparr>latitude_deg = f_zero, longitude_deg = f_zero, altitude_m = f_zero, pitch_rad = f_zero,
     bank_rad = f_zero, heading_true_rad = f_zero\<rparr>, mf_controls = no_controls, mf_airdata = None,
     mf_propulsors = [None, None, None, None]\<rparr>"

text \<open>A pending request whose aircraft is gone: the registry is cleared, then the answer arrives.\<close>

definition demo_waiting :: "AiRegistry \<times> SimConnectClient" where
  "demo_waiting = (ai_registry_new\<lparr>ai_pending := [(''a'', \<lparr>pa_request_id = 10000, pa_send_id = 7, pa_first_frame = demo_frame,
      pa_requested_at = 0\<rparr>)]\<rparr>, (client_opened 0 [])\<lparr>next_ai_request_id := 10001\<rparr>)"

lemma late_assignment_orphaned_witness:
  "(10000, 42) \<in> set (assigned_objects (snd (fold (ai_op working_lib demo_na)
     [AiClear, AiPump [DAssignedObject 10000 42], AiUpdate demo_ai_call, AiClear] demo_waiting)))"
proof -
  let ?x = "fold (ai_op working_lib demo_na) [AiClear, AiPump [DAssignedObject 10000 42]] demo_waiting"
  have x: "?x = (ai_registry_new, (client_opened 0 [])\<lparr>next_ai_request_id := 10001, assigned_objects := [(10000, 42)]\<rparr>)"
    by (simp add: ai_op_def ai_clear_def demo_waiting_def ai_registry_new_def pump_dispatch_def client_opened_def)
  have "orphan_ok 10000 42 (\<Sum>x\<leftarrow>[AiUpdate demo_ai_call, AiClear]. request_budget x) ?x"
    unfolding x by (simp add: orphan_ok_def orphan_inv_def unowned_def ai_registry_new_def orphaned_def client_opened_def
        request_budget_def demo_ai_call_def demo_ai_settings_def)
  moreover obtain reg st where r: "fold (ai_op working_lib demo_na) [AiUpdate demo_ai_call, AiClear] ?x = (reg, st)"
    by (metis prod.exhaust)
  ultimately have "(10000, 42) \<in> set (assigned_objects st)"
    using late_assignment_orphaned[of 10000 42 "[AiUpdate demo_ai_call, AiClear]" ?x working_lib demo_na reg st]
    by (simp add: assigns_elsewhere_def)
  with r show ?thesis by simp
qed

end
