(* ===== verification/Runtime_Config.thy ===== *)
theory Runtime_Config
  imports Cursor_Publisher Playback
begin

text \<open>
  The runtime configuration (\<open>core/src/config.rs\<close>): the options of each runtime, the sections a host
  application persists, and their defaults. Paths are strings; the operations on paths that depend on
  the platform are a parameter.
\<close>

definition RUNTIME_CONFIG_SCHEMA_VERSION :: u32 where "RUNTIME_CONFIG_SCHEMA_VERSION = 2"

section \<open>Persisted sections\<close>

record TransportFileConfig =
  tf_role :: string
  tf_udp_listen :: string
  tf_server_address :: string
  tf_heartbeat_interval_secs :: u64
  tf_heartbeat_timeout_secs :: u64

definition transport_file_default :: TransportFileConfig where
  "transport_file_default = \<lparr>tf_role = ''server'', tf_udp_listen = ''0.0.0.0:18002'', tf_server_address = ''127.0.0.1:18002'',
     tf_heartbeat_interval_secs = 5, tf_heartbeat_timeout_secs = 15\<rparr>"

record CursorStreamFileConfig =
  csf_publish_hz :: f64
  csf_max_subscribers :: nat
  csf_reconnect_initial_secs :: f64
  csf_reconnect_max_secs :: f64

definition cursor_stream_file_default :: CursorStreamFileConfig where
  "cursor_stream_file_default = \<lparr>csf_publish_hz = F64 0x403E000000000000, csf_max_subscribers = 16,
     csf_reconnect_initial_secs = F64 0x3FE0000000000000, csf_reconnect_max_secs = F64 0x4014000000000000\<rparr>"

record ManagementFileConfig =
  mf_enabled :: bool
  mf_listen :: string
  mf_data_root :: string
  mf_web_root :: string
  mf_websocket_hz :: f64

definition management_file_default :: ManagementFileConfig where
  "management_file_default = \<lparr>mf_enabled = True, mf_listen = ''127.0.0.1:18003'', mf_data_root = ''sessions'',
     mf_web_root = ''web/dist'', mf_websocket_hz = F64 0x403E000000000000\<rparr>"

record PlaybackFileConfig =
  pf_min_speed :: f64
  pf_max_speed :: f64

definition playback_file_default :: PlaybackFileConfig where
  "playback_file_default = \<lparr>pf_min_speed = F64 0x3FB999999999999A, pf_max_speed = F64 0x4030000000000000\<rparr>"

record LoggingFileConfig =
  lf_level :: string
  lf_file_path :: string

definition logging_file_default :: LoggingFileConfig where
  "logging_file_default = \<lparr>lf_level = ''info'', lf_file_path = []\<rparr>"

record RuntimeFileConfig =
  rf_schema_version :: u32
  rf_transport :: TransportFileConfig
  rf_cursor_stream :: CursorStreamFileConfig
  rf_management :: ManagementFileConfig
  rf_playback :: PlaybackFileConfig
  rf_logging :: LoggingFileConfig

definition runtime_file_default :: RuntimeFileConfig where
  "runtime_file_default = \<lparr>rf_schema_version = RUNTIME_CONFIG_SCHEMA_VERSION, rf_transport = transport_file_default,
     rf_cursor_stream = cursor_stream_file_default, rf_management = management_file_default,
     rf_playback = playback_file_default, rf_logging = logging_file_default\<rparr>"

section \<open>Runtime options\<close>

record TransportConfig =
  heartbeat_interval_secs :: u64
  heartbeat_timeout_secs :: u64

definition transport_config_default :: TransportConfig where
  "transport_config_default = \<lparr>heartbeat_interval_secs = 5, heartbeat_timeout_secs = 15\<rparr>"

record ManagementConfig =
  data_root :: string
  web_root :: "string option"
  public_api_base_url :: "string option"
  public_websocket_url :: "string option"
  websocket_hz :: f64
  cors_origins :: "string list"

definition management_config_default :: ManagementConfig where
  "management_config_default = \<lparr>data_root = ''sessions'', web_root = Some ''web/dist'', public_api_base_url = None,
     public_websocket_url = None, websocket_hz = F64 0x403E000000000000,
     cors_origins = [''http://localhost:3000'', ''http://127.0.0.1:3000'', ''http://localhost:5173'', ''http://127.0.0.1:5173'',
       ''http://localhost:8000'', ''http://127.0.0.1:8000'', ''http://localhost:18003'', ''http://127.0.0.1:18003'']\<rparr>"

record LoggingConfig =
  log_level :: string
  log_file_path :: "string option"

definition logging_config_default :: LoggingConfig where
  "logging_config_default = \<lparr>log_level = ''info'', log_file_path = None\<rparr>"

record RuntimeConfig =
  rc_transport :: TransportConfig
  rc_cursor_stream :: CursorStreamConfig
  rc_management :: ManagementConfig
  rc_replay :: ReplayConfig
  rc_logging :: LoggingConfig

definition runtime_config_default :: RuntimeConfig where
  "runtime_config_default = \<lparr>rc_transport = transport_config_default, rc_cursor_stream = cursor_config_default,
     rc_management = management_config_default, rc_replay = replay_config_default, rc_logging = logging_config_default\<rparr>"

section \<open>Resolving settings\<close>

text \<open>\<open>a.or(b).unwrap_or(d)\<close>: the command line, then the file, then the default.\<close>

definition opt_or :: "'a option \<Rightarrow> 'a option \<Rightarrow> 'a option" where
  "opt_or a b = (case a of None \<Rightarrow> b | Some x \<Rightarrow> Some x)"

definition unwrap_or :: "'a option \<Rightarrow> 'a \<Rightarrow> 'a" where
  "unwrap_or a d = (case a of None \<Rightarrow> d | Some x \<Rightarrow> x)"

definition setting :: "'a option \<Rightarrow> 'a option \<Rightarrow> 'a \<Rightarrow> 'a" where
  "setting arg file d = unwrap_or (opt_or arg file) d"

lemma setting_simps [simp]: "setting (Some x) f d = x" "setting None (Some x) d = x" "setting None None d = d"
  by (simp_all add: setting_def opt_or_def unwrap_or_def)

record Platform =
  is_absolute :: "string \<Rightarrow> bool"
  join :: "string \<Rightarrow> string \<Rightarrow> string"
  is_file :: "string \<Rightarrow> bool"
  current_dir :: "string + string"

definition resolve_path :: "Platform \<Rightarrow> string \<Rightarrow> string \<Rightarrow> string" where
  "resolve_path os path base = (if is_absolute os path then path else join os base path)"

text \<open>The flags \<open>--http\<close> and \<open>--no-http\<close> exclude each other.\<close>

definition enabled_setting :: "bool \<Rightarrow> bool \<Rightarrow> bool option \<Rightarrow> bool" where
  "enabled_setting http no_http file = (if http then True else if no_http then False else unwrap_or file True)"

definition positive_rate :: "f64 \<Rightarrow> bool" where
  "positive_rate hz \<longleftrightarrow> is_finite hz \<and> \<not> fle hz f_zero"

definition config_path_of :: "Platform \<Rightarrow> string \<Rightarrow> string option \<Rightarrow> string option" where
  "config_path_of os default_file arg = opt_or arg (if is_file os default_file then Some default_file else None)"

text \<open>Reading and parsing the file, or the defaults without one.\<close>

definition file_config :: "(string \<Rightarrow> string + 'f) \<Rightarrow> 'f \<Rightarrow> string option \<Rightarrow> string + 'f" where
  "file_config read d path = (case path of None \<Rightarrow> Inr d | Some p \<Rightarrow> read p)"

fun first_error :: "(bool \<times> string) list \<Rightarrow> string option" where
  "first_error [] = None"
| "first_error ((bad, text) # checks) = (if bad then Some text else first_error checks)"

lemma first_error_None: "first_error checks = None \<longleftrightarrow> list_all (\<lambda>(bad, text). \<not> bad) checks"
  by (induction checks) (auto split: if_splits)

lemma first_error_Some: "first_error checks = Some e \<Longrightarrow> (True, e) \<in> set checks"
  by (induction checks) (auto split: if_splits)

end
