(* ===== verification/Server_Config.thy ===== *)
theory Server_Config
  imports Runtime_Config
begin

text \<open>
  The configuration of the state server (\<open>server/src/config.rs\<close>): command line, TOML file and
  defaults, and the validation. The command line parser and the TOML parser are library code: the
  arguments are the parsed record, the file is what reading and parsing it gives. Texts of errors
  are those of the source.
\<close>

record ServerArgs =
  sa_config :: "string option"
  sa_udp_listen :: "string option"
  sa_http_listen :: "string option"
  sa_data_root :: "string option"
  sa_web_root :: "string option"
  sa_public_api_base_url :: "string option"
  sa_public_websocket_url :: "string option"
  sa_ws_hz :: "f64 option"
  sa_cors_origins :: "string list"
  sa_http :: bool
  sa_no_http :: bool
  sa_heartbeat_interval_secs :: "u64 option"
  sa_heartbeat_timeout_secs :: "u64 option"
  sa_cursor_publish_hz :: "f64 option"
  sa_max_subscribers :: "nat option"
  sa_playback_default_speed :: "f64 option"
  sa_playback_min_speed :: "f64 option"
  sa_playback_max_speed :: "f64 option"
  sa_log_level :: "string option"
  sa_log_file :: "string option"

record TransportSection =
  tr_udp_listen :: "string option"
  tr_heartbeat_interval_secs :: "u64 option"
  tr_heartbeat_timeout_secs :: "u64 option"

record ManagementSection =
  mn_enabled :: "bool option"
  mn_listen :: "string option"
  mn_data_root :: "string option"
  mn_web_root :: "string option"
  mn_public_api_base_url :: "string option"
  mn_public_websocket_url :: "string option"
  mn_websocket_hz :: "f64 option"
  mn_cors_origins :: "string list option"

record PlaybackSection =
  py_default_speed :: "f64 option"
  py_min_speed :: "f64 option"
  py_max_speed :: "f64 option"

record LoggingSection =
  lg_level :: "string option"
  lg_file_path :: "string option"

record ServerFileConfig =
  sf_schema_version :: "u32 option"
  sf_transport :: TransportSection
  sf_cursor_stream :: CursorStreamFileConfig
  sf_management :: ManagementSection
  sf_playback :: PlaybackSection
  sf_logging :: LoggingSection

definition management_section_default :: ManagementSection where
  "management_section_default = \<lparr>mn_enabled = None, mn_listen = None, mn_data_root = None, mn_web_root = None,
     mn_public_api_base_url = None, mn_public_websocket_url = None, mn_websocket_hz = None, mn_cors_origins = None\<rparr>"

definition logging_section_default :: LoggingSection where
  "logging_section_default = \<lparr>lg_level = None, lg_file_path = None\<rparr>"

definition server_file_default :: ServerFileConfig where
  "server_file_default = \<lparr>sf_schema_version = None,
     sf_transport = \<lparr>tr_udp_listen = None, tr_heartbeat_interval_secs = None, tr_heartbeat_timeout_secs = None\<rparr>,
     sf_cursor_stream = cursor_stream_file_default, sf_management = management_section_default,
     sf_playback = \<lparr>py_default_speed = None, py_min_speed = None, py_max_speed = None\<rparr>,
     sf_logging = logging_section_default\<rparr>"

record ServerConfig =
  sc_udp_listen :: string
  sc_management_enabled :: bool
  sc_management_listen :: string
  sc_runtime :: RuntimeConfig
  sc_config_path :: "string option"

definition logging_of :: "Platform \<Rightarrow> string \<Rightarrow> string option \<Rightarrow> string option \<Rightarrow> LoggingSection \<Rightarrow> LoggingConfig" where
  "logging_of os base level path section =
     \<lparr>log_level = setting level (lg_level section) ''info'',
      log_file_path = map_option (\<lambda>p. resolve_path os p base) (opt_or path (lg_file_path section))\<rparr>"

definition origins_of :: "string list \<Rightarrow> string list option \<Rightarrow> string list" where
  "origins_of args file = (if args = [] then unwrap_or file (cors_origins management_config_default) else args)"

definition server_runtime :: "Platform \<Rightarrow> string \<Rightarrow> ServerArgs \<Rightarrow> ServerFileConfig \<Rightarrow> RuntimeConfig" where
  "server_runtime os base a f =
     (let m = sf_management f; t = sf_transport f; p = sf_playback f; d = management_config_default in
      \<lparr>rc_transport =
         \<lparr>heartbeat_interval_secs = setting (sa_heartbeat_interval_secs a) (tr_heartbeat_interval_secs t) (heartbeat_interval_secs transport_config_default),
          heartbeat_timeout_secs = setting (sa_heartbeat_timeout_secs a) (tr_heartbeat_timeout_secs t) (heartbeat_timeout_secs transport_config_default)\<rparr>,
       rc_cursor_stream = cursor_config_default
         \<lparr>publish_hz := unwrap_or (sa_cursor_publish_hz a) (csf_publish_hz (sf_cursor_stream f)),
          max_subscribers := unwrap_or (sa_max_subscribers a) (csf_max_subscribers (sf_cursor_stream f))\<rparr>,
       rc_management =
         \<lparr>data_root = resolve_path os (setting (sa_data_root a) (mn_data_root m) ''sessions'') base,
          web_root = Some (resolve_path os (setting (sa_web_root a) (mn_web_root m) ''web/dist'') base),
          public_api_base_url = opt_or (sa_public_api_base_url a) (mn_public_api_base_url m),
          public_websocket_url = opt_or (sa_public_websocket_url a) (mn_public_websocket_url m),
          websocket_hz = setting (sa_ws_hz a) (mn_websocket_hz m) (websocket_hz d),
          cors_origins = origins_of (sa_cors_origins a) (mn_cors_origins m)\<rparr>,
       rc_replay =
         \<lparr>default_speed = setting (sa_playback_default_speed a) (py_default_speed p) (default_speed replay_config_default),
          min_speed = setting (sa_playback_min_speed a) (py_min_speed p) (min_speed replay_config_default),
          max_speed = setting (sa_playback_max_speed a) (py_max_speed p) (max_speed replay_config_default)\<rparr>,
       rc_logging = logging_of os base (sa_log_level a) (sa_log_file a) (sf_logging f)\<rparr>)"

definition speeds_bad :: "ReplayConfig \<Rightarrow> bool" where
  "speeds_bad r \<longleftrightarrow> \<not> is_finite (min_speed r) \<or> \<not> is_finite (default_speed r) \<or> \<not> is_finite (max_speed r)
     \<or> fle (min_speed r) f_zero \<or> flt (default_speed r) (min_speed r) \<or> flt (max_speed r) (default_speed r)"

text \<open>The checks in the order of the source.\<close>

definition server_checks :: "ServerConfig \<Rightarrow> (bool \<times> string) list" where
  "server_checks c = (let r = sc_runtime c in
     [(trim_is_empty (sc_udp_listen c), ''transport.udp_listen must not be empty''),
      (sc_management_enabled c \<and> trim_is_empty (sc_management_listen c), ''management.listen must not be empty when management is enabled''),
      (heartbeat_interval_secs (rc_transport r) = 0, ''transport.heartbeat_interval_secs must be greater than zero''),
      (heartbeat_timeout_secs (rc_transport r) \<le> heartbeat_interval_secs (rc_transport r),
        ''transport.heartbeat_timeout_secs must exceed heartbeat_interval_secs''),
      (\<not> positive_rate (publish_hz (rc_cursor_stream r)), ''cursor_stream.publish_hz must be finite and greater than zero''),
      (max_subscribers (rc_cursor_stream r) = 0, ''cursor_stream.max_subscribers must be greater than zero''),
      (\<not> positive_rate (websocket_hz (rc_management r)), ''management.websocket_hz must be finite and greater than zero''),
      (speeds_bad (rc_replay r),
        ''playback speeds must be finite and satisfy 0 < min_speed <= default_speed <= max_speed''),
      (log_level (rc_logging r) \<notin> {''trace'', ''debug'', ''info'', ''warn'', ''error''},
        ''logging.level must be trace, debug, info, warn, or error'')])"

definition server_resolve ::
  "Platform \<Rightarrow> (u32 \<Rightarrow> string) \<Rightarrow> (string \<Rightarrow> string + ServerFileConfig) \<Rightarrow> ServerArgs \<Rightarrow> string + ServerConfig" where
  "server_resolve os u32_text read a =
     (let path = config_path_of os ''fly-ruler-server.toml'' (sa_config a) in
      case file_config read server_file_default path of
        Inl e \<Rightarrow> Inl e
      | Inr f \<Rightarrow>
          (let version = unwrap_or (sf_schema_version f) RUNTIME_CONFIG_SCHEMA_VERSION in
           if version \<noteq> RUNTIME_CONFIG_SCHEMA_VERSION
           then Inl (''unsupported schema_version '' @ u32_text version @ ''; expected '' @ u32_text RUNTIME_CONFIG_SCHEMA_VERSION)
           else case current_dir os of
             Inl e \<Rightarrow> Inl e
           | Inr base \<Rightarrow>
               (let c = \<lparr>sc_udp_listen = setting (sa_udp_listen a) (tr_udp_listen (sf_transport f)) ''127.0.0.1:18002'',
                         sc_management_enabled = enabled_setting (sa_http a) (sa_no_http a) (mn_enabled (sf_management f)),
                         sc_management_listen = setting (sa_http_listen a) (mn_listen (sf_management f)) ''127.0.0.1:18003'',
                         sc_runtime = server_runtime os base a f, sc_config_path = path\<rparr>
                in case first_error (server_checks c) of Some e \<Rightarrow> Inl e | None \<Rightarrow> Inr c)))"

end
