(* ===== verification/Bridge_Config.thy ===== *)
theory Bridge_Config
  imports Server_Config Smoothing
begin

text \<open>
  The configuration of the flight simulator bridge (\<open>bindings/msfs/src/config.rs\<close>), resolved like the
  server's from the command line, a TOML file and defaults. Of the management section the bridge's
  file names the rate \<open>ws_hz\<close>.
\<close>

record BridgeArgs =
  ba_config :: "string option"
  ba_listen :: "string option"
  ba_aircraft_id :: "string option"
  ba_tick_hz :: "f64 option"
  ba_render_hz :: "f64 option"
  ba_interpolation_delay_ms :: "u64 option"
  ba_max_extrapolation_ms :: "u64 option"
  ba_smoothing_mode :: "string option"
  ba_stale_timeout_ms :: "u64 option"
  ba_enable_ai_aircraft :: bool
  ba_ai_aircraft_title :: "string option"
  ba_max_ai_aircraft :: "nat option"
  ba_http_listen :: "string option"
  ba_data_root :: "string option"
  ba_web_root :: "string option"
  ba_public_api_base_url :: "string option"
  ba_public_websocket_url :: "string option"
  ba_ws_hz :: "f64 option"
  ba_cors_origins :: "string list"
  ba_http :: bool
  ba_no_http :: bool
  ba_log_level :: "string option"
  ba_log_file :: "string option"

record BridgeSection =
  bs_listen :: "string option"
  bs_aircraft_id :: "string option"
  bs_tick_hz :: "f64 option"
  bs_render_hz :: "f64 option"
  bs_interpolation_delay_ms :: "u64 option"
  bs_max_extrapolation_ms :: "u64 option"
  bs_smoothing_mode :: "string option"
  bs_stale_timeout_ms :: "u64 option"
  bs_enable_ai_aircraft :: "bool option"
  bs_ai_aircraft_title :: "string option"
  bs_max_ai_aircraft :: "nat option"

record BridgeFileConfig =
  bf_bridge :: BridgeSection
  bf_management :: ManagementSection
  bf_logging :: LoggingSection

definition bridge_file_default :: BridgeFileConfig where
  "bridge_file_default =
     \<lparr>bf_bridge = \<lparr>bs_listen = None, bs_aircraft_id = None, bs_tick_hz = None, bs_render_hz = None,
        bs_interpolation_delay_ms = None, bs_max_extrapolation_ms = None, bs_smoothing_mode = None,
        bs_stale_timeout_ms = None, bs_enable_ai_aircraft = None, bs_ai_aircraft_title = None, bs_max_ai_aircraft = None\<rparr>,
      bf_management = management_section_default, bf_logging = logging_section_default\<rparr>"

record BridgeConfig =
  bc_listen :: string
  bc_aircraft_id :: "string option"
  bc_tick_hz :: f64
  bc_render_hz :: f64
  bc_stale_timeout_ms :: u64
  bc_enable_ai_aircraft :: bool
  bc_ai_aircraft_title :: string
  bc_max_ai_aircraft :: nat
  bc_smoothing :: LiveSmoothingConfig
  bc_management_enabled :: bool
  bc_http_listen :: string
  bc_runtime :: RuntimeConfig
  bc_config_path :: "string option"

text \<open>\<open>Duration::from_millis\<close>.\<close>

definition from_millis :: "u64 \<Rightarrow> duration" where
  "from_millis ms = unat ms * 1000000"

definition smoothing_of :: "SmoothingMode \<Rightarrow> BridgeArgs \<Rightarrow> BridgeSection \<Rightarrow> LiveSmoothingConfig" where
  "smoothing_of m a b = smoothing_config_default
     \<lparr>sm_mode := m,
      interpolation_delay := (case opt_or (ba_interpolation_delay_ms a) (bs_interpolation_delay_ms b) of
          None \<Rightarrow> default_interpolation_delay m | Some ms \<Rightarrow> from_millis ms),
      max_extrapolation := (case opt_or (ba_max_extrapolation_ms a) (bs_max_extrapolation_ms b) of
          None \<Rightarrow> default_max_extrapolation m | Some ms \<Rightarrow> from_millis ms)\<rparr>"

definition ascii_hexdigit :: "char \<Rightarrow> bool" where
  "ascii_hexdigit c \<longleftrightarrow> (let n = of_char c :: nat in
     48 \<le> n \<and> n \<le> 57 \<or> 65 \<le> n \<and> n \<le> 70 \<or> 97 \<le> n \<and> n \<le> 102)"

definition aircraft_id_bad :: "string option \<Rightarrow> bool" where
  "aircraft_id_bad i = (case i of None \<Rightarrow> False | Some s \<Rightarrow> length s \<noteq> 32 \<or> \<not> list_all ascii_hexdigit s)"

definition bridge_runtime :: "Platform \<Rightarrow> string \<Rightarrow> BridgeArgs \<Rightarrow> BridgeFileConfig \<Rightarrow> RuntimeConfig" where
  "bridge_runtime os base a f = (let m = bf_management f in runtime_config_default
     \<lparr>rc_management :=
         \<lparr>data_root = resolve_path os (setting (ba_data_root a) (mn_data_root m) ''sessions'') base,
          web_root = Some (resolve_path os (setting (ba_web_root a) (mn_web_root m) ''web/dist'') base),
          public_api_base_url = opt_or (ba_public_api_base_url a) (mn_public_api_base_url m),
          public_websocket_url = opt_or (ba_public_websocket_url a) (mn_public_websocket_url m),
          websocket_hz = setting (ba_ws_hz a) (mn_websocket_hz m) (F64 0x403E000000000000),
          cors_origins = origins_of (ba_cors_origins a) (mn_cors_origins m)\<rparr>,
      rc_logging := logging_of os base (ba_log_level a) (ba_log_file a) (bf_logging f)\<rparr>)"

definition bridge_checks :: "BridgeConfig \<Rightarrow> (bool \<times> string) list" where
  "bridge_checks c =
     [(\<not> positive_rate (bc_tick_hz c), ''tick_hz must be finite and greater than zero''),
      (\<not> positive_rate (bc_render_hz c), ''render_hz must be finite and greater than zero''),
      (\<not> positive_rate (websocket_hz (rc_management (bc_runtime c))), ''management.ws_hz must be finite and greater than zero''),
      (max_samples (bc_smoothing c) = 0, ''smoothing max_samples must be greater than zero''),
      (bc_enable_ai_aircraft c \<and> trim_is_empty (bc_ai_aircraft_title c), ''ai_aircraft_title must not be empty when AI aircraft are enabled''),
      (64 < bc_max_ai_aircraft c, ''max_ai_aircraft must be at most 64''),
      (aircraft_id_bad (bc_aircraft_id c), ''aircraft_id must be a 32-character hexadecimal UUID'')]"

definition bridge_settings ::
  "Platform \<Rightarrow> string \<Rightarrow> SmoothingMode \<Rightarrow> string option \<Rightarrow> BridgeArgs \<Rightarrow> BridgeFileConfig \<Rightarrow> BridgeConfig" where
  "bridge_settings os base m path a f =
     (let b = bf_bridge f; tick = setting (ba_tick_hz a) (bs_tick_hz b) (F64 0x406E000000000000) in
      \<lparr>bc_listen = setting (ba_listen a) (bs_listen b) ''127.0.0.1:18002'',
       bc_aircraft_id = opt_or (ba_aircraft_id a) (bs_aircraft_id b),
       bc_tick_hz = tick,
       bc_render_hz = setting (ba_render_hz a) (bs_render_hz b) tick,
       bc_stale_timeout_ms = setting (ba_stale_timeout_ms a) (bs_stale_timeout_ms b) 500,
       bc_enable_ai_aircraft = (if ba_enable_ai_aircraft a then True else unwrap_or (bs_enable_ai_aircraft b) False),
       bc_ai_aircraft_title = setting (ba_ai_aircraft_title a) (bs_ai_aircraft_title b) ''Rafale M'',
       bc_max_ai_aircraft = setting (ba_max_ai_aircraft a) (bs_max_ai_aircraft b) 8,
       bc_smoothing = smoothing_of m a b,
       bc_management_enabled = enabled_setting (ba_http a) (ba_no_http a) (mn_enabled (bf_management f)),
       bc_http_listen = setting (ba_http_listen a) (mn_listen (bf_management f)) ''127.0.0.1:18003'',
       bc_runtime = bridge_runtime os base a f,
       bc_config_path = path\<rparr>)"

definition bridge_resolve :: "Platform \<Rightarrow> (string \<Rightarrow> string + BridgeFileConfig) \<Rightarrow> BridgeArgs \<Rightarrow> string + BridgeConfig" where
  "bridge_resolve os read a =
     (let path = config_path_of os ''fly-ruler-msfs.toml'' (ba_config a) in
      case file_config read bridge_file_default path of
        Inl e \<Rightarrow> Inl e
      | Inr f \<Rightarrow>
          (case current_dir os of
             Inl e \<Rightarrow> Inl e
           | Inr base \<Rightarrow>
               (let raw = setting (ba_smoothing_mode a) (bs_smoothing_mode (bf_bridge f)) ''low_latency'' in
                case smoothing_parse raw of
                  None \<Rightarrow> Inl (''smoothing_mode must be one of latest, low_latency, or smooth; got '' @ raw)
                | Some m \<Rightarrow>
                    (let c = bridge_settings os base m path a f
                     in case first_error (bridge_checks c) of Some e \<Rightarrow> Inl e | None \<Rightarrow> Inr c))))"

end
