(* ===== verification/Web_Json.thy ===== *)
theory Web_Json
  imports Playback Attitude
begin

text \<open>
  The JSON values of the management API: \<open>serde_json::Value\<close> and the conversion functions of
  \<open>core/src/management/routes.rs\<close>. A float that is not finite becomes \<open>null\<close>, as in \<open>serde_json\<close>.
  An object is the association list of its members in the order of the source. Result: no number of
  a converted value is infinite or NaN, whatever is stored.
\<close>

datatype JsonValue =
    JNull
  | JBool bool
  | JInt int
  | JFloat f64
  | JString string
  | JArray "JsonValue list"
  | JObject "(string \<times> JsonValue) list"

section \<open>Scalars\<close>

definition json_f64 :: "f64 \<Rightarrow> JsonValue" where
  "json_f64 x = (if is_finite x then JFloat x else JNull)"

definition json_option :: "('a \<Rightarrow> JsonValue) \<Rightarrow> 'a option \<Rightarrow> JsonValue" where
  "json_option f v = (case v of None \<Rightarrow> JNull | Some x \<Rightarrow> f x)"

definition json_list :: "('a \<Rightarrow> JsonValue) \<Rightarrow> 'a list \<Rightarrow> JsonValue" where
  "json_list f xs = JArray (map f xs)"

definition json_usize :: "nat \<Rightarrow> JsonValue" where
  "json_usize n = JInt (int n)"

definition json_u64 :: "u64 \<Rightarrow> JsonValue" where
  "json_u64 w = JInt (uint w)"

section \<open>States\<close>

definition vector_json :: "Vector3 \<Rightarrow> JsonValue" where
  "vector_json v = JObject [(''x'', json_f64 (v_x v)), (''y'', json_f64 (v_y v)), (''z'', json_f64 (v_z v))]"

definition attitude_json :: "Nalgebra \<Rightarrow> Quaternion \<Rightarrow> JsonValue" where
  "attitude_json na q =
     (let euler = (case attitude_from_quaternion na q of Inl _ \<Rightarrow> None | Inr a \<Rightarrow> Some (attitude_euler na a)) in
      JObject [(''w'', json_f64 (q_w q)), (''x'', json_f64 (q_x q)), (''y'', json_f64 (q_y q)), (''z'', json_f64 (q_z q)),
        (''roll'', json_option (\<lambda>(roll, _, _). json_f64 roll) euler),
        (''pitch'', json_option (\<lambda>(_, pitch, _). json_f64 pitch) euler),
        (''yaw'', json_option (\<lambda>(_, _, yaw). json_f64 yaw) euler)])"

definition derived_json :: "DerivedState \<Rightarrow> JsonValue" where
  "derived_json d = JObject
     [(''lat'', json_f64 (d_lat d)), (''lon'', json_f64 (d_lon d)), (''altitude'', json_f64 (d_altitude d)),
      (''alpha'', json_f64 (d_alpha d)), (''beta'', json_f64 (d_beta d)), (''tas'', json_f64 (d_tas d)),
      (''eas'', json_f64 (d_eas d)), (''gamma'', json_f64 (d_gamma d)), (''chi'', json_f64 (d_chi d)),
      (''ias'', json_option json_f64 (d_ias d)), (''cas'', json_option json_f64 (d_cas d)),
      (''mach'', json_option json_f64 (d_mach d)), (''ground_speed'', json_option json_f64 (d_ground_speed d)),
      (''vertical_speed'', json_option json_f64 (d_vertical_speed d)),
      (''dynamic_pressure'', json_option json_f64 (d_dynamic_pressure d)),
      (''normal_load_factor'', json_option json_f64 (d_normal_load_factor d))]"

definition controls_json :: "ControlSurfaceState \<Rightarrow> JsonValue" where
  "controls_json c = JObject
     [(''aileron_left_rad'', json_option json_f64 (c_aileron_left_rad c)),
      (''aileron_right_rad'', json_option json_f64 (c_aileron_right_rad c)),
      (''elevator_rad'', json_option json_f64 (c_elevator_rad c)), (''rudder_rad'', json_option json_f64 (c_rudder_rad c)),
      (''flaps_left_ratio'', json_option json_f64 (c_flaps_left_ratio c)),
      (''flaps_right_ratio'', json_option json_f64 (c_flaps_right_ratio c)),
      (''spoilers_ratio'', json_option json_f64 (c_spoilers_ratio c))]"

definition propulsor_json :: "PropulsorState \<Rightarrow> JsonValue" where
  "propulsor_json p = JObject
     [(''propulsor_id'', JString (p_propulsor_id p)), (''kind'', JInt (p_kind p)),
      (''throttle_ratio'', json_option json_f64 (p_throttle_ratio p)), (''rpm'', json_option json_f64 (p_rpm p)),
      (''blade_pitch_rad'', json_option json_f64 (p_blade_pitch_rad p)),
      (''thrust_newton'', json_option json_f64 (p_thrust_newton p)),
      (''torque_newton_meter'', json_option json_f64 (p_torque_newton_meter p)),
      (''index'', json_option (\<lambda>i. JInt (uint i)) (p_index p))]"

definition aircraft_state_json :: "Nalgebra \<Rightarrow> AircraftState \<Rightarrow> JsonValue" where
  "aircraft_state_json na st = JObject
     [(''position'', json_option vector_json (a_position st)), (''velocity'', json_option vector_json (a_velocity st)),
      (''attitude'', json_option (attitude_json na) (a_attitude st)),
      (''angular_velocity'', json_option vector_json (a_angular_velocity st)),
      (''derived'', json_option derived_json (a_derived st)),
      (''control_surfaces'', json_option controls_json (a_control_surfaces st)),
      (''linear_acceleration_body'', json_option vector_json (a_linear_acceleration_body st)),
      (''propulsors'', json_list propulsor_json (a_propulsors st))]"

definition timestamped_state_json :: "Nalgebra \<Rightarrow> TimestampedState \<Rightarrow> JsonValue" where
  "timestamped_state_json na x = JObject
     [(''timestamp_secs'', json_f64 (st_time x)), (''state'', aircraft_state_json na (st_state x))]"

section \<open>Events\<close>

definition telemetry_schema_json :: "TelemetryStreamSchema \<Rightarrow> JsonValue" where
  "telemetry_schema_json s = JObject
     [(''stream_id'', JString (ts_stream_id s)), (''name'', JString (ts_name s)),
      (''nominal_rate_hz'', json_option json_f64 (ts_nominal_rate_hz s)),
      (''fields'', json_list (\<lambda>f. JObject
         [(''field_id'', JString (tf_field_id f)), (''label'', JString (tf_label f)), (''group'', JString (tf_group f)),
          (''unit'', JString (tf_unit f)), (''description'', JString (tf_description f)),
          (''value_type'', JInt (tf_value_type f))]) (ts_fields s))]"

definition telemetry_schemas_json :: "TelemetryStreamSchema list \<Rightarrow> JsonValue" where
  "telemetry_schemas_json ss = json_list telemetry_schema_json ss"

definition event_members :: "Nalgebra \<Rightarrow> TimestampedEvent \<Rightarrow> (string \<times> JsonValue) list" where
  "event_members na e =
     (case ev_event e of
        EvSpawn sp \<Rightarrow>
          [(''timestamp_secs'', json_f64 (ev_time e)), (''event_type'', JString ''spawn''), (''name'', JString (sp_name sp)),
           (''toml_config'', JString (sp_toml_config sp)),
           (''initial_state'', json_option (aircraft_state_json na) (sp_initial_state sp)),
           (''telemetry_schemas'', telemetry_schemas_json (sp_telemetry_schemas sp))]
      | EvDespawn d \<Rightarrow>
          [(''timestamp_secs'', json_f64 (ev_time e)), (''event_type'', JString ''despawn''),
           (''reason'', json_option JString (de_reason d))]
      | EvCustom ev \<Rightarrow>
          [(''timestamp_secs'', json_f64 (ev_time e)), (''event_type'', JString ''custom''), (''name'', JString ev)])"

definition timestamped_event_json :: "Nalgebra \<Rightarrow> TimestampedEvent \<Rightarrow> JsonValue" where
  "timestamped_event_json na e = JObject (event_members na e)"

definition global_event_json :: "Nalgebra \<Rightarrow> GlobalTimestampedEvent \<Rightarrow> JsonValue" where
  "global_event_json na e = JObject
     (event_members na \<lparr>ev_time = ge_time e, ev_event = ge_event e\<rparr> @ [(''aircraft_id'', JString (ge_aircraft_id e))])"

section \<open>Playback and store\<close>

definition mode_json :: "PlaybackMode \<Rightarrow> JsonValue" where
  "mode_json m = JString (case m of Live \<Rightarrow> ''live'' | ReplayPaused \<Rightarrow> ''replay_paused'' | ReplayPlaying \<Rightarrow> ''replay_playing'')"

definition bounds_json :: "f64 \<times> f64 \<Rightarrow> JsonValue" where
  "bounds_json b = JArray [json_f64 (fst b), json_f64 (snd b)]"

definition playback_json :: "PlaybackSnapshot \<Rightarrow> JsonValue" where
  "playback_json pb = JObject
     [(''mode'', mode_json (snap_mode pb)), (''cursor_secs'', json_option json_f64 (snap_cursor pb)),
      (''speed'', json_f64 (snap_speed pb)), (''bounds'', json_option bounds_json (snap_bounds pb)),
      (''revision'', json_u64 (snap_revision pb))]"

definition store_stats_json :: "TimeSeriesStore \<Rightarrow> JsonValue" where
  "store_stats_json s = JObject
     [(''aircraft_count'', json_usize (aircraft_count_for s)), (''state_count'', json_usize (state_count_for s)),
      (''event_count'', json_usize (event_count_for s)), (''telemetry_count'', json_usize (telemetry_count_for s)),
      (''time_bounds'', json_option bounds_json (active_time_bounds s))]"

definition summary_json :: "f64 option \<Rightarrow> TimeSeriesStore \<Rightarrow> AircraftSummary \<Rightarrow> JsonValue" where
  "summary_json cursor s x = JObject
     [(''id'', JString (sum_id x)), (''name'', json_option (\<lambda>c. JString (cfg_name c)) (sum_config x)),
      (''toml_config'', json_option (\<lambda>c. JString (cfg_toml_config c)) (sum_config x)),
      (''time_range'', json_option bounds_json (sum_time_range x)),
      (''state_count'', json_usize (sum_state_count x)), (''event_count'', json_usize (sum_event_count x)),
      (''telemetry_count'', json_usize (sum_telemetry_count x)),
      (''spawned_at_cursor'', JBool (case cursor of None \<Rightarrow> False | Some c \<Rightarrow> is_spawned_at (sum_id x) c s))]"

section \<open>Every number is finite\<close>

fun json_ok :: "JsonValue \<Rightarrow> bool" where
  "json_ok (JFloat x) = is_finite x"
| "json_ok (JArray xs) = list_all json_ok xs"
| "json_ok (JObject ms) = list_all (\<lambda>(k, v). json_ok v) ms"
| "json_ok _ = True"

lemma json_scalar_ok [simp, intro]: "json_ok (json_f64 x)" "json_ok (json_usize n)" "json_ok (json_u64 w)"
  by (simp_all add: json_f64_def json_usize_def json_u64_def)

lemma json_option_ok [simp, intro]: "(\<And>x. json_ok (f x)) \<Longrightarrow> json_ok (json_option f v)"
  by (simp add: json_option_def split: option.split)

lemma json_list_ok [simp, intro]: "(\<And>x. json_ok (f x)) \<Longrightarrow> json_ok (json_list f xs)"
  by (simp add: json_list_def list_all_iff)

lemma vector_ok [simp]: "json_ok (vector_json v)"
  by (simp add: vector_json_def)

lemma attitude_ok [simp]: "json_ok (attitude_json na q)"
  by (simp add: attitude_json_def Let_def split: prod.split)

lemma derived_ok [simp]: "json_ok (derived_json d)"
  by (simp add: derived_json_def)

lemma controls_ok [simp]: "json_ok (controls_json c)"
  by (simp add: controls_json_def)

lemma propulsor_ok [simp]: "json_ok (propulsor_json p)"
  by (simp add: propulsor_json_def)

lemma state_ok [simp]: "json_ok (aircraft_state_json na st)" "json_ok (timestamped_state_json na x)"
  by (simp_all add: aircraft_state_json_def timestamped_state_json_def)

lemma schemas_ok [simp]: "json_ok (telemetry_schemas_json ss)"
  by (simp add: telemetry_schemas_json_def telemetry_schema_json_def)

lemma event_members_ok: "list_all (\<lambda>(k, v). json_ok v) (event_members na e)"
  by (simp add: event_members_def split: Event.split)

lemma event_ok [simp]: "json_ok (timestamped_event_json na e)" "json_ok (global_event_json na g)"
  using event_members_ok by (simp_all add: timestamped_event_json_def global_event_json_def)

lemma playback_ok [simp]: "json_ok (bounds_json b)" "json_ok (playback_json pb)" "json_ok (store_stats_json s)"
    "json_ok (summary_json cursor s x)"
  by (simp_all add: bounds_json_def playback_json_def mode_json_def store_stats_json_def summary_json_def)

end
