(* ===== verification/Web_Serde.thy ===== *)
theory Web_Serde
  imports Web_Json Workspace Operations Sessions
begin

text \<open>
  The derived JSON encodings (\<open>serde::Serialize\<close>) of the management API's answers: series catalog
  and query results (\<open>management/series.rs\<close>), the workspace document (\<open>management/workspace.rs\<close>),
  operation records, notifications and errors (\<open>management/server.rs\<close>).
\<close>

section \<open>Series\<close>

definition selector_json :: "SeriesSelector \<Rightarrow> JsonValue" where
  "selector_json s = (case s of
     Standard path \<Rightarrow> JObject [(''kind'', JString ''standard''), (''path'', JString path)]
   | Propulsor propulsor_id f \<Rightarrow>
       JObject [(''kind'', JString ''propulsor''), (''propulsor_id'', JString propulsor_id), (''field'', JString (field_key f))]
   | Telemetry stream_id field_id \<Rightarrow>
       JObject [(''kind'', JString ''telemetry''), (''stream_id'', JString stream_id), (''field_id'', JString field_id)])"

definition catalog_item_json :: "SeriesCatalogItem \<Rightarrow> JsonValue" where
  "catalog_item_json i = JObject
     [(''selector'', selector_json (ct_selector i)), (''group'', JString (ct_group i)), (''label'', JString (ct_label i)),
      (''unit'', json_option JString (ct_unit i))]"

definition stats_json :: "SeriesStats \<Rightarrow> JsonValue" where
  "stats_json st = JObject
     [(''min'', json_f64 (ss_min st)), (''max'', json_f64 (ss_max st)), (''last'', json_f64 (ss_last st)),
      (''start'', json_f64 (ss_start st)), (''end'', json_f64 (ss_end st))]"

definition series_data_json :: "SeriesData \<Rightarrow> JsonValue" where
  "series_data_json d = JObject
     [(''key'', JString (sd_key d)), (''aircraft_id'', JString (sd_aircraft_id d)),
      (''selector'', selector_json (sd_selector d)), (''points'', json_list bounds_json (sd_points d)),
      (''total_points'', json_usize (sd_total_points d)), (''returned_points'', json_usize (sd_returned_points d)),
      (''stats'', json_option stats_json (sd_stats d))]"

definition series_response_json :: "SeriesData list \<Rightarrow> JsonValue" where
  "series_response_json ds = JObject [(''series'', json_list series_data_json ds)]"

section \<open>Workspace\<close>

definition theme_json :: "WorkspaceTheme \<Rightarrow> JsonValue" where
  "theme_json t = JString (case t of Light \<Rightarrow> ''light'' | Dark \<Rightarrow> ''dark'')"

definition curve_json :: "WorkspaceCurveStyle \<Rightarrow> JsonValue" where
  "curve_json c = JObject
     [(''aircraft_id'', JString (wc_aircraft_id c)), (''selector'', selector_json (wc_selector c)),
      (''alias'', JString (wc_alias c)), (''color'', JString (wc_color c)), (''line_pattern'', JString (wc_line_pattern c)),
      (''line_width'', json_f64 (wc_line_width c)), (''opacity'', json_f64 (wc_opacity c)), (''visible'', JBool (wc_visible c)),
      (''y_axis'', JString (wc_y_axis c)), (''smooth'', JBool (wc_smooth c)), (''show_symbol'', JBool (wc_show_symbol c)),
      (''scale'', json_f64 (wc_scale c)), (''offset'', json_f64 (wc_offset c)), (''unit'', json_option JString (wc_unit c)),
      (''value_format'', JString (wc_value_format c)), (''precision'', JInt (uint (wc_precision c)))]"

definition view_json :: "WorkspaceChartView \<Rightarrow> JsonValue" where
  "view_json v = JObject
     [(''zoom_start'', json_option json_f64 (zoom_start v)), (''zoom_end'', json_option json_f64 (zoom_end v)),
      (''zoom_start_value'', json_option json_f64 (zoom_start_value v)),
      (''zoom_end_value'', json_option json_f64 (zoom_end_value v))]"

definition chart_json :: "WorkspaceChart \<Rightarrow> JsonValue" where
  "chart_json c = JObject
     [(''id'', JString (wh_id c)), (''title'', JString (wh_title c)), (''x'', JInt (sint (wh_x c))), (''y'', JInt (sint (wh_y c))),
      (''w'', JInt (uint (wh_w c))), (''h'', JInt (uint (wh_h c))), (''legend_visible'', JBool (wh_legend_visible c)),
      (''curves'', json_list curve_json (wh_curves c)), (''view'', view_json (wh_view c))]"

definition workspace_json :: "WorkspaceSnapshot \<Rightarrow> JsonValue" where
  "workspace_json w = JObject
     [(''version'', JInt (uint (wk_version w))), (''theme'', theme_json (wk_theme w)), (''locale'', JString (wk_locale w)),
      (''left_panel_open'', JBool (left_panel_open w)), (''right_panel_open'', JBool (right_panel_open w)),
      (''basket_open'', JBool (basket_open w)), (''selected_aircraft_id'', json_option JString (selected_aircraft_id w)),
      (''selected_chart_id'', json_option JString (selected_chart_id w)), (''sync_charts'', JBool (sync_charts w)),
      (''query_start'', json_option json_f64 (query_start w)), (''query_end'', json_option json_f64 (query_end w)),
      (''max_points'', json_usize (wk_max_points w)), (''charts'', json_list chart_json (wk_charts w)),
      (''basket'', json_list curve_json (wk_basket w))]"

definition document_json :: "WorkspaceDocument \<Rightarrow> JsonValue" where
  "document_json d = JObject
     [(''revision'', json_u64 (wd_revision d)), (''updated_at_secs'', json_f64 (updated_at_secs d)),
      (''workspace'', workspace_json (workspace d))]"

section \<open>Operations\<close>

definition operation_state_json :: "OperationState \<Rightarrow> JsonValue" where
  "operation_state_json st = JString (case st of Queued \<Rightarrow> ''queued'' | Running \<Rightarrow> ''running'' | Succeeded \<Rightarrow> ''succeeded''
     | Failed \<Rightarrow> ''failed'')"

definition operation_json :: "OperationRecord \<Rightarrow> JsonValue" where
  "operation_json r = JObject
     [(''id'', JString (or_id r)), (''kind'', JString (or_kind r)), (''session'', JString (or_session r)),
      (''state'', operation_state_json (or_state r)), (''created_at_secs'', json_f64 (or_created_at_secs r)),
      (''updated_at_secs'', json_f64 (or_updated_at_secs r)), (''error'', json_option JString (or_error r))]"

definition notification_json :: "Notification \<Rightarrow> JsonValue" where
  "notification_json n = JObject (case n of
     OperationStatus r \<Rightarrow> [(''type'', JString ''operation_status''), (''operation'', operation_json r)]
   | StoreChanged reason \<Rightarrow> [(''type'', JString ''store_changed''), (''reason'', JString reason)]
   | WorkspaceChanged rv \<Rightarrow> [(''type'', JString ''workspace_changed''), (''revision'', json_u64 rv)])"

definition notify_workspace_changed :: "u64 \<Rightarrow> OperationManager \<Rightarrow> OperationManager" where
  "notify_workspace_changed rv m = m\<lparr>om_sent := om_sent m @ [WorkspaceChanged rv]\<rparr>"

section \<open>Errors\<close>

text \<open>\<open>impl IntoResponse for ApiError\<close>: the status and the body. The details are always absent.\<close>

definition api_status :: "ApiError \<Rightarrow> nat" where
  "api_status e = (case e of BadRequest _ _ \<Rightarrow> 400 | NotFoundError _ _ \<Rightarrow> 404 | MethodNotAllowed _ _ \<Rightarrow> 405 | Conflict _ _ \<Rightarrow> 409
     | Internal _ \<Rightarrow> 500 | InternalCode _ _ \<Rightarrow> 500)"

definition api_body :: "ApiError \<Rightarrow> JsonValue" where
  "api_body e =
     (let (code, message) = (case e of BadRequest c m \<Rightarrow> (c, m) | NotFoundError c m \<Rightarrow> (c, m) | MethodNotAllowed c m \<Rightarrow> (c, m)
        | Conflict c m \<Rightarrow> (c, m) | Internal m \<Rightarrow> (''internal_error'', m) | InternalCode c m \<Rightarrow> (c, m)) in
      JObject [(''code'', JString code), (''message'', JString message), (''details'', JNull)])"

text \<open>The display of a float and of an error of the standard library are parameters.\<close>

record Texts =
  f64_text :: "f64 \<Rightarrow> string"
  io_text :: string
  codec_text :: string

definition api_of_playback :: "Texts \<Rightarrow> PlaybackError \<Rightarrow> ApiError" where
  "api_of_playback tx e = (case e of
     EmptyStore \<Rightarrow> Conflict ''playback_error'' ''the store contains no timeline data''
   | InvalidTimestamp \<Rightarrow> BadRequest ''playback_error'' ''timestamp must be finite''
   | InvalidSpeed lo hi \<Rightarrow> BadRequest ''playback_error''
       (''speed must be finite and within '' @ f64_text tx lo @ ''..='' @ f64_text tx hi)
   | InvalidStepCount \<Rightarrow> BadRequest ''playback_error'' ''step count must be within 1..=100'')"

definition api_of_series :: "SeriesError \<Rightarrow> ApiError" where
  "api_of_series e = (case e of
     SeriesAircraftNotFound aid \<Rightarrow> NotFoundError ''series_error'' (''aircraft not found: '' @ aid)
   | InvalidSelectionCount \<Rightarrow> BadRequest ''series_error'' ''selections must contain between 1 and 64 entries''
   | InvalidMaxPoints \<Rightarrow> BadRequest ''series_error'' ''max_points must be within 100..=20000''
   | InvalidTimeRange \<Rightarrow> BadRequest ''series_error'' ''time range must be finite and start <= end''
   | UnknownStandardField path \<Rightarrow> BadRequest ''series_error'' (''unknown standard field: '' @ path)
   | UnknownTelemetryField stream_id field_id \<Rightarrow>
       BadRequest ''series_error'' (''unknown telemetry field: '' @ stream_id @ '':'' @ field_id))"

definition api_of_workspace :: "Texts \<Rightarrow> WorkspaceError \<Rightarrow> ApiError" where
  "api_of_workspace tx e = (case e of
     WsIo \<Rightarrow> InternalCode ''workspace_error'' (''io error: '' @ io_text tx)
   | WsJson \<Rightarrow> InternalCode ''workspace_error'' (''json error: '' @ codec_text tx)
   | TooLarge \<Rightarrow> BadRequest ''workspace_error'' ''workspace document is too large''
   | TooComplex \<Rightarrow> BadRequest ''workspace_error'' ''workspace contains too many charts or curves''
   | InvalidValue \<Rightarrow> BadRequest ''workspace_error'' ''workspace contains invalid numeric or enum values'')"

section \<open>Every number is finite\<close>

lemma series_json_ok [simp]: "json_ok (selector_json s)" "json_ok (catalog_item_json i)" "json_ok (stats_json st)"
    "json_ok (series_data_json d)" "json_ok (series_response_json ds)"
  by (auto simp: selector_json_def catalog_item_json_def stats_json_def series_data_json_def series_response_json_def
      split: SeriesSelector.split)

lemma workspace_json_ok [simp]: "json_ok (curve_json c)" "json_ok (view_json v)" "json_ok (chart_json h)"
    "json_ok (workspace_json w)" "json_ok (document_json d)"
  by (simp_all add: curve_json_def view_json_def chart_json_def workspace_json_def document_json_def theme_json_def)

lemma operation_json_ok [simp]: "json_ok (operation_json r)" "json_ok (notification_json n)" "json_ok (api_body e)"
  by (simp_all add: operation_json_def operation_state_json_def notification_json_def api_body_def
      split: Notification.split ApiError.split)

end
