(* ===== verification/Routes.thy ===== *)
theory Routes
  imports Web_Serde
begin

text \<open>
  The HTTP and WebSocket handlers of the management API (\<open>core/src/management/routes.rs\<close>) over the
  shared state of \<open>AppState\<close>: one definition per handler, \<open>serve_call\<close> for the route table, and the
  loop of a WebSocket connection. A request is the call the router makes with the extracted
  arguments; an argument that does not parse is the text of its rejection. \<open>None\<close> is a panic.
  The clock, the listing of the data root and the texts of library errors are parameters.
\<close>

section \<open>State\<close>

definition DEFAULT_PAGE_LIMIT :: nat where "DEFAULT_PAGE_LIMIT = 1000"
definition MAX_PAGE_LIMIT :: nat where "MAX_PAGE_LIMIT = 10000"
definition MAX_WS_AIRCRAFT :: nat where "MAX_WS_AIRCRAFT = 64"

record 'b Web =
  web_core :: "'b Management"
  web_workspace :: WorkspaceStore
  web_sessions :: "SessionState option"
  web_enabled :: bool
  web_dropped :: u64

record 'b WebEnv =
  we_nalgebra :: Nalgebra
  we_texts :: Texts
  we_join_text :: string
  we_replay :: ReplayConfig
  we_now :: f64
  we_clock :: "nat \<Rightarrow> instant"
  we_addr_text :: "SocketAddr \<Rightarrow> string"
  we_new_id :: string
  we_json :: Json
  we_read_fails :: bool
  we_faults :: Faults
  we_read_dir :: "string + string list"
  we_metadata :: "'b \<Rightarrow> JsonValue option"

abbreviation web_store :: "'b Web \<Rightarrow> TimeSeriesStore" where
  "web_store w \<equiv> mg_store (web_core w)"

abbreviation web_playback :: "'b Web \<Rightarrow> PlaybackInner" where
  "web_playback w \<equiv> mg_playback (web_core w)"

definition set_playback :: "PlaybackInner \<Rightarrow> 'b Web \<Rightarrow> 'b Web" where
  "set_playback p w = w\<lparr>web_core := (web_core w)\<lparr>mg_playback := p\<rparr>\<rparr>"

type_synonym 'b handled = "((ApiError + JsonValue) \<times> 'b Web) option"

section \<open>Rejections\<close>

definition query_body :: "string + 'q \<Rightarrow> ApiError + 'q" where
  "query_body q = (case q of Inl text \<Rightarrow> Inl (BadRequest ''invalid_query'' text) | Inr v \<Rightarrow> Inr v)"

definition json_body :: "string + 'q \<Rightarrow> ApiError + 'q" where
  "json_body q = (case q of Inl text \<Rightarrow> Inl (BadRequest ''invalid_json'' text) | Inr v \<Rightarrow> Inr v)"

definition route_not_found :: ApiError where
  "route_not_found = NotFoundError ''route_not_found'' ''API route not found''"

definition method_not_allowed :: ApiError where
  "method_not_allowed = MethodNotAllowed ''method_not_allowed'' ''HTTP method not allowed for this route''"

section \<open>Status\<close>

definition health :: JsonValue where
  "health = JObject [(''status'', JString ''ok''), (''protocol_version'', JString PROTOCOL_VERSION), (''api_version'', JString ''v1'')]"

definition session_json :: "(SocketAddr \<Rightarrow> string) \<Rightarrow> Session \<Rightarrow> JsonValue" where
  "session_json addr_text x = JObject
     [(''addr'', JString (addr_text (s_addr x))), (''client_uuid_hex'', JString (client_uuid_hex x)),
      (''last_seen_secs'', json_f64 (last_seen_secs x))]"

definition status :: "'b WebEnv \<Rightarrow> 'b Web \<Rightarrow> 'b handled" where
  "status env w =
     (let active = (case web_sessions w of None \<Rightarrow> [] | Some st \<Rightarrow> session_list st) in
      case playback_snapshot (we_clock env) (web_store w) (web_playback w) of
        Some (Inr (snap, p)) \<Rightarrow> Some (Inr (JObject
          [(''protocol_version'', JString PROTOCOL_VERSION), (''api_version'', JString ''v1''),
           (''store'', store_stats_json (web_store w)), (''playback'', playback_json snap),
           (''ingestion'', JObject [(''enabled'', JBool (web_enabled w)),
              (''dropped_during_maintenance'', json_u64 (web_dropped w))]),
           (''persistence_operation_active'', JBool (om_active (mg_operations (web_core w)))),
           (''udp_sessions'', json_list (session_json (we_addr_text env)) active)]), set_playback p w)
      | _ \<Rightarrow> None)"

definition aircraft_list :: "'b WebEnv \<Rightarrow> 'b Web \<Rightarrow> 'b handled" where
  "aircraft_list env w =
     (case playback_snapshot (we_clock env) (web_store w) (web_playback w) of
        Some (Inr (snap, p)) \<Rightarrow> Some (Inr (JObject
          [(''aircraft'', json_list (summary_json (snap_cursor snap) (web_store w)) (aircraft_summaries (web_store w)))]),
          set_playback p w)
      | _ \<Rightarrow> None)"

section \<open>States and events\<close>

definition state_reply :: "Nalgebra \<Rightarrow> string \<Rightarrow> (TimestampedState \<times> bool) option \<Rightarrow> ApiError + JsonValue" where
  "state_reply na aid resolved =
     (case resolved of
        None \<Rightarrow> Inl (NotFoundError ''state_not_found'' ''aircraft state not found'')
      | Some (sample, spawned) \<Rightarrow> Inr (JObject
          [(''aircraft_id'', JString aid), (''spawned'', JBool spawned), (''sample'', timestamped_state_json na sample)]))"

definition aircraft_state :: "'b WebEnv \<Rightarrow> string \<Rightarrow> string + f64 option \<Rightarrow> 'b Web \<Rightarrow> 'b handled" where
  "aircraft_state env aid query w =
     (case query_body query of
        Inl e \<Rightarrow> Some (Inl e, w)
      | Inr (Some t) \<Rightarrow>
          if \<not> is_finite t then Some (Inl (BadRequest ''invalid_timestamp'' ''at must be finite''), w)
          else Some (state_reply (we_nalgebra env) aid
            (map_option (\<lambda>sample. (sample, is_spawned_at aid t (web_store w))) (get_state_at_or_before aid t (web_store w))), w)
      | Inr None \<Rightarrow>
          (case resolve_aircraft (we_clock env) aid (web_store w) (web_playback w) of
             None \<Rightarrow> None
           | Some (resolved, p) \<Rightarrow>
               Some (state_reply (we_nalgebra env) aid (map_option (\<lambda>r. (rs_sample r, rs_spawned r)) resolved), set_playback p w)))"

record RangeQuery =
  rg_start :: f64
  rg_end :: f64
  rg_offset :: "nat option"
  rg_limit :: "nat option"

definition validated_page :: "RangeQuery \<Rightarrow> ApiError + nat \<times> nat" where
  "validated_page q =
     (if \<not> is_finite (rg_start q) \<or> \<not> is_finite (rg_end q) \<or> flt (rg_end q) (rg_start q)
      then Inl (BadRequest ''invalid_range'' ''start and end must be finite and start <= end'')
      else let limit = (case rg_limit q of None \<Rightarrow> DEFAULT_PAGE_LIMIT | Some n \<Rightarrow> n) in
        if limit = 0 \<or> MAX_PAGE_LIMIT < limit then Inl (BadRequest ''invalid_limit'' ''limit must be within 1..=10000'')
        else Inr (case rg_offset q of None \<Rightarrow> 0 | Some n \<Rightarrow> n, limit))"

definition page_members :: "('a \<Rightarrow> JsonValue) \<Rightarrow> 'a StorePage \<Rightarrow> (string \<times> JsonValue) list" where
  "page_members f pg =
     [(''total'', json_usize (pg_total pg)), (''offset'', json_usize (pg_offset pg)), (''limit'', json_usize (pg_limit pg)),
      (''items'', json_list f (pg_items pg))]"

definition page_reply :: "string \<Rightarrow> ('a \<Rightarrow> JsonValue) \<Rightarrow> 'a StorePage option \<Rightarrow> ApiError + JsonValue" where
  "page_reply aid f found =
     (case found of
        None \<Rightarrow> Inl (NotFoundError ''aircraft_not_found'' ''aircraft not found'')
      | Some pg \<Rightarrow> Inr (JObject ((''aircraft_id'', JString aid) # page_members f pg)))"

definition with_page :: "string + RangeQuery \<Rightarrow> (RangeQuery \<Rightarrow> nat \<Rightarrow> nat \<Rightarrow> (ApiError + JsonValue) option) \<Rightarrow> (ApiError + JsonValue) option" where
  "with_page query f =
     (case query_body query of
        Inl e \<Rightarrow> Some (Inl e)
      | Inr q \<Rightarrow> (case validated_page q of Inl e \<Rightarrow> Some (Inl e) | Inr (offset, limit) \<Rightarrow> f q offset limit))"

definition aircraft_states :: "Nalgebra \<Rightarrow> string \<Rightarrow> string + RangeQuery \<Rightarrow> TimeSeriesStore \<Rightarrow> (ApiError + JsonValue) option" where
  "aircraft_states na aid query s = with_page query (\<lambda>q offset limit.
     map_option (page_reply aid (timestamped_state_json na)) (get_states_page aid (rg_start q) (rg_end q) offset limit s))"

definition aircraft_events :: "Nalgebra \<Rightarrow> string \<Rightarrow> string + RangeQuery \<Rightarrow> TimeSeriesStore \<Rightarrow> (ApiError + JsonValue) option" where
  "aircraft_events na aid query s = with_page query (\<lambda>q offset limit.
     map_option (page_reply aid (timestamped_event_json na)) (get_events_page aid (rg_start q) (rg_end q) offset limit s))"

definition timeline_events :: "Nalgebra \<Rightarrow> string + RangeQuery \<Rightarrow> TimeSeriesStore \<Rightarrow> (ApiError + JsonValue) option" where
  "timeline_events na query s = with_page query (\<lambda>q offset limit.
     map_option (\<lambda>pg. Inr (JObject (page_members (global_event_json na) pg)))
       (get_global_events_page (rg_start q) (rg_end q) offset limit s))"

section \<open>Series\<close>

definition euler_of :: "Nalgebra \<Rightarrow> Quaternion \<Rightarrow> (f64 \<times> f64 \<times> f64) option" where
  "euler_of na q = (case attitude_from_quaternion na q of Inl _ \<Rightarrow> None | Inr a \<Rightarrow> Some (attitude_euler na a))"

text \<open>Both run on a blocking thread, whose panic is an internal error of the request.\<close>

definition series_catalog :: "'b WebEnv \<Rightarrow> string \<Rightarrow> TimeSeriesStore \<Rightarrow> ApiError + JsonValue" where
  "series_catalog env aid s =
     (case catalog (euler_of (we_nalgebra env)) s aid of
        None \<Rightarrow> Inl (Internal (we_join_text env))
      | Some (Inl e) \<Rightarrow> Inl (api_of_series e)
      | Some (Inr items) \<Rightarrow> Inr (JObject [(''aircraft_id'', JString aid), (''fields'', json_list catalog_item_json items)]))"

definition series_query_call :: "'b WebEnv \<Rightarrow> string + SeriesQueryRequest \<Rightarrow> TimeSeriesStore \<Rightarrow> ApiError + JsonValue" where
  "series_query_call env body s =
     (case json_body body of
        Inl e \<Rightarrow> Inl e
      | Inr request \<Rightarrow>
          (case series_query (euler_of (we_nalgebra env)) s request of
             None \<Rightarrow> Inl (Internal (we_join_text env))
           | Some (Inl e) \<Rightarrow> Inl (api_of_series e)
           | Some (Inr ds) \<Rightarrow> Inr (series_response_json ds)))"

section \<open>Playback\<close>

definition playback_reply :: "'b WebEnv \<Rightarrow> playback_result \<Rightarrow> 'b Web \<Rightarrow> 'b handled" where
  "playback_reply env r w =
     (case r of
        None \<Rightarrow> None
      | Some (Inl e) \<Rightarrow> Some (Inl (api_of_playback (we_texts env) e), w)
      | Some (Inr (snap, p)) \<Rightarrow> Some (Inr (playback_json snap), set_playback p w))"

definition playback_call :: "'b WebEnv \<Rightarrow> string + PlaybackCmd \<Rightarrow> 'b Web \<Rightarrow> 'b handled" where
  "playback_call env cmd w =
     (case json_body cmd of
        Inl e \<Rightarrow> Some (Inl e, w)
      | Inr c \<Rightarrow> playback_reply env (run_playback (we_clock env) (we_replay env) (web_store w) c (web_playback w)) w)"

section \<open>Sessions and operations\<close>

definition clear_reply :: "string + bool \<Rightarrow> 'b Web \<Rightarrow> (ApiError + JsonValue) \<times> 'b Web" where
  "clear_reply body w =
     (case json_body body of
        Inl e \<Rightarrow> (Inl e, w)
      | Inr confirm \<Rightarrow>
          (case memory_clear confirm (web_core w) of
             (Inl e, m) \<Rightarrow> (Inl e, w\<lparr>web_core := m\<rparr>)
           | (Inr _, m) \<Rightarrow>
               (Inr (JObject [(''cleared'', JBool True), (''playback'', playback_json (snapshot_from_inner (mg_playback m) None))]),
                w\<lparr>web_core := m\<rparr>)))"

definition listed_session_json :: "('b \<Rightarrow> JsonValue option) \<Rightarrow> 'b DataRoot \<Rightarrow> string \<Rightarrow> JsonValue" where
  "listed_session_json parse root name = JObject
     [(''name'', JString name),
      (''metadata'', case root name of
          Some (Directory d) \<Rightarrow> json_option id (Option.bind (dir_meta d) parse)
        | _ \<Rightarrow> JNull)]"

definition stored_sessions :: "'b WebEnv \<Rightarrow> 'b DataRoot \<Rightarrow> ApiError + JsonValue" where
  "stored_sessions env root =
     (case we_read_dir env of
        Inl e \<Rightarrow> Inl (Internal e)
      | Inr entries \<Rightarrow>
          Inr (JObject [(''sessions'', json_list (listed_session_json (we_metadata env) root) (sort (filter (listed root) entries)))]))"

definition accepted_json :: "string \<Rightarrow> JsonValue" where
  "accepted_json i = JObject [(''operation_id'', JString i)]"

definition save_reply :: "'b WebEnv \<Rightarrow> string \<Rightarrow> string + bool \<Rightarrow> 'b Web \<Rightarrow> (ApiError + JsonValue) \<times> 'b Web" where
  "save_reply env name body w =
     (case validate_session_name name of
        Inl e \<Rightarrow> (Inl e, w)
      | Inr _ \<Rightarrow>
          (case json_body body of
             Inl e \<Rightarrow> (Inl e, w)
           | Inr overwrite \<Rightarrow>
               (case session_save (we_now env) (we_new_id env) name overwrite (web_core w) of
                  (r, m) \<Rightarrow> (map_sum id accepted_json r, w\<lparr>web_core := m\<rparr>))))"

definition load_reply :: "'b WebEnv \<Rightarrow> string \<Rightarrow> 'b Web \<Rightarrow> (ApiError + JsonValue) \<times> 'b Web" where
  "load_reply env name w =
     (case session_load (we_now env) (we_new_id env) name (web_core w) of
        (r, m) \<Rightarrow> (map_sum id accepted_json r, w\<lparr>web_core := m\<rparr>))"

definition operation_status :: "string \<Rightarrow> 'b Web \<Rightarrow> ApiError + JsonValue" where
  "operation_status i w =
     (case operations_get i (mg_operations (web_core w)) of
        None \<Rightarrow> Inl (NotFoundError ''operation_not_found'' ''operation not found'')
      | Some r \<Rightarrow> Inr (JObject [(''operation'', operation_json r)]))"

section \<open>Workspace\<close>

definition workspace_get :: "'b WebEnv \<Rightarrow> 'b Web \<Rightarrow> ApiError + JsonValue" where
  "workspace_get env w =
     map_sum (api_of_workspace (we_texts env)) (\<lambda>d. JObject [(''workspace'', json_option document_json d)])
       (workspace_load (we_json env) (we_read_fails env) (web_workspace w))"

definition workspace_put :: "'b WebEnv \<Rightarrow> string + WorkspaceSnapshot \<Rightarrow> 'b Web \<Rightarrow> (ApiError + JsonValue) \<times> 'b Web" where
  "workspace_put env body w =
     (case json_body body of
        Inl e \<Rightarrow> (Inl e, w)
      | Inr snapshot \<Rightarrow>
          (let r = workspace_save (we_json env) (we_now env) (we_faults env) snapshot (web_workspace w);
               w1 = w\<lparr>web_workspace := sr_store r\<rparr>
           in case sr_result r of
                Inl e \<Rightarrow> (Inl (api_of_workspace (we_texts env) e), w1)
              | Inr d \<Rightarrow> (Inr (JObject [(''workspace'', document_json d)]),
                  w1\<lparr>web_core := (web_core w1)\<lparr>mg_operations :=
                      notify_workspace_changed (wd_revision d) (mg_operations (web_core w1))\<rparr>\<rparr>)))"

section \<open>The route table\<close>

datatype HttpCall =
    GetHealth | GetStatus | GetAircraft
  | GetState string "string + f64 option"
  | GetStates string "string + RangeQuery"
  | GetEvents string "string + RangeQuery"
  | GetTimeline "string + RangeQuery"
  | GetCatalog string
  | PostQuery "string + SeriesQueryRequest"
  | GetPlayback | PostLive | PostPause
  | PostPlay "string + f64 option"
  | PostSeek "string + f64"
  | PostStep "string + PlaybackStepUnit \<times> PlaybackStepDirection \<times> nat"
  | PutSpeed "string + f64"
  | PostClear "string + bool"
  | GetSessions
  | PostSave string "string + bool"
  | PostLoad string
  | GetOperation string
  | GetWorkspace
  | PutWorkspace "string + WorkspaceSnapshot"
  | OtherRoute | OtherMethod

datatype Reply = Reply nat JsonValue | Dropped

definition respond :: "nat \<Rightarrow> (ApiError + JsonValue) \<times> 'b Web \<Rightarrow> Reply \<times> 'b Web" where
  "respond ok = (\<lambda>(r, w). (case r of Inl e \<Rightarrow> Reply (api_status e) (api_body e) | Inr v \<Rightarrow> Reply ok v, w))"

text \<open>A panicking handler drops its connection; the shared state stays as it was.\<close>

definition answer :: "'b Web \<Rightarrow> 'b handled \<Rightarrow> Reply \<times> 'b Web" where
  "answer w h = (case h of None \<Rightarrow> (Dropped, w) | Some x \<Rightarrow> respond 200 x)"

definition read_only :: "'b Web \<Rightarrow> (ApiError + JsonValue) option \<Rightarrow> Reply \<times> 'b Web" where
  "read_only w h = answer w (map_option (\<lambda>r. (r, w)) h)"

fun serve_call :: "'b WebEnv \<Rightarrow> HttpCall \<Rightarrow> 'b Web \<Rightarrow> Reply \<times> 'b Web" where
  "serve_call env GetHealth w = read_only w (Some (Inr health))"
| "serve_call env GetStatus w = answer w (status env w)"
| "serve_call env GetAircraft w = answer w (aircraft_list env w)"
| "serve_call env (GetState aid q) w = answer w (aircraft_state env aid q w)"
| "serve_call env (GetStates aid q) w = read_only w (aircraft_states (we_nalgebra env) aid q (web_store w))"
| "serve_call env (GetEvents aid q) w = read_only w (aircraft_events (we_nalgebra env) aid q (web_store w))"
| "serve_call env (GetTimeline q) w = read_only w (timeline_events (we_nalgebra env) q (web_store w))"
| "serve_call env (GetCatalog aid) w = read_only w (Some (series_catalog env aid (web_store w)))"
| "serve_call env (PostQuery body) w = read_only w (Some (series_query_call env body (web_store w)))"
| "serve_call env GetPlayback w = answer w (playback_call env (Inr CmdSnapshot) w)"
| "serve_call env PostLive w = answer w (playback_call env (Inr CmdLive) w)"
| "serve_call env PostPause w = answer w (playback_call env (Inr CmdPause) w)"
| "serve_call env (PostPlay body) w = answer w (playback_call env (map_sum id CmdPlay body) w)"
| "serve_call env (PostSeek body) w = answer w (playback_call env (map_sum id CmdSeek body) w)"
| "serve_call env (PostStep body) w = answer w (playback_call env (map_sum id (\<lambda>(u, d, n). CmdStep u d n) body) w)"
| "serve_call env (PutSpeed body) w = answer w (playback_call env (map_sum id CmdSetSpeed body) w)"
| "serve_call env (PostClear body) w = respond 200 (clear_reply body w)"
| "serve_call env GetSessions w = read_only w (Some (stored_sessions env (mg_root (web_core w))))"
| "serve_call env (PostSave name body) w = respond 202 (save_reply env name body w)"
| "serve_call env (PostLoad name) w = respond 202 (load_reply env name w)"
| "serve_call env (GetOperation i) w = read_only w (Some (operation_status i w))"
| "serve_call env GetWorkspace w = read_only w (Some (workspace_get env w))"
| "serve_call env (PutWorkspace body) w = respond 200 (workspace_put env body w)"
| "serve_call env OtherRoute w = read_only w (Some (Inl route_not_found))"
| "serve_call env OtherMethod w = read_only w (Some (Inl method_not_allowed))"

section \<open>WebSocket\<close>

fun split_commas :: "string \<Rightarrow> string list" where
  "split_commas [] = [[]]"
| "split_commas (c # cs) =
     (if c = CHR '','' then [] # split_commas cs
      else case split_commas cs of [] \<Rightarrow> [[c]] | part # parts \<Rightarrow> (c # part) # parts)"

definition requested_aircraft :: "string option \<Rightarrow> string list option" where
  "requested_aircraft q = map_option (\<lambda>v. filter (\<lambda>i. i \<noteq> []) (split_commas v)) q"

definition hello_json :: JsonValue where
  "hello_json = JObject [(''type'', JString ''hello''), (''api_version'', JString ''v1''), (''protocol_version'', JString PROTOCOL_VERSION)]"

definition read_only_error :: JsonValue where
  "read_only_error = JObject [(''type'', JString ''error''), (''code'', JString ''websocket_read_only''),
     (''message'', JString ''playback commands must use the REST API'')]"

definition ws_ids :: "string list option \<Rightarrow> TimeSeriesStore \<Rightarrow> string list" where
  "ws_ids requested s = (case requested of None \<Rightarrow> get_aircraft_ids s | Some ids \<Rightarrow> ids)"

definition ws_entry :: "Nalgebra \<Rightarrow> PlaybackSnapshot \<Rightarrow> TimeSeriesStore \<Rightarrow> string \<Rightarrow> JsonValue option" where
  "ws_entry na snap s aid = map_option (\<lambda>r. JObject
       [(''spawned'', JBool (rs_spawned r)), (''sample'', timestamped_state_json na (rs_sample r))])
     (resolve_aircraft_with snap aid s)"

text \<open>The entries are collected into a map: an aircraft requested twice has one entry.\<close>

definition ws_aircraft :: "Nalgebra \<Rightarrow> PlaybackSnapshot \<Rightarrow> TimeSeriesStore \<Rightarrow> string list \<Rightarrow> (string \<times> JsonValue) list" where
  "ws_aircraft na snap s ids = List.map_filter (\<lambda>aid. map_option (Pair aid) (ws_entry na snap s aid)) (remdups ids)"

definition websocket_snapshot :: "'b WebEnv \<Rightarrow> string list option \<Rightarrow> u64 \<Rightarrow> 'b Web \<Rightarrow> (JsonValue \<times> 'b Web) option" where
  "websocket_snapshot env requested sequence w =
     (let ids = ws_ids requested (web_store w) in
      case playback_snapshot (we_clock env) (web_store w) (web_playback w) of
        Some (Inr (snap, p)) \<Rightarrow> Some (JObject
          [(''type'', JString ''snapshot''), (''sequence'', json_u64 sequence), (''server_time_secs'', json_f64 (we_now env)),
           (''playback'', playback_json snap), (''store'', store_stats_json (web_store w)),
           (''aircraft'', JObject (ws_aircraft (we_nalgebra env) snap (web_store w) (take MAX_WS_AIRCRAFT ids))),
           (''truncated'', JBool (MAX_WS_AIRCRAFT < length ids))], set_playback p w)
      | _ \<Rightarrow> None)"

datatype WsInput = WsTick | WsNotified "Notification option" | WsPing | WsPong | WsText string | WsBinary "u8 list"
  | WsClose | WsBroken | WsShutdown

datatype WsOutput = WsJson JsonValue | WsPongReply

datatype WsNext = WsContinue | WsStopped | WsPanicked

record 'b WsState =
  wl_sequence :: u64
  wl_web :: "'b Web"
  wl_sent :: "WsOutput list"

text \<open>A send succeeds or ends the loop; what failed was not sent.\<close>

definition ws_send :: "bool \<Rightarrow> WsOutput \<Rightarrow> 'b WsState \<Rightarrow> WsNext \<times> 'b WsState" where
  "ws_send sends out st = (if sends then (WsContinue, st\<lparr>wl_sent := wl_sent st @ [out]\<rparr>) else (WsStopped, st))"

definition ws_step :: "'b WebEnv \<Rightarrow> string list option \<Rightarrow> WsInput \<times> bool \<Rightarrow> 'b WsState \<Rightarrow> WsNext \<times> 'b WsState" where
  "ws_step env requested = (\<lambda>(input, sends) st.
     case input of
       WsTick \<Rightarrow>
         (let n = wl_sequence st + 1 in
          case websocket_snapshot env requested n (wl_web st) of
            None \<Rightarrow> (WsPanicked, st)
          | Some (v, w) \<Rightarrow> ws_send sends (WsJson v) (st\<lparr>wl_sequence := n, wl_web := w\<rparr>))
     | WsNotified None \<Rightarrow> (WsContinue, st)
     | WsNotified (Some n) \<Rightarrow> ws_send sends (WsJson (notification_json n)) st
     | WsPing \<Rightarrow> ws_send sends WsPongReply st
     | WsPong \<Rightarrow> (WsContinue, st)
     | WsText _ \<Rightarrow> ws_send sends (WsJson read_only_error) st
     | WsBinary _ \<Rightarrow> ws_send sends (WsJson read_only_error) st
     | _ \<Rightarrow> (WsStopped, st))"

text \<open>The loop over what the selection yields, each with its clock readings and the outcome of its send.\<close>

fun ws_loop :: "string list option \<Rightarrow> ('b WebEnv \<times> WsInput \<times> bool) list \<Rightarrow> 'b WsState \<Rightarrow> WsNext \<times> 'b WsState" where
  "ws_loop requested [] st = (WsContinue, st)"
| "ws_loop requested ((env, x) # xs) st =
     (case ws_step env requested x st of
        (WsContinue, st') \<Rightarrow> ws_loop requested xs st'
      | (stop, st') \<Rightarrow> (stop, st'))"

text \<open>A tick interval that does not fit a \<open>Duration\<close>, or a zero one, panics after the greeting.\<close>

definition websocket_loop ::
  "f64 \<Rightarrow> bool \<Rightarrow> string list option \<Rightarrow> ('b WebEnv \<times> WsInput \<times> bool) list \<Rightarrow> 'b Web \<Rightarrow> WsNext \<times> 'b WsState" where
  "websocket_loop websocket_hz greets requested inputs w =
     (case ws_send greets (WsJson hello_json) \<lparr>wl_sequence = 0, wl_web = w, wl_sent = []\<rparr> of
        (WsContinue, st) \<Rightarrow>
          (case from_secs_f64 (fdiv f_one websocket_hz) of
             None \<Rightarrow> (WsPanicked, st)
           | Some period \<Rightarrow> if period = 0 then (WsPanicked, st) else ws_loop requested inputs st)
      | (stop, st) \<Rightarrow> (stop, st))"

end
