(* ===== verification/Web_Server.thy ===== *)
theory Web_Server
  imports Routes Runtime_Config
begin

text \<open>
  Starting the management server (\<open>core/src/management/server.rs\<close>): the validation of its
  configuration, the Web console's index page with the injected runtime configuration, the router
  around the API and the start itself. The HTTP library, the file system and the JSON printer are
  parameters.
\<close>

datatype ManagementError = MgIo string | MgInvalidConfig string

section \<open>Validation\<close>

definition starts_with :: "string \<Rightarrow> string \<Rightarrow> bool" where
  "starts_with prefix s \<longleftrightarrow> take (length prefix) s = prefix"

definition validate_public_url :: "string option \<Rightarrow> string list \<Rightarrow> string \<Rightarrow> ManagementError + unit" where
  "validate_public_url value prefixes field =
     (case value of
        None \<Rightarrow> Inr ()
      | Some v \<Rightarrow>
          let valid_prefix = list_ex (\<lambda>p. starts_with p v \<and> (p \<noteq> ''/'' \<or> \<not> starts_with ''//'' v)) prefixes in
          if v = [] \<or> \<not> valid_prefix
          then Inl (MgInvalidConfig (field @ '' must be an absolute URL or a root-relative path''))
          else Inr ())"

definition validate_management_config :: "ManagementConfig \<Rightarrow> ManagementError + unit" where
  "validate_management_config c =
     (if \<not> is_finite (websocket_hz c) \<or> fle (websocket_hz c) f_zero
      then Inl (MgInvalidConfig ''websocket_hz must be finite and greater than zero'')
      else case validate_public_url (public_api_base_url c) [''http://'', ''https://'', ''/''] ''public_api_base_url'' of
        Inl e \<Rightarrow> Inl e
      | Inr _ \<Rightarrow> validate_public_url (public_websocket_url c) [''ws://'', ''wss://'', ''/''] ''public_websocket_url'')"

section \<open>The index page\<close>

definition WEB_CONFIG_SENTINEL :: string where
  "WEB_CONFIG_SENTINEL = ''__FLY_RULER_RUNTIME_CONFIG__''"

text \<open>\<open>str::replace\<close> with a non-empty pattern.\<close>

function replace_all :: "string \<Rightarrow> string \<Rightarrow> string \<Rightarrow> string" where
  "replace_all p r s =
     (if s = [] then []
      else if p \<noteq> [] \<and> starts_with p s then r @ replace_all p r (drop (length p) s)
      else hd s # replace_all p r (tl s))"
  by pat_completeness auto

termination by (relation "measure (\<lambda>(p, r, s). length s)") (auto simp: neq_Nil_conv)

declare replace_all.simps [simp del]

definition escape_markup :: "string \<Rightarrow> string" where
  "escape_markup s = concat (map (\<lambda>c. if c = CHR ''<'' then CHR 0x5C # ''u003c'' else if c = CHR ''>'' then CHR 0x5C # ''u003e''
     else if c = CHR ''&'' then CHR 0x5C # ''u0026'' else [c]) s)"

definition web_runtime_json :: "ManagementConfig \<Rightarrow> JsonValue" where
  "web_runtime_json c = JObject
     [(''api_base_url'', JString (unwrap_or (public_api_base_url c) ''/api/v1'')),
      (''websocket_url'', JString (unwrap_or (public_websocket_url c) ''/api/v1/ws''))]"

text \<open>
  \<open>index root\<close> is what \<open>root/index.html\<close> is: no regular file (\<open>None\<close>), one that cannot be read, or its
  text.
\<close>

definition load_rendered_web_index ::
  "(JsonValue \<Rightarrow> string) \<Rightarrow> (string \<Rightarrow> (string + string) option) \<Rightarrow> ManagementConfig
   \<Rightarrow> ManagementError + (string \<times> string) option" where
  "load_rendered_web_index to_string index c =
     (case web_root c of
        None \<Rightarrow> Inr None
      | Some root \<Rightarrow>
          (case index root of
             None \<Rightarrow> Inr None
           | Some (Inl e) \<Rightarrow> Inl (MgIo e)
           | Some (Inr source) \<Rightarrow>
               if \<not> contains WEB_CONFIG_SENTINEL source
               then Inl (MgInvalidConfig (root @ ''/index.html does not contain the runtime configuration placeholder''))
               else Inr (Some (root, replace_all WEB_CONFIG_SENTINEL (escape_markup (to_string (web_runtime_json c))) source))))"

section \<open>The router\<close>

record WebApp =
  wa_origins :: "string list"
  wa_index :: "(string \<times> string) option"

text \<open>
  The origins must be header values; the CORS layer panics on a list it cannot take. Both are
  library code.
\<close>

definition configured_router ::
  "(string \<Rightarrow> bool) \<Rightarrow> (string list \<Rightarrow> bool) \<Rightarrow> (JsonValue \<Rightarrow> string) \<Rightarrow> (string \<Rightarrow> (string + string) option)
   \<Rightarrow> ManagementConfig \<Rightarrow> (ManagementError + WebApp) option" where
  "configured_router header_value origin_list to_string index c =
     (case find (\<lambda>origin. \<not> header_value origin) (cors_origins c) of
        Some origin \<Rightarrow> Some (Inl (MgInvalidConfig (''invalid CORS origin: '' @ origin)))
      | None \<Rightarrow>
          if \<not> origin_list (cors_origins c) then None
          else Some (map_sum id (\<lambda>web. \<lparr>wa_origins = cors_origins c, wa_index = web\<rparr>) (load_rendered_web_index to_string index c)))"

text \<open>What a path outside the API's routes gets: the page, a file of the web root, or an error.\<close>

datatype WebAnswer = Page string | StaticFile string | ApiAnswer ApiError

definition web_answer :: "(string \<Rightarrow> string \<Rightarrow> string option) \<Rightarrow> WebApp \<Rightarrow> string \<Rightarrow> WebAnswer" where
  "web_answer static app path =
     (if path = ''/api'' \<or> starts_with ''/api/'' path then ApiAnswer route_not_found
      else case wa_index app of
        None \<Rightarrow> ApiAnswer route_not_found
      | Some (root, page) \<Rightarrow>
          if path = ''/'' \<or> path = ''/index.html'' then Page page
          else (case static root path of None \<Rightarrow> Page page | Some file \<Rightarrow> StaticFile file))"

section \<open>Starting\<close>

record HostSystem =
  hs_platform :: Platform
  hs_canonicalize :: "string \<Rightarrow> string option"
  hs_create_dir :: "string \<Rightarrow> string option"
  hs_bind :: "string \<Rightarrow> string + string"
  hs_header_value :: "string \<Rightarrow> bool"
  hs_origin_list :: "string list \<Rightarrow> bool"
  hs_to_string :: "JsonValue \<Rightarrow> string"
  hs_index :: "string \<Rightarrow> (string + string) option"

definition resolve_data_root :: "HostSystem \<Rightarrow> string \<Rightarrow> ManagementError + string" where
  "resolve_data_root os root =
     (case (if is_absolute (hs_platform os) root then Inr root
            else map_sum id (\<lambda>cwd. join (hs_platform os) cwd root) (current_dir (hs_platform os))) of
        Inl e \<Rightarrow> Inl (MgIo e)
      | Inr path \<Rightarrow> Inr (unwrap_or (hs_canonicalize os path) path))"

record ManagementServer =
  ms_local_addr :: string
  ms_data_root :: string
  ms_app :: WebApp

definition management_start :: "HostSystem \<Rightarrow> string \<Rightarrow> ManagementConfig \<Rightarrow> (ManagementError + ManagementServer) option" where
  "management_start os addr c =
     (case validate_management_config c of
        Inl e \<Rightarrow> Some (Inl e)
      | Inr _ \<Rightarrow>
          (case resolve_data_root os (data_root c) of
             Inl e \<Rightarrow> Some (Inl e)
           | Inr root \<Rightarrow>
               (case hs_create_dir os root of
                  Some e \<Rightarrow> Some (Inl (MgIo e))
                | None \<Rightarrow>
                    (case hs_bind os addr of
                       Inl e \<Rightarrow> Some (Inl (MgIo e))
                     | Inr local \<Rightarrow>
                         map_option (map_sum id (\<lambda>app. \<lparr>ms_local_addr = local, ms_data_root = root, ms_app = app\<rparr>))
                           (configured_router (hs_header_value os) (hs_origin_list os) (hs_to_string os) (hs_index os)
                              (c\<lparr>data_root := root\<rparr>))))))"

end
