(* ===== verification/Kernel.thy ===== *)
theory Kernel
  imports Web_Server Store_Persist
begin

text \<open>
  The kernel (\<open>core/src/kernel.rs\<close>): it owns the store, the playback controller and the runtimes, and
  starts and stops them. The tasks that run in the process are part of the state: the receive loops
  with their bound address, and the cursor publishers. A runtime handle is the number of its task.
  A loop ends only when its handle is stopped or when it breaks; dropping a handle does not end it.
\<close>

section \<open>State\<close>

record UdpTask =
  ut_addr :: string
  ut_loop :: ServerLoop

record Kernel =
  kn_store :: TimeSeriesStore
  kn_config :: RuntimeConfig
  kn_playback :: PlaybackInner
  kn_enabled :: bool
  kn_dropped :: u64
  kn_sessions :: "nat option"
  kn_udp :: "nat option"
  kn_cursor :: "nat option"
  kn_management :: "ManagementServer option"
  kn_loops :: "(nat \<times> UdpTask) list"
  kn_publishers :: "nat list"
  kn_next :: nat

datatype RuntimeError = TransportFailed TransportError | StoreFailed StoreError | ManagementFailed ManagementError

definition kernel_with_config :: "TimeSeriesStore \<Rightarrow> RuntimeConfig \<Rightarrow> Kernel" where
  "kernel_with_config s cfg =
     \<lparr>kn_store = s, kn_config = cfg, kn_playback = playback_new (rc_replay cfg), kn_enabled = True, kn_dropped = 0,
      kn_sessions = None, kn_udp = None, kn_cursor = None, kn_management = None, kn_loops = [], kn_publishers = [], kn_next = 0\<rparr>"

definition kernel_new :: "TimeSeriesStore \<Rightarrow> Kernel" where
  "kernel_new s = kernel_with_config s runtime_config_default"

section \<open>The UDP server\<close>

text \<open>
  \<open>bind addr bound\<close>: the local address, given the addresses in use. A socket is in use while its loop
  runs or the kernel's runtime holds it.
\<close>

type_synonym bind_socket = "string \<Rightarrow> string list \<Rightarrow> TransportError + string"

definition bound_addresses :: "Kernel \<Rightarrow> string list" where
  "bound_addresses k = map (ut_addr \<circ> snd) (filter (\<lambda>(n, t). running (ut_loop t) \<or> kn_udp k = Some n) (kn_loops k))"

definition server_runtime_start :: "bind_socket \<Rightarrow> string \<Rightarrow> Kernel \<Rightarrow> (TransportError + nat) \<times> Kernel" where
  "server_runtime_start bind addr k =
     (case bind addr (bound_addresses k) of
        Inl e \<Rightarrow> (Inl e, k)
      | Inr local \<Rightarrow>
          (Inr (kn_next k), k\<lparr>kn_loops := kn_loops k @ [(kn_next k, \<lparr>ut_addr = local, ut_loop = server_new\<rparr>)],
             kn_next := kn_next k + 1\<rparr>))"

definition cursor_runtime_start :: "nat \<Rightarrow> Kernel \<Rightarrow> (TransportError + nat) \<times> Kernel" where
  "cursor_runtime_start server k =
     (case validate_stream_config (rc_cursor_stream (kn_config k)) of
        Inl e \<Rightarrow> (Inl e, k)
      | Inr _ \<Rightarrow> (Inr server, k\<lparr>kn_publishers := kn_publishers k @ [server]\<rparr>))"

definition stop_server :: "Kernel \<Rightarrow> Kernel" where
  "stop_server k =
     (let k1 = (case kn_cursor k of None \<Rightarrow> k
          | Some n \<Rightarrow> k\<lparr>kn_cursor := None, kn_publishers := filter (\<lambda>p. p \<noteq> n) (kn_publishers k)\<rparr>);
          k2 = (case kn_udp k1 of None \<Rightarrow> k1
          | Some n \<Rightarrow> k1\<lparr>kn_udp := None, kn_loops := al_del n (kn_loops k1)\<rparr>)
      in k2\<lparr>kn_sessions := None\<rparr>)"

definition start_server :: "bind_socket \<Rightarrow> string \<Rightarrow> Kernel \<Rightarrow> (RuntimeError + unit) \<times> Kernel" where
  "start_server bind addr k =
     (let k1 = (if kn_udp k \<noteq> None then stop_server k else k) in
      case server_runtime_start bind addr k1 of
        (Inl e, k2) \<Rightarrow> (Inl (TransportFailed e), k2)
      | (Inr n, k2) \<Rightarrow>
          (case cursor_runtime_start n k2 of
             (Inl e, k3) \<Rightarrow> (Inl (TransportFailed e), k3)
           | (Inr p, k3) \<Rightarrow> (Inr (), k3\<lparr>kn_sessions := Some n, kn_udp := Some n, kn_cursor := Some p\<rparr>)))"

definition kernel_active_sessions :: "Kernel \<Rightarrow> Session list" where
  "kernel_active_sessions k =
     (case Option.bind (kn_udp k) (map_of (kn_loops k)) of None \<Rightarrow> [] | Some t \<Rightarrow> session_list (sessions (ut_loop t)))"

definition udp_local_addr :: "Kernel \<Rightarrow> RuntimeError + string" where
  "udp_local_addr k =
     (case Option.bind (kn_udp k) (map_of (kn_loops k)) of
        None \<Rightarrow> Inl (TransportFailed (InvalidMessage ''udp server is not running''))
      | Some t \<Rightarrow> Inr (ut_addr t))"

text \<open>
  One datagram at the socket of a loop: the loop's own step, and the handler for every message it
  handles, which appends the message under the ingestion gate or counts it as dropped.
\<close>

definition handle_message :: "instant \<Rightarrow> Message \<Rightarrow> Kernel \<Rightarrow> Kernel" where
  "handle_message now msg k =
     (if kn_enabled k then k\<lparr>kn_store := append_message now msg (kn_store k)\<rparr> else k\<lparr>kn_dropped := kn_dropped k + 1\<rparr>)"

definition kernel_datagram ::
  "(u8 list \<Rightarrow> Message option) \<Rightarrow> (nat \<Rightarrow> clocks) \<Rightarrow> nat \<Rightarrow> SocketAddr \<Rightarrow> u8 list \<Rightarrow> Kernel \<Rightarrow> Kernel" where
  "kernel_datagram dec clk n addr bytes k =
     (case map_of (kn_loops k) n of
        None \<Rightarrow> k
      | Some t \<Rightarrow>
          (let timeout = unat (heartbeat_timeout_secs (rc_transport (kn_config k))) * nanos_per_sec;
               sv = serve_datagram dec timeout clk addr bytes (ut_loop t)
           in fold (\<lambda>(msg, _). handle_message (snd (clk 3)) msg) (drop (length (handled (ut_loop t))) (handled sv))
                (k\<lparr>kn_loops := al_put n (t\<lparr>ut_loop := sv\<rparr>) (kn_loops k)\<rparr>)))"

section \<open>The management server\<close>

definition stop_management_server :: "Kernel \<Rightarrow> Kernel" where
  "stop_management_server k = k\<lparr>kn_management := None\<rparr>"

text \<open>\<open>None\<close>: the router panics.\<close>

definition start_management_server :: "HostSystem \<Rightarrow> string \<Rightarrow> Kernel \<Rightarrow> ((RuntimeError + unit) \<times> Kernel) option" where
  "start_management_server os addr k =
     (let k1 = (if kn_management k \<noteq> None then stop_management_server k else k) in
      case management_start os addr (rc_management (kn_config k1)) of
        None \<Rightarrow> None
      | Some (Inl e) \<Rightarrow> Some (Inl (ManagementFailed e), k1)
      | Some (Inr m) \<Rightarrow> Some (Inr (), k1\<lparr>kn_management := Some m\<rparr>))"

definition management_local_addr :: "Kernel \<Rightarrow> RuntimeError + string" where
  "management_local_addr k =
     (case kn_management k of
        None \<Rightarrow> Inl (ManagementFailed (MgInvalidConfig ''management server is not running''))
      | Some m \<Rightarrow> Inr (ms_local_addr m))"

section \<open>Sessions on disk\<close>

text \<open>\<open>io\<close>: the error of writing the snapshot, if any.\<close>

definition kernel_save_session :: "'b Codec \<Rightarrow> StoreError option \<Rightarrow> Kernel \<Rightarrow> RuntimeError + 'b SessionDir" where
  "kernel_save_session c io k =
     (case io of Some e \<Rightarrow> Inl (StoreFailed e) | None \<Rightarrow> Inr (save_to_disk c (snapshot_clone (kn_store k))))"

definition played :: "playback_result \<Rightarrow> PlaybackInner \<Rightarrow> PlaybackInner" where
  "played r p = (case r of Some (Inr (_, p')) \<Rightarrow> p' | _ \<Rightarrow> p)"

definition kernel_load_session :: "'b Codec \<Rightarrow> 'b SessionDir \<Rightarrow> Kernel \<Rightarrow> (RuntimeError + unit) \<times> Kernel" where
  "kernel_load_session c d k =
     (case load_from_disk c d store_new of
        Inl e \<Rightarrow> (Inl (StoreFailed e), k)
      | Inr loaded \<Rightarrow>
          (let s = replace_from loaded (kn_store k) in
           (Inr (), k\<lparr>kn_store := s, kn_playback := played (playback_reset_after_load s (kn_playback k)) (kn_playback k)\<rparr>)))"

definition kernel_clear_session :: "Kernel \<Rightarrow> Kernel" where
  "kernel_clear_session k =
     k\<lparr>kn_store := clear_store (kn_store k), kn_playback := played (playback_reset_empty (kn_playback k)) (kn_playback k)\<rparr>"

section \<open>Steps\<close>

inductive kernel_step :: "Kernel \<Rightarrow> Kernel \<Rightarrow> bool" where
  start: "kernel_step k (snd (start_server bind addr k))"
| stop: "kernel_step k (stop_server k)"
| start_management: "start_management_server os addr k = Some (r, k') \<Longrightarrow> kernel_step k k'"
| stop_management: "kernel_step k (stop_management_server k)"
| datagram: "kernel_step k (kernel_datagram dec clk n addr bytes k)"
| load: "kernel_step k (snd (kernel_load_session (c :: nat Codec) d k))"
| clear: "kernel_step k (kernel_clear_session k)"
| control: "kernel_step k (k\<lparr>kn_playback := p\<rparr>)"
| gate: "kernel_step k (k\<lparr>kn_enabled := b\<rparr>)"

inductive kernel_reachable :: "RuntimeConfig \<Rightarrow> Kernel \<Rightarrow> bool" for cfg where
  new: "kernel_reachable cfg (kernel_with_config s cfg)"
| step: "kernel_reachable cfg k \<Longrightarrow> kernel_step k k' \<Longrightarrow> kernel_reachable cfg k'"

end
