(* ===== verification/Bridge_Loop.thy ===== *)
theory Bridge_Loop
  imports Ai_Registry Bridge_Config Kernel
begin

text \<open>
  The main loop of the flight simulator bridge (\<open>bindings/msfs/src/bridge.rs\<close>): starting the kernel,
  connecting to the simulator, and one turn of the inner loop after the other until the connection
  is lost or the program is told to stop. What the other threads change between the turns is the
  input of a turn: the store, the playback snapshot and the clock readings. Logging is left out.
\<close>

section \<open>A turn\<close>

record LoopTurn =
  lt_store :: TimeSeriesStore
  lt_playback :: PlaybackSnapshot
  lt_start :: instant
  lt_clock :: "nat \<Rightarrow> instant"
  lt_elapsed :: duration

record BridgeLoop =
  bl_user :: AircraftRuntime
  bl_ai :: AiRegistry
  bl_selected :: "string option"
  bl_simulator :: SimConnectClient

definition bridge_loop_new :: "BridgeConfig \<Rightarrow> instant \<Rightarrow> SimConnectClient \<Rightarrow> BridgeLoop" where
  "bridge_loop_new cfg now st =
     \<lparr>bl_user = runtime_new session_user (bc_smoothing cfg) now, bl_ai = ai_registry_new, bl_selected = None, bl_simulator = st\<rparr>"

text \<open>How a turn ends: another one follows, the connection is given up, or the thread panics.\<close>

datatype TurnEnd = NextTurn | Reconnect | Panicked

definition end_of_fault :: "SimFault \<Rightarrow> TurnEnd" where
  "end_of_fault e = (case e of SimError _ \<Rightarrow> Reconnect | SimPanic \<Rightarrow> Panicked)"

definition release_user :: "SimLib \<Rightarrow> BridgeLoop \<Rightarrow> BridgeLoop" where
  "release_user lib b =
     (case on_session (session_release lib) (bl_user b, bl_simulator b) of
        (_, (rt, st)) \<Rightarrow> b\<lparr>bl_user := rt, bl_simulator := st\<rparr>)"

text \<open>The selected aircraft is no longer spawned at the cursor, or has no state there.\<close>

definition despawned :: "LoopTurn \<Rightarrow> string \<Rightarrow> bool" where
  "despawned t aid \<longleftrightarrow>
     (case resolve_aircraft_with (lt_playback t) aid (lt_store t) of None \<Rightarrow> True | Some r \<Rightarrow> \<not> rs_spawned r)"

definition drop_despawned :: "SimLib \<Rightarrow> LoopTurn \<Rightarrow> BridgeLoop \<Rightarrow> BridgeLoop" where
  "drop_despawned lib t b =
     (case bl_selected b of
        None \<Rightarrow> b
      | Some aid \<Rightarrow>
          if \<not> despawned t aid then b
          else let b' = release_user lib b
            in b'\<lparr>bl_selected := None, bl_user := reset_timeline_state (lt_clock t 0) (bl_user b')\<rparr>)"

definition loop_cursor :: "LoopTurn \<Rightarrow> f64" where
  "loop_cursor t = (case snap_cursor (lt_playback t) of None \<Rightarrow> f_neg_infinity | Some c \<Rightarrow> c)"

definition select_user :: "BridgeConfig \<Rightarrow> LoopTurn \<Rightarrow> BridgeLoop \<Rightarrow> BridgeLoop" where
  "select_user cfg t b =
     (if bl_selected b \<noteq> None then b
      else case select_aircraft_at (lt_store t) (bc_aircraft_id cfg) (loop_cursor t) of
          None \<Rightarrow> b
        | Some aid \<Rightarrow> b\<lparr>bl_selected := Some aid, bl_user := reset_timeline_state (lt_clock t 1) (bl_user b)\<rparr>)"

definition process_user :: "SimLib \<Rightarrow> Nalgebra \<Rightarrow> BridgeConfig \<Rightarrow> LoopTurn \<Rightarrow> BridgeLoop \<Rightarrow> TurnEnd \<times> BridgeLoop" where
  "process_user lib na cfg t b =
     (case bl_selected b of
        None \<Rightarrow> (NextTurn, b)
      | Some aid \<Rightarrow>
          (case process lib na (lt_store t) (lt_playback t) aid (\<lambda>n. lt_clock t (2 + n)) (lt_start t)
                  (from_millis (bc_stale_timeout_ms cfg)) (sm_mode (bc_smoothing cfg)) (bl_user b, bl_simulator b) of
             (r, (rt, st)) \<Rightarrow> (case r of Inl e \<Rightarrow> end_of_fault e | Inr _ \<Rightarrow> NextTurn, b\<lparr>bl_user := rt, bl_simulator := st\<rparr>)))"

definition ai_settings :: "BridgeConfig \<Rightarrow> LoopTurn \<Rightarrow> string option \<Rightarrow> AiSettings" where
  "ai_settings cfg t user =
     \<lparr>ais_user_aircraft = user, ais_title = bc_ai_aircraft_title cfg, ais_max = bc_max_ai_aircraft cfg,
      ais_smoothing = bc_smoothing cfg, ais_loop_start = lt_start t,
      ais_stale_timeout = from_millis (bc_stale_timeout_ms cfg), ais_mode = sm_mode (bc_smoothing cfg)\<rparr>"

definition process_ai :: "SimLib \<Rightarrow> Nalgebra \<Rightarrow> BridgeConfig \<Rightarrow> LoopTurn \<Rightarrow> BridgeLoop \<Rightarrow> TurnEnd \<times> BridgeLoop" where
  "process_ai lib na cfg t b =
     (if bc_enable_ai_aircraft cfg
      then (case ai_update lib na (lt_store t) (lt_playback t) (ai_settings cfg t (bl_selected b))
                   (\<lambda>n. lt_clock t (6 + n)) (bl_ai b, bl_simulator b) of
              (r, (reg, st)) \<Rightarrow> (case r of Inl e \<Rightarrow> end_of_fault e | Inr _ \<Rightarrow> NextTurn, b\<lparr>bl_ai := reg, bl_simulator := st\<rparr>))
      else (case ai_clear lib (bl_ai b, bl_simulator b) of
              (reg, st) \<Rightarrow> (NextTurn, b\<lparr>bl_ai := reg, bl_simulator := st\<rparr>)))"

text \<open>\<open>None\<close>: the simulator's messages never end, and \<open>pump\<close> does not return.\<close>

definition bridge_turn ::
  "SimLib \<Rightarrow> Nalgebra \<Rightarrow> BridgeConfig \<Rightarrow> duration \<Rightarrow> LoopTurn \<Rightarrow> BridgeLoop \<Rightarrow> (TurnEnd \<times> BridgeLoop) option" where
  "bridge_turn lib na cfg tick t b =
     (case pump lib (bl_simulator b) of
        None \<Rightarrow> None
      | Some (Inl e, st) \<Rightarrow> Some (end_of_fault e, b\<lparr>bl_simulator := st\<rparr>)
      | Some (Inr _, st) \<Rightarrow>
          (case process_user lib na cfg t (select_user cfg t (drop_despawned lib t (b\<lparr>bl_simulator := st\<rparr>))) of
             (NextTurn, b1) \<Rightarrow>
               (case process_ai lib na cfg t b1 of
                  (NextTurn, b2) \<Rightarrow>
                    Some (NextTurn, b2\<lparr>bl_simulator := sim_sleep lib (tick - lt_elapsed t) (bl_simulator b2)\<rparr>)
                | ended \<Rightarrow> Some ended)
           | ended \<Rightarrow> Some ended))"

section \<open>A connection\<close>

text \<open>The turns until one does not continue, or until the program is told to stop.\<close>

fun bridge_turns ::
  "SimLib \<Rightarrow> Nalgebra \<Rightarrow> BridgeConfig \<Rightarrow> duration \<Rightarrow> LoopTurn list \<Rightarrow> BridgeLoop \<Rightarrow> (TurnEnd \<times> BridgeLoop) option" where
  "bridge_turns lib na cfg tick [] b = Some (NextTurn, b)"
| "bridge_turns lib na cfg tick (t # ts) b =
     (case bridge_turn lib na cfg tick t b of
        Some (NextTurn, b') \<Rightarrow> bridge_turns lib na cfg tick ts b'
      | ended \<Rightarrow> ended)"

text \<open>
  After the loop the AI aircraft are removed and the user aircraft is released; a panic skips both.
  The client is dropped either way.
\<close>

definition bridge_close :: "SimLib \<Rightarrow> TurnEnd \<Rightarrow> BridgeLoop \<Rightarrow> SimConnectClient" where
  "bridge_close lib ended b =
     (if ended = Panicked then sim_drop lib (bl_simulator b)
      else case ai_clear lib (bl_ai b, bl_simulator b) of
        (reg, st) \<Rightarrow> sim_drop lib (bl_simulator (release_user lib (b\<lparr>bl_ai := reg, bl_simulator := st\<rparr>))))"

record ConnectionInput =
  ci_now :: instant
  ci_turns :: "LoopTurn list"

text \<open>One pass of the outer loop: whether the thread is still alive, and the calls made so far.\<close>

definition bridge_connection ::
  "SimLib \<Rightarrow> Nalgebra \<Rightarrow> BridgeConfig \<Rightarrow> duration \<Rightarrow> ConnectionInput \<Rightarrow> SimCall list \<Rightarrow> (bool \<times> SimCall list) option" where
  "bridge_connection lib na cfg tick i hist =
     (case sim_connect lib (ci_now i) hist of
        Inl (e, h) \<Rightarrow> Some (e \<noteq> SimPanic, h)
      | Inr st \<Rightarrow>
          map_option (\<lambda>(ended, b). (ended \<noteq> Panicked, sim_history (bridge_close lib ended b)))
            (bridge_turns lib na cfg tick (ci_turns i) (bridge_loop_new cfg (sim_now st) st)))"

fun bridge_run ::
  "SimLib \<Rightarrow> Nalgebra \<Rightarrow> BridgeConfig \<Rightarrow> duration \<Rightarrow> ConnectionInput list \<Rightarrow> SimCall list \<Rightarrow> (bool \<times> SimCall list) option" where
  "bridge_run lib na cfg tick [] hist = Some (True, hist)"
| "bridge_run lib na cfg tick (i # is) hist =
     (case bridge_connection lib na cfg tick i hist of
        Some (True, h) \<Rightarrow> bridge_run lib na cfg tick is h
      | ended \<Rightarrow> ended)"

section \<open>Starting and stopping\<close>

text \<open>
  The kernel with its servers and the length of a tick; an error ends the program. \<open>None\<close> is a
  panic: of the router, or of a render rate so small that a tick does not fit a \<open>Duration\<close>.
\<close>

definition bridge_start ::
  "bind_socket \<Rightarrow> HostSystem \<Rightarrow> BridgeConfig \<Rightarrow> (RuntimeError + Kernel \<times> duration) option" where
  "bridge_start bind os cfg =
     (case start_server bind (bc_listen cfg) (kernel_with_config store_new (bc_runtime cfg)) of
        (Inl e, _) \<Rightarrow> Some (Inl e)
      | (Inr _, k) \<Rightarrow>
          (case (if bc_management_enabled cfg then start_management_server os (bc_http_listen cfg) k else Some (Inr (), k)) of
             None \<Rightarrow> None
           | Some (Inl e, _) \<Rightarrow> Some (Inl e)
           | Some (Inr _, k') \<Rightarrow>
               map_option (\<lambda>tick. Inr (k', tick)) (from_secs_f64 (fdiv f_one (bc_render_hz cfg)))))"

definition bridge_stop :: "Kernel \<Rightarrow> Kernel" where
  "bridge_stop k = stop_server (stop_management_server k)"

end
