(* ===== verification/Simconnect_Properties.thy ===== *)
theory Simconnect_Properties
  imports Simconnect_Client
begin

text \<open>
  Properties of the simulator connection: how often a failed connection attempt closes its handle,
  what dropping the client restores, how many times the two initial reads poll, and when \<open>pump\<close>
  returns.
\<close>

section \<open>A failed connection attempt\<close>

definition closes :: "SimCall list \<Rightarrow> nat" where
  "closes h = length (filter (\<lambda>c. c = FClose) h)"

lemma closes_simps [simp]: "closes [] = 0" "closes (h @ h') = closes h + closes h'"
  "closes (c # h) = (if c = FClose then 1 else 0) + closes h"
  by (simp_all add: closes_def)

definition still_open :: "nat \<Rightarrow> SimConnectClient \<Rightarrow> bool" where
  "still_open n st \<longleftrightarrow> closes (sim_history st) = n \<and> \<not> acquired_freeze st"

lemma call_still_open: "c \<noteq> FClose \<Longrightarrow> keeps (still_open n) (sim_call lib op c)"
  by (simp add: keeps_def still_open_def sim_call_def)

lemma configure_still_open: "keeps (still_open n) (configure lib)"
  unfolding configure_def add_definition_def
  by (intro keeps_then keeps_each) (auto intro: call_still_open split: prod.split)

lemma await_kept:
  assumes poll: "\<And>st. Q st \<Longrightarrow> Q (st\<lparr>sim_history := sim_history st @ [FGetNextDispatch]\<rparr>)"
    and sleep: "\<And>d st. Q st \<Longrightarrow> Q (sim_sleep lib d st)"
  shows "Q st \<Longrightarrow> Q (snd (await_dispatch lib f deadline st))"
  using sleep
proof (induction lib f deadline st rule: await_dispatch.induct)
  case (1 lib f deadline st)
  show ?case
  proof (cases "sim_now st < deadline")
    case True
    obtain r st' where n: "next_dispatch lib st = (r, st')" by fastforce
    then have "Q st'" using poll[OF 1(2)] by (auto dest: next_dispatch_pair)
    with 1(1)[OF True n[symmetric]] 1(3) True n show ?thesis
      by (subst await_dispatch.simps) (auto split: sum.split option.split)
  qed (use 1(2) in \<open>subst await_dispatch.simps, simp\<close>)
qed

lemma await_still_open:
  "still_open n st \<Longrightarrow> still_open n (snd (await_dispatch lib f deadline st))"
  by (rule await_kept[of "still_open n"]) (simp_all add: still_open_def sim_sleep_def)

lemma await_keeps: "keeps (still_open n) (\<lambda>st. await_dispatch lib f (sim_now st + t) st)"
  by (simp add: keeps_def await_still_open)

lemma update_keeps:
  "keeps (still_open n) (value_step x)"
  "keeps (still_open n) (\<lambda>st. (Inr (), st\<lparr>original_freeze := vs\<rparr>))"
  "keeps (still_open n) (\<lambda>st. (Inr (), st\<lparr>engine_count := k\<rparr>))"
  by (simp_all add: keeps_def value_step_def still_open_def)

lemma read_state_still_open: "keeps (still_open n) (read_simulator_state lib)"
  unfolding read_simulator_state_def read_original_freeze_def read_engine_count_def
  by (intro keeps_then call_still_open await_keeps update_keeps) simp_all

lemma opened_still_open: "still_open (closes hist) (client_opened now hist)"
  by (simp add: still_open_def client_opened_def)

lemma drop_unfrozen: "\<not> acquired_freeze st \<Longrightarrow> sim_history (sim_drop lib st) = sim_history st @ [FClose]"
  by (simp add: sim_drop_def close_handle_def)

text \<open>A connection attempt that fails while the data definitions are registered closes its handle
  twice: once explicitly, and once more when the client is dropped on return. Every other failure
  after the handle was opened closes it once.\<close>

theorem failed_connect_closes:
  assumes "sim_connect lib now hist = Inl (e, h)"
  shows "closes h = closes hist +
    (if sint (lib_result lib hist FOpen) < 0 then 0
     else if isl (fst (configure lib (client_opened now hist))) then 2 else 1)"
proof -
  let ?st = "client_opened now hist"
  obtain r st where c: "configure lib ?st = (r, st)" by fastforce
  have st: "still_open (closes hist) st"
    using keepsD[OF configure_still_open opened_still_open, of hist lib now] c by simp
  obtain r' st' where rd: "read_simulator_state lib st = (r', st')" by fastforce
  have st': "still_open (closes hist) st'"
    using keepsD[OF read_state_still_open st, of lib] rd by simp
  show ?thesis
    using assms st st' c rd
    by (auto simp: sim_connect_def check_hresult_def drop_unfrozen close_handle_def still_open_def
        split: if_splits sum.splits)
qed

text \<open>A library whose first definition is refused, and whose other calls succeed.\<close>

definition refusing_lib :: SimLib where
  "refusing_lib = \<lparr>lib_result = (\<lambda>h c. case c of FAddToDataDefinition _ _ _ _ \<Rightarrow> -1 | _ \<Rightarrow> 0),
     lib_message = (\<lambda>h. None), lib_packet = (\<lambda>h. 0), lib_oversleep = (\<lambda>h. 0)\<rparr>"

lemma refused_configuration:
  "configure refusing_lib st =
     (Inl (SimError (CallFailed ''SimConnect_AddToDataDefinition'' (-1))),
      st\<lparr>sim_history := sim_history st @ [FAddToDataDefinition DEFINE_POSE ''PLANE LATITUDE'' ''degrees'' DATATYPE_FLOAT64]\<rparr>)"
  by (simp add: configure_def then_step_def add_definition_def sim_call_def refusing_lib_def check_hresult_def)

lemma failed_connect_closes_witness:
  "\<exists>e h. sim_connect refusing_lib 0 [] = Inl (e, h) \<and> closes h = 2"
proof -
  have open_ok: "lib_result refusing_lib [] FOpen = 0" by (simp add: refusing_lib_def)
  then obtain e h where "sim_connect refusing_lib 0 [] = Inl (e, h)"
    by (simp add: sim_connect_def check_hresult_def refused_configuration)
  with failed_connect_closes[OF this] open_ok show ?thesis by (simp add: refused_configuration)
qed

section \<open>Dropping the client\<close>

definition axis_values :: "bool list \<Rightarrow> u32 list" where
  "axis_values vs = map (\<lambda>v. if v then 1 else 0) vs"

definition axes_at :: "u32 list \<Rightarrow> SimCall list \<Rightarrow> bool" where
  "axes_at vs h \<longleftrightarrow> map (\<lambda>event. last_freeze OBJECT_USER event h)
     [EVENT_FREEZE_LAT_LON, EVENT_FREEZE_ALTITUDE, EVENT_FREEZE_ATTITUDE] = map Some vs"

lemma drop_restores:
  assumes "acquired_freeze st" "length (original_freeze st) = 3"
  shows "axes_at (axis_values (original_freeze st)) (sim_history (sim_drop lib st))"
proof -
  obtain a b c where v: "original_freeze st = [a, b, c]"
    using assms(2) by (auto simp: numeral_3_eq_3 length_Suc_conv)
  have h: "sim_history (sim_drop lib st) = sim_history st @
      [FTransmit OBJECT_USER EVENT_FREEZE_LAT_LON (if a then 1 else 0),
       FTransmit OBJECT_USER EVENT_FREEZE_ALTITUDE (if b then 1 else 0),
       FTransmit OBJECT_USER EVENT_FREEZE_ATTITUDE (if c then 1 else 0), FClose]"
    using assms(1) v
    by (simp add: sim_drop_def close_handle_def then_step_def ignore_result_def transmit_freeze_eq freeze_values_def
        done_step_def)
  show ?thesis
    unfolding h v axes_at_def axis_values_def
    by (simp add: last_freeze_def freeze_value_of_def EVENT_FREEZE_LAT_LON_def EVENT_FREEZE_ALTITUDE_def
        EVENT_FREEZE_ATTITUDE_def)
qed

lemma failed_freeze_not_acquired:
  assumes "set_frozen_for_object lib OBJECT_USER True st = (Inl e, st')" "\<not> acquired_freeze st"
  shows "\<not> acquired_freeze st'"
  using assms
  by (auto simp: set_frozen_for_object_def freeze_values_def then_step_def transmit_freeze_eq sim_call_def done_step_def
      split: sum.splits)

lemma freeze_acquired:
  assumes "set_frozen_for_object lib OBJECT_USER True st = (Inr (), st')"
  shows "acquired_freeze st' \<and> original_freeze st' = original_freeze st"
  using assms
  by (auto simp: set_frozen_for_object_def freeze_values_def then_step_def transmit_freeze_eq sim_call_def done_step_def
      split: sum.splits)

text \<open>C32: Freezing the user aircraft and dropping the client: if the freeze succeeded, the drop gives
  every axis its original value back. If it failed at the second or third axis, the drop only closes
  the handle, and the axes already frozen stay frozen.\<close>

theorem freeze_restored_iff_acquired:
  assumes "length (original_freeze st) = 3" "\<not> acquired_freeze st"
    and "set_frozen_for_object lib OBJECT_USER True st = (r, st')"
  shows "case r of
      Inr _ \<Rightarrow> axes_at (axis_values (original_freeze st)) (sim_history (sim_drop lib st'))
    | Inl _ \<Rightarrow> sim_history (sim_drop lib st') = sim_history st' @ [FClose]"
proof (cases r)
  case (Inl e)
  then show ?thesis using failed_freeze_not_acquired[of lib st e st'] assms by (simp add: drop_unfrozen)
next
  case (Inr u)
  then show ?thesis using freeze_acquired[of lib st st'] drop_restores[of st' lib] assms by simp
qed

text \<open>A library that refuses to freeze the altitude.\<close>

definition altitude_lib :: SimLib where
  "altitude_lib = \<lparr>lib_result = (\<lambda>h c. case c of FTransmit _ e _ \<Rightarrow> if e = EVENT_FREEZE_ALTITUDE then -1 else 0 | _ \<Rightarrow> 0),
     lib_message = (\<lambda>h. None), lib_packet = (\<lambda>h. 0), lib_oversleep = (\<lambda>h. 0)\<rparr>"

lemma freeze_restored_iff_acquired_witness:
  "last_freeze OBJECT_USER EVENT_FREEZE_LAT_LON
     (sim_history (sim_drop altitude_lib (snd (set_frozen_for_object altitude_lib OBJECT_USER True (client_opened 0 [])))))
   = Some 1"
proof -
  let ?r = "set_frozen_for_object altitude_lib OBJECT_USER True (client_opened 0 [])"
  have r: "isl (fst ?r)" "sim_history (snd ?r) = [FOpen, FTransmit OBJECT_USER EVENT_FREEZE_LAT_LON 1,
      FTransmit OBJECT_USER EVENT_FREEZE_ALTITUDE 1]"
    by (simp_all add: set_frozen_for_object_def freeze_values_def then_step_def transmit_freeze_eq sim_call_def
        altitude_lib_def check_hresult_def client_opened_def EVENT_FREEZE_LAT_LON_def EVENT_FREEZE_ALTITUDE_def)
  have "sim_history (sim_drop altitude_lib (snd ?r)) = sim_history (snd ?r) @ [FClose]"
    using freeze_restored_iff_acquired[of "client_opened 0 []" altitude_lib "fst ?r" "snd ?r"] r(1)
    by (cases "fst ?r") (simp_all add: client_opened_def)
  then show ?thesis
    by (simp add: r last_freeze_def freeze_value_of_def EVENT_FREEZE_LAT_LON_def EVENT_FREEZE_ALTITUDE_def)
qed

section \<open>Polling\<close>

lemma sleep_step:
  assumes "0 < x" "y \<le> x - 10000000"
  shows "Suc ((y + 9999999) div 10000000) \<le> (x + 9999999) div (10000000 :: nat)"
proof -
  have "Suc ((y + 9999999) div 10000000) = (y + 9999999 + 10000000) div 10000000" by simp
  also have "\<dots> \<le> (x + 9999999) div 10000000"
  proof (cases "10000000 \<le> x")
    case True
    with assms show ?thesis by (intro div_le_mono) simp
  next
    case False
    with assms have "y = 0" "10000000 \<le> x + 9999999" by simp_all
    then show ?thesis using div_le_mono[of 10000000 "x + 9999999" 10000000] by simp
  qed
  finally show ?thesis .
qed

lemma await_polls_bounded:
  "length (sim_history (snd (await_dispatch lib f deadline st)))
     \<le> length (sim_history st) + (deadline - sim_now st + 9999999) div 10000000"
proof (induction lib f deadline st rule: await_dispatch.induct)
  case (1 lib f deadline st)
  show ?case
  proof (cases "sim_now st < deadline")
    case False
    then show ?thesis by (subst await_dispatch.simps) simp
  next
    case True
    let ?st = "snd (next_dispatch lib st)"
    obtain r st' where n: "next_dispatch lib st = (r, st')" by fastforce
    then have st': "st' = st\<lparr>sim_history := sim_history st @ [FGetNextDispatch]\<rparr>" by (metis next_dispatch_state snd_conv)
    have one: "1 \<le> (deadline - sim_now st + 9999999) div 10000000" using True by simp
    have less: "Suc ((deadline - sim_now (sim_sleep lib 10000000 st') + 9999999) div 10000000)
        \<le> (deadline - sim_now st + 9999999) div 10000000"
    proof -
      have "deadline - sim_now (sim_sleep lib 10000000 st') \<le> deadline - sim_now st - 10000000"
        by (simp add: sim_sleep_def st')
      then show ?thesis using True by (intro sleep_step) simp_all
    qed
    show ?thesis
    proof (cases r)
      case (Inl e)
      then show ?thesis using True n one by (subst await_dispatch.simps) (simp add: st')
    next
      case (Inr d)
      show ?thesis
      proof (cases "f d")
        case None
        have "length (sim_history (snd (await_dispatch lib f deadline (sim_sleep lib 10000000 st'))))
            \<le> length (sim_history st) + 1 + (deadline - sim_now (sim_sleep lib 10000000 st') + 9999999) div 10000000"
          using 1[OF True n[symmetric] Inr None] by (simp add: sim_sleep_def st')
        with less True n Inr None show ?thesis by (subst await_dispatch.simps) simp
      next
        case (Some x)
        then show ?thesis using True n one Inr by (subst await_dispatch.simps) (simp add: st')
      qed
    qed
  qed
qed

lemma next_dispatch_cong:
  "sim_history a = sim_history b \<Longrightarrow> fst (next_dispatch lib a) = fst (next_dispatch lib b)"
  by (simp add: next_dispatch_def Let_def split: option.split)

lemma pump_dispatch_history [simp]: "sim_history (pump_dispatch d st) = sim_history st"
  by (simp add: pump_dispatch_def split: Dispatch.split)

text \<open>\<open>pump\<close> returns as soon as the library has no message left.\<close>

lemma pump_returns:
  assumes "fst (next_dispatch lib (st\<lparr>sim_history := sim_history st @ replicate n FGetNextDispatch\<rparr>)) = Inr DEmpty"
  shows "\<exists>y. pump lib st = Some y"
  using assms
proof (induction n arbitrary: st)
  case 0
  then obtain st' where "next_dispatch lib st = (Inr DEmpty, st')" by (cases "next_dispatch lib st") simp
  then show ?case by (subst pump.simps) simp
next
  case (Suc n)
  obtain r st' where n: "next_dispatch lib st = (r, st')" by fastforce
  then have st': "st' = st\<lparr>sim_history := sim_history st @ [FGetNextDispatch]\<rparr>" by (metis next_dispatch_state snd_conv)
  show ?case
  proof (cases r)
    case (Inl e)
    with n show ?thesis by (subst pump.simps) simp
  next
    case (Inr d)
    let ?st = "pump_dispatch d st'"
    have "fst (next_dispatch lib (?st\<lparr>sim_history := sim_history ?st @ replicate n FGetNextDispatch\<rparr>))
        = fst (next_dispatch lib (st\<lparr>sim_history := sim_history st @ replicate (Suc n) FGetNextDispatch\<rparr>))"
      by (rule next_dispatch_cong) (simp add: st')
    then have "fst (next_dispatch lib (?st\<lparr>sim_history := sim_history ?st @ replicate n FGetNextDispatch\<rparr>)) = Inr DEmpty"
      using Suc.prems by simp
    from Suc.IH[OF this] n Inr show ?thesis by (subst pump.simps) simp
  qed
qed

end
