(* ===== verification/Bridge_Loop_Properties.thy ===== *)
theory Bridge_Loop_Properties
  imports Bridge_Loop Aircraft_Contract Simconnect_Properties
begin

text \<open>
  Properties of the bridge's main loop: every connection gives the simulator back as it found it,
  and an aircraft without a state is selected again in every turn.
\<close>

section \<open>What a connection leaves behind\<close>

abbreviation freeze_events :: "u32 list" where
  "freeze_events \<equiv> [EVENT_FREEZE_LAT_LON, EVENT_FREEZE_ALTITUDE, EVENT_FREEZE_ATTITUDE]"

definition axes_alike :: "SimCall list \<Rightarrow> SimCall list \<Rightarrow> bool" where
  "axes_alike h h' \<longleftrightarrow> (\<forall>e \<in> set freeze_events. last_freeze OBJECT_USER e h' = last_freeze OBJECT_USER e h)"

definition user_events_accepted :: "SimLib \<Rightarrow> bool" where
  "user_events_accepted lib \<longleftrightarrow> (\<forall>h e v. 0 \<le> sint (lib_result lib h (FTransmit OBJECT_USER e v)))"

text \<open>
  While the client does not hold the user aircraft frozen, its axes are as they were when the
  connection was opened, or at the original values.
\<close>

definition restorable :: "SimLib \<Rightarrow> nat \<Rightarrow> bool list \<Rightarrow> SimCall list \<Rightarrow> SimConnectClient \<Rightarrow> bool" where
  "restorable lib n vs h0 st \<longleftrightarrow> closes (sim_history st) = n \<and> original_freeze st = vs \<and> length vs = 3
     \<and> (user_events_accepted lib \<longrightarrow> \<not> acquired_freeze st \<longrightarrow>
          axes_alike h0 (sim_history st) \<or> axes_at (axis_values vs) (sim_history st))"

lemma axes_snoc:
  assumes "no_freeze OBJECT_USER c"
  shows "axes_alike h0 (h @ [c]) = axes_alike h0 h" "axes_at vs (h @ [c]) = axes_at vs h"
proof -
  have "last_freeze OBJECT_USER e (h @ [c]) = last_freeze OBJECT_USER e h" if "e \<in> set freeze_events" for e
    using assms that by (auto simp: last_freeze_snoc no_freeze_def)
  then show "axes_alike h0 (h @ [c]) = axes_alike h0 h" "axes_at vs (h @ [c]) = axes_at vs h"
    by (simp_all add: axes_alike_def axes_at_def)
qed

lemma restorable_snoc:
  "no_freeze OBJECT_USER c \<Longrightarrow> c \<noteq> FClose \<Longrightarrow> restorable lib n vs h0 st
    \<Longrightarrow> restorable lib n vs h0 (st\<lparr>sim_history := sim_history st @ [c]\<rparr>)"
  by (simp add: restorable_def axes_snoc)

lemma call_restorable:
  "no_freeze OBJECT_USER c \<Longrightarrow> c \<noteq> FClose \<Longrightarrow> keeps (restorable lib n vs h0) (sim_call lib op c)"
  by (simp add: keeps_def sim_call_def restorable_snoc)

lemma restorable_updates [simp]:
  "restorable lib n vs h0 (st\<lparr>assigned_objects := xs\<rparr>) = restorable lib n vs h0 st"
  "restorable lib n vs h0 (st\<lparr>exceptions := es\<rparr>) = restorable lib n vs h0 st"
  "restorable lib n vs h0 (st\<lparr>next_ai_request_id := i\<rparr>) = restorable lib n vs h0 st"
  "restorable lib n vs h0 (st\<lparr>reported_unsupported_engines := us\<rparr>) = restorable lib n vs h0 st"
  "restorable lib n vs h0 (sim_sleep lib' d st) = restorable lib n vs h0 st"
  by (simp_all add: restorable_def sim_sleep_def)

text \<open>Freezing and releasing the user aircraft, when the library accepts every event.\<close>

lemma accepted_call:
  "user_events_accepted lib \<Longrightarrow> sim_call lib op (FTransmit OBJECT_USER e v) st
     = (Inr (), st\<lparr>sim_history := sim_history st @ [FTransmit OBJECT_USER e v]\<rparr>)"
  by (simp add: sim_call_def check_hresult_def user_events_accepted_def)

lemma accepted_freeze:
  assumes "user_events_accepted lib" "length vs = 3" "original_freeze st = vs"
  shows "\<exists>st'. set_frozen_for_object lib OBJECT_USER b st = (Inr (), st') \<and> acquired_freeze st' = b
    \<and> (\<not> b \<longrightarrow> axes_at (axis_values vs) (sim_history st'))"
proof -
  obtain x y z where v: "vs = [x, y, z]" using assms(2) by (auto simp: numeral_3_eq_3 length_Suc_conv)
  show ?thesis
    by (simp add: set_frozen_for_object_def freeze_values_def then_step_def transmit_freeze_eq
        accepted_call[OF assms(1)] done_step_def assms(3) v axes_at_def axis_values_def last_freeze_def
        freeze_value_of_def EVENT_FREEZE_LAT_LON_def EVENT_FREEZE_ALTITUDE_def EVENT_FREEZE_ATTITUDE_def)
qed

lemma freeze_keeps_open:
  "keeps (\<lambda>st. closes (sim_history st) = n \<and> original_freeze st = vs) (set_frozen_for_object lib obj b)"
  by (rule set_frozen_by_calls) (simp_all add: keeps_def sim_call_def)

lemma freeze_restorable: "keeps (restorable lib n vs h0) (set_frozen_for_object lib obj b)"
proof (cases "obj = OBJECT_USER")
  case False
  have "keeps (restorable lib n vs h0) (then_step (each_step (transmit_freeze_for_object lib obj) us)
      (\<lambda>_ st. (Inr (), if obj = OBJECT_USER then st\<lparr>acquired_freeze := b\<rparr> else st)))" for us
    using False by (intro keeps_then keeps_each) (auto simp: transmit_freeze_eq keeps_def intro!: call_restorable[unfolded keeps_def, rule_format])
  then show ?thesis by (auto simp: keeps_def set_frozen_for_object_def)
next
  case True
  show ?thesis
  proof (unfold keeps_def, intro allI impI)
    fix st assume st: "restorable lib n vs h0 st"
    with keepsD[OF freeze_keeps_open[of n vs lib obj b], of st] accepted_freeze[of lib vs st b] True
    show "restorable lib n vs h0 (snd (set_frozen_for_object lib obj b st))"
      by (auto simp: restorable_def)
  qed
qed

lemma create_restorable: "keeps (restorable lib n vs h0) (create_ai_aircraft lib title tail pose knots)"
proof (unfold keeps_def, intro allI impI)
  fix st assume st: "restorable lib n vs h0 st"
  have packet: "keeps (restorable lib n vs h0) (last_sent_packet_id lib)"
  proof (unfold keeps_def, intro allI impI)
    fix st :: SimConnectClient
    assume st: "restorable lib n vs h0 st"
    have "keeps (restorable lib n vs h0) (then_step (sim_call lib op FGetLastSentPacketID) (\<lambda>_. value_step v))" for op and v :: u32
      by (intro keeps_then call_restorable) (simp_all add: keeps_def value_step_def no_freeze_def freeze_value_of_def)
    from keepsD[OF this st] show "restorable lib n vs h0 (snd (last_sent_packet_id lib st))"
      by (simp add: last_sent_packet_id_def)
  qed
  have "keeps (restorable lib n vs h0)
      (then_step (c_string title) (\<lambda>_. then_step (c_string tail) (\<lambda>_.
        then_step (sim_call lib op (FCreateAi title [] tail ip i)) (\<lambda>_.
        then_step (last_sent_packet_id lib) (\<lambda>send_id. value_step (f send_id))))))" for op ip i and f :: "u32 \<Rightarrow> AiCreateRequest"
    by (intro keeps_then packet call_restorable)
      (simp_all add: keeps_def value_step_def c_string_def no_freeze_def freeze_value_of_def)
  from keepsD[OF this] st show "restorable lib n vs h0 (snd (create_ai_aircraft lib title tail pose knots st))"
    by (simp add: create_ai_aircraft_def Let_def)
qed

interpretation restoring: ai_client lib "restorable lib n vs h0" for lib n vs h0
  by unfold_locales
    (auto intro!: freeze_restorable create_restorable object_write_by_calls landing_gear_by_calls call_restorable restorable_snoc
      simp: remove_ai_object_def release_ai_control_def no_freeze_def freeze_value_of_def gear_event_def
        EVENT_GEAR_UP_def EVENT_GEAR_DOWN_def EVENT_FREEZE_LAT_LON_def EVENT_FREEZE_ALTITUDE_def EVENT_FREEZE_ATTITUDE_def
      split: GearCommand.split)

text \<open>Every part of a turn keeps it.\<close>

definition loop_restorable :: "SimLib \<Rightarrow> nat \<Rightarrow> bool list \<Rightarrow> SimCall list \<Rightarrow> BridgeLoop \<Rightarrow> bool" where
  "loop_restorable lib n vs h0 b \<longleftrightarrow> restorable lib n vs h0 (bl_simulator b)
     \<and> os_object_id (rt_session (bl_user b)) = OBJECT_USER"

lemma loop_driven:
  "driven (restorable lib n vs h0) OBJECT_USER (bl_user b, bl_simulator b) = loop_restorable lib n vs h0 b"
  by (simp add: driven_def held_def loop_restorable_def)

lemma release_user_restorable: "loop_restorable lib n vs h0 b \<Longrightarrow> loop_restorable lib n vs h0 (release_user lib b)"
  using keepsD[OF driven_session[OF restoring.release_held], of lib n vs h0 OBJECT_USER "(bl_user b, bl_simulator b)"]
  by (simp add: release_user_def loop_driven driven_def held_def loop_restorable_def split_beta)

lemma user_restorable:
  assumes "loop_restorable lib n vs h0 b"
  shows "loop_restorable lib n vs h0 (drop_despawned lib t b)" "loop_restorable lib n vs h0 (select_user cfg t b)"
    "loop_restorable lib n vs h0 (snd (process_user lib na cfg t b))"
proof -
  show "loop_restorable lib n vs h0 (drop_despawned lib t b)"
    using assms release_user_restorable[OF assms]
    by (auto simp: drop_despawned_def Let_def loop_restorable_def split: option.split)
  show "loop_restorable lib n vs h0 (select_user cfg t b)"
    using assms by (auto simp: select_user_def loop_restorable_def split: option.split)
  show "loop_restorable lib n vs h0 (snd (process_user lib na cfg t b))"
  proof (cases "bl_selected b")
    case (Some aid)
    have "driven (restorable lib n vs h0) OBJECT_USER (snd (process lib na (lt_store t) (lt_playback t) aid (\<lambda>n. lt_clock t (2 + n))
        (lt_start t) (from_millis (bc_stale_timeout_ms cfg)) (sm_mode (bc_smoothing cfg)) (bl_user b, bl_simulator b)))"
      using assms by (intro keepsD[OF restoring.process_driven]) (simp add: loop_driven)
    with Some show ?thesis
      by (auto simp: process_user_def driven_def held_def loop_restorable_def split: prod.split)
  qed (use assms in \<open>simp add: process_user_def\<close>)
qed

lemma process_ai_restorable:
  assumes "loop_restorable lib n vs h0 b"
  shows "loop_restorable lib n vs h0 (snd (process_ai lib na cfg t b))"
proof -
  have Q: "of_client (restorable lib n vs h0) (bl_ai b, bl_simulator b)"
    using assms by (simp add: of_client_def loop_restorable_def)
  show ?thesis
    using assms keepsD[OF restoring.update_kept Q, of na "lt_store t" "lt_playback t" "ai_settings cfg t (bl_selected b)" "\<lambda>n. lt_clock t (6 + n)"]
      restoring.clear_kept[OF Q]
    by (auto simp: process_ai_def of_client_def loop_restorable_def split: prod.split)
qed

lemma turn_restorable:
  assumes "bridge_turn lib na cfg tick t b = Some (r, b')" "loop_restorable lib n vs h0 b"
  shows "loop_restorable lib n vs h0 b'"
proof -
  obtain p st where p: "pump lib (bl_simulator b) = Some (p, st)"
    using assms(1) by (auto simp: bridge_turn_def split: option.splits prod.splits)
  have st: "loop_restorable lib n vs h0 (b\<lparr>bl_simulator := st\<rparr>)"
    using assms(2) restoring.pump_kept[OF p] by (simp add: loop_restorable_def)
  show ?thesis
  proof (cases p)
    case (Inl e)
    with assms(1) p st show ?thesis by (simp add: bridge_turn_def)
  next
    case (Inr u)
    obtain r1 b1 where user: "process_user lib na cfg t (select_user cfg t (drop_despawned lib t (b\<lparr>bl_simulator := st\<rparr>))) = (r1, b1)"
      by fastforce
    have b1: "loop_restorable lib n vs h0 b1"
      using user_restorable(3)[OF user_restorable(2)[OF user_restorable(1)[OF st]], of na cfg t cfg t t] user by simp
    obtain r2 b2 where ai: "process_ai lib na cfg t b1 = (r2, b2)" by fastforce
    have "loop_restorable lib n vs h0 b2" using process_ai_restorable[OF b1, of na cfg t] ai by simp
    with b1 assms(1) p Inr user ai show ?thesis
      by (auto simp: bridge_turn_def loop_restorable_def split: TurnEnd.splits)
  qed
qed

lemma turns_restorable:
  "bridge_turns lib na cfg tick ts b = Some (r, b') \<Longrightarrow> loop_restorable lib n vs h0 b \<Longrightarrow> loop_restorable lib n vs h0 b'"
  by (induction ts arbitrary: b) (auto dest: turn_restorable split: option.splits prod.splits TurnEnd.splits)

lemma drop_restorable:
  assumes "restorable lib n vs h0 st"
  shows "closes (sim_history (sim_drop lib st)) = n + 1
    \<and> (user_events_accepted lib \<longrightarrow> axes_alike h0 (sim_history (sim_drop lib st)) \<or> axes_at (axis_values vs) (sim_history (sim_drop lib st)))"
proof (cases "acquired_freeze st")
  case True
  have "keeps (\<lambda>st. closes (sim_history st) = n) (each_step (\<lambda>e. ignore_result (transmit_freeze_for_object lib OBJECT_USER e)) es)" for es
    by (intro keeps_each) (auto simp: keeps_def ignore_result_def transmit_freeze_eq)
  from keepsD[OF this, of st] have "closes (sim_history (sim_drop lib st)) = n + 1"
    using assms True by (simp add: sim_drop_def close_handle_def restorable_def)
  with drop_restores[OF True, of lib] assms show ?thesis by (simp add: restorable_def)
next
  case False
  with assms drop_unfrozen[OF False, of lib] axes_snoc[of FClose] show ?thesis
    by (simp add: restorable_def no_freeze_def freeze_value_of_def)
qed

section \<open>The whole connection\<close>

lemma await_original [simp]: "original_freeze (snd (await_dispatch lib f deadline st)) = original_freeze st"
  by (rule await_kept[of "\<lambda>s. original_freeze s = original_freeze st"]) (simp_all add: sim_sleep_def)

lemma freeze_dispatch_length:
  "fst (next_dispatch lib st) = Inr d \<Longrightarrow> freeze_of_dispatch d = Some vs \<Longrightarrow> length vs = 3"
  by (auto simp: next_dispatch_def decode_dispatch_def freeze_of_dispatch_def Let_def split: if_splits option.splits sum.splits)

lemma await_freeze_length:
  "await_dispatch lib f deadline st = (Inr (Some vs), st') \<Longrightarrow> f = freeze_of_dispatch \<Longrightarrow> length vs = 3"
proof (induction lib f deadline st rule: await_dispatch.induct)
  case (1 lib f deadline st)
  obtain r st1 where n: "next_dispatch lib st = (r, st1)" by fastforce
  from 1(2) have "(if sim_now st < deadline then case (r, st1) of
      (Inl e, st') \<Rightarrow> (Inl e, st')
    | (Inr d, st') \<Rightarrow> (case f d of Some x \<Rightarrow> (Inr (Some x), st')
        | None \<Rightarrow> await_dispatch lib f deadline (sim_sleep lib 10000000 st')) else (Inr None, st)) = (Inr (Some vs), st')"
    by (subst (asm) await_dispatch.simps) (simp only: n)
  with 1(1)[OF _ n[symmetric]] 1(3) freeze_dispatch_length[of lib st] n show ?case
    by (auto split: if_splits sum.splits option.splits)
qed

lemma read_freeze_length:
  "read_original_freeze lib d st = (Inr vs, st') \<Longrightarrow> length vs = 3"
  by (auto simp: read_original_freeze_def then_step_def value_step_def dest: await_freeze_length
      split: prod.splits sum.splits option.splits)

lemma connected_restorable:
  assumes "sim_connect lib now hist = Inr st"
  shows "restorable lib (closes hist) (original_freeze st) (sim_history st) st"
proof -
  obtain u st1 where c: "configure lib (client_opened now hist) = (Inr u, st1)"
    using assms by (cases "configure lib (client_opened now hist)") (auto simp: sim_connect_def split: sum.splits)
  then obtain u' where r: "read_simulator_state lib st1 = (Inr u', st)"
    using assms by (cases "read_simulator_state lib st1") (auto simp: sim_connect_def split: sum.splits)
  have "still_open (closes hist) st1"
    using keepsD[OF configure_still_open opened_still_open, of hist lib now] c by simp
  from keepsD[OF read_state_still_open this, of lib] have "still_open (closes hist) st" using r by simp
  moreover have "length (original_freeze st) = 3"
  proof -
    obtain vs st2 where f: "read_original_freeze lib (2 * nanos_per_sec) st1 = (Inr vs, st2)"
      using r by (cases "read_original_freeze lib (2 * nanos_per_sec) st1")
        (auto simp: read_simulator_state_def then_step_def split: sum.splits)
    have "keeps (\<lambda>st. original_freeze st = vs)
        (then_step (read_engine_count lib (2 * nanos_per_sec)) (\<lambda>n st. (Inr (), st\<lparr>engine_count := n\<rparr>)))"
      unfolding read_engine_count_def
      by (intro keeps_then) (simp_all add: keeps_def sim_call_def value_step_def)
    from keepsD[OF this, of "st2\<lparr>original_freeze := vs\<rparr>"] have "original_freeze st = vs"
      using r f by (simp add: read_simulator_state_def then_step_def)
    with read_freeze_length[OF f] show ?thesis by simp
  qed
  ultimately show ?thesis by (simp add: restorable_def still_open_def axes_alike_def)
qed

text \<open>C15: Every connection closes its handle exactly once, however it ends: after a lost connection, a
  signal, an error or a panic, and whatever was written in between. If the library accepts the
  events sent to the user aircraft, each of its axes is left as it was when the connection was opened,
  or at the original value read then.\<close>

theorem connection_gives_aircraft_back:
  assumes "sim_connect lib now hist = Inr st"
    and "bridge_turns lib na cfg tick ts (bridge_loop_new cfg now' st) = Some (ended, b)"
  shows "closes (sim_history (bridge_close lib ended b)) = closes hist + 1
    \<and> (user_events_accepted lib \<longrightarrow> axes_alike (sim_history st) (sim_history (bridge_close lib ended b))
         \<or> axes_at (axis_values (original_freeze st)) (sim_history (bridge_close lib ended b)))"
proof -
  let ?R = "loop_restorable lib (closes hist) (original_freeze st) (sim_history st)"
  have "?R (bridge_loop_new cfg now' st)"
    using connected_restorable[OF assms(1)]
    by (simp add: loop_restorable_def bridge_loop_new_def runtime_new_def session_user_def)
  from turns_restorable[OF assms(2) this] have b: "?R b" .
  obtain reg st1 where c: "ai_clear lib (bl_ai b, bl_simulator b) = (reg, st1)" by fastforce
  have "?R (b\<lparr>bl_ai := reg, bl_simulator := st1\<rparr>)"
    using b restoring.clear_kept[of lib _ _ _ "(bl_ai b, bl_simulator b)"] c
    by (simp add: loop_restorable_def of_client_def)
  from release_user_restorable[OF this] b
  have "\<exists>st2. bridge_close lib ended b = sim_drop lib st2
      \<and> restorable lib (closes hist) (original_freeze st) (sim_history st) st2"
    by (auto simp: bridge_close_def c loop_restorable_def)
  then show ?thesis using drop_restorable by fastforce
qed

text \<open>
  A simulator that answers every call and has no messages; a sleep takes two seconds, so that the
  reads of a connection time out after one poll.
\<close>

definition calm_lib :: SimLib where
  "calm_lib = \<lparr>lib_result = (\<lambda>h c. if c = FGetNextDispatch then -1 else 0), lib_message = (\<lambda>h. None),
     lib_packet = (\<lambda>h. 0), lib_oversleep = (\<lambda>h. 2 * nanos_per_sec)\<rparr>"

definition demo_bridge_config :: BridgeConfig where
  "demo_bridge_config = \<lparr>bc_listen = [], bc_aircraft_id = Some ''a'', bc_tick_hz = f_one, bc_render_hz = f_one,
     bc_stale_timeout_ms = 500, bc_enable_ai_aircraft = False, bc_ai_aircraft_title = ''Rafale M'', bc_max_ai_aircraft = 8,
     bc_smoothing = smoothing_config_default, bc_management_enabled = False, bc_http_listen = [],
     bc_runtime = runtime_config_default, bc_config_path = None\<rparr>"

lemma calm_user: "user_events_accepted calm_lib"
  by (simp add: user_events_accepted_def calm_lib_def)

definition succeeds :: "('s, 'e, 'a) step \<Rightarrow> bool" where
  "succeeds m \<longleftrightarrow> (\<forall>s. \<not> isl (fst (m s)))"

lemma succeeds_then: "succeeds m \<Longrightarrow> (\<And>x. succeeds (f x)) \<Longrightarrow> succeeds (then_step m f)"
  by (auto simp: succeeds_def then_step_def isl_def split: prod.split sum.split) (metis fst_conv sum.exhaust)+

lemma succeeds_each: "(\<And>x. succeeds (f x)) \<Longrightarrow> succeeds (each_step f xs)"
proof (induction xs)
  case (Cons x xs)
  then show ?case by (simp add: succeeds_then)
qed (simp add: succeeds_def done_step_def)

lemma calm_call: "c \<noteq> FGetNextDispatch \<Longrightarrow> succeeds (sim_call calm_lib op c)"
  by (simp add: succeeds_def sim_call_def calm_lib_def check_hresult_def)

lemma calm_configure: "succeeds (configure calm_lib)"
  unfolding configure_def add_definition_def
  by (intro succeeds_then succeeds_each) (auto intro: calm_call split: prod.split)

lemma calm_await: "succeeds (\<lambda>st. await_dispatch calm_lib f (sim_now st + 2 * nanos_per_sec) st)"
proof (unfold succeeds_def, intro allI)
  fix st
  have n: "next_dispatch calm_lib st' = (Inr DEmpty, st'\<lparr>sim_history := sim_history st' @ [FGetNextDispatch]\<rparr>)" for st'
    by (simp add: next_dispatch_def calm_lib_def Let_def)
  show "\<not> isl (fst (await_dispatch calm_lib f (sim_now st + 2 * nanos_per_sec) st))"
    by (subst await_dispatch.simps, subst await_dispatch.simps)
      (simp add: n sim_sleep_def nanos_per_sec_def split: option.split, simp add: calm_lib_def nanos_per_sec_def)
qed

lemma calm_connects: "\<exists>st. sim_connect calm_lib 0 [] = Inr st"
proof -
  have u: "succeeds (value_step x)" "succeeds (\<lambda>st. (Inr (), f st))" for x and f :: "SimConnectClient \<Rightarrow> SimConnectClient"
    by (simp_all add: succeeds_def value_step_def)
  have "succeeds (read_simulator_state calm_lib)"
    unfolding read_simulator_state_def read_original_freeze_def read_engine_count_def
    by (intro succeeds_then calm_call calm_await u) simp_all
  moreover have "0 \<le> sint (lib_result calm_lib [] FOpen)" by (simp add: calm_lib_def)
  moreover obtain r st where "configure calm_lib (client_opened 0 []) = (r, st)" by fastforce
  moreover obtain r' st' where "read_simulator_state calm_lib st = (r', st')" by fastforce
  ultimately show ?thesis
    using calm_configure by (auto simp: sim_connect_def check_hresult_def succeeds_def split: sum.split) (metis fst_conv isl_def)+
qed

lemma calm_pump: "pump calm_lib st = Some (Inr (), st\<lparr>sim_history := sim_history st @ [FGetNextDispatch]\<rparr>)"
  by (subst pump.simps) (simp add: next_dispatch_def calm_lib_def Let_def)

definition demo_turn :: LoopTurn where
  "demo_turn = \<lparr>lt_store = append_event ''a'' f_one (EvCustom GEAR_UP) (append_event ''a'' f_one (EvSpawn \<lparr>sp_name = ''a'',
       sp_toml_config = [], sp_initial_state = None, sp_telemetry_schemas = []\<rparr>) store_new),
     lt_playback = \<lparr>snap_mode = ReplayPaused, snap_cursor = Some f_one, snap_speed = f_one, snap_bounds = None, snap_revision = 0\<rparr>,
     lt_start = 0, lt_clock = (\<lambda>n. n), lt_elapsed = 0\<rparr>"

lemma connection_gives_aircraft_back_witness:
  "\<exists>st ended b. sim_connect calm_lib 0 [] = Inr st
    \<and> bridge_turns calm_lib demo_na demo_bridge_config 0 [demo_turn] (bridge_loop_new demo_bridge_config 0 st) = Some (ended, b)
    \<and> closes (sim_history (bridge_close calm_lib ended b)) = 1"
proof -
  obtain st where st: "sim_connect calm_lib 0 [] = Inr st" using calm_connects by blast
  moreover have "\<exists>ended b. bridge_turns calm_lib demo_na demo_bridge_config 0 [demo_turn] (bridge_loop_new demo_bridge_config 0 st)
      = Some (ended, b)"
    by (auto simp: bridge_turn_def calm_pump split: prod.split TurnEnd.split)
  ultimately show ?thesis using connection_gives_aircraft_back[OF st] by fastforce
qed

section \<open>An aircraft without a state\<close>

text \<open>
  \<open>aid\<close> is selected, spawned at the cursor, and has a gear event but no state there; the client
  has no messages, and the AI aircraft are switched off.
\<close>

definition stateless_turn :: "SimLib \<Rightarrow> BridgeConfig \<Rightarrow> string \<Rightarrow> GearCommand \<Rightarrow> LoopTurn \<Rightarrow> bool" where
  "stateless_turn lib cfg aid g t \<longleftrightarrow>
     resolve_aircraft_with (lt_playback t) aid (lt_store t) = None
     \<and> select_aircraft_at (lt_store t) (bc_aircraft_id cfg) (loop_cursor t) = Some aid
     \<and> (\<exists>c. snap_cursor (lt_playback t) = Some c \<and> is_finite c \<and> latest_gear_command (lt_store t) aid c = Some g)
     \<and> \<not> bc_enable_ai_aircraft cfg"

definition quiet_lib :: "SimLib \<Rightarrow> bool" where
  "quiet_lib lib \<longleftrightarrow> (\<forall>h. lib_result lib h FGetNextDispatch \<noteq> 0) \<and> user_events_accepted lib"

definition gear_sent :: "GearCommand \<Rightarrow> BridgeLoop \<Rightarrow> nat" where
  "gear_sent g b = length (filter (\<lambda>c. c = FTransmit OBJECT_USER (gear_event g) 0) (sim_history (bl_simulator b)))"

definition waiting_user :: "string \<Rightarrow> BridgeLoop \<Rightarrow> bool" where
  "waiting_user aid b \<longleftrightarrow> bl_selected b = Some aid \<and> \<not> os_frozen (rt_session (bl_user b))
     \<and> os_object_id (rt_session (bl_user b)) = OBJECT_USER \<and> ai_active (bl_ai b) = []"

lemma quiet_pump: "quiet_lib lib \<Longrightarrow> pump lib st = Some (Inr (), st\<lparr>sim_history := sim_history st @ [FGetNextDispatch]\<rparr>)"
  by (subst pump.simps) (simp add: next_dispatch_def quiet_lib_def Let_def)

lemma fresh_gear:
  assumes "is_finite c" "latest_gear_command s aid c = Some g"
  shows "fst (commands_to_apply s aid m c rv gear_tracker_new) = [g]"
  using assms
  by (simp add: commands_to_apply_def gear_discontinuity_def gear_tracker_new_def Let_def split: prod.split)

lemma no_sample: "resolve_aircraft_with pb aid s = None \<Longrightarrow> resolve_sample s pb aid = None"
  by (auto simp: resolve_aircraft_with_def resolve_sample_def split: option.splits if_splits)

lemma fresh_process:
  assumes "resolve_sample s pb aid = None" "snap_cursor pb = Some c" "is_finite c" "latest_gear_command s aid c = Some g"
    and "rt_gear rt = gear_tracker_new" "os_object_id (rt_session rt) = OBJECT_USER" "user_events_accepted lib"
  shows "\<exists>rt'. process lib na s pb aid clk start timeout smode (rt, st)
      = (Inr (), (rt', st\<lparr>sim_history := sim_history st @ [FTransmit OBJECT_USER (gear_event g) 0]\<rparr>))
    \<and> rt_session rt' = rt_session rt"
proof -
  let ?rt = "enter_mode (snap_mode pb) (clk 0) rt"
  have "rt_gear ?rt = gear_tracker_new" using assms(5) by (simp add: enter_mode_def reset_timeline_state_def)
  then obtain tr where "commands_to_apply s aid (snap_mode pb) c (snap_revision pb) (rt_gear ?rt) = ([g], tr)"
    using fresh_gear[OF assms(3,4), of "snap_mode pb" "snap_revision pb"] by (metis prod.collapse)
  with assms show ?thesis
    by (simp add: process_def then_step_def upd_def gear_step_def on_session_def session_apply_gear_def on_client_def
        set_landing_gear_for_object_def transmit_event_for_object_def accepted_call done_step_def)
qed

lemma stateless_step:
  assumes t: "stateless_turn lib cfg aid g t" and quiet: "quiet_lib lib" and b: "waiting_user aid b"
  shows "\<exists>b'. bridge_turn lib na cfg tick t b = Some (NextTurn, b') \<and> waiting_user aid b' \<and> gear_sent g b' = gear_sent g b + 1"
proof -
  let ?st = "(bl_simulator b)\<lparr>sim_history := sim_history (bl_simulator b) @ [FGetNextDispatch]\<rparr>"
  let ?rt = "reset_timeline_state (lt_clock t 1) (reset_timeline_state (lt_clock t 0) (bl_user b))"
  let ?b = "b\<lparr>bl_simulator := ?st, bl_user := ?rt\<rparr>"
  obtain c where c: "snap_cursor (lt_playback t) = Some c" "is_finite c" "latest_gear_command (lt_store t) aid c = Some g"
    using t by (auto simp: stateless_turn_def)
  have "release_user lib (b\<lparr>bl_simulator := ?st\<rparr>) = b\<lparr>bl_simulator := ?st\<rparr>"
    using b by (simp add: release_user_def on_session_def session_release_def done_step_def waiting_user_def)
  then have sel: "select_user cfg t (drop_despawned lib t (b\<lparr>bl_simulator := ?st\<rparr>)) = ?b"
    using t b by (simp add: drop_despawned_def despawned_def select_user_def stateless_turn_def waiting_user_def)
  have rt: "rt_gear ?rt = gear_tracker_new" by (simp add: reset_timeline_state_def)
  have "user_events_accepted lib" using quiet by (simp add: quiet_lib_def)
  from fresh_process[OF no_sample c rt _ this, of na "\<lambda>n. lt_clock t (2 + n)" "lt_start t"
      "from_millis (bc_stale_timeout_ms cfg)" "sm_mode (bc_smoothing cfg)" ?st] t b
  obtain rt' where p: "process lib na (lt_store t) (lt_playback t) aid (\<lambda>n. lt_clock t (2 + n)) (lt_start t)
        (from_millis (bc_stale_timeout_ms cfg)) (sm_mode (bc_smoothing cfg)) (?rt, ?st)
      = (Inr (), (rt', ?st\<lparr>sim_history := sim_history ?st @ [FTransmit OBJECT_USER (gear_event g) 0]\<rparr>))"
    "rt_session rt' = rt_session (bl_user b)"
    by (auto simp: stateless_turn_def waiting_user_def)
  have user: "process_user lib na cfg t ?b
      = (NextTurn, ?b\<lparr>bl_user := rt', bl_simulator := ?st\<lparr>sim_history := sim_history ?st @ [FTransmit OBJECT_USER (gear_event g) 0]\<rparr>\<rparr>)"
    using b p(1) by (simp add: process_user_def waiting_user_def)
  show ?thesis
    using b t sel user
    by (simp add: bridge_turn_def quiet_pump[OF quiet] process_ai_def stateless_turn_def ai_clear_def
        waiting_user_def gear_sent_def sim_sleep_def p(2) ai_registry_new_def)
qed

text \<open>A user aircraft that is spawned but has no state yet is dropped and selected again in every
  turn, and its last gear event is sent to the simulator again every time, at the rate of the loop.\<close>

theorem stateless_aircraft_resends_gear:
  assumes "quiet_lib lib" "waiting_user aid b" "\<forall>t \<in> set ts. stateless_turn lib cfg aid g t"
  shows "\<exists>b'. bridge_turns lib na cfg tick ts b = Some (NextTurn, b') \<and> waiting_user aid b'
    \<and> gear_sent g b' = gear_sent g b + length ts"
  using assms(2,3)
proof (induction ts arbitrary: b)
  case (Cons t ts)
  from stateless_step[of lib cfg aid g t b na tick] Cons.prems assms(1) obtain b1 where
    b1: "bridge_turn lib na cfg tick t b = Some (NextTurn, b1)" "waiting_user aid b1" "gear_sent g b1 = gear_sent g b + 1"
    by auto
  from Cons.IH[OF b1(2)] Cons.prems(2) b1 show ?case by auto
qed simp

lemma demo_stateless: "stateless_turn calm_lib demo_bridge_config ''a'' GearUp demo_turn"
proof -
  have one: "fle f_one f_one" "is_finite f_one" "\<not> is_infinite f_one" by (simp_all add: f64_eval)
  let ?spawn = "\<lparr>ev_time = f_one, ev_event = EvSpawn \<lparr>sp_name = ''a'', sp_toml_config = [], sp_initial_state = None,
      sp_telemetry_schemas = []\<rparr>\<rparr>" and ?gear = "\<lparr>ev_time = f_one, ev_event = EvCustom GEAR_UP\<rparr>"
  obtain x where x: "lookup (lt_store demo_turn) ''a'' = Some x" "states x = []" "events x = [?spawn, ?gear]"
    using one by (simp add: demo_turn_def append_event_def series_of_def lookup_def put_series_def store_new_def
        empty_series_def log_insert_def last_opt_Cons Let_def)
  have "store_inv (lt_store demo_turn)"
    using append_event_inv[OF append_event_inv[OF store_inv_new]] one(2) by (simp add: demo_turn_def)
  then have "latest_gear_command (lt_store demo_turn) ''a'' f_one = Some GearUp"
    using one x by (simp add: latest_is_last gear_history_def series_of_def map_filter_simps gear_command_from_event_def last_opt_Cons)
  moreover have "is_spawned_at ''a'' f_one (lt_store demo_turn)"
    using one x by (simp add: is_spawned_at_def Let_def take_partition_point lifecycle_of_def)
  moreover have "get_state_at_or_before ''a'' f_one (lt_store demo_turn) = None"
    using x by (simp add: get_state_at_or_before_def at_or_before_def partition_point_def checked_sub_def)
  ultimately show ?thesis
    using one by (simp add: stateless_turn_def resolve_aircraft_with_def select_aircraft_at_def loop_cursor_def
        demo_bridge_config_def demo_turn_def)
qed

lemma stateless_aircraft_resends_gear_witness:
  "\<exists>b b'. bridge_turns calm_lib demo_na demo_bridge_config 0 [demo_turn, demo_turn, demo_turn] b = Some (NextTurn, b')
    \<and> gear_sent GearUp b = 0 \<and> gear_sent GearUp b' = 3"
proof -
  let ?b = "(bridge_loop_new demo_bridge_config 0 (client_opened 0 []))\<lparr>bl_selected := Some ''a''\<rparr>"
  have "quiet_lib calm_lib" using calm_user by (simp add: quiet_lib_def calm_lib_def)
  moreover have "waiting_user ''a'' ?b" "gear_sent GearUp ?b = 0"
    by (simp_all add: waiting_user_def bridge_loop_new_def runtime_new_def session_user_def ai_registry_new_def
        gear_sent_def client_opened_def)
  ultimately show ?thesis
    using stateless_aircraft_resends_gear[of calm_lib "''a''" ?b "[demo_turn, demo_turn, demo_turn]" demo_bridge_config GearUp]
      demo_stateless by fastforce
qed

end
