(* ===== verification/Routes_Properties.thy ===== *)
theory Routes_Properties
  imports Routes Playback_Properties
begin

text \<open>
  What the management API of \<open>core/src/management/routes.rs\<close> promises: every call is answered with a
  valid JSON body and keeps the state sound, walking the timeline page by page reads every event
  once, and a WebSocket connection only reads: its snapshots agree with the REST answers of the same
  moment, and nothing a client sends over it changes anything.
\<close>

section \<open>Every call is answered\<close>

definition web_ok :: "ReplayConfig \<Rightarrow> 'b Web \<Rightarrow> bool" where
  "web_ok cfg w \<longleftrightarrow> store_inv (web_store w) \<and> inner_ok cfg (web_playback w)"

lemma web_ok_set_playback [simp]: "web_ok cfg (set_playback p w) \<longleftrightarrow> store_inv (web_store w) \<and> inner_ok cfg p"
  by (simp add: web_ok_def set_playback_def)

lemma set_playback_sel [simp]: "web_store (set_playback p w) = web_store w" "web_playback (set_playback p w) = p"
    "set_playback q (set_playback p w) = set_playback q w"
  by (simp_all add: set_playback_def)

lemma snapshot_answer:
  assumes "web_ok cfg w"
  obtains snap p where "playback_snapshot clk (web_store w) (web_playback w) = Some (Inr (snap, p))" "inner_ok cfg p"
proof -
  obtain r where r: "playback_snapshot clk (web_store w) (web_playback w) = Some r" "result_ok cfg r"
    using snapshot_ok assms unfolding web_ok_def by blast
  then show thesis using that by (auto simp: playback_snapshot_def result_ok_def Let_def)
qed

definition api_statuses :: "nat set" where
  "api_statuses = {200, 202, 400, 404, 405, 409, 500}"

definition answered :: "ReplayConfig \<Rightarrow> Reply \<times> 'b Web \<Rightarrow> bool" where
  "answered cfg = (\<lambda>(r, w). (case r of Dropped \<Rightarrow> False | Reply code v \<Rightarrow> code \<in> api_statuses \<and> json_ok v) \<and> web_ok cfg w)"

lemma api_status_known [simp]: "api_status e \<in> api_statuses" "200 \<in> api_statuses" "202 \<in> api_statuses"
  by (simp_all add: api_status_def api_statuses_def split: ApiError.split)

lemma answered_respond:
  "ok \<in> api_statuses \<Longrightarrow> (\<And>v. r = Inr v \<Longrightarrow> json_ok v) \<Longrightarrow> web_ok cfg w \<Longrightarrow> answered cfg (respond ok (r, w))"
  by (auto simp: answered_def respond_def split: sum.split)

lemma answered_answer:
  "h = Some (r, w') \<Longrightarrow> (\<And>v. r = Inr v \<Longrightarrow> json_ok v) \<Longrightarrow> web_ok cfg w' \<Longrightarrow> answered cfg (answer w h)"
  by (simp add: answer_def answered_respond)

definition sound_answer :: "(ApiError + JsonValue) option \<Rightarrow> bool" where
  "sound_answer h \<longleftrightarrow> (case h of None \<Rightarrow> False | Some (Inl _) \<Rightarrow> True | Some (Inr v) \<Rightarrow> json_ok v)"

lemma answered_read_only: "sound_answer h \<Longrightarrow> web_ok cfg w \<Longrightarrow> answered cfg (read_only w h)"
  unfolding read_only_def sound_answer_def
  by (cases h) (auto intro!: answered_answer split: sum.splits)

lemma validated_page_ok:
  "validated_page q = Inr (offset, limit) \<Longrightarrow> is_finite (rg_start q) \<and> is_finite (rg_end q) \<and> fle (rg_start q) (rg_end q)
     \<and> 1 \<le> limit \<and> limit \<le> MAX_PAGE_LIMIT"
  by (auto simp: validated_page_def float_cmp Let_def not_less not_le split: if_splits option.splits)

lemma page_members_ok: "(\<And>x. json_ok (f x)) \<Longrightarrow> list_all (\<lambda>(k, v). json_ok v) (page_members f pg)"
  by (simp add: page_members_def)

lemma page_reply_ok: "(\<And>x. json_ok (f x)) \<Longrightarrow> page_reply aid f found = Inr v \<Longrightarrow> json_ok v"
  by (auto simp: page_reply_def page_members_ok split: option.splits)

lemma pages_defined:
  assumes "store_inv s" "fle start end"
  shows "get_states_page aid start end offset limit s \<noteq> None" "get_events_page aid start end offset limit s \<noteq> None"
    "get_global_events_page start end offset limit s \<noteq> None"
  using assms
  by (auto simp: get_states_page_def get_events_page_def get_global_events_page_def collect_events_eq store_window split: option.split)

lemma with_page_sound:
  assumes "\<And>q offset limit. fle (rg_start q) (rg_end q) \<Longrightarrow> sound_answer (f q offset limit)"
  shows "sound_answer (with_page query f)"
  using assms validated_page_ok
  by (fastforce simp: with_page_def sound_answer_def split: sum.splits prod.splits)

lemma page_reply_sound: "h \<noteq> None \<Longrightarrow> (\<And>x. json_ok (f x)) \<Longrightarrow> sound_answer (map_option (page_reply aid f) h)"
    "g \<noteq> None \<Longrightarrow> (\<And>x. json_ok (f x)) \<Longrightarrow> sound_answer (map_option (\<lambda>pg. Inr (JObject (page_members f pg))) g)"
  using page_reply_ok[of f aid] by (auto simp: sound_answer_def page_members_ok split: sum.split)

lemma page_reads_sound:
  assumes "store_inv s"
  shows "sound_answer (aircraft_states na aid q s)" "sound_answer (aircraft_events na aid q s)"
    "sound_answer (timeline_events na q s)"
proof -
  show "sound_answer (aircraft_states na aid q s)" unfolding aircraft_states_def
    by (intro with_page_sound page_reply_sound) (simp_all add: pages_defined[OF assms] del: not_None_eq)
  show "sound_answer (aircraft_events na aid q s)" unfolding aircraft_events_def
    by (intro with_page_sound page_reply_sound) (simp_all add: pages_defined[OF assms] del: not_None_eq)
  show "sound_answer (timeline_events na q s)" unfolding timeline_events_def
    by (intro with_page_sound page_reply_sound) (simp_all add: pages_defined[OF assms] del: not_None_eq)
qed

lemma series_sound: "sound_answer (Some (series_catalog env aid s))" "sound_answer (Some (series_query_call env body s))"
  by (auto simp: sound_answer_def series_catalog_def series_query_call_def split: option.splits sum.splits)

lemma workspace_sound: "sound_answer (Some (workspace_get env w))"
  by (cases "workspace_load (we_json env) (we_read_fails env) (web_workspace w)")
    (auto simp: sound_answer_def workspace_get_def)

lemma listed_session_ok:
  "(\<And>b v. we_metadata env b = Some v \<Longrightarrow> json_ok v) \<Longrightarrow> json_ok (listed_session_json (we_metadata env) root name)"
  by (auto simp: listed_session_json_def json_option_def bind_eq_Some_conv split: option.splits DirEntry.splits)

lemma stored_sessions_sound:
  "(\<And>b v. we_metadata env b = Some v \<Longrightarrow> json_ok v) \<Longrightarrow> sound_answer (Some (stored_sessions env root))"
  using listed_session_ok[of env root] by (auto simp: sound_answer_def stored_sessions_def split: sum.splits)

lemma playback_call_answered: "web_ok (we_replay env) w \<Longrightarrow> answered (we_replay env) (answer w (playback_call env cmd w))"
proof (cases "json_body cmd")
  case (Inr c)
  assume w: "web_ok (we_replay env) w"
  obtain r where r: "run_playback (we_clock env) (we_replay env) (web_store w) c (web_playback w) = Some r" "result_ok (we_replay env) r"
    using w run_playback_ok unfolding web_ok_def by blast
  with w show ?thesis
    by (auto simp: playback_call_def Inr playback_reply_def result_ok_def web_ok_def[of _ w] intro!: answered_answer split: sum.split)
qed (auto simp: playback_call_def intro!: answered_answer)

lemma status_answered:
  assumes "web_ok (we_replay env) w"
  shows "answered (we_replay env) (answer w (status env w))" "answered (we_replay env) (answer w (aircraft_list env w))"
    "answered (we_replay env) (answer w (aircraft_state env aid q w))"
proof -
  obtain snap p where s: "playback_snapshot (we_clock env) (web_store w) (web_playback w) = Some (Inr (snap, p))" "inner_ok (we_replay env) p"
    by (rule snapshot_answer[OF assms])
  have inv: "store_inv (web_store w)" using assms by (simp add: web_ok_def)
  show "answered (we_replay env) (answer w (status env w))" "answered (we_replay env) (answer w (aircraft_list env w))"
    using s inv by (auto simp: status_def aircraft_list_def session_json_def Let_def intro!: answered_answer)
  show "answered (we_replay env) (answer w (aircraft_state env aid q w))"
    using s inv assms
    by (auto simp: aircraft_state_def resolve_aircraft_def state_reply_def intro!: answered_answer
        split: sum.splits option.splits if_splits)
qed

lemma accept_frame: "mg_store (snd (accept_job now i kind name job m)) = mg_store m
    \<and> mg_playback (snd (accept_job now i kind name job m)) = mg_playback m"
  by (simp add: accept_job_def split: prod.split sum.split)

lemma session_frames:
  "mg_store (snd (session_save now i name ow m)) = mg_store m \<and> mg_playback (snd (session_save now i name ow m)) = mg_playback m"
  "mg_store (snd (session_load now i name m)) = mg_store m \<and> mg_playback (snd (session_load now i name m)) = mg_playback m"
  by (simp_all add: accept_frame session_save_def session_load_def split: sum.split)

lemma session_replies_answered:
  assumes "web_ok cfg w"
  shows "answered cfg (respond 202 (save_reply env name body w))" "answered cfg (respond 202 (load_reply env name w))"
  using assms
  by (auto simp: session_frames save_reply_def load_reply_def accepted_json_def web_ok_def map_sum_def split_beta
      intro!: answered_respond split: sum.splits)

lemma clear_answered:
  assumes "web_ok cfg w"
  shows "answered cfg (respond 200 (clear_reply body w))"
proof -
  obtain r where "playback_reset_empty (web_playback w) = Some r" "result_ok cfg r"
    using assms reset_ok(1)[of "web_store w" cfg "web_playback w"] by (auto simp: web_ok_def)
  then show ?thesis
    using assms
    by (auto simp: clear_reply_def memory_clear_def web_ok_def result_ok_def clear_store_inv playback_reset_empty_def commit_def Let_def
        intro!: answered_respond split: sum.splits)
qed

lemma put_answered: "web_ok cfg w \<Longrightarrow> answered cfg (respond 200 (workspace_put env body w))"
  by (auto simp: workspace_put_def Let_def web_ok_def intro!: answered_respond split: sum.split)

text \<open>C8: Whatever call reaches the management API, in any state with a sound store and playback
  controller, no handler panics: the client gets one of the API's status codes with a JSON body in
  which every number is finite, and the state is sound again.\<close>

theorem http_calls_answered:
  assumes w: "web_ok (we_replay env) w" and meta: "\<And>b v. we_metadata env b = Some v \<Longrightarrow> json_ok v"
  shows "case serve_call env call w of
      (Dropped, _) \<Rightarrow> False
    | (Reply code v, w') \<Rightarrow> code \<in> {200, 202, 400, 404, 405, 409, 500} \<and> json_ok v \<and> web_ok (we_replay env) w'"
proof -
  have inv: "store_inv (web_store w)" using w by (simp add: web_ok_def)
  have "answered (we_replay env) (serve_call env call w)"
    using w by (cases call)
      (auto simp: status_answered playback_call_answered session_replies_answered clear_answered put_answered health_def
        sound_answer_def[of "Some (operation_status _ _)"] operation_status_def sound_answer_def[of "Some (Inl _)"]
        sound_answer_def[of "Some (Inr _)"]
        intro!: answered_read_only page_reads_sound[OF inv] series_sound workspace_sound stored_sessions_sound[of env, OF meta]
        split: option.split)
  then show ?thesis
    by (auto simp: answered_def api_statuses_def split: Reply.splits prod.splits)
qed

definition demo_core :: "nat Management" where
  "demo_core = management_new demo_store (playback_new replay_config_default) (\<lambda>_. None)"

definition demo_web :: "nat Web" where
  "demo_web = \<lparr>web_core = demo_core,
     web_workspace = \<lparr>ws_files = \<lparr>main_file = None, backup_file = None, temporary_file = None\<rparr>, ws_revision = 0\<rparr>,
     web_sessions = None, web_enabled = True, web_dropped = 0\<rparr>"

definition plain_env :: "nat WebEnv \<Rightarrow> nat WebEnv" where
  "plain_env env = env\<lparr>we_replay := replay_config_default, we_metadata := \<lambda>_. None\<rparr>"

lemma demo_web_ok: "web_ok replay_config_default demo_web"
  by (simp add: web_ok_def demo_web_def demo_core_def management_new_def demo_inv playback_new_ok[OF default_config_ok])

lemma http_calls_answered_witness:
  "\<forall>env. case serve_call (plain_env env) (GetTimeline (Inr \<lparr>rg_start = time_1, rg_end = time_3, rg_offset = None, rg_limit = Some 5\<rparr>)) demo_web of
      (Dropped, _) \<Rightarrow> False
    | (Reply code v, w') \<Rightarrow> code \<in> {200, 202, 400, 404, 405, 409, 500} \<and> json_ok v \<and> web_ok replay_config_default w'"
proof
  fix env :: "nat WebEnv"
  have r: "we_replay (plain_env env) = replay_config_default" by (simp add: plain_env_def)
  have m: "\<And>b v. we_metadata (plain_env env) b = Some v \<Longrightarrow> json_ok v" by (simp add: plain_env_def)
  show "case serve_call (plain_env env) (GetTimeline (Inr \<lparr>rg_start = time_1, rg_end = time_3, rg_offset = None, rg_limit = Some 5\<rparr>)) demo_web of
      (Dropped, _) \<Rightarrow> False
    | (Reply code v, w') \<Rightarrow> code \<in> {200, 202, 400, 404, 405, 409, 500} \<and> json_ok v \<and> web_ok replay_config_default w'"
    by (rule http_calls_answered[of "plain_env env" demo_web, unfolded r, OF demo_web_ok m])
qed

section \<open>Walking the timeline\<close>

text \<open>C9: A client that reads the timeline of a valid range page by page, at offsets 0, n, 2n, ..., gets
  status 200 and pages of at most the limit that concatenate to every in-range event of every
  aircraft exactly once, sorted by timestamp and aircraft.\<close>

theorem timeline_walk_complete:
  assumes inv: "store_inv s" and range: "is_finite start" "is_finite end" "fle start end"
    and limit: "1 \<le> n" "n \<le> MAX_PAGE_LIMIT"
  shows "\<exists>es. mset es = mset (all_events start end (data s)) \<and> sorted (List.map event_order es)
    \<and> (\<forall>i. timeline_events na (Inr \<lparr>rg_start = start, rg_end = end, rg_offset = Some (i * n), rg_limit = Some n\<rparr>) s
          = Some (Inr (JObject [(''total'', json_usize (length es)), (''offset'', json_usize (i * n)), (''limit'', json_usize n),
              (''items'', json_list (global_event_json na) (take n (drop (i * n) es)))])))
    \<and> (\<forall>k. length es \<le> k * n \<longrightarrow> concat (List.map (\<lambda>i. take n (drop (i * n) es)) [0..<k]) = es)"
proof -
  define raw where "raw = concat (List.map (\<lambda>i. case lookup s i of None \<Rightarrow> [] | Some x \<Rightarrow>
       List.map (global_event i) (window_filter ev_time start end (events x))) (get_aircraft_ids s))"
  define es where "es = sort_key event_order raw"
  have "get_global_events_page start end (i * n) n s = Some (page_slice es (i * n) n)" for i
    by (simp add: get_global_events_page_def collect_events_eq[OF inv range(3)] es_def raw_def)
  moreover have "validated_page \<lparr>rg_start = start, rg_end = end, rg_offset = Some (i * n), rg_limit = Some n\<rparr> = Inr (i * n, n)" for i
    using range limit by (auto simp: validated_page_def float_cmp)
  ultimately have page: "timeline_events na (Inr \<lparr>rg_start = start, rg_end = end, rg_offset = Some (i * n), rg_limit = Some n\<rparr>) s
      = Some (Inr (JObject (page_members (global_event_json na) (page_slice es (i * n) n))))" for i
    by (simp add: timeline_events_def with_page_def query_body_def)
  have "mset es = mset (all_events start end (data s))"
    using mset_all_events[OF inv, of start "end"] by (simp add: es_def raw_def)
  moreover have "sorted (List.map event_order es)" by (simp add: es_def)
  moreover have "page_members (global_event_json na) (page_slice es (i * n) n)
      = [(''total'', json_usize (length es)), (''offset'', json_usize (i * n)), (''limit'', json_usize n),
         (''items'', json_list (global_event_json na) (take n (drop (i * n) es)))]" for i
    using page_slice_items[of es "i * n" n] by (simp add: page_members_def) (simp add: page_slice_def Let_def)
  ultimately show ?thesis
    using page by (intro exI[of _ es]) (simp add: concat_pages)
qed

lemma timeline_walk_complete_witness:
  "\<forall>na. \<exists>es. mset es = mset (all_events time_1 time_3 (data demo_store)) \<and> sorted (List.map event_order es)
    \<and> timeline_events na (Inr \<lparr>rg_start = time_1, rg_end = time_3, rg_offset = Some 0, rg_limit = Some 2\<rparr>) demo_store
          = Some (Inr (JObject [(''total'', json_usize (length es)), (''offset'', json_usize 0), (''limit'', json_usize 2),
              (''items'', json_list (global_event_json na) (take 2 es))]))"
proof
  fix na
  have "fle time_1 time_3" by (simp add: float_cmp)
  from timeline_walk_complete[OF demo_inv _ _ this, of 2 na]
  obtain es where "mset es = mset (all_events time_1 time_3 (data demo_store))" "sorted (List.map event_order es)"
    "timeline_events na (Inr \<lparr>rg_start = time_1, rg_end = time_3, rg_offset = Some (0 * 2), rg_limit = Some 2\<rparr>) demo_store
          = Some (Inr (JObject [(''total'', json_usize (length es)), (''offset'', json_usize (0 * 2)), (''limit'', json_usize 2),
              (''items'', json_list (global_event_json na) (take 2 (drop (0 * 2) es)))]))"
    by (fastforce simp: MAX_PAGE_LIMIT_def)
  then show "\<exists>es. mset es = mset (all_events time_1 time_3 (data demo_store)) \<and> sorted (List.map event_order es)
    \<and> timeline_events na (Inr \<lparr>rg_start = time_1, rg_end = time_3, rg_offset = Some 0, rg_limit = Some 2\<rparr>) demo_store
          = Some (Inr (JObject [(''total'', json_usize (length es)), (''offset'', json_usize 0), (''limit'', json_usize 2),
              (''items'', json_list (global_event_json na) (take 2 es))]))"
    by (intro exI[of _ es]) simp
qed

section \<open>WebSocket\<close>

lemma keyed_map_filter:
  fixes f :: "'a \<Rightarrow> 'b option"
  defines "m \<equiv> List.map_filter (\<lambda>a. map_option (Pair a) (f a))"
  shows "map_of (m xs) a = (if a \<in> set xs then f a else None)" "length (m xs) \<le> length xs"
    "fst ` set (m xs) \<subseteq> set xs" "distinct xs \<Longrightarrow> distinct (List.map fst (m xs))"
proof -
  show "map_of (m xs) a = (if a \<in> set xs then f a else None)"
    by (induction xs) (auto simp: m_def map_filter_simps split: option.split)
  show "length (m xs) \<le> length xs"
    by (induction xs) (auto simp: m_def map_filter_simps split: option.split)
  have sub: "fst ` set (m ys) \<subseteq> set ys" for ys
    by (induction ys) (auto simp: m_def map_filter_simps split: option.split)
  show "fst ` set (m xs) \<subseteq> set xs" by (rule sub)
  have "distinct (List.map fst (m (y # ys)))" if "y \<notin> set ys" "distinct (List.map fst (m ys))" for y ys
    using that sub[of ys] by (cases "f y") (auto simp: m_def map_filter_simps)
  then show "distinct xs \<Longrightarrow> distinct (List.map fst (m xs))"
    by (induction xs) (simp_all add: m_def map_filter_simps)
qed

lemma ws_aircraft_facts:
  "map_of (ws_aircraft na snap s ids) aid = (if aid \<in> set ids then ws_entry na snap s aid else None)"
  "length (ws_aircraft na snap s ids) \<le> length ids" "distinct (List.map fst (ws_aircraft na snap s ids))"
  by (simp_all add: ws_aircraft_def keyed_map_filter(1,4) le_trans[OF keyed_map_filter(2) length_remdups_leq])

text \<open>C25: A WebSocket snapshot never panics. It holds at most 64 aircraft and says whether the list was cut;
  its cursor is the one the playback endpoint would report at that moment, and it has an entry for an
  aircraft exactly where a state request at that moment would find one, with the same sample and
  lifecycle flag.\<close>

theorem websocket_agrees_with_rest:
  assumes w: "web_ok (we_replay env) w"
  shows "\<exists>snap p aircraft.
      websocket_snapshot env requested n w = Some (JObject
          [(''type'', JString ''snapshot''), (''sequence'', json_u64 n), (''server_time_secs'', json_f64 (we_now env)),
           (''playback'', playback_json snap), (''store'', store_stats_json (web_store w)), (''aircraft'', JObject aircraft),
           (''truncated'', JBool (64 < length (ws_ids requested (web_store w))))], set_playback p w)
    \<and> playback_call env (Inr CmdSnapshot) w = Some (Inr (playback_json snap), set_playback p w)
    \<and> length aircraft \<le> 64 \<and> distinct (List.map fst aircraft)
    \<and> (\<forall>aid \<in> set (take 64 (ws_ids requested (web_store w))).
         aircraft_state env aid (Inr None) w = Some (case map_of aircraft aid of
             None \<Rightarrow> Inl (NotFoundError ''state_not_found'' ''aircraft state not found'')
           | Some (JObject entry) \<Rightarrow> Inr (JObject ((''aircraft_id'', JString aid) # entry)), set_playback p w))"
proof -
  obtain snap p where s: "playback_snapshot (we_clock env) (web_store w) (web_playback w) = Some (Inr (snap, p))"
    by (rule snapshot_answer[OF w])
  let ?ids = "take MAX_WS_AIRCRAFT (ws_ids requested (web_store w))"
  let ?aircraft = "ws_aircraft (we_nalgebra env) snap (web_store w) ?ids"
  have size: "length ?aircraft \<le> 64"
    by (rule le_trans[OF ws_aircraft_facts(2)]) (simp add: MAX_WS_AIRCRAFT_def)
  have agrees: "aircraft_state env aid (Inr None) w = Some (case map_of ?aircraft aid of
             None \<Rightarrow> Inl (NotFoundError ''state_not_found'' ''aircraft state not found'')
           | Some (JObject entry) \<Rightarrow> Inr (JObject ((''aircraft_id'', JString aid) # entry)), set_playback p w)"
    if "aid \<in> set ?ids" for aid
    unfolding ws_aircraft_facts(1) using that s
    by (cases "resolve_aircraft_with snap aid (web_store w)")
      (simp_all add: aircraft_state_def query_body_def resolve_aircraft_def ws_entry_def state_reply_def)
  have snapshot: "websocket_snapshot env requested n w = Some (JObject
          [(''type'', JString ''snapshot''), (''sequence'', json_u64 n), (''server_time_secs'', json_f64 (we_now env)),
           (''playback'', playback_json snap), (''store'', store_stats_json (web_store w)), (''aircraft'', JObject ?aircraft),
           (''truncated'', JBool (64 < length (ws_ids requested (web_store w))))], set_playback p w)"
    using s by (simp add: websocket_snapshot_def Let_def MAX_WS_AIRCRAFT_def)
  have rest: "playback_call env (Inr CmdSnapshot) w = Some (Inr (playback_json snap), set_playback p w)"
    using s by (simp add: playback_call_def json_body_def playback_reply_def)
  show ?thesis
    by (intro exI[of _ snap] exI[of _ p] exI[of _ ?aircraft] conjI ballI)
      (rule snapshot, rule rest, rule size, rule ws_aircraft_facts(3), rule agrees, simp add: MAX_WS_AIRCRAFT_def)
qed

lemma websocket_agrees_with_rest_witness:
  "\<forall>env. \<exists>aircraft v w. websocket_snapshot (plain_env env) (Some [''07'', ''99'']) 1 demo_web = Some (v, w)
     \<and> length aircraft \<le> 64 \<and> aircraft_state (plain_env env) ''99'' (Inr None) demo_web
         = Some (case map_of aircraft ''99'' of
             None \<Rightarrow> Inl (NotFoundError ''state_not_found'' ''aircraft state not found'')
           | Some (JObject entry) \<Rightarrow> Inr (JObject ((''aircraft_id'', JString ''99'') # entry)), w)"
proof
  fix env :: "nat WebEnv"
  have "web_ok (we_replay (plain_env env)) demo_web" using demo_web_ok by (simp add: plain_env_def)
  from websocket_agrees_with_rest[OF this, of "Some [''07'', ''99'']" 1]
  show "\<exists>aircraft v w. websocket_snapshot (plain_env env) (Some [''07'', ''99'']) 1 demo_web = Some (v, w)
     \<and> length aircraft \<le> 64 \<and> aircraft_state (plain_env env) ''99'' (Inr None) demo_web
         = Some (case map_of aircraft ''99'' of
             None \<Rightarrow> Inl (NotFoundError ''state_not_found'' ''aircraft state not found'')
           | Some (JObject entry) \<Rightarrow> Inr (JObject ((''aircraft_id'', JString ''99'') # entry)), w)"
    by (auto simp: ws_ids_def)
qed

definition ws_tick :: "'b WebEnv \<times> WsInput \<times> bool \<Rightarrow> bool" where
  "ws_tick x \<longleftrightarrow> fst (snd x) = WsTick"

lemma ws_step_other:
  "fst (snd x) \<noteq> WsTick \<Longrightarrow> ws_step (fst x) requested (snd x) st = (stop, st')
     \<Longrightarrow> stop \<noteq> WsPanicked \<and> wl_web st' = wl_web st \<and> wl_sequence st' = wl_sequence st"
  by (cases "fst (snd x)") (auto simp: ws_step_def ws_send_def split_beta split: option.splits if_splits)

lemma ws_step_tick:
  assumes "fst (snd x) = WsTick" "web_ok (we_replay (fst x)) (wl_web st)"
  obtains v p where "websocket_snapshot (fst x) requested (wl_sequence st + 1) (wl_web st) = Some (v, set_playback p (wl_web st))"
    "inner_ok (we_replay (fst x)) p"
    "ws_step (fst x) requested (snd x) st
       = ws_send (snd (snd x)) (WsJson v) (st\<lparr>wl_sequence := wl_sequence st + 1, wl_web := set_playback p (wl_web st)\<rparr>)"
proof -
  obtain snap p where "playback_snapshot (we_clock (fst x)) (web_store (wl_web st)) (web_playback (wl_web st)) = Some (Inr (snap, p))"
    "inner_ok (we_replay (fst x)) p"
    by (rule snapshot_answer[OF assms(2)])
  then show thesis
    using that assms(1) by (auto simp: websocket_snapshot_def ws_step_def Let_def split_beta)
qed

lemma ws_loop_reads:
  assumes "web_ok cfg (wl_web st)" "\<forall>x \<in> set xs. we_replay (fst x) = cfg" "ws_loop requested xs st = (stop, st')"
  shows "stop \<noteq> WsPanicked \<and> (\<exists>p. wl_web st' = set_playback p (wl_web st))"
  using assms
proof (induction xs arbitrary: st)
  case Nil
  have "wl_web st = set_playback (web_playback (wl_web st)) (wl_web st)" by (simp add: set_playback_def)
  with Nil show ?case by auto
next
  case (Cons x xs)
  obtain next1 st1 where s: "ws_step (fst x) requested (snd x) st = (next1, st1)" by (cases "ws_step (fst x) requested (snd x) st")
  have step: "next1 \<noteq> WsPanicked \<and> (\<exists>p. wl_web st1 = set_playback p (wl_web st)) \<and> web_ok cfg (wl_web st1)"
  proof (cases "fst (snd x) = WsTick")
    case True
    have w: "web_ok (we_replay (fst x)) (wl_web st)" and r: "we_replay (fst x) = cfg" using Cons.prems(1,2) by simp_all
    obtain v p where p: "inner_ok (we_replay (fst x)) p" and e: "ws_step (fst x) requested (snd x) st
         = ws_send (snd (snd x)) (WsJson v) (st\<lparr>wl_sequence := wl_sequence st + 1, wl_web := set_playback p (wl_web st)\<rparr>)"
      by (rule ws_step_tick[OF True w, of requested])
    have "next1 \<noteq> WsPanicked \<and> wl_web st1 = set_playback p (wl_web st)"
      using s unfolding e ws_send_def by (auto split: if_splits)
    moreover have "web_ok cfg (set_playback p (wl_web st))" using p r Cons.prems(1) by (simp add: web_ok_def set_playback_def)
    ultimately show ?thesis by auto
  next
    case False
    have "wl_web st = set_playback (web_playback (wl_web st)) (wl_web st)" by (simp add: set_playback_def)
    with ws_step_other[OF False s] Cons.prems(1) show ?thesis by auto
  qed
  show ?case
  proof (cases "next1 = WsContinue")
    case True
    with Cons.prems s have "ws_loop requested xs st1 = (stop, st')" by (cases x) auto
    from Cons.IH[OF _ _ this] step Cons.prems(2) show ?thesis by auto
  next
    case False
    with Cons.prems s step show ?thesis by (cases x; cases next1) auto
  qed
qed

text \<open>What the client sends, pings and notifications change nothing: without them the ticks end the same.\<close>

lemma ws_loop_ticks:
  assumes "ws_loop requested xs st = (WsContinue, st')" "wl_web u = wl_web st" "wl_sequence u = wl_sequence st"
  shows "\<exists>u'. ws_loop requested (filter ws_tick xs) u = (WsContinue, u') \<and> wl_web u' = wl_web st' \<and> wl_sequence u' = wl_sequence st'"
  using assms
proof (induction xs arbitrary: st u)
  case (Cons x xs)
  obtain env input sends where x: "x = (env, input, sends)" by (cases x) auto
  obtain next1 st1 where s: "ws_step env requested (input, sends) st = (next1, st1)" by (cases "ws_step env requested (input, sends) st")
  with Cons.prems x have n: "next1 = WsContinue" and rest: "ws_loop requested xs st1 = (WsContinue, st')"
    by (cases next1; simp)+
  show ?case
  proof (cases "input = WsTick")
    case True
    then obtain v w where "websocket_snapshot env requested (wl_sequence st + 1) (wl_web st) = Some (v, w)" "sends"
        "st1 = st\<lparr>wl_sequence := wl_sequence st + 1, wl_web := w, wl_sent := wl_sent st @ [WsJson v]\<rparr>"
      using s n by (auto simp: ws_step_def Let_def ws_send_def split: option.splits if_splits)
    then obtain u1 where "ws_step env requested (input, sends) u = (WsContinue, u1)"
        "wl_web u1 = wl_web st1" "wl_sequence u1 = wl_sequence st1"
      using True Cons.prems(2,3) by (auto simp: ws_step_def Let_def ws_send_def)
    with Cons.IH[OF rest] True show ?thesis by (auto simp: x ws_tick_def)
  next
    case False
    with ws_step_other[of x requested st] s have "wl_web st1 = wl_web st" "wl_sequence st1 = wl_sequence st" by (auto simp: x)
    with Cons.IH[OF rest] Cons.prems(2,3) False show ?thesis by (auto simp: x ws_tick_def)
  qed
qed simp



end
