(* ===== verification/Config_Properties.thy ===== *)
theory Config_Properties
  imports Bridge_Config Gear Publisher_Properties
begin

text \<open>
  What a resolved configuration guarantees (\<open>server/src/config.rs\<close>, \<open>bindings/msfs/src/config.rs\<close>):
  a server configuration starts the publisher and a sound playback controller. Two accepted settings
  do not do what they say: an aircraft identifier in upper case selects no aircraft that producers
  can announce, and a tiny rate panics the task that uses it.
\<close>

section \<open>Server\<close>

lemma server_resolve_Inr:
  assumes "server_resolve os u32_text read a = Inr c"
  obtains f base where "file_config read server_file_default (sc_config_path c) = Inr f" "current_dir os = Inr base"
    "sc_runtime c = server_runtime os base a f"
    "unwrap_or (sf_schema_version f) RUNTIME_CONFIG_SCHEMA_VERSION = RUNTIME_CONFIG_SCHEMA_VERSION"
    "list_all (\<lambda>(bad, text). \<not> bad) (server_checks c)"
  using assms
  by (auto simp: server_resolve_def Let_def first_error_None split: sum.splits if_splits option.splits)

lemma positive_rate_flt: "positive_rate hz \<longleftrightarrow> is_finite hz \<and> flt f_zero hz"
  by (auto simp: positive_rate_def float_cmp)

lemma replay_checked: "\<not> speeds_bad r \<Longrightarrow> replay_config_ok r"
  by (auto simp: speeds_bad_def replay_config_ok_def f_within_def float_cmp)

text \<open>A server configuration that resolves can be started: the cursor stream accepts it, a playback
  controller made from it is sound (so no playback command ever panics), a session outlives at least
  one heartbeat, and the timing settings are the command line's where it gives them.\<close>

theorem resolved_server_config_starts:
  assumes "server_resolve os u32_text read a = Inr c"
  shows "validate_stream_config (rc_cursor_stream (sc_runtime c)) = Inr ()
    \<and> replay_config_ok (rc_replay (sc_runtime c)) \<and> inner_ok (rc_replay (sc_runtime c)) (playback_new (rc_replay (sc_runtime c)))
    \<and> 0 < heartbeat_interval_secs (rc_transport (sc_runtime c))
    \<and> heartbeat_interval_secs (rc_transport (sc_runtime c)) < heartbeat_timeout_secs (rc_transport (sc_runtime c))
    \<and> event_retry_limit (rc_cursor_stream (sc_runtime c)) = event_retry_limit cursor_config_default
    \<and> (\<forall>hz. sa_cursor_publish_hz a = Some hz \<longrightarrow> publish_hz (rc_cursor_stream (sc_runtime c)) = hz)
    \<and> (\<forall>hz. sa_ws_hz a = Some hz \<longrightarrow> websocket_hz (rc_management (sc_runtime c)) = hz)"
proof -
  obtain f base where r: "sc_runtime c = server_runtime os base a f" and checks: "list_all (\<lambda>(bad, text). \<not> bad) (server_checks c)"
    by (rule server_resolve_Inr[OF assms])
  have replay: "replay_config_ok (rc_replay (sc_runtime c))"
    using checks by (intro replay_checked) (simp add: server_checks_def Let_def)
  have "validate_stream_config (rc_cursor_stream (sc_runtime c)) = Inr ()"
    using checks by (auto simp: server_checks_def Let_def validate_stream_config_def positive_rate_def)
  moreover have "0 < heartbeat_interval_secs (rc_transport (sc_runtime c))"
    "heartbeat_interval_secs (rc_transport (sc_runtime c)) < heartbeat_timeout_secs (rc_transport (sc_runtime c))"
    using checks by (auto simp: server_checks_def Let_def word_neq_0_conv)
  ultimately show ?thesis
    using replay playback_new_ok[OF replay]
    by (auto simp: r server_runtime_def Let_def unwrap_or_def setting_def opt_or_def)
qed

definition no_args :: ServerArgs where
  "no_args = \<lparr>sa_config = None, sa_udp_listen = None, sa_http_listen = None, sa_data_root = None, sa_web_root = None,
     sa_public_api_base_url = None, sa_public_websocket_url = None, sa_ws_hz = None, sa_cors_origins = [], sa_http = False,
     sa_no_http = False, sa_heartbeat_interval_secs = None, sa_heartbeat_timeout_secs = None, sa_cursor_publish_hz = None,
     sa_max_subscribers = None, sa_playback_default_speed = None, sa_playback_min_speed = None,
     sa_playback_max_speed = None, sa_log_level = None, sa_log_file = None\<rparr>"

definition demo_platform :: Platform where
  "demo_platform = \<lparr>is_absolute = (\<lambda>p. take 1 p = ''/''), join = (\<lambda>b p. b @ ''/'' @ p), is_file = (\<lambda>_. False),
     current_dir = Inr ''/srv''\<rparr>"

text \<open>What the command line \<open>--cursor-publish-hz 60\<close> alone resolves to.\<close>

definition demo_args :: ServerArgs where
  "demo_args = no_args\<lparr>sa_cursor_publish_hz := Some (F64 0x404E000000000000)\<rparr>"

definition demo_server_config :: ServerConfig where
  "demo_server_config = \<lparr>sc_udp_listen = ''127.0.0.1:18002'', sc_management_enabled = True,
     sc_management_listen = ''127.0.0.1:18003'', sc_runtime = server_runtime demo_platform ''/srv'' demo_args server_file_default,
     sc_config_path = None\<rparr>"

lemma demo_checks: "first_error (server_checks demo_server_config) = None"
  by (simp add: first_error_None server_checks_def demo_server_config_def server_runtime_def demo_args_def no_args_def
      server_file_default_def management_section_default_def logging_section_default_def logging_of_def cursor_stream_file_default_def
      management_config_default_def transport_config_default_def replay_config_default_def setting_def opt_or_def unwrap_or_def
      cursor_config_default_def Let_def speeds_bad_def positive_rate_def f64_eval trim_is_empty_def blank_codes.simps)

lemma demo_resolves: "server_resolve demo_platform (\<lambda>_. []) (\<lambda>_. Inl []) demo_args = Inr demo_server_config"
  using demo_checks
  by (simp add: server_resolve_def demo_server_config_def config_path_of_def demo_args_def no_args_def opt_or_def demo_platform_def
      file_config_def server_file_default_def management_section_default_def enabled_setting_def setting_def unwrap_or_def Let_def)

lemma resolved_server_config_starts_witness:
  "validate_stream_config (rc_cursor_stream (sc_runtime demo_server_config)) = Inr ()
    \<and> publish_hz (rc_cursor_stream (sc_runtime demo_server_config)) = F64 0x404E000000000000"
  using resolved_server_config_starts[OF demo_resolves] by (simp add: demo_args_def)

section \<open>Bridge\<close>

lemma bridge_resolve_checks: "bridge_resolve os read a = Inr c \<Longrightarrow> list_all (\<lambda>(bad, text). \<not> bad) (bridge_checks c)"
  by (auto simp: bridge_resolve_def Let_def first_error_None split: sum.splits option.splits)

text \<open>Stores that only messages have filled: every identifier is lower-case hexadecimal or \<open>unknown\<close>.\<close>

inductive ingested :: "TimeSeriesStore \<Rightarrow> bool" where
  new: "ingested store_new"
| message: "ingested s \<Longrightarrow> ingested (append_message now msg s)"

definition upper_hex :: "char set" where
  "upper_hex = set ''ABCDEF''"

lemma hex_digit_lower: "n < 16 \<Longrightarrow> hex_digit n \<notin> upper_hex"
  by (auto simp: hex_digit_def upper_hex_def numeral_eq_Suc less_Suc_eq)

lemma event_id_lower: "set (event_aircraft_id e) \<inter> upper_hex = {}"
proof (cases "ae_aircraft_id e")
  case None
  then show ?thesis by (simp add: event_aircraft_id_def upper_hex_def)
next
  case (Some u)
  have "set (byte_hex b) \<inter> upper_hex = {}" for b
    using hex_digit_lower[OF nibble_less(1)[of b]] hex_digit_lower[OF nibble_less(2)[of b]] by (simp add: byte_hex_def)
  then show ?thesis by (fastforce simp: Some event_aircraft_id_def uuid_to_hex_def)
qed

lemma ingested_lower: "ingested s \<Longrightarrow> lookup s aid \<noteq> None \<Longrightarrow> set aid \<inter> upper_hex = {}"
proof (induction rule: ingested.induct)
  case (message s now msg)
  show ?case
  proof (cases "message_target msg = Some aid")
    case True
    then show ?thesis using event_id_lower by (auto simp: message_target_def split: option.splits Envelope.splits RequestKind.splits)
  next
    case False
    then show ?thesis using message_frame[of msg aid now s] message by simp
  qed
qed simp

text \<open>The bridge accepts an aircraft identifier with upper-case hexadecimal digits, but then never
  drives an aircraft: whatever messages arrive, no cursor selects it.\<close>

theorem upper_case_id_never_selected:
  assumes "bridge_resolve os read a = Inr c" "bc_aircraft_id c = Some aid" "set aid \<inter> upper_hex \<noteq> {}" "ingested s"
  shows "length aid = 32 \<and> list_all ascii_hexdigit aid \<and> select_aircraft_at s (bc_aircraft_id c) t = None"
proof -
  have "lookup s aid = None" using ingested_lower[OF assms(4), of aid] assms(3) by auto
  then have "select_aircraft_at s (Some aid) t = None" by (simp add: select_aircraft_at_def is_spawned_at_def)
  moreover have "\<not> aircraft_id_bad (Some aid)"
    using bridge_resolve_checks[OF assms(1)] assms(2) by (simp add: bridge_checks_def)
  ultimately show ?thesis by (simp add: assms(2) aircraft_id_bad_def)
qed

definition upper_id :: string where
  "upper_id = ''0123456789ABCDEF0123456789ABCDEF''"

definition upper_args :: BridgeArgs where
  "upper_args = \<lparr>ba_config = None, ba_listen = None, ba_aircraft_id = Some upper_id, ba_tick_hz = None, ba_render_hz = None,
     ba_interpolation_delay_ms = None, ba_max_extrapolation_ms = None, ba_smoothing_mode = None, ba_stale_timeout_ms = None,
     ba_enable_ai_aircraft = False, ba_ai_aircraft_title = None, ba_max_ai_aircraft = None, ba_http_listen = None,
     ba_data_root = None, ba_web_root = None, ba_public_api_base_url = None, ba_public_websocket_url = None, ba_ws_hz = None,
     ba_cors_origins = [], ba_http = False, ba_no_http = False, ba_log_level = None, ba_log_file = None\<rparr>"

definition upper_config :: BridgeConfig where
  "upper_config = bridge_settings demo_platform ''/srv'' LowLatency None upper_args bridge_file_default"

lemma upper_resolves: "bridge_resolve demo_platform (\<lambda>_. Inl []) upper_args = Inr upper_config"
proof -
  have "first_error (bridge_checks upper_config) = None"
    by (simp add: first_error_None bridge_checks_def upper_config_def bridge_settings_def upper_args_def bridge_file_default_def
        management_section_default_def Let_def positive_rate_def f64_eval bridge_runtime_def setting_def opt_or_def unwrap_or_def
        smoothing_of_def smoothing_config_default_def aircraft_id_bad_def upper_id_def ascii_hexdigit_def)
  then show ?thesis
    by (simp add: bridge_resolve_def upper_config_def config_path_of_def upper_args_def opt_or_def demo_platform_def file_config_def
        bridge_file_default_def setting_def unwrap_or_def smoothing_parse_def Let_def)
qed

lemma upper_case_id_never_selected_witness:
  "select_aircraft_at (append_message 5 (demo_request time_1 (StateUpdate empty_state)) store_new) (bc_aircraft_id upper_config) time_1 = None"
proof -
  have "ingested (append_message 5 (demo_request time_1 (StateUpdate empty_state)) store_new)"
    by (intro ingested.intros)
  moreover have "bc_aircraft_id upper_config = Some upper_id"
    by (simp add: upper_config_def bridge_settings_def upper_args_def bridge_file_default_def opt_or_def Let_def)
  ultimately show ?thesis
    using upper_case_id_never_selected[OF upper_resolves, of upper_id] by (simp add: upper_id_def upper_hex_def)
qed

end
