(* ===== verification/Web_Server_Properties.thy ===== *)
theory Web_Server_Properties
  imports Web_Server Publisher_Properties
begin

text \<open>
  What the start of the management server promises (\<open>core/src/management/server.rs\<close>): no
  configuration value can put markup into the served page; and what it accepts although it cannot
  work: a rate so small that every WebSocket connection panics right after the greeting.
\<close>

lemma count_list_replace_all:
  "c \<notin> set p \<Longrightarrow> c \<notin> set r \<Longrightarrow> count_list (replace_all p r s) c = count_list s c"
proof (induction p r s rule: replace_all.induct)
  case (1 p r s)
  show ?case
  proof (cases "s \<noteq> [] \<and> p \<noteq> [] \<and> starts_with p s")
    case True
    then have s: "s = p @ drop (length p) s" by (metis append_take_drop_id starts_with_def)
    have "count_list s c = count_list p c + count_list (drop (length p) s) c" by (subst s) (rule count_list_append)
    moreover have "count_list r c = 0" "count_list p c = 0" using 1(3,4) by (simp_all add: count_list_0_iff)
    ultimately show ?thesis using True 1 by (subst replace_all.simps) simp
  next
    case False
    then show ?thesis using 1(2)[OF _ _ 1(3,4)] by (cases s; subst replace_all.simps) auto
  qed
qed

lemma escape_markup_inert: "set (escape_markup s) \<inter> {CHR ''<'', CHR ''>'', CHR ''&''} = {}"
  by (auto simp: escape_markup_def)

text \<open>Whatever the configured public URLs are and however they are printed, the served page has the
  markup characters of the index file and no others: nothing injected can open or close a tag or
  start an entity.\<close>

theorem injected_config_inert:
  assumes "load_rendered_web_index to_string index c = Inr (Some (root, page))"
  shows "web_root c = Some root \<and> (\<exists>source. index root = Some (Inr source) \<and> contains WEB_CONFIG_SENTINEL source
    \<and> (\<forall>ch \<in> {CHR ''<'', CHR ''>'', CHR ''&''}. count_list page ch = count_list source ch))"
proof -
  obtain source where s: "web_root c = Some root" "index root = Some (Inr source)" "contains WEB_CONFIG_SENTINEL source"
    "page = replace_all WEB_CONFIG_SENTINEL (escape_markup (to_string (web_runtime_json c))) source"
    using assms by (auto simp: load_rendered_web_index_def split: option.splits sum.splits if_splits)
  have "count_list page ch = count_list source ch" if "ch \<in> {CHR ''<'', CHR ''>'', CHR ''&''}" for ch
    unfolding s(4)
  proof (rule count_list_replace_all)
    show "ch \<notin> set WEB_CONFIG_SENTINEL" using that by (auto simp: WEB_CONFIG_SENTINEL_def)
    show "ch \<notin> set (escape_markup (to_string (web_runtime_json c)))" using that escape_markup_inert by blast
  qed
  with s show ?thesis by blast
qed

definition hostile_url_config :: ManagementConfig where
  "hostile_url_config = management_config_default\<lparr>public_api_base_url := Some ''/</script>''\<rparr>"

definition demo_index :: "string \<Rightarrow> (string + string) option" where
  "demo_index root = Some (Inr (''<p>'' @ WEB_CONFIG_SENTINEL))"

definition demo_printer :: "JsonValue \<Rightarrow> string" where
  "demo_printer v = (case v of JObject ((k, JString s) # ms) \<Rightarrow> s | _ \<Rightarrow> [])"

lemma injected_config_inert_witness:
  "load_rendered_web_index demo_printer demo_index hostile_url_config
     = Inr (Some (''web/dist'', ''<p>'' @ ''/'' @ CHR 0x5C # ''u003c/script'' @ CHR 0x5C # ''u003e''))
   \<and> count_list (''<p>'' @ ''/'' @ CHR 0x5C # ''u003c/script'' @ CHR 0x5C # ''u003e'') (CHR ''<'') = count_list (''<p>'' @ WEB_CONFIG_SENTINEL) (CHR ''<'')"
proof -
  have "drop (Suc (Suc (Suc 0))) (''<p>'' @ WEB_CONFIG_SENTINEL) = WEB_CONFIG_SENTINEL" by simp
  then have c: "contains WEB_CONFIG_SENTINEL (''<p>'' @ WEB_CONFIG_SENTINEL)"
    unfolding contains_def by (intro bexI[of _ 3]) (simp_all add: numeral_eq_Suc)
  have "replace_all WEB_CONFIG_SENTINEL r WEB_CONFIG_SENTINEL = r" for r
    by (subst replace_all.simps) (simp add: WEB_CONFIG_SENTINEL_def starts_with_def, subst replace_all.simps, simp)
  then have "replace_all WEB_CONFIG_SENTINEL r (''<p>'' @ WEB_CONFIG_SENTINEL) = ''<p>'' @ r" for r
    by (simp add: replace_all.simps[of _ _ "_ # _"] starts_with_def WEB_CONFIG_SENTINEL_def)
  then have e: "load_rendered_web_index demo_printer demo_index hostile_url_config
     = Inr (Some (''web/dist'', ''<p>'' @ ''/'' @ CHR 0x5C # ''u003c/script'' @ CHR 0x5C # ''u003e''))"
    using c by (simp add: load_rendered_web_index_def hostile_url_config_def management_config_default_def demo_index_def
        demo_printer_def web_runtime_json_def unwrap_or_def escape_markup_def)
  with injected_config_inert[OF e] show ?thesis by (auto simp: demo_index_def)
qed

section \<open>Rates that cannot work\<close>

text \<open>The management server accepts a positive rate of at most \<open>2 ^ -65\<close>, but then no WebSocket
  connection ever gets a snapshot: the handler panics after the greeting, because the tick interval
  does not fit a \<open>Duration\<close>.\<close>

theorem tiny_rate_panics_websocket:
  assumes "validate_management_config c = Inr ()" "hostile_rate (websocket_hz c)"
  shows "websocket_loop (websocket_hz c) True requested inputs w
    = (WsPanicked, \<lparr>wl_sequence = 0, wl_web = w, wl_sent = [WsJson hello_json]\<rparr>)"
proof -
  have "from_secs_f64 (fdiv f_one (websocket_hz c)) = None"
    using assms(2) by (intro reciprocal_of_tiny) (auto simp: hostile_rate_def)
  then show ?thesis by (simp add: websocket_loop_def ws_send_def)
qed

lemma tiny_rate_panics_websocket_witness:
  "\<forall>inputs (w :: nat Web). fst (websocket_loop tiny_hz True None inputs w) = WsPanicked"
proof (intro allI)
  fix inputs and w :: "nat Web"
  let ?c = "management_config_default\<lparr>websocket_hz := tiny_hz\<rparr>"
  have "validate_management_config ?c = Inr ()"
    by (simp add: validate_management_config_def management_config_default_def validate_public_url_def tiny_hz_ok)
  moreover have "hostile_rate (websocket_hz ?c)" by (simp add: tiny_hz_ok)
  ultimately show "fst (websocket_loop tiny_hz True None inputs w) = WsPanicked"
    using tiny_rate_panics_websocket[of ?c None inputs w] by simp
qed

end
