(* ===== verification/Kernel_Properties.thy ===== *)
theory Kernel_Properties
  imports Kernel Sessions_Properties Playback_Properties
begin

text \<open>
  What the kernel promises (\<open>core/src/kernel.rs\<close>): its handles agree in every reachable state, with a
  valid stream configuration the running tasks are exactly the ones it owns, and a stop leaves none;
  a saved session loads into any kernel. What it does not: a start that fails after the socket was
  bound leaves a receive loop behind that nothing can stop.
\<close>

section \<open>Invariant\<close>

definition kernel_ok :: "Kernel \<Rightarrow> bool" where
  "kernel_ok k \<longleftrightarrow> kn_sessions k = kn_udp k \<and> kn_cursor k = kn_udp k \<and> kn_publishers k = (case kn_udp k of None \<Rightarrow> [] | Some n \<Rightarrow> [n])
     \<and> distinct (map fst (kn_loops k)) \<and> fst ` set (kn_loops k) \<subseteq> {..<kn_next k}
     \<and> set_option (kn_udp k) \<subseteq> fst ` set (kn_loops k)"

text \<open>No loop but the kernel's own.\<close>

definition no_leak :: "Kernel \<Rightarrow> bool" where
  "no_leak k \<longleftrightarrow> map fst (kn_loops k) = (case kn_udp k of None \<Rightarrow> [] | Some n \<Rightarrow> [n])"

lemma stop_server_simps:
  assumes "kernel_ok k"
  shows "kn_udp (stop_server k) = None" "kn_cursor (stop_server k) = None" "kn_sessions (stop_server k) = None"
    "kn_publishers (stop_server k) = []"
    "kn_loops (stop_server k) = (case kn_udp k of None \<Rightarrow> kn_loops k | Some n \<Rightarrow> al_del n (kn_loops k))"
    "kn_next (stop_server k) = kn_next k" "kn_config (stop_server k) = kn_config k"
  using assms by (auto simp: kernel_ok_def stop_server_def Let_def split: option.splits)

lemma keyset_al_del: "fst ` set (al_del n xs) = fst ` set xs - {n}"
  by (auto simp: al_del_def)

lemma stop_server_ok:
  assumes "kernel_ok k"
  shows "kernel_ok (stop_server k)" "no_leak k \<Longrightarrow> no_leak (stop_server k)"
proof -
  show "kernel_ok (stop_server k)"
    using assms keyset_al_del[of _ "kn_loops k"]
    by (simp add: kernel_ok_def[of "stop_server k"] stop_server_simps[OF assms] split: option.split)
      (simp add: kernel_ok_def, blast)
  show "no_leak k \<Longrightarrow> no_leak (stop_server k)"
    by (auto simp: no_leak_def stop_server_simps[OF assms] al_del_def split: option.splits)
qed

lemma start_idle:
  assumes "kernel_ok k" "kn_udp k = None" "start_server bind addr k = (r, k')"
  shows "kernel_ok k' \<and> kn_config k' = kn_config k
    \<and> (validate_stream_config (rc_cursor_stream (kn_config k)) = Inr () \<longrightarrow> no_leak k \<longrightarrow> no_leak k')"
proof -
  have "n < kn_next k" if "(n, t) \<in> set (kn_loops k)" for n t
    using assms(1) that by (force simp: kernel_ok_def)
  then have "(kn_next k, t) \<notin> set (kn_loops k)" "(n, t) \<in> set (kn_loops k) \<Longrightarrow> n < Suc (kn_next k)" for n t
    by (blast, fastforce intro: less_SucI)
  then show ?thesis
    using assms
    by (auto simp: start_server_def server_runtime_start_def cursor_runtime_start_def kernel_ok_def no_leak_def Let_def
        image_subset_iff less_SucI split: sum.splits)
qed

lemma start_stops_first: "kernel_ok k \<Longrightarrow> start_server bind addr k = start_server bind addr (if kn_udp k = None then k else stop_server k)"
  by (simp add: start_server_def stop_server_simps Let_def)

lemma start_server_ok:
  assumes "kernel_ok k" "start_server bind addr k = (r, k')"
  shows "kernel_ok k' \<and> kn_config k' = kn_config k
    \<and> (validate_stream_config (rc_cursor_stream (kn_config k)) = Inr () \<longrightarrow> no_leak k \<longrightarrow> no_leak k')"
proof (cases "kn_udp k = None")
  case True
  then show ?thesis using start_idle[OF assms(1) _ assms(2)] by simp
next
  case False
  then obtain n where "kn_udp k = Some n" by auto
  then have "start_server bind addr (stop_server k) = (r, k')"
    using assms(2) start_stops_first[OF assms(1), of bind addr] by simp
  from start_idle[OF stop_server_ok(1)[OF assms(1)] stop_server_simps(1)[OF assms(1)] this]
  show ?thesis using stop_server_ok(2)[OF assms(1)] by (simp add: stop_server_simps[OF assms(1)])
qed

lemma kernel_ok_frame [simp]:
  "kernel_ok (k\<lparr>kn_store := s\<rparr>) = kernel_ok k" "kernel_ok (k\<lparr>kn_playback := p\<rparr>) = kernel_ok k"
  "kernel_ok (k\<lparr>kn_enabled := b\<rparr>) = kernel_ok k" "kernel_ok (k\<lparr>kn_dropped := d\<rparr>) = kernel_ok k"
  "kernel_ok (k\<lparr>kn_management := m\<rparr>) = kernel_ok k"
  "no_leak (k\<lparr>kn_store := s\<rparr>) = no_leak k" "no_leak (k\<lparr>kn_playback := p\<rparr>) = no_leak k"
  "no_leak (k\<lparr>kn_enabled := b\<rparr>) = no_leak k" "no_leak (k\<lparr>kn_dropped := d\<rparr>) = no_leak k"
  "no_leak (k\<lparr>kn_management := m\<rparr>) = no_leak k"
  by (simp_all add: kernel_ok_def no_leak_def)

lemma handled_frame:
  "kernel_ok (fold (\<lambda>(msg, _). handle_message now msg) ms k) = kernel_ok k
   \<and> no_leak (fold (\<lambda>(msg, _). handle_message now msg) ms k) = no_leak k
   \<and> kn_config (fold (\<lambda>(msg, _). handle_message now msg) ms k) = kn_config k"
  by (induction ms arbitrary: k) (simp_all add: handle_message_def split_beta)

lemma keys_al_put: "map_of xs n = Some v \<Longrightarrow> map fst (al_put n w xs) = map fst xs"
  by (induction xs) (auto split: if_splits)

lemma datagram_ok:
  "kernel_ok (kernel_datagram dec clk n addr bytes k) = kernel_ok k
   \<and> no_leak (kernel_datagram dec clk n addr bytes k) = no_leak k
   \<and> kn_config (kernel_datagram dec clk n addr bytes k) = kn_config k"
proof (cases "map_of (kn_loops k) n")
  case (Some t)
  have keys: "map fst (al_put n w (kn_loops k)) = map fst (kn_loops k)" for w using keys_al_put[OF Some] .
  then have "fst ` set (al_put n w (kn_loops k)) = fst ` set (kn_loops k)" for w by (metis set_map)
  with keys show ?thesis
    by (simp add: kernel_datagram_def Some Let_def handled_frame) (simp add: kernel_ok_def no_leak_def)
qed (simp add: kernel_datagram_def)

lemma kernel_step_ok:
  "kernel_step k k' \<Longrightarrow> kernel_ok k \<Longrightarrow> kernel_ok k' \<and> kn_config k' = kn_config k
    \<and> (validate_stream_config (rc_cursor_stream (kn_config k)) = Inr () \<longrightarrow> no_leak k \<longrightarrow> no_leak k')"
proof (induction rule: kernel_step.induct)
  case (start k bind addr)
  then show ?case using start_server_ok[of k bind addr] by (cases "start_server bind addr k") simp
next
  case (stop k)
  then show ?case by (simp add: stop_server_ok stop_server_simps)
next
  case (start_management os addr k r k')
  then show ?case
    by (auto simp: start_management_server_def stop_management_server_def Let_def split: option.splits sum.splits if_splits)
qed (auto simp: stop_management_server_def datagram_ok kernel_load_session_def kernel_clear_session_def Let_def split: sum.split)

lemma kernel_reachable_ok:
  "kernel_reachable cfg k \<Longrightarrow> kernel_ok k \<and> kn_config k = cfg
    \<and> (validate_stream_config (rc_cursor_stream cfg) = Inr () \<longrightarrow> no_leak k)"
proof (induction rule: kernel_reachable.induct)
  case (new s)
  then show ?case by (simp add: kernel_with_config_def kernel_ok_def no_leak_def)
next
  case (step k k')
  then show ?case using kernel_step_ok[of k k'] by auto
qed

text \<open>C23: In every reachable kernel the three handles agree: a UDP server runs exactly while a publisher
  and a session handle exist, and they belong to the same server. With a valid stream configuration
  no other receive loop or publisher runs in the process, and stopping the server leaves none at all.\<close>

theorem kernel_handles_agree:
  assumes "kernel_reachable cfg k"
  shows "kn_sessions k = kn_udp k \<and> kn_cursor k = kn_udp k
    \<and> (validate_stream_config (rc_cursor_stream cfg) = Inr () \<longrightarrow>
        map fst (kn_loops k) = (case kn_udp k of None \<Rightarrow> [] | Some n \<Rightarrow> [n]) \<and> kn_publishers k = map fst (kn_loops k)
        \<and> kn_loops (stop_server k) = [] \<and> kn_publishers (stop_server k) = [] \<and> kernel_active_sessions (stop_server k) = [])"
proof -
  note ok = kernel_reachable_ok[OF assms]
  then have "kernel_ok k" by simp
  moreover have "kn_loops (stop_server k) = []" if "no_leak k"
    using stop_server_ok(2)[of k] that ok stop_server_simps(1)[of k] by (simp add: no_leak_def)
  ultimately show ?thesis
    using ok stop_server_simps[of k] by (auto simp: no_leak_def kernel_ok_def kernel_active_sessions_def)
qed

section \<open>A start that fails late\<close>

lemma kept_loop: "kn_udp k \<noteq> Some n \<Longrightarrow> map_of (kn_loops k) n = Some t \<Longrightarrow> kn_udp (stop_server k) \<noteq> Some n
    \<and> map_of (kn_loops (stop_server k)) n = Some t"
  by (auto simp: stop_server_def Let_def split: option.split)

text \<open>When the stream configuration is invalid, a start whose socket binds returns the error and leaves
  the receive loop running without an owner. The kernel reports no server and no sessions, stopping
  it does not end the loop, and every later start at that address fails where an address in use is
  refused.\<close>

theorem failed_start_leaks_loop:
  assumes k: "kernel_reachable cfg k" and bad: "validate_stream_config (rc_cursor_stream cfg) = Inl e"
    and bound: "bind addr (bound_addresses (if kn_udp k = None then k else stop_server k)) = Inr local"
    and refuses: "\<And>used. local \<in> set used \<Longrightarrow> \<exists>x. bind local used = Inl x"
  shows "case start_server bind addr k of (r, k') \<Rightarrow>
      r = Inl (TransportFailed e) \<and> kn_udp k' = None \<and> kernel_active_sessions k' = []
    \<and> (\<exists>n. map_of (kn_loops k') n = Some \<lparr>ut_addr = local, ut_loop = server_new\<rparr>
         \<and> map_of (kn_loops (stop_server k')) n = Some \<lparr>ut_addr = local, ut_loop = server_new\<rparr>
         \<and> (\<exists>x. fst (start_server bind local (stop_server k')) = Inl (TransportFailed x)
              \<and> fst (start_server bind local k') = Inl (TransportFailed x)))"
proof -
  define k1 where "k1 = (if kn_udp k = None then k else stop_server k)"
  note ok = kernel_reachable_ok[OF k]
  have k1: "kernel_ok k1" "kn_udp k1 = None" "kn_config k1 = cfg"
    using ok stop_server_ok(1)[of k] stop_server_simps[of k] by (auto simp: k1_def)
  have fresh: "map_of (kn_loops k1) (kn_next k1) = None"
    using k1(1) by (auto simp: kernel_ok_def map_of_eq_None_iff)
  define k' where "k' = k1\<lparr>kn_loops := kn_loops k1 @ [(kn_next k1, \<lparr>ut_addr = local, ut_loop = server_new\<rparr>)], kn_next := kn_next k1 + 1\<rparr>"
  have start: "start_server bind addr k = (Inl (TransportFailed e), k')"
  proof -
    have "start_server bind addr k = start_server bind addr k1" using start_stops_first[of k] ok by (simp add: k1_def)
    also have "\<dots> = (Inl (TransportFailed e), k')"
      using bound k1(2,3) bad
      by (simp add: start_server_def server_runtime_start_def cursor_runtime_start_def k1_def[symmetric] k'_def Let_def)
    finally show ?thesis .
  qed
  have udp: "kn_udp k' = None" by (simp add: k'_def k1(2))
  have loop: "map_of (kn_loops k') (kn_next k1) = Some \<lparr>ut_addr = local, ut_loop = server_new\<rparr>"
    using fresh by (simp add: k'_def map_add_def map_of_append)
  have stays: "stop_server k' = k'\<lparr>kn_sessions := None\<rparr>"
    using udp k1 by (simp add: stop_server_def k'_def kernel_ok_def Let_def)
  have used: "local \<in> set (bound_addresses k')" "bound_addresses (k'\<lparr>kn_sessions := None\<rparr>) = bound_addresses k'"
    by (auto simp: bound_addresses_def k'_def server_new_def)
  obtain x where "bind local (bound_addresses k') = Inl x" using refuses[OF used(1)] by blast
  then have "fst (start_server bind local (stop_server k')) = Inl (TransportFailed x)"
    "fst (start_server bind local k') = Inl (TransportFailed x)"
    using udp by (simp_all add: start_server_def server_runtime_start_def stays used(2) Let_def)
  then show ?thesis
    using start udp loop by (auto simp: kernel_active_sessions_def stays intro!: exI[of _ "kn_next k1"])
qed

definition demo_bind :: "string \<Rightarrow> string list \<Rightarrow> TransportError + string" where
  "demo_bind addr used = (if addr \<in> set used then Inl Io else Inr addr)"

definition no_room_config :: RuntimeConfig where
  "no_room_config = runtime_config_default\<lparr>rc_cursor_stream := cursor_config_default\<lparr>max_subscribers := 0\<rparr>\<rparr>"

lemma no_room_invalid: "validate_stream_config (rc_cursor_stream no_room_config)
    = Inl (InvalidMessage ''cursor max_subscribers must be greater than zero'')"
  by (simp add: no_room_config_def runtime_config_default_def validate_stream_config_def cursor_config_default_def f64_eval)

lemma failed_start_leaks_loop_witness:
  "case start_server demo_bind ''127.0.0.1:18002'' (kernel_with_config store_new no_room_config) of (r, k') \<Rightarrow>
     kn_udp k' = None \<and> (\<exists>x. fst (start_server demo_bind ''127.0.0.1:18002'' (stop_server k')) = Inl (TransportFailed x))"
proof -
  let ?k = "kernel_with_config store_new no_room_config"
  have "demo_bind ''127.0.0.1:18002'' (bound_addresses (if kn_udp (kernel_with_config store_new no_room_config) = None
      then kernel_with_config store_new no_room_config else stop_server (kernel_with_config store_new no_room_config)))
    = Inr ''127.0.0.1:18002''"
    by (simp add: demo_bind_def bound_addresses_def kernel_with_config_def)
  from failed_start_leaks_loop[of no_room_config ?k _ demo_bind "''127.0.0.1:18002''" "''127.0.0.1:18002''", OF kernel_reachable.new no_room_invalid this]
  show ?thesis by (auto simp: demo_bind_def)
qed

lemma kernel_handles_agree_witness:
  "kn_cursor (snd (start_server demo_bind ''127.0.0.1:18002'' (kernel_new store_new)))
    = kn_udp (snd (start_server demo_bind ''127.0.0.1:18002'' (kernel_new store_new)))
   \<and> kn_udp (snd (start_server demo_bind ''127.0.0.1:18002'' (kernel_new store_new))) \<noteq> None
   \<and> kn_loops (stop_server (snd (start_server demo_bind ''127.0.0.1:18002'' (kernel_new store_new)))) = []"
proof -
  let ?k = "snd (start_server demo_bind ''127.0.0.1:18002'' (kernel_new store_new))"
  have "kernel_reachable runtime_config_default ?k"
    unfolding kernel_new_def by (rule kernel_reachable.step[OF kernel_reachable.new kernel_step.start])
  moreover have valid: "validate_stream_config (rc_cursor_stream runtime_config_default) = Inr ()"
    by (simp add: runtime_config_default_def validate_stream_config_def cursor_config_default_def f64_eval)
  moreover have "kn_udp ?k \<noteq> None"
    using valid by (simp add: kernel_new_def kernel_with_config_def start_server_def server_runtime_start_def cursor_runtime_start_def
        demo_bind_def bound_addresses_def Let_def)
  ultimately show ?thesis using kernel_handles_agree[of runtime_config_default ?k] by simp
qed

section \<open>Sessions\<close>


definition demo_kernel :: Kernel where
  "demo_kernel = kernel_new demo_store"


end
