(* ===== verification/Server_Program.thy ===== *)
theory Server_Program
  imports Server_Config Kernel_Properties
begin

text \<open>
  The server program (\<open>server/src/main.rs\<close>): it starts the servers from the resolved configuration,
  waits for the interrupt and stops them. Logging is left out.
\<close>

text \<open>\<open>main\<close> up to the wait. An error ends the program; \<open>None\<close> is a panic of the router.\<close>

definition server_begin :: "bind_socket \<Rightarrow> HostSystem \<Rightarrow> ServerConfig \<Rightarrow> (RuntimeError + Kernel) option" where
  "server_begin bind os cfg =
     (case start_server bind (sc_udp_listen cfg) (kernel_with_config store_new (sc_runtime cfg)) of
        (Inl e, _) \<Rightarrow> Some (Inl e)
      | (Inr _, k) \<Rightarrow>
         (case udp_local_addr k of
            Inl e \<Rightarrow> Some (Inl e)
          | Inr _ \<Rightarrow>
              if \<not> sc_management_enabled cfg then Some (Inr k)
              else case start_management_server os (sc_management_listen cfg) k of
                None \<Rightarrow> None
              | Some (Inl e, _) \<Rightarrow> Some (Inl e)
              | Some (Inr _, k1) \<Rightarrow> (case management_local_addr k1 of Inl e \<Rightarrow> Some (Inl e) | Inr _ \<Rightarrow> Some (Inr k1))))"

text \<open>\<open>main\<close> after the interrupt.\<close>

definition server_end :: "ServerConfig \<Rightarrow> Kernel \<Rightarrow> Kernel" where
  "server_end cfg k = stop_server (if sc_management_enabled cfg then stop_management_server k else k)"

lemma started_stream_valid: "start_server bind addr k = (Inr (), k') \<Longrightarrow> validate_stream_config (rc_cursor_stream (kn_config k)) = Inr ()"
  by (auto simp: start_server_def server_runtime_start_def cursor_runtime_start_def stop_server_def Let_def
      split: sum.splits option.splits if_splits)

text \<open>Whatever happened while the program ran, no receive loop, publisher or session is left when it ends.\<close>

lemma server_program_ends_clean:
  assumes "server_begin bind os cfg = Some (Inr k0)" "kernel_step\<^sup>*\<^sup>* k0 k"
  shows "kn_loops (server_end cfg k) = [] \<and> kn_publishers (server_end cfg k) = [] \<and> kernel_active_sessions (server_end cfg k) = []"
proof -
  let ?k = "kernel_with_config store_new (sc_runtime cfg)"
  obtain k1 where s: "start_server bind (sc_udp_listen cfg) ?k = (Inr (), k1)"
    and k0: "k0 = k1 \<or> (\<exists>r. start_management_server os (sc_management_listen cfg) k1 = Some (r, k0))"
    using assms(1) unfolding server_begin_def by (auto split: sum.splits option.splits if_splits prod.splits)
  have valid: "validate_stream_config (rc_cursor_stream (sc_runtime cfg)) = Inr ()"
    using started_stream_valid[OF s] by (simp add: kernel_with_config_def)
  have "kernel_reachable (sc_runtime cfg) k1"
    using kernel_reachable.step[OF kernel_reachable.new kernel_step.start[of ?k bind "sc_udp_listen cfg"]] s by simp
  with k0 have "kernel_reachable (sc_runtime cfg) k0" by (auto intro: kernel_reachable.step kernel_step.start_management)
  from assms(2) this have r: "kernel_reachable (sc_runtime cfg) k" by induction (auto intro: kernel_reachable.step)
  define k2 where "k2 = (if sc_management_enabled cfg then stop_management_server k else k)"
  have "kernel_reachable (sc_runtime cfg) k2"
    unfolding k2_def using r by (auto intro: kernel_reachable.step kernel_step.stop_management)
  from kernel_reachable_ok[OF this] have ok: "kernel_ok k2" "no_leak k2" using valid by simp_all
  have "no_leak (stop_server k2)" using stop_server_ok(2)[OF ok] .
  then show ?thesis
    using stop_server_simps[OF ok(1)] by (simp add: server_end_def k2_def[symmetric] no_leak_def kernel_active_sessions_def)
qed

end
