(* ===== verification/Net_Addr.thy ===== *)
theory Net_Addr
  imports Store
begin

text \<open>
  What the hosts of the core use of Rust's strings and \<open>std::net\<close>: trimming white space from a UTF-8
  string, splitting at the last separator, parsing a port, and the address parsers behind
  \<open>str::parse::<IpAddr>\<close> and \<open>str::parse::<SocketAddr>\<close>, with \<open>IpAddr::is_loopback\<close>. A string is its
  bytes.
\<close>

section \<open>Trimming and splitting\<close>

text \<open>The length in bytes of the white space character at the front of a list of codes, 0 if there is none.\<close>

fun space_prefix :: "nat list \<Rightarrow> nat" where
  "space_prefix [] = 0"
| "space_prefix (a # r) =
     (if 9 \<le> a \<and> a \<le> 13 \<or> a = 32 then 1
      else case r of
        [] \<Rightarrow> 0
      | b # r2 \<Rightarrow>
          if a = 0xC2 \<and> (b = 0x85 \<or> b = 0xA0) then 2
          else (case r2 of
              [] \<Rightarrow> 0
            | c # _ \<Rightarrow>
                if (a = 0xE1 \<and> b = 0x9A \<and> c = 0x80)
                 \<or> (a = 0xE2 \<and> b = 0x80 \<and> (0x80 \<le> c \<and> c \<le> 0x8A \<or> c = 0xA8 \<or> c = 0xA9 \<or> c = 0xAF))
                 \<or> (a = 0xE2 \<and> b = 0x81 \<and> c = 0x9F)
                 \<or> (a = 0xE3 \<and> b = 0x80 \<and> c = 0x80)
                then 3 else 0))"

function trim_start :: "string \<Rightarrow> string" where
  "trim_start s =
     (let n = space_prefix (map of_char s) in
      if s = [] \<or> n = 0 then s else trim_start (drop n s))"
  by pat_completeness auto
termination by (relation "measure length") (auto simp: Let_def)

declare trim_start.simps [simp del]

text \<open>\<open>trim_end\<close> drops the characters after the last one that is not white space.\<close>

definition char_starts :: "string \<Rightarrow> nat list" where
  "char_starts s = filter (\<lambda>i. \<not> (128 \<le> (of_char (s ! i) :: nat) \<and> (of_char (s ! i) :: nat) < 192)) [0..<length s]"

definition trim_end :: "string \<Rightarrow> string" where
  "trim_end s =
     (case find (\<lambda>i. trim_is_empty (drop i s)) (char_starts s) of None \<Rightarrow> s | Some i \<Rightarrow> take i s)"

definition str_trim :: "string \<Rightarrow> string" where
  "str_trim s = trim_end (trim_start s)"

text \<open>\<open>rsplit_once\<close> at a character and \<open>trim_matches\<close> with a set of characters.\<close>

definition rsplit_once :: "char \<Rightarrow> string \<Rightarrow> (string \<times> string) option" where
  "rsplit_once c s =
     (if c \<in> set s
      then let tail = takeWhile (\<lambda>x. x \<noteq> c) (rev s) in Some (take (length s - Suc (length tail)) s, rev tail)
      else None)"

definition trim_matches :: "char list \<Rightarrow> string \<Rightarrow> string" where
  "trim_matches cs s = rev (dropWhile (\<lambda>x. x \<in> set cs) (rev (dropWhile (\<lambda>x. x \<in> set cs) s)))"

section \<open>Numbers\<close>

definition digit_value :: "int \<Rightarrow> char \<Rightarrow> int option" where
  "digit_value radix c =
     (let n = of_char c :: int;
          d = (if 48 \<le> n \<and> n \<le> 57 then n - 48 else if 97 \<le> n \<and> n \<le> 122 then n - 87
               else if 65 \<le> n \<and> n \<le> 90 then n - 55 else radix)
      in if d < radix then Some d else None)"

definition digits_value :: "int \<Rightarrow> int list \<Rightarrow> int" where
  "digits_value radix ds = foldl (\<lambda>n d. n * radix + d) 0 ds"

fun digit_run :: "int \<Rightarrow> string \<Rightarrow> int list \<times> string" where
  "digit_run radix [] = ([], [])"
| "digit_run radix (c # cs) =
     (case digit_value radix c of
        None \<Rightarrow> ([], c # cs)
      | Some d \<Rightarrow> (let (ds, rest) = digit_run radix cs in (d # ds, rest)))"

text \<open>\<open>str::parse::<u16>\<close>: digits after an optional plus sign.\<close>

definition parse_u16 :: "string \<Rightarrow> int option" where
  "parse_u16 s =
     (let digits = (case s of [] \<Rightarrow> [] | c # cs \<Rightarrow> if c = CHR ''+'' \<and> cs \<noteq> [] then cs else s);
          (ds, rest) = digit_run 10 digits in
      if ds = [] \<or> rest \<noteq> [] \<or> 65535 < digits_value 10 ds then None else Some (digits_value 10 ds))"

section \<open>The address parsers\<close>

type_synonym 'a reader = "string \<Rightarrow> ('a \<times> string) option"

definition read_number :: "int \<Rightarrow> nat option \<Rightarrow> bool \<Rightarrow> int \<Rightarrow> int reader" where
  "read_number radix max_digits allow_zero_prefix bound s =
     (let (ds, rest) = digit_run radix s in
      if ds = [] \<or> (case max_digits of None \<Rightarrow> False | Some m \<Rightarrow> m < length ds)
         \<or> (\<not> allow_zero_prefix \<and> hd ds = 0 \<and> 1 < length ds) \<or> bound < digits_value radix ds
      then None else Some (digits_value radix ds, rest))"

definition read_given :: "char \<Rightarrow> unit reader" where
  "read_given c s = (case s of [] \<Rightarrow> None | x # xs \<Rightarrow> if x = c then Some ((), xs) else None)"

definition read_separator :: "char \<Rightarrow> nat \<Rightarrow> 'a reader \<Rightarrow> 'a reader" where
  "read_separator sep index inner s =
     (if 0 < index then Option.bind (read_given sep s) (\<lambda>(_, r). inner r) else inner s)"

fun read_octets :: "nat \<Rightarrow> nat \<Rightarrow> int list reader" where
  "read_octets 0 i s = Some ([], s)"
| "read_octets (Suc n) i s =
     Option.bind (read_separator (CHR ''.'') i (read_number 10 (Some 3) False 255) s)
       (\<lambda>(d, r). map_option (\<lambda>(ds, r'). (d # ds, r')) (read_octets n (Suc i) r))"

definition read_ipv4 :: "int list reader" where
  "read_ipv4 = read_octets 4 0"

text \<open>
  The groups of an IPv6 address, at most \<open>n\<close> of them: the values, whether they end with an embedded
  IPv4 address, and the rest.
\<close>

fun read_groups :: "nat \<Rightarrow> nat \<Rightarrow> string \<Rightarrow> int list \<times> bool \<times> string" where
  "read_groups 0 i s = ([], False, s)"
| "read_groups (Suc n) i s =
     (case (if 0 < n then read_separator (CHR '':'') i read_ipv4 s else None) of
        Some (o4, r) \<Rightarrow> ([o4 ! 0 * 256 + o4 ! 1, o4 ! 2 * 256 + o4 ! 3], True, r)
      | None \<Rightarrow>
          (case read_separator (CHR '':'') i (read_number 16 (Some 4) True 65535) s of
             None \<Rightarrow> ([], False, s)
           | Some (g, r) \<Rightarrow> (let (gs, v4, r') = read_groups n (Suc i) r in (g # gs, v4, r'))))"

definition read_ipv6 :: "int list reader" where
  "read_ipv6 s =
     (let (head, head_ipv4, r) = read_groups 8 0 s in
      if length head = 8 then Some (head, r)
      else if head_ipv4 then None
      else Option.bind (read_given (CHR '':'') r) (\<lambda>(_, r1).
        Option.bind (read_given (CHR '':'') r1) (\<lambda>(_, r2).
          let (tail, _, r3) = read_groups (8 - (length head + 1)) 0 r2 in
          Some (head @ replicate (8 - length head - length tail) 0 @ tail, r3))))"

datatype IpAddr = IPv4 "int list" | IPv6 "int list"

definition read_ip :: "IpAddr reader" where
  "read_ip s =
     (case read_ipv4 s of
        Some (a, r) \<Rightarrow> Some (IPv4 a, r)
      | None \<Rightarrow> map_option (\<lambda>(a, r). (IPv6 a, r)) (read_ipv6 s))"

definition read_port :: "int reader" where
  "read_port s = Option.bind (read_given (CHR '':'') s) (\<lambda>(_, r). read_number 10 None True 65535 r)"

text \<open>The optional scope of an IPv6 socket address is read and dropped.\<close>

definition skip_scope :: "string \<Rightarrow> string" where
  "skip_scope s =
     (case Option.bind (read_given (CHR ''%'') s) (\<lambda>(_, r). read_number 10 None True 4294967295 r) of
        None \<Rightarrow> s
      | Some (_, r) \<Rightarrow> r)"

definition read_socket :: "(IpAddr \<times> int) reader" where
  "read_socket s =
     (case Option.bind (read_ipv4 s) (\<lambda>(a, r). map_option (\<lambda>(p, r'). ((IPv4 a, p), r')) (read_port r)) of
        Some x \<Rightarrow> Some x
      | None \<Rightarrow>
          Option.bind (read_given (CHR ''['') s) (\<lambda>(_, r).
            Option.bind (read_ipv6 r) (\<lambda>(a, r1).
              Option.bind (read_given (CHR '']'') (skip_scope r1)) (\<lambda>(_, r2).
                map_option (\<lambda>(p, r3). ((IPv6 a, p), r3)) (read_port r2)))))"

text \<open>Only a parse of the whole string counts.\<close>

definition parse_whole :: "'a reader \<Rightarrow> string \<Rightarrow> 'a option" where
  "parse_whole reader s = (case reader s of Some (a, []) \<Rightarrow> Some a | _ \<Rightarrow> None)"

definition parse_ip :: "string \<Rightarrow> IpAddr option" where
  "parse_ip = parse_whole read_ip"

definition parse_socket :: "string \<Rightarrow> (IpAddr \<times> int) option" where
  "parse_socket = parse_whole read_socket"

fun is_loopback :: "IpAddr \<Rightarrow> bool" where
  "is_loopback (IPv4 a) = (a ! 0 = 127)"
| "is_loopback (IPv6 g) = (g = [0, 0, 0, 0, 0, 0, 0, 1])"

end
