(* ===== verification/Godot_Model.thy ===== *)
theory Godot_Model
  imports Runtime_Config Attitude Net_Addr
begin

text \<open>
  The data model of the Godot runtime (\<open>bindings/godot/src/model.rs\<close>): its configuration and
  settings with their validation, and the frame shown by the engine, built either from the local
  store (role server) or from a received cursor frame and the event batches before it (role client).
  The attitude functions of nalgebra and the file system are parameters. \<open>None\<close> is the panic of
  \<open>Duration::from_secs_f64\<close>.
\<close>

section \<open>Configuration\<close>

record VisualizationFileConfig =
  vf_snapshot_hz :: f64
  vf_stale_timeout_secs :: f64

definition visualization_file_default :: VisualizationFileConfig where
  "visualization_file_default = \<lparr>vf_snapshot_hz = F64 0x404E000000000000, vf_stale_timeout_secs = F64 0x3FE0000000000000\<rparr>"

record GodotRuntimeFileConfig =
  gf_schema_version :: u32
  gf_transport :: TransportFileConfig
  gf_cursor_stream :: CursorStreamFileConfig
  gf_management :: ManagementFileConfig
  gf_visualization :: VisualizationFileConfig
  gf_playback :: PlaybackFileConfig
  gf_logging :: LoggingFileConfig

definition godot_file_default :: GodotRuntimeFileConfig where
  "godot_file_default = \<lparr>gf_schema_version = RUNTIME_CONFIG_SCHEMA_VERSION, gf_transport = transport_file_default,
     gf_cursor_stream = cursor_stream_file_default,
     gf_management = \<lparr>mf_enabled = True, mf_listen = ''127.0.0.1:18003'', mf_data_root = ''user://sessions'',
       mf_web_root = ''res://addons/fly_ruler_proto/web'', mf_websocket_hz = F64 0x403E000000000000\<rparr>,
     gf_visualization = visualization_file_default, gf_playback = playback_file_default,
     gf_logging = logging_file_default\<rparr>"

record RuntimeSettings =
  gs_role :: string
  gs_udp_listen :: string
  gs_server_address :: string
  gs_management_enabled :: bool
  gs_management_listen :: string
  gs_data_root :: string
  gs_web_root :: string
  gs_websocket_hz :: f64
  gs_snapshot_hz :: f64
  gs_heartbeat_interval_secs :: u64
  gs_heartbeat_timeout_secs :: u64
  gs_replay_min_speed :: f64
  gs_replay_max_speed :: f64
  gs_stale_timeout_secs :: f64
  gs_cursor_publish_hz :: f64
  gs_max_subscribers :: nat
  gs_reconnect_initial_secs :: f64
  gs_reconnect_max_secs :: f64
  gs_log_level :: string
  gs_log_file :: "string option"

definition validate_endpoint :: "string \<Rightarrow> bool \<Rightarrow> string \<Rightarrow> string + unit" where
  "validate_endpoint v loopback_only name =
     (let trimmed = str_trim v in
      case parse_socket trimmed of
        Some (ip, _) \<Rightarrow>
          if loopback_only \<and> \<not> is_loopback ip then Inl (name @ '' must use a loopback address'') else Inr ()
      | None \<Rightarrow>
          (case rsplit_once (CHR '':'') trimmed of
             None \<Rightarrow> Inl (name @ '' must be a valid host:port address'')
           | Some (before, port) \<Rightarrow>
               let valid_port = (case parse_u16 port of None \<Rightarrow> False | Some p \<Rightarrow> 0 < p);
                   host = trim_matches ''[]'' before;
                   valid_host = (host = ''localhost'' \<or> parse_ip host \<noteq> None) in
               if \<not> valid_port \<or> \<not> valid_host then Inl (name @ '' must be a valid host:port address'')
               else if loopback_only \<and> host \<noteq> ''localhost''
                 \<and> \<not> (case parse_ip host of None \<Rightarrow> False | Some ip \<Rightarrow> is_loopback ip)
               then Inl (name @ '' must use a loopback address'')
               else Inr ()))"

definition positive_settings :: "RuntimeSettings \<Rightarrow> (string \<times> f64) list" where
  "positive_settings c =
     [(''websocket_hz'', gs_websocket_hz c), (''snapshot_hz'', gs_snapshot_hz c),
      (''replay_min_speed'', gs_replay_min_speed c), (''replay_max_speed'', gs_replay_max_speed c),
      (''stale_timeout_secs'', gs_stale_timeout_secs c), (''cursor_publish_hz'', gs_cursor_publish_hz c),
      (''reconnect_initial_secs'', gs_reconnect_initial_secs c), (''reconnect_max_secs'', gs_reconnect_max_secs c)]"

definition settings_checks :: "RuntimeSettings \<Rightarrow> (bool \<times> string) list" where
  "settings_checks c =
     map (\<lambda>(name, v). (\<not> positive_rate v, name @ '' must be finite and greater than zero'')) (positive_settings c)
     @ [(flt (gs_replay_max_speed c) (gs_replay_min_speed c), ''replay_min_speed must not exceed replay_max_speed''),
        (gs_max_subscribers c = 0, ''max_subscribers must be greater than zero''),
        (flt (gs_reconnect_max_secs c) (gs_reconnect_initial_secs c), ''reconnect_initial_secs must not exceed reconnect_max_secs''),
        (gs_heartbeat_interval_secs c = 0 \<or> gs_heartbeat_timeout_secs c \<le> gs_heartbeat_interval_secs c,
          ''heartbeat_timeout_secs must exceed a non-zero heartbeat_interval_secs''),
        (gs_log_level c \<notin> {''trace'', ''debug'', ''info'', ''warn'', ''error''},
          ''log_level must be trace, debug, info, warn, or error'')]"

definition endpoint_checks :: "RuntimeSettings \<Rightarrow> string + unit" where
  "endpoint_checks c =
     (if gs_role c = ''server'' then
        (case validate_endpoint (gs_udp_listen c) False ''udp_listen'' of
           Inl e \<Rightarrow> Inl e
         | Inr _ \<Rightarrow>
             if gs_management_enabled c then validate_endpoint (gs_management_listen c) True ''management_listen''
             else Inr ())
      else
        (case validate_endpoint (gs_server_address c) False ''server_address'' of
           Inl e \<Rightarrow> Inl e
         | Inr _ \<Rightarrow>
             if gs_management_enabled c then Inl ''management must be disabled in client mode'' else Inr ()))"

definition settings_validate :: "RuntimeSettings \<Rightarrow> string + unit" where
  "settings_validate c =
     (if gs_role c \<notin> {''server'', ''client''} then Inl ''role must be server or client''
      else case endpoint_checks c of
        Inl e \<Rightarrow> Inl e
      | Inr _ \<Rightarrow> (case first_error (settings_checks c) of Some e \<Rightarrow> Inl e | None \<Rightarrow> Inr ()))"

text \<open>\<open>create_dir_all\<close> gives the text of its error, or none.\<close>

definition validate_paths :: "Platform \<Rightarrow> (string \<Rightarrow> string option) \<Rightarrow> RuntimeSettings \<Rightarrow> string + unit" where
  "validate_paths os create_dir_all c =
     (if gs_role c = ''client'' then Inr ()
      else if trim_is_empty (gs_data_root c) then Inl ''data_root must not be empty''
      else case create_dir_all (gs_data_root c) of
        Some e \<Rightarrow> Inl (''data_root is not writable: '' @ e)
      | None \<Rightarrow>
          if gs_management_enabled c \<and> \<not> is_file os (join os (gs_web_root c) ''index.html'')
          then Inl ''web_root must contain index.html'' else Inr ())"

section \<open>Frames\<close>

record AircraftSnapshotData =
  as_aircraft_id :: string
  as_name :: string
  as_toml_config :: string
  as_source_timestamp_secs :: f64
  as_stale :: bool
  as_gear_down :: "bool option"
  as_state :: AircraftState

record FrameSnapshotData =
  fs_mode :: PlaybackMode
  fs_cursor_secs :: "f64 option"
  fs_speed :: f64
  fs_bounds :: "(f64 \<times> f64) option"
  fs_revision :: u64
  fs_generated_at_secs :: f64
  fs_aircraft :: "AircraftSnapshotData list"

definition uuid_hex :: "uuid \<Rightarrow> string" where
  "uuid_hex u = concat (map byte_hex u)"

definition state_is_renderable :: "Nalgebra \<Rightarrow> AircraftState \<Rightarrow> bool" where
  "state_is_renderable na st =
     (case a_position st of
        None \<Rightarrow> False
      | Some p \<Rightarrow>
          (case a_attitude st of
             None \<Rightarrow> False
           | Some q \<Rightarrow> list_all is_finite [v_x p, v_y p, v_z p]
               \<and> (case attitude_from_quaternion na q of Inl _ \<Rightarrow> False | Inr _ \<Rightarrow> True)))"

subsection \<open>From the stream\<close>

type_synonym gear_states = "string \<Rightarrow> bool option option"

definition apply_cursor_event :: "CursorEvent \<Rightarrow> gear_states \<Rightarrow> gear_states" where
  "apply_cursor_event e gear =
     (let aid = (case ce_aircraft_id e of None \<Rightarrow> [] | Some u \<Rightarrow> uuid_hex u) in
      case Option.bind (ce_info e) ci_kind of
        Some (Spawn _) \<Rightarrow> gear(aid \<mapsto> None)
      | Some (Despawn _) \<Rightarrow> gear(aid := None)
      | Some (CustomEvent name) \<Rightarrow>
          if name = GEAR_UP then gear(aid \<mapsto> Some False)
          else if name = GEAR_DOWN then gear(aid \<mapsto> Some True)
          else gear
      | _ \<Rightarrow> gear)"

definition apply_cursor_event_batch :: "CursorEventBatch \<Rightarrow> gear_states \<Rightarrow> gear_states" where
  "apply_cursor_event_batch b gear =
     fold apply_cursor_event (cb_events b) (if cb_baseline b then Map.empty else gear)"

definition cursor_mode :: "int \<Rightarrow> PlaybackMode" where
  "cursor_mode code = (if code = 2 then ReplayPaused else if code = 3 then ReplayPlaying else Live)"

definition streamed_aircraft :: "Nalgebra \<Rightarrow> gear_states \<Rightarrow> CursorAircraftSnapshot \<Rightarrow> AircraftSnapshotData option" where
  "streamed_aircraft na gear v =
     Option.bind (ca_state v) (\<lambda>st.
       if \<not> state_is_renderable na st then None
       else
         let aid = (case ca_aircraft_id v of None \<Rightarrow> [] | Some u \<Rightarrow> uuid_hex u) in
         Some \<lparr>as_aircraft_id = aid, as_name = ca_name v, as_toml_config = ca_toml_config v,
           as_source_timestamp_secs = ca_source_timestamp v, as_stale = ca_stale v,
           as_gear_down = Option.bind (gear aid) id, as_state = st\<rparr>)"

definition frame_from_cursor :: "Nalgebra \<Rightarrow> CursorFrame \<Rightarrow> gear_states \<Rightarrow> FrameSnapshotData" where
  "frame_from_cursor na f gear =
     \<lparr>fs_mode = cursor_mode (cf_mode f), fs_cursor_secs = cf_cursor f, fs_speed = cf_speed f,
      fs_bounds = (case (cf_lower_bound f, cf_upper_bound f) of (Some a, Some b) \<Rightarrow> Some (a, b) | _ \<Rightarrow> None),
      fs_revision = cf_revision f, fs_generated_at_secs = cf_generated_at f,
      fs_aircraft = sort_key as_aircraft_id (List.map_filter (streamed_aircraft na gear) (cf_aircraft f))\<rparr>"

subsection \<open>From the store\<close>

fun gear_scan :: "TimestampedEvent list \<Rightarrow> bool option" where
  "gear_scan [] = None"
| "gear_scan (e # es) =
     (case ev_event e of
        EvCustom name \<Rightarrow>
          if name = GEAR_UP then Some False else if name = GEAR_DOWN then Some True else gear_scan es
      | EvSpawn _ \<Rightarrow> None
      | EvDespawn _ \<Rightarrow> gear_scan es)"

definition latest_gear_state :: "TimeSeriesStore \<Rightarrow> string \<Rightarrow> f64 \<Rightarrow> bool option" where
  "latest_gear_state s aid cursor =
     Option.bind (get_events_range aid f_neg_infinity cursor s) (\<lambda>es. gear_scan (rev es))"

definition stored_aircraft ::
  "Nalgebra \<Rightarrow> instant \<Rightarrow> f64 \<Rightarrow> PlaybackSnapshot \<Rightarrow> TimeSeriesStore \<Rightarrow> string \<Rightarrow> AircraftSnapshotData option list" where
  "stored_aircraft na now stale_timeout_secs snapshot s aid =
     (case resolve_aircraft_with snapshot aid s of
        None \<Rightarrow> []
      | Some r \<Rightarrow>
          if \<not> rs_spawned r then []
          else if \<not> state_is_renderable na (st_state (rs_sample r)) then []
          else
            (let configs = map_of (map (\<lambda>x. (sum_id x, sum_config x)) (aircraft_summaries s));
                 cfg = Option.bind (configs aid) id;
                 cursor = (case snap_cursor snapshot of None \<Rightarrow> st_time (rs_sample r) | Some c \<Rightarrow> c) in
             [map_option (\<lambda>timeout.
                \<lparr>as_aircraft_id = aid,
                 as_name = (case cfg of None \<Rightarrow> [] | Some c \<Rightarrow> cfg_name c),
                 as_toml_config = (case cfg of None \<Rightarrow> [] | Some c \<Rightarrow> cfg_toml_config c),
                 as_source_timestamp_secs = st_time (rs_sample r),
                 as_stale = (snap_mode snapshot = Live \<and> live_state_is_stale now aid timeout s),
                 as_gear_down = latest_gear_state s aid cursor,
                 as_state = st_state (rs_sample r)\<rparr>) (from_secs_f64 stale_timeout_secs)]))"

definition build_frame ::
  "Nalgebra \<Rightarrow> clocks \<Rightarrow> f64 \<Rightarrow> PlaybackSnapshot \<Rightarrow> TimeSeriesStore \<Rightarrow> FrameSnapshotData option" where
  "build_frame na now stale_timeout_secs snapshot s =
     map_option (\<lambda>aircraft.
        \<lparr>fs_mode = snap_mode snapshot, fs_cursor_secs = snap_cursor snapshot, fs_speed = snap_speed snapshot,
         fs_bounds = snap_bounds snapshot, fs_revision = snap_revision snapshot, fs_generated_at_secs = fst now,
         fs_aircraft = sort_key as_aircraft_id aircraft\<rparr>)
       (those (concat (map (stored_aircraft na (snd now) stale_timeout_secs snapshot s) (get_aircraft_ids s))))"

end
