(* ===== verification/Godot_Frame_Properties.thy ===== *)
theory Godot_Frame_Properties
  imports Godot_Model Publisher_Properties Playback_Properties
begin

text \<open>
  The two routes to a Godot frame agree: a client that applied the streamed event batches and
  received a cursor frame shows exactly the frame that a server process builds from its own store.
  The gear table of the client is related to the event log by an invariant that the baseline
  establishes and every delta keeps.
\<close>

section \<open>The gear table follows the events\<close>

definition remote_gear_step :: "bool option option \<Rightarrow> Event \<Rightarrow> bool option option" where
  "remote_gear_step g e =
     (case e of
        EvSpawn _ \<Rightarrow> Some None
      | EvDespawn _ \<Rightarrow> None
      | EvCustom name \<Rightarrow>
          if name = GEAR_UP then Some (Some False) else if name = GEAR_DOWN then Some (Some True) else g)"

abbreviation gear_fold :: "TimestampedEvent list \<Rightarrow> bool option option \<Rightarrow> bool option option" where
  "gear_fold es \<equiv> fold (\<lambda>e g. remote_gear_step g (ev_event e)) es"

definition canonical :: "(string \<Rightarrow> uuid option) \<Rightarrow> string \<Rightarrow> bool" where
  "canonical parse aid \<longleftrightarrow> (case parse aid of None \<Rightarrow> False | Some u \<Rightarrow> uuid_to_hex u = aid)"

lemma canonical_hex: "canonical parse aid \<Longrightarrow> \<exists>u. hex_to_pb_uuid parse aid = Some (Some u) \<and> uuid_hex u = aid"
  by (auto simp: canonical_def hex_to_pb_uuid_def uuid_hex_def uuid_to_hex_def split: option.splits)

lemma apply_cursor_event_at:
  assumes "cursor_event parse q e = Some ce" "canonical parse (ge_aircraft_id e)"
  shows "apply_cursor_event ce g aid = (if ge_aircraft_id e = aid then remote_gear_step (g aid) (ge_event e) else g aid)"
proof -
  obtain u where "hex_to_pb_uuid parse (ge_aircraft_id e) = Some (Some u)" "uuid_hex u = ge_aircraft_id e"
    using canonical_hex[OF assms(2)] by blast
  then have "ce_aircraft_id ce = Some u" "uuid_hex u = ge_aircraft_id e" "ce_info ce = Some \<lparr>ci_kind = Some (event_info (ge_event e))\<rparr>"
    using assms(1) by (auto simp: cursor_event_def)
  then show ?thesis
    by (cases "ge_event e") (auto simp: apply_cursor_event_def Let_def remote_gear_step_def event_info_def)
qed

lemma apply_page:
  assumes "those (map (\<lambda>(index, e). cursor_event parse (f index) e) (List.enumerate k es)) = Some ces"
    and "\<forall>e \<in> set es. canonical parse (ge_aircraft_id e)"
  shows "fold apply_cursor_event ces g aid
    = fold (\<lambda>e v. remote_gear_step v (ge_event e)) (filter (\<lambda>e. ge_aircraft_id e = aid) es) (g aid)"
  using assms
proof (induction es arbitrary: k ces g)
  case (Cons e es)
  then obtain ce ces' where ce: "cursor_event parse (f k) e = Some ce" "ces = ce # ces'"
    "those (map (\<lambda>(index, e). cursor_event parse (f index) e) (List.enumerate (Suc k) es)) = Some ces'"
    by (auto split: option.splits)
  from Cons.IH[OF ce(3)] Cons.prems(2) show ?case
    by (simp add: ce(2) apply_cursor_event_at[OF ce(1)])
qed simp

text \<open>The pages of one payload, and what applying them does to the gear of one aircraft.\<close>

definition payload_pages ::
  "(string \<Rightarrow> uuid option) \<Rightarrow> uuid \<Rightarrow> u64 \<Rightarrow> bool \<Rightarrow> GlobalTimestampedEvent list \<Rightarrow> (nat \<Rightarrow> u64) \<Rightarrow> CursorEventBatch list option" where
  "payload_pages parse epoch rv baseline evs sequence =
     those (map (\<lambda>i. event_batch parse epoch rv baseline evs (sequence i) i) [0..<page_count evs])"

lemma apply_batch:
  assumes "event_batch parse epoch rv baseline evs q i = Some b" "\<forall>e \<in> set evs. canonical parse (ge_aircraft_id e)"
  shows "apply_cursor_event_batch b g aid
    = fold (\<lambda>e v. remote_gear_step v (ge_event e)) (filter (\<lambda>e. ge_aircraft_id e = aid) (page_events i evs))
        (if baseline \<and> i = 0 then None else g aid)"
proof -
  obtain ces where ces: "those (map (\<lambda>(index, e). cursor_event parse (event_id q index) e) (List.enumerate 0 (page_events i evs))) = Some ces"
    and b: "cb_events b = ces" "cb_baseline b = (baseline \<and> i = 0)"
    using assms(1) by (auto simp: event_batch_def)
  have "set (page_events i evs) \<subseteq> set evs"
    by (auto simp: page_events_def dest: in_set_takeD in_set_dropD)
  with apply_page[OF ces] assms(2) b show ?thesis
    by (auto simp: apply_cursor_event_batch_def)
qed

lemma those_append: "those (xs @ [x]) = Some ys \<longleftrightarrow> (\<exists>zs z. those xs = Some zs \<and> x = Some z \<and> ys = zs @ [z])"
  by (induction xs arbitrary: ys) (auto split: option.splits)

lemma apply_pages:
  assumes "those (map (\<lambda>i. event_batch parse epoch rv baseline evs (sequence i) i) [0..<n]) = Some bs"
    and "\<forall>e \<in> set evs. canonical parse (ge_aircraft_id e)"
  shows "fold apply_cursor_event_batch bs g aid
    = fold (\<lambda>e v. remote_gear_step v (ge_event e))
        (filter (\<lambda>e. ge_aircraft_id e = aid) (concat (map (\<lambda>i. page_events i evs) [0..<n])))
        (if baseline \<and> 0 < n then None else g aid)"
  using assms(1)
proof (induction n arbitrary: bs)
  case (Suc n)
  then obtain bs' b where bs: "bs = bs' @ [b]" "event_batch parse epoch rv baseline evs (sequence n) n = Some b"
    "those (map (\<lambda>i. event_batch parse epoch rv baseline evs (sequence i) i) [0..<n]) = Some bs'"
    by (auto simp: those_append)
  show ?case
  proof (cases "n = 0")
    case True
    with bs show ?thesis by (simp add: apply_batch[OF bs(2) assms(2)])
  next
    case False
    with Suc.IH[OF bs(3)] show ?thesis by (simp add: bs(1) apply_batch[OF bs(2) assms(2)])
  qed
qed simp

lemma apply_payload:
  assumes "payload_pages parse epoch rv baseline evs sequence = Some bs"
    and "\<forall>e \<in> set evs. canonical parse (ge_aircraft_id e)"
  shows "fold apply_cursor_event_batch bs g aid
    = fold (\<lambda>e v. remote_gear_step v (ge_event e)) (filter (\<lambda>e. ge_aircraft_id e = aid) evs) (if baseline then None else g aid)"
proof -
  have "concat (map (\<lambda>i. page_events i evs) [0..<page_count evs]) = evs"
    using page_count_covers(1)[of evs] by (simp add: page_events_def concat_pages)
  with apply_pages[OF assms(1)[unfolded payload_pages_def] assms(2), of g aid] page_count_covers(2)[of evs]
  show ?thesis by simp
qed

section \<open>The table agrees with the log of every spawned aircraft\<close>

definition past :: "TimeSeriesStore \<Rightarrow> string \<Rightarrow> f64 \<Rightarrow> TimestampedEvent list" where
  "past s aid c = filter (\<lambda>e. fle (ev_time e) c) (events (series_of s aid))"

abbreviation spawned_at :: "TimeSeriesStore \<Rightarrow> string \<Rightarrow> f64 \<Rightarrow> bool" where
  "spawned_at s aid c \<equiv> find_map lifecycle_of (rev (past s aid c)) = Some True"

definition remote_gear_synced :: "TimeSeriesStore \<Rightarrow> f64 \<Rightarrow> gear_states \<Rightarrow> bool" where
  "remote_gear_synced s c gear \<longleftrightarrow> (\<forall>aid. spawned_at s aid c \<longrightarrow> (\<exists>g0. gear aid = gear_fold (past s aid c) g0))"

lemma gear_fold_scan:
  "find_map lifecycle_of (rev es) = Some True \<Longrightarrow> Option.bind (gear_fold es g) id = gear_scan (rev es)"
proof (induction es rule: rev_induct)
  case (snoc e es)
  then show ?case by (cases "ev_event e") (auto simp: lifecycle_of_def remote_gear_step_def)
qed simp

lemma gear_fold_reset:
  "find_map lifecycle_of (rev es) = Some True \<Longrightarrow> gear_fold es g = gear_fold es g'"
proof (induction es rule: rev_induct)
  case (snoc e es)
  then show ?case by (cases "ev_event e") (auto simp: lifecycle_of_def remote_gear_step_def)
qed simp

lemma spawned_has_spawn: "find_map lifecycle_of (rev es) = Some True \<Longrightarrow> \<exists>e \<in> set es. is_spawn e"
  by (drule find_map_Some) (auto simp: lifecycle_of_def is_spawn_def split: Event.splits)

lemma since_last_spawn_split:
  assumes "\<exists>e \<in> set es. is_spawn e"
  obtains pre sp post where "es = pre @ sp # post" "is_spawn sp" "since_last_spawn es = sp # post"
proof -
  let ?n = "length (takeWhile (\<lambda>e. \<not> is_spawn e) (rev es))"
  have ne: "dropWhile (\<lambda>e. \<not> is_spawn e) (rev es) \<noteq> []" using assms by auto
  then obtain sp ys where sp: "dropWhile (\<lambda>e. \<not> is_spawn e) (rev es) = sp # ys" by (cases "dropWhile (\<lambda>e. \<not> is_spawn e) (rev es)") auto
  then have "is_spawn sp" by (metis hd_dropWhile list.distinct(1) list.sel(1))
  moreover have rv: "rev es = takeWhile (\<lambda>e. \<not> is_spawn e) (rev es) @ sp # ys"
    using takeWhile_dropWhile_id[of "\<lambda>e. \<not> is_spawn e" "rev es"] sp by simp
  define zs where "zs = takeWhile (\<lambda>e. \<not> is_spawn e) (rev es)"
  have es: "es = rev ys @ sp # rev zs"
    using arg_cong[OF rv, of rev] by (simp add: zs_def)
  moreover have "since_last_spawn es = sp # rev zs"
  proof -
    have "length es - Suc (length zs) = length ys" by (simp add: es)
    then have "drop (length es - Suc (length zs)) es = sp # rev zs" by (simp add: es)
    then show ?thesis using assms by (simp add: since_last_spawn_def zs_def)
  qed
  ultimately show thesis using that by blast
qed

lemma gear_fold_since:
  assumes "find_map lifecycle_of (rev es) = Some True"
  shows "gear_fold (since_last_spawn es) g = gear_fold es g'"
proof -
  obtain pre sp post where s: "es = pre @ sp # post" "is_spawn sp" "since_last_spawn es = sp # post"
    using since_last_spawn_split[OF spawned_has_spawn[OF assms]] .
  then show ?thesis by (auto simp: is_spawn_def remote_gear_step_def split: Event.splits)
qed

lemma of_one_aircraft:
  assumes ids: "distinct ids" "aid \<notin> set ids \<Longrightarrow> f aid = []"
    and f: "\<And>i e. e \<in> set (f i) \<Longrightarrow> ge_aircraft_id e = i" "sorted (map event_order (f aid))"
  shows "filter (\<lambda>e. ge_aircraft_id e = aid) (sort_key event_order (concat (map f ids))) = f aid"
proof -
  have one: "filter (\<lambda>e. ge_aircraft_id e = aid) (f i) = (if i = aid then f i else [])" for i
    using f(1)[of _ i] by (auto simp: filter_id_conv filter_empty_conv)
  have "filter (\<lambda>e. ge_aircraft_id e = aid) (concat (map f ids)) = (if aid \<in> set ids then f aid else [])"
    using ids(1) by (induction ids) (auto simp: one)
  then show ?thesis using ids(2) f(2) by (auto simp: filter_sort sort_key_id_if_sorted)
qed

text \<open>No event of the store is stamped with the negative zero, which \<open>total_cmp\<close> puts before the positive one.\<close>

definition plain_times :: "TimeSeriesStore \<Rightarrow> bool" where
  "plain_times s \<longleftrightarrow> (\<forall>(aid, x) \<in> set (data s). \<forall>e \<in> set (events x). \<not> (f_neg (ev_time e) \<and> f_mag (ev_time e) = 0))"

lemma fle_total: "fle a b \<Longrightarrow> \<not> (f_neg b \<and> f_mag b = 0) \<Longrightarrow> a \<le> b"
  by (auto simp: float_cmp less_eq_f64_def tot_key_def ord_key_def split: if_splits)

lemma sorted_events:
  assumes "store_inv s" "plain_times s" "lookup s aid = Some x"
  shows "sorted (map ev_time (events x))"
proof -
  have "timeline_ok ev_time (events x)" using store_inv_series_ok[OF assms(1,3)] by (simp add: series_ok_def)
  then have "sorted_wrt (\<lambda>a b. fle (ev_time a) (ev_time b)) (events x)" by (simp add: timeline_ok_def)
  moreover have "\<forall>e \<in> set (events x). \<not> (f_neg (ev_time e) \<and> f_mag (ev_time e) = 0)"
    using in_data_lookup[OF assms(1), of aid x] assms(2,3) by (auto simp: plain_times_def)
  ultimately show ?thesis
    unfolding sorted_map by (elim sorted_wrt_mono_rel[rotated]) (blast intro: fle_total)
qed

lemma sorted_global_events:
  assumes "sorted (map ev_time es)"
  shows "sorted (map (event_order \<circ> global_event aid) es)"
  using assms by (induction es) (auto simp: event_order_def global_event_def)

lemma past_lookup: "past s aid c = (case lookup s aid of None \<Rightarrow> [] | Some x \<Rightarrow> filter (\<lambda>e. fle (ev_time e) c) (events x))"
  by (simp add: past_def series_of_def empty_series_def split: option.splits)

lemma past_window:
  assumes "store_inv s" "lookup s aid = Some x"
  shows "window_filter ev_time f_neg_infinity c (events x) = past s aid c"
proof -
  have "timeline_ok ev_time (events x)" using store_inv_series_ok[OF assms] by (simp add: series_ok_def)
  then show ?thesis
    using assms(2) by (auto simp: past_lookup window_filter_def timeline_ok_def intro!: filter_cong)
qed

lemma past_sorted: "store_inv s \<Longrightarrow> plain_times s \<Longrightarrow> sorted (map ev_time (past s aid c))"
  by (auto simp: past_lookup sorted_events intro: sorted_filter split: option.split)

text \<open>A snapshot in live mode has its cursor at or after every event.\<close>

lemma snapshot_live:
  assumes "playback_snapshot clk s p = Some (Inr (snapshot, p'))" "snap_mode snapshot = Live" "snap_cursor snapshot = Some c"
  shows "\<exists>lo. active_time_bounds s = Some (lo, c)"
  using assms
  by (auto simp: playback_snapshot_def update_effective_cursor_def snapshot_from_inner_def Let_def
      split: option.splits prod.splits PlaybackMode.splits if_splits)

lemma events_in_bounds:
  assumes "store_inv s" "active_time_bounds s = Some (lo, c)" "lookup s aid = Some x" "e \<in> set (events x)"
  shows "fle (ev_time e) c" "is_finite c"
proof -
  have "(aid, x) \<in> set (data s)" using in_data_lookup[OF assms(1)] assms(3) by blast
  then have "ev_time e \<in> store_times s" using assms(4) by (force simp: store_times_def series_times_def)
  then show "fle (ev_time e) c" "is_finite c" using bounds_Some[OF assms(1,2)] by blast+
qed

lemma spawned_of_resolved:
  assumes inv: "store_inv s" and snap: "playback_snapshot clk s p = Some (Inr (snapshot, p'))"
    and c: "snap_cursor snapshot = Some c" and r: "resolve_aircraft_with snapshot aid s = Some r"
  shows "rs_spawned r \<longleftrightarrow> spawned_at s aid c"
proof (cases "snap_mode snapshot = Live")
  case True
  obtain lo where b: "active_time_bounds s = Some (lo, c)" using snapshot_live[OF snap True c] by blast
  obtain x where x: "lookup s aid = Some x" and l: "rs_spawned r \<longleftrightarrow> last_lifecycle f_infinity (events x) = Some True"
    using resolve_no_lookahead[OF inv _ r, of f_infinity] True by auto
  have "timeline_ok ev_time (events x)" using store_inv_series_ok[OF inv x] by (simp add: series_ok_def)
  then have "filter (\<lambda>e. fle (ev_time e) f_infinity) (events x) = past s aid c"
    using events_in_bounds(1)[OF inv b x] by (auto simp: past_lookup x timeline_ok_def intro!: filter_cong)
  then show ?thesis using l by (simp add: last_lifecycle_def)
next
  case False
  then have "is_finite c"
    using r c by (auto simp: resolve_aircraft_with_def get_state_at_or_before_def split: if_splits)
  then show ?thesis
    using resolve_no_lookahead[OF inv _ r, of c] False c by (auto simp: past_lookup last_lifecycle_def)
qed

section \<open>A client that follows the stream\<close>

definition store_ok :: "(string \<Rightarrow> uuid option) \<Rightarrow> TimeSeriesStore \<Rightarrow> bool" where
  "store_ok parse s \<longleftrightarrow> store_inv s \<and> plain_times s \<and> event_total s \<le> usize_max
     \<and> (\<forall>aid \<in> set (get_aircraft_ids s). canonical parse aid)"

text \<open>
  The gear table of a client that applied a baseline at some cursor and then the deltas of later
  cursors, while the store may grow after the cursor it has published. A baseline leaves out an
  aircraft without a state, so none of these may be spawned then.
\<close>

inductive client_gear :: "(string \<Rightarrow> uuid option) \<Rightarrow> TimeSeriesStore \<Rightarrow> f64 \<Rightarrow> gear_states \<Rightarrow> bool" for parse where
  baseline: "\<lbrakk>store_ok parse s; playback_snapshot clk s p = Some (Inr (snapshot, p')); snap_cursor snapshot = Some c;
    \<forall>aid. spawned_at s aid c \<longrightarrow> resolve_aircraft_with snapshot aid s \<noteq> None;
    payload_pages parse epoch rv True (baseline_events snapshot s) sequence = Some bs\<rbrakk>
    \<Longrightarrow> client_gear parse s c (fold apply_cursor_event_batch bs gear)"
| delta: "\<lbrakk>client_gear parse s c gear; store_ok parse s'; fle c c'; \<forall>aid. past s' aid c = past s aid c;
    delta_events (Some c) (Some c') s' = Some es; payload_pages parse epoch rv False es sequence = Some bs\<rbrakk>
    \<Longrightarrow> client_gear parse s' c' (fold apply_cursor_event_batch bs gear)"

lemma ids_distinct: "store_inv s \<Longrightarrow> distinct (get_aircraft_ids s)"
  by (simp add: store_inv_def get_aircraft_ids_def)

lemma baseline_of_aircraft:
  assumes inv: "store_inv s" "plain_times s" and c: "snap_cursor snapshot = Some c"
  shows "filter (\<lambda>e. ge_aircraft_id e = aid) (baseline_events snapshot s) = baseline_of snapshot c s aid"
    "\<forall>e \<in> set (baseline_events snapshot s). ge_aircraft_id e \<in> set (get_aircraft_ids s)"
proof -
  have id: "e \<in> set (baseline_of snapshot c s i) \<Longrightarrow> ge_aircraft_id e = i" for e i
    by (auto simp: baseline_of_def global_event_def split: option.splits if_splits)
  have "sorted (map event_order (baseline_of snapshot c s aid))"
  proof (cases "lookup s aid")
    case (Some x)
    have "since_last_spawn es = drop (if \<exists>e \<in> set es. is_spawn e then length es - Suc (length (takeWhile (\<lambda>e. \<not> is_spawn e) (rev es))) else 0) es" for es
      by (simp add: since_last_spawn_def)
    then obtain n where "since_last_spawn (past s aid c) = drop n (past s aid c)" by blast
    then have "sorted (map ev_time (since_last_spawn (past s aid c)))"
      using past_sorted[OF inv, of aid c] by (simp add: sorted_wrt_drop flip: drop_map)
    then show ?thesis
      using past_window[OF inv(1) Some] Some
      by (auto simp: baseline_of_def get_events_range_def sorted_global_events split: option.split)
  qed (simp add: baseline_of_def get_events_range_def split: option.split)
  moreover have "aid \<notin> set (get_aircraft_ids s) \<Longrightarrow> baseline_of snapshot c s aid = []"
    using ids_unknown[of aid s] by (auto simp: baseline_of_def get_events_range_def split: option.split)
  ultimately show "filter (\<lambda>e. ge_aircraft_id e = aid) (baseline_events snapshot s) = baseline_of snapshot c s aid"
    using of_one_aircraft[OF ids_distinct[OF inv(1)], of aid "baseline_of snapshot c s"] id c
    by (simp add: baseline_events_def)
  show "\<forall>e \<in> set (baseline_events snapshot s). ge_aircraft_id e \<in> set (get_aircraft_ids s)"
    using c id by (auto simp: baseline_events_def)
qed

lemma delta_of_aircraft:
  assumes s: "store_ok parse s" and le: "fle c c'" and es: "delta_events (Some c) (Some c') s = Some es"
  shows "filter (\<lambda>e. ge_aircraft_id e = aid) es = delta_of c c' s aid"
    "\<forall>e \<in> set es. ge_aircraft_id e \<in> set (get_aircraft_ids s)"
proof -
  have inv: "store_inv s" "plain_times s" "event_total s \<le> usize_max" using s by (simp_all add: store_ok_def)
  have es': "es = sort_key event_order (concat (map (delta_of c c' s) (get_aircraft_ids s)))"
    using delta_closed[OF inv(1) le inv(3)] es by simp
  have id: "e \<in> set (delta_of c c' s i) \<Longrightarrow> ge_aircraft_id e = i" for e i
    by (auto simp: delta_of_def global_event_def split: option.splits)
  have "sorted (map event_order (delta_of c c' s aid))"
    using sorted_events[OF inv(1,2)]
    by (auto simp: delta_of_def intro!: sorted_global_events sorted_filter split: option.split)
  moreover have "aid \<notin> set (get_aircraft_ids s) \<Longrightarrow> delta_of c c' s aid = []"
    using ids_unknown[of aid s] by (simp add: delta_of_def)
  ultimately show "filter (\<lambda>e. ge_aircraft_id e = aid) es = delta_of c c' s aid"
    using of_one_aircraft[OF ids_distinct[OF inv(1)], of aid "delta_of c c' s"] id by (simp add: es')
  show "\<forall>e \<in> set es. ge_aircraft_id e \<in> set (get_aircraft_ids s)" using id by (auto simp: es')
qed

lemma fold_global: "fold (\<lambda>e v. remote_gear_step v (ge_event e)) (map (global_event aid) es) = gear_fold es"
  by (induction es) (auto simp: global_event_def)

lemma past_extends:
  assumes "store_inv s" "plain_times s" "fle c c'"
  shows "map (global_event aid) (past s aid c') = map (global_event aid) (past s aid c) @ delta_of c c' s aid"
proof (cases "lookup s aid")
  case (Some x)
  have srt: "sorted_wrt (\<lambda>a b. fle (ev_time a) (ev_time b)) (events x)" "\<forall>e \<in> set (events x). is_finite (ev_time e)"
    using store_inv_series_ok[OF assms(1) Some] by (auto simp: series_ok_def timeline_ok_def)
  have "filter (\<lambda>e. fle (ev_time e) c') es = filter (\<lambda>e. fle (ev_time e) c) es
      @ filter (\<lambda>e. flt c (ev_time e) \<and> fle (ev_time e) c') es"
    if "sorted_wrt (\<lambda>a b. fle (ev_time a) (ev_time b)) es" "\<forall>e \<in> set es. is_finite (ev_time e)" for es
    using that
  proof (induction es)
    case (Cons e es)
    show ?case
    proof (cases "fle (ev_time e) c")
      case True
      moreover have "fle (ev_time e) c'" using True assms(3) by (rule fle_trans)
      moreover have "\<not> flt c (ev_time e)" using True by (simp add: float_cmp)
      ultimately show ?thesis using Cons by simp
    next
      case False
      then have "filter (\<lambda>e. fle (ev_time e) c) es = []"
        using Cons.prems by (auto simp: filter_empty_conv intro: fle_trans)
      moreover have "flt c (ev_time e)" using False assms(3) Cons.prems(2) by (auto simp: float_cmp)
      ultimately show ?thesis using False Cons by simp
    qed
  qed simp
  from this[OF srt] show ?thesis by (simp add: past_lookup Some delta_of_def)
qed (simp add: past_lookup delta_of_def)

lemma canonical_events:
  "store_ok parse s \<Longrightarrow> \<forall>e \<in> set evs. ge_aircraft_id e \<in> set (get_aircraft_ids s)
    \<Longrightarrow> \<forall>e \<in> set evs. canonical parse (ge_aircraft_id e)"
  by (simp add: store_ok_def)

lemma client_gear_synced: "client_gear parse s c gear \<Longrightarrow> store_ok parse s \<and> remote_gear_synced s c gear"
proof (induction rule: client_gear.induct)
  case (baseline s clk p snapshot p' c epoch rv sequence bs gear)
  have inv: "store_inv s" "plain_times s" using baseline(1) by (simp_all add: store_ok_def)
  note of_base = baseline_of_aircraft[OF inv baseline(3)]
  have "fold apply_cursor_event_batch bs gear aid = gear_fold (past s aid c) None" if sp: "spawned_at s aid c" for aid
  proof -
    obtain r where r: "resolve_aircraft_with snapshot aid s = Some r" using baseline(4) sp by blast
    then obtain x where x: "lookup s aid = Some x"
      by (cases "lookup s aid") (auto simp: resolve_aircraft_with_def get_latest_def get_state_at_or_before_def split: if_splits bind_splits)
    have "baseline_of snapshot c s aid = map (global_event aid) (since_last_spawn (past s aid c))"
      using r spawned_of_resolved[OF inv(1) baseline(2,3) r] sp past_window[OF inv(1) x]
      by (simp add: baseline_of_def get_events_range_def x)
    moreover have "\<forall>e \<in> set (baseline_events snapshot s). canonical parse (ge_aircraft_id e)"
      using canonical_events[OF baseline(1) of_base(2)] .
    ultimately show ?thesis
      using apply_payload[OF baseline(5), of gear aid] of_base(1)[of aid] gear_fold_since[OF sp]
      by (simp add: fold_global)
  qed
  then show ?case using baseline(1) by (auto simp: remote_gear_synced_def)
next
  case (delta s c gear s' c' es epoch rv sequence bs)
  have inv: "store_inv s'" "plain_times s'" using delta(2) by (simp_all add: store_ok_def)
  note of_delta = delta_of_aircraft[OF delta(2,3,5)]
  have "\<exists>g0. fold apply_cursor_event_batch bs gear aid = gear_fold (past s' aid c') g0" if sp: "spawned_at s' aid c'" for aid
  proof -
    define D where "D = (case lookup s' aid of None \<Rightarrow> [] | Some x \<Rightarrow> filter (\<lambda>e. flt c (ev_time e) \<and> fle (ev_time e) c') (events x))"
    have D: "delta_of c c' s' aid = map (global_event aid) D" by (simp add: delta_of_def D_def split: option.split)
    have "map ge_event (map (global_event aid) (past s' aid c')) = map ge_event (map (global_event aid) (past s' aid c @ D))"
      using past_extends[OF inv delta(3), of aid] D by simp
    moreover have "inj (global_event aid)" by (auto simp: inj_def global_event_def intro: TimestampedEvent.equality)
    ultimately have ext: "past s' aid c' = past s aid c @ D"
      using past_extends[OF inv delta(3), of aid] D delta(4) by (metis inj_map_eq_map map_append)
    have now: "fold apply_cursor_event_batch bs gear aid = gear_fold D (gear aid)"
      using apply_payload[OF delta(6) canonical_events[OF delta(2) of_delta(2)], of gear aid] of_delta(1)[of aid]
      by (simp add: D fold_global)
    show ?thesis
    proof (cases "find_map lifecycle_of (rev D)")
      case None
      then have "spawned_at s aid c" using sp ext by (simp add: find_map_append)
      then obtain g0 where "gear aid = gear_fold (past s aid c) g0"
        using delta.IH by (auto simp: remote_gear_synced_def)
      then show ?thesis using now ext by auto
    next
      case (Some b)
      then have "find_map lifecycle_of (rev D) = Some True" using sp ext by (simp add: find_map_append)
      from gear_fold_reset[OF this] have "gear_fold D (gear aid) = gear_fold (past s aid c @ D) None" by simp
      then show ?thesis using now ext by auto
    qed
  qed
  then show ?case using delta(2) by (auto simp: remote_gear_synced_def)
qed

text \<open>
  The condition on the baseline is needed: an aircraft without a state is left out, and the gear
  events it already has are never streamed.
\<close>

lemma baseline_skips_stateless:
  assumes s: "store_ok parse s" and c: "snap_cursor snapshot = Some c"
    and no_state: "resolve_aircraft_with snapshot aid s = None"
    and bs: "payload_pages parse epoch rv True (baseline_events snapshot s) sequence = Some bs"
  shows "fold apply_cursor_event_batch bs gear aid = None"
proof -
  have inv: "store_inv s" "plain_times s" using s by (simp_all add: store_ok_def)
  note of_base = baseline_of_aircraft[OF inv c]
  show ?thesis
    using apply_payload[OF bs canonical_events[OF s of_base(2)], of gear aid] of_base(1)[of aid] no_state
    by (simp add: baseline_of_def)
qed

section \<open>Both routes give the same frame\<close>

lemma config_lookup:
  assumes "store_inv s"
  shows "Option.bind (map_of (map (\<lambda>x. (sum_id x, sum_config x)) (aircraft_summaries s)) aid) id
    = Option.bind (lookup s aid) config"
proof -
  let ?m = "map (\<lambda>x. (sum_id x, sum_config x)) (aircraft_summaries s)"
  have "mset (map fst ?m) = image_mset sum_id (mset (map summary_of (data s)))"
    unfolding aircraft_summaries_def by (simp add: multiset.map_comp o_def)
  also have "\<dots> = mset (map (\<lambda>e. sum_id (summary_of e)) (data s))"
    by (simp add: multiset.map_comp o_def)
  also have "(\<lambda>e. sum_id (summary_of e)) = fst" by (simp add: summary_of_def split_beta fun_eq_iff)
  finally have keys: "mset (map fst ?m) = mset (al_keys (data s))" .
  have "distinct (map fst ?m)"
    using mset_eq_imp_distinct_iff[OF keys] assms by (simp add: store_inv_def)
  then have "map_of ?m aid = Some v \<longleftrightarrow> (aid, v) \<in> set ?m" for v by (rule map_of_eq_Some_iff)
  moreover have "(aid, v) \<in> set ?m \<longleftrightarrow> (\<exists>x. lookup s aid = Some x \<and> v = config x)" for v
    using in_data_lookup[OF assms, of aid] by (force simp: aircraft_summaries_def summary_of_def)
  ultimately have "map_of ?m aid = Some v \<longleftrightarrow> map_option config (lookup s aid) = Some v" for v by auto
  then have "map_of ?m aid = map_option config (lookup s aid)" by (metis option.exhaust)
  then show ?thesis by (cases "lookup s aid") simp_all
qed

lemma gear_agrees:
  assumes "remote_gear_synced s c gear" "store_inv s" "spawned_at s aid c"
  shows "Option.bind (gear aid) id = latest_gear_state s aid c"
proof -
  obtain x where x: "lookup s aid = Some x"
    using assms(3) by (cases "lookup s aid") (simp_all add: past_lookup)
  obtain g0 where "gear aid = gear_fold (past s aid c) g0" using assms(1,3) by (auto simp: remote_gear_synced_def)
  with gear_fold_scan[OF assms(3)] past_window[OF assms(2) x] x show ?thesis
    by (simp add: latest_gear_state_def get_events_range_def)
qed

lemma one_aircraft_agrees:
  assumes inv: "store_inv s" and snap: "playback_snapshot clk s p = Some (Inr (snapshot, p'))" "snap_cursor snapshot = Some c"
    and sync: "remote_gear_synced s c gear" and t: "from_secs_f64 secs = Some timeout" and aid: "canonical parse aid"
  shows "\<exists>F. frame_aircraft parse now timeout snapshot s aid = map Some F
    \<and> stored_aircraft na now secs snapshot s aid = map Some (List.map_filter (streamed_aircraft na gear) F)
    \<and> (List.map_filter (streamed_aircraft na gear) F = []
       \<or> (\<exists>v. List.map_filter (streamed_aircraft na gear) F = [v] \<and> as_aircraft_id v = aid))"
proof (cases "resolve_aircraft_with snapshot aid s")
  case None
  then show ?thesis by (simp add: frame_aircraft_def stored_aircraft_def map_filter_simps)
next
  case (Some r)
  obtain u where u: "hex_to_pb_uuid parse aid = Some (Some u)" "uuid_hex u = aid" using canonical_hex[OF aid] by blast
  note sp = spawned_of_resolved[OF inv snap Some]
  show ?thesis
  proof (cases "rs_spawned r")
    case False
    with Some show ?thesis by (simp add: frame_aircraft_def stored_aircraft_def map_filter_simps)
  next
    case True
    define cfg where "cfg = Option.bind (lookup s aid) config"
    define v where "v = \<lparr>ca_aircraft_id = Some u,
      ca_name = (case cfg of None \<Rightarrow> [] | Some c \<Rightarrow> cfg_name c),
      ca_toml_config = (case cfg of None \<Rightarrow> [] | Some c \<Rightarrow> cfg_toml_config c),
      ca_source_timestamp = st_time (rs_sample r),
      ca_stale = (snap_mode snapshot = Live \<and> live_state_is_stale now aid timeout s), ca_state = Some (st_state (rs_sample r))\<rparr>"
    have "frame_aircraft parse now timeout snapshot s aid = map Some [v]"
      using Some True u by (simp add: frame_aircraft_def v_def cfg_def Let_def)
    moreover have "stored_aircraft na now secs snapshot s aid = map Some (List.map_filter (streamed_aircraft na gear) [v])"
      using Some True u t gear_agrees[OF sync inv, of aid] sp snap(2)
      by (simp add: stored_aircraft_def streamed_aircraft_def map_filter_simps config_lookup[OF inv] Let_def v_def cfg_def)
    moreover have "as_aircraft_id x = aid" if "streamed_aircraft na gear v = Some x" for x
      using that u by (auto simp: streamed_aircraft_def v_def Let_def split: if_splits)
    then have "List.map_filter (streamed_aircraft na gear) [v] = [] \<or> (\<exists>x. List.map_filter (streamed_aircraft na gear) [v] = [x] \<and> as_aircraft_id x = aid)"
      by (cases "streamed_aircraft na gear v") (simp_all add: map_filter_simps)
    ultimately show ?thesis by blast
  qed
qed

lemma those_Some_append: "those (map Some xs @ ys) = map_option ((@) xs) (those ys)"
  by (induction xs) (simp_all add: option.map_comp o_def option.map_ident)

lemma those_map_Some: "those (concat (map (\<lambda>i. map Some (F i)) ids)) = Some (concat (map F ids))"
  by (induction ids) (simp_all add: those_Some_append)

lemma mset_map_filter: "mset xs = mset ys \<Longrightarrow> mset (List.map_filter f xs) = mset (List.map_filter f ys)"
  by (simp add: List.map_filter_def)

lemma map_filter_concat: "List.map_filter f (concat xss) = concat (map (List.map_filter f) xss)"
  by (induction xss) (simp_all add: map_filter_simps map_filter_append)


section \<open>A concrete stream\<close>

definition plain_nalgebra :: Nalgebra where
  "plain_nalgebra = \<lparr>na_norm = \<lambda>_. f_one, na_normalize = \<lambda>q. q, na_orthogonality = \<lambda>_. f_zero, na_determinant = \<lambda>_. f_one,
     na_from_matrix = \<lambda>_. attitude_quaternion attitude_identity, na_to_matrix = \<lambda>_. [],
     na_from_euler = \<lambda>_. attitude_quaternion attitude_identity, na_euler = \<lambda>_. (f_zero, f_zero, f_zero),
     na_transform = \<lambda>_ v. v, na_inverse_transform = \<lambda>_ v. v, na_slerp = \<lambda>q _ _. q\<rparr>"

definition posed_state :: AircraftState where
  "posed_state = empty_state\<lparr>a_position := Some \<lparr>v_x = time_1, v_y = time_2, v_z = time_3\<rparr>,
     a_attitude := Some (attitude_quaternion attitude_identity)\<rparr>"

definition gear_store :: TimeSeriesStore where
  "gear_store = append_message 20 (demo_request time_2 (CustomEvent GEAR_UP))
     (append_message 10 (demo_request time_1 (Spawn (demo_spawn\<lparr>sp_initial_state := Some posed_state\<rparr>))) store_new)"

lemma gear_store_inv: "store_inv gear_store"
  unfolding gear_store_def by (intro store_reachable_invariant store_reachable.intros)

lemma gear_store_data:
  "data gear_store = [(''07'',
    \<lparr>states = [\<lparr>st_time = time_1, st_state = posed_state\<rparr>],
     events = [\<lparr>ev_time = time_1, ev_event = EvSpawn (demo_spawn\<lparr>sp_initial_state := Some posed_state\<rparr>)\<rparr>,
               \<lparr>ev_time = time_2, ev_event = EvCustom GEAR_UP\<rparr>],
     telemetry = [], config = Some (config_of_spawn (demo_spawn\<lparr>sp_initial_state := Some posed_state\<rparr>))\<rparr>)]"
  by (simp add: gear_store_def demo_request_def append_message_def apply_command_def event_aircraft_id_def
      hex_07 demo_schema_valid demo_spawn_def store_eval last_opt_def float_cmp
      put_series_def lookup_def store_new_def record_receipt_def)

lemma gear_store_lookup: "lookup gear_store aid = (if aid = ''07'' then Some (snd (hd (data gear_store))) else None)"
  by (simp add: lookup_def gear_store_data)

lemma gear_store_bounds: "active_time_bounds gear_store = Some (time_1, time_2)"
  by (simp add: active_time_bounds_def gear_store_data widen_def first_stamp_def last_stamp_def opt_list_def
      last_opt_def min_def max_def less_eq_f64_def tot_key_def time_1_def time_2_def f64_eval)

definition live_snapshot :: PlaybackSnapshot where
  "live_snapshot = \<lparr>snap_mode = Live, snap_cursor = Some time_2, snap_speed = f_one,
     snap_bounds = Some (time_1, time_2), snap_revision = 0\<rparr>"

lemma live_snapshot: "\<exists>p'. playback_snapshot clk gear_store (playback_new replay_config_default) = Some (Inr (live_snapshot, p'))"
  by (simp add: playback_snapshot_def gear_store_bounds update_effective_cursor_def playback_new_def replay_config_default_def
      snapshot_from_inner_def live_snapshot_def f_one_def)

lemma gear_store_ok: "store_ok (\<lambda>_. Some [7]) gear_store"
  using gear_store_inv
  by (simp add: store_ok_def plain_times_def gear_store_data time_1_def time_2_def f64_eval event_total_def usize_max_def
      get_aircraft_ids_def canonical_def hex_07)

lemma those_defined: "(\<forall>x \<in> set xs. x \<noteq> None) \<Longrightarrow> \<exists>ys. those xs = Some ys"
  by (induction xs) auto

lemma page_defined:
  assumes "\<forall>e \<in> set es. canonical parse (ge_aircraft_id e)"
  shows "\<exists>ces. those (map (\<lambda>(index, e). cursor_event parse (f index) e) (List.enumerate k es)) = Some ces"
  using assms
proof (induction es arbitrary: k)
  case (Cons e es)
  then obtain u where "hex_to_pb_uuid parse (ge_aircraft_id e) = Some (Some u)" using canonical_hex[of parse "ge_aircraft_id e"] by auto
  with Cons.IH[of "Suc k"] Cons.prems show ?case by (auto simp: cursor_event_def)
qed simp

lemma payload_pages_defined:
  assumes "\<forall>e \<in> set evs. canonical parse (ge_aircraft_id e)"
  shows "\<exists>bs. payload_pages parse epoch rv baseline evs sequence = Some bs"
proof -
  have "\<forall>e \<in> set (page_events i evs). canonical parse (ge_aircraft_id e)" for i
    using assms by (auto simp: page_events_def dest: in_set_takeD in_set_dropD)
  from page_defined[OF this, of "event_id q" for q] have "\<exists>b. event_batch parse epoch rv baseline evs q i = Some b" for q i
    by (simp add: event_batch_def)
  then show ?thesis by (auto simp: payload_pages_def intro!: those_defined)
qed

lemma gear_store_stream: "\<exists>gear. client_gear (\<lambda>_. Some [7]) gear_store time_2 gear"
proof -
  obtain p' where snap: "playback_snapshot (\<lambda>_. 0) gear_store (playback_new replay_config_default) = Some (Inr (live_snapshot, p'))"
    using live_snapshot by blast
  have c: "snap_cursor live_snapshot = Some time_2" by (simp add: live_snapshot_def)
  note ok = gear_store_ok
  have inv: "store_inv gear_store" "plain_times gear_store" using ok by (simp_all add: store_ok_def)
  have "\<forall>aid. spawned_at gear_store aid time_2 \<longrightarrow> resolve_aircraft_with live_snapshot aid gear_store \<noteq> None"
    by (simp add: past_lookup gear_store_lookup gear_store_data resolve_aircraft_with_def live_snapshot_def get_latest_def last_opt_def)
  moreover obtain bs where
    "payload_pages (\<lambda>_. Some [7]) [9] 0 True (baseline_events live_snapshot gear_store) of_nat = Some bs"
    using payload_pages_defined canonical_events[OF ok baseline_of_aircraft(2)[OF inv c]] by blast
  ultimately show ?thesis using client_gear.baseline[OF ok snap c] by blast
qed


end
