(* ===== verification/Godot_Config.thy ===== *)
theory Godot_Config
  imports Godot_Model
begin

text \<open>
  The configuration resource of the Godot runtime (\<open>bindings/godot/src/lib.rs\<close>): loading a TOML file
  with the migration of schema version 1, saving it through a temporary file, and the conversion
  between the resource, the file and the resolved settings. The TOML crate is a parameter beyond the
  shape of its values; the file system fails where a parameter says so. An \<open>i64\<close> is a word read with
  its sign.
\<close>

type_synonym i64 = "64 word"

definition negative :: "i64 \<Rightarrow> bool" where
  "negative w \<longleftrightarrow> sint w < 0"

section \<open>The resource\<close>

record FlyRulerRuntimeConfig =
  rg_role :: string
  rg_udp_listen :: string
  rg_server_address :: string
  rg_management_enabled :: bool
  rg_management_listen :: string
  rg_data_root :: string
  rg_web_root :: string
  rg_websocket_hz :: f64
  rg_snapshot_hz :: f64
  rg_heartbeat_interval_secs :: i64
  rg_heartbeat_timeout_secs :: i64
  rg_replay_min_speed :: f64
  rg_replay_max_speed :: f64
  rg_stale_timeout_secs :: f64
  rg_cursor_publish_hz :: f64
  rg_max_subscribers :: i64
  rg_reconnect_initial_secs :: f64
  rg_reconnect_max_secs :: f64
  rg_log_level :: string
  rg_log_file :: string
  rg_config_error :: string

text \<open>\<open>init\<close> and \<open>apply_file\<close> set the same fields from a file; only \<open>init\<close> sets the error.\<close>

definition apply_file :: "GodotRuntimeFileConfig \<Rightarrow> FlyRulerRuntimeConfig \<Rightarrow> FlyRulerRuntimeConfig" where
  "apply_file f c =
     \<lparr>rg_role = tf_role (gf_transport f), rg_udp_listen = tf_udp_listen (gf_transport f),
      rg_server_address = tf_server_address (gf_transport f),
      rg_management_enabled = mf_enabled (gf_management f), rg_management_listen = mf_listen (gf_management f),
      rg_data_root = mf_data_root (gf_management f), rg_web_root = mf_web_root (gf_management f),
      rg_websocket_hz = mf_websocket_hz (gf_management f), rg_snapshot_hz = vf_snapshot_hz (gf_visualization f),
      rg_heartbeat_interval_secs = tf_heartbeat_interval_secs (gf_transport f),
      rg_heartbeat_timeout_secs = tf_heartbeat_timeout_secs (gf_transport f),
      rg_replay_min_speed = pf_min_speed (gf_playback f), rg_replay_max_speed = pf_max_speed (gf_playback f),
      rg_stale_timeout_secs = vf_stale_timeout_secs (gf_visualization f),
      rg_cursor_publish_hz = csf_publish_hz (gf_cursor_stream f),
      rg_max_subscribers = of_nat (csf_max_subscribers (gf_cursor_stream f)),
      rg_reconnect_initial_secs = csf_reconnect_initial_secs (gf_cursor_stream f),
      rg_reconnect_max_secs = csf_reconnect_max_secs (gf_cursor_stream f),
      rg_log_level = lf_level (gf_logging f), rg_log_file = lf_file_path (gf_logging f),
      rg_config_error = rg_config_error c\<rparr>"

definition config_init :: FlyRulerRuntimeConfig where
  "config_init =
     (let f = godot_file_default in
      \<lparr>rg_role = tf_role (gf_transport f), rg_udp_listen = tf_udp_listen (gf_transport f),
       rg_server_address = tf_server_address (gf_transport f),
       rg_management_enabled = mf_enabled (gf_management f), rg_management_listen = mf_listen (gf_management f),
       rg_data_root = mf_data_root (gf_management f), rg_web_root = mf_web_root (gf_management f),
       rg_websocket_hz = mf_websocket_hz (gf_management f), rg_snapshot_hz = vf_snapshot_hz (gf_visualization f),
       rg_heartbeat_interval_secs = tf_heartbeat_interval_secs (gf_transport f),
       rg_heartbeat_timeout_secs = tf_heartbeat_timeout_secs (gf_transport f),
       rg_replay_min_speed = pf_min_speed (gf_playback f), rg_replay_max_speed = pf_max_speed (gf_playback f),
       rg_stale_timeout_secs = vf_stale_timeout_secs (gf_visualization f),
       rg_cursor_publish_hz = csf_publish_hz (gf_cursor_stream f),
       rg_max_subscribers = of_nat (csf_max_subscribers (gf_cursor_stream f)),
       rg_reconnect_initial_secs = csf_reconnect_initial_secs (gf_cursor_stream f),
       rg_reconnect_max_secs = csf_reconnect_max_secs (gf_cursor_stream f),
       rg_log_level = lf_level (gf_logging f), rg_log_file = lf_file_path (gf_logging f), rg_config_error = []\<rparr>)"

definition max_zero :: "i64 \<Rightarrow> i64" where
  "max_zero w = (if negative w then 0 else w)"

definition as_file :: "FlyRulerRuntimeConfig \<Rightarrow> GodotRuntimeFileConfig" where
  "as_file c = godot_file_default
     \<lparr>gf_transport := \<lparr>tf_role = rg_role c, tf_udp_listen = rg_udp_listen c, tf_server_address = rg_server_address c,
        tf_heartbeat_interval_secs = max_zero (rg_heartbeat_interval_secs c),
        tf_heartbeat_timeout_secs = max_zero (rg_heartbeat_timeout_secs c)\<rparr>,
      gf_management := \<lparr>mf_enabled = rg_management_enabled c, mf_listen = rg_management_listen c,
        mf_data_root = rg_data_root c, mf_web_root = rg_web_root c, mf_websocket_hz = rg_websocket_hz c\<rparr>,
      gf_visualization := \<lparr>vf_snapshot_hz = rg_snapshot_hz c, vf_stale_timeout_secs = rg_stale_timeout_secs c\<rparr>,
      gf_cursor_stream := \<lparr>csf_publish_hz = rg_cursor_publish_hz c,
        csf_max_subscribers = unat (max_zero (rg_max_subscribers c)),
        csf_reconnect_initial_secs = rg_reconnect_initial_secs c, csf_reconnect_max_secs = rg_reconnect_max_secs c\<rparr>,
      gf_playback := \<lparr>pf_min_speed = rg_replay_min_speed c, pf_max_speed = rg_replay_max_speed c\<rparr>,
      gf_logging := \<lparr>lf_level = rg_log_level c, lf_file_path = rg_log_file c\<rparr>\<rparr>"

text \<open>The host: the platform, \<open>create_dir_all\<close> and Godot's \<open>globalize_path\<close>.\<close>

record GodotHost =
  gh_platform :: Platform
  gh_create_dir_all :: "string \<Rightarrow> string option"
  gh_globalize_path :: "string \<Rightarrow> string"

definition globalize :: "GodotHost \<Rightarrow> string \<Rightarrow> string" where
  "globalize h path = (if path = [] then [] else gh_globalize_path h path)"

definition settings_of :: "GodotHost \<Rightarrow> FlyRulerRuntimeConfig \<Rightarrow> string + RuntimeSettings" where
  "settings_of h c =
     (if negative (rg_heartbeat_interval_secs c) then Inl ''heartbeat_interval_secs must be positive''
      else if negative (rg_heartbeat_timeout_secs c) then Inl ''heartbeat_timeout_secs must be positive''
      else if negative (rg_max_subscribers c) then Inl ''max_subscribers must be positive''
      else Inr
        \<lparr>gs_role = rg_role c, gs_udp_listen = rg_udp_listen c, gs_server_address = rg_server_address c,
         gs_management_enabled = rg_management_enabled c, gs_management_listen = rg_management_listen c,
         gs_data_root = globalize h (rg_data_root c), gs_web_root = globalize h (rg_web_root c),
         gs_websocket_hz = rg_websocket_hz c, gs_snapshot_hz = rg_snapshot_hz c,
         gs_heartbeat_interval_secs = rg_heartbeat_interval_secs c, gs_heartbeat_timeout_secs = rg_heartbeat_timeout_secs c,
         gs_replay_min_speed = rg_replay_min_speed c, gs_replay_max_speed = rg_replay_max_speed c,
         gs_stale_timeout_secs = rg_stale_timeout_secs c, gs_cursor_publish_hz = rg_cursor_publish_hz c,
         gs_max_subscribers = unat (rg_max_subscribers c),
         gs_reconnect_initial_secs = rg_reconnect_initial_secs c, gs_reconnect_max_secs = rg_reconnect_max_secs c,
         gs_log_level = rg_log_level c,
         gs_log_file = (if rg_log_file c = [] then None else Some (globalize h (rg_log_file c)))\<rparr>)"

definition config_resolve :: "GodotHost \<Rightarrow> FlyRulerRuntimeConfig \<Rightarrow> string + RuntimeSettings" where
  "config_resolve h c =
     (case settings_of h c of
        Inl e \<Rightarrow> Inl e
      | Inr st \<Rightarrow>
          (case settings_validate st of
             Inl e \<Rightarrow> Inl e
           | Inr _ \<Rightarrow> (case validate_paths (gh_platform h) (gh_create_dir_all h) st of Inl e \<Rightarrow> Inl e | Inr _ \<Rightarrow> Inr st)))"

section \<open>Loading and migrating\<close>

text \<open>A value of the TOML crate; only strings, integers and tables are looked into.\<close>

datatype 'a TomlValue = TomlString string | TomlInteger i64 | TomlOther 'a | TomlTable "(string \<times> 'a TomlValue) list"

definition toml_get :: "string \<Rightarrow> 'a TomlValue \<Rightarrow> 'a TomlValue option" where
  "toml_get k v = (case v of TomlTable t \<Rightarrow> map_of t k | _ \<Rightarrow> None)"

definition or_insert :: "string \<Rightarrow> 'a TomlValue \<Rightarrow> (string \<times> 'a TomlValue) list \<Rightarrow> (string \<times> 'a TomlValue) list" where
  "or_insert k v t = (if map_of t k = None then t @ [(k, v)] else t)"

definition migrate_transport :: "(string \<times> 'a TomlValue) list \<Rightarrow> (string \<times> 'a TomlValue) list" where
  "migrate_transport t =
     (let t1 = or_insert ''role'' (TomlString ''server'') t;
          address = (case map_of t1 ''udp_listen'' of None \<Rightarrow> TomlString ''127.0.0.1:18002'' | Some v \<Rightarrow> v)
      in or_insert ''server_address'' address t1)"

definition migrate_root :: "'a TomlValue \<Rightarrow> (string \<times> 'a TomlValue) list \<Rightarrow> (string \<times> 'a TomlValue) list" where
  "migrate_root cursor_defaults t =
     (let t1 = al_put ''schema_version'' (TomlInteger (ucast RUNTIME_CONFIG_SCHEMA_VERSION)) t;
          t2 = (case map_of t1 ''transport'' of
                  Some (TomlTable tr) \<Rightarrow> al_put ''transport'' (TomlTable (migrate_transport tr)) t1
                | _ \<Rightarrow> t1)
      in or_insert ''cursor_stream'' cursor_defaults t2)"

text \<open>The TOML crate: parser, printer, and the serialisation of the two types that are used.\<close>

record 'a TomlCodec =
  tc_parse :: "string \<Rightarrow> string + 'a TomlValue"
  tc_decode :: "'a TomlValue \<Rightarrow> string + GodotRuntimeFileConfig"
  tc_print :: "GodotRuntimeFileConfig \<Rightarrow> string + string"
  tc_cursor_stream :: "CursorStreamFileConfig \<Rightarrow> 'a TomlValue"

definition migrate :: "'a TomlCodec \<Rightarrow> 'a TomlValue \<Rightarrow> string + 'a TomlValue" where
  "migrate codec document =
     (let schema_version = (case toml_get ''schema_version'' document of Some (TomlInteger n) \<Rightarrow> n | _ \<Rightarrow> 0) in
      if schema_version = 1 then
        (case document of
           TomlTable t \<Rightarrow> Inr (TomlTable (migrate_root (tc_cursor_stream codec cursor_stream_file_default) t))
         | _ \<Rightarrow> Inl ''configuration root must be a table'')
      else Inr document)"

definition MAX_CONFIG_BYTES :: nat where
  "MAX_CONFIG_BYTES = 64 * 1024"

text \<open>\<open>fs::metadata\<close> and \<open>fs::read_to_string\<close> of the file: its text, or the error.\<close>

definition load_config_file :: "'a TomlCodec \<Rightarrow> (u32 \<Rightarrow> string) \<Rightarrow> string + string \<Rightarrow> string + GodotRuntimeFileConfig" where
  "load_config_file codec u32_text file =
     (case file of
        Inl e \<Rightarrow> Inl e
      | Inr source \<Rightarrow>
          if MAX_CONFIG_BYTES < length source then Inl ''configuration file exceeds 64 KiB''
          else case tc_parse codec source of
            Inl e \<Rightarrow> Inl e
          | Inr document \<Rightarrow>
             (case migrate codec document of
                Inl e \<Rightarrow> Inl e
              | Inr migrated \<Rightarrow>
                 (case tc_decode codec migrated of
                    Inl e \<Rightarrow> Inl e
                  | Inr f \<Rightarrow>
                      if gf_schema_version f \<noteq> RUNTIME_CONFIG_SCHEMA_VERSION
                      then Inl (''unsupported schema_version '' @ u32_text (gf_schema_version f) @ ''; expected ''
                                @ u32_text RUNTIME_CONFIG_SCHEMA_VERSION)
                      else Inr f)))"

section \<open>Saving\<close>

text \<open>The configuration file and the temporary one beside it.\<close>

record ConfigFiles =
  cfl_main :: "string option"
  cfl_temporary :: "string option"

text \<open>What fails while saving, each with its error text; a failing write has written some bytes.\<close>

record ConfigSaveFaults =
  sx_no_parent :: bool
  sx_create_dir :: "string option"
  sx_create :: "string option"
  sx_write :: "(nat \<times> string) option"
  sx_sync :: "string option"
  sx_rename :: "string option"

text \<open>Every state of the two files that a crash may leave, and the result.\<close>

definition temporary_states :: "string \<Rightarrow> nat \<Rightarrow> ConfigFiles \<Rightarrow> ConfigFiles list" where
  "temporary_states source n f = map (\<lambda>k. f\<lparr>cfl_temporary := Some (take k source)\<rparr>) [0..<Suc n]"

definition write_config :: "string \<Rightarrow> ConfigSaveFaults \<Rightarrow> ConfigFiles \<Rightarrow> (string + unit) \<times> ConfigFiles list" where
  "write_config source x f0 =
     (case sx_create x of
        Some e \<Rightarrow> (Inl e, [f0])
      | None \<Rightarrow>
         (case sx_write x of
            Some (n, e) \<Rightarrow> (Inl e, f0 # temporary_states source (min n (length source)) f0)
          | None \<Rightarrow>
             (let written = f0 # temporary_states source (length source) f0 in
              case sx_sync x of
                Some e \<Rightarrow> (Inl e, written)
              | None \<Rightarrow>
                 (case sx_rename x of
                    Some e \<Rightarrow> (Inl e, written)
                  | None \<Rightarrow> (Inr (), written @ [\<lparr>cfl_main = Some source, cfl_temporary = None\<rparr>])))))"

definition save_config_file ::
  "'a TomlCodec \<Rightarrow> ConfigSaveFaults \<Rightarrow> GodotRuntimeFileConfig \<Rightarrow> ConfigFiles \<Rightarrow> (string + unit) \<times> ConfigFiles list" where
  "save_config_file codec x file f0 =
     (if sx_no_parent x then (Inl ''configuration path has no parent directory'', [f0])
      else case sx_create_dir x of
        Some e \<Rightarrow> (Inl e, [f0])
      | None \<Rightarrow>
         (case tc_print codec file of
            Inl e \<Rightarrow> (Inl e, [f0])
          | Inr source \<Rightarrow>
              if MAX_CONFIG_BYTES < length source then (Inl ''serialized configuration exceeds 64 KiB'', [f0])
              else write_config source x f0))"

section \<open>The methods of the resource\<close>

definition load_toml :: "'a TomlCodec \<Rightarrow> (u32 \<Rightarrow> string) \<Rightarrow> string + string \<Rightarrow> FlyRulerRuntimeConfig \<Rightarrow> bool \<times> FlyRulerRuntimeConfig" where
  "load_toml codec u32_text file c =
     (let c1 = c\<lparr>rg_config_error := []\<rparr> in
      case load_config_file codec u32_text file of
        Inr f \<Rightarrow> (True, apply_file f c1)
      | Inl e \<Rightarrow> (False, c1\<lparr>rg_config_error := e\<rparr>))"

definition save_toml ::
  "'a TomlCodec \<Rightarrow> GodotHost \<Rightarrow> ConfigSaveFaults \<Rightarrow> FlyRulerRuntimeConfig \<Rightarrow> ConfigFiles
   \<Rightarrow> bool \<times> FlyRulerRuntimeConfig \<times> ConfigFiles list" where
  "save_toml codec h x c f0 =
     (let c1 = c\<lparr>rg_config_error := []\<rparr>;
          (r, trace) = (case config_resolve h c1 of
             Inl e \<Rightarrow> (Inl e, [f0])
           | Inr _ \<Rightarrow> save_config_file codec x (as_file c1) f0)
      in case r of
           Inl e \<Rightarrow> (False, c1\<lparr>rg_config_error := e\<rparr>, trace)
         | Inr _ \<Rightarrow> (True, c1, trace))"

definition config_validate :: "GodotHost \<Rightarrow> FlyRulerRuntimeConfig \<Rightarrow> string \<times> FlyRulerRuntimeConfig" where
  "config_validate h c =
     (case config_resolve h c of
        Inr _ \<Rightarrow> ([], c\<lparr>rg_config_error := []\<rparr>)
      | Inl e \<Rightarrow> (e, c\<lparr>rg_config_error := e\<rparr>))"

definition reset_defaults :: "FlyRulerRuntimeConfig \<Rightarrow> FlyRulerRuntimeConfig" where
  "reset_defaults c = (apply_file godot_file_default c)\<lparr>rg_config_error := []\<rparr>"

end
