(* ===== verification/Godot_Profile.thy ===== *)
theory Godot_Profile
  imports Net_Addr F64
begin

text \<open>
  Aircraft profiles of the Godot runtime (\<open>bindings/godot/src/aircraft_profile.rs\<close>): the document,
  its validation and loading it from a file. The TOML parser and the file system are parameters; the
  texts of errors are those of the source. \<open>u32\<close> numbers in them are printed by a parameter.
\<close>

section \<open>The document\<close>

definition AIRCRAFT_PROFILE_SCHEMA_VERSION :: u32 where
  "AIRCRAFT_PROFILE_SCHEMA_VERSION = 1"

definition MAX_AIRCRAFT_PROFILE_BYTES :: nat where
  "MAX_AIRCRAFT_PROFILE_BYTES = 64 * 1024"

record MatchRules =
  mr_model_ids :: "string list"
  mr_name_prefixes :: "string list"

record ModelConfig =
  mo_scene :: string
  mo_scale :: "f64 \<times> f64 \<times> f64"
  mo_rotation_degrees :: "f64 \<times> f64 \<times> f64"
  mo_ground_offset_m :: f64
  mo_bounding_radius_m :: f64
  mo_camera_target_m :: "f64 \<times> f64 \<times> f64"
  mo_cockpit_enabled :: bool
  mo_cockpit_eye_m :: "f64 \<times> f64 \<times> f64"
  mo_orbit_yaw_degrees :: f64
  mo_orbit_pitch_degrees :: f64
  mo_orbit_distance_multiplier :: f64

record HudConfig =
  hu_panels :: "string list"

datatype DataSource =
    StateSource string
  | PropulsorSource "string option" "int option" string
  | MeanSource "string list"
  | UnavailableSource

record ValueRange =
  vr_min :: f64
  vr_max :: f64

record DisplayConfig =
  di_transform :: string
  di_unit :: string
  di_decimals :: int
  di_scale :: f64
  di_offset :: f64
  di_invert :: bool

definition display_default :: DisplayConfig where
  "display_default = \<lparr>di_transform = ''identity'', di_unit = [], di_decimals = 1, di_scale = f_one,
     di_offset = f_zero, di_invert = False\<rparr>"

record ChannelConfig =
  cn_id :: string
  cn_panel :: string
  cn_label :: string
  cn_source :: DataSource
  cn_range :: ValueRange
  cn_display :: DisplayConfig

record AircraftProfileFile =
  ap_schema_version :: u32
  ap_profile_id :: string
  ap_display_name :: string
  ap_priority :: int
  ap_match_rules :: MatchRules
  ap_model :: ModelConfig
  ap_hud :: HudConfig
  ap_channels :: "ChannelConfig list"

section \<open>Validation\<close>

definition PANELS :: "string list" where
  "PANELS = [''common_flight'', ''quad_rotors'', ''twin_engine'', ''airliner_actuators'', ''single_engine'',
     ''fighter_actuators'', ''evtol_propulsion'', ''evtol_actuators'']"

definition STATE_PATHS :: "string list" where
  "STATE_PATHS = [''control_surfaces.aileron_left_rad'', ''control_surfaces.aileron_right_rad'',
     ''control_surfaces.elevator_rad'', ''control_surfaces.rudder_rad'', ''control_surfaces.flaps_left_ratio'',
     ''control_surfaces.flaps_right_ratio'', ''control_surfaces.spoilers_ratio'']"

definition PROPULSOR_FIELDS :: "string list" where
  "PROPULSOR_FIELDS = [''rpm'', ''throttle_ratio'', ''blade_pitch_rad'', ''thrust_newton'', ''torque_newton_meter'']"

text \<open>\<open>is_ascii_alphanumeric\<close>, underscore or hyphen. A character beyond ASCII has only bytes from 128 on.\<close>

definition identifier_char :: "char \<Rightarrow> bool" where
  "identifier_char c =
     (let n = of_char c :: nat in
      48 \<le> n \<and> n \<le> 57 \<or> 65 \<le> n \<and> n \<le> 90 \<or> 97 \<le> n \<and> n \<le> 122 \<or> n = 95 \<or> n = 45)"

definition validate_identifier :: "string \<Rightarrow> string \<Rightarrow> string + unit" where
  "validate_identifier v name =
     (if v = [] \<or> \<not> list_all identifier_char v
      then Inl (name @ '' must contain only ASCII letters, numbers, '' @ [CHR 0x27, CHR ''_'', CHR 0x27] @ '' or '' @ [CHR 0x27, CHR ''-'', CHR 0x27])
      else Inr ())"

definition has_prefix :: "string \<Rightarrow> string \<Rightarrow> bool" where
  "has_prefix p s \<longleftrightarrow> take (length p) s = p"

definition has_suffix :: "string \<Rightarrow> string \<Rightarrow> bool" where
  "has_suffix p s \<longleftrightarrow> has_prefix (rev p) (rev s)"

fun contains_text :: "string \<Rightarrow> string \<Rightarrow> bool" where
  "contains_text p [] = (p = [])"
| "contains_text p (c # cs) = (has_prefix p (c # cs) \<or> contains_text p cs)"

definition validate_resource_path :: "string \<Rightarrow> string + unit" where
  "validate_resource_path v =
     (if \<not> has_prefix ''res://'' v \<or> \<not> has_suffix ''.tscn'' v \<or> contains_text ''..'' v
      then Inl ''model.scene must be a safe res:// .tscn path'' else Inr ())"

definition validate_state_path :: "string \<Rightarrow> string + unit" where
  "validate_state_path path = (if path \<in> set STATE_PATHS then Inr () else Inl (''unknown state path '' @ path))"

text \<open>A loop with \<open>?\<close>: the error of the first element that has one.\<close>

fun each_ok :: "('a \<Rightarrow> string + unit) \<Rightarrow> 'a list \<Rightarrow> string + unit" where
  "each_ok f [] = Inr ()"
| "each_ok f (x # xs) = (case f x of Inl e \<Rightarrow> Inl e | Inr _ \<Rightarrow> each_ok f xs)"

definition validate_source :: "DataSource \<Rightarrow> string + unit" where
  "validate_source src =
     (case src of
        StateSource path \<Rightarrow> validate_state_path path
      | PropulsorSource sid index field \<Rightarrow>
          if (sid \<noteq> None) = (index \<noteq> None) then Inl ''propulsor source must specify exactly one of id or index''
          else if (case sid of None \<Rightarrow> False | Some v \<Rightarrow> trim_is_empty v) \<or> (case index of None \<Rightarrow> False | Some v \<Rightarrow> v < 1)
          then Inl ''propulsor selector is invalid''
          else if field \<notin> set PROPULSOR_FIELDS then Inl (''unknown propulsor field '' @ field)
          else Inr ()
      | MeanSource paths \<Rightarrow>
          if length paths < 2 then Inl ''mean source requires at least two paths''
          else each_ok validate_state_path paths
      | UnavailableSource \<Rightarrow> Inr ())"

text \<open>The body of the loop over the channels, with the identifiers seen before it.\<close>

definition validate_channel :: "string list \<Rightarrow> string list \<Rightarrow> ChannelConfig \<Rightarrow> string + unit" where
  "validate_channel enabled seen c =
     (case validate_identifier (cn_id c) ''channel id'' of
        Inl e \<Rightarrow> Inl e
      | Inr _ \<Rightarrow>
          if cn_id c \<in> set seen then Inl (''duplicate channel id '' @ cn_id c)
          else if cn_panel c \<notin> set enabled \<or> cn_panel c = ''common_flight''
          then Inl (''channel '' @ cn_id c @ '' references unavailable panel '' @ cn_panel c)
          else if trim_is_empty (cn_label c) then Inl (''channel '' @ cn_id c @ '' label must not be empty'')
          else case validate_source (cn_source c) of
            Inl e \<Rightarrow> Inl e
          | Inr _ \<Rightarrow>
              if \<not> is_finite (vr_min (cn_range c)) \<or> \<not> is_finite (vr_max (cn_range c))
                 \<or> fle (vr_max (cn_range c)) (vr_min (cn_range c))
              then Inl (''channel '' @ cn_id c @ '' has an invalid range'')
              else if di_transform (cn_display c) \<notin> {''identity'', ''rad_to_deg'', ''ratio_to_percent''}
              then Inl (''channel '' @ cn_id c @ '' has an unknown display transform'')
              else if \<not> (0 \<le> di_decimals (cn_display c) \<and> di_decimals (cn_display c) \<le> 6)
                 \<or> \<not> is_finite (di_scale (cn_display c)) \<or> \<not> is_finite (di_offset (cn_display c))
              then Inl (''channel '' @ cn_id c @ '' has an invalid display mapping'')
              else Inr ())"

fun validate_channels :: "string list \<Rightarrow> string list \<Rightarrow> ChannelConfig list \<Rightarrow> string + unit" where
  "validate_channels enabled seen [] = Inr ()"
| "validate_channels enabled seen (c # cs) =
     (case validate_channel enabled seen c of
        Inl e \<Rightarrow> Inl e
      | Inr _ \<Rightarrow> validate_channels enabled (cn_id c # seen) cs)"

definition triple_list :: "'a \<times> 'a \<times> 'a \<Rightarrow> 'a list" where
  "triple_list t = (case t of (x, y, z) \<Rightarrow> [x, y, z])"

definition validate_match :: "AircraftProfileFile \<Rightarrow> string + unit" where
  "validate_match p =
     (if mr_model_ids (ap_match_rules p) = [] \<and> mr_name_prefixes (ap_match_rules p) = []
      then Inl ''match must contain a model_id or name_prefix''
      else case each_ok (\<lambda>m. validate_identifier m ''model_id'') (mr_model_ids (ap_match_rules p)) of
        Inl e \<Rightarrow> Inl e
      | Inr _ \<Rightarrow>
          if list_ex trim_is_empty (mr_name_prefixes (ap_match_rules p))
          then Inl ''name_prefixes must not contain empty values'' else Inr ())"

definition validate_model :: "ModelConfig \<Rightarrow> string + unit" where
  "validate_model m =
     (case validate_resource_path (mo_scene m) of
        Inl e \<Rightarrow> Inl e
      | Inr _ \<Rightarrow>
         (case each_ok (\<lambda>(name, v). if \<not> is_finite v \<or> fle v f_zero
                 then Inl (name @ '' must be finite and greater than zero'') else Inr ())
               [(''bounding_radius_m'', mo_bounding_radius_m m),
                (''orbit_distance_multiplier'', mo_orbit_distance_multiplier m)] of
            Inl e \<Rightarrow> Inl e
          | Inr _ \<Rightarrow>
              if \<not> list_all is_finite (triple_list (mo_scale m) @ triple_list (mo_rotation_degrees m)
                   @ triple_list (mo_camera_target_m m) @ triple_list (mo_cockpit_eye_m m)
                   @ [mo_ground_offset_m m, mo_orbit_yaw_degrees m, mo_orbit_pitch_degrees m])
              then Inl ''model numeric values must be finite''
              else if list_ex (\<lambda>v. feq v f_zero) (triple_list (mo_scale m))
              then Inl ''model scale components must not be zero''
              else Inr ()))"

definition validate_hud :: "string list \<Rightarrow> string + unit" where
  "validate_hud panels =
     (if panels = [] \<or> ''common_flight'' \<notin> set panels then Inl ''hud.panels must include common_flight''
      else each_ok (\<lambda>p. if p \<notin> set PANELS then Inl (''unknown panel '' @ p) else Inr ()) panels)"

definition profile_validate :: "(u32 \<Rightarrow> string) \<Rightarrow> AircraftProfileFile \<Rightarrow> string + unit" where
  "profile_validate u32_text p =
     (if ap_schema_version p \<noteq> AIRCRAFT_PROFILE_SCHEMA_VERSION
      then Inl (''unsupported schema_version '' @ u32_text (ap_schema_version p) @ ''; expected ''
                @ u32_text AIRCRAFT_PROFILE_SCHEMA_VERSION)
      else case validate_identifier (ap_profile_id p) ''profile_id'' of
        Inl e \<Rightarrow> Inl e
      | Inr _ \<Rightarrow>
          if trim_is_empty (ap_display_name p) then Inl ''display_name must not be empty''
          else case validate_match p of
            Inl e \<Rightarrow> Inl e
          | Inr _ \<Rightarrow>
             (case validate_model (ap_model p) of
                Inl e \<Rightarrow> Inl e
              | Inr _ \<Rightarrow>
                 (case validate_hud (hu_panels (ap_hud p)) of
                    Inl e \<Rightarrow> Inl e
                  | Inr _ \<Rightarrow> validate_channels (hu_panels (ap_hud p)) [] (ap_channels p))))"

section \<open>Loading\<close>

text \<open>The file system: the length of a file and its text, and the TOML parser.\<close>

record ProfileFiles =
  pfs_length :: "string \<Rightarrow> string + nat"
  pfs_text :: "string \<Rightarrow> string + string"
  pfs_parse :: "string \<Rightarrow> string + AircraftProfileFile"

definition load_aircraft_profile :: "ProfileFiles \<Rightarrow> (u32 \<Rightarrow> string) \<Rightarrow> string \<Rightarrow> string + AircraftProfileFile" where
  "load_aircraft_profile fs u32_text path =
     (case pfs_length fs path of
        Inl e \<Rightarrow> Inl e
      | Inr n \<Rightarrow>
          if MAX_AIRCRAFT_PROFILE_BYTES < n then Inl ''aircraft profile exceeds 64 KiB''
          else case pfs_text fs path of
            Inl e \<Rightarrow> Inl e
          | Inr source \<Rightarrow>
             (case pfs_parse fs source of
                Inl e \<Rightarrow> Inl e
              | Inr p \<Rightarrow> (case profile_validate u32_text p of Inl e \<Rightarrow> Inl e | Inr _ \<Rightarrow> Inr p)))"

section \<open>The resource\<close>

record AircraftProfileConfig =
  apc_profile :: "AircraftProfileFile option"
  apc_error :: string

definition profile_config_init :: AircraftProfileConfig where
  "profile_config_init = \<lparr>apc_profile = None, apc_error = []\<rparr>"

text \<open>\<open>load_toml\<close>, with \<open>globalize_path\<close> of the engine.\<close>

definition profile_load_toml ::
  "(string \<Rightarrow> string) \<Rightarrow> ProfileFiles \<Rightarrow> (u32 \<Rightarrow> string) \<Rightarrow> string \<Rightarrow> AircraftProfileConfig \<Rightarrow> bool \<times> AircraftProfileConfig" where
  "profile_load_toml globalize_path fs u32_text path c =
     (case load_aircraft_profile fs u32_text (globalize_path path) of
        Inr p \<Rightarrow> (True, c\<lparr>apc_profile := Some p, apc_error := []\<rparr>)
      | Inl e \<Rightarrow> (False, c\<lparr>apc_profile := None, apc_error := e\<rparr>))"

end
