(* ===== verification/Godot_Runtime.thy ===== *)
theory Godot_Runtime
  imports Godot_Config Godot_Profile Cursor_Client Kernel
begin

text \<open>
  The runtime node of the Godot extension (\<open>bindings/godot/src/lib.rs\<close>, \<open>FlyRulerRuntime\<close>) on the main
  thread: its status, the channels to the worker thread, the commands it accepts and the events it
  drains. Emitted signals are collected in order. The channel of frames holds at most one.
\<close>

section \<open>Messages between the threads\<close>

datatype RuntimeStatus = StStopped | StStarting | StRunning | StReconnecting | StStopping | StFailed

definition status_text :: "RuntimeStatus \<Rightarrow> string" where
  "status_text s =
     (case s of StStopped \<Rightarrow> ''stopped'' | StStarting \<Rightarrow> ''starting'' | StRunning \<Rightarrow> ''running''
      | StReconnecting \<Rightarrow> ''reconnecting'' | StStopping \<Rightarrow> ''stopping'' | StFailed \<Rightarrow> ''failed'')"

datatype Command = GoLive | GoPause | GoSeek f64 | GoPlay f64 | GoSetSpeed f64
  | GoStep PlaybackStepUnit PlaybackStepDirection nat | GoSave u64 string | GoLoad u64 string | GoClear u64 | GoShutdown

text \<open>A row of the session list: address, client identifier, last seen, role.\<close>

type_synonym session_line = "string \<times> string \<times> f64 \<times> string"

datatype WorkerEvent =
    WStarted string string string string
  | WReconnecting string
  | WStreamReset string string
  | WCursorEvents CursorEventBatch
  | WStreamStats CursorClientStats
  | WSessions "session_line list"
  | WOperationCompleted u64 bool string
  | WCommandError string
  | WError string
  | WStopped

record ShownEvent =
  se_sequence :: u64
  se_source_timestamp_secs :: f64
  se_aircraft_id :: string
  se_kind :: "string option"
  se_name :: "string option"

datatype Signal =
    StatusChanged string
  | SnapshotPublished FrameSnapshotData
  | OperationCompleted u64 bool string
  | RuntimeFault string
  | CursorEventsPublished "ShownEvent list" bool
  | StreamReset string

record GodotRuntime =
  gr_status :: RuntimeStatus
  gr_udp :: string
  gr_management :: string
  gr_remote :: string
  gr_epoch :: string
  gr_role :: string
  gr_last_error :: string
  gr_latest :: "FrameSnapshotData option"
  gr_sessions :: "session_line list"
  gr_stats :: "CursorClientStats option"
  gr_tx :: bool
  gr_queue :: "Command list"
  gr_listening :: bool
  gr_events :: "WorkerEvent list option"
  gr_frames :: "FrameSnapshotData list option"
  gr_worker :: bool
  gr_next_operation_id :: u64
  gr_signals :: "Signal list"

definition runtime_init :: GodotRuntime where
  "runtime_init = \<lparr>gr_status = StStopped, gr_udp = [], gr_management = [], gr_remote = [], gr_epoch = [], gr_role = ''server'',
     gr_last_error = [], gr_latest = None, gr_sessions = [], gr_stats = None, gr_tx = False, gr_queue = [], gr_listening = False,
     gr_events = None, gr_frames = None, gr_worker = False, gr_next_operation_id = 1, gr_signals = []\<rparr>"

definition emit :: "Signal \<Rightarrow> GodotRuntime \<Rightarrow> GodotRuntime" where
  "emit g r = r\<lparr>gr_signals := gr_signals r @ [g]\<rparr>"

definition set_status :: "RuntimeStatus \<Rightarrow> GodotRuntime \<Rightarrow> GodotRuntime" where
  "set_status s r = emit (StatusChanged (status_text s)) (r\<lparr>gr_status := s\<rparr>)"

definition report_error :: "string \<Rightarrow> GodotRuntime \<Rightarrow> GodotRuntime" where
  "report_error e r = emit (RuntimeFault e) (r\<lparr>gr_last_error := e\<rparr>)"

section \<open>Starting and stopping\<close>

text \<open>The settings in the result are those the worker thread starts with.\<close>

definition runtime_start :: "GodotHost \<Rightarrow> FlyRulerRuntimeConfig \<Rightarrow> GodotRuntime \<Rightarrow> RuntimeSettings option \<times> GodotRuntime" where
  "runtime_start h cfg r =
     (if gr_status r \<noteq> StStopped then (None, report_error ''runtime can only start from stopped state'' r)
      else case config_resolve h cfg of
        Inl e \<Rightarrow> (None, report_error e r)
      | Inr st \<Rightarrow>
          (let r1 = r\<lparr>gr_role := gs_role st,
                      gr_remote := (if gs_role st = ''client'' then gs_server_address st else [])\<rparr>
           in (Some st, (set_status StStarting r1)\<lparr>gr_tx := True, gr_queue := [], gr_listening := True,
                gr_events := Some [], gr_frames := Some [], gr_worker := True\<rparr>)))"

text \<open>
  \<open>shutdown_internal\<close> sends the last command, drops its sender and joins the worker; what follows the
  join is a step of its own, with the result of the join.
\<close>

definition shutdown_begin :: "GodotRuntime \<Rightarrow> GodotRuntime" where
  "shutdown_begin r =
     (if gr_status r \<in> {StStopped, StStopping} then r
      else
        (let r1 = set_status StStopping r in
         if gr_tx r1 then r1\<lparr>gr_tx := False, gr_queue := (if gr_listening r1 then gr_queue r1 @ [GoShutdown] else gr_queue r1)\<rparr>
         else r1))"

definition shutdown_end :: "bool \<Rightarrow> GodotRuntime \<Rightarrow> GodotRuntime" where
  "shutdown_end panicked r =
     (let r1 = (if gr_worker r \<and> panicked then report_error ''runtime worker panicked'' r else r) in
      set_status StStopped
        (r1\<lparr>gr_worker := False, gr_events := None, gr_frames := None, gr_udp := [], gr_management := [], gr_remote := [],
            gr_epoch := [], gr_stats := None\<rparr>))"

section \<open>Commands\<close>

definition runtime_send :: "Command \<Rightarrow> GodotRuntime \<Rightarrow> bool \<times> GodotRuntime" where
  "runtime_send c r =
     (if gr_role r = ''client'' then (False, report_error ''client runtime is receive-only'' r)
      else if gr_status r \<noteq> StRunning then (False, report_error ''runtime command requires running state'' r)
      else if gr_tx r \<and> gr_listening r then (True, r\<lparr>gr_queue := gr_queue r @ [c]\<rparr>)
      else (False, report_error ''runtime worker is unavailable'' r))"

definition allocate_operation :: "GodotRuntime \<Rightarrow> u64 \<times> GodotRuntime" where
  "allocate_operation r =
     (gr_next_operation_id r, r\<lparr>gr_next_operation_id := max (gr_next_operation_id r + 1) 1\<rparr>)"

definition operation_command :: "(u64 \<Rightarrow> Command) \<Rightarrow> GodotRuntime \<Rightarrow> i64 \<times> GodotRuntime" where
  "operation_command wrap r =
     (let (oid, r1) = allocate_operation r;
          (sent, r2) = runtime_send (wrap oid) r1
      in (if sent then oid else 0, r2))"

definition session_command :: "string \<Rightarrow> (u64 \<Rightarrow> string \<Rightarrow> Command) \<Rightarrow> GodotRuntime \<Rightarrow> i64 \<times> GodotRuntime" where
  "session_command name wrap r =
     (if name = [] \<or> \<not> list_all identifier_char name
      then (0, report_error (''session name must contain only ASCII letters, digits, '' @ [CHR 0x27, CHR ''-'', CHR 0x27]
                  @ '' or '' @ [CHR 0x27, CHR ''_'', CHR 0x27]) r)
      else operation_command (\<lambda>oid. wrap oid name) r)"

definition runtime_save_session :: "string \<Rightarrow> GodotRuntime \<Rightarrow> i64 \<times> GodotRuntime" where
  "runtime_save_session name = session_command name GoSave"

definition runtime_load_session :: "string \<Rightarrow> GodotRuntime \<Rightarrow> i64 \<times> GodotRuntime" where
  "runtime_load_session name = session_command name GoLoad"

definition runtime_clear_session :: "GodotRuntime \<Rightarrow> i64 \<times> GodotRuntime" where
  "runtime_clear_session = operation_command GoClear"

definition runtime_step_command :: "string \<Rightarrow> string \<Rightarrow> i64 \<Rightarrow> GodotRuntime \<Rightarrow> bool \<times> GodotRuntime" where
  "runtime_step_command u d n r =
     (case (if u = ''sample'' then Some Sample else if u = ''event'' then Some EventUnit else None) of
        None \<Rightarrow> (False, report_error ''step unit must be sample or event'' r)
      | Some u' \<Rightarrow>
         (case (if d = ''previous'' then Some Previous else if d = ''next'' then Some Next else None) of
            None \<Rightarrow> (False, report_error ''step direction must be previous or next'' r)
          | Some d' \<Rightarrow>
              if negative n then (False, report_error ''step count must be positive'' r)
              else runtime_send (GoStep u' d' (unat n)) r))"

section \<open>Events of the worker\<close>

definition shown_event :: "CursorEvent \<Rightarrow> ShownEvent option" where
  "shown_event e =
     (let v = \<lparr>se_sequence = ce_sequence e, se_source_timestamp_secs = ce_source_timestamp e,
               se_aircraft_id = (case ce_aircraft_id e of None \<Rightarrow> [] | Some u \<Rightarrow> uuid_hex u), se_kind = None, se_name = None\<rparr> in
      case Option.bind (ce_info e) ci_kind of
        None \<Rightarrow> Some v
      | Some (Spawn _) \<Rightarrow> Some (v\<lparr>se_kind := Some ''spawn''\<rparr>)
      | Some (Despawn _) \<Rightarrow> Some (v\<lparr>se_kind := Some ''despawn''\<rparr>)
      | Some (CustomEvent name) \<Rightarrow> Some (v\<lparr>se_kind := Some ''custom'', se_name := Some name\<rparr>)
      | Some _ \<Rightarrow> None)"

definition drain_event :: "WorkerEvent \<Rightarrow> GodotRuntime \<Rightarrow> GodotRuntime" where
  "drain_event e r =
     (case e of
        WStarted udp management remote role \<Rightarrow>
          set_status StRunning (r\<lparr>gr_udp := udp, gr_management := management, gr_remote := remote, gr_role := role\<rparr>)
      | WReconnecting error \<Rightarrow> set_status StReconnecting (report_error error (r\<lparr>gr_latest := None\<rparr>))
      | WStreamReset reason epoch \<Rightarrow> emit (StreamReset reason) (r\<lparr>gr_latest := None, gr_epoch := epoch\<rparr>)
      | WCursorEvents b \<Rightarrow> emit (CursorEventsPublished (List.map_filter shown_event (cb_events b)) (cb_baseline b)) r
      | WStreamStats st \<Rightarrow> r\<lparr>gr_stats := Some st\<rparr>
      | WSessions rows \<Rightarrow> r\<lparr>gr_sessions := rows\<rparr>
      | WOperationCompleted oid ok error \<Rightarrow> emit (OperationCompleted oid ok error) r
      | WCommandError error \<Rightarrow> report_error error r
      | WError error \<Rightarrow> set_status StFailed (report_error error r)
      | WStopped \<Rightarrow> set_status StStopped r)"

definition drain_events :: "GodotRuntime \<Rightarrow> GodotRuntime" where
  "drain_events r =
     (case gr_events r of None \<Rightarrow> r | Some es \<Rightarrow> fold drain_event es (r\<lparr>gr_events := Some []\<rparr>))"

text \<open>\<open>process\<close>, called by the engine for every rendered frame: only the newest snapshot is kept.\<close>

definition runtime_process :: "GodotRuntime \<Rightarrow> GodotRuntime" where
  "runtime_process r =
     (let r1 = drain_events r in
      case Option.bind (gr_frames r1) last_opt of
        None \<Rightarrow> r1
      | Some f \<Rightarrow> emit (SnapshotPublished f) (r1\<lparr>gr_frames := Some [], gr_latest := Some f\<rparr>))"

text \<open>The worker's side of the channels: an event, a frame (dropped when one is waiting), and its end.\<close>

definition push_events :: "WorkerEvent list \<Rightarrow> GodotRuntime \<Rightarrow> GodotRuntime" where
  "push_events es r = r\<lparr>gr_events := map_option (\<lambda>q. q @ es) (gr_events r)\<rparr>"

definition try_send_frame :: "FrameSnapshotData \<Rightarrow> GodotRuntime \<Rightarrow> bool \<times> GodotRuntime" where
  "try_send_frame f r =
     (case gr_frames r of
        None \<Rightarrow> (False, r)
      | Some [] \<Rightarrow> (True, r\<lparr>gr_frames := Some [f]\<rparr>)
      | Some _ \<Rightarrow> (True, r))"

datatype polled = PolledCommand Command | PolledNothing | PolledDisconnected

definition poll_command :: "GodotRuntime \<Rightarrow> polled \<times> GodotRuntime" where
  "poll_command r =
     (case gr_queue r of
        c # cs \<Rightarrow> (PolledCommand c, r\<lparr>gr_queue := cs\<rparr>)
      | [] \<Rightarrow> (if gr_tx r then PolledNothing else PolledDisconnected, r))"

text \<open>The worker thread returns, or panics: its receiver is gone.\<close>

definition worker_ends :: "GodotRuntime \<Rightarrow> GodotRuntime" where
  "worker_ends r = r\<lparr>gr_listening := False\<rparr>"

end
