(* ===== verification/Godot_Worker.thy ===== *)
theory Godot_Worker
  imports Godot_Runtime
begin

text \<open>
  The worker thread of the Godot runtime (\<open>bindings/godot/src/lib.rs\<close>). A server worker owns a kernel
  and serves the commands of the main thread between snapshots; a client worker keeps a cursor
  client connected, with a growing delay between the attempts. Everything a turn takes from outside
  (clocks, the other tasks of the kernel, what the socket delivers) is the input of the turn.
  \<open>None\<close> is a panic of the thread.
\<close>

section \<open>The server worker\<close>

record 'b WorkerEnv =
  we_codec :: "'b Codec"
  we_bind :: bind_socket
  we_system :: HostSystem
  we_join :: "string \<Rightarrow> string \<Rightarrow> string"
  we_runtime_text :: "RuntimeError \<Rightarrow> string"
  we_playback_text :: "PlaybackError \<Rightarrow> string"
  we_socket_text :: "SocketAddr \<Rightarrow> string"
  we_nalgebra :: Nalgebra

definition server_worker_config :: "RuntimeSettings \<Rightarrow> RuntimeConfig option" where
  "server_worker_config st =
     map_option (\<lambda>timeout. runtime_config_default
       \<lparr>rc_transport := \<lparr>heartbeat_interval_secs = gs_heartbeat_interval_secs st,
          heartbeat_timeout_secs = gs_heartbeat_timeout_secs st\<rparr>,
        rc_cursor_stream := cursor_config_default\<lparr>publish_hz := gs_cursor_publish_hz st,
          max_subscribers := gs_max_subscribers st, stale_timeout := timeout\<rparr>,
        rc_management := management_config_default\<lparr>data_root := gs_data_root st, web_root := Some (gs_web_root st),
          websocket_hz := gs_websocket_hz st\<rparr>,
        rc_replay := \<lparr>default_speed = f_one, min_speed = gs_replay_min_speed st, max_speed = gs_replay_max_speed st\<rparr>,
        rc_logging := \<lparr>log_level = gs_log_level st, log_file_path = gs_log_file st\<rparr>\<rparr>)
     (from_secs_f64 (gs_stale_timeout_secs st))"

text \<open>Starting the servers: the error, or the two local addresses.\<close>

definition start_servers :: "'b WorkerEnv \<Rightarrow> RuntimeSettings \<Rightarrow> Kernel \<Rightarrow> ((string + string \<times> string) \<times> Kernel) option" where
  "start_servers env st k =
     (case start_server (we_bind env) (gs_udp_listen st) k of
        (Inl e, k1) \<Rightarrow> Some (Inl (we_runtime_text env e), k1)
      | (Inr _, k1) \<Rightarrow>
         (case udp_local_addr k1 of
            Inl e \<Rightarrow> Some (Inl (we_runtime_text env e), k1)
          | Inr udp \<Rightarrow>
              if \<not> gs_management_enabled st then Some (Inr (udp, []), k1)
              else case start_management_server (we_system env) (gs_management_listen st) k1 of
                None \<Rightarrow> None
              | Some (Inl e, k2) \<Rightarrow> Some (Inl (we_runtime_text env e), stop_server k2)
              | Some (Inr _, k2) \<Rightarrow>
                 (case management_local_addr k2 of
                    Inl e \<Rightarrow> Some (Inl (we_runtime_text env e), k2)
                  | Inr m \<Rightarrow> Some (Inr (udp, m), k2))))"

text \<open>
  The part before the loop, with the runtime the worker is connected to: no kernel is left when the
  start failed, and the interval of the snapshots is computed after the start was announced.
\<close>

definition server_worker_begin ::
  "'b WorkerEnv \<Rightarrow> RuntimeSettings \<Rightarrow> GodotRuntime \<Rightarrow> (Kernel option \<times> GodotRuntime) option" where
  "server_worker_begin env st r =
     (case server_worker_config st of
        None \<Rightarrow> None
      | Some cfg \<Rightarrow>
         (case start_servers env st (kernel_with_config store_new cfg) of
            None \<Rightarrow> None
          | Some (Inl e, _) \<Rightarrow> Some (None, worker_ends (push_events [WError e] r))
          | Some (Inr (udp, m), k) \<Rightarrow>
              map_option (\<lambda>_. (Some k, push_events [WStarted udp m [] ''server''] r))
                (from_secs_f64 (fdiv f_one (gs_snapshot_hz st)))))"

definition completed :: "u64 \<Rightarrow> string option \<Rightarrow> WorkerEvent" where
  "completed oid error = (case error of None \<Rightarrow> WOperationCompleted oid True [] | Some e \<Rightarrow> WOperationCompleted oid False e)"

definition timeline_command :: "'b WorkerEnv \<Rightarrow> playback_result \<Rightarrow> Kernel \<Rightarrow> (WorkerEvent list \<times> Kernel) option" where
  "timeline_command env result k =
     map_option (\<lambda>x. case x of
         Inl e \<Rightarrow> ([WCommandError (we_playback_text env e)], k)
       | Inr (_, p) \<Rightarrow> ([], k\<lparr>kn_playback := p\<rparr>)) result"

text \<open>The sessions on disk by path; \<open>io\<close> is the error of writing one, if any.\<close>

type_synonym 'b disk = "string \<Rightarrow> 'b SessionDir"

definition handle_command ::
  "'b WorkerEnv \<Rightarrow> RuntimeSettings \<Rightarrow> (nat \<Rightarrow> instant) \<Rightarrow> StoreError option \<Rightarrow> Command \<Rightarrow> Kernel \<times> 'b disk
   \<Rightarrow> (WorkerEvent list \<times> Kernel \<times> 'b disk) option" where
  "handle_command env st clk io c kd =
     (let (k, disk) = kd;
          cfg = rc_replay (kn_config k);
          path = we_join env (gs_data_root st);
          timeline = \<lambda>result. map_option (\<lambda>(es, k1). (es, k1, disk)) (timeline_command env result k)
      in case c of
           GoLive \<Rightarrow> timeline (playback_live (kn_store k) (kn_playback k))
         | GoPause \<Rightarrow> timeline (playback_pause clk (kn_store k) (kn_playback k))
         | GoSeek t \<Rightarrow> timeline (playback_seek t (kn_store k) (kn_playback k))
         | GoPlay v \<Rightarrow> timeline (playback_play clk cfg (Some v) (kn_store k) (kn_playback k))
         | GoSetSpeed v \<Rightarrow> timeline (playback_set_speed clk cfg v (kn_store k) (kn_playback k))
         | GoStep u d n \<Rightarrow> timeline (playback_step clk u d n (kn_store k) (kn_playback k))
         | GoSave oid name \<Rightarrow>
             (case kernel_save_session (we_codec env) io k of
                Inl e \<Rightarrow> Some ([completed oid (Some (we_runtime_text env e))], k, disk)
              | Inr d \<Rightarrow> Some ([completed oid None], k, disk(path name := d)))
         | GoLoad oid name \<Rightarrow>
             (case kernel_load_session (we_codec env) (disk (path name)) k of
                (Inl e, k1) \<Rightarrow> Some ([completed oid (Some (we_runtime_text env e))], k1, disk)
              | (Inr _, k1) \<Rightarrow> Some ([completed oid None], k1, disk))
         | GoClear oid \<Rightarrow> Some ([completed oid None], kernel_clear_session k, disk)
         | GoShutdown \<Rightarrow> Some ([], k, disk))"

definition role_text :: "ClientRole \<Rightarrow> string" where
  "role_text role = (case role of Producer \<Rightarrow> ''producer'' | CursorSubscriber \<Rightarrow> ''cursor_subscriber'' | RoleUnspecified \<Rightarrow> ''unspecified'')"

definition session_row :: "'b WorkerEnv \<Rightarrow> Session \<Rightarrow> session_line" where
  "session_row env x = (we_socket_text env (s_addr x), client_uuid_hex x, last_seen_secs x, role_text (s_role x))"

text \<open>
  One turn of the loop: \<open>st_others\<close> is what the other tasks did to the kernel since the last turn, and
  \<open>st_due\<close> tells whether the next snapshot is due after the command.
\<close>

record ServerTurn =
  st_others :: "Kernel \<Rightarrow> Kernel"
  st_clock :: "nat \<Rightarrow> instant"
  st_io :: "StoreError option"
  st_due :: bool
  st_now :: clocks

text \<open>A snapshot for the engine and the session list; the worker stops when nobody receives them.\<close>

definition publish_frame ::
  "'b WorkerEnv \<Rightarrow> RuntimeSettings \<Rightarrow> ServerTurn \<Rightarrow> Kernel \<Rightarrow> GodotRuntime \<Rightarrow> (bool \<times> Kernel \<times> GodotRuntime) option" where
  "publish_frame env st t k r =
     (case playback_snapshot (\<lambda>i. st_clock t (i + 8)) (kn_store k) (kn_playback k) of
        Some (Inr (snapshot, p)) \<Rightarrow>
          (let k1 = k\<lparr>kn_playback := p\<rparr> in
           map_option (\<lambda>f.
             let (going, r1) = try_send_frame f r
             in (going, k1, push_events [WSessions (map (session_row env) (kernel_active_sessions k1))] r1))
             (build_frame (we_nalgebra env) (st_now t) (gs_stale_timeout_secs st) snapshot (kn_store k1)))
      | _ \<Rightarrow> None)"

definition server_worker_end :: "Kernel \<Rightarrow> GodotRuntime \<Rightarrow> Kernel \<times> GodotRuntime" where
  "server_worker_end k r = (stop_server (stop_management_server k), worker_ends (push_events [WStopped] r))"

text \<open>The first component of the result tells whether the loop goes on.\<close>

definition server_turn ::
  "'b WorkerEnv \<Rightarrow> RuntimeSettings \<Rightarrow> ServerTurn \<Rightarrow> (Kernel \<times> 'b disk) \<times> GodotRuntime
   \<Rightarrow> (bool \<times> (Kernel \<times> 'b disk) \<times> GodotRuntime) option" where
  "server_turn env st t w =
     (let ((k0, disk), r0) = w; k = st_others t k0; (p, r) = poll_command r0 in
      case (case p of
          PolledCommand c \<Rightarrow>
            if c = GoShutdown then Some (False, (k, disk), r)
            else map_option (\<lambda>(es, k1, disk1). (True, (k1, disk1), push_events es r))
                   (handle_command env st (st_clock t) (st_io t) c (k, disk))
        | PolledNothing \<Rightarrow> Some (True, (k, disk), r)
        | PolledDisconnected \<Rightarrow> Some (False, (k, disk), r)) of
        None \<Rightarrow> None
      | Some (going, (k1, disk1), r1) \<Rightarrow>
          (case (if going \<and> st_due t then publish_frame env st t k1 r1 else Some (going, k1, r1)) of
             None \<Rightarrow> None
           | Some (going2, k2, r2) \<Rightarrow>
               if going2 then Some (True, (k2, disk1), r2)
               else (let (k3, r3) = server_worker_end k2 r2 in Some (False, (k3, disk1), r3))))"

section \<open>The client worker\<close>

record ClientWorker =
  cw_delay :: f64
  cw_gear :: gear_states
  cw_last_receive :: instant
  cw_last_heartbeat :: instant
  cw_announced :: bool
  cw_udp :: string

text \<open>The worker at its start. What belongs to a connection is set when one is made.\<close>

definition client_worker_new :: "RuntimeSettings \<Rightarrow> ClientWorker" where
  "client_worker_new st = \<lparr>cw_delay = gs_reconnect_initial_secs st, cw_gear = Map.empty, cw_last_receive = 0,
     cw_last_heartbeat = 0, cw_announced = False, cw_udp = []\<rparr>"

datatype connection_end = Shutdown | Lost string

text \<open>Polling for commands: a command other than the shutdown is refused.\<close>

definition client_poll :: "GodotRuntime \<Rightarrow> bool \<times> GodotRuntime" where
  "client_poll r =
     (case poll_command r of
        (PolledCommand c, r1) \<Rightarrow>
          if c = GoShutdown then (False, r1)
          else (True, push_events [WCommandError ''client runtime is receive-only''] r1)
      | (PolledDisconnected, r1) \<Rightarrow> (False, r1)
      | (PolledNothing, r1) \<Rightarrow> (True, r1))"

definition next_delay :: "RuntimeSettings \<Rightarrow> f64 \<Rightarrow> f64" where
  "next_delay st d = fmin (fmul d (F64 0x4000000000000000)) (gs_reconnect_max_secs st)"

text \<open>
  An attempt to connect: its result with the local address and the clock afterwards. A failed one
  waits for the delay or a command, which it drops. The result tells whether the worker goes on and
  whether it is connected.
\<close>

record ConnectInput =
  ci_result :: "string + string"
  ci_start :: instant

definition client_connect ::
  "RuntimeSettings \<Rightarrow> ConnectInput \<Rightarrow> ClientWorker \<times> GodotRuntime \<Rightarrow> (bool \<times> bool \<times> ClientWorker \<times> GodotRuntime) option" where
  "client_connect st i w =
     (let (cw, r0) = w; (going, r) = client_poll r0 in
      if \<not> going then Some (False, False, cw, worker_ends (push_events [WStopped] r))
      else case ci_result i of
        Inl e \<Rightarrow>
          (let r1 = push_events [WReconnecting e] r in
           case from_secs_f64 (cw_delay cw) of
             None \<Rightarrow> None
           | Some _ \<Rightarrow>
               (case poll_command r1 of
                  (PolledDisconnected, r2) \<Rightarrow> Some (False, False, cw, worker_ends (push_events [WStopped] r2))
                | (PolledCommand c, r2) \<Rightarrow>
                    if c = GoShutdown then Some (False, False, cw, worker_ends (push_events [WStopped] r2))
                    else Some (True, False, cw\<lparr>cw_delay := next_delay st (cw_delay cw)\<rparr>, r2)
                | (PolledNothing, r2) \<Rightarrow> Some (True, False, cw\<lparr>cw_delay := next_delay st (cw_delay cw)\<rparr>, r2)))
      | Inr udp \<Rightarrow>
          Some (True, True, \<lparr>cw_delay = gs_reconnect_initial_secs st, cw_gear = Map.empty, cw_last_receive = ci_start i,
            cw_last_heartbeat = ci_start i, cw_announced = False, cw_udp = udp\<rparr>, r))"

text \<open>
  A turn of a connection: the result of the heartbeat if it is due, what \<open>recv\<close> gave within 50 ms,
  the statistics, and the clock at the heartbeat, the reception and the final check.
\<close>

record ClientTurn =
  ct_heartbeat :: "string option"
  ct_received :: "(string + CursorClientEvent) option"
  ct_stats :: CursorClientStats
  ct_now :: "nat \<Rightarrow> instant"

definition epoch_text :: "uuid option \<Rightarrow> string" where
  "epoch_text e = (case e of None \<Rightarrow> [] | Some u \<Rightarrow> uuid_hex u)"

definition client_receive ::
  "Nalgebra \<Rightarrow> RuntimeSettings \<Rightarrow> instant \<Rightarrow> CursorClientEvent \<Rightarrow> ClientWorker \<times> GodotRuntime
   \<Rightarrow> connection_end option \<times> ClientWorker \<times> GodotRuntime" where
  "client_receive na st now e w =
     (let (cw0, r) = w; cw = cw0\<lparr>cw_last_receive := now\<rparr> in
      case e of
        ResetItem reset \<Rightarrow>
          (None, cw\<lparr>cw_gear := Map.empty\<rparr>,
           push_events [WStreamReset (cr_reason reset) (epoch_text (cr_server_epoch reset))] r)
      | EventBatchItem b \<Rightarrow>
          (None, cw\<lparr>cw_gear := apply_cursor_event_batch b (cw_gear cw)\<rparr>,
           push_events ((if cb_baseline b then [WStreamReset ''cursor_baseline'' (epoch_text (cb_server_epoch b))] else [])
             @ [WCursorEvents b]) r)
      | FrameItem f \<Rightarrow>
          (let r1 = (if cw_announced cw then r else push_events [WStarted (cw_udp cw) [] (gs_server_address st) ''client''] r);
               (going, r2) = try_send_frame (frame_from_cursor na f (cw_gear cw)) r1
           in (if going then None else Some Shutdown, cw\<lparr>cw_announced := True\<rparr>, r2)))"

definition timed_out :: "RuntimeSettings \<Rightarrow> instant \<Rightarrow> ClientWorker \<Rightarrow> bool" where
  "timed_out st now cw \<longleftrightarrow> unat (gs_heartbeat_timeout_secs st) * nanos_per_sec < now - cw_last_receive cw"

definition heartbeat_due :: "RuntimeSettings \<Rightarrow> instant \<Rightarrow> ClientWorker \<Rightarrow> bool" where
  "heartbeat_due st now cw \<longleftrightarrow> unat (gs_heartbeat_interval_secs st) * nanos_per_sec \<le> now - cw_last_heartbeat cw"

definition client_turn ::
  "Nalgebra \<Rightarrow> RuntimeSettings \<Rightarrow> ClientTurn \<Rightarrow> ClientWorker \<times> GodotRuntime
   \<Rightarrow> connection_end option \<times> ClientWorker \<times> GodotRuntime" where
  "client_turn na st t w =
     (let (cw, r0) = w; (going, r) = client_poll r0; due = heartbeat_due st (ct_now t 0) cw in
      if \<not> going then (Some Shutdown, cw, r)
      else if due \<and> ct_heartbeat t \<noteq> None then (Some (Lost (the (ct_heartbeat t))), cw, r)
      else
        (let cw1 = (if due then cw\<lparr>cw_last_heartbeat := ct_now t 1\<rparr> else cw);
             (e, cw2, r2) = (case ct_received t of
                 None \<Rightarrow> (None, cw1, r)
               | Some (Inl err) \<Rightarrow> (Some (Lost err), cw1, r)
               | Some (Inr item) \<Rightarrow> client_receive na st (ct_now t 2) item (cw1, r))
         in if e \<noteq> None then (e, cw2, r2)
            else (let r3 = push_events [WStreamStats (ct_stats t)] r2 in
                  if timed_out st (ct_now t 3) cw2 then (Some (Lost ''cursor stream timed out''), cw2, r3)
                  else (None, cw2, r3))))"

text \<open>After a connection: the reason is announced and the worker connects again, or it stops.\<close>

definition client_disconnect :: "connection_end \<Rightarrow> GodotRuntime \<Rightarrow> bool \<times> GodotRuntime" where
  "client_disconnect e r =
     (case e of
        Lost reason \<Rightarrow> (True, push_events [WStreamReset ''connection_lost'' [], WReconnecting reason] r)
      | Shutdown \<Rightarrow> (False, worker_ends (push_events [WStopped] r)))"

end
