(* ===== verification/Godot_Properties.thy ===== *)
theory Godot_Properties
  imports Godot_Worker
begin

text \<open>
  What the Godot runtime promises about its files: a saved configuration loads back and a failed save
  leaves the file alone, and a profile is loaded exactly when it satisfies the rules of the format.
\<close>

section \<open>Saving the configuration\<close>

text \<open>The TOML crate reads back what it prints.\<close>

definition toml_roundtrip :: "'a TomlCodec \<Rightarrow> bool" where
  "toml_roundtrip codec \<longleftrightarrow>
     (\<forall>f s. tc_print codec f = Inr s \<longrightarrow>
        (\<exists>doc. tc_parse codec s = Inr doc \<and> tc_decode codec doc = Inr f
           \<and> toml_get ''schema_version'' doc = Some (TomlInteger (ucast (gf_schema_version f)))))"

lemma temporary_states_main:
  "temporary_states source n f \<noteq> []" "g \<in> set (temporary_states source n f) \<Longrightarrow> cfl_main g = cfl_main f"
  "cfl_main (last (g # temporary_states source n f)) = cfl_main f"
proof -
  show ne: "temporary_states source n f \<noteq> []" by (simp add: temporary_states_def)
  show *: "g \<in> set (temporary_states source n f) \<Longrightarrow> cfl_main g = cfl_main f" for g
    by (auto simp: temporary_states_def)
  show "cfl_main (last (g # temporary_states source n f)) = cfl_main f" using ne *[OF last_in_set[OF ne]] by simp
qed

lemma write_config_cases:
  obtains (nothing) e where "write_config source x f0 = (Inl e, [f0])"
  | (partly) e n where "write_config source x f0 = (Inl e, f0 # temporary_states source n f0)"
  | (written) n where "write_config source x f0
      = (Inr (), (f0 # temporary_states source n f0) @ [\<lparr>cfl_main = Some source, cfl_temporary = None\<rparr>])"
proof (cases "sx_create x")
  case None
  show ?thesis
  proof (cases "sx_write x")
    case None
    show ?thesis
      using that None \<open>sx_create x = None\<close>
      by (cases "sx_sync x"; cases "sx_rename x") (simp_all add: write_config_def Let_def)
  qed (use that None in \<open>auto simp: write_config_def\<close>)
qed (use that in \<open>simp add: write_config_def\<close>)

lemma write_config_main:
  assumes "write_config source x f0 = (r, trace)"
  shows "trace \<noteq> [] \<and> (\<forall>f \<in> set trace. cfl_main f = cfl_main f0 \<or> r = Inr () \<and> cfl_main f = Some source)
     \<and> cfl_main (last trace) = (if r = Inr () then Some source else cfl_main f0)"
proof (cases rule: write_config_cases[of source x f0])
  case (partly e n)
  with assms temporary_states_main[where source = source and n = n and f = f0] show ?thesis by auto
next
  case (written n)
  with assms temporary_states_main[where source = source and n = n and f = f0] show ?thesis by auto
qed (use assms in auto)

lemma as_file_apply:
  assumes "settings_of h c = Inr st"
  shows "apply_file (as_file c) d = c\<lparr>rg_config_error := rg_config_error d\<rparr>"
proof -
  have "\<not> negative (rg_heartbeat_interval_secs c)" "\<not> negative (rg_heartbeat_timeout_secs c)" "\<not> negative (rg_max_subscribers c)"
    using assms by (auto simp only: settings_of_def sum.distinct split: if_splits)
  then have "max_zero (rg_heartbeat_interval_secs c) = rg_heartbeat_interval_secs c"
    "max_zero (rg_heartbeat_timeout_secs c) = rg_heartbeat_timeout_secs c"
    "max_zero (rg_max_subscribers c) = rg_max_subscribers c"
    by (simp_all add: max_zero_def)
  then show ?thesis
    by (intro FlyRulerRuntimeConfig.equality) (simp_all add: apply_file_def as_file_def)
qed

lemma resolved_settings: "config_resolve h c = Inr st \<Longrightarrow> settings_of h c = Inr st"
  by (auto simp: config_resolve_def split: sum.splits)

lemma load_saved:
  assumes codec: "toml_roundtrip codec" and s: "tc_print codec f = Inr source" "length source \<le> MAX_CONFIG_BYTES"
    and v: "gf_schema_version f = RUNTIME_CONFIG_SCHEMA_VERSION"
  shows "load_config_file codec u32_text (Inr source) = Inr f"
proof -
  obtain doc where "tc_parse codec source = Inr doc" "tc_decode codec doc = Inr f"
    "toml_get ''schema_version'' doc = Some (TomlInteger (ucast (gf_schema_version f)))"
    using codec s(1) by (auto simp: toml_roundtrip_def)
  then show ?thesis using s(2) v by (simp add: load_config_file_def migrate_def RUNTIME_CONFIG_SCHEMA_VERSION_def)
qed

text \<open>C7: Saving the configuration is all or nothing: whatever fails and wherever a crash stops it, the
  file holds its old text or the complete new one; a save that reports success leaves a file that
  loads into any resource with exactly the settings that were saved, and a failed one reports its
  error and leaves the file as it was.\<close>

theorem config_save_loads_back:
  assumes codec: "toml_roundtrip codec" and save: "save_toml codec h x c f0 = (ok, c', trace)"
  shows "trace \<noteq> [] \<and> (if ok then \<exists>source. cfl_main (last trace) = Some source \<and> (\<forall>f \<in> set trace. cfl_main f \<in> {cfl_main f0, Some source})
          \<and> (\<forall>d. load_toml codec u32_text (Inr source) d = (True, c\<lparr>rg_config_error := []\<rparr>))
       else \<forall>f \<in> set trace. cfl_main f = cfl_main f0)"
proof -
  define c1 where "c1 = c\<lparr>rg_config_error := []\<rparr>"
  have same: "as_file c1 = as_file c" by (simp add: c1_def as_file_def)
  show ?thesis
  proof (cases "config_resolve h c1")
    case (Inl e)
    with save show ?thesis by (auto simp: save_toml_def Let_def c1_def)
  next
    case (Inr st)
    obtain r tr where r: "save_config_file codec x (as_file c1) f0 = (r, tr)" by fastforce
    with save Inr have t: "tr = trace" "ok \<longleftrightarrow> r = Inr ()"
      by (auto simp: save_toml_def Let_def c1_def split: sum.splits)
    show ?thesis
    proof (cases "tr = [f0] \<and> r \<noteq> Inr ()")
      case False
      then obtain source where s: "tc_print codec (as_file c1) = Inr source" "length source \<le> MAX_CONFIG_BYTES"
        "write_config source x f0 = (r, trace)"
        using r t by (auto simp: save_config_file_def split: if_splits option.splits sum.splits)
      note w = write_config_main[OF s(3)]
      have "gf_schema_version (as_file c1) = RUNTIME_CONFIG_SCHEMA_VERSION"
        by (simp add: as_file_def godot_file_default_def)
      from load_saved[OF codec s(1,2) this] have "load_toml codec u32_text (Inr source) d = (True, c\<lparr>rg_config_error := []\<rparr>)" for d
        using as_file_apply[OF resolved_settings[OF Inr]] by (simp add: load_toml_def c1_def)
      then show ?thesis using w s(1) t same by fastforce
    qed (use t in auto)
  qed
qed

section \<open>The default configuration\<close>

definition demo_host :: GodotHost where
  "demo_host = \<lparr>gh_platform = \<lparr>is_absolute = \<lambda>_. True, join = \<lambda>a b. a @ ''/'' @ b, is_file = \<lambda>_. True, current_dir = Inr ''/''\<rparr>,
     gh_create_dir_all = \<lambda>_. None, gh_globalize_path = \<lambda>p. p\<rparr>"

lemma default_endpoints:
  "validate_endpoint ''0.0.0.0:18002'' False ''udp_listen'' = Inr ()"
  "validate_endpoint ''127.0.0.1:18003'' True ''management_listen'' = Inr ()"
  by code_simp+

lemma default_resolves: "\<exists>st. config_resolve demo_host config_init = Inr st"
  by (simp add: config_resolve_def settings_of_def config_init_def godot_file_default_def transport_file_default_def
      management_file_default_def cursor_stream_file_default_def visualization_file_default_def playback_file_default_def
      logging_file_default_def negative_def settings_validate_def endpoint_checks_def default_endpoints settings_checks_def
      positive_settings_def positive_rate_def f64_eval validate_paths_def demo_host_def globalize_def
      trim_is_empty_def)

definition one_file_codec :: "unit TomlCodec" where
  "one_file_codec = \<lparr>tc_parse = \<lambda>_. Inr (TomlTable [(''schema_version'', TomlInteger 2)]),
     tc_decode = \<lambda>_. Inr (as_file config_init),
     tc_print = \<lambda>f. if f = as_file config_init then Inr ''schema_version = 2'' else Inl ''unsupported'',
     tc_cursor_stream = \<lambda>_. TomlTable []\<rparr>"

definition no_save_faults :: ConfigSaveFaults where
  "no_save_faults = \<lparr>sx_no_parent = False, sx_create_dir = None, sx_create = None, sx_write = None, sx_sync = None, sx_rename = None\<rparr>"

lemma one_file_roundtrip: "toml_roundtrip one_file_codec"
  by (auto simp: toml_roundtrip_def one_file_codec_def toml_get_def as_file_def godot_file_default_def
      RUNTIME_CONFIG_SCHEMA_VERSION_def)

lemma config_save_loads_back_witness:
  "\<exists>trace. save_toml one_file_codec demo_host no_save_faults config_init \<lparr>cfl_main = Some ''old'', cfl_temporary = None\<rparr>
      = (True, config_init, trace)
    \<and> (\<exists>source. cfl_main (last trace) = Some source \<and> fst (load_toml one_file_codec (\<lambda>_. []) (Inr source) config_init))"
proof -
  obtain st where st: "config_resolve demo_host config_init = Inr st" using default_resolves by blast
  have "config_init\<lparr>rg_config_error := []\<rparr> = config_init" by (simp add: config_init_def Let_def)
  with st obtain trace where t: "save_toml one_file_codec demo_host no_save_faults config_init
      \<lparr>cfl_main = Some ''old'', cfl_temporary = None\<rparr> = (True, config_init, trace)"
    by (simp add: save_toml_def save_config_file_def write_config_def no_save_faults_def one_file_codec_def MAX_CONFIG_BYTES_def Let_def)
  from config_save_loads_back[OF one_file_roundtrip t, of "\<lambda>_. []"] t show ?thesis by auto
qed

section \<open>Accepted profiles\<close>

definition identifier_text :: "string \<Rightarrow> bool" where
  "identifier_text s \<longleftrightarrow> s \<noteq> [] \<and> (\<forall>c \<in> set s. identifier_char c)"

definition source_ok :: "DataSource \<Rightarrow> bool" where
  "source_ok src \<longleftrightarrow>
     (case src of
        StateSource path \<Rightarrow> path \<in> set STATE_PATHS
      | PropulsorSource (Some sid) None field \<Rightarrow> \<not> trim_is_empty sid \<and> field \<in> set PROPULSOR_FIELDS
      | PropulsorSource None (Some index) field \<Rightarrow> 1 \<le> index \<and> field \<in> set PROPULSOR_FIELDS
      | PropulsorSource _ _ _ \<Rightarrow> False
      | MeanSource paths \<Rightarrow> 2 \<le> length paths \<and> set paths \<subseteq> set STATE_PATHS
      | UnavailableSource \<Rightarrow> True)"

definition channel_ok :: "string list \<Rightarrow> ChannelConfig \<Rightarrow> bool" where
  "channel_ok panels c \<longleftrightarrow> identifier_text (cn_id c) \<and> cn_panel c \<in> set panels - {''common_flight''}
     \<and> \<not> trim_is_empty (cn_label c) \<and> source_ok (cn_source c)
     \<and> is_finite (vr_min (cn_range c)) \<and> is_finite (vr_max (cn_range c)) \<and> flt (vr_min (cn_range c)) (vr_max (cn_range c))
     \<and> di_transform (cn_display c) \<in> {''identity'', ''rad_to_deg'', ''ratio_to_percent''}
     \<and> di_decimals (cn_display c) \<in> {0..6} \<and> is_finite (di_scale (cn_display c)) \<and> is_finite (di_offset (cn_display c))"

definition model_ok :: "ModelConfig \<Rightarrow> bool" where
  "model_ok m \<longleftrightarrow> (\<exists>p. mo_scene m = ''res://'' @ p) \<and> (\<exists>p. mo_scene m = p @ ''.tscn'') \<and> (\<nexists>p q. mo_scene m = p @ ''..'' @ q)
     \<and> (\<forall>v \<in> {mo_bounding_radius_m m, mo_orbit_distance_multiplier m}. is_finite v \<and> flt f_zero v)
     \<and> (\<forall>v \<in> set (triple_list (mo_scale m)). is_finite v \<and> \<not> feq v f_zero)
     \<and> (\<forall>v \<in> set (triple_list (mo_rotation_degrees m) @ triple_list (mo_camera_target_m m) @ triple_list (mo_cockpit_eye_m m)
            @ [mo_ground_offset_m m, mo_orbit_yaw_degrees m, mo_orbit_pitch_degrees m]). is_finite v)"

definition profile_ok :: "AircraftProfileFile \<Rightarrow> bool" where
  "profile_ok p \<longleftrightarrow> ap_schema_version p = 1 \<and> identifier_text (ap_profile_id p) \<and> \<not> trim_is_empty (ap_display_name p)
     \<and> mr_model_ids (ap_match_rules p) @ mr_name_prefixes (ap_match_rules p) \<noteq> []
     \<and> (\<forall>m \<in> set (mr_model_ids (ap_match_rules p)). identifier_text m)
     \<and> (\<forall>n \<in> set (mr_name_prefixes (ap_match_rules p)). \<not> trim_is_empty n)
     \<and> model_ok (ap_model p)
     \<and> ''common_flight'' \<in> set (hu_panels (ap_hud p)) \<and> set (hu_panels (ap_hud p)) \<subseteq> set PANELS
     \<and> distinct (map cn_id (ap_channels p)) \<and> (\<forall>c \<in> set (ap_channels p). channel_ok (hu_panels (ap_hud p)) c)"

lemma each_ok_Inr: "each_ok f xs = Inr () \<longleftrightarrow> (\<forall>x \<in> set xs. f x = Inr ())"
  by (induction xs) (auto split: sum.splits)

lemma identifier_Inr: "validate_identifier v name = Inr () \<longleftrightarrow> identifier_text v"
  by (auto simp: validate_identifier_def identifier_text_def list_all_iff)

lemma has_prefix_iff: "has_prefix p s \<longleftrightarrow> (\<exists>q. s = p @ q)"
proof
  assume "has_prefix p s"
  then have "s = p @ drop (length p) s" using append_take_drop_id[of "length p" s] by (simp add: has_prefix_def)
  then show "\<exists>q. s = p @ q" ..
qed (auto simp: has_prefix_def)

lemma has_suffix_iff: "has_suffix p s \<longleftrightarrow> (\<exists>q. s = q @ p)"
proof
  assume "has_suffix p s"
  then obtain q where "rev s = rev p @ q" by (auto simp: has_suffix_def has_prefix_iff)
  from arg_cong[OF this, of rev] show "\<exists>q. s = q @ p" by auto
qed (auto simp: has_suffix_def has_prefix_iff)

lemma contains_text_iff: "contains_text p s \<longleftrightarrow> (\<exists>a b. s = a @ p @ b)"
proof (induction s)
  case (Cons c s)
  show ?case
  proof
    assume "contains_text p (c # s)"
    then consider "has_prefix p (c # s)" | "contains_text p s" by auto
    then show "\<exists>a b. c # s = a @ p @ b"
    proof cases
      case 1
      then obtain b where "c # s = [] @ p @ b" by (auto simp: has_prefix_iff)
      then show ?thesis by blast
    next
      case 2
      with Cons.IH obtain a b where "s = a @ p @ b" by blast
      then have "c # s = (c # a) @ p @ b" by simp
      then show ?thesis by blast
    qed
  next
    assume "\<exists>a b. c # s = a @ p @ b"
    then obtain a b where ab: "c # s = a @ p @ b" by blast
    show "contains_text p (c # s)"
    proof (cases a)
      case Nil
      with ab have "has_prefix p (c # s)" by (simp add: has_prefix_iff)
      then show ?thesis by simp
    next
      case (Cons d a')
      with ab \<open>contains_text p s \<longleftrightarrow> (\<exists>a b. s = a @ p @ b)\<close> show ?thesis by auto
    qed
  qed
qed simp

lemma source_Inr: "validate_source src = Inr () \<longleftrightarrow> source_ok src"
  by (auto simp: validate_source_def source_ok_def each_ok_Inr validate_state_path_def not_less split: DataSource.splits option.splits)

lemma not_fle_finite: "is_finite a \<Longrightarrow> is_finite b \<Longrightarrow> \<not> fle b a \<longleftrightarrow> flt a b"
  by (rule not_fle) simp_all

lemma channel_Inr: "validate_channel panels seen c = Inr () \<longleftrightarrow> cn_id c \<notin> set seen \<and> channel_ok panels c"
proof (cases "validate_identifier (cn_id c) ''channel id''")
  case (Inl e)
  then have "\<not> identifier_text (cn_id c)" using identifier_Inr[of "cn_id c" "''channel id''"] by simp
  with Inl show ?thesis by (simp add: validate_channel_def channel_ok_def)
next
  case id: (Inr u)
  then have i: "identifier_text (cn_id c)" using identifier_Inr[of "cn_id c" "''channel id''"] by simp
  show ?thesis
  proof (cases "validate_source (cn_source c)")
    case (Inl e)
    then have "\<not> source_ok (cn_source c)" using source_Inr[of "cn_source c"] by simp
    with Inl id show ?thesis by (simp add: validate_channel_def channel_ok_def)
  next
    case (Inr u')
    then have "source_ok (cn_source c)" using source_Inr[of "cn_source c"] by simp
    with Inr id i show ?thesis
      using not_fle_finite[of "vr_min (cn_range c)" "vr_max (cn_range c)"]
      by (simp add: validate_channel_def channel_ok_def) blast
  qed
qed

lemma channels_Inr:
  "validate_channels panels seen cs = Inr () \<longleftrightarrow> distinct (map cn_id cs) \<and> set (map cn_id cs) \<inter> set seen = {}
     \<and> (\<forall>c \<in> set cs. channel_ok panels c)"
proof (induction cs arbitrary: seen)
  case (Cons c cs)
  then show ?case
    using channel_Inr[of panels seen c] by (auto split: sum.splits)
qed simp

lemma match_Inr:
  "validate_match p = Inr () \<longleftrightarrow> mr_model_ids (ap_match_rules p) @ mr_name_prefixes (ap_match_rules p) \<noteq> []
     \<and> (\<forall>m \<in> set (mr_model_ids (ap_match_rules p)). identifier_text m)
     \<and> (\<forall>n \<in> set (mr_name_prefixes (ap_match_rules p)). \<not> trim_is_empty n)"
proof (cases "each_ok (\<lambda>m. validate_identifier m ''model_id'') (mr_model_ids (ap_match_rules p))")
  case (Inl e)
  then have "\<not> (\<forall>m \<in> set (mr_model_ids (ap_match_rules p)). identifier_text m)"
    using each_ok_Inr[of "\<lambda>m. validate_identifier m ''model_id''" "mr_model_ids (ap_match_rules p)"] identifier_Inr by simp
  with Inl show ?thesis by (auto simp: validate_match_def)
next
  case (Inr u)
  then have "\<forall>m \<in> set (mr_model_ids (ap_match_rules p)). identifier_text m"
    using each_ok_Inr[of "\<lambda>m. validate_identifier m ''model_id''" "mr_model_ids (ap_match_rules p)"] identifier_Inr by simp
  with Inr show ?thesis by (simp add: validate_match_def list_ex_iff)
qed

lemma resource_Inr:
  "validate_resource_path v = Inr () \<longleftrightarrow> (\<exists>p. v = ''res://'' @ p) \<and> (\<exists>p. v = p @ ''.tscn'') \<and> (\<nexists>p q. v = p @ ''..'' @ q)"
  unfolding validate_resource_path_def has_prefix_iff has_suffix_iff contains_text_iff by simp

lemma positive_Inr:
  "(if \<not> is_finite v \<or> fle v f_zero then Inl e else Inr ()) = (Inr () :: string + unit) \<longleftrightarrow> is_finite v \<and> flt f_zero v"
  using not_fle_finite[of f_zero v] by auto

lemma model_Inr: "validate_model m = Inr () \<longleftrightarrow> model_ok m"
proof (cases "validate_resource_path (mo_scene m)")
  case (Inl e)
  then have "\<not> ((\<exists>p. mo_scene m = ''res://'' @ p) \<and> (\<exists>p. mo_scene m = p @ ''.tscn'') \<and> (\<nexists>p q. mo_scene m = p @ ''..'' @ q))"
    unfolding resource_Inr[symmetric] by simp
  then have "\<not> model_ok m" unfolding model_ok_def by blast
  with Inl show ?thesis by (simp add: validate_model_def)
next
  case (Inr u)
  define sizes where "sizes = each_ok (\<lambda>(name, v). if \<not> is_finite v \<or> fle v f_zero
      then Inl (name @ '' must be finite and greater than zero'') else Inr ())
    [(''bounding_radius_m'', mo_bounding_radius_m m), (''orbit_distance_multiplier'', mo_orbit_distance_multiplier m)]"
  have sizes: "sizes = Inr () \<longleftrightarrow> (\<forall>v \<in> {mo_bounding_radius_m m, mo_orbit_distance_multiplier m}. is_finite v \<and> flt f_zero v)"
    unfolding sizes_def each_ok_Inr by (simp only: list.set prod.case ball_simps positive_Inr)
  have rest: "validate_model m = (case sizes of Inl e \<Rightarrow> Inl e
     | Inr _ \<Rightarrow> if \<not> list_all is_finite (triple_list (mo_scale m) @ triple_list (mo_rotation_degrees m)
                   @ triple_list (mo_camera_target_m m) @ triple_list (mo_cockpit_eye_m m)
                   @ [mo_ground_offset_m m, mo_orbit_yaw_degrees m, mo_orbit_pitch_degrees m])
              then Inl ''model numeric values must be finite''
              else if list_ex (\<lambda>v. feq v f_zero) (triple_list (mo_scale m))
              then Inl ''model scale components must not be zero''
              else Inr ())"
    using Inr by (simp add: validate_model_def sizes_def)
  have path: "(\<exists>p. mo_scene m = ''res://'' @ p) \<and> (\<exists>p. mo_scene m = p @ ''.tscn'') \<and> (\<nexists>p q. mo_scene m = p @ ''..'' @ q)"
    using Inr unfolding resource_Inr[symmetric] by simp
  show ?thesis
  proof (cases sizes)
    case (Inl e)
    then have "\<not> (\<forall>v \<in> {mo_bounding_radius_m m, mo_orbit_distance_multiplier m}. is_finite v \<and> flt f_zero v)"
      unfolding sizes[symmetric] by simp
    then have "\<not> model_ok m" unfolding model_ok_def by blast
    with Inl rest show ?thesis by simp
  next
    case ok: (Inr u')
    then have "\<forall>v \<in> {mo_bounding_radius_m m, mo_orbit_distance_multiplier m}. is_finite v \<and> flt f_zero v"
      unfolding sizes[symmetric] by simp
    with ok rest path show ?thesis unfolding model_ok_def list_all_iff list_ex_iff by auto
  qed
qed

lemma hud_Inr: "validate_hud panels = Inr () \<longleftrightarrow> ''common_flight'' \<in> set panels \<and> set panels \<subseteq> set PANELS"
proof -
  have "each_ok (\<lambda>p. if p \<notin> set PANELS then Inl (''unknown panel '' @ p) else Inr ()) panels = Inr () \<longleftrightarrow> set panels \<subseteq> set PANELS"
    unfolding each_ok_Inr by auto
  then show ?thesis unfolding validate_hud_def by auto
qed

lemma sum_Inr: "(case x of Inl e \<Rightarrow> Inl e | Inr _ \<Rightarrow> y) = Inr () \<longleftrightarrow> x = Inr () \<and> y = Inr ()" for x :: "'a + unit"
  by (cases x) simp_all

lemma profile_validate_iff: "profile_validate u32_text p = Inr () \<longleftrightarrow> profile_ok p"
  unfolding profile_validate_def AIRCRAFT_PROFILE_SCHEMA_VERSION_def profile_ok_def
  by (simp only: if_split_eq1 sum_Inr identifier_Inr match_Inr model_Inr hud_Inr channels_Inr) auto

text \<open>C37: A profile is loaded exactly when its file can be read, is at most 64 KiB long, parses, and
  satisfies every rule of the format: channels with distinct identifiers that show valid sources on
  enabled panels over ordered finite ranges, a safe scene path, finite geometry and known panels.\<close>

theorem profile_loaded_iff_valid:
  "load_aircraft_profile fs u32_text path = Inr p \<longleftrightarrow>
     (\<exists>n source. pfs_length fs path = Inr n \<and> n \<le> 64 * 1024 \<and> pfs_text fs path = Inr source
        \<and> pfs_parse fs source = Inr p \<and> profile_ok p)"
proof -
  have v: "(case profile_validate u32_text q of Inl e \<Rightarrow> Inl e | Inr _ \<Rightarrow> Inr q) = Inr p \<longleftrightarrow> q = p \<and> profile_ok p" for q
    using profile_validate_iff[of u32_text q] by (cases "profile_validate u32_text q") auto
  show ?thesis
    unfolding load_aircraft_profile_def MAX_AIRCRAFT_PROFILE_BYTES_def
    by (auto simp: v not_less split: sum.split)
qed

end
