(* ===== verification/Godot_Runtime_Properties.thy ===== *)
theory Godot_Runtime_Properties
  imports Godot_Properties Godot_Frame_Properties
begin

text \<open>
  What the runtime node and its worker promise together: every accepted session operation is answered
  once and in order, and the delay between attempts to connect stays within its limits.
\<close>

section \<open>Operations on their way\<close>

definition command_ops :: "Command \<Rightarrow> u64 list" where
  "command_ops c = (case c of GoSave oid _ \<Rightarrow> [oid] | GoLoad oid _ \<Rightarrow> [oid] | GoClear oid \<Rightarrow> [oid] | _ \<Rightarrow> [])"

definition event_ops :: "WorkerEvent \<Rightarrow> u64 list" where
  "event_ops e = (case e of WOperationCompleted oid _ _ \<Rightarrow> [oid] | _ \<Rightarrow> [])"

definition signal_ops :: "Signal \<Rightarrow> u64 list" where
  "signal_ops g = (case g of OperationCompleted oid _ _ \<Rightarrow> [oid] | _ \<Rightarrow> [])"

definition signalled :: "GodotRuntime \<Rightarrow> u64 list" where
  "signalled r = concat (map signal_ops (gr_signals r))"

definition on_the_way :: "GodotRuntime \<Rightarrow> u64 list" where
  "on_the_way r = (case gr_events r of None \<Rightarrow> [] | Some es \<Rightarrow> concat (map event_ops es)) @ concat (map command_ops (gr_queue r))"

text \<open>A server runtime from its start on, with the identifiers of the operations accepted so far.\<close>

inductive serving ::
  "'b WorkerEnv \<Rightarrow> RuntimeSettings \<Rightarrow> GodotRuntime \<Rightarrow> u64 list \<Rightarrow> (Kernel \<times> 'b disk) \<times> GodotRuntime \<Rightarrow> bool"
  for env :: "'b WorkerEnv" and st :: RuntimeSettings and r0 :: GodotRuntime where
  begun: "runtime_start h cfg r0 = (Some st, r1) \<Longrightarrow> server_worker_begin env st r1 = Some (Some k, r)
     \<Longrightarrow> serving env st r0 [] ((k, disk), r)"
| save: "serving env st r0 acc (kd, r) \<Longrightarrow> runtime_save_session name r = (v, r')
     \<Longrightarrow> serving env st r0 (if v = 0 then acc else acc @ [v]) (kd, r')"
| load: "serving env st r0 acc (kd, r) \<Longrightarrow> runtime_load_session name r = (v, r')
     \<Longrightarrow> serving env st r0 (if v = 0 then acc else acc @ [v]) (kd, r')"
| clear: "serving env st r0 acc (kd, r) \<Longrightarrow> runtime_clear_session r = (v, r')
     \<Longrightarrow> serving env st r0 (if v = 0 then acc else acc @ [v]) (kd, r')"
| control: "serving env st r0 acc (kd, r) \<Longrightarrow> c \<in> {GoLive, GoPause, GoSeek t, GoPlay t, GoSetSpeed t}
     \<Longrightarrow> runtime_send c r = (ok, r') \<Longrightarrow> serving env st r0 acc (kd, r')"
| step: "serving env st r0 acc (kd, r) \<Longrightarrow> runtime_step_command u d n r = (ok, r') \<Longrightarrow> serving env st r0 acc (kd, r')"
| process: "serving env st r0 acc (kd, r) \<Longrightarrow> serving env st r0 acc (kd, runtime_process r)"
| turn: "serving env st r0 acc w \<Longrightarrow> server_turn env st t w = Some (True, w') \<Longrightarrow> serving env st r0 acc w'"

text \<open>Several turns of the worker in a row.\<close>

fun server_turns ::
  "'b WorkerEnv \<Rightarrow> RuntimeSettings \<Rightarrow> ServerTurn list \<Rightarrow> (Kernel \<times> 'b disk) \<times> GodotRuntime
   \<Rightarrow> ((Kernel \<times> 'b disk) \<times> GodotRuntime) option" where
  "server_turns env st [] w = Some w"
| "server_turns env st (t # ts) w =
     (case server_turn env st t w of Some (True, w') \<Rightarrow> server_turns env st ts w' | _ \<Rightarrow> None)"

subsection \<open>The main thread\<close>

lemma emit_answered [simp]:
  "signalled (emit g r) = signalled r @ signal_ops g" "on_the_way (emit g r) = on_the_way r"
  "gr_events (emit g r) = gr_events r" "gr_queue (emit g r) = gr_queue r" "gr_frames (emit g r) = gr_frames r"
  "gr_next_operation_id (emit g r) = gr_next_operation_id r"
  by (simp_all add: emit_def signalled_def on_the_way_def)

lemma update_answered [simp]:
  "signalled (r\<lparr>gr_status := a\<rparr>) = signalled r" "signalled (r\<lparr>gr_last_error := b\<rparr>) = signalled r"
  "signalled (r\<lparr>gr_latest := c\<rparr>) = signalled r" "signalled (r\<lparr>gr_queue := q\<rparr>) = signalled r"
  "signalled (r\<lparr>gr_events := e\<rparr>) = signalled r" "signalled (r\<lparr>gr_frames := f\<rparr>) = signalled r"
  "signalled (r\<lparr>gr_next_operation_id := n\<rparr>) = signalled r" "signalled (r\<lparr>gr_sessions := s\<rparr>) = signalled r"
  "signalled (r\<lparr>gr_stats := st\<rparr>) = signalled r" "signalled (r\<lparr>gr_epoch := ep\<rparr>) = signalled r"
  "signalled (r\<lparr>gr_udp := x1, gr_management := x2, gr_remote := x3, gr_role := x4\<rparr>) = signalled r"
  by (simp_all add: signalled_def)

lemma set_status_answered [simp]:
  "signalled (set_status s r) = signalled r" "gr_events (set_status s r) = gr_events r" "gr_queue (set_status s r) = gr_queue r"
  "gr_next_operation_id (set_status s r) = gr_next_operation_id r" "on_the_way (set_status s r) = on_the_way r"
  "gr_frames (set_status s r) = gr_frames r"
  by (simp_all add: set_status_def signal_ops_def on_the_way_def)

lemma report_error_answered [simp]:
  "signalled (report_error s r) = signalled r" "gr_events (report_error s r) = gr_events r"
  "gr_queue (report_error s r) = gr_queue r" "gr_next_operation_id (report_error s r) = gr_next_operation_id r"
  "on_the_way (report_error s r) = on_the_way r" "gr_frames (report_error s r) = gr_frames r"
  by (simp_all add: report_error_def signal_ops_def on_the_way_def)

lemma drain_event_ops:
  "signalled (drain_event e r) = signalled r @ event_ops e \<and> gr_events (drain_event e r) = gr_events r
     \<and> gr_queue (drain_event e r) = gr_queue r \<and> gr_next_operation_id (drain_event e r) = gr_next_operation_id r
     \<and> gr_frames (drain_event e r) = gr_frames r"
  by (cases e) (simp_all add: drain_event_def event_ops_def signal_ops_def)

lemma fold_drain_ops:
  "signalled (fold drain_event es r) = signalled r @ concat (map event_ops es) \<and> gr_events (fold drain_event es r) = gr_events r
     \<and> gr_queue (fold drain_event es r) = gr_queue r \<and> gr_next_operation_id (fold drain_event es r) = gr_next_operation_id r
     \<and> gr_frames (fold drain_event es r) = gr_frames r"
  by (induction es arbitrary: r) (simp_all add: drain_event_ops)

lemma process_ops:
  assumes "gr_events r = Some es"
  shows "signalled (runtime_process r) = signalled r @ concat (map event_ops es) \<and> gr_events (runtime_process r) = Some []
     \<and> gr_queue (runtime_process r) = gr_queue r \<and> gr_next_operation_id (runtime_process r) = gr_next_operation_id r"
proof -
  have d: "signalled (drain_events r) = signalled r @ concat (map event_ops es)" "gr_events (drain_events r) = Some []"
    "gr_queue (drain_events r) = gr_queue r" "gr_next_operation_id (drain_events r) = gr_next_operation_id r"
    using assms fold_drain_ops[of es "r\<lparr>gr_events := Some []\<rparr>"] by (simp_all add: drain_events_def)
  show ?thesis
    by (simp add: runtime_process_def Let_def d signal_ops_def split: option.split)
qed

lemma send_ops:
  assumes "runtime_send c r = (ok, r')"
  shows "signalled r' = signalled r \<and> gr_events r' = gr_events r \<and> gr_next_operation_id r' = gr_next_operation_id r
     \<and> gr_queue r' = gr_queue r @ (if ok then [c] else [])"
  using assms unfolding runtime_send_def by (auto split: if_splits)

text \<open>An operation: \<open>0\<close> when it is refused, otherwise its identifier, which is now on its way.\<close>

lemma operation_ops:
  assumes "operation_command wrap r = (v, r')" "gr_next_operation_id r \<noteq> 0" "\<And>oid. command_ops (wrap oid) = [oid]"
  shows "signalled r' = signalled r \<and> gr_events r' = gr_events r \<and> gr_next_operation_id r' \<noteq> 0
     \<and> on_the_way r' = on_the_way r @ (if v = 0 then [] else [v])"
proof -
  let ?oid = "gr_next_operation_id r" let ?r1 = "r\<lparr>gr_next_operation_id := max (?oid + 1) 1\<rparr>"
  obtain ok r2 where s: "runtime_send (wrap ?oid) ?r1 = (ok, r2)" by fastforce
  have v: "v = (if ok then ?oid else 0)" "r' = r2"
    using assms(1) s by (simp_all add: operation_command_def allocate_operation_def Let_def)
  have "max (?oid + 1) 1 \<noteq> (0 :: u64)" by (auto simp: max_def word_le_nat_alt)
  then show ?thesis using send_ops[OF s] v assms(2) by (auto simp: on_the_way_def assms(3) split: option.splits)
qed

lemma session_ops:
  assumes "session_command name wrap r = (v, r')" "gr_next_operation_id r \<noteq> 0" "\<And>oid. command_ops (wrap oid name) = [oid]"
  shows "signalled r' = signalled r \<and> gr_events r' = gr_events r \<and> gr_next_operation_id r' \<noteq> 0
     \<and> on_the_way r' = on_the_way r @ (if v = 0 then [] else [v])"
proof (cases "name = [] \<or> \<not> list_all identifier_char name")
  case True
  with assms(1) have "v = 0" "\<exists>e. r' = report_error e r" by (auto simp: session_command_def)
  with assms(2) show ?thesis by (elim exE) simp
next
  case False
  with assms(1) have "operation_command (\<lambda>oid. wrap oid name) r = (v, r')" by (simp add: session_command_def)
  from operation_ops[OF this assms(2,3)] show ?thesis .
qed

lemma step_ops:
  assumes "runtime_step_command u d n r = (ok, r')"
  shows "signalled r' = signalled r \<and> gr_events r' = gr_events r \<and> gr_next_operation_id r' = gr_next_operation_id r
     \<and> on_the_way r' = on_the_way r"
proof -
  have "(\<exists>e. r' = report_error e r) \<or> (\<exists>u' d'. runtime_send (GoStep u' d' (unat n)) r = (ok, r'))"
    using assms unfolding runtime_step_command_def by (auto split: option.splits if_splits)
  then show ?thesis
  proof (elim disjE exE)
    fix u' d' assume "runtime_send (GoStep u' d' (unat n)) r = (ok, r')"
    from send_ops[OF this] show ?thesis by (simp add: on_the_way_def command_ops_def)
  qed simp
qed

subsection \<open>The worker\<close>

lemma push_ops [simp]:
  "signalled (push_events es r) = signalled r" "gr_queue (push_events es r) = gr_queue r"
  "gr_next_operation_id (push_events es r) = gr_next_operation_id r"
  "gr_events (push_events es r) = map_option (\<lambda>q. q @ es) (gr_events r)"
  by (simp_all add: push_events_def)

lemma timeline_ops: "timeline_command env x k = Some (es, k') \<Longrightarrow> concat (map event_ops es) = []"
  unfolding timeline_command_def by (cases x) (auto simp: event_ops_def split: sum.splits)

lemma handle_command_ops:
  assumes "handle_command env st clk io c kd = Some (es, kd')"
  shows "concat (map event_ops es) = command_ops c"
proof -
  obtain k disk where kd: "kd = (k, disk)" by fastforce
  show ?thesis
    using assms unfolding kd handle_command_def command_ops_def
    by (cases c) (auto simp: Let_def completed_def event_ops_def dest!: timeline_ops split: sum.splits prod.splits)
qed

lemma frame_ops:
  assumes "publish_frame env st t k r = Some (going, k', r')" "gr_events r \<noteq> None"
  shows "signalled r' = signalled r \<and> gr_queue r' = gr_queue r \<and> gr_next_operation_id r' = gr_next_operation_id r
     \<and> (\<exists>rows. gr_events r' = map_option (\<lambda>q. q @ [WSessions rows]) (gr_events r))"
proof -
  obtain snapshot p f where "playback_snapshot (\<lambda>i. st_clock t (i + 8)) (kn_store k) (kn_playback k) = Some (Inr (snapshot, p))"
    and f: "build_frame (we_nalgebra env) (st_now t) (gs_stale_timeout_secs st) snapshot (kn_store k) = Some f"
    using assms(1) unfolding publish_frame_def by (auto simp: Let_def split: option.splits sum.splits)
  moreover obtain ok r1 where r1: "try_send_frame f r = (ok, r1)" by fastforce
  ultimately obtain rows where r': "r' = push_events [WSessions rows] r1"
    using assms(1) unfolding publish_frame_def by (auto simp: Let_def)
  from r1 have "signalled r1 = signalled r \<and> gr_queue r1 = gr_queue r \<and> gr_next_operation_id r1 = gr_next_operation_id r
      \<and> gr_events r1 = gr_events r"
    unfolding try_send_frame_def by (auto split: option.splits list.splits)
  with r' show ?thesis by auto
qed

lemma turn_ops:
  assumes "server_turn env st t (kd, r) = Some (True, (kd', r'))" "gr_events r = Some es"
  shows "signalled r' = signalled r \<and> gr_next_operation_id r' = gr_next_operation_id r \<and> gr_events r' \<noteq> None
     \<and> on_the_way r' = on_the_way r \<and> gr_queue r' = tl (gr_queue r)"
proof -
  obtain k0 disk where kd: "kd = (k0, disk)" by fastforce
  obtain p r1 where p: "poll_command r = (p, r1)" by fastforce
  define k where "k = st_others t k0"
  define mid where "mid = (case p of
          PolledCommand c \<Rightarrow>
            if c = GoShutdown then Some (False, (k, disk), r1)
            else map_option (\<lambda>(es, k1, disk1). (True, (k1, disk1), push_events es r1))
                   (handle_command env st (st_clock t) (st_io t) c (k, disk))
        | PolledNothing \<Rightarrow> Some (True, (k, disk), r1)
        | PolledDisconnected \<Rightarrow> Some (False, (k, disk), r1))"
  have turn: "(case mid of
        None \<Rightarrow> None
      | Some (going, (k1, disk1), r1) \<Rightarrow>
          (case (if going \<and> st_due t then publish_frame env st t k1 r1 else Some (going, k1, r1)) of
             None \<Rightarrow> None
           | Some (going2, k2, r2) \<Rightarrow>
               if going2 then Some (True, (k2, disk1), r2)
               else (let (k3, r3) = server_worker_end k2 r2 in Some (False, (k3, disk1), r3)))) = Some (True, (kd', r'))"
    using assms(1) unfolding server_turn_def kd mid_def k_def by (simp only: p prod.case Let_def)
  then obtain going k1 disk1 r2 where m: "mid = Some (going, (k1, disk1), r2)" by (auto split: option.splits)
  with turn have going: "going" and last: "r' = r2 \<or> (\<exists>k2. publish_frame env st t k1 r2 = Some (True, k2, r'))"
    by (auto simp: server_worker_end_def split: if_splits option.splits)
  note r2 = m[unfolded mid_def going[THEN iffD2[OF eq_True]]]
  have first: "signalled r2 = signalled r \<and> gr_next_operation_id r2 = gr_next_operation_id r \<and> gr_events r2 \<noteq> None
     \<and> on_the_way r2 = on_the_way r \<and> gr_queue r2 = tl (gr_queue r)"
  proof (cases "gr_queue r")
    case Nil
    with p r2 have "r2 = r" by (auto simp: poll_command_def split: if_splits)
    with Nil assms(2) show ?thesis by simp
  next
    case (Cons c cs)
    with p have pc: "p = PolledCommand c" "r1 = r\<lparr>gr_queue := cs\<rparr>" by (auto simp: poll_command_def)
    with r2 obtain es1 where "handle_command env st (st_clock t) (st_io t) c (k, disk) = Some (es1, k1, disk1)"
      and "r2 = push_events es1 r1"
      by (auto split: if_splits)
    with Cons pc assms(2) show ?thesis
      using handle_command_ops by (fastforce simp: on_the_way_def)
  qed
  from last show ?thesis
  proof (elim disjE exE)
    fix k2 assume "publish_frame env st t k1 r2 = Some (True, k2, r')"
    from frame_ops[OF this] first show ?thesis by (auto simp: on_the_way_def event_ops_def)
  qed (use first in simp)
qed

lemma begin_ops:
  assumes "runtime_start h cfg r0 = (Some st, r1)" "server_worker_begin env st r1 = Some (Some k, r)"
  shows "signalled r = signalled r0 \<and> gr_next_operation_id r = gr_next_operation_id r0 \<and> gr_events r \<noteq> None \<and> on_the_way r = []"
proof -
  have r1: "signalled r1 = signalled r0" "gr_next_operation_id r1 = gr_next_operation_id r0" "gr_events r1 = Some []" "gr_queue r1 = []"
    using assms(1) unfolding runtime_start_def
    by (auto simp: Let_def signalled_def set_status_def emit_def signal_ops_def split: if_splits sum.splits)
  have "\<exists>x y. r = push_events [WStarted x y [] ''server''] r1"
    using assms(2) unfolding server_worker_begin_def by (auto split: option.splits sum.splits prod.splits)
  with r1 show ?thesis by (auto simp: on_the_way_def event_ops_def)
qed

text \<open>What was accepted is answered or on its way, in order.\<close>

lemma serving_ops:
  assumes "serving env st r0 acc w" "gr_next_operation_id r0 \<noteq> 0"
  shows "signalled (snd w) @ on_the_way (snd w) = signalled r0 @ acc \<and> gr_events (snd w) \<noteq> None
     \<and> gr_next_operation_id (snd w) \<noteq> 0"
  using assms
proof (induction rule: serving.induct)
  case (begun h cfg r1 k r disk)
  then show ?case using begin_ops[OF begun(1,2)] by simp
next
  case (save acc kd r name v r')
  then show ?case using session_ops[OF save(2)[unfolded runtime_save_session_def]] by (auto simp: command_ops_def)
next
  case (load acc kd r name v r')
  then show ?case using session_ops[OF load(2)[unfolded runtime_load_session_def]] by (auto simp: command_ops_def)
next
  case (clear acc kd r v r')
  then show ?case using operation_ops[OF clear(2)[unfolded runtime_clear_session_def]] by (auto simp: command_ops_def)
next
  case (control acc kd r c t ok r')
  then show ?case using send_ops[OF control(3)] by (auto simp: on_the_way_def command_ops_def)
next
  case (step acc kd r u d n ok r')
  then show ?case using step_ops[OF step(2)] by simp
next
  case (process acc kd r)
  then obtain es where "gr_events r = Some es" by auto
  with process_ops[OF this] process show ?case by (auto simp: on_the_way_def)
next
  case (turn acc w t w')
  obtain kd r kd' r' where w: "w = (kd, r)" "w' = (kd', r')" by fastforce
  with turn obtain es where "gr_events r = Some es" by auto
  with turn_ops[OF turn(2)[unfolded w] this] turn w show ?case by simp
qed


text \<open>With enough turns of the worker the queue is served and the engine's next frame reports the rest.\<close>

lemma turns_ops:
  "server_turns env st ts (kd, r) = Some (kd', r') \<Longrightarrow> gr_events r \<noteq> None
    \<Longrightarrow> signalled r' = signalled r \<and> gr_events r' \<noteq> None \<and> on_the_way r' = on_the_way r \<and> gr_queue r' = drop (length ts) (gr_queue r)"
proof (induction ts arbitrary: kd r)
  case (Cons t ts)
  then obtain kd1 r1 where t: "server_turn env st t (kd, r) = Some (True, (kd1, r1))"
    and rest: "server_turns env st ts (kd1, r1) = Some (kd', r')"
    by (auto split: option.splits prod.splits bool.splits)
  obtain es where "gr_events r = Some es" using Cons.prems(2) by auto
  note first = turn_ops[OF t this]
  with Cons.IH[OF rest] show ?case by (simp add: drop_Suc)
qed simp


definition server_demo_config :: FlyRulerRuntimeConfig where
  "server_demo_config = config_init\<lparr>rg_management_enabled := False, rg_snapshot_hz := f_one, rg_stale_timeout_secs := f_one,
     rg_cursor_publish_hz := f_one\<rparr>"

definition server_demo_env :: "Payload WorkerEnv" where
  "server_demo_env = \<lparr>we_codec = demo_codec, we_bind = \<lambda>addr _. Inr addr,
     we_system = \<lparr>hs_platform = gh_platform demo_host, hs_canonicalize = Some, hs_create_dir = \<lambda>_. None, hs_bind = Inr,
       hs_header_value = \<lambda>_. True, hs_origin_list = \<lambda>_. True, hs_to_string = \<lambda>_. [], hs_index = \<lambda>_. None\<rparr>,
     we_join = \<lambda>a b. a @ ''/'' @ b, we_runtime_text = \<lambda>_. ''failed'', we_playback_text = \<lambda>_. ''failed'', we_socket_text = \<lambda>_. [],
     we_nalgebra = plain_nalgebra\<rparr>"

definition quiet_turn :: ServerTurn where
  "quiet_turn = \<lparr>st_others = \<lambda>k. k, st_clock = \<lambda>i. i, st_io = None, st_due = False, st_now = (f_zero, 0)\<rparr>"

lemma server_demo_resolves:
  "\<exists>st. config_resolve demo_host server_demo_config = Inr st \<and> gs_role st = ''server'' \<and> gs_management_enabled st = False
     \<and> gs_snapshot_hz st = f_one \<and> gs_stale_timeout_secs st = f_one \<and> gs_cursor_publish_hz st = f_one
     \<and> 0 < gs_max_subscribers st"
  by (simp add: server_demo_config_def config_resolve_def settings_of_def config_init_def godot_file_default_def transport_file_default_def
      management_file_default_def cursor_stream_file_default_def visualization_file_default_def playback_file_default_def
      logging_file_default_def negative_def settings_validate_def endpoint_checks_def default_endpoints settings_checks_def
      positive_settings_def positive_rate_def f64_eval validate_paths_def demo_host_def globalize_def
      trim_is_empty_def)

lemma one_second: "from_secs_f64 f_one = Some nanos_per_sec" "from_secs_f64 (fdiv f_one f_one) = Some nanos_per_sec"
proof -
  have v: "val_mag (f_mag f_one) = unit_scale" by (simp add: f64_eval val_mag_def unit_scale_def)
  have pos: "0 < unit_scale" by (simp add: unit_scale_def)
  have "fdiv f_one f_one = f_make False (round_mag (val_mag (f_mag f_one) * unit_scale) unit_scale)"
    using v pos by (simp add: fdiv_def f_round_def Let_def f64_eval)
  also have "\<dots> = f_make False (f_mag f_one)" using round_mag_exact[OF pos, of "f_mag f_one"] by (simp add: f64_eval)
  also have "\<dots> = f_one" by (simp add: f64_eval f_make_def)
  finally have d: "fdiv f_one f_one = f_one" .
  have "from_secs_f64 f_one = Some nanos_per_sec"
    using pos by (simp add: from_secs_f64_def v Let_def nanos_per_sec_def) (simp add: f64_eval)
  then show "from_secs_f64 f_one = Some nanos_per_sec" "from_secs_f64 (fdiv f_one f_one) = Some nanos_per_sec" using d by simp_all
qed



section \<open>The delay between attempts to connect\<close>

text \<open>A client worker between two steps, with whether it is connected.\<close>

inductive client_runs :: "Nalgebra \<Rightarrow> RuntimeSettings \<Rightarrow> bool \<Rightarrow> ClientWorker \<times> GodotRuntime \<Rightarrow> bool"
  for na :: Nalgebra and st :: RuntimeSettings where
  new: "client_runs na st False (client_worker_new st, r)"
| attempt: "client_runs na st False w \<Longrightarrow> client_connect st i w = Some (True, connected, w') \<Longrightarrow> client_runs na st connected w'"
| turn: "client_runs na st True w \<Longrightarrow> client_turn na st t w = (None, w') \<Longrightarrow> client_runs na st True w'"
| lost: "client_runs na st True w \<Longrightarrow> client_turn na st t w = (Some e, cw', r') \<Longrightarrow> client_disconnect e r' = (True, r'')
    \<Longrightarrow> client_runs na st False (cw', r'')"
| command: "client_runs na st c (cw, r) \<Longrightarrow> runtime_send x r = (ok, r') \<Longrightarrow> client_runs na st c (cw, r')"
| shutdown: "client_runs na st c (cw, r) \<Longrightarrow> client_runs na st c (cw, shutdown_begin r)"
| process: "client_runs na st c (cw, r) \<Longrightarrow> client_runs na st c (cw, runtime_process r)"

lemma positive_flt: "positive_rate v \<longleftrightarrow> is_finite v \<and> flt f_zero v"
  using not_fle[of v f_zero] by (auto simp: positive_rate_def)

lemma fle_double:
  assumes x: "is_finite x" "fle f_zero x"
  shows "fle x (fmul x (F64 0x4000000000000000))"
proof -
  let ?two = "F64 0x4000000000000000"
  have two: "val_mag (f_mag ?two) = 2 * unit_scale" "\<not> is_nan ?two" "\<not> is_infinite ?two" "\<not> f_neg ?two"
    by (simp_all add: f64_eval val_mag_def unit_scale_def)
  have pos: "0 < unit_scale" by (simp add: unit_scale_def)
  have le: "f_mag x \<le> inf_mag" "\<not> is_nan x" "\<not> is_infinite x"
    using x(1) by (auto simp: is_finite_def is_infinite_def)
  have "round_mag (val_mag (f_mag x) * unit_scale) unit_scale \<le> round_mag (val_mag (f_mag x) * (2 * unit_scale)) unit_scale"
    using pos by (intro round_mag_mono) simp_all
  then have m: "f_mag x \<le> round_mag (val_mag (f_mag x) * (2 * unit_scale)) unit_scale"
    using round_mag_exact[OF pos le(1)] by simp
  have r: "fmul x ?two = f_round (f_neg x) (val_mag (f_mag x) * (2 * unit_scale)) unit_scale"
    using le two by (simp add: fmul_def Let_def)
  show ?thesis
  proof (cases "f_neg x")
    case True
    with nonneg_neg[OF x(2)] have "f_mag x = 0" by simp
    moreover have "round_mag 0 unit_scale = 0" using round_mag_exact[of unit_scale 0] pos by simp
    ultimately show ?thesis using le(2) unfolding r by (simp add: fle_def ord_key_def[of x])
  next
    case False
    then show ?thesis using m le(2) unfolding r by (simp add: fle_def ord_key_def[of x])
  qed
qed


lemma finite_between:
  assumes "fle f_zero x" "fle x y" "is_finite y"
  shows "is_finite x"
proof -
  have "ord_key x < int inf_mag" using assms ord_key_finite[of y] by (simp add: fle_def)
  moreover have "\<not> is_nan x" "0 \<le> ord_key x" using assms(1) by (simp_all add: fle_zero)
  ultimately show ?thesis by (auto simp: is_finite_def is_nan_def ord_key_def inf_mag_def split: if_splits)
qed

lemma next_delay_within:
  assumes st: "is_finite (gs_reconnect_max_secs st)" "fle (gs_reconnect_initial_secs st) (gs_reconnect_max_secs st)"
    "fle f_zero (gs_reconnect_initial_secs st)"
    and d: "fle (gs_reconnect_initial_secs st) d" "is_finite d"
  shows "fle (gs_reconnect_initial_secs st) (next_delay st d) \<and> fle (next_delay st d) (gs_reconnect_max_secs st)"
proof -
  let ?m = "gs_reconnect_max_secs st" let ?t = "fmul d (F64 0x4000000000000000)"
  have le: "fle (gs_reconnect_initial_secs st) ?t"
    by (rule fle_trans[OF d(1) fle_double[OF d(2) fle_trans[OF st(3) d(1)]]])
  have nn: "\<not> is_nan ?t" "\<not> is_nan ?m" using le st(1) by (auto simp: fle_def)
  have k: "ord_key (fmin ?t ?m) = min (ord_key ?t) (ord_key ?m)" using nn by (rule fmin_key)
  have i: "\<not> is_nan (fmin ?t ?m)" using fmin_cases[of ?t ?m] nn by auto
  show ?thesis using i nn le st(2) k by (simp add: fle_def next_delay_def)
qed

text \<open>Sleeping for a delay does not panic when sleeping for the longest one does not.\<close>

lemma from_secs_smaller:
  assumes "fle f_zero x" "fle x y" "from_secs_f64 y = Some n"
  shows "\<exists>m \<le> n. from_secs_f64 x = Some m"
proof -
  have y: "is_finite y" "n = rne (val_mag (f_mag y) * nanos_per_sec) unit_scale" "n < 2 ^ 64 * nanos_per_sec"
    using assms(3) by (auto simp: from_secs_f64_def Let_def split: if_splits)
  have x: "is_finite x" using finite_between[OF assms(1,2) y(1)] .
  have "f_mag x \<le> f_mag y"
    using assms(1,2) nonneg_neg[OF assms(1)] nonneg_neg[OF fle_trans[OF assms(1,2)]]
    by (auto simp: fle_def ord_key_def split: if_splits)
  then have "val_mag (f_mag x) \<le> val_mag (f_mag y)" using y(1) by (intro val_mag_mono) (simp_all add: is_finite_def)
  then have "rne (val_mag (f_mag x) * nanos_per_sec) unit_scale \<le> rne (val_mag (f_mag y) * nanos_per_sec) unit_scale"
    by (intro rne_mono) (simp_all add: unit_scale_def)
  moreover have "\<not> flt x f_zero" using assms(1) not_flt[of x f_zero] by (auto simp: fle_def)
  ultimately show ?thesis using x y by (simp add: from_secs_f64_def Let_def)
qed

subsection \<open>The worker\<close>

lemma client_receive_delay: "client_receive na st now e (cw, r) = (x, cw', r') \<Longrightarrow> cw_delay cw' = cw_delay cw"
  unfolding client_receive_def by (cases e) (auto simp: Let_def split: prod.splits)

lemma client_turn_delay: "client_turn na st t (cw, r) = (x, cw', r') \<Longrightarrow> cw_delay cw' = cw_delay cw"
  unfolding client_turn_def
  by (auto simp: Let_def dest!: client_receive_delay split: prod.splits if_splits option.splits sum.splits)

lemma client_connect_delay:
  "client_connect st i (cw, r) = Some (going, c, cw', r')
   \<Longrightarrow> cw_delay cw' \<in> {cw_delay cw, next_delay st (cw_delay cw), gs_reconnect_initial_secs st}"
  unfolding client_connect_def
  by (auto simp: Let_def split: prod.splits if_splits option.splits sum.splits polled.splits)

lemma client_runs_delay:
  assumes "client_runs na st c w" "is_finite (gs_reconnect_max_secs st)"
    "fle (gs_reconnect_initial_secs st) (gs_reconnect_max_secs st)" "fle f_zero (gs_reconnect_initial_secs st)"
  shows "fle (gs_reconnect_initial_secs st) (cw_delay (fst w)) \<and> fle (cw_delay (fst w)) (gs_reconnect_max_secs st)"
  using assms(1)
proof induction
  case (new r)
  show ?case using assms(3,4) by (simp add: client_worker_new_def fle_def)
next
  case (attempt w i connected w')
  obtain cw r cw' r' where w: "w = (cw, r)" "w' = (cw', r')" by fastforce
  have f: "is_finite (cw_delay cw)" using finite_between[OF fle_trans[OF assms(4)] _ assms(2)] attempt.IH w by simp
  have "fle (gs_reconnect_initial_secs st) (next_delay st (cw_delay cw)) \<and> fle (next_delay st (cw_delay cw)) (gs_reconnect_max_secs st)"
    using next_delay_within[OF assms(2-4) _ f] attempt.IH w by simp
  moreover have "fle (gs_reconnect_initial_secs st) (gs_reconnect_initial_secs st)" using assms(3) by (simp add: fle_def)
  moreover have "cw_delay cw' \<in> {cw_delay cw, next_delay st (cw_delay cw), gs_reconnect_initial_secs st}"
    using attempt.hyps(2) unfolding w by (rule client_connect_delay)
  ultimately show ?case using attempt.IH assms(3) w by auto
next
  case (turn w t w')
  obtain cw r cw' r' where w: "w = (cw, r)" "w' = (cw', r')" by fastforce
  with turn show ?case using client_turn_delay[of na st t cw r None cw' r'] by simp
next
  case (lost w t e cw' r' r'')
  obtain cw r where w: "w = (cw, r)" by fastforce
  with lost show ?case using client_turn_delay[of na st t cw r "Some e" cw' r'] by simp
qed simp_all

lemma accepted_reconnect:
  assumes "settings_validate st = Inr ()"
  shows "is_finite (gs_reconnect_max_secs st)" "fle (gs_reconnect_initial_secs st) (gs_reconnect_max_secs st)"
    "flt f_zero (gs_reconnect_initial_secs st)"
proof -
  have "first_error (settings_checks st) = None"
    using assms unfolding settings_validate_def by (auto split: if_splits sum.splits option.splits)
  then have "positive_rate (gs_reconnect_max_secs st)" "positive_rate (gs_reconnect_initial_secs st)"
    "\<not> flt (gs_reconnect_max_secs st) (gs_reconnect_initial_secs st)"
    unfolding settings_checks_def positive_settings_def by (auto split: if_splits)
  then show "is_finite (gs_reconnect_max_secs st)" "fle (gs_reconnect_initial_secs st) (gs_reconnect_max_secs st)"
    "flt f_zero (gs_reconnect_initial_secs st)"
    using not_flt[of "gs_reconnect_max_secs st" "gs_reconnect_initial_secs st"] by (simp_all add: positive_flt)
qed

text \<open>C39: With accepted settings the delay between attempts to connect never leaves its limits, however often
  the server was lost, and while the longest delay is a duration no attempt panics.\<close>

theorem reconnect_delay_bounded:
  assumes "settings_validate st = Inr ()" "client_runs na st connected (cw, r)"
  shows "fle (gs_reconnect_initial_secs st) (cw_delay cw) \<and> fle (cw_delay cw) (gs_reconnect_max_secs st)
    \<and> (from_secs_f64 (gs_reconnect_max_secs st) = Some longest
        \<longrightarrow> (\<exists>d \<le> longest. from_secs_f64 (cw_delay cw) = Some d) \<and> client_connect st i (cw, r) \<noteq> None)"
proof -
  note ok = accepted_reconnect[OF assms(1)]
  note b = client_runs_delay[OF assms(2) ok(1,2) flt_imp_fle[OF ok(3)], simplified]
  have "\<exists>d \<le> longest. from_secs_f64 (cw_delay cw) = Some d" if "from_secs_f64 (gs_reconnect_max_secs st) = Some longest"
    using from_secs_smaller[OF fle_trans[OF flt_imp_fle[OF ok(3)]] _ that] b by blast
  moreover have "client_connect st i (cw, r) \<noteq> None" if "from_secs_f64 (cw_delay cw) = Some d" for d
    unfolding client_connect_def using that
    by (auto simp: Let_def split: prod.splits if_splits option.splits sum.splits polled.splits)
  ultimately show ?thesis using b by blast
qed

text \<open>A client whose limits are both one second.\<close>

lemma client_demo_resolves:
  "\<exists>st. config_resolve demo_host (config_init\<lparr>rg_role := ''client'', rg_management_enabled := False,
       rg_server_address := ''127.0.0.1:18003'', rg_reconnect_initial_secs := f_one, rg_reconnect_max_secs := f_one\<rparr>) = Inr st
     \<and> settings_validate st = Inr () \<and> gs_reconnect_max_secs st = f_one"
proof -
  have e: "validate_endpoint ''127.0.0.1:18003'' False ''server_address'' = Inr ()" by code_simp
  show ?thesis
  by (simp add: e config_resolve_def settings_of_def config_init_def godot_file_default_def transport_file_default_def
      management_file_default_def cursor_stream_file_default_def visualization_file_default_def playback_file_default_def
      logging_file_default_def negative_def settings_validate_def endpoint_checks_def settings_checks_def
      positive_settings_def positive_rate_def f64_eval validate_paths_def demo_host_def globalize_def
      trim_is_empty_def)
qed

lemma reconnect_delay_bounded_witness:
  "\<exists>st cw r. client_runs plain_nalgebra st False (cw, r) \<and> r \<noteq> runtime_init \<and> from_secs_f64 (gs_reconnect_max_secs st) = Some nanos_per_sec
     \<and> (\<exists>d \<le> nanos_per_sec. from_secs_f64 (cw_delay cw) = Some d)"
proof -
  obtain st where st: "settings_validate st = Inr ()" "gs_reconnect_max_secs st = f_one" using client_demo_resolves by blast
  define r where "r = runtime_init\<lparr>gr_tx := True, gr_events := Some []\<rparr>"
  have start: "client_runs plain_nalgebra st False (client_worker_new st, r)" by (rule client_runs.new)
  from reconnect_delay_bounded[OF st(1) start, of nanos_per_sec "\<lparr>ci_result = Inl ''refused'', ci_start = 0\<rparr>"]
  obtain going c cw' r' where a: "client_connect st \<lparr>ci_result = Inl ''refused'', ci_start = 0\<rparr> (client_worker_new st, r)
      = Some (going, c, cw', r')" using st(2) one_second(1) by auto
  then have "going" "\<not> c" "gr_events r' = Some [WReconnecting ''refused'']"
    by (auto simp: client_connect_def client_poll_def poll_command_def r_def push_events_def Let_def runtime_init_def
        split: option.splits)
  with a have run: "client_runs plain_nalgebra st False (cw', r')" using client_runs.attempt[OF start, of _ c "(cw', r')"] by simp
  have "r' \<noteq> runtime_init" using \<open>gr_events r' = _\<close> by (auto simp: runtime_init_def)
  moreover have "\<exists>d \<le> nanos_per_sec. from_secs_f64 (cw_delay cw') = Some d"
    using reconnect_delay_bounded[OF st(1) run, of nanos_per_sec] st(2) one_second(1) by simp
  moreover have "from_secs_f64 (gs_reconnect_max_secs st) = Some nanos_per_sec" using st(2) one_second(1) by simp
  ultimately show ?thesis using run by blast
qed

section \<open>Accepted settings the worker cannot run with\<close>

definition long_timeout :: f64 where
  "long_timeout = F64 0x4410000000000000"

lemma long_timeout_panics: "from_secs_f64 long_timeout = None"
proof -
  have v: "val_mag (f_mag long_timeout) = 2 ^ 66 * unit_scale"
    by (simp add: long_timeout_def f64_eval val_mag_def unit_scale_def)
  have "rne (val_mag (f_mag long_timeout) * nanos_per_sec) unit_scale = rne (2 ^ 66 * nanos_per_sec * unit_scale) unit_scale"
    unfolding v by (simp only: ac_simps)
  also have "\<dots> = 2 ^ 66 * nanos_per_sec" by (rule rne_exact) (simp add: unit_scale_def)
  finally show ?thesis by (simp add: from_secs_f64_def Let_def nanos_per_sec_def)
qed

text \<open>C40: The validation accepts settings that no worker survives: with a stale timeout of \<open>2 ^ 66\<close> seconds the
  runtime starts, reports the starting status without an error, and the worker panics before its first
  event, on any system, so that the runtime keeps that status whatever frames the engine processes.\<close>

theorem accepted_timeout_panics_worker:
  "\<exists>cfg st r. rg_stale_timeout_secs cfg = long_timeout \<and> runtime_start demo_host cfg runtime_init = (Some st, r)
     \<and> (\<forall>env :: 'b WorkerEnv. server_worker_begin env st r = None)
     \<and> (\<forall>n. gr_status ((runtime_process ^^ n) (worker_ends r)) = StStarting \<and> gr_last_error ((runtime_process ^^ n) (worker_ends r)) = [])"
proof -
  let ?cfg = "config_init\<lparr>rg_management_enabled := False, rg_stale_timeout_secs := long_timeout\<rparr>"
  have "\<exists>st. config_resolve demo_host ?cfg = Inr st \<and> gs_role st = ''server'' \<and> gs_stale_timeout_secs st = long_timeout"
    by (simp add: long_timeout_def config_resolve_def settings_of_def config_init_def godot_file_default_def transport_file_default_def
      management_file_default_def cursor_stream_file_default_def visualization_file_default_def playback_file_default_def
      logging_file_default_def negative_def settings_validate_def endpoint_checks_def default_endpoints settings_checks_def
      positive_settings_def positive_rate_def f64_eval validate_paths_def demo_host_def globalize_def
      trim_is_empty_def)
  then obtain st where st: "config_resolve demo_host ?cfg = Inr st" "gs_role st = ''server''" "gs_stale_timeout_secs st = long_timeout"
    by blast
  obtain r where r: "runtime_start demo_host ?cfg runtime_init = (Some st, r)" "gr_status r = StStarting"
      "gr_events r = Some []" "gr_frames r = Some []" "gr_last_error r = []"
    using st by (simp add: runtime_start_def runtime_init_def set_status_def emit_def)
  have "(runtime_process ^^ n) (worker_ends r) = worker_ends r" for n
  proof (induction n)
    case (Suc n)
    have "(worker_ends r)\<lparr>gr_events := Some []\<rparr> = worker_ends r"
      using r(3) by (intro GodotRuntime.equality) (simp_all add: worker_ends_def)
    then have "runtime_process (worker_ends r) = worker_ends r"
      using r(3,4) by (simp add: runtime_process_def drain_events_def worker_ends_def Let_def)
    with Suc show ?case by simp
  qed simp
  moreover have "server_worker_begin env st r = None" for env :: "'b WorkerEnv"
    using st(3) by (simp add: server_worker_begin_def server_worker_config_def long_timeout_panics)
  moreover have "rg_stale_timeout_secs ?cfg = long_timeout" by simp
  ultimately show ?thesis using r by (intro exI[of _ ?cfg] exI[of _ st] exI[of _ r]) (simp add: worker_ends_def)
qed

end
