(* ===== verification/Python_Protocol.thy ===== *)
theory Python_Protocol
  imports Attitude
begin

text \<open>
  The data classes of the Python bindings (\<open>bindings/python/src/protocol.rs\<close>) and their conversion to
  wire messages. Errors are the Python exceptions with their texts; an omitted keyword argument is
  \<open>None\<close>, and where the signature gives a default, the constructor applies it.
\<close>

datatype PyError = PyValueError string | PyConnectionError string | PyRuntimeError string
  | PyKeyError string | PyTypeError string | PyOther string

definition or_default :: "'a option \<Rightarrow> 'a \<Rightarrow> 'a" where
  "or_default a d = (case a of None \<Rightarrow> d | Some x \<Rightarrow> x)"

section \<open>Vectors and attitudes\<close>

record PyVector3 =
  py_x :: f64
  py_y :: f64
  py_z :: f64

definition py_vector :: "PyVector3 \<Rightarrow> Vector3" where
  "py_vector v = \<lparr>v_x = py_x v, v_y = py_y v, v_z = py_z v\<rparr>"

definition py_vector_zero :: PyVector3 where
  "py_vector_zero = \<lparr>py_x = f_zero, py_y = f_zero, py_z = f_zero\<rparr>"

datatype PyAttitude = PyAttitude (py_attitude: Attitude)

definition py_quaternion :: "PyAttitude \<Rightarrow> Quaternion" where
  "py_quaternion a = attitude_quaternion (py_attitude a)"

definition py_attitude_identity :: PyAttitude where
  "py_attitude_identity = PyAttitude attitude_identity"

definition attitude_error_text :: "AttitudeError \<Rightarrow> string" where
  "attitude_error_text e =
     (case e of
        InvalidQuaternion \<Rightarrow> ''quaternion must contain only finite values and have non-zero norm''
      | InvalidEuler \<Rightarrow> ''Euler angles must contain only finite values''
      | InvalidRotationMatrix \<Rightarrow> ''rotation matrix must be finite, orthogonal, and have determinant +1'')"

definition py_attitude_result :: "AttitudeError + Attitude \<Rightarrow> PyError + PyAttitude" where
  "py_attitude_result r =
     (case r of Inl e \<Rightarrow> Inl (PyValueError (attitude_error_text e)) | Inr a \<Rightarrow> Inr (PyAttitude a))"

definition py_from_quaternion :: "Nalgebra \<Rightarrow> f64 list \<Rightarrow> PyError + PyAttitude" where
  "py_from_quaternion na vs =
     (case vs of
        [w, x, y, z] \<Rightarrow> py_attitude_result (attitude_from_quaternion na \<lparr>q_w = w, q_x = x, q_y = y, q_z = z\<rparr>)
      | _ \<Rightarrow> Inl (PyValueError ''quaternion must contain exactly 4 values''))"

definition py_from_rotation_matrix :: "Nalgebra \<Rightarrow> f64 list \<Rightarrow> PyError + PyAttitude" where
  "py_from_rotation_matrix na vs =
     (if length vs \<noteq> 9 then Inl (PyValueError ''rotation matrix must contain exactly 9 values'')
      else py_attitude_result (attitude_from_rotation_matrix na vs))"

definition py_from_euler :: "Nalgebra \<Rightarrow> f64 list \<Rightarrow> PyError + PyAttitude" where
  "py_from_euler na vs =
     (case vs of
        [roll, pitch, yaw] \<Rightarrow> py_attitude_result (attitude_from_euler na (roll, pitch, yaw))
      | _ \<Rightarrow> Inl (PyValueError ''Euler angles must contain exactly 3 values''))"

definition py_attitude_quaternion :: "PyAttitude \<Rightarrow> f64 \<times> f64 \<times> f64 \<times> f64" where
  "py_attitude_quaternion a = (let q = attitude_quaternion (py_attitude a) in (q_w q, q_x q, q_y q, q_z q))"

definition py_rotation_matrix :: "Nalgebra \<Rightarrow> PyAttitude \<Rightarrow> f64 list" where
  "py_rotation_matrix na a = attitude_rotation_matrix na (py_attitude a)"

definition py_euler :: "Nalgebra \<Rightarrow> PyAttitude \<Rightarrow> f64 \<times> f64 \<times> f64" where
  "py_euler na a = attitude_euler na (py_attitude a)"

section \<open>Parts of the state\<close>

record PyDerivedState =
  pd_lat :: f64
  pd_lon :: f64
  pd_altitude :: f64
  pd_alpha :: f64
  pd_beta :: f64
  pd_tas :: f64
  pd_eas :: f64
  pd_gamma :: f64
  pd_chi :: f64
  pd_ias :: "f64 option"
  pd_cas :: "f64 option"
  pd_mach :: "f64 option"
  pd_ground_speed :: "f64 option"
  pd_vertical_speed :: "f64 option"
  pd_dynamic_pressure :: "f64 option"
  pd_normal_load_factor :: "f64 option"

definition py_derived :: "PyDerivedState \<Rightarrow> DerivedState" where
  "py_derived d = \<lparr>d_lat = pd_lat d, d_lon = pd_lon d, d_altitude = pd_altitude d, d_alpha = pd_alpha d, d_beta = pd_beta d,
     d_tas = pd_tas d, d_eas = pd_eas d, d_gamma = pd_gamma d, d_chi = pd_chi d, d_ias = pd_ias d, d_cas = pd_cas d,
     d_mach = pd_mach d, d_ground_speed = pd_ground_speed d, d_vertical_speed = pd_vertical_speed d,
     d_dynamic_pressure = pd_dynamic_pressure d, d_normal_load_factor = pd_normal_load_factor d\<rparr>"

text \<open>\<open>PyDerivedState::new\<close>: the six flow angles and speeds are zero when omitted, the others absent.\<close>

definition py_derived_new ::
  "f64 \<Rightarrow> f64 \<Rightarrow> f64 \<Rightarrow> f64 option \<Rightarrow> f64 option \<Rightarrow> f64 option \<Rightarrow> f64 option \<Rightarrow> f64 option \<Rightarrow> f64 option
   \<Rightarrow> f64 option \<Rightarrow> f64 option \<Rightarrow> f64 option \<Rightarrow> f64 option \<Rightarrow> f64 option \<Rightarrow> f64 option \<Rightarrow> f64 option \<Rightarrow> PyDerivedState" where
  "py_derived_new lat lon altitude alpha beta tas eas gamma chi ias cas mach ground_speed vertical_speed pressure load =
     \<lparr>pd_lat = lat, pd_lon = lon, pd_altitude = altitude, pd_alpha = or_default alpha f_zero, pd_beta = or_default beta f_zero,
      pd_tas = or_default tas f_zero, pd_eas = or_default eas f_zero, pd_gamma = or_default gamma f_zero,
      pd_chi = or_default chi f_zero, pd_ias = ias, pd_cas = cas, pd_mach = mach, pd_ground_speed = ground_speed,
      pd_vertical_speed = vertical_speed, pd_dynamic_pressure = pressure, pd_normal_load_factor = load\<rparr>"

record PyControlSurfaceState =
  pyc_aileron_left_rad :: "f64 option"
  pyc_aileron_right_rad :: "f64 option"
  pyc_elevator_rad :: "f64 option"
  pyc_rudder_rad :: "f64 option"
  pyc_flaps_left_ratio :: "f64 option"
  pyc_flaps_right_ratio :: "f64 option"
  pyc_spoilers_ratio :: "f64 option"

definition py_controls :: "PyControlSurfaceState \<Rightarrow> ControlSurfaceState" where
  "py_controls c = \<lparr>c_aileron_left_rad = pyc_aileron_left_rad c, c_aileron_right_rad = pyc_aileron_right_rad c,
     c_elevator_rad = pyc_elevator_rad c, c_rudder_rad = pyc_rudder_rad c, c_flaps_left_ratio = pyc_flaps_left_ratio c,
     c_flaps_right_ratio = pyc_flaps_right_ratio c, c_spoilers_ratio = pyc_spoilers_ratio c\<rparr>"

text \<open>\<open>kind\<close> is an \<open>i32\<close>.\<close>

record PyPropulsorState =
  pp_propulsor_id :: string
  pp_kind :: int
  pp_throttle_ratio :: "f64 option"
  pp_rpm :: "f64 option"
  pp_blade_pitch_rad :: "f64 option"
  pp_thrust_newton :: "f64 option"
  pp_torque_newton_meter :: "f64 option"
  pp_index :: "u32 option"

definition py_propulsor :: "PyPropulsorState \<Rightarrow> PropulsorState" where
  "py_propulsor p = \<lparr>p_propulsor_id = pp_propulsor_id p, p_kind = pp_kind p, p_throttle_ratio = pp_throttle_ratio p,
     p_rpm = pp_rpm p, p_blade_pitch_rad = pp_blade_pitch_rad p, p_thrust_newton = pp_thrust_newton p,
     p_torque_newton_meter = pp_torque_newton_meter p, p_index = pp_index p\<rparr>"

definition py_propulsor_new ::
  "string \<Rightarrow> int option \<Rightarrow> f64 option \<Rightarrow> f64 option \<Rightarrow> f64 option \<Rightarrow> f64 option \<Rightarrow> f64 option \<Rightarrow> u32 option \<Rightarrow> PyPropulsorState" where
  "py_propulsor_new pid kind throttle rpm pitch thrust torque index =
     \<lparr>pp_propulsor_id = pid, pp_kind = or_default kind 0, pp_throttle_ratio = throttle, pp_rpm = rpm,
      pp_blade_pitch_rad = pitch, pp_thrust_newton = thrust, pp_torque_newton_meter = torque, pp_index = index\<rparr>"

section \<open>Telemetry schemas\<close>

datatype PyTelemetryValueType = PyF64 | PyI64 | PyBool

text \<open>\<open>pb::TelemetryValueType::from(t) as i32\<close>.\<close>

definition py_value_type :: "PyTelemetryValueType \<Rightarrow> int" where
  "py_value_type t = (case t of PyF64 \<Rightarrow> 1 | PyI64 \<Rightarrow> 2 | PyBool \<Rightarrow> 3)"

record PyTelemetryField =
  pf_field_id :: string
  pf_label :: string
  pf_group :: string
  pf_unit :: string
  pf_description :: string
  pf_value_type :: PyTelemetryValueType

definition py_field :: "PyTelemetryField \<Rightarrow> TelemetryField" where
  "py_field f = \<lparr>tf_field_id = pf_field_id f, tf_label = pf_label f, tf_group = pf_group f, tf_unit = pf_unit f,
     tf_description = pf_description f, tf_value_type = py_value_type (pf_value_type f)\<rparr>"

definition py_field_new ::
  "string \<Rightarrow> string option \<Rightarrow> string option \<Rightarrow> string option \<Rightarrow> string option \<Rightarrow> PyTelemetryValueType option \<Rightarrow> PyTelemetryField" where
  "py_field_new fid label grp unit description value_type =
     \<lparr>pf_field_id = fid, pf_label = or_default label [], pf_group = or_default grp [], pf_unit = or_default unit [],
      pf_description = or_default description [], pf_value_type = or_default value_type PyF64\<rparr>"

record PyTelemetryStreamSchema =
  ps_stream_id :: string
  ps_name :: string
  ps_nominal_rate_hz :: "f64 option"
  ps_fields :: "PyTelemetryField list"

definition py_schema :: "PyTelemetryStreamSchema \<Rightarrow> TelemetryStreamSchema" where
  "py_schema c = \<lparr>ts_stream_id = ps_stream_id c, ts_name = ps_name c, ts_nominal_rate_hz = ps_nominal_rate_hz c,
     ts_fields = map py_field (ps_fields c)\<rparr>"

definition py_schema_new :: "string \<Rightarrow> PyTelemetryField list \<Rightarrow> string option \<Rightarrow> f64 option \<Rightarrow> PyTelemetryStreamSchema" where
  "py_schema_new sid fs name rate =
     \<lparr>ps_stream_id = sid, ps_name = or_default name [], ps_nominal_rate_hz = rate, ps_fields = fs\<rparr>"

section \<open>The state\<close>

record PyAircraftState =
  pa_position :: PyVector3
  pa_velocity :: PyVector3
  pa_attitude :: PyAttitude
  pa_angular_velocity :: PyVector3
  pa_derived :: "PyDerivedState option"
  pa_control_surfaces :: "PyControlSurfaceState option"
  pa_linear_acceleration_body :: "PyVector3 option"
  pa_propulsors :: "PyPropulsorState list"

definition py_state :: "PyAircraftState \<Rightarrow> AircraftState" where
  "py_state s = \<lparr>a_position = Some (py_vector (pa_position s)), a_velocity = Some (py_vector (pa_velocity s)),
     a_attitude = Some (py_quaternion (pa_attitude s)), a_angular_velocity = Some (py_vector (pa_angular_velocity s)),
     a_derived = map_option py_derived (pa_derived s), a_control_surfaces = map_option py_controls (pa_control_surfaces s),
     a_linear_acceleration_body = map_option py_vector (pa_linear_acceleration_body s),
     a_propulsors = map py_propulsor (pa_propulsors s)\<rparr>"

definition py_state_default :: PyAircraftState where
  "py_state_default = \<lparr>pa_position = py_vector_zero, pa_velocity = py_vector_zero, pa_attitude = py_attitude_identity,
     pa_angular_velocity = py_vector_zero, pa_derived = None, pa_control_surfaces = None,
     pa_linear_acceleration_body = None, pa_propulsors = []\<rparr>"

definition py_state_new ::
  "PyVector3 option \<Rightarrow> PyVector3 option \<Rightarrow> PyAttitude option \<Rightarrow> PyVector3 option \<Rightarrow> PyDerivedState option
   \<Rightarrow> PyControlSurfaceState option \<Rightarrow> PyVector3 option \<Rightarrow> PyPropulsorState list option \<Rightarrow> PyAircraftState" where
  "py_state_new position velocity attitude angular derived controls acceleration propulsors =
     \<lparr>pa_position = or_default position py_vector_zero, pa_velocity = or_default velocity py_vector_zero,
      pa_attitude = or_default attitude py_attitude_identity, pa_angular_velocity = or_default angular py_vector_zero,
      pa_derived = derived, pa_control_surfaces = controls, pa_linear_acceleration_body = acceleration,
      pa_propulsors = or_default propulsors []\<rparr>"

end
