(* ===== verification/Python_Client.thy ===== *)
theory Python_Client
  imports Python_Protocol Aircraft_Client
begin

text \<open>
  The client of the Python bindings (\<open>bindings/python/src/client.rs\<close>): it checks its arguments, keeps
  the registered field types and the sequence number of every stream, and drives the producer client
  of the core. Python values are opaque; the conversions of PyO3 and the formatting of its messages
  are a parameter. A Python sequence answers each access with a value or an exception.
\<close>

section \<open>The runtime of Python\<close>

record 'v PyApi =
  px_f64 :: "'v \<Rightarrow> f64 option"
  px_i64 :: "'v \<Rightarrow> int option"
  px_bool :: "'v \<Rightarrow> PyError + bool"
  px_is_bool :: "'v \<Rightarrow> bool"
  px_debug :: "string \<Rightarrow> string"
  px_number :: "nat \<Rightarrow> string"
  px_transport_text :: "TransportError \<Rightarrow> string"
  px_uuid_text :: "uuid \<Rightarrow> string"

record 'v PySequence =
  sq_len :: "PyError + nat"
  sq_item :: "nat \<Rightarrow> PyError + 'v"

definition validate_timestamp :: "string \<Rightarrow> f64 option \<Rightarrow> PyError + unit" where
  "validate_timestamp name timestamp =
     (if (case timestamp of None \<Rightarrow> False | Some t \<Rightarrow> \<not> is_finite t)
      then Inl (PyValueError (name @ '' must be finite'')) else Inr ())"

section \<open>Construction\<close>

record PyClient =
  pc_addr :: string
  pc_client_uuid :: string
  pc_aircraft_uuid :: string
  pc_inner :: "AircraftClient option"
  pc_fields :: "string \<Rightarrow> PyTelemetryValueType list option"
  pc_sequences :: "string \<Rightarrow> u64 option"
  pc_closed :: bool

text \<open>The loop over the fields of a schema, with the identifiers seen before.\<close>

fun check_fields :: "'v PyApi \<Rightarrow> string \<Rightarrow> string list \<Rightarrow> PyTelemetryField list \<Rightarrow> PyError + unit" where
  "check_fields api stream seen [] = Inr ()"
| "check_fields api stream seen (f # fs) =
     (if trim_is_empty (pf_field_id f) \<or> pf_field_id f \<in> set seen
      then Inl (PyValueError (''telemetry field id must be non-empty and unique in stream '' @ stream @ '': ''
                @ px_debug api (pf_field_id f)))
      else check_fields api stream (pf_field_id f # seen) fs)"

text \<open>The loop over the schemas, which registers the field types of each stream.\<close>

fun register_schemas ::
  "'v PyApi \<Rightarrow> (string \<Rightarrow> PyTelemetryValueType list option) \<Rightarrow> PyTelemetryStreamSchema list
   \<Rightarrow> PyError + (string \<Rightarrow> PyTelemetryValueType list option)" where
  "register_schemas api known [] = Inr known"
| "register_schemas api known (c # cs) =
     (if trim_is_empty (ps_stream_id c) \<or> known (ps_stream_id c) \<noteq> None
      then Inl (PyValueError (''telemetry stream id must be non-empty and unique: '' @ px_debug api (ps_stream_id c)))
      else if (case ps_nominal_rate_hz c of None \<Rightarrow> False | Some rate \<Rightarrow> \<not> is_finite rate \<or> fle rate f_zero)
      then Inl (PyValueError (''telemetry stream '' @ ps_stream_id c @ '' has an invalid nominal rate''))
      else case check_fields api (ps_stream_id c) [] (ps_fields c) of
        Inl e \<Rightarrow> Inl e
      | Inr _ \<Rightarrow> register_schemas api (known(ps_stream_id c \<mapsto> map pf_value_type (ps_fields c))) cs)"

text \<open>The arguments of \<open>PyClient::new\<close>; an omitted heartbeat interval is one second.\<close>

record NewArgs =
  na_addr :: string
  na_aircraft_name :: string
  na_initial_state :: "PyAircraftState option"
  na_toml_config :: "string option"
  na_heartbeat_interval :: "f64 option"
  na_telemetry_schemas :: "PyTelemetryStreamSchema list option"
  na_spawn_timestamp :: "f64 option"

definition spawn_info :: "NewArgs \<Rightarrow> AircraftSpawnInfo" where
  "spawn_info x = \<lparr>sp_name = na_aircraft_name x, sp_toml_config = or_default (na_toml_config x) [],
     sp_initial_state = Some (py_state (or_default (na_initial_state x) py_state_default)),
     sp_telemetry_schemas = map py_schema (or_default (na_telemetry_schemas x) [])\<rparr>"

text \<open>
  \<open>runtime\<close> is the result of creating the Tokio runtime; the other arguments are those of
  \<open>aircraft_connect\<close>. The second result is what was sent.
\<close>

definition py_client_new ::
  "'v PyApi \<Rightarrow> string + unit \<Rightarrow> (string \<Rightarrow> string + SocketAddr) \<Rightarrow> (u8 list \<Rightarrow> Message option) \<Rightarrow> uuid \<Rightarrow> uuid
   \<Rightarrow> clocks \<Rightarrow> (clocks \<times> u8 list) list \<Rightarrow> NewArgs \<Rightarrow> (PyError + PyClient) \<times> Message list" where
  "py_client_new api runtime parse dec u a now ds x =
     (let interval = or_default (na_heartbeat_interval x) f_one in
      case validate_timestamp ''spawn_timestamp'' (na_spawn_timestamp x) of
        Inl e \<Rightarrow> (Inl e, [])
      | Inr _ \<Rightarrow>
          if \<not> is_finite interval \<or> fle interval f_zero
          then (Inl (PyValueError ''heartbeat_interval_secs must be finite and greater than zero''), [])
          else case runtime of
            Inl e \<Rightarrow> (Inl (PyRuntimeError e), [])
          | Inr _ \<Rightarrow>
             (case register_schemas api Map.empty (or_default (na_telemetry_schemas x) []) of
                Inl e \<Rightarrow> (Inl e, [])
              | Inr known \<Rightarrow>
                 (case aircraft_connect parse dec (na_addr x) u a (spawn_info x) (na_spawn_timestamp x) interval now ds of
                    (Inl e, ms) \<Rightarrow> (Inl (PyConnectionError (px_transport_text api e)), ms)
                  | (Inr c, ms) \<Rightarrow>
                      (Inr \<lparr>pc_addr = na_addr x, pc_client_uuid = px_uuid_text api (client_uuid c),
                            pc_aircraft_uuid = px_uuid_text api (aircraft_uuid c), pc_inner = Some c,
                            pc_fields = known, pc_sequences = Map.empty, pc_closed = False\<rparr>, ms))))"

section \<open>Operations\<close>

definition py_ensure_open :: "PyClient \<Rightarrow> PyError + unit" where
  "py_ensure_open c = (if pc_closed c then Inl (PyConnectionError ''client is closed'') else Inr ())"

text \<open>A call of the inner client with its error as a Python exception.\<close>

definition on_inner ::
  "'v PyApi \<Rightarrow> (AircraftClient \<Rightarrow> (TransportError + unit) \<times> AircraftClient) \<Rightarrow> PyClient \<Rightarrow> (PyError + unit) \<times> PyClient" where
  "on_inner api f c =
     (case pc_inner c of
        None \<Rightarrow> (Inl (PyConnectionError ''client is closed''), c)
      | Some i \<Rightarrow>
         (case f i of
            (Inl e, i1) \<Rightarrow> (Inl (PyConnectionError (px_transport_text api e)), c\<lparr>pc_inner := Some i1\<rparr>)
          | (Inr _, i1) \<Rightarrow> (Inr (), c\<lparr>pc_inner := Some i1\<rparr>)))"

text \<open>What the methods check first.\<close>

definition checked :: "f64 option \<Rightarrow> (PyClient \<Rightarrow> (PyError + unit) \<times> PyClient) \<Rightarrow> PyClient \<Rightarrow> (PyError + unit) \<times> PyClient" where
  "checked timestamp f c =
     (case py_ensure_open c of
        Inl e \<Rightarrow> (Inl e, c)
      | Inr _ \<Rightarrow> (case validate_timestamp ''timestamp'' timestamp of Inl e \<Rightarrow> (Inl e, c) | Inr _ \<Rightarrow> f c))"

definition py_update_state ::
  "'v PyApi \<Rightarrow> PyAircraftState \<Rightarrow> f64 option \<Rightarrow> PyClient \<Rightarrow> (PyError + unit) \<times> PyClient" where
  "py_update_state api st timestamp = checked timestamp (on_inner api (update_state (py_state st) timestamp))"

definition py_create_event :: "'v PyApi \<Rightarrow> string \<Rightarrow> f64 option \<Rightarrow> PyClient \<Rightarrow> (PyError + unit) \<times> PyClient" where
  "py_create_event api name timestamp = checked timestamp (on_inner api (create_event name timestamp))"

definition py_despawn :: "'v PyApi \<Rightarrow> string option \<Rightarrow> f64 option \<Rightarrow> PyClient \<Rightarrow> (PyError + unit) \<times> PyClient" where
  "py_despawn api reason timestamp = checked timestamp (on_inner api (client_despawn reason timestamp))"

definition telemetry_value_from_python ::
  "'v PyApi \<Rightarrow> 'v \<Rightarrow> PyTelemetryValueType \<Rightarrow> nat \<Rightarrow> PyError + TelemetryValue" where
  "telemetry_value_from_python api v t index =
     (let wrong = (\<lambda>what. Inl (PyTypeError (''telemetry value '' @ px_number api index @ '' must be '' @ what)));
          right = (\<lambda>k. Inr \<lparr>tv_kind = Some k\<rparr>)
      in case t of
           PyF64 \<Rightarrow> (case px_f64 api v of None \<Rightarrow> wrong ''float-compatible'' | Some x \<Rightarrow> right (F64Value x))
         | PyI64 \<Rightarrow>
             if px_is_bool api v then wrong ''int, not bool''
             else (case px_i64 api v of None \<Rightarrow> wrong ''int'' | Some x \<Rightarrow> right (I64Value x))
         | PyBool \<Rightarrow>
             if \<not> px_is_bool api v then wrong ''bool''
             else (case px_bool api v of Inl e \<Rightarrow> Inl e | Inr x \<Rightarrow> right (BoolValue x)))"

fun telemetry_values ::
  "'v PyApi \<Rightarrow> 'v PySequence \<Rightarrow> nat \<Rightarrow> PyTelemetryValueType list \<Rightarrow> PyError + TelemetryValue list" where
  "telemetry_values api vs index [] = Inr []"
| "telemetry_values api vs index (t # ts) =
     (case sq_item vs index of
        Inl e \<Rightarrow> Inl e
      | Inr v \<Rightarrow>
         (case telemetry_value_from_python api v t index of
            Inl e \<Rightarrow> Inl e
          | Inr x \<Rightarrow> (case telemetry_values api vs (index + 1) ts of Inl e \<Rightarrow> Inl e | Inr xs \<Rightarrow> Inr (x # xs))))"

definition py_publish_telemetry ::
  "'v PyApi \<Rightarrow> string \<Rightarrow> 'v PySequence \<Rightarrow> f64 option \<Rightarrow> PyClient \<Rightarrow> (PyError + unit) \<times> PyClient" where
  "py_publish_telemetry api stream vs timestamp = checked timestamp (\<lambda>c.
     case pc_fields c stream of
       None \<Rightarrow> (Inl (PyKeyError (''unknown telemetry stream: '' @ stream)), c)
     | Some types \<Rightarrow>
        (case sq_len vs of
           Inl e \<Rightarrow> (Inl e, c)
         | Inr n \<Rightarrow>
             if n \<noteq> length types
             then (Inl (PyValueError (''telemetry stream '' @ stream @ '' expects '' @ px_number api (length types)
                     @ '' values, got '' @ px_number api n)), c)
             else case telemetry_values api vs 0 types of
               Inl e \<Rightarrow> (Inl e, c)
             | Inr values \<Rightarrow>
                (let sequence = saturating_add (or_default (pc_sequences c stream) 0) 1;
                     frame = \<lparr>fr_stream_id = stream, fr_sequence = sequence, fr_values = values\<rparr>
                 in on_inner api (publish_telemetry frame timestamp)
                      (c\<lparr>pc_sequences := (pc_sequences c)(stream \<mapsto> sequence)\<rparr>))))"

text \<open>
  \<open>close\<close> up to its first await, and after the tasks have ended. The core's \<open>close\<close> returns no error.
  The methods are exclusive, so nothing but the tasks runs in between.
\<close>

definition py_close_begin :: "string + unit \<Rightarrow> PyClient \<Rightarrow> (PyError + unit) \<times> PyClient" where
  "py_close_begin runtime c =
     (if pc_closed c then (Inr (), c)
      else case runtime of
        Inl e \<Rightarrow> (Inl (PyRuntimeError e), c)
      | Inr _ \<Rightarrow> (Inr (), c\<lparr>pc_inner := map_option close_begin (pc_inner c)\<rparr>))"

definition py_close_end :: "PyClient \<Rightarrow> PyClient" where
  "py_close_end c = c\<lparr>pc_inner := None, pc_closed := True\<rparr>"

end
