(* ===== verification/Python_Properties.thy ===== *)
theory Python_Properties
  imports Python_Client Aircraft_Client_Properties
begin

text \<open>
  What the Python client adds to the producer client: over any run, its calls are calls of the core's
  client, and every telemetry frame that is accepted conforms to the registered schemas, is accepted
  by a store that has seen the spawn, and carries increasing sequence numbers.
\<close>

section \<open>Runs\<close>

definition queued :: "PyClient \<Rightarrow> Operation list" where
  "queued c = (case pc_inner c of None \<Rightarrow> [] | Some i \<Rightarrow> op_queue i)"

inductive py_call :: "'v PyApi \<Rightarrow> PyClient \<Rightarrow> (PyError + unit) \<times> PyClient \<Rightarrow> bool" for api c where
  update: "py_call api c (py_update_state api st t c)"
| event: "py_call api c (py_create_event api n t c)"
| telemetry: "py_call api c (py_publish_telemetry api stream vs t c)"
| despawn: "py_call api c (py_despawn api r t c)"

text \<open>
  A run from a client: the operations its calls appended to the queue, whether a socket send failed,
  and how far it is. Calls may fail. The tasks go on between the calls and while the client closes.
\<close>

inductive py_run :: "'v PyApi \<Rightarrow> PyClient \<Rightarrow> Operation list \<Rightarrow> bool \<Rightarrow> phase \<Rightarrow> PyClient \<Rightarrow> bool" for api c0 where
  start: "py_run api c0 [] False Open c0"
| call: "py_run api c0 acc lossy ph c \<Longrightarrow> ph \<noteq> Closing \<Longrightarrow> py_call api c (r, c')
    \<Longrightarrow> py_run api c0 (acc @ drop (length (queued c)) (queued c')) lossy ph c'"
| task: "py_run api c0 acc lossy ph c \<Longrightarrow> pc_inner c = Some i \<Longrightarrow> task_step i i'
    \<Longrightarrow> py_run api c0 acc lossy ph (c\<lparr>pc_inner := Some i'\<rparr>)"
| fail: "py_run api c0 acc lossy ph c \<Longrightarrow> pc_inner c = Some i \<Longrightarrow> send_fails i i'
    \<Longrightarrow> py_run api c0 acc True ph (c\<lparr>pc_inner := Some i'\<rparr>)"
| close: "py_run api c0 acc lossy Open c \<Longrightarrow> pc_inner c = Some i \<Longrightarrow> py_close_begin runtime c = (Inr (), c')
    \<Longrightarrow> py_run api c0 (acc @ (if despawned i then [] else [DespawnOp (Some ''client_close'') None])) lossy Closing c'"
| close_end: "py_run api c0 acc lossy Closing c \<Longrightarrow> pc_inner c = Some i \<Longrightarrow> tasks_done i
    \<Longrightarrow> py_run api c0 acc lossy Dropped (py_close_end c)"

definition frames_of :: "string \<Rightarrow> Operation list \<Rightarrow> u64 list" where
  "frames_of stream ops = List.map_filter (\<lambda>op. case op of
       PublishTelemetry f _ \<Rightarrow> if fr_stream_id f = stream then Some (fr_sequence f) else None
     | _ \<Rightarrow> None) ops"

lemma frames_of_simps [simp]:
  "frames_of s [] = []" "frames_of s (xs @ ys) = frames_of s xs @ frames_of s ys"
  "frames_of s [UpdateState st t] = []" "frames_of s [CreateEvent n t] = []" "frames_of s [DespawnOp r t] = []"
  "frames_of s [PublishTelemetry f t] = (if fr_stream_id f = s then [fr_sequence f] else [])"
  by (simp_all add: frames_of_def List.map_filter_def)

section \<open>Schemas\<close>

fun value_of_type :: "PyTelemetryValueType \<Rightarrow> TelemetryValue \<Rightarrow> bool" where
  "value_of_type PyF64 v = (\<exists>x. tv_kind v = Some (F64Value x))"
| "value_of_type PyI64 v = (\<exists>x. tv_kind v = Some (I64Value x))"
| "value_of_type PyBool v = (\<exists>x. tv_kind v = Some (BoolValue x))"

lemma value_of_type_matches: "value_of_type (pf_value_type f) v \<Longrightarrow> value_matches (py_field f) v"
  by (cases "pf_value_type f") (auto simp: value_matches_def py_field_def py_value_type_def value_type_of_def)

lemma telemetry_value_typed: "telemetry_value_from_python api v t index = Inr x \<Longrightarrow> value_of_type t x"
  by (cases t) (auto simp: telemetry_value_from_python_def Let_def split: option.splits if_splits sum.splits)

lemma telemetry_values_typed: "telemetry_values api vs index ts = Inr xs \<Longrightarrow> list_all2 value_of_type ts xs"
  by (induction ts arbitrary: index xs) (auto split: sum.splits dest: telemetry_value_typed)

lemma check_fields_valid: "check_fields api stream seen fs = Inr () \<Longrightarrow> validate_fields stream seen (map py_field fs) = Inr ()"
proof (induction fs arbitrary: seen)
  case (Cons f fs)
  have "value_type_of (tf_value_type (py_field f)) \<notin> {None, Some TVT_Unspecified}"
    by (cases "pf_value_type f") (auto simp: py_field_def py_value_type_def value_type_of_def)
  moreover have "tf_field_id (py_field f) = pf_field_id f" by (simp add: py_field_def)
  ultimately show ?case using Cons by (auto split: if_splits option.splits)
qed simp

lemma py_schema_sel [simp]:
  "ts_stream_id (py_schema c) = ps_stream_id c" "ts_nominal_rate_hz (py_schema c) = ps_nominal_rate_hz c"
  "ts_fields (py_schema c) = map py_field (ps_fields c)"
  by (simp_all add: py_schema_def)

lemma register_schemas_valid:
  "register_schemas api known cs = Inr m \<Longrightarrow> set seen = dom known \<Longrightarrow> validate_schemas_from seen (map py_schema cs) = Inr ()"
proof (induction cs arbitrary: known seen)
  case (Cons c cs)
  from Cons.prems(1) have r: "register_schemas api (known(ps_stream_id c \<mapsto> map pf_value_type (ps_fields c))) cs = Inr m"
    "check_fields api (ps_stream_id c) [] (ps_fields c) = Inr ()" "\<not> trim_is_empty (ps_stream_id c)" "known (ps_stream_id c) = None"
    "\<not> (case ps_nominal_rate_hz c of None \<Rightarrow> False | Some rate \<Rightarrow> \<not> is_finite rate \<or> fle rate f_zero)"
    by (simp_all split: if_splits sum.splits)
  have "validate_schemas_from (ps_stream_id c # seen) (map py_schema cs) = Inr ()"
    by (rule Cons.IH[OF r(1)]) (use Cons.prems(2) in auto)
  moreover have "ps_stream_id c \<notin> set seen" using r(4) Cons.prems(2) by auto
  ultimately show ?case using r(3,5) check_fields_valid[OF r(2)] by simp
qed simp

lemma register_schemas_lookup:
  "register_schemas api known cs = Inr m \<Longrightarrow>
     m sid = (case find (\<lambda>c. ps_stream_id c = sid) cs of Some c \<Rightarrow> Some (map pf_value_type (ps_fields c)) | None \<Rightarrow> known sid)
     \<and> (known sid \<noteq> None \<longrightarrow> find (\<lambda>c. ps_stream_id c = sid) cs = None)"
proof (induction cs arbitrary: known)
  case (Cons c cs)
  from Cons.prems have r: "register_schemas api (known(ps_stream_id c \<mapsto> map pf_value_type (ps_fields c))) cs = Inr m"
    "known (ps_stream_id c) = None"
    by (simp_all split: if_splits sum.splits)
  show ?case using Cons.IH[OF r(1)] r(2) by (auto split: if_splits option.splits)
qed simp

lemma find_py_schema: "find (\<lambda>c. ts_stream_id c = sid) (map py_schema cs) = map_option py_schema (find (\<lambda>c. ps_stream_id c = sid) cs)"
  by (induction cs) simp_all

lemma registered_frame_valid:
  assumes "register_schemas api Map.empty cs = Inr m" "m (fr_stream_id f) = Some ts" "list_all2 value_of_type ts (fr_values f)"
  shows "validate_telemetry_frame (map py_schema cs) f = Inr ()"
proof -
  obtain c where c: "find (\<lambda>c. ps_stream_id c = fr_stream_id f) cs = Some c" "ts = map pf_value_type (ps_fields c)"
    using register_schemas_lookup[OF assms(1), of "fr_stream_id f"] assms(2) by (auto split: option.splits)
  have l: "list_all2 value_matches (map py_field (ps_fields c)) (fr_values f)"
    using assms(3) unfolding c(2) by (auto simp: list_all2_conv_all_nth intro: value_of_type_matches)
  then have "find (\<lambda>(f, v). \<not> value_matches f v) (zip (map py_field (ps_fields c)) (fr_values f)) = None"
    by (auto simp: find_None_iff list_all2_iff)
  moreover have "length (fr_values f) = length (ps_fields c)" using list_all2_lengthD[OF l] by simp
  ultimately show ?thesis by (simp add: validate_telemetry_frame_def find_py_schema c(1))
qed

section \<open>The invariant of a run\<close>

definition sequences_ok :: "(string \<Rightarrow> u64 option) \<Rightarrow> Operation list \<Rightarrow> bool" where
  "sequences_ok seqs acc \<longleftrightarrow> (\<forall>s. (\<forall>n \<in> set (frames_of s acc). n \<le> or_default (seqs s) 0)
     \<and> sorted_wrt (\<lambda>a b. a < b \<or> a = - 1) (frames_of s acc))"

definition frames_ok :: "(string \<Rightarrow> PyTelemetryValueType list option) \<Rightarrow> Operation list \<Rightarrow> bool" where
  "frames_ok m acc \<longleftrightarrow> (\<forall>f t. PublishTelemetry f t \<in> set acc
     \<longrightarrow> (\<exists>ts. m (fr_stream_id f) = Some ts \<and> list_all2 value_of_type ts (fr_values f)))"

definition py_inv ::
  "(string \<Rightarrow> PyTelemetryValueType list option) \<Rightarrow> AircraftClient \<Rightarrow> Operation list \<Rightarrow> bool \<Rightarrow> phase \<Rightarrow> PyClient \<Rightarrow> bool" where
  "py_inv m i0 acc lossy ph c \<longleftrightarrow> pc_fields c = m \<and> sequences_ok (pc_sequences c) acc \<and> frames_ok m acc
     \<and> (case pc_inner c of
          Some i \<Rightarrow> client_run i0 acc lossy ph i \<and> \<not> pc_closed c \<and> ph \<noteq> Dropped
        | None \<Rightarrow> ph = Dropped \<and> pc_closed c)"

lemma frames_ok_append [simp]: "frames_ok m (xs @ ys) \<longleftrightarrow> frames_ok m xs \<and> frames_ok m ys"
  by (auto simp: frames_ok_def)

lemma saturating_step: "a \<le> saturating_add a 1 \<and> (a < saturating_add a 1 \<or> a = - 1)"
proof (cases "unat a + 1 < 2 ^ 64")
  case True
  then have "unat (a + 1) = unat a + 1" by (simp add: unat_word_ariths)
  then show ?thesis using True by (simp add: saturating_add_def word_le_nat_alt word_less_nat_alt)
next
  case False
  moreover have "unat a < 2 ^ 64" using unsigned_less[of a] by simp
  ultimately have "unat a = 2 ^ 64 - 1" by simp
  moreover have "unat (- 1 :: u64) = 2 ^ 64 - 1" by (simp add: unsigned_minus_1_eq_mask mask_eq_exp_minus_1)
  ultimately have "a = - 1" by (simp add: word_unat_eq_iff)
  then show ?thesis using False by (simp add: saturating_add_def)
qed

lemma sequences_other: "sequences_ok seqs acc \<Longrightarrow> (\<And>s. frames_of s new = []) \<Longrightarrow> sequences_ok seqs (acc @ new)"
  by (simp add: sequences_ok_def)

lemma sequences_skip:
  assumes "sequences_ok seqs acc"
  shows "sequences_ok (seqs(s \<mapsto> saturating_add (or_default (seqs s) 0) 1)) acc"
  using assms saturating_step[of "or_default (seqs s) 0"] unfolding sequences_ok_def
  by (auto simp: or_default_def intro: order_trans)

lemma sequences_frame:
  assumes "sequences_ok seqs acc" "fr_stream_id f = s" "fr_sequence f = saturating_add (or_default (seqs s) 0) 1"
  shows "sequences_ok (seqs(s \<mapsto> fr_sequence f)) (acc @ [PublishTelemetry f t])"
proof -
  let ?n = "or_default (seqs s) 0"
  have new: "n < fr_sequence f \<or> n = - 1" if "n \<in> set (frames_of s acc)" for n
  proof (cases "n = - 1")
    case False
    have "n \<le> ?n" using assms(1) that by (simp add: sequences_ok_def)
    moreover have "n < - 1" using False by (simp add: word_order.not_eq_extremum)
    ultimately show ?thesis using saturating_step[of ?n] assms(3) by auto
  qed simp
  have old: "sequences_ok (seqs(s \<mapsto> fr_sequence f)) acc" unfolding assms(3) by (rule sequences_skip[OF assms(1)])
  show ?thesis
    unfolding sequences_ok_def
  proof (intro allI conjI)
    fix z
    show "\<forall>n \<in> set (frames_of z (acc @ [PublishTelemetry f t])). n \<le> or_default ((seqs(s \<mapsto> fr_sequence f)) z) 0"
      using old[unfolded sequences_ok_def, rule_format, of z] assms(2) by (auto simp: or_default_def)
    show "sorted_wrt (\<lambda>a b. a < b \<or> a = - 1) (frames_of z (acc @ [PublishTelemetry f t]))"
      using old assms(2) new by (auto simp: sequences_ok_def sorted_wrt_append)
  qed
qed

subsection \<open>Calls\<close>

lemma send_queue:
  "checked_operation t op i = (r, i') \<Longrightarrow> i' = i \<and> r \<noteq> Inr () \<or> r = Inr () \<and> op_queue i' = op_queue i @ [op]"
  unfolding checked_operation_def send_operation_def by (auto split: sum.splits if_splits)

lemma despawn_queue:
  "client_despawn reason t i = (r, i') \<Longrightarrow>
     i' = i \<and> r \<noteq> Inr () \<or> r = Inr () \<and> op_queue i' = op_queue i @ (if despawned i then [] else [DespawnOp reason t])"
  unfolding client_despawn_def send_operation_def by (auto split: sum.splits if_splits)

lemma on_inner_result:
  "pc_inner c = Some i \<Longrightarrow> f i = (r0, i') \<Longrightarrow> on_inner api f c = (r, c') \<Longrightarrow> c' = c\<lparr>pc_inner := Some i'\<rparr>"
  by (auto simp: on_inner_def split: sum.splits)

lemma checked_cases:
  "checked t f c = (r, c') \<Longrightarrow> c' = c \<or> f c = (r, c') \<and> \<not> pc_closed c"
  by (auto simp: checked_def py_ensure_open_def split: sum.splits if_splits)

lemma same_client: "py_inv m i0 acc lossy ph c \<Longrightarrow> py_inv m i0 (acc @ drop (length (queued c)) (queued c)) lossy ph c"
  by simp

text \<open>An operation without telemetry that appends \<open>new\<close> to the queue when the core accepts it.\<close>

lemma simple_call:
  assumes inv: "py_inv m i0 acc lossy ph c" and c: "checked t (on_inner api f) c = (r, c')"
    and step: "\<And>i r0 i'. f i = (r0, i') \<Longrightarrow> i' = i \<and> r0 \<noteq> Inr () \<or> r0 = Inr () \<and> op_queue i' = op_queue i @ new i"
    and run: "\<And>i i'. client_run i0 acc lossy ph i \<Longrightarrow> ph \<noteq> Dropped \<Longrightarrow> f i = (Inr (), i') \<Longrightarrow> client_run i0 (acc @ new i) lossy ph i'"
    and new: "\<And>i s. frames_of s (new i) = []" "\<And>i. frames_ok m (new i)"
  shows "py_inv m i0 (acc @ drop (length (queued c)) (queued c')) lossy ph c'"
proof (cases "c' = c")
  case True
  then show ?thesis using same_client[OF inv] by simp
next
  case False
  with checked_cases[OF c] have o: "on_inner api f c = (r, c')" "\<not> pc_closed c" by auto
  with inv obtain i where i: "pc_inner c = Some i" "client_run i0 acc lossy ph i" "ph \<noteq> Dropped"
    by (auto simp: py_inv_def split: option.splits)
  obtain r0 i' where f: "f i = (r0, i')" by fastforce
  have c': "c' = c\<lparr>pc_inner := Some i'\<rparr>" by (rule on_inner_result[OF i(1) f o(1)])
  from step[OF f] show ?thesis
  proof (elim disjE conjE)
    assume "i' = i"
    with c' i(1) have "c' = c" by (intro PyClient.equality) simp_all
    with False show ?thesis by simp
  next
    assume r0: "r0 = Inr ()" and q: "op_queue i' = op_queue i @ new i"
    have "client_run i0 (acc @ new i) lossy ph i'" using run[OF i(2,3)] f r0 by simp
    then show ?thesis
      using inv i o(2) q new c' sequences_other[of "pc_sequences c" acc "new i"] by (simp add: py_inv_def queued_def)
  qed
qed

lemma telemetry_call:
  assumes inv: "py_inv m i0 acc lossy ph c" and c: "py_publish_telemetry api stream vs t c = (r, c')"
  shows "py_inv m i0 (acc @ drop (length (queued c)) (queued c')) lossy ph c'"
proof (cases "c' = c")
  case True
  then show ?thesis using same_client[OF inv] by simp
next
  case False
  from checked_cases[OF c[unfolded py_publish_telemetry_def]] False
  obtain ts xs where ts: "pc_fields c stream = Some ts" "telemetry_values api vs 0 ts = Inr xs" "\<not> pc_closed c"
    by (auto split: option.splits sum.splits if_splits)
  define f where "f = \<lparr>fr_stream_id = stream, fr_sequence = saturating_add (or_default (pc_sequences c stream) 0) 1, fr_values = xs\<rparr>"
  define c1 where "c1 = c\<lparr>pc_sequences := (pc_sequences c)(stream \<mapsto> fr_sequence f)\<rparr>"
  have o: "on_inner api (publish_telemetry f t) c1 = (r, c')"
    using checked_cases[OF c[unfolded py_publish_telemetry_def]] False ts
    by (auto simp: f_def c1_def Let_def split: option.splits sum.splits if_splits)
  from inv ts(3) obtain i where i: "pc_inner c = Some i" "client_run i0 acc lossy ph i" "ph \<noteq> Dropped"
    by (auto simp: py_inv_def split: option.splits)
  have i1: "pc_inner c1 = Some i" using i(1) by (simp add: c1_def)
  obtain r0 i' where p: "publish_telemetry f t i = (r0, i')" by fastforce
  have c': "c' = c1\<lparr>pc_inner := Some i'\<rparr>" by (rule on_inner_result[OF i1 p o])
  have s: "sequences_ok (pc_sequences c) acc" "frames_ok m acc" "pc_fields c = m" using inv by (simp_all add: py_inv_def)
  have typed: "frames_ok m [PublishTelemetry f t]"
    using telemetry_values_typed[OF ts(2)] ts(1) s(3) by (auto simp: frames_ok_def f_def)
  from send_queue[OF p[unfolded publish_telemetry_def]] show ?thesis
  proof (elim disjE conjE)
    assume "i' = i"
    then show ?thesis
      using inv i ts(3) c' sequences_skip[OF s(1), of stream] by (simp add: py_inv_def queued_def c1_def f_def)
  next
    assume r0: "r0 = Inr ()" and q: "op_queue i' = op_queue i @ [PublishTelemetry f t]"
    have "client_run i0 (acc @ [PublishTelemetry f t]) lossy ph i'"
      using client_run.telemetry[OF i(2,3)] p r0 by simp
    moreover have "sequences_ok (pc_sequences c1) (acc @ [PublishTelemetry f t])"
      using sequences_frame[OF s(1), of f stream t] by (simp add: c1_def f_def)
    ultimately show ?thesis using s i ts(3) q typed c' by (simp add: py_inv_def queued_def c1_def)
  qed
qed

lemma py_call_inv:
  assumes inv: "py_inv m i0 acc lossy ph c" and call: "py_call api c (r, c')"
  shows "py_inv m i0 (acc @ drop (length (queued c)) (queued c')) lossy ph c'"
  using call
proof cases
  case (update st t)
  show ?thesis
    by (rule simple_call[OF inv update[symmetric, unfolded py_update_state_def], where new = "\<lambda>_. [UpdateState (py_state st) t]"])
      (auto dest: send_queue simp: update_state_def frames_ok_def intro: client_run.update)
next
  case (event n t)
  show ?thesis
    by (rule simple_call[OF inv event[symmetric, unfolded py_create_event_def], where new = "\<lambda>_. [CreateEvent n t]"])
      (auto dest: send_queue simp: create_event_def frames_ok_def intro: client_run.event)
next
  case (telemetry stream vs t)
  then show ?thesis using telemetry_call[OF inv telemetry[symmetric]] by simp
next
  case (despawn reason t)
  show ?thesis
    by (rule simple_call[OF inv despawn[symmetric, unfolded py_despawn_def],
          where new = "\<lambda>i. if despawned i then [] else [DespawnOp reason t]"])
      (auto dest: despawn_queue simp: frames_ok_def split: if_splits dest: client_run.despawn)
qed

lemma py_run_inv:
  assumes "py_run api c0 acc lossy ph c" "py_inv m i0 [] False Open c0"
  shows "py_inv m i0 acc lossy ph c"
  using assms(1)
proof induction
  case start
  show ?case by (rule assms(2))
next
  case (call acc lossy ph c r c')
  then show ?case by (intro py_call_inv) auto
next
  case (task acc lossy ph c i i')
  then show ?case by (auto simp: py_inv_def intro: client_run.task)
next
  case (fail acc lossy ph c i i')
  then show ?case by (auto simp: py_inv_def intro: client_run.fail)
next
  case (close acc lossy c i runtime c')
  then have c': "c' = c\<lparr>pc_inner := Some (close_begin i)\<rparr>" "client_run i0 acc lossy Open i"
    by (auto simp: py_inv_def py_close_begin_def split: sum.splits)
  with close show ?case
    using client_run.close_open[OF c'(2)]
    by (auto simp: py_inv_def frames_ok_def intro: sequences_other)
next
  case (close_end acc lossy c i)
  then show ?case by (auto simp: py_inv_def py_close_end_def)
qed

section \<open>Acceptance by the store\<close>

text \<open>A store in which the spawn is the last word on the schemas of the aircraft.\<close>

definition announces :: "TelemetryStreamSchema list \<Rightarrow> string \<Rightarrow> TimeSeriesStore \<Rightarrow> bool" where
  "announces cs aid s \<longleftrightarrow> (\<exists>x. lookup s aid = Some x \<and> schemas_of x = cs)"

lemma announces_receipt [simp]:
  "announces cs aid (record_receipt i now s) = announces cs aid s" "announces cs aid (drop_receipt i s) = announces cs aid s"
  by (simp_all add: announces_def record_receipt_def drop_receipt_def lookup_def)

lemma announces_spawn:
  assumes "is_finite t" "validate_telemetry_schemas (sp_telemetry_schemas sp) = Inr ()"
  shows "announces (sp_telemetry_schemas sp) aid (apply_command now aid t (Spawn sp) s)"
  using assms by (simp add: apply_command_def append_event_def announces_def Let_def schemas_of_def config_of_spawn_def)

lemma announces_event: "announces cs aid s \<Longrightarrow> \<not> (\<exists>sp. e = EvSpawn sp) \<Longrightarrow> announces cs aid (append_event aid t e s)"
  by (cases e) (auto simp: append_event_def announces_def Let_def schemas_of_def series_of_def)

lemma announces_command:
  assumes "announces cs aid s" "\<nexists>sp. k = Spawn sp"
  shows "announces cs aid (apply_command now aid t k s)"
proof (cases k)
  case (StateUpdate st)
  with assms(1) show ?thesis
    by (auto simp: apply_command_def append_state_def announces_def record_receipt_def Let_def series_of_def schemas_of_def lookup_def
        put_series_def)
next
  case (TelemetryFrameCmd f)
  with assms(1) show ?thesis
    by (auto simp: apply_command_def append_telemetry_def announces_def schemas_of_def split: sum.splits option.splits)
qed (use assms announces_event in \<open>auto simp: apply_command_def\<close>)

lemma announces_commands:
  "announces cs aid s \<Longrightarrow> \<forall>(now, t, k) \<in> set steps. \<nexists>sp. k = Spawn sp
    \<Longrightarrow> announces cs aid (fold (\<lambda>(now, t, k). apply_command now aid t k) steps s)"
  by (induction steps arbitrary: s) (auto intro: announces_command)

lemma announces_accepts:
  "announces cs aid s \<Longrightarrow> is_finite t \<Longrightarrow> validate_telemetry_frame cs f = Inr ()
    \<Longrightarrow> \<exists>s'. append_telemetry aid t f s = Inr s'"
  by (auto simp: announces_def append_telemetry_def)

section \<open>The properties\<close>

lemma py_client_new_started:
  assumes "py_client_new api runtime parse dec u a now ds x = (Inr c, ms)"
  shows "\<exists>m i0. register_schemas api Map.empty (or_default (na_telemetry_schemas x) []) = Inr m
     \<and> i0 = client_started u a (spawn_info x) (na_spawn_timestamp x) (or_default (na_heartbeat_interval x) f_one)
     \<and> py_inv m i0 [] False Open c \<and> pc_inner c = Some i0"
proof -
  obtain m i where m: "register_schemas api Map.empty (or_default (na_telemetry_schemas x) []) = Inr m"
    and i: "fst (aircraft_connect parse dec (na_addr x) u a (spawn_info x) (na_spawn_timestamp x)
      (or_default (na_heartbeat_interval x) f_one) now ds) = Inr i"
    and c: "pc_inner c = Some i" "pc_fields c = m" "pc_sequences c = Map.empty" "\<not> pc_closed c"
    using assms unfolding py_client_new_def by (auto simp: Let_def split: sum.splits if_splits prod.splits)
  have "i = client_started u a (spawn_info x) (na_spawn_timestamp x) (or_default (na_heartbeat_interval x) f_one)"
    using i by (auto simp: aircraft_connect_def split: sum.splits if_splits)
  then show ?thesis
    using m c client_run.start[of i] by (auto simp: py_inv_def sequences_ok_def frames_ok_def)
qed


text \<open>C38: The Python client refines the core's: any run of it is a run of the producer client with the same
  accepted operations, so the commands on the wire are a prefix of the spawn and these operations in
  order; and once it is closed, every call fails and changes nothing.\<close>

theorem python_client_refines_core:
  assumes new: "py_client_new api runtime parse dec u a now ds x = (Inr c0, ms)"
    and run: "py_run api c0 acc lossy ph c"
  shows "case pc_inner c of
      Some i \<Rightarrow> client_run (client_started u a (spawn_info x) (na_spawn_timestamp x) (or_default (na_heartbeat_interval x) f_one))
          acc lossy ph i
        \<and> (\<exists>n. list_all2 (carries a) (take n (script (spawn_info x) (na_spawn_timestamp x) acc)) (commands (wire i)))
    | None \<Rightarrow> pc_closed c \<and> (\<forall>r c'. py_call api c (r, c') \<longrightarrow> r = Inl (PyConnectionError ''client is closed'') \<and> c' = c)"
proof -
  obtain m i0 where i0: "i0 = client_started u a (spawn_info x) (na_spawn_timestamp x) (or_default (na_heartbeat_interval x) f_one)"
    and inv0: "py_inv m i0 [] False Open c0" using py_client_new_started[OF new] by blast
  note inv = py_run_inv[OF run inv0]
  show ?thesis
  proof (cases "pc_inner c")
    case (Some i)
    with inv have r: "client_run i0 acc lossy ph i" by (simp add: py_inv_def)
    have "\<exists>n. list_all2 (carries a) (take n (script (spawn_info x) (na_spawn_timestamp x) acc)) (commands (wire i))"
      using client_run_commands[OF r[unfolded i0]] by blast
    with r Some i0 show ?thesis by simp
  next
    case None
    with inv have closed: "pc_closed c" by (simp add: py_inv_def)
    have "r = Inl (PyConnectionError ''client is closed'') \<and> c' = c" if "py_call api c (r, c')" for r c'
      using that closed
      by (cases; simp add: py_update_state_def py_create_event_def py_publish_telemetry_def py_despawn_def checked_def py_ensure_open_def)
    with closed None show ?thesis by simp
  qed
qed


section \<open>A concrete program\<close>

definition python_api :: "TelemetryKind PyApi" where
  "python_api = \<lparr>px_f64 = \<lambda>v. case v of F64Value x \<Rightarrow> Some x | _ \<Rightarrow> None, px_i64 = \<lambda>v. case v of I64Value x \<Rightarrow> Some x | _ \<Rightarrow> None,
     px_bool = \<lambda>v. case v of BoolValue x \<Rightarrow> Inr x | _ \<Rightarrow> Inl (PyTypeError []), px_is_bool = \<lambda>v. case v of BoolValue _ \<Rightarrow> True | _ \<Rightarrow> False,
     px_debug = \<lambda>s. s, px_number = \<lambda>_. [], px_transport_text = \<lambda>_. [], px_uuid_text = uuid_to_hex\<rparr>"

definition python_args :: NewArgs where
  "python_args = \<lparr>na_addr = ''127.0.0.1:18002'', na_aircraft_name = ''demo'', na_initial_state = None, na_toml_config = None,
     na_heartbeat_interval = None,
     na_telemetry_schemas = Some [py_schema_new ''air'' [py_field_new ''mach'' None None None None None] None None],
     na_spawn_timestamp = None\<rparr>"

definition python_ack :: Message where
  "python_ack = Some (EnvResponse \<lparr>rs_id = None, rs_timestamp = f_zero, rs_result = Some (RespOk (Some (Ack True)))\<rparr>)"

definition python_frame :: TelemetryFrame where
  "python_frame = \<lparr>fr_stream_id = ''air'', fr_sequence = 1, fr_values = [\<lparr>tv_kind = Some (F64Value f_one)\<rparr>]\<rparr>"

lemma demo_program:
  "\<exists>c0 ms c1. py_client_new python_api (Inr ()) (\<lambda>_. Inr (127, 18002)) (\<lambda>_. Some python_ack) [1] [2] (f_zero, 0) [((f_zero, 0), [1])] python_args = (Inr c0, ms)
     \<and> py_run python_api c0 [PublishTelemetry python_frame None] False Open c1 \<and> pc_inner c1 \<noteq> None"
proof -
  have blank: "\<not> trim_is_empty ''air''" "\<not> trim_is_empty ''mach''" by (simp_all add: trim_is_empty_def)
  have one: "is_finite f_one" "\<not> fle f_one f_zero" by (simp_all add: f64_eval)
  have ack: "establish_session (\<lambda>_. Some python_ack) 0 [((f_zero, 0), [1])] = Inr ()"
    by (simp add: establish_session_def validate_handshake_ack_def python_ack_def)
  obtain c0 ms where c0: "py_client_new python_api (Inr ()) (\<lambda>_. Inr (127, 18002)) (\<lambda>_. Some python_ack) [1] [2] (f_zero, 0)
      [((f_zero, 0), [1])] python_args = (Inr c0, ms)"
    and f: "pc_fields c0 = [''air'' \<mapsto> [PyF64]]" "pc_sequences c0 = Map.empty" "\<not> pc_closed c0"
    and i: "pc_inner c0 = Some (client_started [1] [2] (spawn_info python_args) None f_one)"
    by (simp add: py_client_new_def python_args_def or_default_def validate_timestamp_def one blank py_schema_new_def py_field_new_def
        aircraft_connect_def validate_source_timestamp_def ack)
  let ?vs = "\<lparr>sq_len = Inr 1, sq_item = \<lambda>_. Inr (F64Value f_one)\<rparr>"
  obtain c1 where c1: "py_publish_telemetry python_api ''air'' ?vs None c0 = (Inr (), c1)"
    "queued c1 = [PublishTelemetry python_frame None]" "pc_inner c1 \<noteq> None"
    using f i by (simp add: py_publish_telemetry_def checked_def py_ensure_open_def validate_timestamp_def telemetry_value_from_python_def
        python_api_def on_inner_def publish_telemetry_def checked_operation_def ensure_open_def validate_source_timestamp_def
        send_operation_def client_started_def queued_def python_frame_def or_default_def saturating_add_def Let_def)
  have "py_call python_api c0 (Inr (), c1)" using py_call.telemetry[of python_api c0 "''air''" ?vs None] c1(1) by simp
  from py_run.call[OF py_run.start _ this] c1(2) i have "py_run python_api c0 [PublishTelemetry python_frame None] False Open c1"
    by (simp add: queued_def client_started_def)
  with c0 c1(3) show ?thesis by blast
qed


lemma python_client_refines_core_witness:
  "\<exists>i. client_run (client_started [1] [2] (spawn_info python_args) None f_one) [PublishTelemetry python_frame None] False Open i"
proof -
  obtain c0 ms c1 where p: "py_client_new python_api (Inr ()) (\<lambda>_. Inr (127, 18002)) (\<lambda>_. Some python_ack) [1] [2] (f_zero, 0)
      [((f_zero, 0), [1])] python_args = (Inr c0, ms)"
    "py_run python_api c0 [PublishTelemetry python_frame None] False Open c1" "pc_inner c1 \<noteq> None" using demo_program by blast
  from python_client_refines_core[OF p(1,2)] p(3) show ?thesis by (auto simp: python_args_def or_default_def)
qed

end
