(* ===== verification/Spec2Isabelle.thy ===== *)
theory Spec2Isabelle
  imports Playback_Properties Store_Persist Publisher_Properties Cursor_Client_Properties Gate Series_Properties
    Workspace Aircraft_Client_Properties Smoothing_Properties Operations_Properties Msfs_Frame_Properties
    Ai_Registry_Properties Bridge_Loop_Properties Routes_Properties Config_Properties Web_Server_Properties
    Kernel_Properties Server_Program Godot_Frame_Properties Godot_Properties Godot_Runtime_Properties
    Python_Properties
begin

text \<open>
  A verification development of FlyRuler, the state server of a flight simulation: producers send
  aircraft states, events and telemetry over UDP, the server keeps them in a time-series store, a
  playback controller moves a cursor over the stored time, and consumers follow it, as UDP cursor
  clients, through an HTTP and WebSocket API, as the bridge that drives a flight simulator, or as a
  Godot scene; Python programs are producers.

  \<^bold>\<open>Parts and theories.\<close> Paths are relative to \<open>src/\<close>; a theory holds the definitions of its part, the
  theory of the same name with \<open>_Properties\<close> its theorems.

  \<^item> Foundations. \<open>Prelude\<close>: slice and map operations of Rust, association lists, machine integers and
    instants. \<open>F64\<close>, \<open>F64_Arith\<close>: binary64 values as their 64 bits, comparisons, \<open>total_cmp\<close>, and
    addition, multiplication, division and conversions with correct rounding, bit by bit. \<open>Proto\<close>: the
    messages of \<open>core/proto/fly_ruler.proto\<close>. \<open>Timeline\<close>: timestamp-ordered logs, a locale that the
    three logs of an aircraft interpret. \<open>Samples\<close>: inputs for witnesses.
  \<^item> The store, \<open>core/src/store.rs\<close>. \<open>Store\<close>: insertion, the message handler, the queries of one
    aircraft, validation of telemetry. \<open>Store_Global\<close>: the queries over all aircraft. \<open>Store_Persist\<close>:
    saving and loading a session. \<open>Store_Properties\<close>: the invariant of reachable stores, isolation, pages.
  \<^item> Playback, \<open>core/src/playback.rs\<close>. \<open>Playback\<close>: modes, effective cursor, every command.
  \<^item> Transport, \<open>core/src/transport/\<close> and \<open>core/src/cursor.rs\<close>. \<open>Sessions\<close>: the UDP server, its session
    tables and one step per datagram. \<open>Cursor_Codec\<close>: chunking, checksum, reassembly with expiry.
    \<open>Cursor_Publisher\<close>: one tick for all subscribers. \<open>Cursor_Client\<close>: receiving, acknowledging,
    reconnecting. \<open>Aircraft_Client\<close>: the producer client and its three tasks as an interleaving.
  \<^item> Management, \<open>core/src/management/\<close>. \<open>Gate\<close>: the ingestion gate, one step per atomic action.
    \<open>Lttb\<close>, \<open>Series\<close>: down-sampling, catalog and queries. \<open>Workspace\<close>: the document and its atomic
    file. \<open>Operations\<close>: background saves and loads. \<open>Web_Json\<close>, \<open>Web_Serde\<close>: the JSON of every answer.
    \<open>Routes\<close>: one definition per handler, the route table \<open>serve_call\<close> and the WebSocket loop.
    \<open>Web_Server\<close>: validation, the injected index page, the router and the start.
  \<^item> The kernel and the configurations. \<open>Kernel\<close> (\<open>core/src/kernel.rs\<close>): the tasks that run in the process
    and how the kernel starts, stops and feeds them. \<open>Runtime_Config\<close>, \<open>Server_Config\<close>,
    \<open>Bridge_Config\<close>: the resolution of command line, file and defaults (\<open>core/src/config.rs\<close>,
    \<open>server/src/config.rs\<close>, \<open>bindings/msfs/src/config.rs\<close>). \<open>Server_Program\<close> (\<open>server/src/main.rs\<close>).
  \<^item> The bridge, \<open>bindings/msfs/src/\<close>. \<open>Attitude\<close> (\<open>core/src/attitude.rs\<close>), \<open>Msfs_Frame\<close>, \<open>Gear\<close> and
    \<open>Bridge_Session\<close> (\<open>lib.rs\<close>), \<open>Smoothing\<close> (\<open>smoothing.rs\<close>), \<open>Simconnect\<close> and \<open>Simconnect_Client\<close>
    (\<open>simconnect.rs\<close>), \<open>Bridge_Aircraft\<close> (\<open>aircraft.rs\<close>), \<open>Ai_Registry\<close> (\<open>ai.rs\<close>), \<open>Bridge_Loop\<close>
    (\<open>bridge.rs\<close>); \<open>Aircraft_Contract\<close> holds the two contracts that lift a property of the simulator
    client to everything the bridge does with it.
  \<^item> The Godot runtime, \<open>bindings/godot/src/\<close>. \<open>Net_Addr\<close>: the string and address functions of the standard
    library it validates with. \<open>Godot_Model\<close> (\<open>model.rs\<close>): settings and frames. \<open>Godot_Profile\<close>
    (\<open>aircraft_profile.rs\<close>): aircraft profiles. \<open>Godot_Config\<close>, \<open>Godot_Runtime\<close>, \<open>Godot_Worker\<close> (\<open>lib.rs\<close>):
    the configuration resource with its files, the node of the main thread with the channels, and the
    two workers turn by turn. Theorems are in \<open>Godot_Frame_Properties\<close> (the local and the remote frame),
    \<open>Godot_Properties\<close> (files) and \<open>Godot_Runtime_Properties\<close> (operations, reconnecting).
  \<^item> The Python bindings, \<open>bindings/python/src/\<close>. \<open>Python_Protocol\<close> (\<open>protocol.rs\<close>): the data classes and
    their conversion. \<open>Python_Client\<close> (\<open>client.rs\<close>): the client over \<open>Aircraft_Client\<close>.

  \<^bold>\<open>How the code is modelled.\<close> Structs are records, enums datatypes, hash maps association lists with
  distinct keys, machine integers words, floats their bits. A fallible function returns a sum, its
  errors on the left; a panic, or a call that does not return, is \<open>None\<close>. State is passed explicitly,
  one record per lock or object; a lock held over a whole operation makes it one step. Tasks that
  interleave are step relations with reachability (gate, producer client, persistence operations,
  kernel), and timers and networks are lists of inputs.

  \<^bold>\<open>What the lemmas show.\<close> Each component has an invariant of its reachable states and the lemmas that
  every operation keeps it; the properties rest on these. Interfaces are locales, interpreted on the
  model: \<open>timeline\<close> (the logs), \<open>bounded_source\<close> (the store as playback sees it), \<open>freezing_simulator\<close>
  (an object of the simulator), \<open>driven_client\<close> and \<open>ai_client\<close> (the simulator client). Composition is
  shown from the store to the wire (deltas, pages, chunks, client) and on to the frame a remote scene shows,
  from the store to the API (pages, snapshots, sessions on disk), from the store to the calls made to the
  simulator, and from the calls of a Python program over the wire to the store.

  \<^bold>\<open>Termination and bounds.\<close> There is no fuel. Every loop is structural or has a measure: the polling of
  the two initial simulator reads by the time left to its deadline, the receive loop of the cursor
  client by its datagrams, the page loops by their lists. \<open>pump\<close> reads messages until there are none, which
  the code does not bound: it is a \<open>partial_function\<close>, and \<open>pump_returns\<close> states when it returns. Bounds of
  the code (page limits, 64 WebSocket aircraft, 32 events per batch, 1024-byte chunks, ring capacity) are
  definitions with the source's values.

  \<^bold>\<open>Parameters.\<close> Library code is an argument: quaternion and matrix functions (nalgebra, record
  \<open>Nalgebra\<close>), the protobuf, Parquet and JSON codecs (assumed to decode what they encode where a round
  trip is claimed), the native simulator interface (record \<open>SimLib\<close>, a function of all calls made so
  far, with no assumption unless a theorem names one), the file system (every operation may fail, and
  a save may stop at any point), sockets, clocks, parsers of command line and TOML (record \<open>TomlCodec\<close>),
  the Godot host (record \<open>GodotHost\<close>) and the conversions of PyO3 (record \<open>PyApi\<close>).

  \<^bold>\<open>Not modelled.\<close> Logging (\<open>core/src/logging.rs\<close>); the conversion of frames, events and profiles
  into objects and dictionaries of the Godot engine and the registration of classes with Godot and
  Python, which are glue; the web console and the scripts. Of the parts above: socket errors of the cursor client, the text of library
  errors, the order of members in a JSON object, and memory exhaustion.
\<close>

end
